(* ===== verification/Supervisor_Prelude.thy ===== *)
theory Supervisor_Prelude
  imports Main "HOL-Library.Word" "HOL-Library.List_Lexorder" "HOL-Library.Char_ord"
    "HOL-Library.Sublist"
begin

text \<open>
  What every component of the development shares: the machine-integer type synonyms, the
  outcome of a Rust call (\<open>Ok\<close>, \<open>Err\<close>, or a panic that unwinds the thread), the
  state-and-outcome operations in which the stateful methods are written, and the
  collections of proof rules for them. An operation keeps the state changes it made before
  it failed, as a Rust method with \<open>&mut self\<close> and an early \<open>?\<close> return does.
\<close>

named_theorems op_simps \<open>unfolding rules of the operation combinators\<close>
named_theorems keeps_intro \<open>introduction rules for invariants of operations\<close>

type_synonym u16 = "16 word"
type_synonym u32 = "32 word"
type_synonym u64 = "64 word"
type_synonym i32 = "32 word"

section \<open>Outcomes and operations\<close>

datatype ('a, 'e) outcome = Ok 'a | Err 'e | Panic

type_synonym ('s, 'a, 'e) op = "'s \<Rightarrow> ('a, 'e) outcome \<times> 's"

definition return_op :: "'a \<Rightarrow> ('s, 'a, 'e) op" where
  "return_op a = (\<lambda>s. (Ok a, s))"

definition fail_op :: "'e \<Rightarrow> ('s, 'a, 'e) op" where
  "fail_op e = (\<lambda>s. (Err e, s))"

definition bind_op :: "('s, 'a, 'e) op \<Rightarrow> ('a \<Rightarrow> ('s, 'b, 'e) op) \<Rightarrow> ('s, 'b, 'e) op" where
  "bind_op m f = (\<lambda>s. case m s of
      (Ok a, s') \<Rightarrow> f a s'
    | (Err e, s') \<Rightarrow> (Err e, s')
    | (Panic, s') \<Rightarrow> (Panic, s'))"

definition seq_op :: "('s, unit, 'e) op \<Rightarrow> ('s, 'b, 'e) op \<Rightarrow> ('s, 'b, 'e) op" where
  "seq_op m n = bind_op m (\<lambda>_. n)"

definition get_op :: "('s \<Rightarrow> 'a) \<Rightarrow> ('s, 'a, 'e) op" where
  "get_op f = (\<lambda>s. (Ok (f s), s))"

definition modify_op :: "('s \<Rightarrow> 's) \<Rightarrow> ('s, unit, 'e) op" where
  "modify_op f = (\<lambda>s. (Ok (), f s))"

definition guard_op :: "bool \<Rightarrow> 'e \<Rightarrow> ('s, unit, 'e) op" where
  "guard_op b e = (if b then return_op () else fail_op e)"

definition lift_sum :: "'e + 'a \<Rightarrow> ('s, 'a, 'e) op" where
  "lift_sum r = (case r of Inl e \<Rightarrow> fail_op e | Inr a \<Rightarrow> return_op a)"

definition map_outcome_err :: "('e \<Rightarrow> 'f) \<Rightarrow> ('a, 'e) outcome \<Rightarrow> ('a, 'f) outcome" where
  "map_outcome_err f r = (case r of Ok a \<Rightarrow> Ok a | Err e \<Rightarrow> Err (f e) | Panic \<Rightarrow> Panic)"

definition map_outcome :: "('a \<Rightarrow> 'b) \<Rightarrow> ('a, 'e) outcome \<Rightarrow> ('b, 'e) outcome" where
  "map_outcome f r = (case r of Ok a \<Rightarrow> Ok (f a) | Err e \<Rightarrow> Err e | Panic \<Rightarrow> Panic)"

definition map_err_op :: "('e \<Rightarrow> 'f) \<Rightarrow> ('s, 'a, 'e) op \<Rightarrow> ('s, 'a, 'f) op" where
  "map_err_op f m = (\<lambda>s. case m s of (r, s') \<Rightarrow> (map_outcome_err f r, s'))"

definition map_op :: "('a \<Rightarrow> 'b) \<Rightarrow> ('s, 'a, 'e) op \<Rightarrow> ('s, 'b, 'e) op" where
  "map_op f m = (\<lambda>s. case m s of (r, s') \<Rightarrow> (map_outcome f r, s'))"

text \<open>\<open>for x in xs { f(x)?; }\<close>: stops at the first failure, keeping the effects so far.\<close>

fun each_op :: "('x \<Rightarrow> ('s, unit, 'e) op) \<Rightarrow> 'x list \<Rightarrow> ('s, unit, 'e) op" where
  "each_op f [] = return_op ()"
| "each_op f (x # xs) = seq_op (f x) (each_op f xs)"

declare return_op_def [op_simps] fail_op_def [op_simps] bind_op_def [op_simps]
  seq_op_def [op_simps] get_op_def [op_simps] modify_op_def [op_simps]
  guard_op_def [op_simps] lift_sum_def [op_simps] map_err_op_def [op_simps]
  map_op_def [op_simps] map_outcome_err_def [op_simps] map_outcome_def [op_simps]

lemma map_outcome_err_simps [simp]:
  "map_outcome_err f (Ok a) = Ok a"
  "map_outcome_err f (Err e) = Err (f e)"
  "map_outcome_err f Panic = Panic"
  by (simp_all add: map_outcome_err_def)

lemma map_outcome_simps [simp]:
  "map_outcome f (Ok a) = Ok (f a)"
  "map_outcome f (Err e) = Err e"
  "map_outcome f Panic = Panic"
  by (simp_all add: map_outcome_def)

lemma map_outcome_err_iff [simp]:
  "map_outcome_err f r = Ok a \<longleftrightarrow> r = Ok a"
  "map_outcome_err f r = Panic \<longleftrightarrow> r = Panic"
  "map_outcome_err f r = Err e \<longleftrightarrow> (\<exists>e'. r = Err e' \<and> e = f e')"
  by (cases r; auto)+

section \<open>Invariants of operations\<close>

definition keeps :: "('s \<Rightarrow> bool) \<Rightarrow> ('s, 'a, 'e) op \<Rightarrow> bool" where
  "keeps I m \<longleftrightarrow> (\<forall>s. I s \<longrightarrow> I (snd (m s)))"

lemma keepsI: "(\<And>s. I s \<Longrightarrow> I (snd (m s))) \<Longrightarrow> keeps I m"
  by (simp add: keeps_def)

lemma keepsD: "keeps I m \<Longrightarrow> I s \<Longrightarrow> I (snd (m s))"
  by (simp add: keeps_def)

lemma keeps_run: "keeps I m \<Longrightarrow> I s \<Longrightarrow> m s = (r, s') \<Longrightarrow> I s'"
  by (metis keepsD snd_conv)

lemma keeps_return [keeps_intro]: "keeps I (return_op a)"
  by (simp add: keeps_def return_op_def)

lemma keeps_fail [keeps_intro]: "keeps I (fail_op e)"
  by (simp add: keeps_def fail_op_def)

lemma keeps_get [keeps_intro]: "keeps I (get_op f)"
  by (simp add: keeps_def get_op_def)

lemma keeps_guard [keeps_intro]: "keeps I (guard_op b e)"
  by (simp add: guard_op_def keeps_return keeps_fail)

lemma keeps_lift_sum [keeps_intro]: "keeps I (lift_sum r)"
  by (simp add: lift_sum_def keeps_return keeps_fail split: sum.split)

lemma keeps_modify: "(\<And>s. I s \<Longrightarrow> I (f s)) \<Longrightarrow> keeps I (modify_op f)"
  by (simp add: keeps_def modify_op_def)

lemma keeps_bind [keeps_intro]:
  assumes "keeps I m" and "\<And>a. keeps I (f a)"
  shows "keeps I (bind_op m f)"
proof (rule keepsI)
  fix s assume "I s"
  with assms(1) have "I (snd (m s))" by (rule keepsD)
  with assms(2) show "I (snd (bind_op m f s))"
    by (force simp: bind_op_def keeps_def split: prod.split outcome.split)
qed

lemma keeps_seq [keeps_intro]: "keeps I m \<Longrightarrow> keeps I n \<Longrightarrow> keeps I (seq_op m n)"
  by (simp add: seq_op_def keeps_bind)

lemma keeps_map_err [keeps_intro]: "keeps I m \<Longrightarrow> keeps I (map_err_op f m)"
  by (auto simp: keeps_def map_err_op_def split: prod.split)

lemma keeps_map [keeps_intro]: "keeps I m \<Longrightarrow> keeps I (map_op f m)"
  by (auto simp: keeps_def map_op_def split: prod.split)

lemma keeps_if [keeps_intro]: "(b \<Longrightarrow> keeps I m) \<Longrightarrow> (\<not> b \<Longrightarrow> keeps I n) \<Longrightarrow> keeps I (if b then m else n)"
  by simp

lemma keeps_option [keeps_intro]:
  "keeps I m \<Longrightarrow> (\<And>x. keeps I (f x)) \<Longrightarrow> keeps I (case v of None \<Rightarrow> m | Some x \<Rightarrow> f x)"
  by (cases v) auto

lemma keeps_each [keeps_intro]: "(\<And>x. keeps I (f x)) \<Longrightarrow> keeps I (each_op f xs)"
  by (induction xs) (auto intro: keeps_return keeps_seq)

lemma bind_op_Ok:
  "bind_op m f s = (Ok b, t) \<longleftrightarrow> (\<exists>a s'. m s = (Ok a, s') \<and> f a s' = (Ok b, t))"
  by (auto simp: bind_op_def split: prod.split outcome.split)

lemma bind_op_Err:
  "bind_op m f s = (Err e, t) \<longleftrightarrow>
     m s = (Err e, t) \<or> (\<exists>a s'. m s = (Ok a, s') \<and> f a s' = (Err e, t))"
  by (auto simp: bind_op_def split: prod.split outcome.split)

lemma bind_op_Panic:
  "bind_op m f s = (Panic, t) \<longleftrightarrow>
     m s = (Panic, t) \<or> (\<exists>a s'. m s = (Ok a, s') \<and> f a s' = (Panic, t))"
  by (auto simp: bind_op_def split: prod.split outcome.split)

lemma bind_op_run: "m s = (Ok a, s') \<Longrightarrow> bind_op m f s = f a s'"
  by (simp add: bind_op_def)

lemma each_op_all_Ok:
  assumes "\<And>x s. x \<in> set xs \<Longrightarrow> fst (f x s) = Ok ()"
  shows "fst (each_op f xs s) = Ok ()"
  using assms
proof (induction xs arbitrary: s)
  case Nil
  then show ?case by (simp add: return_op_def)
next
  case (Cons x xs)
  then show ?case
    by (cases "f x s") (auto simp: seq_op_def bind_op_def split: outcome.split, (metis fst_conv outcome.distinct)+)
qed

section \<open>Errors an operation never reports\<close>

named_theorems avoids_intro \<open>introduction rules for errors that do not happen\<close>

definition avoids :: "('s \<Rightarrow> bool) \<Rightarrow> ('e \<Rightarrow> bool) \<Rightarrow> ('s, 'a, 'e) op \<Rightarrow> bool" where
  "avoids I B m \<longleftrightarrow> (\<forall>s e. I s \<longrightarrow> fst (m s) = Err e \<longrightarrow> \<not> B e)"

lemma avoidsI: "(\<And>s e. I s \<Longrightarrow> fst (m s) = Err e \<Longrightarrow> \<not> B e) \<Longrightarrow> avoids I B m"
  by (simp add: avoids_def)

lemma avoidsD: "avoids I B m \<Longrightarrow> I s \<Longrightarrow> fst (m s) = Err e \<Longrightarrow> \<not> B e"
  by (simp add: avoids_def)

lemma avoids_simple [avoids_intro]:
  "avoids I B (return_op a)" "avoids I B (get_op g)" "avoids I B (modify_op f)"
  by (simp_all add: avoids_def return_op_def get_op_def modify_op_def)

lemma avoids_bind [avoids_intro]:
  assumes "avoids I B m" and "keeps I m" and "\<And>a. avoids I B (f a)"
  shows "avoids I B (bind_op m f)"
proof (rule avoidsI)
  fix s e assume i: "I s" and err: "fst (bind_op m f s) = Err e"
  obtain r s' where m: "m s = (r, s')" by fastforce
  have "I s'" using keeps_run [OF assms(2) i m] .
  with i err assms(1,3) m show "\<not> B e"
    by (cases r) (auto simp: bind_op_def avoids_def)
qed

lemma avoids_seq [avoids_intro]:
  "avoids I B m \<Longrightarrow> keeps I m \<Longrightarrow> avoids I B n \<Longrightarrow> avoids I B (seq_op m n)"
  by (simp add: seq_op_def avoids_bind)

lemma avoids_map_err [avoids_intro]:
  "avoids I (\<lambda>e. B (g e)) m \<Longrightarrow> avoids I B (map_err_op g m)"
  by (auto simp: avoids_def map_err_op_def split: prod.splits)

lemma avoids_all: "(\<And>e. \<not> B e) \<Longrightarrow> avoids I B m"
  by (simp add: avoids_def)

lemma avoids_map [avoids_intro]: "avoids I B m \<Longrightarrow> avoids I B (map_op g m)"
  by (force simp: avoids_def map_op_def map_outcome_def split: prod.splits outcome.splits)

lemma avoids_if [avoids_intro]:
  "(b \<Longrightarrow> avoids I B m) \<Longrightarrow> (\<not> b \<Longrightarrow> avoids I B n) \<Longrightarrow> avoids I B (if b then m else n)"
  by simp

lemma avoids_option [avoids_intro]:
  "avoids I B m \<Longrightarrow> (\<And>x. avoids I B (f x)) \<Longrightarrow> avoids I B (case v of None \<Rightarrow> m | Some x \<Rightarrow> f x)"
  by (cases v) auto

lemma avoids_prod [avoids_intro]:
  "(\<And>x y. avoids I B (f x y)) \<Longrightarrow> avoids I B (case p of (x, y) \<Rightarrow> f x y)"
  by (cases p) simp

section \<open>Saturating arithmetic\<close>

definition saturating_add :: "'a::len word \<Rightarrow> 'a word \<Rightarrow> 'a word" where
  "saturating_add a b = (if unat a + unat b < 2 ^ LENGTH('a) then a + b else - 1)"

lemma unat_minus_1: "unat (- 1 :: 'a::len word) = 2 ^ LENGTH('a) - 1"
  by (simp add: unsigned_minus_1_eq_mask mask_eq_exp_minus_1)

lemma unat_saturating_add:
  "unat (saturating_add (a :: 'a::len word) b) = min (unat a + unat b) (2 ^ LENGTH('a) - 1)"
proof (cases "unat a + unat b < 2 ^ LENGTH('a)")
  case True
  then show ?thesis
    by (simp add: saturating_add_def unat_word_ariths)
next
  case False
  then show ?thesis
    by (simp add: saturating_add_def unat_minus_1)
qed

lemma unat_le_max: "unat (a :: 'a::len word) \<le> 2 ^ LENGTH('a) - 1"
proof -
  have "unat a < 2 ^ LENGTH('a)" by (rule unsigned_less)
  then show ?thesis by linarith
qed

lemma saturating_add_mono: "a \<le> saturating_add a b"
  using unat_le_max [of a] by (simp add: word_le_nat_alt unat_saturating_add)

lemma saturating_add_less:
  fixes a b :: "'a::len word"
  assumes "a \<noteq> - 1" and "b \<noteq> 0"
  shows "a < saturating_add a b"
proof -
  have "unat a \<noteq> 2 ^ LENGTH('a) - 1"
    using assms(1) by (metis unat_minus_1 word_unat_eq_iff)
  with unat_le_max [of a] have "unat a < 2 ^ LENGTH('a) - 1" by simp
  moreover have "0 < unat b" using assms(2) by (simp add: unat_gt_0)
  ultimately show ?thesis
    by (simp add: word_less_nat_alt unat_saturating_add)
qed

section \<open>Lists\<close>

lemma map_of_find: "map_of m k = map_option snd (find (\<lambda>p. fst p = k) m)"
  by (induction m) auto

end
