(* ===== verification/Lifecycle.thy ===== *)
theory Lifecycle
  imports Supervisor_Prelude
begin

text \<open>
  \<open>src/src/domain/lifecycle.rs\<close>: the observable state of a service, the direct transitions
  the code allows between states, and the operator-requested steady state.
\<close>

datatype lifecycle_state =
  Stopped | Starting | Running | Stopping | TerminationPending | Unhealthy | Failed

datatype desired_state = DesiredRunning | DesiredStopped

record transition_error =
  te_previous :: lifecycle_state
  te_requested :: lifecycle_state

fun can_transition_to :: "lifecycle_state \<Rightarrow> lifecycle_state \<Rightarrow> bool" where
  "can_transition_to Stopped next = (next = Starting)"
| "can_transition_to Failed next = (next \<in> {Starting, Stopped, Stopping})"
| "can_transition_to Starting next = (next \<in> {Running, Unhealthy, Failed, Stopping})"
| "can_transition_to Running next = (next \<in> {Stopping, Unhealthy, Failed})"
| "can_transition_to Unhealthy next = (next \<in> {Running, Stopping, Failed})"
| "can_transition_to Stopping next = (next \<in> {Stopped, TerminationPending, Failed})"
| "can_transition_to TerminationPending next = (next \<in> {Stopping, Stopped, Failed})"

definition transition_to :: "lifecycle_state \<Rightarrow> lifecycle_state \<Rightarrow> transition_error + lifecycle_state" where
  "transition_to s next =
     (if can_transition_to s next then Inr next
      else Inl \<lparr>te_previous = s, te_requested = next\<rparr>)"

text \<open>The step relation of the lifecycle, and the paths the code can take through it.\<close>

inductive lifecycle_step :: "lifecycle_state \<Rightarrow> lifecycle_state \<Rightarrow> bool" where
  step: "transition_to s t = Inr t \<Longrightarrow> lifecycle_step s t"

inductive_cases lifecycle_stepE: "lifecycle_step s t"

inductive_simps lifecycle_step_iff: "lifecycle_step s t"

inductive lifecycle_path :: "lifecycle_state \<Rightarrow> lifecycle_state list \<Rightarrow> bool" where
  start: "lifecycle_path s [s]"
| extend: "lifecycle_path s p \<Longrightarrow> lifecycle_step (last p) t \<Longrightarrow> lifecycle_path s (p @ [t])"

lemma transition_to_Inr [simp]:
  "transition_to s next = Inr t \<longleftrightarrow> can_transition_to s next \<and> t = next"
  by (auto simp: transition_to_def)

lemma transition_to_Inl [simp]:
  "transition_to s next = Inl e \<longleftrightarrow>
     \<not> can_transition_to s next \<and> e = \<lparr>te_previous = s, te_requested = next\<rparr>"
  by (auto simp: transition_to_def)

lemma lifecycle_step_can [simp]: "lifecycle_step s t \<longleftrightarrow> can_transition_to s t"
  by (simp add: lifecycle_step_iff)

lemma can_transition_irrefl [simp]: "\<not> can_transition_to s s"
  by (cases s) auto

lemma lifecycle_path_nonempty: "lifecycle_path s p \<Longrightarrow> p \<noteq> []"
  by (induction rule: lifecycle_path.induct) auto

text \<open>Only \<open>Starting\<close> and \<open>Unhealthy\<close> lead directly to \<open>Running\<close>.\<close>

lemma into_running: "can_transition_to s Running \<longleftrightarrow> s \<in> {Starting, Unhealthy}"
  by (cases s) auto

lemma into_unhealthy: "can_transition_to s Unhealthy \<longleftrightarrow> s \<in> {Starting, Running}"
  by (cases s) auto

text \<open>
  Readiness is never skipped: on every path from \<open>Stopped\<close> to \<open>Running\<close> there is a
  \<open>Starting\<close> before.
\<close>

lemma path_through_starting:
  assumes "lifecycle_path s p" and "s \<in> {Stopped, Failed}"
  shows "set p \<inter> {Running, Unhealthy} \<noteq> {} \<longrightarrow> Starting \<in> set p"
    and "last p \<in> {Starting, Running, Unhealthy} \<longrightarrow> Starting \<in> set p"
  using assms
proof (induction rule: lifecycle_path.induct)
  case (extend s p t)
  { case 1
    with extend show ?case by (auto simp: into_running into_unhealthy lifecycle_path_nonempty) }
  { case 2
    with extend show ?case by (auto simp: into_running into_unhealthy lifecycle_path_nonempty) }
qed auto

end
