(* ===== verification/Ordered_Map.thy ===== *)
theory Ordered_Map
  imports Supervisor_Prelude
begin

text \<open>
  The ordered map of the Rust standard library (\<open>BTreeMap\<close>), as the association list of its
  entries in key order, with the operations the sources use: \<open>get\<close>, \<open>insert\<close>,
  \<open>remove\<close>, \<open>keys\<close>, \<open>values\<close>, \<open>retain\<close> and in-order iteration. The locale
  \<open>ordered_map\<close> is the interface the components rely on; it is interpreted on the
  association lists at the end of the theory. Keys of type \<^typ>\<open>string\<close> are ordered
  lexicographically by byte, as \<open>String\<close> is.
\<close>

type_synonym ('k, 'v) btree = "('k \<times> 'v) list"

definition bt_empty :: "('k, 'v) btree" where
  "bt_empty = []"

definition bt_get :: "('k, 'v) btree \<Rightarrow> 'k \<Rightarrow> 'v option" where
  "bt_get m k = map_of m k"

fun bt_insert :: "'k::linorder \<Rightarrow> 'v \<Rightarrow> ('k, 'v) btree \<Rightarrow> ('k, 'v) btree" where
  "bt_insert k v [] = [(k, v)]"
| "bt_insert k v ((k', v') # m) =
     (if k < k' then (k, v) # (k', v') # m
      else if k = k' then (k, v) # m
      else (k', v') # bt_insert k v m)"

definition bt_remove :: "'k \<Rightarrow> ('k, 'v) btree \<Rightarrow> ('k, 'v) btree" where
  "bt_remove k m = filter (\<lambda>p. fst p \<noteq> k) m"

definition bt_retain :: "('k \<Rightarrow> bool) \<Rightarrow> ('k, 'v) btree \<Rightarrow> ('k, 'v) btree" where
  "bt_retain P m = filter (\<lambda>p. P (fst p)) m"

definition bt_keys :: "('k, 'v) btree \<Rightarrow> 'k list" where
  "bt_keys m = map fst m"

definition bt_values :: "('k, 'v) btree \<Rightarrow> 'v list" where
  "bt_values m = map snd m"

definition bt_contains :: "('k, 'v) btree \<Rightarrow> 'k \<Rightarrow> bool" where
  "bt_contains m k = (bt_get m k \<noteq> None)"

definition bt_invar :: "('k::linorder, 'v) btree \<Rightarrow> bool" where
  "bt_invar m \<longleftrightarrow> sorted_wrt (<) (map fst m)"

text \<open>\<open>collect::<BTreeMap<_, _>>()\<close>: later pairs replace earlier ones.\<close>

definition bt_collect :: "('k::linorder \<times> 'v) list \<Rightarrow> ('k, 'v) btree" where
  "bt_collect ps = fold (\<lambda>(k, v). bt_insert k v) ps bt_empty"

section \<open>The interface\<close>

locale ordered_map =
  fixes empty :: "'m"
    and get :: "'m \<Rightarrow> 'k::linorder \<Rightarrow> 'v option"
    and insert :: "'k \<Rightarrow> 'v \<Rightarrow> 'm \<Rightarrow> 'm"
    and remove :: "'k \<Rightarrow> 'm \<Rightarrow> 'm"
    and entries :: "'m \<Rightarrow> ('k \<times> 'v) list"
    and invar :: "'m \<Rightarrow> bool"
  assumes invar_empty: "invar empty"
    and invar_insert: "invar m \<Longrightarrow> invar (insert k v m)"
    and invar_remove: "invar m \<Longrightarrow> invar (remove k m)"
    and get_empty: "get empty = Map.empty"
    and get_insert: "invar m \<Longrightarrow> get (insert k v m) = (get m)(k \<mapsto> v)"
    and get_remove: "invar m \<Longrightarrow> get (remove k m) = (get m)(k := None)"
    and get_entries: "invar m \<Longrightarrow> get m = map_of (entries m)"
    and entries_sorted: "invar m \<Longrightarrow> sorted_wrt (<) (map fst (entries m))"
begin

lemma keys_distinct: "invar m \<Longrightarrow> distinct (map fst (entries m))"
  using entries_sorted strict_sorted_iff by blast

lemma entries_iff: "invar m \<Longrightarrow> (k, v) \<in> set (entries m) \<longleftrightarrow> get m k = Some v"
  by (simp add: get_entries keys_distinct map_of_eq_Some_iff)

lemma keys_dom: "invar m \<Longrightarrow> fst ` set (entries m) = dom (get m)"
  by (simp add: get_entries dom_map_of_conv_image_fst)

text \<open>Two maps with the same lookups iterate over the same entries in the same order.\<close>

lemma entries_ext:
  assumes "invar m" and "invar n" and "get m = get n"
  shows "entries m = entries n"
proof -
  have eq: "set (entries m) = set (entries n)"
    using assms by (auto simp: entries_iff)
  have "inj_on fst (set (entries m) \<union> set (entries n))"
    using keys_distinct [OF assms(1)] by (simp add: eq [symmetric] distinct_map)
  moreover have "sorted (map fst (entries m))" "sorted (map fst (entries n))"
    using assms entries_sorted strict_sorted_iff by blast+
  ultimately show ?thesis
    using keys_distinct assms(1,2) eq by (intro map_sorted_distinct_set_unique) auto
qed

lemma insert_new_length:
  assumes "invar m" and "get m k = None"
  shows "length (entries (insert k v m)) = Suc (length (entries m))"
proof -
  have d: "distinct (map fst (entries (insert k v m)))" "distinct (map fst (entries m))"
    using assms by (simp_all add: keys_distinct invar_insert)
  have "set (map fst (entries (insert k v m))) = Set.insert k (set (map fst (entries m)))"
    using assms by (simp add: keys_dom invar_insert get_insert)
  moreover have "k \<notin> set (map fst (entries m))"
    using assms by (simp add: keys_dom domIff)
  ultimately show ?thesis
    using d by (metis card_insert_disjoint distinct_card length_map List.finite_set)
qed

lemma remove_length:
  assumes "invar m" and "get m k \<noteq> None"
  shows "Suc (length (entries (remove k m))) = length (entries m)"
proof -
  have d: "distinct (map fst (entries (remove k m)))" "distinct (map fst (entries m))"
    using assms by (simp_all add: keys_distinct invar_remove)
  have "set (map fst (entries (remove k m))) = set (map fst (entries m)) - {k}"
    using assms by (simp add: keys_dom invar_remove get_remove)
  moreover have "k \<in> set (map fst (entries m))"
    using assms by (simp add: keys_dom domIff)
  ultimately show ?thesis
    using d by (metis card_Suc_Diff1 distinct_card length_map List.finite_set)
qed

end

section \<open>The association lists implement it\<close>

lemma bt_insert_keys: "fst ` set (bt_insert k v m) = insert k (fst ` set m)"
  by (induction k v m rule: bt_insert.induct) auto

lemma bt_insert_invar: "bt_invar m \<Longrightarrow> bt_invar (bt_insert k v m)"
  unfolding bt_invar_def
proof (induction k v m rule: bt_insert.induct)
  case (2 k v k' v' m)
  have "\<forall>x \<in> fst ` set (bt_insert k v m). k' < x" if "k' < k"
    using that 2(2) by (auto simp: bt_insert_keys)
  with 2 show ?case by auto
qed simp

lemma bt_insert_map_of:
  "bt_invar m \<Longrightarrow> map_of (bt_insert k v m) = (map_of m)(k \<mapsto> v)"
  unfolding bt_invar_def
proof (induction k v m rule: bt_insert.induct)
  case (2 k v k' v' m)
  then show ?case by (auto simp: fun_eq_iff)
qed simp

lemma map_of_filter_key: "map_of (filter (\<lambda>p. P (fst p)) m) k = (if P k then map_of m k else None)"
  by (induction m) auto

interpretation bt: ordered_map bt_empty bt_get bt_insert bt_remove "\<lambda>m. m" bt_invar
proof unfold_locales
  fix m :: "('k::linorder, 'v) btree" and k v
  show "bt_invar bt_empty" by (simp add: bt_invar_def bt_empty_def)
  show "bt_get bt_empty = (Map.empty :: 'k \<Rightarrow> 'v option)"
    by (simp add: bt_get_def bt_empty_def fun_eq_iff)
  assume i: "bt_invar m"
  show "bt_invar (bt_insert k v m)" using i by (rule bt_insert_invar)
  show "bt_invar (bt_remove k m)"
    using i by (simp add: bt_invar_def bt_remove_def sorted_wrt_map sorted_wrt_filter)
  show "bt_get (bt_insert k v m) = (bt_get m)(k \<mapsto> v)"
    using i by (simp add: bt_get_def [abs_def] bt_insert_map_of)
  show "bt_get (bt_remove k m) = (bt_get m)(k := None)"
    by (simp add: bt_get_def bt_remove_def fun_eq_iff map_of_filter_key [of "\<lambda>j. j \<noteq> k"])
  show "bt_get m = map_of m" by (simp add: bt_get_def fun_eq_iff)
  show "sorted_wrt (<) (map fst m)" using i by (simp add: bt_invar_def)
qed

lemmas bt_map_simps [simp] = bt.get_empty bt.get_insert bt.get_remove bt.invar_empty
  bt.invar_insert bt.invar_remove

lemma bt_insert_not_Nil [simp]: "bt_insert k v m \<noteq> []"
  by (induction k v m rule: bt_insert.induct) auto

lemma bt_retain_invar [simp]: "bt_invar m \<Longrightarrow> bt_invar (bt_retain P m)"
  by (simp add: bt_invar_def bt_retain_def sorted_wrt_map sorted_wrt_filter)

lemma bt_retain_get [simp]: "bt_get (bt_retain P m) k = (if P k then bt_get m k else None)"
  by (simp add: bt_get_def bt_retain_def map_of_filter_key)

lemma bt_keys_set: "set (bt_keys m) = dom (bt_get m)"
  by (simp add: bt_keys_def bt_get_def [abs_def] dom_map_of_conv_image_fst)

lemma bt_get_keys: "bt_get m k = Some v \<Longrightarrow> k \<in> set (bt_keys m)"
  by (auto simp: bt_keys_set)

lemma bt_keys_distinct [simp]: "bt_invar m \<Longrightarrow> distinct (bt_keys m)"
  using bt.keys_distinct by (simp add: bt_keys_def)

lemma bt_contains_iff: "bt_contains m k \<longleftrightarrow> k \<in> set (bt_keys m)"
  by (auto simp: bt_contains_def bt_keys_set)

lemma bt_fold_insert:
  assumes "bt_invar m"
  shows "bt_invar (fold (\<lambda>(k, v). bt_insert k v) ps m)"
    and "bt_get (fold (\<lambda>(k, v). bt_insert k v) ps m) = bt_get m ++ map_of (rev ps)"
  using assms
  by (induction ps arbitrary: m) (auto simp: map_add_upd_left split: if_splits)

lemma bt_collect_invar [simp]: "bt_invar (bt_collect ps)"
  by (simp add: bt_collect_def bt_fold_insert)

lemma bt_collect_get: "bt_get (bt_collect ps) = map_of (rev ps)"
  by (simp add: bt_collect_def bt_fold_insert)

lemma bt_collect_get_distinct:
  "distinct (map fst ps) \<Longrightarrow> bt_get (bt_collect ps) k = map_of ps k"
  by (metis bt_collect_get distinct_rev map_of_inject_set rev_map set_rev)

end
