(* ===== verification/Rust_Text.thy ===== *)
theory Rust_Text
  imports Supervisor_Prelude
begin

text \<open>
  The \<open>str\<close> operations of the Rust standard library that the sources use. A \<open>String\<close>
  is the list of its UTF-8 bytes (a \<^typ>\<open>char\<close> of HOL is one byte), so \<open>length\<close> is
  \<open>len()\<close> and the order of the type is the order of \<open>String\<close>. White space is the
  Unicode property \<open>White_Space\<close>, given by the UTF-8 encodings of its code points; on
  valid UTF-8 an encoding can only match at a character boundary.
\<close>

section \<open>White space\<close>

definition ws_encodings :: "string list" where
  "ws_encodings =
     [[CHR 0x09], [CHR 0x0A], [CHR 0x0B], [CHR 0x0C], [CHR 0x0D], [CHR 0x20],
      [CHR 0xC2, CHR 0x85], [CHR 0xC2, CHR 0xA0], [CHR 0xE1, CHR 0x9A, CHR 0x80],
      [CHR 0xE2, CHR 0x80, CHR 0x80], [CHR 0xE2, CHR 0x80, CHR 0x81],
      [CHR 0xE2, CHR 0x80, CHR 0x82], [CHR 0xE2, CHR 0x80, CHR 0x83],
      [CHR 0xE2, CHR 0x80, CHR 0x84], [CHR 0xE2, CHR 0x80, CHR 0x85],
      [CHR 0xE2, CHR 0x80, CHR 0x86], [CHR 0xE2, CHR 0x80, CHR 0x87],
      [CHR 0xE2, CHR 0x80, CHR 0x88], [CHR 0xE2, CHR 0x80, CHR 0x89],
      [CHR 0xE2, CHR 0x80, CHR 0x8A], [CHR 0xE2, CHR 0x80, CHR 0xA8],
      [CHR 0xE2, CHR 0x80, CHR 0xA9], [CHR 0xE2, CHR 0x80, CHR 0xAF],
      [CHR 0xE2, CHR 0x81, CHR 0x9F], [CHR 0xE3, CHR 0x80, CHR 0x80]]"

text \<open>The number of bytes of the white-space character a string starts (or ends) with.\<close>

definition ws_len :: "string \<Rightarrow> nat" where
  "ws_len s = (case find (\<lambda>w. prefix w s) ws_encodings of None \<Rightarrow> 0 | Some w \<Rightarrow> length w)"

definition ws_end_len :: "string \<Rightarrow> nat" where
  "ws_end_len s = (case find (\<lambda>w. suffix w s) ws_encodings of None \<Rightarrow> 0 | Some w \<Rightarrow> length w)"

lemma ws_encodings_nonempty: "w \<in> set ws_encodings \<Longrightarrow> w \<noteq> []"
  by (auto simp: ws_encodings_def)

lemma ws_len_0_iff: "ws_len s = 0 \<longleftrightarrow> (\<forall>w \<in> set ws_encodings. \<not> prefix w s)"
proof (cases "find (\<lambda>w. prefix w s) ws_encodings")
  case None
  then have "\<forall>w \<in> set ws_encodings. \<not> prefix w s" by (auto simp: find_None_iff)
  with None show ?thesis by (simp add: ws_len_def)
next
  case (Some w)
  then have "w \<in> set ws_encodings" "prefix w s" by (auto simp: find_Some_iff)
  with Some show ?thesis by (auto simp: ws_len_def dest: ws_encodings_nonempty)
qed

lemma ws_end_len_0_iff: "ws_end_len s = 0 \<longleftrightarrow> (\<forall>w \<in> set ws_encodings. \<not> suffix w s)"
proof (cases "find (\<lambda>w. suffix w s) ws_encodings")
  case None
  then have "\<forall>w \<in> set ws_encodings. \<not> suffix w s" by (auto simp: find_None_iff)
  with None show ?thesis by (simp add: ws_end_len_def)
next
  case (Some w)
  then have "w \<in> set ws_encodings" "suffix w s" by (auto simp: find_Some_iff)
  with Some show ?thesis by (auto simp: ws_end_len_def dest: ws_encodings_nonempty)
qed

lemma ws_len_le: "ws_len s \<le> length s"
  by (auto simp: ws_len_def find_Some_iff prefix_length_le split: option.split)

lemma ws_end_len_le: "ws_end_len s \<le> length s"
  by (auto simp: ws_end_len_def find_Some_iff suffix_length_le split: option.split)

function trim_start :: "string \<Rightarrow> string" where
  "trim_start s = (if ws_len s = 0 then s else trim_start (drop (ws_len s) s))"
  by pat_completeness auto
termination
proof (relation "measure length", simp)
  fix s :: string assume "ws_len s \<noteq> 0"
  with ws_len_le [of s] show "(drop (ws_len s) s, s) \<in> measure length" by simp
qed

function trim_end :: "string \<Rightarrow> string" where
  "trim_end s = (if ws_end_len s = 0 then s
     else trim_end (take (length s - ws_end_len s) s))"
  by pat_completeness auto
termination
proof (relation "measure length", simp)
  fix s :: string assume "ws_end_len s \<noteq> 0"
  with ws_end_len_le [of s]
  show "(take (length s - ws_end_len s) s, s) \<in> measure length" by simp
qed

declare trim_start.simps [simp del] trim_end.simps [simp del]

definition trim :: "string \<Rightarrow> string" where
  "trim s = trim_end (trim_start s)"

lemma trim_start_suffix: "suffix (trim_start s) s"
proof (induction s rule: trim_start.induct)
  case (1 s)
  then show ?case
    by (subst trim_start.simps) (auto intro: suffix_order.trans suffix_drop)
qed

lemma trim_end_prefix: "prefix (trim_end s) s"
proof (induction s rule: trim_end.induct)
  case (1 s)
  then show ?case
    by (subst trim_end.simps) (auto intro: prefix_order.trans take_is_prefix)
qed

lemma trim_start_ws: "ws_len (trim_start s) = 0"
proof (induction s rule: trim_start.induct)
  case (1 s)
  then show ?case by (subst trim_start.simps) auto
qed

lemma trim_end_ws: "ws_end_len (trim_end s) = 0"
proof (induction s rule: trim_end.induct)
  case (1 s)
  then show ?case by (subst trim_end.simps) auto
qed

lemma trim_ws: "ws_len (trim s) = 0" "ws_end_len (trim s) = 0"
proof -
  show "ws_len (trim s) = 0"
    using trim_start_ws [of s] trim_end_prefix [of "trim_start s"]
    by (auto simp: trim_def ws_len_0_iff intro: prefix_order.trans)
  show "ws_end_len (trim s) = 0"
    by (simp add: trim_def trim_end_ws)
qed

lemma trim_idem: "ws_len s = 0 \<Longrightarrow> ws_end_len s = 0 \<Longrightarrow> trim s = s"
  by (simp add: trim_def trim_start.simps trim_end.simps)

lemma trim_trim [simp]: "trim (trim s) = trim s"
  by (simp add: trim_idem trim_ws)

lemma trim_sublist: "sublist (trim s) s"
  unfolding trim_def
  by (meson trim_start_suffix trim_end_prefix prefix_imp_sublist suffix_imp_sublist
      sublist_order.order_trans)

lemma trim_length: "length (trim s) \<le> length s"
  by (simp add: trim_sublist sublist_length_le)

lemma trim_end_length: "length (trim_end s) \<le> length s"
  by (simp add: trim_end_prefix prefix_length_le)

text \<open>\<open>split_whitespace\<close>: the maximal runs of characters that are not white space.\<close>

function split_ws :: "string \<Rightarrow> string \<Rightarrow> string list" where
  "split_ws cur s =
     (if s = [] then (if cur = [] then [] else [cur])
      else if ws_len s = 0 then split_ws (cur @ [hd s]) (tl s)
      else (if cur = [] then [] else [cur]) @ split_ws [] (drop (ws_len s) s))"
  by pat_completeness auto
termination
  by (relation "measure (\<lambda>(cur, s). length s)") auto

declare split_ws.simps [simp del]

definition split_whitespace :: "string \<Rightarrow> string list" where
  "split_whitespace s = split_ws [] s"

fun join :: "string \<Rightarrow> string list \<Rightarrow> string" where
  "join sep [] = []"
| "join sep [w] = w"
| "join sep (w # ws) = w @ sep @ join sep ws"

section \<open>Lines\<close>

abbreviation newline :: char where
  "newline \<equiv> CHR 0x0A"

text \<open>\<open>lines()\<close> of a text or a file: the parts before each newline, without a carriage return, and the rest.\<close>

definition strip_cr :: "string \<Rightarrow> string" where
  "strip_cr s = (if s \<noteq> [] \<and> last s = CHR 0x0D then butlast s else s)"

fun file_lines :: "string \<Rightarrow> string \<Rightarrow> string list" where
  "file_lines cur [] = (if cur = [] then [] else [cur])"
| "file_lines cur (c # cs) =
     (if c = CHR 0x0A then strip_cr cur # file_lines [] cs else file_lines (cur @ [c]) cs)"

text \<open>
  \<open>String::from_utf8_lossy\<close>: every longest part of an ill-formed sequence becomes the
  replacement character. The first byte decides the width, the second may be restricted; the
  result is the number of bytes read and whether they are a character.
\<close>

definition in_bytes :: "nat \<Rightarrow> nat \<Rightarrow> string \<Rightarrow> nat \<Rightarrow> bool" where
  "in_bytes lo hi s i \<longleftrightarrow> i < length s \<and> lo \<le> (of_char (s ! i) :: nat) \<and> (of_char (s ! i) :: nat) \<le> hi"

definition utf8_step :: "string \<Rightarrow> nat \<times> bool" where
  "utf8_step s =
     (if in_bytes 0x00 0x7F s 0 then (1, True)
      else if in_bytes 0xC2 0xDF s 0 then
        (if in_bytes 0x80 0xBF s 1 then (2, True) else (1, False))
      else if in_bytes 0xE0 0xEF s 0 then
        (if \<not> (if in_bytes 0xE0 0xE0 s 0 then in_bytes 0xA0 0xBF s 1
               else if in_bytes 0xED 0xED s 0 then in_bytes 0x80 0x9F s 1
               else in_bytes 0x80 0xBF s 1) then (1, False)
         else if \<not> in_bytes 0x80 0xBF s 2 then (2, False)
         else (3, True))
      else if in_bytes 0xF0 0xF4 s 0 then
        (if \<not> (if in_bytes 0xF0 0xF0 s 0 then in_bytes 0x90 0xBF s 1
               else if in_bytes 0xF4 0xF4 s 0 then in_bytes 0x80 0x8F s 1
               else in_bytes 0x80 0xBF s 1) then (1, False)
         else if \<not> in_bytes 0x80 0xBF s 2 then (2, False)
         else if \<not> in_bytes 0x80 0xBF s 3 then (3, False)
         else (4, True))
      else (1, False))"

lemma utf8_step_pos: "0 < fst (utf8_step s)"
  by (simp add: utf8_step_def)

function utf8_lossy :: "string \<Rightarrow> string" where
  "utf8_lossy s =
     (if s = [] then []
      else (if snd (utf8_step s) then take (fst (utf8_step s)) s
            else [CHR 0xEF, CHR 0xBF, CHR 0xBD]) @ utf8_lossy (drop (fst (utf8_step s)) s))"
  by pat_completeness auto
termination
  using utf8_step_pos by (relation "measure length") auto

declare utf8_lossy.simps [simp del]

section \<open>Characters\<close>

definition is_continuation :: "char \<Rightarrow> bool" where
  "is_continuation c = (0x80 \<le> (of_char c :: nat) \<and> (of_char c :: nat) < 0xC0)"

text \<open>\<open>char_indices()\<close>: the byte offsets at which characters start.\<close>

definition char_indices :: "string \<Rightarrow> nat list" where
  "char_indices s = filter (\<lambda>i. \<not> is_continuation (s ! i)) [0..<length s]"

text \<open>\<open>chars().take(n)\<close>: the bytes before the start of character \<open>n\<close>.\<close>

definition take_chars :: "nat \<Rightarrow> string \<Rightarrow> string" where
  "take_chars n s =
     (if n < length (char_indices s) then take (char_indices s ! n) s else s)"

definition is_ascii_lowercase :: "char \<Rightarrow> bool" where
  "is_ascii_lowercase c = (97 \<le> (of_char c :: nat) \<and> (of_char c :: nat) \<le> 122)"

definition is_ascii_digit :: "char \<Rightarrow> bool" where
  "is_ascii_digit c = (48 \<le> (of_char c :: nat) \<and> (of_char c :: nat) \<le> 57)"

definition to_ascii_lowercase :: "string \<Rightarrow> string" where
  "to_ascii_lowercase s =
     map (\<lambda>c. if 65 \<le> (of_char c :: nat) \<and> (of_char c :: nat) \<le> 90
              then char_of ((of_char c :: nat) + 32) else c) s"

text \<open>Decimal formatting of an unsigned integer (\<open>{n}\<close>).\<close>

fun decimal :: "nat \<Rightarrow> string" where
  "decimal n = (if n < 10 then [char_of (48 + n)] else decimal (n div 10) @ [char_of (48 + n mod 10)])"

declare decimal.simps [simp del]

lemma take_chars_prefix: "prefix (take_chars n s) s"
  by (simp add: take_chars_def take_is_prefix)

lemma char_indices_bound: "i \<in> set (char_indices s) \<Longrightarrow> i < length s"
  by (simp add: char_indices_def)

lemma char_indices_sorted: "sorted (char_indices s)" "distinct (char_indices s)"
  by (simp_all add: char_indices_def sorted_wrt_filter)

lemma char_indices_snoc:
  "char_indices (xs @ [y]) = char_indices xs @ (if is_continuation y then [] else [length xs])"
  by (auto simp: char_indices_def nth_append intro!: filter_cong)

lemma char_indices_append:
  "char_indices (xs @ ys) = char_indices xs @ map ((+) (length xs)) (char_indices ys)"
proof (induction ys rule: rev_induct)
  case Nil
  then show ?case by (simp add: char_indices_def)
next
  case (snoc y ys)
  then show ?case
    using char_indices_snoc [of "xs @ ys" y] by (simp add: char_indices_snoc)
qed

lemma char_indices_take_nth:
  assumes "n < length (char_indices s)"
  shows "char_indices (take (char_indices s ! n) s) = take n (char_indices s)"
proof -
  let ?b = "char_indices s ! n"
  have b: "?b < length s" using assms nth_mem char_indices_bound by blast
  have split: "char_indices s = char_indices (take ?b s) @ map ((+) ?b) (char_indices (drop ?b s))"
    using char_indices_append [of "take ?b s" "drop ?b s"] b by simp
  have "length (char_indices (take ?b s)) = n"
  proof -
    let ?m = "length (char_indices (take ?b s))"
    have lt: "\<forall>i \<in> set (char_indices (take ?b s)). i < ?b"
      using char_indices_bound b by (metis length_take min.absorb4 min_less_iff_conj)
    have "?m \<le> n"
    proof (rule ccontr)
      assume "\<not> ?m \<le> n"
      then have "?b = char_indices (take ?b s) ! n" by (subst split) (simp add: nth_append)
      with lt \<open>\<not> ?m \<le> n\<close> show False
        by (metis nat_less_le not_le nth_mem)
    qed
    moreover have "n \<le> ?m"
    proof (rule ccontr)
      assume "\<not> n \<le> ?m"
      then have m: "?m < n" by simp
      with assms have m': "?m < length (char_indices s)" by simp
      have "?b \<le> char_indices s ! ?m"
      proof -
        have "char_indices s ! ?m = ?b + char_indices (drop ?b s) ! 0"
          using m' by (subst (asm) split, subst (1) split) (simp add: nth_append)
        then show ?thesis by simp
      qed
      moreover have "char_indices s ! ?m < ?b"
        using m assms char_indices_sorted [of s]
        by (metis nat_less_le nth_eq_iff_index_eq order_less_trans sorted_nth_mono)
      ultimately show False by simp
    qed
    ultimately show ?thesis by simp
  qed
  then show ?thesis using split by (metis append_eq_conv_conj)
qed

text \<open>At most \<open>n\<close> characters remain.\<close>

lemma take_chars_count: "length (char_indices (take_chars n s)) \<le> n"
  by (simp add: take_chars_def char_indices_take_nth)

end
