(* ===== verification/Platform.thy ===== *)
theory Platform
  imports Ordered_Map Rust_Text
begin

text \<open>
  \<open>src/src/application/platform_ports.rs\<close> and \<open>src/src/application/health.rs\<close>: the data the
  application layer exchanges with a platform adapter, and the adapter itself as a record of
  operations on an arbitrary platform state. The adapters are traits in the source, so every
  definition that calls one takes the record as an argument. Time is part of the world:
  \<open>Instant::now\<close> never goes back and \<open>thread::sleep(d)\<close> lasts at least \<open>d\<close>, which the
  standard library documents. Durations and instants are counted in nanoseconds.
\<close>

section \<open>JSON values\<close>

text \<open>
  The variants of \<open>serde_json::Value\<close>, as far as the sources compare them for equality and
  ask for their kind. A float is its bit pattern.
\<close>

datatype json_number = PosInt u64 | NegInt u64 | Float u64

datatype json =
  JNull | JBool bool | JNumber json_number | JString string
| JArray "json list" | JObject "(string \<times> json) list"

fun json_get :: "json \<Rightarrow> string \<Rightarrow> json option" where
  "json_get (JObject fields) k = map_of fields k"
| "json_get _ k = None"

fun json_as_str :: "json \<Rightarrow> string option" where
  "json_as_str (JString s) = Some s"
| "json_as_str _ = None"

section \<open>Health\<close>

datatype json_path_mode = Shallow | JsonPointer

datatype health_check_spec =
  HealthProcess
| TcpConnect (hc_host: string) (hc_port: u16) (hc_timeout: nat) (hc_startup_deadline: nat)
| HttpStatus (hc_url: string) (hc_expected_status: u16) (hc_timeout: nat) (hc_startup_deadline: nat)
| HttpJson (hc_url: string) (hc_timeout: nat) (hc_startup_deadline: nat)
    (hc_path_mode: json_path_mode) (hc_expect: "(string, json) btree") (hc_observe: "string list")

fun startup_deadline :: "health_check_spec \<Rightarrow> nat" where
  "startup_deadline HealthProcess = 0"
| "startup_deadline (TcpConnect _ _ _ d) = d"
| "startup_deadline (HttpStatus _ _ _ d) = d"
| "startup_deadline (HttpJson _ _ d _ _ _) = d"

fun check_timeout :: "health_check_spec \<Rightarrow> nat option" where
  "check_timeout HealthProcess = None"
| "check_timeout (TcpConnect _ _ t _) = Some t"
| "check_timeout (HttpStatus _ _ t _) = Some t"
| "check_timeout (HttpJson _ t _ _ _ _) = Some t"

datatype health_status = HealthUnknown | Healthy | NotHealthy

record health_snapshot =
  hs_status :: health_status
  hs_process_ready :: bool
  hs_transport_ready :: "bool option"
  hs_checked_at_unix_ms :: "u64 option"
  hs_detail :: "string option"
  hs_observed :: "(string, json) btree"

definition health_unknown :: health_snapshot where
  "health_unknown = \<lparr>hs_status = HealthUnknown, hs_process_ready = False,
     hs_transport_ready = None, hs_checked_at_unix_ms = None, hs_detail = None,
     hs_observed = bt_empty\<rparr>"

definition health_healthy :: "u64 \<Rightarrow> bool \<Rightarrow> bool option \<Rightarrow> string \<Rightarrow> health_snapshot" where
  "health_healthy now process_ready transport_ready detail =
     \<lparr>hs_status = Healthy, hs_process_ready = process_ready,
      hs_transport_ready = transport_ready, hs_checked_at_unix_ms = Some now,
      hs_detail = Some detail, hs_observed = bt_empty\<rparr>"

definition health_unhealthy :: "u64 \<Rightarrow> bool \<Rightarrow> bool option \<Rightarrow> string \<Rightarrow> health_snapshot" where
  "health_unhealthy now process_ready transport_ready detail =
     \<lparr>hs_status = NotHealthy, hs_process_ready = process_ready,
      hs_transport_ready = transport_ready, hs_checked_at_unix_ms = Some now,
      hs_detail = Some detail, hs_observed = bt_empty\<rparr>"

definition with_observed :: "(string, json) btree \<Rightarrow> health_snapshot \<Rightarrow> health_snapshot" where
  "with_observed observed h = h\<lparr>hs_observed := observed\<rparr>"

definition is_healthy :: "health_snapshot \<Rightarrow> bool" where
  "is_healthy h = (hs_status h = Healthy)"

record transport_health =
  th_transport_ready :: bool
  th_healthy :: bool
  th_detail :: string
  th_observed :: "(string, json) btree"

lemma is_healthy_simps [simp]:
  "\<not> is_healthy health_unknown"
  "is_healthy (health_healthy now p t d)"
  "\<not> is_healthy (health_unhealthy now p t d)"
  "is_healthy (with_observed obs h) = is_healthy h"
  by (simp_all add: is_healthy_def health_unknown_def health_healthy_def health_unhealthy_def
      with_observed_def)

lemma check_timeout_None [simp]: "check_timeout c = None \<longleftrightarrow> c = HealthProcess"
  by (cases c) auto

section \<open>Processes\<close>

record process_identity =
  pi_pid :: u32
  pi_name :: "string option"

text \<open>\<open>summarize_processes\<close>: names counted case-insensitively, in name order.\<close>

definition process_label :: "process_identity \<Rightarrow> string" where
  "process_label p = to_ascii_lowercase
     (case pi_name p of
        None \<Rightarrow> ''unknown''
      | Some name \<Rightarrow> if name = [] then ''unknown'' else name)"

fun count_labels :: "process_identity list \<Rightarrow> (string, nat) btree \<Rightarrow> (string, nat) btree" where
  "count_labels [] counts = counts"
| "count_labels (p # ps) counts =
     (let n = process_label p in
      count_labels ps (bt_insert n (Suc (case bt_get counts n of None \<Rightarrow> 0 | Some c \<Rightarrow> c)) counts))"

definition summarize_processes :: "process_identity list \<Rightarrow> string" where
  "summarize_processes ps =
     (if ps = [] then ''-''
      else join '','' (map (\<lambda>(name, count). name @ '' x'' @ decimal count)
                          (count_labels ps bt_empty)))"

record tree_stop_report =
  tsr_owned_pids_before :: "u32 list"
  tsr_owned_pids_after :: "u32 list"
  tsr_graceful_signal_sent :: bool
  tsr_graceful_signal_error :: "string option"
  tsr_forced :: bool

definition is_complete :: "tree_stop_report \<Rightarrow> bool" where
  "is_complete r = (tsr_owned_pids_after r = [])"

text \<open>\<open>ExitStatus\<close>: success is exit code zero; no code means death by a signal.\<close>

datatype exit_status = ExitStatus (exit_code: "i32 option")

definition exit_success :: "exit_status \<Rightarrow> bool" where
  "exit_success st = (exit_code st = Some 0)"

record launch_spec =
  ls_executable :: string
  ls_args :: "string list"
  ls_cwd :: string
  ls_environment :: "(string, string) btree"
  ls_stdout_log :: "string option"
  ls_stderr_log :: "string option"

definition launch_spec_new ::
  "string \<Rightarrow> string list \<Rightarrow> string \<Rightarrow> (string \<times> string) list \<Rightarrow> launch_spec" where
  "launch_spec_new executable args cwd environment =
     \<lparr>ls_executable = executable, ls_args = args, ls_cwd = cwd,
      ls_environment = bt_collect environment, ls_stdout_log = None, ls_stderr_log = None\<rparr>"

definition with_log_files :: "string \<Rightarrow> string \<Rightarrow> launch_spec \<Rightarrow> launch_spec" where
  "with_log_files stdout_log stderr_log l =
     l\<lparr>ls_stdout_log := Some stdout_log, ls_stderr_log := Some stderr_log\<rparr>"

section \<open>Ports\<close>

datatype network_family = V4 | V6

instantiation network_family :: linorder
begin

definition less_eq_network_family :: "network_family \<Rightarrow> network_family \<Rightarrow> bool" where
  "less_eq_network_family a b = (a = V4 \<or> b = V6)"

definition less_network_family :: "network_family \<Rightarrow> network_family \<Rightarrow> bool" where
  "less_network_family a b = (a = V4 \<and> b = V6)"

instance
proof
  fix x y z :: network_family
  show "x < y \<longleftrightarrow> x \<le> y \<and> \<not> y \<le> x"
    by (cases x; cases y) (auto simp: less_network_family_def less_eq_network_family_def)
  show "x \<le> x" by (cases x) (auto simp: less_eq_network_family_def)
  show "x \<le> y \<Longrightarrow> y \<le> z \<Longrightarrow> x \<le> z"
    by (cases x; cases y; cases z) (auto simp: less_eq_network_family_def)
  show "x \<le> y \<Longrightarrow> y \<le> x \<Longrightarrow> x = y"
    by (cases x; cases y) (auto simp: less_eq_network_family_def)
  show "x \<le> y \<or> y \<le> x" by (cases x; cases y) (auto simp: less_eq_network_family_def)
qed

end

datatype port_occupant = PortOccupant (po_pid: u32) (po_family: network_family)

text \<open>The derived order of \<open>PortOccupant\<close>: by process, then by family.\<close>

instantiation port_occupant :: linorder
begin

definition less_eq_port_occupant :: "port_occupant \<Rightarrow> port_occupant \<Rightarrow> bool" where
  "less_eq_port_occupant a b =
     (po_pid a < po_pid b \<or> po_pid a = po_pid b \<and> po_family a \<le> po_family b)"

definition less_port_occupant :: "port_occupant \<Rightarrow> port_occupant \<Rightarrow> bool" where
  "less_port_occupant a b =
     (po_pid a < po_pid b \<or> po_pid a = po_pid b \<and> po_family a < po_family b)"

instance
proof
  fix x y z :: port_occupant
  show "x < y \<longleftrightarrow> x \<le> y \<and> \<not> y \<le> x"
    by (auto simp: less_port_occupant_def less_eq_port_occupant_def)
  show "x \<le> x" by (simp add: less_eq_port_occupant_def)
  show "x \<le> y \<Longrightarrow> y \<le> z \<Longrightarrow> x \<le> z"
    by (auto simp: less_eq_port_occupant_def)
  show "x \<le> y \<Longrightarrow> y \<le> x \<Longrightarrow> x = y"
    by (cases x; cases y) (auto simp: less_eq_port_occupant_def)
  show "x \<le> y \<or> y \<le> x" by (auto simp: less_eq_port_occupant_def)
qed

end

record port_diagnostic =
  pd_port :: u16
  pd_occupants :: "port_occupant list"

definition is_available :: "port_diagnostic \<Rightarrow> bool" where
  "is_available d = (pd_occupants d = [])"

section \<open>The adapters\<close>

text \<open>
  \<open>ProcessTreeSpawner\<close>, \<open>ManagedProcessTree\<close>, \<open>PortInspector\<close> and \<open>HealthProbe\<close>, together
  with the clocks. The platform state is the type \<open>'w\<close>, a process owner \<open>'p\<close>, a process
  failure \<open>'e\<close> and a port-inspection failure \<open>'n\<close>. \<open>bk_elapse\<close> is the time that has passed
  since the previous reading of the monotonic clock.
\<close>

record ('w, 'p, 'e, 'n) backend =
  bk_preflight_launch :: "string \<Rightarrow> launch_spec \<Rightarrow> ('w, unit, 'e) op"
  bk_spawn :: "string \<Rightarrow> launch_spec \<Rightarrow> ('w, 'p, 'e) op"
  bk_root_pid :: "'p \<Rightarrow> u32"
  bk_owned_pids :: "'p \<Rightarrow> ('w, u32 list, 'e) op"
  bk_owned_processes :: "'p \<Rightarrow> ('w, process_identity list, 'e) op"
  bk_try_wait :: "('p \<times> 'w, exit_status option, 'e) op"
  bk_stop :: "nat \<Rightarrow> ('p \<times> 'w, tree_stop_report, 'e) op"
  bk_inspect_tcp_port :: "u16 \<Rightarrow> ('w, port_diagnostic, 'n) op"
  bk_probe :: "health_check_spec \<Rightarrow> nat \<Rightarrow> 'w \<Rightarrow> transport_health \<times> 'w"
  bk_elapse :: "'w \<Rightarrow> nat \<times> 'w"
  bk_sleep :: "nat \<Rightarrow> 'w \<Rightarrow> 'w"
  bk_wall_ms :: "'w \<Rightarrow> nat \<times> 'w"

text \<open>The default methods of the traits.\<close>

definition default_owned_processes :: "('w, u32 list, 'e) op \<Rightarrow> ('w, process_identity list, 'e) op" where
  "default_owned_processes owned_pids =
     map_op (map (\<lambda>pid. \<lparr>pi_pid = pid, pi_name = None\<rparr>)) owned_pids"

definition default_preflight_launch :: "string \<Rightarrow> launch_spec \<Rightarrow> ('w, unit, 'e) op" where
  "default_preflight_launch service_id launch = return_op ()"

definition owns_pid :: "('w, 'p, 'e, 'n) backend \<Rightarrow> 'p \<Rightarrow> u32 \<Rightarrow> ('w, bool, 'e) op" where
  "owns_pid bk p pid = map_op (\<lambda>pids. pid \<in> set pids) (bk_owned_pids bk p)"

record 'w world =
  wd_clock :: nat
  wd_os :: 'w

definition on_os :: "('w, 'a, 'e) op \<Rightarrow> ('w world, 'a, 'e) op" where
  "on_os m = (\<lambda>w. case m (wd_os w) of (r, os) \<Rightarrow> (r, w\<lparr>wd_os := os\<rparr>))"

definition on_process :: "('p \<times> 'w, 'a, 'e) op \<Rightarrow> ('p \<times> 'w world, 'a, 'e) op" where
  "on_process m = (\<lambda>(p, w). case m (p, wd_os w) of (r, (p', os)) \<Rightarrow> (r, (p', w\<lparr>wd_os := os\<rparr>)))"

definition instant_now :: "('w, 'p, 'e, 'n) backend \<Rightarrow> 'w world \<Rightarrow> nat \<times> 'w world" where
  "instant_now bk w = (case bk_elapse bk (wd_os w) of
      (d, os) \<Rightarrow> (wd_clock w + d, \<lparr>wd_clock = wd_clock w + d, wd_os = os\<rparr>))"

definition thread_sleep :: "('w, 'p, 'e, 'n) backend \<Rightarrow> nat \<Rightarrow> 'w world \<Rightarrow> 'w world" where
  "thread_sleep bk d w = \<lparr>wd_clock = wd_clock w + d, wd_os = bk_sleep bk d (wd_os w)\<rparr>"

definition unix_milliseconds :: "('w, 'p, 'e, 'n) backend \<Rightarrow> 'w world \<Rightarrow> u64 \<times> 'w world" where
  "unix_milliseconds bk w = (case bk_wall_ms bk (wd_os w) of
      (ms, os) \<Rightarrow> (if ms < 2 ^ 64 then of_nat ms else - 1, w\<lparr>wd_os := os\<rparr>))"

definition probe_health ::
  "('w, 'p, 'e, 'n) backend \<Rightarrow> health_check_spec \<Rightarrow> nat \<Rightarrow> 'w world \<Rightarrow> transport_health \<times> 'w world" where
  "probe_health bk check timeout w = (case bk_probe bk check timeout (wd_os w) of
      (th, os) \<Rightarrow> (th, w\<lparr>wd_os := os\<rparr>))"

text \<open>Nothing but reading the clock and sleeping moves the clock.\<close>

lemma on_os_clock [simp]: "wd_clock (snd (on_os m w)) = wd_clock w"
  by (simp add: on_os_def split: prod.split)

lemma on_process_clock [simp]: "wd_clock (snd (snd (on_process m (p, w)))) = wd_clock w"
  by (simp add: on_process_def split: prod.split)

lemma unix_milliseconds_clock [simp]: "wd_clock (snd (unix_milliseconds bk w)) = wd_clock w"
  by (simp add: unix_milliseconds_def split: prod.split)

lemma probe_health_clock [simp]: "wd_clock (snd (probe_health bk c t w)) = wd_clock w"
  by (simp add: probe_health_def split: prod.split)

lemma clock_fixed:
  "on_os m w = (r, w') \<Longrightarrow> wd_clock w' = wd_clock w"
  "unix_milliseconds bk w = (ms, w') \<Longrightarrow> wd_clock w' = wd_clock w"
  "probe_health bk c t w = (th, w') \<Longrightarrow> wd_clock w' = wd_clock w"
  by (metis on_os_clock snd_conv) (metis unix_milliseconds_clock snd_conv,
      metis probe_health_clock snd_conv)

lemma instant_now_clock:
  "fst (instant_now bk w) = wd_clock (snd (instant_now bk w))"
  "wd_clock w \<le> wd_clock (snd (instant_now bk w))"
  by (simp_all add: instant_now_def split: prod.split)

lemma instant_nowD: "instant_now bk w = (t, w') \<Longrightarrow> t = wd_clock w' \<and> wd_clock w \<le> wd_clock w'"
  by (metis instant_now_clock fst_conv snd_conv)

lemmas clock_sym = clock_fixed [OF sym] instant_nowD [OF sym]

text \<open>A round of a polling loop with deadline \<open>d\<close> that goes to sleep comes closer to the deadline.\<close>

lemma poll_progress:
  "c \<le> now \<Longrightarrow> \<not> d \<le> now - started \<Longrightarrow>
     started + d - (now + min 100000000 (d - (now - started))) < started + d - (c :: nat)"
  by auto

lemma thread_sleep_clock [simp]: "wd_clock (thread_sleep bk d w) = wd_clock w + d"
  by (simp add: thread_sleep_def)

section \<open>The process summary counts every process once\<close>

lemma count_labels_invar [simp]: "bt_invar m \<Longrightarrow> bt_invar (count_labels ps m)"
  by (induction ps arbitrary: m) (auto simp: Let_def)

lemma count_labels_get:
  "bt_invar m \<Longrightarrow>
     (case bt_get (count_labels ps m) n of None \<Rightarrow> 0 | Some c \<Rightarrow> c) =
     (case bt_get m n of None \<Rightarrow> 0 | Some c \<Rightarrow> c) + count_list (map process_label ps) n"
  by (induction ps arbitrary: m) (auto simp: Let_def split: if_splits)

lemma count_labels_sorted: "sorted_wrt (<) (map fst (count_labels ps bt_empty))"
  by (metis bt.entries_sorted bt.invar_empty count_labels_invar)

end
