(* ===== verification/Runtime.thy ===== *)
theory Runtime
  imports Lifecycle Platform
begin

text \<open>
  \<open>src/src/application/service_runtime.rs\<close>: the per-service owner of one process tree. Every
  operation runs under the lock of the service; a callback that panics while the lock is held
  poisons it, and every later operation answers \<open>Poisoned\<close>. The state of an operation is the
  runtime paired with the state \<open>'s\<close> its callbacks act on.
\<close>

datatype start_outcome = StartStarted | StartAlreadyRunning
datatype stop_outcome = StopStopped | StopTerminationPending | StopAlreadyStopped
datatype restart_outcome = RestartRestarted | RestartTerminationPending | RestartStarted
datatype stop_progress = StopComplete | StopPending

datatype 'e runtime_error =
  RtPoisoned | RtTransition transition_error | RtStart 'e | RtStop 'e | RtInspect 'e

record 'p runtime =
  rt_lifecycle :: lifecycle_state
  rt_process :: "'p option"
  rt_poisoned :: bool

definition runtime_new :: "'p runtime" where
  "runtime_new = \<lparr>rt_lifecycle = Stopped, rt_process = None, rt_poisoned = False\<rparr>"

section \<open>Operations\<close>

definition with_lock ::
  "('p runtime \<times> 's, 'a, 'e runtime_error) op \<Rightarrow> ('p runtime \<times> 's, 'a, 'e runtime_error) op" where
  "with_lock body = (\<lambda>(rt, s).
     if rt_poisoned rt then (Err RtPoisoned, (rt, s))
     else case body (rt, s) of
       (Ok a, st) \<Rightarrow> (Ok a, st)
     | (Err e, st) \<Rightarrow> (Err e, st)
     | (Panic, (rt', s')) \<Rightarrow> (Panic, (rt'\<lparr>rt_poisoned := True\<rparr>, s')))"

definition transition :: "lifecycle_state \<Rightarrow> ('p runtime \<times> 's, unit, 'e runtime_error) op" where
  "transition next = (\<lambda>(rt, s). case transition_to (rt_lifecycle rt) next of
       Inl e \<Rightarrow> (Err (RtTransition e), (rt, s))
     | Inr l \<Rightarrow> (Ok (), (rt\<lparr>rt_lifecycle := l\<rparr>, s)))"

definition set_process :: "'p option \<Rightarrow> ('p runtime \<times> 's, unit, 'e runtime_error) op" where
  "set_process p = modify_op (\<lambda>(rt, s). (rt\<lparr>rt_process := p\<rparr>, s))"

text \<open>A callback that borrows the retained owner mutably.\<close>

definition borrow :: "('p \<times> 's, 'a, 'e) op \<Rightarrow> 'p \<Rightarrow> ('p runtime \<times> 's, 'a, 'e) op" where
  "borrow f p = (\<lambda>(rt, s). case f (p, s) of
      (r, (p', s')) \<Rightarrow> (r, (rt\<lparr>rt_process := Some p'\<rparr>, s')))"

definition lifecycle :: "('p runtime \<times> 's, lifecycle_state, unit runtime_error) op" where
  "lifecycle = with_lock (get_op (\<lambda>(rt, s). rt_lifecycle rt))"

definition has_process :: "('p runtime \<times> 's, bool, unit runtime_error) op" where
  "has_process = with_lock (get_op (\<lambda>(rt, s). rt_process rt \<noteq> None))"

definition apply_health :: "bool \<Rightarrow> ('p runtime \<times> 's, unit, unit runtime_error) op" where
  "apply_health healthy = with_lock (\<lambda>(rt, s).
     let requested = (if healthy then Running else Unhealthy) in
     if rt_process rt \<noteq> None \<and> rt_lifecycle rt \<in> {Running, Unhealthy}
        \<and> rt_lifecycle rt \<noteq> requested
     then transition requested (rt, s)
     else (Ok (), (rt, s)))"

definition inspect_with ::
  "(lifecycle_state \<Rightarrow> 'p option \<Rightarrow> ('s, 'a, 'e) op) \<Rightarrow> ('p runtime \<times> 's, 'a, 'e runtime_error) op" where
  "inspect_with inspect = with_lock (\<lambda>(rt, s).
     case inspect (rt_lifecycle rt) (rt_process rt) s of
       (r, s') \<Rightarrow> (map_outcome_err RtInspect r, (rt, s')))"

definition reconcile_exit_with ::
  "('p \<times> 's, exit_status option, 'e) op \<Rightarrow> ('p runtime \<times> 's, exit_status option, 'e runtime_error) op" where
  "reconcile_exit_with observe = with_lock (\<lambda>(rt, s).
     case rt_process rt of
       None \<Rightarrow> (Ok None, (rt, s))
     | Some p \<Rightarrow>
         bind_op (map_err_op RtInspect (borrow observe p)) (\<lambda>status.
           case status of
             None \<Rightarrow> return_op None
           | Some st \<Rightarrow>
               seq_op (set_process None)
               (seq_op (\<lambda>(rt, s).
                  if rt_lifecycle rt = TerminationPending then transition Stopped (rt, s)
                  else if rt_lifecycle rt \<noteq> Failed then transition Failed (rt, s)
                  else (Ok (), (rt, s)))
               (return_op (Some st)))) (rt, s))"

text \<open>The part \<open>start_with\<close> and \<open>restart_with\<close> share: enter \<open>Starting\<close> and spawn.\<close>

definition spawn_owner ::
  "'o \<Rightarrow> ('s, 'p, 'e) op \<Rightarrow> ('p runtime \<times> 's, 'o, 'e runtime_error) op" where
  "spawn_owner outcome spawn =
     seq_op (transition Starting) (\<lambda>(rt, s).
       case spawn s of
         (Ok p, s') \<Rightarrow>
           seq_op (set_process (Some p)) (seq_op (transition Running) (return_op outcome)) (rt, s')
       | (Err e, s') \<Rightarrow> seq_op (transition Failed) (fail_op (RtStart e)) (rt, s')
       | (Panic, s') \<Rightarrow> (Panic, (rt, s')))"

definition start_with ::
  "('s, 'p, 'e) op \<Rightarrow> ('p runtime \<times> 's, start_outcome, 'e runtime_error) op" where
  "start_with spawn = with_lock (\<lambda>(rt, s).
     if rt_process rt \<noteq> None then (Ok StartAlreadyRunning, (rt, s))
     else spawn_owner StartStarted spawn (rt, s))"

definition stop_with ::
  "('p \<times> 's, stop_progress, 'e) op \<Rightarrow> ('p runtime \<times> 's, stop_outcome, 'e runtime_error) op" where
  "stop_with stop = with_lock (\<lambda>(rt, s).
     case rt_process rt of
       None \<Rightarrow>
         (if rt_lifecycle rt = Failed
          then seq_op (transition Stopped) (return_op StopStopped) (rt, s)
          else (Ok StopAlreadyStopped, (rt, s)))
     | Some p \<Rightarrow>
         seq_op (transition Stopping) (\<lambda>st.
           case borrow stop p st of
             (Ok StopComplete, st) \<Rightarrow>
               seq_op (set_process None) (seq_op (transition Stopped) (return_op StopStopped)) st
           | (Ok StopPending, st) \<Rightarrow>
               seq_op (transition TerminationPending) (return_op StopTerminationPending) st
           | (Err e, st) \<Rightarrow> seq_op (transition Failed) (fail_op (RtStop e)) st
           | (Panic, st) \<Rightarrow> (Panic, st)) (rt, s))"

definition restart_with ::
  "('p \<times> 's, stop_progress, 'e) op \<Rightarrow> ('s, 'p, 'e) op \<Rightarrow>
     ('p runtime \<times> 's, restart_outcome, 'e runtime_error) op" where
  "restart_with stop spawn = with_lock (\<lambda>(rt, s).
     case rt_process rt of
       None \<Rightarrow> spawn_owner RestartStarted spawn (rt, s)
     | Some p \<Rightarrow>
         seq_op (transition Stopping) (\<lambda>st.
           case borrow stop p st of
             (Ok StopComplete, st) \<Rightarrow>
               seq_op (set_process None)
                 (seq_op (transition Stopped) (spawn_owner RestartRestarted spawn)) st
           | (Ok StopPending, st) \<Rightarrow>
               seq_op (transition TerminationPending) (return_op RestartTerminationPending) st
           | (Err e, st) \<Rightarrow> seq_op (transition Failed) (fail_op (RtStop e)) st
           | (Panic, st) \<Rightarrow> (Panic, st)) (rt, s))"

section \<open>The invariant\<close>

text \<open>
  Between operations a healthy lock guards a lifecycle that agrees with the ownership: no
  owner exactly in \<open>Stopped\<close> and possibly in \<open>Failed\<close>, an owner in the states in which a tree
  may still be alive, and never one of the states an operation only passes through.
\<close>

definition owner_matches :: "lifecycle_state \<Rightarrow> 'p option \<Rightarrow> bool" where
  "owner_matches l p \<longleftrightarrow>
     (case p of None \<Rightarrow> l \<in> {Stopped, Failed}
      | Some _ \<Rightarrow> l \<in> {Running, Unhealthy, TerminationPending, Failed})"

definition runtime_ok :: "'p runtime \<Rightarrow> bool" where
  "runtime_ok rt \<longleftrightarrow> rt_poisoned rt \<or> owner_matches (rt_lifecycle rt) (rt_process rt)"

lemma runtime_new_ok [simp]: "runtime_ok runtime_new"
  by (simp add: runtime_ok_def runtime_new_def owner_matches_def)

text \<open>
  Under the invariant every transition an operation asks for is legal, so the operations are
  their specifications without transition checks.
\<close>

lemma transition_ok:
  "can_transition_to (rt_lifecycle rt) l \<Longrightarrow> transition l (rt, s) = (Ok (), (rt\<lparr>rt_lifecycle := l\<rparr>, s))"
  by (simp add: transition_def transition_to_def)

lemma spawn_owner_spec:
  assumes "rt_lifecycle rt \<in> {Stopped, Failed}"
  shows "spawn_owner out spawn (rt, s) =
    (case spawn s of
       (Ok p, s') \<Rightarrow> (Ok out, (rt\<lparr>rt_lifecycle := Running, rt_process := Some p\<rparr>, s'))
     | (Err e, s') \<Rightarrow> (Err (RtStart e), (rt\<lparr>rt_lifecycle := Failed\<rparr>, s'))
     | (Panic, s') \<Rightarrow> (Panic, (rt\<lparr>rt_lifecycle := Starting\<rparr>, s')))"
  using assms
  by (auto simp: spawn_owner_def transition_ok set_process_def op_simps split: outcome.split prod.split)

lemma start_with_spec:
  assumes "runtime_ok rt"
  shows "start_with spawn (rt, s) =
    (if rt_poisoned rt then (Err RtPoisoned, (rt, s))
     else if rt_process rt \<noteq> None then (Ok StartAlreadyRunning, (rt, s))
     else case spawn s of
       (Ok p, s') \<Rightarrow> (Ok StartStarted, (rt\<lparr>rt_lifecycle := Running, rt_process := Some p\<rparr>, s'))
     | (Err e, s') \<Rightarrow> (Err (RtStart e), (rt\<lparr>rt_lifecycle := Failed\<rparr>, s'))
     | (Panic, s') \<Rightarrow> (Panic, (rt\<lparr>rt_lifecycle := Starting, rt_poisoned := True\<rparr>, s')))"
  using assms
  by (auto simp: start_with_def with_lock_def runtime_ok_def owner_matches_def spawn_owner_spec
      split: outcome.split prod.split)

lemma stop_with_spec:
  assumes "runtime_ok rt"
  shows "stop_with stop (rt, s) =
    (if rt_poisoned rt then (Err RtPoisoned, (rt, s))
     else case rt_process rt of
       None \<Rightarrow> if rt_lifecycle rt = Failed then (Ok StopStopped, (rt\<lparr>rt_lifecycle := Stopped\<rparr>, s))
               else (Ok StopAlreadyStopped, (rt, s))
     | Some p \<Rightarrow> (case stop (p, s) of
         (Ok StopComplete, (p', s')) \<Rightarrow>
           (Ok StopStopped, (rt\<lparr>rt_lifecycle := Stopped, rt_process := None\<rparr>, s'))
       | (Ok StopPending, (p', s')) \<Rightarrow>
           (Ok StopTerminationPending,
             (rt\<lparr>rt_lifecycle := TerminationPending, rt_process := Some p'\<rparr>, s'))
       | (Err e, (p', s')) \<Rightarrow>
           (Err (RtStop e), (rt\<lparr>rt_lifecycle := Failed, rt_process := Some p'\<rparr>, s'))
       | (Panic, (p', s')) \<Rightarrow>
           (Panic, (rt\<lparr>rt_lifecycle := Stopping, rt_process := Some p', rt_poisoned := True\<rparr>, s'))))"
  using assms
  by (auto simp: stop_with_def borrow_def with_lock_def transition_def set_process_def
      op_simps runtime_ok_def owner_matches_def transition_to_def
      split: outcome.splits prod.splits stop_progress.splits option.splits)

lemma restart_with_spec:
  assumes "runtime_ok rt"
  shows "restart_with stop spawn (rt, s) =
    (if rt_poisoned rt then (Err RtPoisoned, (rt, s))
     else case rt_process rt of
       None \<Rightarrow> (case spawn s of
           (Ok q, s') \<Rightarrow> (Ok RestartStarted, (rt\<lparr>rt_lifecycle := Running, rt_process := Some q\<rparr>, s'))
         | (Err e, s') \<Rightarrow> (Err (RtStart e), (rt\<lparr>rt_lifecycle := Failed\<rparr>, s'))
         | (Panic, s') \<Rightarrow> (Panic, (rt\<lparr>rt_lifecycle := Starting, rt_poisoned := True\<rparr>, s')))
     | Some p \<Rightarrow> (case stop (p, s) of
         (Ok StopComplete, (p', s')) \<Rightarrow> (case spawn s' of
             (Ok q, s'') \<Rightarrow>
               (Ok RestartRestarted, (rt\<lparr>rt_lifecycle := Running, rt_process := Some q\<rparr>, s''))
           | (Err e, s'') \<Rightarrow>
               (Err (RtStart e), (rt\<lparr>rt_lifecycle := Failed, rt_process := None\<rparr>, s''))
           | (Panic, s'') \<Rightarrow>
               (Panic, (rt\<lparr>rt_lifecycle := Starting, rt_process := None, rt_poisoned := True\<rparr>, s'')))
       | (Ok StopPending, (p', s')) \<Rightarrow>
           (Ok RestartTerminationPending,
             (rt\<lparr>rt_lifecycle := TerminationPending, rt_process := Some p'\<rparr>, s'))
       | (Err e, (p', s')) \<Rightarrow>
           (Err (RtStop e), (rt\<lparr>rt_lifecycle := Failed, rt_process := Some p'\<rparr>, s'))
       | (Panic, (p', s')) \<Rightarrow>
           (Panic, (rt\<lparr>rt_lifecycle := Stopping, rt_process := Some p', rt_poisoned := True\<rparr>, s'))))"
proof (cases "rt_poisoned rt")
  case True
  then show ?thesis by (simp add: restart_with_def with_lock_def)
next
  case False
  show ?thesis
  proof (cases "rt_process rt")
    case None
    with False assms show ?thesis
      by (auto simp: restart_with_def with_lock_def runtime_ok_def owner_matches_def
          spawn_owner_spec split: outcome.split prod.split)
  next
    case (Some p)
    with False assms have stopping: "can_transition_to (rt_lifecycle rt) Stopping"
      by (auto simp: runtime_ok_def owner_matches_def)
    obtain r p' s' where stop: "stop (p, s) = (r, (p', s'))" by (metis prod.exhaust)
    note run = restart_with_def with_lock_def borrow_def transition_ok stopping set_process_def
      stop spawn_owner_spec op_simps
    show ?thesis
    proof (cases r)
      case (Ok progress)
      with False Some show ?thesis
        by (cases progress) (simp_all add: run split: outcome.split prod.split)
    next
      case (Err e)
      with False Some show ?thesis by (simp add: run)
    next
      case Panic
      with False Some show ?thesis by (simp add: run)
    qed
  qed
qed

lemma reconcile_exit_with_spec:
  assumes "runtime_ok rt"
  shows "reconcile_exit_with observe (rt, s) =
    (if rt_poisoned rt then (Err RtPoisoned, (rt, s))
     else case rt_process rt of
       None \<Rightarrow> (Ok None, (rt, s))
     | Some p \<Rightarrow> (case observe (p, s) of
         (Ok None, (p', s')) \<Rightarrow> (Ok None, (rt\<lparr>rt_process := Some p'\<rparr>, s'))
       | (Ok (Some st), (p', s')) \<Rightarrow>
           (Ok (Some st), (rt\<lparr>rt_process := None,
              rt_lifecycle := (if rt_lifecycle rt = TerminationPending then Stopped else Failed)\<rparr>, s'))
       | (Err e, (p', s')) \<Rightarrow> (Err (RtInspect e), (rt\<lparr>rt_process := Some p'\<rparr>, s'))
       | (Panic, (p', s')) \<Rightarrow> (Panic, (rt\<lparr>rt_process := Some p', rt_poisoned := True\<rparr>, s'))))"
  using assms
  by (cases rt) (auto simp: reconcile_exit_with_def borrow_def with_lock_def transition_def set_process_def
      op_simps runtime_ok_def owner_matches_def transition_to_def
      split: outcome.splits prod.splits option.splits)

lemma apply_health_spec:
  assumes "runtime_ok rt"
  shows "apply_health h (rt, s) =
    (if rt_poisoned rt then (Err RtPoisoned, (rt, s))
     else if rt_process rt \<noteq> None \<and> rt_lifecycle rt \<in> {Running, Unhealthy}
       then (Ok (), (rt\<lparr>rt_lifecycle := (if h then Running else Unhealthy)\<rparr>, s))
     else (Ok (), (rt, s)))"
  using assms
  by (cases rt) (auto simp: apply_health_def with_lock_def transition_def transition_to_def Let_def
      split: outcome.splits prod.splits)

lemma inspect_with_spec:
  "inspect_with f (rt, s) =
    (if rt_poisoned rt then (Err RtPoisoned, (rt, s))
     else case f (rt_lifecycle rt) (rt_process rt) s of
       (Ok a, s') \<Rightarrow> (Ok a, (rt, s'))
     | (Err e, s') \<Rightarrow> (Err (RtInspect e), (rt, s'))
     | (Panic, s') \<Rightarrow> (Panic, (rt\<lparr>rt_poisoned := True\<rparr>, s')))"
  by (auto simp: inspect_with_def with_lock_def split: outcome.splits prod.splits)

lemma has_process_spec:
  "has_process (rt, s) =
    (if rt_poisoned rt then (Err RtPoisoned, (rt, s)) else (Ok (rt_process rt \<noteq> None), (rt, s)))"
  by (auto simp: has_process_def with_lock_def get_op_def)

lemmas runtime_specs = start_with_spec stop_with_spec restart_with_spec reconcile_exit_with_spec
  apply_health_spec inspect_with_spec has_process_spec

text \<open>The invariant as a predicate on the state of an operation.\<close>

abbreviation runtime_ok_st :: "'p runtime \<times> 's \<Rightarrow> bool" where
  "runtime_ok_st st \<equiv> runtime_ok (fst st)"

lemma start_with_keeps [keeps_intro]: "keeps runtime_ok_st (start_with spawn)"
  by (auto simp: keeps_def start_with_spec split: outcome.splits prod.splits)
     (auto simp: runtime_ok_def owner_matches_def)

lemma stop_with_keeps [keeps_intro]: "keeps runtime_ok_st (stop_with stop)"
  by (auto simp: keeps_def stop_with_spec split: outcome.splits prod.splits stop_progress.splits option.splits)
     (auto simp: runtime_ok_def owner_matches_def)

lemma restart_with_keeps [keeps_intro]: "keeps runtime_ok_st (restart_with stop spawn)"
  by (auto simp: keeps_def restart_with_spec split: outcome.splits prod.splits stop_progress.splits option.splits)
     (auto simp: runtime_ok_def owner_matches_def)

lemma reconcile_exit_with_keeps [keeps_intro]: "keeps runtime_ok_st (reconcile_exit_with observe)"
  by (auto simp: keeps_def reconcile_exit_with_spec split: outcome.splits prod.splits option.splits)
     (auto simp: runtime_ok_def owner_matches_def)

lemma apply_health_keeps [keeps_intro]: "keeps runtime_ok_st (apply_health h)"
  by (auto simp: keeps_def apply_health_spec) (auto simp: runtime_ok_def owner_matches_def)

lemma inspect_with_keeps [keeps_intro]: "keeps runtime_ok_st (inspect_with f)"
  by (auto simp: keeps_def inspect_with_spec runtime_ok_def split: outcome.splits prod.splits)

lemma has_process_keeps [keeps_intro]: "keeps runtime_ok_st has_process"
  by (auto simp: keeps_def has_process_spec)

text \<open>An operation under the invariant never reports an illegal transition.\<close>

lemma no_transition_error:
  assumes "runtime_ok rt"
  shows "fst (start_with spawn (rt, s)) \<noteq> Err (RtTransition e)"
    and "fst (stop_with stop (rt, s)) \<noteq> Err (RtTransition e)"
    and "fst (restart_with stop spawn (rt, s)) \<noteq> Err (RtTransition e)"
    and "fst (reconcile_exit_with observe (rt, s)) \<noteq> Err (RtTransition e)"
    and "fst (apply_health h (rt, s)) \<noteq> Err (RtTransition e)"
  using assms
  by (auto simp: runtime_specs split: outcome.splits prod.splits stop_progress.splits option.splits)

fun is_transition :: "'e runtime_error \<Rightarrow> bool" where
  "is_transition (RtTransition _) = True"
| "is_transition _ = False"

lemma runtime_avoids [avoids_intro]:
  "avoids runtime_ok_st is_transition (start_with spawn)"
  "avoids runtime_ok_st is_transition (stop_with stop)"
  "avoids runtime_ok_st is_transition (restart_with stop spawn)"
  "avoids runtime_ok_st is_transition (reconcile_exit_with observe)"
  "avoids runtime_ok_st is_transition (apply_health h)"
  "avoids runtime_ok_st is_transition (inspect_with f)"
  "avoids runtime_ok_st is_transition has_process"
  by (force simp: avoids_def runtime_specs
      split: outcome.splits prod.splits stop_progress.splits option.splits if_splits)+

section \<open>The ownership contract\<close>

text \<open>
  What the registry relies on, stated over abstract operations: an owner is created only by a
  start or a restart, given up only when a stop or an exit observation is complete, and a
  failed stop keeps it.
\<close>

locale process_owner =
  fixes owner :: "'r \<Rightarrow> 'p option"
    and inv :: "'r \<Rightarrow> bool"
    and start :: "('s, 'p, 'e) op \<Rightarrow> ('r \<times> 's, start_outcome, 'e runtime_error) op"
    and stop :: "('p \<times> 's, stop_progress, 'e) op \<Rightarrow> ('r \<times> 's, stop_outcome, 'e runtime_error) op"
  assumes start_inv: "inv r \<Longrightarrow> inv (fst (snd (start f (r, s))))"
    and stop_inv: "inv r \<Longrightarrow> inv (fst (snd (stop g (r, s))))"
    and start_once: "inv r \<Longrightarrow> owner r = Some p \<Longrightarrow> owner (fst (snd (start f (r, s)))) = Some p
        \<and> snd (snd (start f (r, s))) = s"
    and start_ok: "inv r \<Longrightarrow> fst (start f (r, s)) = Ok out \<Longrightarrow> owner (fst (snd (start f (r, s)))) \<noteq> None"
    and start_err: "inv r \<Longrightarrow> fst (start f (r, s)) = Err e \<Longrightarrow> owner (fst (snd (start f (r, s)))) = owner r"
    and stop_done: "inv r \<Longrightarrow> fst (stop g (r, s)) = Ok out' \<Longrightarrow> out' \<noteq> StopTerminationPending \<Longrightarrow>
        owner (fst (snd (stop g (r, s)))) = None"
    and stop_err: "inv r \<Longrightarrow> fst (stop g (r, s)) = Err e \<Longrightarrow>
        owner (fst (snd (stop g (r, s)))) = None \<longleftrightarrow> owner r = None"
begin

text \<open>Starting twice spawns once.\<close>

lemma start_idempotent:
  assumes "inv r" and "start f (r, s) = (Ok out, (r', s'))"
  shows "snd (snd (start g (r', s'))) = s'"
proof -
  have "inv r'" using start_inv [OF assms(1), of f s] assms(2) by simp
  moreover obtain p where "owner r' = Some p"
    using start_ok [OF assms(1), of f s out] assms(2) by auto
  ultimately show ?thesis using start_once by blast
qed

text \<open>A stop that did not complete leaves the next start without effect.\<close>

lemma failed_stop_blocks_start:
  assumes "inv r" and "owner r = Some p" and "stop g (r, s) = (Err e, (r', s'))"
  shows "snd (snd (start f (r', s'))) = s'"
proof -
  have "inv r'" using stop_inv [OF assms(1), of g s] assms(3) by simp
  moreover have "owner r' \<noteq> None"
    using stop_err [OF assms(1), of g s e] assms(2,3) by auto
  ultimately show ?thesis using start_once by blast
qed

end

interpretation rt: process_owner rt_process runtime_ok start_with stop_with
proof unfold_locales
  fix r :: "'p runtime" and s :: 's and f :: "('s, 'p, 'e) op"
    and g :: "('p \<times> 's, stop_progress, 'e) op" and p e out out'
  assume i: "runtime_ok r"
  show "runtime_ok (fst (snd (start_with f (r, s))))"
    using keepsD [OF start_with_keeps, of "(r, s)"] i by simp
  show "runtime_ok (fst (snd (stop_with g (r, s))))"
    using keepsD [OF stop_with_keeps, of "(r, s)"] i by simp
  show "rt_process r = Some p \<Longrightarrow> rt_process (fst (snd (start_with f (r, s)))) = Some p
      \<and> snd (snd (start_with f (r, s))) = s"
    using i by (simp add: start_with_spec)
  show "fst (start_with f (r, s)) = Ok out \<Longrightarrow> rt_process (fst (snd (start_with f (r, s)))) \<noteq> None"
    using i by (auto simp: start_with_spec split: outcome.splits prod.splits if_splits)
  show "fst (start_with f (r, s)) = Err e \<Longrightarrow> rt_process (fst (snd (start_with f (r, s)))) = rt_process r"
    using i by (auto simp: start_with_spec split: outcome.splits prod.splits if_splits)
  show "fst (stop_with g (r, s)) = Ok out' \<Longrightarrow> out' \<noteq> StopTerminationPending \<Longrightarrow>
      rt_process (fst (snd (stop_with g (r, s)))) = None"
    using i by (auto simp: stop_with_spec split: outcome.splits prod.splits if_splits
        stop_progress.splits option.splits)
  show "fst (stop_with g (r, s)) = Err e \<Longrightarrow>
      rt_process (fst (snd (stop_with g (r, s)))) = None \<longleftrightarrow> rt_process r = None"
    using i by (auto simp: stop_with_spec split: outcome.splits prod.splits if_splits
        stop_progress.splits option.splits)
qed

end
