(* ===== verification/Authority.thy ===== *)
theory Authority
  imports Lifecycle Rust_Text
begin

text \<open>
  \<open>src/src/domain/control.rs\<close>: the principals, the lifecycle actions, the validated reason of
  a mutation, and the per-service authority policy with its operator hold.
\<close>

section \<open>Principals\<close>

datatype actor = UserCli | UserUi | Agent | Codex | Recovery

fun is_user :: "actor \<Rightarrow> bool" where
  "is_user a = (a \<in> {UserCli, UserUi})"

fun is_agent :: "actor \<Rightarrow> bool" where
  "is_agent a = (a \<in> {Agent, Codex})"

fun identity :: "actor \<Rightarrow> string \<times> string" where
  "identity UserCli = (''user'', ''cli'')"
| "identity UserUi = (''user'', ''ui'')"
| "identity Agent = (''agent'', ''generic'')"
| "identity Codex = (''agent'', ''codex'')"
| "identity Recovery = (''recovery'', ''supervisor'')"

text \<open>
  The wire form: the structured identity that is written, or the bare string of older
  journals. \<open>serde\<close> itself is not modelled; the two constructors are the two variants of
  the untagged enum it fills in.
\<close>

datatype actor_wire = Legacy string | Identity string string

definition serialize_actor :: "actor \<Rightarrow> actor_wire" where
  "serialize_actor a = (case identity a of (t, i) \<Rightarrow> Identity t i)"

definition deserialize_legacy :: "string \<Rightarrow> actor option" where
  "deserialize_legacy v =
     (if v = ''user_cli'' then Some UserCli
      else if v = ''user_ui'' then Some UserUi
      else if v = ''agent'' then Some Agent
      else if v = ''codex'' then Some Codex
      else if v = ''recovery'' then Some Recovery
      else None)"

definition deserialize_identity :: "string \<Rightarrow> string \<Rightarrow> actor option" where
  "deserialize_identity t i =
     (if (t, i) = (''user'', ''cli'') then Some UserCli
      else if (t, i) = (''user'', ''ui'') then Some UserUi
      else if (t, i) = (''agent'', ''generic'') then Some Agent
      else if (t, i) = (''agent'', ''codex'') then Some Codex
      else if (t, i) = (''recovery'', ''supervisor'') then Some Recovery
      else None)"

fun deserialize_actor :: "actor_wire \<Rightarrow> actor option" where
  "deserialize_actor (Legacy v) = deserialize_legacy v"
| "deserialize_actor (Identity t i) = deserialize_identity t i"

lemma deserialize_identity_iff: "deserialize_identity t i = Some a \<longleftrightarrow> identity a = (t, i)"
  by (cases a) (auto simp: deserialize_identity_def)

lemma serialize_deserialize: "deserialize_actor (serialize_actor a) = Some a"
  by (cases a) (auto simp: serialize_actor_def deserialize_identity_def)

lemma is_user_not_agent: "is_user a \<Longrightarrow> \<not> is_agent a"
  by (cases a) auto

lemma actor_classes: "is_user a \<or> is_agent a \<or> a = Recovery"
  by (cases a) auto

section \<open>Reasons\<close>

datatype reason = Reason string

fun reason_as_str :: "reason \<Rightarrow> string" where
  "reason_as_str (Reason s) = s"

datatype reason_error = ReasonEmpty | ReasonTooLong nat nat

definition reason_max_bytes :: nat where
  "reason_max_bytes = 500"

definition reason_new :: "string \<Rightarrow> reason_error + reason" where
  "reason_new value =
     (let trimmed = trim value in
      if trimmed = [] then Inl ReasonEmpty
      else if length trimmed > reason_max_bytes
        then Inl (ReasonTooLong (length trimmed) reason_max_bytes)
      else Inr (Reason trimmed))"

definition valid_reason :: "reason \<Rightarrow> bool" where
  "valid_reason r \<longleftrightarrow>
     (case r of Reason s \<Rightarrow> s \<noteq> [] \<and> length s \<le> reason_max_bytes \<and> trim s = s)"

lemma reason_new_valid: "reason_new v = Inr r \<Longrightarrow> valid_reason r"
  by (auto simp: reason_new_def valid_reason_def Let_def split: if_splits)

lemma reason_new_str: "reason_new v = Inr r \<Longrightarrow> reason_as_str r = trim v"
  by (auto simp: reason_new_def Let_def split: if_splits)

lemma reason_new_idem: "valid_reason r \<Longrightarrow> reason_new (reason_as_str r) = Inr r"
  by (cases r) (auto simp: reason_new_def valid_reason_def)

section \<open>Policy\<close>

datatype lifecycle_action = ActStart | ActStop | ActRestart

datatype operator_hold = HoldNone | HoldRunning | HoldStopped

record control_policy =
  cp_operator_hold :: operator_hold
  cp_agent_start_allowed :: bool

definition default_policy :: control_policy where
  "default_policy = \<lparr>cp_operator_hold = HoldNone, cp_agent_start_allowed = True\<rparr>"

definition set_agent_start_allowed :: "bool \<Rightarrow> control_policy \<Rightarrow> control_policy" where
  "set_agent_start_allowed allowed p = p\<lparr>cp_agent_start_allowed := allowed\<rparr>"

datatype authorization_error =
  OperatorHoldStopped | AgentStartDisabled | RecoveryDesiredStateStopped

definition authorize :: "control_policy \<Rightarrow> actor \<Rightarrow> lifecycle_action \<Rightarrow> authorization_error + unit" where
  "authorize p a act =
     (if act \<in> {ActStart, ActRestart} then
        (if cp_operator_hold p = HoldStopped \<and> \<not> is_user a then Inl OperatorHoldStopped
         else if is_agent a \<and> \<not> cp_agent_start_allowed p then Inl AgentStartDisabled
         else Inr ())
      else Inr ())"

definition apply_user_action :: "actor \<Rightarrow> lifecycle_action \<Rightarrow> control_policy \<Rightarrow> control_policy" where
  "apply_user_action a act p =
     (if \<not> is_user a then p
      else p\<lparr>cp_operator_hold :=
        (case act of ActStart \<Rightarrow> HoldNone | ActRestart \<Rightarrow> HoldNone | ActStop \<Rightarrow> HoldStopped)\<rparr>)"

definition hold_running :: "actor \<Rightarrow> control_policy \<Rightarrow> control_policy" where
  "hold_running a p = (if is_user a then p\<lparr>cp_operator_hold := HoldRunning\<rparr> else p)"

text \<open>The abstract reading of the hold: it is what the last user action said.\<close>

fun last_user_action :: "(actor \<times> lifecycle_action) list \<Rightarrow> lifecycle_action option" where
  "last_user_action [] = None"
| "last_user_action ((a, act) # h) =
     (case last_user_action h of
        Some act' \<Rightarrow> Some act'
      | None \<Rightarrow> if is_user a then Some act else None)"

definition hold_of_action :: "lifecycle_action \<Rightarrow> operator_hold" where
  "hold_of_action act = (if act = ActStop then HoldStopped else HoldNone)"

lemma apply_user_action_hold:
  "cp_operator_hold (apply_user_action a act p) =
     (if is_user a then hold_of_action act else cp_operator_hold p)"
  by (cases act) (auto simp: apply_user_action_def hold_of_action_def)

lemma apply_user_action_agent [simp]:
  "cp_agent_start_allowed (apply_user_action a act p) = cp_agent_start_allowed p"
  by (simp add: apply_user_action_def)

lemma apply_user_action_other [simp]: "\<not> is_user a \<Longrightarrow> apply_user_action a act p = p"
  by (simp add: apply_user_action_def)

lemma authorize_stop [simp]: "authorize p a ActStop = Inr ()"
  by (simp add: authorize_def)

lemma authorize_user [simp]: "is_user a \<Longrightarrow> authorize p a act = Inr ()"
  using is_user_not_agent by (auto simp: authorize_def)

lemma authorize_held:
  "cp_operator_hold p = HoldStopped \<Longrightarrow> \<not> is_user a \<Longrightarrow> act \<noteq> ActStop \<Longrightarrow>
     authorize p a act = Inl OperatorHoldStopped"
  by (cases act) (auto simp: authorize_def)

lemma fold_user_actions:
  "cp_operator_hold (fold (\<lambda>(a, act). apply_user_action a act) h p) =
     (case last_user_action h of None \<Rightarrow> cp_operator_hold p | Some act \<Rightarrow> hold_of_action act)"
  by (induction h arbitrary: p) (auto simp: apply_user_action_hold split: option.split)

end
