(* ===== verification/Supervision.thy ===== *)
theory Supervision
  imports Authority Platform
begin

text \<open>
  The supervision state of a service (\<open>SupervisionState\<close> in
  \<open>src/src/application/service_registry.rs\<close>): what the operator wants, when the current tree
  was started, how it last ended, and whether an exit plans a restart. An automatic restart is
  planned at most once per episode; an episode ends with a request that does not come from
  recovery, or with a tree that stayed up for the stability window.
\<close>

datatype service_restart_policy = PolicyManual | PolicyOnFailure

text \<open>\<open>DEFAULT_RESTART_STABILITY_WINDOW\<close>: one minute, in nanoseconds.\<close>

definition default_restart_stability_window :: nat where
  "default_restart_stability_window = 60 * 1000000000"

record supervision_state =
  sv_desired_state :: desired_state
  sv_started_at_unix_ms :: "u64 option"
  sv_started_at :: "nat option"
  sv_last_exit_code :: "i32 option"
  sv_last_exit_at_unix_ms :: "u64 option"
  sv_restart_count :: u32
  sv_automatic_restarts_in_episode :: u32
  sv_restart_after_termination :: bool
  sv_last_owned_pids :: "u32 list"

definition supervision_new :: supervision_state where
  "supervision_new = \<lparr>sv_desired_state = DesiredStopped, sv_started_at_unix_ms = None,
     sv_started_at = None, sv_last_exit_code = None, sv_last_exit_at_unix_ms = None,
     sv_restart_count = 0, sv_automatic_restarts_in_episode = 0,
     sv_restart_after_termination = False, sv_last_owned_pids = []\<rparr>"

definition request_running :: "actor \<Rightarrow> supervision_state \<Rightarrow> supervision_state" where
  "request_running a sv =
     (let sv = sv\<lparr>sv_desired_state := DesiredRunning, sv_restart_after_termination := False\<rparr> in
      if a \<noteq> Recovery then sv\<lparr>sv_automatic_restarts_in_episode := 0\<rparr> else sv)"

definition request_stopped :: "supervision_state \<Rightarrow> supervision_state" where
  "request_stopped sv = sv\<lparr>sv_desired_state := DesiredStopped, sv_started_at := None,
     sv_started_at_unix_ms := None, sv_automatic_restarts_in_episode := 0,
     sv_restart_after_termination := False, sv_last_owned_pids := []\<rparr>"

definition record_started :: "nat \<Rightarrow> u64 \<Rightarrow> lifecycle_action \<Rightarrow> supervision_state \<Rightarrow> supervision_state" where
  "record_started now now_ms act sv =
     (let sv = sv\<lparr>sv_started_at := Some now, sv_started_at_unix_ms := Some now_ms,
        sv_last_owned_pids := [], sv_restart_after_termination := False\<rparr> in
      if act = ActRestart
      then sv\<lparr>sv_restart_count := saturating_add (sv_restart_count sv) 1\<rparr> else sv)"

definition defer_restart_after_termination :: "supervision_state \<Rightarrow> supervision_state" where
  "defer_restart_after_termination sv = sv\<lparr>sv_restart_after_termination := True\<rparr>"

text \<open>
  \<open>settled\<close> says whether the tree that ended had been up for the stability window; the result
  is the pair (automatic restart planned, deferred restart planned).
\<close>

definition record_exit ::
  "bool \<Rightarrow> u64 \<Rightarrow> exit_status \<Rightarrow> service_restart_policy \<Rightarrow> operator_hold \<Rightarrow>
     supervision_state \<Rightarrow> (bool \<times> bool) \<times> supervision_state" where
  "record_exit settled now_ms status policy hold sv =
     (let sv = (if settled then sv\<lparr>sv_automatic_restarts_in_episode := 0\<rparr> else sv);
          sv = sv\<lparr>sv_started_at := None, sv_started_at_unix_ms := None,
                 sv_last_exit_code := exit_code status,
                 sv_last_exit_at_unix_ms := Some now_ms\<rparr>;
          deferred = (sv_restart_after_termination sv \<and> sv_desired_state sv = DesiredRunning
                      \<and> hold \<noteq> HoldStopped);
          sv = sv\<lparr>sv_restart_after_termination := False\<rparr>;
          automatic = (\<not> deferred \<and> policy = PolicyOnFailure \<and> \<not> exit_success status
                       \<and> sv_desired_state sv = DesiredRunning \<and> hold \<noteq> HoldStopped
                       \<and> sv_automatic_restarts_in_episode sv = 0);
          sv = (if automatic then sv\<lparr>sv_automatic_restarts_in_episode := 1\<rparr> else sv)
      in ((automatic, deferred), sv))"

section \<open>Facts about one step\<close>

lemma record_exit_planned:
  assumes "record_exit settled ms st policy hold sv = ((automatic, deferred), sv')"
  shows "automatic \<Longrightarrow> policy = PolicyOnFailure \<and> \<not> exit_success st \<and> hold \<noteq> HoldStopped
           \<and> sv_desired_state sv = DesiredRunning \<and> sv_automatic_restarts_in_episode sv' = 1"
    and "deferred \<Longrightarrow> sv_desired_state sv = DesiredRunning \<and> hold \<noteq> HoldStopped
           \<and> sv_restart_after_termination sv"
    and "\<not> (automatic \<and> deferred)"
    and "sv_desired_state sv' = sv_desired_state sv"
    and "\<not> sv_restart_after_termination sv'"
    and "\<not> settled \<Longrightarrow> sv_automatic_restarts_in_episode sv \<noteq> 0 \<Longrightarrow>
           \<not> automatic \<and> sv_automatic_restarts_in_episode sv' = sv_automatic_restarts_in_episode sv"
  using assms by (auto simp: record_exit_def Let_def split: if_splits)

lemma request_running_simps [simp]:
  "sv_desired_state (request_running a sv) = DesiredRunning"
  "sv_restart_after_termination (request_running a sv) = False"
  "sv_last_owned_pids (request_running a sv) = sv_last_owned_pids sv"
  "sv_started_at (request_running a sv) = sv_started_at sv"
  "sv_restart_count (request_running a sv) = sv_restart_count sv"
  "sv_automatic_restarts_in_episode (request_running a sv) =
     (if a = Recovery then sv_automatic_restarts_in_episode sv else 0)"
  by (simp_all add: request_running_def Let_def)

lemma record_started_simps [simp]:
  "sv_desired_state (record_started now ms act sv) = sv_desired_state sv"
  "sv_started_at (record_started now ms act sv) = Some now"
  "sv_restart_after_termination (record_started now ms act sv) = False"
  "sv_automatic_restarts_in_episode (record_started now ms act sv) =
     sv_automatic_restarts_in_episode sv"
  by (simp_all add: record_started_def Let_def)

lemma request_stopped_simps [simp]:
  "sv_desired_state (request_stopped sv) = DesiredStopped"
  "sv_restart_after_termination (request_stopped sv) = False"
  by (simp_all add: request_stopped_def)

section \<open>Episodes\<close>

text \<open>
  The supervision events of a service in the order they happen. An exit carries whether it was
  settled, its status, the policy and the hold it found.
\<close>

datatype supervision_event =
  EvRequestRunning actor
| EvRequestStopped
| EvStarted nat u64 lifecycle_action
| EvDeferRestart
| EvExit bool u64 exit_status service_restart_policy operator_hold

fun supervision_step ::
  "supervision_event \<Rightarrow> supervision_state \<Rightarrow> (bool \<times> bool) \<times> supervision_state" where
  "supervision_step (EvRequestRunning a) sv = ((False, False), request_running a sv)"
| "supervision_step EvRequestStopped sv = ((False, False), request_stopped sv)"
| "supervision_step (EvStarted now ms act) sv = ((False, False), record_started now ms act sv)"
| "supervision_step EvDeferRestart sv = ((False, False), defer_restart_after_termination sv)"
| "supervision_step (EvExit settled ms st policy hold) sv = record_exit settled ms st policy hold sv"

fun automatic_restarts :: "supervision_event list \<Rightarrow> supervision_state \<Rightarrow> nat" where
  "automatic_restarts [] sv = 0"
| "automatic_restarts (ev # evs) sv =
     (case supervision_step ev sv of ((automatic, deferred), sv') \<Rightarrow>
        (if automatic then 1 else 0) + automatic_restarts evs sv')"

text \<open>Events that stay within one episode: recovery requests and unstable exits.\<close>

fun within_episode :: "supervision_event \<Rightarrow> bool" where
  "within_episode (EvRequestRunning a) = (a = Recovery)"
| "within_episode EvRequestStopped = False"
| "within_episode (EvStarted now ms act) = True"
| "within_episode EvDeferRestart = True"
| "within_episode (EvExit settled ms st policy hold) = (\<not> settled)"

lemma automatic_restarts_spent:
  "list_all within_episode evs \<Longrightarrow> sv_automatic_restarts_in_episode sv \<noteq> 0 \<Longrightarrow>
     automatic_restarts evs sv = 0"
proof (induction evs arbitrary: sv)
  case (Cons ev evs)
  obtain a d sv' where step: "supervision_step ev sv = ((a, d), sv')" by (metis prod.exhaust)
  have "\<not> a \<and> sv_automatic_restarts_in_episode sv' \<noteq> 0"
    using Cons.prems step
    by (cases ev) (auto simp: defer_restart_after_termination_def dest: record_exit_planned(6))
  then show ?case using Cons step by simp
qed simp

lemma automatic_restarts_le_1:
  "list_all within_episode evs \<Longrightarrow> automatic_restarts evs sv \<le> 1"
proof (induction evs arbitrary: sv)
  case (Cons ev evs)
  obtain a d sv' where step: "supervision_step ev sv = ((a, d), sv')" by (metis prod.exhaust)
  show ?case
  proof (cases a)
    case True
    then obtain settled ms st policy hold where "ev = EvExit settled ms st policy hold"
      using step by (cases ev) auto
    then have "sv_automatic_restarts_in_episode sv' = 1"
      using step True record_exit_planned(1) by simp
    then show ?thesis using True step Cons.prems automatic_restarts_spent [of evs sv'] by simp
  next
    case False
    then show ?thesis using step Cons by simp
  qed
qed simp

end
