(* ===== verification/Service_Entry.thy ===== *)
theory Service_Entry
  imports Runtime Supervision
begin

text \<open>
  One registered service of \<open>src/src/application/service_registry.rs\<close>: its registration, its
  process owner, its policy, health and supervision state, and the operations of the registry
  on it. The mutation lock serialises them; a panic inside an adapter poisons it together with
  the lock of the runtime, and the entry answers \<open>LockPoisoned\<close> from then on. (The control,
  health and supervision locks are only taken while the mutation lock is held, so their poison
  flags are never observed before the one of the mutation lock.)
\<close>

section \<open>Data\<close>

record process_exit_event =
  pee_service_id :: string
  pee_previous_state :: lifecycle_state
  pee_owned_pids_before :: "u32 list"
  pee_exit_code :: "i32 option"
  pee_successful :: bool
  pee_automatic_restart_planned :: bool
  pee_deferred_restart_planned :: bool

record service_refresh =
  sr_health :: health_snapshot
  sr_process_exit :: "process_exit_event option"

record service_registration =
  reg_id :: string
  reg_label :: string
  reg_launch :: launch_spec
  reg_dependencies :: "string list"
  reg_startup_prerequisites :: "health_check_spec list"
  reg_health :: health_check_spec
  reg_restart_policy :: service_restart_policy
  reg_ports :: "u16 list"
  reg_shutdown_grace :: nat

definition registration_new ::
  "string \<Rightarrow> string \<Rightarrow> launch_spec \<Rightarrow> health_check_spec \<Rightarrow> service_restart_policy \<Rightarrow> u16 list
     \<Rightarrow> nat \<Rightarrow> service_registration" where
  "registration_new sid label launch health policy ports grace =
     \<lparr>reg_id = sid, reg_label = label, reg_launch = launch, reg_dependencies = [],
      reg_startup_prerequisites = [], reg_health = health, reg_restart_policy = policy,
      reg_ports = ports, reg_shutdown_grace = grace\<rparr>"

definition with_dependencies :: "string list \<Rightarrow> service_registration \<Rightarrow> service_registration" where
  "with_dependencies deps r = r\<lparr>reg_dependencies := deps\<rparr>"

definition with_startup_prerequisites ::
  "health_check_spec list \<Rightarrow> service_registration \<Rightarrow> service_registration" where
  "with_startup_prerequisites pres r = r\<lparr>reg_startup_prerequisites := pres\<rparr>"

record last_action =
  la_action :: lifecycle_action
  la_actor :: actor
  la_reason :: reason

record service_snapshot =
  ss_id :: string
  ss_label :: string
  ss_depends_on :: "string list"
  ss_ports :: "u16 list"
  ss_lifecycle :: lifecycle_state
  ss_root_pid :: "u32 option"
  ss_owned_pids :: "u32 list"
  ss_owned_processes :: "process_identity list"
  ss_health :: health_snapshot
  ss_desired_state :: desired_state
  ss_started_at_unix_ms :: "u64 option"
  ss_last_exit_code :: "i32 option"
  ss_last_exit_at_unix_ms :: "u64 option"
  ss_restart_count :: u32
  ss_operator_hold :: operator_hold
  ss_last_action :: "last_action option"

datatype ('e, 'n) backend_operation_error =
  BkProcess 'e
| BkStartupPrerequisite nat string
| BkPortInspection u16 'n
| BkPortConflict u16 "port_occupant list"

datatype ('e, 'n) registry_error =
  RegServiceNotFound string
| RegUnauthorized authorization_error
| RegLockPoisoned
| RegTransition transition_error
| RegInternalState
| RegObservation 'e
| RegHealthFailed string
| RegRuntime "('e, 'n) backend_operation_error runtime_error"

record control_state =
  cs_policy :: control_policy
  cs_last_action :: "last_action option"

record 'p service_entry =
  se_registration :: service_registration
  se_runtime :: "'p runtime"
  se_poisoned :: bool
  se_control :: control_state
  se_health :: health_snapshot
  se_supervision :: supervision_state

definition service_entry_new :: "service_registration \<Rightarrow> 'p service_entry" where
  "service_entry_new r =
     \<lparr>se_registration = r, se_runtime = runtime_new, se_poisoned = False,
      se_control = \<lparr>cs_policy = default_policy, cs_last_action = None\<rparr>,
      se_health = health_unknown, se_supervision = supervision_new\<rparr>"

type_synonym ('p, 'w) entry_state = "'p service_entry \<times> 'w world"

section \<open>Access to the parts of an entry\<close>

text \<open>\<open>lock(&entry.mutation)?\<close> held for the rest of the operation.\<close>

definition with_mutation ::
  "(('p, 'w) entry_state, 'a, ('e, 'n) registry_error) op \<Rightarrow>
     (('p, 'w) entry_state, 'a, ('e, 'n) registry_error) op" where
  "with_mutation body = (\<lambda>(e, w).
     if se_poisoned e then (Err RegLockPoisoned, (e, w))
     else case body (e, w) of
       (Ok a, st) \<Rightarrow> (Ok a, st)
     | (Err x, st) \<Rightarrow> (Err x, st)
     | (Panic, (e', w')) \<Rightarrow> (Panic, (e'\<lparr>se_poisoned := True\<rparr>, w')))"

definition on_runtime ::
  "('p runtime \<times> 's, 'a, 'x) op \<Rightarrow> ('p service_entry \<times> 's, 'a, 'x) op" where
  "on_runtime m = (\<lambda>(e, s). case m (se_runtime e, s) of
      (r, (rt, s')) \<Rightarrow> (r, (e\<lparr>se_runtime := rt\<rparr>, s')))"

definition on_world :: "('w world, 'a, 'x) op \<Rightarrow> (('p, 'w) entry_state, 'a, 'x) op" where
  "on_world m = (\<lambda>(e, w). case m w of (r, w') \<Rightarrow> (r, (e, w')))"

definition on_control ::
  "(control_state \<Rightarrow> control_state) \<Rightarrow> (('p, 'w) entry_state, unit, 'x) op" where
  "on_control f = modify_op (\<lambda>(e, w). (e\<lparr>se_control := f (se_control e)\<rparr>, w))"

definition on_supervision ::
  "(supervision_state \<Rightarrow> supervision_state) \<Rightarrow> (('p, 'w) entry_state, unit, 'x) op" where
  "on_supervision f = modify_op (\<lambda>(e, w). (e\<lparr>se_supervision := f (se_supervision e)\<rparr>, w))"

definition set_health :: "health_snapshot \<Rightarrow> (('p, 'w) entry_state, unit, 'x) op" where
  "set_health h = modify_op (\<lambda>(e, w). (e\<lparr>se_health := h\<rparr>, w))"

definition wall_clock :: "('w, 'p, 'e, 'n) backend \<Rightarrow> ('w world, u64, 'x) op" where
  "wall_clock bk = (\<lambda>w. case unix_milliseconds bk w of (ms, w') \<Rightarrow> (Ok ms, w'))"

definition monotonic_clock :: "('w, 'p, 'e, 'n) backend \<Rightarrow> ('w world, nat, 'x) op" where
  "monotonic_clock bk = (\<lambda>w. case instant_now bk w of (t, w') \<Rightarrow> (Ok t, w'))"

text \<open>\<open>has_process\<close> and \<open>map_observation_error\<close>: the error mappings of the registry.\<close>

fun has_process_error :: "unit runtime_error \<Rightarrow> ('e, 'n) registry_error" where
  "has_process_error RtPoisoned = RegLockPoisoned"
| "has_process_error (RtTransition t) = RegTransition t"
| "has_process_error (RtStart _) = RegInternalState"
| "has_process_error (RtStop _) = RegInternalState"
| "has_process_error (RtInspect _) = RegInternalState"

fun map_observation_error :: "'e runtime_error \<Rightarrow> ('e, 'n) registry_error" where
  "map_observation_error RtPoisoned = RegLockPoisoned"
| "map_observation_error (RtTransition t) = RegTransition t"
| "map_observation_error (RtInspect e) = RegObservation e"
| "map_observation_error (RtStart _) = RegInternalState"
| "map_observation_error (RtStop _) = RegInternalState"

fun apply_health_error :: "unit runtime_error \<Rightarrow> ('e, 'n) registry_error" where
  "apply_health_error RtPoisoned = RegLockPoisoned"
| "apply_health_error (RtTransition t) = RegTransition t"
| "apply_health_error _ = RegInternalState"

section \<open>Readiness before the spawn\<close>

text \<open>
  One prerequisite: probe until it is healthy or its deadline has passed, sleeping at most
  100 ms between probes. A prerequisite without a timeout is not a transport check and the
  \<open>expect\<close> panics. The loop ends because every round either returns or sleeps for a positive
  time before the deadline.
\<close>

function wait_prerequisite ::
  "('w, 'p, 'e, 'n) backend \<Rightarrow> nat \<Rightarrow> health_check_spec \<Rightarrow> nat \<Rightarrow>
     ('w world, unit, ('e, 'n) backend_operation_error) op" where
  "wait_prerequisite bk index check started w =
     (case instant_now bk w of (now1, w1) \<Rightarrow>
      case check_timeout check of
        None \<Rightarrow> (Panic, w1)
      | Some t \<Rightarrow>
          (case probe_health bk check (min t (startup_deadline check - (now1 - started))) w1 of
             (obs, w2) \<Rightarrow>
               if th_healthy obs then (Ok (), w2)
               else case instant_now bk w2 of (now2, w3) \<Rightarrow>
                 if startup_deadline check \<le> now2 - started
                 then (Err (BkStartupPrerequisite index (th_detail obs)), w3)
                 else wait_prerequisite bk index check started
                   (thread_sleep bk (min 100000000 (startup_deadline check - (now2 - started))) w3)))"
  by pat_completeness auto
termination
  by (relation "measure (\<lambda>(bk, index, check, started, w).
        started + startup_deadline check - wd_clock w)")
     (auto dest!: clock_sym intro!: poll_progress)

declare wait_prerequisite.simps [simp del]

fun wait_until_startup_prerequisites ::
  "('w, 'p, 'e, 'n) backend \<Rightarrow> nat \<Rightarrow> health_check_spec list \<Rightarrow>
     ('w world, unit, ('e, 'n) backend_operation_error) op" where
  "wait_until_startup_prerequisites bk index [] = return_op ()"
| "wait_until_startup_prerequisites bk index (check # checks) =
     seq_op (\<lambda>w. case instant_now bk w of (started, w') \<Rightarrow> wait_prerequisite bk index check started w')
            (wait_until_startup_prerequisites bk (Suc index) checks)"

definition ensure_ports_available ::
  "('w, 'p, 'e, 'n) backend \<Rightarrow> u16 list \<Rightarrow> ('w world, unit, ('e, 'n) backend_operation_error) op" where
  "ensure_ports_available bk = each_op (\<lambda>port.
     bind_op (map_err_op (BkPortInspection port) (on_os (bk_inspect_tcp_port bk port)))
       (\<lambda>diagnostic. guard_op (is_available diagnostic) (BkPortConflict port (pd_occupants diagnostic))))"

text \<open>The closures passed to the runtime: how a service is spawned and how it is stopped.\<close>

definition spawn_callback ::
  "('w, 'p, 'e, 'n) backend \<Rightarrow> service_registration \<Rightarrow>
     ('w world, 'p, ('e, 'n) backend_operation_error) op" where
  "spawn_callback bk r =
     seq_op (wait_until_startup_prerequisites bk 0 (reg_startup_prerequisites r))
     (seq_op (ensure_ports_available bk (reg_ports r))
     (map_err_op BkProcess (on_os (bk_spawn bk (reg_id r) (reg_launch r)))))"

definition stop_callback ::
  "('w, 'p, 'e, 'n) backend \<Rightarrow> nat \<Rightarrow>
     ('p \<times> 'w world \<times> tree_stop_report option, stop_progress, ('e, 'n) backend_operation_error) op" where
  "stop_callback bk grace = (\<lambda>(p, (w, shutdown)).
     case on_process (bk_stop bk grace) (p, w) of
       (Ok report, (p', w')) \<Rightarrow>
         (Ok (if is_complete report then StopComplete else StopPending), (p', (w', Some report)))
     | (Err e, (p', w')) \<Rightarrow> (Err (BkProcess e), (p', (w', shutdown)))
     | (Panic, (p', w')) \<Rightarrow> (Panic, (p', (w', shutdown))))"

definition preflight_entry ::
  "('w, 'p, 'e, 'n) backend \<Rightarrow> (('p, 'w) entry_state, unit, ('e, 'n) registry_error) op" where
  "preflight_entry bk = (\<lambda>(e, w).
     on_world (map_err_op (\<lambda>x. RegRuntime (RtStart (BkProcess x)))
       (on_os (bk_preflight_launch bk (reg_id (se_registration e)) (reg_launch (se_registration e)))))
       (e, w))"

section \<open>Health\<close>

definition not_ready_transport :: "health_check_spec \<Rightarrow> bool option" where
  "not_ready_transport check = (if check = HealthProcess then None else Some False)"

definition process_ready ::
  "('w, 'p, 'e, 'n) backend \<Rightarrow> (('p, 'w) entry_state, bool, ('e, 'n) registry_error) op" where
  "process_ready bk = map_err_op map_observation_error (on_runtime (inspect_with (\<lambda>_ process.
     case process of
       None \<Rightarrow> return_op False
     | Some p \<Rightarrow> map_op (\<lambda>pids. pids \<noteq> []) (on_os (bk_owned_pids bk p)))))"

definition transport_snapshot :: "u64 \<Rightarrow> transport_health \<Rightarrow> health_snapshot" where
  "transport_snapshot now th =
     with_observed (th_observed th)
       (if th_healthy th then health_healthy now True (Some (th_transport_ready th)) (th_detail th)
        else health_unhealthy now True (Some (th_transport_ready th)) (th_detail th))"

text \<open>\<open>check\<close> is a transport check here, so the \<open>expect\<close> on its timeout cannot fail.\<close>

definition observe_transport ::
  "('w, 'p, 'e, 'n) backend \<Rightarrow> health_check_spec \<Rightarrow> nat option \<Rightarrow> ('w world, health_snapshot, 'x) op" where
  "observe_transport bk check timeout_cap = (\<lambda>w.
     case check_timeout check of
       None \<Rightarrow> (Panic, w)
     | Some t \<Rightarrow>
         (case probe_health bk check (case timeout_cap of None \<Rightarrow> t | Some cap \<Rightarrow> min t cap) w of
            (th, w') \<Rightarrow> (case unix_milliseconds bk w' of
              (now, w'') \<Rightarrow> (Ok (transport_snapshot now th), w''))))"

definition observation ::
  "('w, 'p, 'e, 'n) backend \<Rightarrow> nat option \<Rightarrow> bool \<Rightarrow> bool \<Rightarrow>
     (('p, 'w) entry_state, health_snapshot, ('e, 'n) registry_error) op" where
  "observation bk timeout_cap has_proc ready = (\<lambda>(e, w).
     let check = reg_health (se_registration e) in
     if \<not> has_proc then (Ok health_unknown, (e, w))
     else if \<not> ready then
       on_world (map_op (\<lambda>now. health_unhealthy now False (not_ready_transport check)
           ''owned process tree is not ready'') (wall_clock bk)) (e, w)
     else if check = HealthProcess then
       on_world (map_op (\<lambda>now. health_healthy now True None ''owned process tree is ready'')
           (wall_clock bk)) (e, w)
     else on_world (observe_transport bk check timeout_cap) (e, w))"

definition observe_health ::
  "('w, 'p, 'e, 'n) backend \<Rightarrow> nat option \<Rightarrow>
     (('p, 'w) entry_state, health_snapshot, ('e, 'n) registry_error) op" where
  "observe_health bk timeout_cap =
     bind_op (process_ready bk) (\<lambda>ready.
     bind_op (map_err_op (\<lambda>_. RegInternalState) (on_runtime has_process)) (\<lambda>has_proc.
     bind_op (observation bk timeout_cap has_proc ready) (\<lambda>obs.
     seq_op (map_err_op apply_health_error (on_runtime (apply_health (is_healthy obs))))
     (seq_op (set_health obs)
     (return_op obs)))))"

text \<open>
  What an operation on one entry does to the parts it has no business with: it keeps the
  registration, the policy and the supervision state, and it does not move the clock.
\<close>

definition same_frame :: "('p, 'w) entry_state \<Rightarrow> ('p, 'w) entry_state \<Rightarrow> bool" where
  "same_frame st st' \<longleftrightarrow>
     se_registration (fst st') = se_registration (fst st)
     \<and> se_control (fst st') = se_control (fst st)
     \<and> se_supervision (fst st') = se_supervision (fst st)
     \<and> se_poisoned (fst st') = se_poisoned (fst st)
     \<and> wd_clock (snd st') = wd_clock (snd st)"

abbreviation frames :: "(('p, 'w) entry_state, 'a, 'x) op \<Rightarrow> bool" where
  "frames m \<equiv> (\<forall>st. same_frame st (snd (m st)))"

lemma same_frame_refl [simp]: "same_frame st st"
  by (simp add: same_frame_def)

lemma same_frame_trans: "same_frame a b \<Longrightarrow> same_frame b c \<Longrightarrow> same_frame a c"
  by (simp add: same_frame_def)

lemma frames_iff_keeps: "frames m \<longleftrightarrow> (\<forall>st0. keeps (same_frame st0) m)"
  by (meson keeps_def same_frame_refl same_frame_trans)

lemma keeps_frame_inspect [keeps_intro]:
  assumes "\<And>l p w. wd_clock (snd (f l p w)) = wd_clock w"
  shows "keeps (same_frame st0) (on_runtime (inspect_with f))"
proof (rule keepsI)
  fix st assume fr: "same_frame st0 st"
  obtain e w where st: "st = (e, w)" by (cases st)
  let ?rt = "se_runtime e"
  have "wd_clock (snd (f (rt_lifecycle ?rt) (rt_process ?rt) w)) = wd_clock w" by (rule assms)
  with fr show "same_frame st0 (snd (on_runtime (inspect_with f) st))"
    by (auto simp: st on_runtime_def inspect_with_spec same_frame_def split: prod.splits outcome.splits)
qed

lemma keeps_frame_on_world [keeps_intro]:
  assumes "\<And>w. wd_clock (snd (m w)) = wd_clock w"
  shows "keeps (same_frame st0) (on_world m)"
proof (rule keepsI)
  fix st assume "same_frame st0 st"
  then show "same_frame st0 (snd (on_world m st))"
    using assms [of "snd st"] by (auto simp: on_world_def same_frame_def split: prod.splits)
qed

lemma keeps_frame_on_runtime:
  assumes "\<And>rt (w :: 'w world). snd (snd (m (rt, w))) = w"
  shows "keeps (same_frame st0) (on_runtime m)"
proof (rule keepsI)
  fix st assume "same_frame st0 st"
  then show "same_frame st0 (snd (on_runtime m st))"
    using assms [of "se_runtime (fst st)" "snd st"]
    by (auto simp: on_runtime_def same_frame_def split: prod.splits)
qed

lemma has_process_world: "snd (snd (has_process (rt, w))) = w"
  by (simp add: has_process_spec)

lemma apply_health_world: "snd (snd (apply_health h (rt, w))) = w"
  by (auto simp: apply_health_def with_lock_def transition_def Let_def
      split: outcome.splits prod.splits sum.splits)

lemma map_op_clock: "wd_clock (snd (m w)) = wd_clock w \<Longrightarrow> wd_clock (snd (map_op f m w)) = wd_clock w"
  by (auto simp: map_op_def split: prod.splits)

lemma wall_clock_clock [simp]: "wd_clock (snd (wall_clock bk w)) = wd_clock w"
  by (auto simp: wall_clock_def dest: clock_fixed split: prod.split)

lemma observe_transport_clock [simp]: "wd_clock (snd (observe_transport bk c cap w)) = wd_clock w"
  by (auto simp: observe_transport_def dest!: clock_fixed split: prod.split option.split)

lemma process_ready_frame [keeps_intro]: "keeps (same_frame st0) (process_ready bk)"
  unfolding process_ready_def
  by (intro keeps_intro) (auto simp: return_op_def map_op_clock split: option.split)

lemma observation_frame [keeps_intro]: "keeps (same_frame st0) (observation bk cap hp ready)"
proof (rule keepsI)
  fix st assume "same_frame st0 st"
  moreover obtain e w where "st = (e, w)" by (cases st)
  ultimately show "same_frame st0 (snd (observation bk cap hp ready st))"
    by (auto simp: observation_def Let_def map_op_clock intro!: keepsD [OF keeps_frame_on_world])
qed

lemma observe_health_frame [keeps_intro]: "keeps (same_frame st0) (observe_health bk cap)"
  unfolding observe_health_def
  by (intro keeps_intro keeps_frame_on_runtime has_process_world apply_health_world)
     (auto simp: set_health_def same_frame_def intro: keeps_modify)

lemma observe_health_clock: "observe_health bk cap (e, w) = (r, (e', w')) \<Longrightarrow> wd_clock w' = wd_clock w"
  using keepsD [OF observe_health_frame, of "(e, w)" "(e, w)" bk cap]
  by (simp add: same_frame_def)

text \<open>
  Wait for a freshly started service: observe until it is healthy or the startup deadline of
  its health check has passed. The process is not touched when the wait fails.
\<close>

function wait_healthy ::
  "('w, 'p, 'e, 'n) backend \<Rightarrow> nat \<Rightarrow> nat \<Rightarrow> (('p, 'w) entry_state, unit, ('e, 'n) registry_error) op" where
  "wait_healthy bk deadline started (e, w) =
     (case instant_now bk w of (now1, w1) \<Rightarrow>
      case observe_health bk (Some (deadline - (now1 - started))) (e, w1) of
        (Ok obs, (e2, w2)) \<Rightarrow>
          if is_healthy obs then (Ok (), (e2, w2))
          else (case instant_now bk w2 of (now2, w3) \<Rightarrow>
            if deadline \<le> now2 - started
            then (Err (RegHealthFailed (case hs_detail obs of
                    None \<Rightarrow> ''health expectation did not pass'' | Some d \<Rightarrow> d)), (e2, w3))
            else wait_healthy bk deadline started
                   (e2, thread_sleep bk (min 100000000 (deadline - (now2 - started))) w3))
      | (Err x, st) \<Rightarrow> (Err x, st)
      | (Panic, st) \<Rightarrow> (Panic, st))"
  by pat_completeness auto
termination
  by (relation "measure (\<lambda>(bk, deadline, started, (e, w)). started + deadline - wd_clock w)")
     (auto dest!: clock_sym observe_health_clock [OF sym] intro!: poll_progress)

declare wait_healthy.simps [simp del]

definition wait_until_healthy ::
  "('w, 'p, 'e, 'n) backend \<Rightarrow> (('p, 'w) entry_state, unit, ('e, 'n) registry_error) op" where
  "wait_until_healthy bk = (\<lambda>(e, w). case instant_now bk w of
     (started, w') \<Rightarrow> wait_healthy bk (startup_deadline (reg_health (se_registration e))) started (e, w'))"

end
