(* ===== verification/Entry_Operations.thy ===== *)
theory Entry_Operations
  imports Service_Entry
begin

text \<open>
  The lifecycle operations of the registry on one entry
  (\<open>src/src/application/service_registry.rs\<close>): start, stop, restart, snapshot, and the
  periodic refresh that reconciles exits and health. Every operation is the whole method after
  the lookup of the service, from the mutation lock to the last field it writes.
\<close>

section \<open>Authority\<close>

definition authorize_op ::
  "actor \<Rightarrow> lifecycle_action \<Rightarrow> (('p, 'w) entry_state, unit, ('e, 'n) registry_error) op" where
  "authorize_op a act = (\<lambda>(e, w).
     case authorize (cs_policy (se_control e)) a act of
       Inl x \<Rightarrow> (Err (RegUnauthorized x), (e, w))
     | Inr _ \<Rightarrow> (Ok (), (e, w)))"

definition authorize_recovery ::
  "actor \<Rightarrow> (('p, 'w) entry_state, unit, ('e, 'n) registry_error) op" where
  "authorize_recovery a = (\<lambda>(e, w).
     if a = Recovery \<and> sv_desired_state (se_supervision e) = DesiredStopped
     then (Err (RegUnauthorized RecoveryDesiredStateStopped), (e, w))
     else (Ok (), (e, w)))"

text \<open>The accepted request: the operator hold and the last action.\<close>

definition accept_request ::
  "actor \<Rightarrow> lifecycle_action \<Rightarrow> reason \<Rightarrow> control_state \<Rightarrow> control_state" where
  "accept_request a act r cs =
     cs\<lparr>cs_policy := apply_user_action a act (cs_policy cs),
        cs_last_action := Some \<lparr>la_action = act, la_actor = a, la_reason = r\<rparr>\<rparr>"

definition record_started_op ::
  "('w, 'p, 'e, 'n) backend \<Rightarrow> lifecycle_action \<Rightarrow>
     (('p, 'w) entry_state, unit, ('e, 'n) registry_error) op" where
  "record_started_op bk act =
     bind_op (on_world (monotonic_clock bk)) (\<lambda>now.
     bind_op (on_world (wall_clock bk)) (\<lambda>ms.
     on_supervision (record_started now ms act)))"

section \<open>Start\<close>

definition run_start ::
  "('w, 'p, 'e, 'n) backend \<Rightarrow> (('p, 'w) entry_state, start_outcome, ('e, 'n) registry_error) op" where
  "run_start bk = (\<lambda>(e, w).
     map_err_op RegRuntime (on_runtime (start_with (spawn_callback bk (se_registration e)))) (e, w))"

definition start_entry ::
  "('w, 'p, 'e, 'n) backend \<Rightarrow> actor \<Rightarrow> reason \<Rightarrow>
     (('p, 'w) entry_state, start_outcome, ('e, 'n) registry_error) op" where
  "start_entry bk a r = with_mutation (
     seq_op (authorize_op a ActStart)
     (seq_op (authorize_recovery a)
     (bind_op (map_err_op has_process_error (on_runtime has_process)) (\<lambda>has_proc.
        if has_proc then return_op StartAlreadyRunning
        else
          seq_op (preflight_entry bk)
          (seq_op (on_control (accept_request a ActStart r))
          (seq_op (on_supervision (request_running a))
          (bind_op (run_start bk) (\<lambda>outcome.
             if outcome = StartStarted then
               seq_op (record_started_op bk ActStart)
               (seq_op (wait_until_healthy bk)
               (return_op outcome))
             else return_op outcome))))))))"

section \<open>Stop\<close>

record service_stop_result =
  sst_outcome :: stop_outcome
  sst_shutdown :: "tree_stop_report option"

record service_restart_result =
  srr_outcome :: restart_outcome
  srr_shutdown :: "tree_stop_report option"

text \<open>The local \<open>shutdown\<close> variable that the stop closure fills in is part of the callback state.\<close>

definition run_stop ::
  "('w, 'p, 'e, 'n) backend \<Rightarrow>
     (('p, 'w) entry_state, stop_outcome \<times> tree_stop_report option, ('e, 'n) registry_error) op" where
  "run_stop bk = (\<lambda>(e, w).
     case stop_with (stop_callback bk (reg_shutdown_grace (se_registration e)))
            (se_runtime e, (w, None)) of
       (r, (rt, (w', shutdown))) \<Rightarrow>
         (map_outcome (\<lambda>outcome. (outcome, shutdown)) (map_outcome_err RegRuntime r),
          (e\<lparr>se_runtime := rt\<rparr>, w')))"

definition remember_owned_pids ::
  "tree_stop_report option \<Rightarrow> supervision_state \<Rightarrow> supervision_state" where
  "remember_owned_pids shutdown sv = (case shutdown of
      None \<Rightarrow> sv
    | Some report \<Rightarrow> sv\<lparr>sv_last_owned_pids := tsr_owned_pids_before report\<rparr>)"

definition stop_entry ::
  "('w, 'p, 'e, 'n) backend \<Rightarrow> actor \<Rightarrow> reason \<Rightarrow>
     (('p, 'w) entry_state, service_stop_result, ('e, 'n) registry_error) op" where
  "stop_entry bk a r = with_mutation (
     seq_op (authorize_op a ActStop)
     (seq_op (on_control (accept_request a ActStop r))
     (seq_op (on_supervision request_stopped)
     (bind_op (run_stop bk) (\<lambda>(outcome, shutdown).
        seq_op (if outcome \<in> {StopStopped, StopTerminationPending}
                then set_health health_unknown else return_op ())
        (seq_op (if outcome = StopTerminationPending
                 then on_supervision (remember_owned_pids shutdown) else return_op ())
        (return_op \<lparr>sst_outcome = outcome, sst_shutdown = shutdown\<rparr>)))))))"

section \<open>Restart\<close>

definition on_first :: "('w, 'a, 'x) op \<Rightarrow> ('w \<times> 'r, 'a, 'x) op" where
  "on_first m = (\<lambda>(w, r). case m w of (out, w') \<Rightarrow> (out, (w', r)))"

definition run_restart ::
  "('w, 'p, 'e, 'n) backend \<Rightarrow>
     (('p, 'w) entry_state, restart_outcome \<times> tree_stop_report option, ('e, 'n) registry_error) op" where
  "run_restart bk = (\<lambda>(e, w).
     case restart_with (stop_callback bk (reg_shutdown_grace (se_registration e)))
            (on_first (spawn_callback bk (se_registration e))) (se_runtime e, (w, None)) of
       (r, (rt, (w', shutdown))) \<Rightarrow>
         (map_outcome (\<lambda>outcome. (outcome, shutdown)) (map_outcome_err RegRuntime r),
          (e\<lparr>se_runtime := rt\<rparr>, w')))"

definition restart_entry ::
  "('w, 'p, 'e, 'n) backend \<Rightarrow> actor \<Rightarrow> reason \<Rightarrow>
     (('p, 'w) entry_state, service_restart_result, ('e, 'n) registry_error) op" where
  "restart_entry bk a r = with_mutation (
     seq_op (authorize_op a ActRestart)
     (seq_op (authorize_recovery a)
     (seq_op (preflight_entry bk)
     (seq_op (on_control (accept_request a ActRestart r))
     (seq_op (on_supervision (request_running a))
     (bind_op (run_restart bk) (\<lambda>(outcome, shutdown).
        seq_op
          (if outcome = RestartTerminationPending then
             seq_op (on_supervision (remember_owned_pids shutdown \<circ> defer_restart_after_termination))
                    (set_health health_unknown)
           else
             seq_op (record_started_op bk ActRestart) (wait_until_healthy bk))
          (return_op \<lparr>srr_outcome = outcome, srr_shutdown = shutdown\<rparr>))))))))"

section \<open>Observation\<close>

definition snapshot_entry ::
  "('w, 'p, 'e, 'n) backend \<Rightarrow> (('p, 'w) entry_state, service_snapshot, ('e, 'n) registry_error) op" where
  "snapshot_entry bk = with_mutation (
     bind_op (map_err_op map_observation_error (on_runtime (inspect_with (\<lambda>lc process.
        case process of
          Some p \<Rightarrow> map_op (\<lambda>ps. (lc, Some (bk_root_pid bk p), ps)) (on_os (bk_owned_processes bk p))
        | None \<Rightarrow> return_op (lc, None, []))))) (\<lambda>(lc, root_pid, owned).
     get_op (\<lambda>(e, w).
       \<lparr>ss_id = reg_id (se_registration e),
        ss_label = reg_label (se_registration e),
        ss_depends_on = reg_dependencies (se_registration e),
        ss_ports = reg_ports (se_registration e),
        ss_lifecycle = lc,
        ss_root_pid = root_pid,
        ss_owned_pids = map pi_pid owned,
        ss_owned_processes = owned,
        ss_health = se_health e,
        ss_desired_state = sv_desired_state (se_supervision e),
        ss_started_at_unix_ms = sv_started_at_unix_ms (se_supervision e),
        ss_last_exit_code = sv_last_exit_code (se_supervision e),
        ss_last_exit_at_unix_ms = sv_last_exit_at_unix_ms (se_supervision e),
        ss_restart_count = sv_restart_count (se_supervision e),
        ss_operator_hold = cp_operator_hold (cs_policy (se_control e)),
        ss_last_action = cs_last_action (se_control e)\<rparr>)))"

text \<open>\<open>started.elapsed() >= stability_window\<close>; the clock is read only when there is a start time.\<close>

definition settled_op ::
  "('w, 'p, 'e, 'n) backend \<Rightarrow> nat \<Rightarrow> (('p, 'w) entry_state, bool, 'x) op" where
  "settled_op bk window = (\<lambda>(e, w). case sv_started_at (se_supervision e) of
       None \<Rightarrow> (Ok False, (e, w))
     | Some started \<Rightarrow>
         on_world (map_op (\<lambda>now. window \<le> now - started) (monotonic_clock bk)) (e, w))"

definition record_exit_op ::
  "('w, 'p, 'e, 'n) backend \<Rightarrow> nat \<Rightarrow> exit_status \<Rightarrow> (('p, 'w) entry_state, bool \<times> bool, 'x) op" where
  "record_exit_op bk window status =
     bind_op (settled_op bk window) (\<lambda>settled.
     bind_op (on_world (wall_clock bk)) (\<lambda>ms.
     (\<lambda>(e, w). case record_exit settled ms status (reg_restart_policy (se_registration e))
                      (cp_operator_hold (cs_policy (se_control e))) (se_supervision e) of
        (planned, sv) \<Rightarrow> (Ok planned, (e\<lparr>se_supervision := sv\<rparr>, w)))))"

definition exit_detail :: "exit_status \<Rightarrow> (i32 \<Rightarrow> string) \<Rightarrow> string" where
  "exit_detail status show_i32 = ''owned process tree exited'' @
     (case exit_code status of None \<Rightarrow> [] | Some code \<Rightarrow> '' with code '' @ show_i32 code)"

text \<open>Decimal formatting of a signed code.\<close>

definition show_i32 :: "i32 \<Rightarrow> string" where
  "show_i32 c = (if sint c < 0 then ''-'' @ decimal (nat (- sint c)) else decimal (nat (sint c)))"

definition exit_health_op ::
  "('w, 'p, 'e, 'n) backend \<Rightarrow> lifecycle_state \<Rightarrow> exit_status \<Rightarrow>
     (('p, 'w) entry_state, health_snapshot, 'x) op" where
  "exit_health_op bk previous status = (\<lambda>(e, w).
     if previous = TerminationPending then (Ok health_unknown, (e, w))
     else on_world (map_op (\<lambda>now. health_unhealthy now False
            (not_ready_transport (reg_health (se_registration e))) (exit_detail status show_i32))
            (wall_clock bk)) (e, w))"

definition take_last_owned_pids :: "(('p, 'w) entry_state, u32 list, 'x) op" where
  "take_last_owned_pids = (\<lambda>(e, w).
     (Ok (sv_last_owned_pids (se_supervision e)),
      (e\<lparr>se_supervision := (se_supervision e)\<lparr>sv_last_owned_pids := []\<rparr>\<rparr>, w)))"

definition reconcile_process_exit ::
  "('w, 'p, 'e, 'n) backend \<Rightarrow> nat \<Rightarrow>
     (('p, 'w) entry_state, process_exit_event option, ('e, 'n) registry_error) op" where
  "reconcile_process_exit bk window =
     bind_op (map_err_op map_observation_error (on_runtime (inspect_with (\<lambda>lc process.
        case process of
          Some p \<Rightarrow> map_op (\<lambda>pids. (lc, pids)) (on_os (bk_owned_pids bk p))
        | None \<Rightarrow> return_op (lc, []))))) (\<lambda>(previous, owned_pids).
     if owned_pids \<noteq> [] then
       seq_op (on_supervision (\<lambda>sv. sv\<lparr>sv_last_owned_pids := owned_pids\<rparr>)) (return_op None)
     else
       bind_op (map_err_op map_observation_error
          (on_runtime (reconcile_exit_with (on_process (bk_try_wait bk))))) (\<lambda>status.
       case status of
         None \<Rightarrow> return_op None
       | Some status \<Rightarrow>
           bind_op (record_exit_op bk window status) (\<lambda>(automatic, deferred).
           bind_op (exit_health_op bk previous status) (\<lambda>health.
           seq_op (set_health health)
           (bind_op take_last_owned_pids (\<lambda>pids.
           get_op (\<lambda>(e, w). Some
             \<lparr>pee_service_id = reg_id (se_registration e),
              pee_previous_state = previous,
              pee_owned_pids_before = pids,
              pee_exit_code = exit_code status,
              pee_successful = exit_success status,
              pee_automatic_restart_planned = automatic,
              pee_deferred_restart_planned = deferred\<rparr>)))))))"

definition refresh_entry ::
  "('w, 'p, 'e, 'n) backend \<Rightarrow> nat \<Rightarrow>
     (('p, 'w) entry_state, service_refresh, ('e, 'n) registry_error) op" where
  "refresh_entry bk window = with_mutation (
     bind_op (reconcile_process_exit bk window) (\<lambda>process_exit.
     bind_op (if process_exit \<noteq> None then get_op (\<lambda>(e, w). se_health e) else observe_health bk None)
       (\<lambda>health. return_op \<lparr>sr_health = health, sr_process_exit = process_exit\<rparr>)))"

section \<open>The invariant of an entry\<close>

text \<open>
  The process owner agrees with the lifecycle; beside that, \<open>P\<close> states what an operation
  keeps of the registration, the control state and the supervision state. Operations that do
  not write these parts keep \<open>entry_inv P\<close> for every \<open>P\<close>, which is their frame property.
\<close>

definition entry_inv ::
  "(service_registration \<Rightarrow> control_state \<Rightarrow> supervision_state \<Rightarrow> bool) \<Rightarrow> ('p, 'w) entry_state \<Rightarrow> bool" where
  "entry_inv P st \<longleftrightarrow> runtime_ok (se_runtime (fst st))
     \<and> P (se_registration (fst st)) (se_control (fst st)) (se_supervision (fst st))"

text \<open>
  A deferred restart is only remembered while the service is meant to run; \<open>Q\<close> is what
  holds of the registration, which no operation writes.
\<close>

definition sound ::
  "(service_registration \<Rightarrow> bool) \<Rightarrow> service_registration \<Rightarrow> control_state \<Rightarrow> supervision_state \<Rightarrow> bool" where
  "sound Q r cs sv \<longleftrightarrow> Q r \<and>
     (sv_restart_after_termination sv \<longrightarrow> sv_desired_state sv = DesiredRunning)"

definition entry_ok :: "'p service_entry \<Rightarrow> bool" where
  "entry_ok e \<longleftrightarrow> runtime_ok (se_runtime e)
     \<and> sound (\<lambda>_. True) (se_registration e) (se_control e) (se_supervision e)"

lemma entry_inv_sound:
  "entry_inv (sound Q) st \<longleftrightarrow> entry_ok (fst st) \<and> Q (se_registration (fst st))"
  by (auto simp: entry_inv_def entry_ok_def sound_def)

lemma service_entry_new_ok [simp]: "entry_ok (service_entry_new r)"
  by (simp add: entry_ok_def sound_def service_entry_new_def supervision_new_def)

lemma keeps_with_mutation [keeps_intro]:
  fixes m :: "(('p, 'w) entry_state, 'a, ('e, 'n) registry_error) op"
  assumes "keeps (entry_inv P) m"
  shows "keeps (entry_inv P) (with_mutation m)"
proof (rule keepsI)
  fix st :: "('p, 'w) entry_state" assume i: "entry_inv P st"
  obtain e w where st: "st = (e, w)" by (cases st)
  obtain r e' w' where m: "m (e, w) = (r, (e', w'))" by (metis prod.exhaust)
  have "entry_inv P (e', w')" using keepsD [OF assms i] by (simp add: st m)
  with i show "entry_inv P (snd (with_mutation m st))"
    by (cases r) (auto simp: st m with_mutation_def entry_inv_def)
qed

lemma keeps_on_runtime [keeps_intro]:
  fixes m :: "('p runtime \<times> 'w world, 'a, 'x) op"
  assumes "keeps runtime_ok_st m"
  shows "keeps (entry_inv P) (on_runtime m)"
proof (rule keepsI)
  fix st :: "('p, 'w) entry_state" assume i: "entry_inv P st"
  obtain e w where st: "st = (e, w)" by (cases st)
  have "runtime_ok (fst (snd (m (se_runtime e, w))))"
    using keepsD [OF assms, of "(se_runtime e, w)"] i by (simp add: st entry_inv_def)
  with i show "entry_inv P (snd (on_runtime m st))"
    by (auto simp: st on_runtime_def entry_inv_def split: prod.split)
qed

lemma keeps_on_world [keeps_intro]: "keeps (entry_inv P) (on_world m)"
  by (auto simp: keeps_def on_world_def entry_inv_def split: prod.split)

lemma keeps_on_control:
  "(\<And>r cs sv. P r cs sv \<Longrightarrow> P r (f cs) sv) \<Longrightarrow> keeps (entry_inv P) (on_control f)"
  by (auto simp: keeps_def on_control_def modify_op_def entry_inv_def)

lemma keeps_on_supervision:
  "(\<And>r cs sv. P r cs sv \<Longrightarrow> P r cs (f sv)) \<Longrightarrow> keeps (entry_inv P) (on_supervision f)"
  by (auto simp: keeps_def on_supervision_def modify_op_def entry_inv_def)

lemma keeps_set_health [keeps_intro]: "keeps (entry_inv P) (set_health h)"
  by (auto simp: keeps_def set_health_def modify_op_def entry_inv_def)

lemma keeps_authorize [keeps_intro]:
  "keeps (entry_inv P) (authorize_op a act)" "keeps (entry_inv P) (authorize_recovery a)"
  by (auto simp: keeps_def authorize_op_def authorize_recovery_def split: sum.split)

lemma keeps_preflight [keeps_intro]: "keeps (entry_inv P) (preflight_entry bk)"
  by (auto simp: keeps_def preflight_entry_def on_world_def entry_inv_def split: prod.split)

lemma keeps_run_start [keeps_intro]:
  fixes bk :: "('w, 'p, 'e, 'n) backend"
  shows "keeps (entry_inv P) (run_start bk)"
proof (rule keepsI)
  fix st :: "('p, 'w) entry_state"
  assume "entry_inv P st"
  then show "entry_inv P (snd (run_start bk st))"
    using keepsD [OF keeps_map_err [OF keeps_on_runtime [OF start_with_keeps]], of P st]
    by (cases st) (simp add: run_start_def)
qed

lemma stop_with_runtime_ok: "runtime_ok rt \<Longrightarrow> stop_with f (rt, s) = (r, (rt', s')) \<Longrightarrow> runtime_ok rt'"
  using keeps_run [OF stop_with_keeps, of "(rt, s)"] by fastforce

lemma restart_with_runtime_ok:
  "runtime_ok rt \<Longrightarrow> restart_with f g (rt, s) = (r, (rt', s')) \<Longrightarrow> runtime_ok rt'"
  using keeps_run [OF restart_with_keeps, of "(rt, s)"] by fastforce

lemma keeps_run_stop [keeps_intro]: "keeps (entry_inv P) (run_stop bk)"
  by (auto simp: keeps_def run_stop_def entry_inv_def dest: stop_with_runtime_ok split: prod.split)

lemma keeps_run_restart [keeps_intro]: "keeps (entry_inv P) (run_restart bk)"
  by (auto simp: keeps_def run_restart_def entry_inv_def dest: restart_with_runtime_ok split: prod.split)

lemma keeps_observation [keeps_intro]: "keeps (entry_inv P) (observation bk cap hp ready)"
  by (auto simp: keeps_def observation_def Let_def on_world_def entry_inv_def split: prod.split)

lemma keeps_process_ready [keeps_intro]: "keeps (entry_inv P) (process_ready bk)"
  unfolding process_ready_def by (intro keeps_intro)

lemma keeps_observe_health [keeps_intro]: "keeps (entry_inv P) (observe_health bk cap)"
  unfolding observe_health_def by (intro keeps_intro)

lemma entry_inv_world: "entry_inv P (e, w) \<longleftrightarrow> entry_inv P (e, w')"
  by (simp add: entry_inv_def)

lemma wait_healthy_inv:
  "entry_inv P (e, w) \<Longrightarrow> entry_inv P (snd (wait_healthy bk deadline started (e, w)))"
proof (induction bk deadline started "(e, w)" arbitrary: e w rule: wait_healthy.induct)
  case (1 bk deadline started e w)
  obtain now1 w1 where now1: "instant_now bk w = (now1, w1)" by fastforce
  let ?cap = "Some (deadline - (now1 - started))"
  obtain out e2 w2 where obs: "observe_health bk ?cap (e, w1) = (out, (e2, w2))" by (metis prod.exhaust)
  obtain now2 w3 where now2: "instant_now bk w2 = (now2, w3)" by fastforce
  have keep: "entry_inv P (e2, v)" for v
    using keeps_run [OF keeps_observe_health _ obs, of P] 1(2) entry_inv_world by metis
  show ?case
  proof (cases out)
    case (Ok h)
    then show ?thesis
      using 1(1) [OF now1 [symmetric] obs [symmetric] _ _ _ now2 [symmetric] _ keep]
      by (simp add: wait_healthy.simps [of bk deadline started e w] now1 obs now2 keep)
  qed (simp_all add: wait_healthy.simps [of bk deadline started e w] now1 obs keep)
qed

lemma keeps_wait_until_healthy [keeps_intro]: "keeps (entry_inv P) (wait_until_healthy bk)"
  by (auto simp: keeps_def wait_until_healthy_def split: prod.split
      intro: wait_healthy_inv entry_inv_world [THEN iffD1])

lemma keeps_record_started:
  "(\<And>r cs sv now ms. P r cs sv \<Longrightarrow> P r cs (record_started now ms act sv)) \<Longrightarrow>
     keeps (entry_inv P) (record_started_op bk act)"
  unfolding record_started_op_def by (intro keeps_intro keeps_on_supervision)

lemma keeps_settled [keeps_intro]: "keeps (entry_inv P) (settled_op bk window)"
  by (auto simp: keeps_def settled_op_def on_world_def entry_inv_def split: option.split prod.split)

lemma keeps_record_exit:
  fixes bk :: "('w, 'p, 'e, 'n) backend"
  assumes "\<And>r cs sv sd ms pol h x. P r cs sv \<Longrightarrow> P r cs (snd (record_exit sd ms st pol h sv))"
  shows "keeps (entry_inv P) (record_exit_op bk window st)"
  unfolding record_exit_op_def
proof (intro keeps_intro keepsI)
  fix sd ms and s :: "('p, 'w) entry_state" assume "entry_inv P s"
  then show "entry_inv P (snd (case s of (e, w) \<Rightarrow> case record_exit sd ms st
      (reg_restart_policy (se_registration e)) (cp_operator_hold (cs_policy (se_control e)))
      (se_supervision e) of (planned, sv) \<Rightarrow> (Ok planned, (e\<lparr>se_supervision := sv\<rparr>, w))))"
    using assms [of "se_registration (fst s)" "se_control (fst s)" "se_supervision (fst s)" sd ms]
    by (cases s) (auto simp: entry_inv_def split: prod.split, metis snd_conv)
qed

lemma keeps_exit_health [keeps_intro]: "keeps (entry_inv P) (exit_health_op bk previous st)"
  by (auto simp: keeps_def exit_health_op_def on_world_def entry_inv_def split: prod.split)

lemma keeps_take_pids:
  "(\<And>r cs sv. P r cs sv \<Longrightarrow> P r cs (sv\<lparr>sv_last_owned_pids := []\<rparr>)) \<Longrightarrow>
     keeps (entry_inv P) take_last_owned_pids"
  by (auto simp: keeps_def take_last_owned_pids_def entry_inv_def)

lemma keeps_case_prod [keeps_intro]:
  "(\<And>x y. keeps I (f x y)) \<Longrightarrow> keeps I (case p of (x, y) \<Rightarrow> f x y)"
  by (cases p) simp

lemma keeps_strengthen:
  assumes "\<And>s. I s \<Longrightarrow> J (snd (m s))" and "keeps J n" and "\<And>s. J s \<Longrightarrow> I s"
  shows "keeps I (seq_op m n)"
proof (rule keepsI)
  fix s assume "I s"
  then have "J (snd (m s))" by (rule assms(1))
  with assms(2) have "J (snd (seq_op m n s))"
    by (force simp: seq_op_def bind_op_def keeps_def split: prod.split outcome.split)
  then show "I (snd (seq_op m n s))" by (rule assms(3))
qed

section \<open>Every operation keeps it\<close>

lemma start_entry_keeps: "keeps (entry_inv (sound Q)) (start_entry bk a r)"
  unfolding start_entry_def
  by (intro keeps_intro keeps_on_supervision keeps_on_control keeps_record_started)
     (simp_all add: sound_def)

lemma stop_entry_keeps: "keeps (entry_inv (sound Q)) (stop_entry bk a r)"
  unfolding stop_entry_def
  by (intro keeps_intro keeps_on_supervision keeps_on_control)
     (simp_all add: sound_def remember_owned_pids_def split: option.split)

definition meant_to_run ::
  "(service_registration \<Rightarrow> bool) \<Rightarrow> service_registration \<Rightarrow> control_state \<Rightarrow> supervision_state \<Rightarrow> bool" where
  "meant_to_run Q r cs sv \<longleftrightarrow> Q r \<and> sv_desired_state sv = DesiredRunning"

lemma restart_entry_keeps: "keeps (entry_inv (sound Q)) (restart_entry bk a r)"
proof -
  have tail: "keeps (entry_inv (meant_to_run Q)) (bind_op (run_restart bk) (\<lambda>(outcome, shutdown).
      seq_op
        (if outcome = RestartTerminationPending then
           seq_op (on_supervision (remember_owned_pids shutdown \<circ> defer_restart_after_termination))
                  (set_health health_unknown)
         else seq_op (record_started_op bk ActRestart) (wait_until_healthy bk))
        (return_op \<lparr>srr_outcome = outcome, srr_shutdown = shutdown\<rparr>)))"
    by (intro keeps_intro keeps_on_supervision keeps_record_started)
       (simp_all add: meant_to_run_def remember_owned_pids_def defer_restart_after_termination_def
          split: option.split)
  show ?thesis
    unfolding restart_entry_def
    by (intro keeps_intro keeps_on_control
          keeps_strengthen [where m = "on_supervision (request_running a)", OF _ tail])
       (auto simp: sound_def meant_to_run_def entry_inv_def on_supervision_def modify_op_def
          split: prod.split)
qed

lemma snapshot_entry_keeps: "keeps (entry_inv P) (snapshot_entry bk)"
  unfolding snapshot_entry_def by (intro keeps_intro)

lemma reconcile_process_exit_keeps [keeps_intro]:
  "keeps (entry_inv (sound Q)) (reconcile_process_exit bk window)"
  unfolding reconcile_process_exit_def
  by (intro keeps_intro keeps_on_supervision keeps_record_exit keeps_take_pids)
     (auto simp: sound_def record_exit_def Let_def)

lemma refresh_entry_keeps: "keeps (entry_inv (sound Q)) (refresh_entry bk window)"
  unfolding refresh_entry_def by (intro keeps_intro)

section \<open>Errors that do not happen\<close>

text \<open>
  An illegal lifecycle transition or a broken internal state is never reported: the errors
  of the operations are the ones a caller can act on.
\<close>

fun illegal_error :: "('e, 'n) registry_error \<Rightarrow> bool" where
  "illegal_error (RegTransition _) = True"
| "illegal_error RegInternalState = True"
| "illegal_error (RegRuntime x) = is_transition x"
| "illegal_error _ = False"

lemma avoids_with_mutation [avoids_intro]:
  "avoids I illegal_error m \<Longrightarrow> avoids I illegal_error (with_mutation m)"
  by (force simp: avoids_def with_mutation_def split: prod.splits outcome.splits)

lemma avoids_on_runtime [avoids_intro]:
  fixes m :: "('p runtime \<times> 'w world, 'a, 'x) op"
  assumes "avoids runtime_ok_st B m"
  shows "avoids (entry_inv P) B (on_runtime m)"
proof (rule avoidsI)
  fix st :: "('p, 'w) entry_state" and x
  assume "entry_inv P st" and "fst (on_runtime m st) = Err x"
  then show "\<not> B x"
    using avoidsD [OF assms, of "(se_runtime (fst st), snd st)" x]
    by (cases st) (auto simp: on_runtime_def entry_inv_def split: prod.splits)
qed

lemma avoids_authorize [avoids_intro]:
  "avoids I illegal_error (authorize_op a act)" "avoids I illegal_error (authorize_recovery a)"
  by (auto simp: avoids_def authorize_op_def authorize_recovery_def split: sum.splits)

lemma avoids_steps [avoids_intro]:
  "avoids I B (on_control f)" "avoids I B (on_supervision g)" "avoids I B (set_health h)"
  by (simp_all add: on_control_def on_supervision_def set_health_def avoids_simple)

lemma avoids_clocks [avoids_intro]:
  "avoids I B (on_world (monotonic_clock bk))" "avoids I B (on_world (wall_clock bk))"
  by (auto simp: avoids_def on_world_def monotonic_clock_def wall_clock_def split: prod.splits)

lemma avoids_preflight [avoids_intro]: "avoids I illegal_error (preflight_entry bk)"
  by (auto simp: avoids_def preflight_entry_def on_world_def map_err_op_def split: prod.splits)

lemma avoids_start_with: "avoids (entry_inv P) is_transition (on_runtime (start_with f))"
  by (intro avoids_intro)

lemma avoids_run_start [avoids_intro]:
  fixes bk :: "('w, 'p, 'e, 'n) backend"
  shows "avoids (entry_inv P) illegal_error (run_start bk)"
proof (rule avoidsI)
  fix st :: "('p, 'w) entry_state" and x
  assume i: "entry_inv P st" and err: "fst (run_start bk st) = Err x"
  let ?m = "map_err_op RegRuntime (on_runtime (start_with (spawn_callback bk (se_registration (fst st)))))"
  have "avoids (entry_inv P) illegal_error ?m"
    by (intro avoids_map_err) (simp add: avoids_start_with)
  moreover have "run_start bk st = ?m st" by (cases st) (simp add: run_start_def)
  ultimately show "\<not> illegal_error x" using i err avoidsD by metis
qed

lemma avoids_run_stop [avoids_intro]: "avoids (entry_inv P) illegal_error (run_stop bk)"
  by (auto simp: avoids_def run_stop_def entry_inv_def map_outcome_def split: prod.splits outcome.splits)
     (metis avoidsD fst_conv map_outcome_err_iff(3) runtime_avoids(2) illegal_error.simps(3))

lemma avoids_run_restart [avoids_intro]: "avoids (entry_inv P) illegal_error (run_restart bk)"
  by (auto simp: avoids_def run_restart_def entry_inv_def map_outcome_def split: prod.splits outcome.splits)
     (metis avoidsD fst_conv map_outcome_err_iff(3) runtime_avoids(3) illegal_error.simps(3))

lemma observation_no_error: "fst (observation bk cap hp ready st) \<noteq> Err x"
  by (auto simp: observation_def on_world_def Let_def map_op_def wall_clock_def observe_transport_def
      split: prod.splits option.splits)

lemma process_ready_Ok:
  assumes "process_ready bk (e, w) = (Ok ready, (e', w'))"
  shows "\<not> rt_poisoned (se_runtime e')" and "se_runtime e' = se_runtime e"
  using assms
  by (auto simp: process_ready_def map_err_op_def on_runtime_def inspect_with_spec
      split: prod.splits outcome.splits if_splits)

lemma process_ready_avoids [avoids_intro]: "avoids I illegal_error (process_ready bk)"
  by (auto simp: avoids_def process_ready_def map_err_op_def on_runtime_def inspect_with_spec
      split: prod.splits outcome.splits if_splits)

lemma has_process_op:
  fixes e :: "'p service_entry" and w :: "'w world"
  assumes "\<not> rt_poisoned (se_runtime e)"
  shows "map_err_op f (on_runtime has_process) (e, w) = (Ok (rt_process (se_runtime e) \<noteq> None), (e, w))"
  using assms by (simp add: map_err_op_def on_runtime_def has_process_spec)

lemma observe_health_ready:
  assumes "process_ready bk (e, w) = (Ok ready, (e1, w1))"
  shows "observe_health bk cap (e, w) =
    bind_op (observation bk cap (rt_process (se_runtime e1) \<noteq> None) ready) (\<lambda>obs.
      seq_op (map_err_op apply_health_error (on_runtime (apply_health (is_healthy obs))))
      (seq_op (set_health obs) (return_op obs))) (e1, w1)"
  using process_ready_Ok(1) [OF assms] unfolding observe_health_def
  by (simp only: bind_op_run [where m = "process_ready bk", OF assms]
      bind_op_run [where m = "map_err_op (\<lambda>_. RegInternalState) (on_runtime has_process)",
        OF has_process_op] not_False_eq_True)

lemma apply_health_avoids:
  fixes w :: "'w"
  shows "avoids runtime_ok_st (\<lambda>x. illegal_error (apply_health_error x :: ('e, 'n) registry_error))
     (apply_health h :: ('p runtime \<times> 'w, unit, unit runtime_error) op)"
proof (rule avoidsI)
  fix s :: "'p runtime \<times> 'w" and y
  assume "runtime_ok_st s" and "fst (apply_health h s) = Err y"
  then have "y = RtPoisoned"
    by (cases s) (auto simp: apply_health_spec split: if_splits)
  then show "\<not> illegal_error (apply_health_error y :: ('e, 'n) registry_error)" by simp
qed

lemma avoids_has_process [avoids_intro]:
  fixes f :: "unit runtime_error \<Rightarrow> ('e, 'n) registry_error"
  assumes "\<not> illegal_error (f RtPoisoned)"
  shows "avoids (entry_inv P) illegal_error (map_err_op f (on_runtime has_process))"
  using assms
  by (auto simp: avoids_def map_err_op_def on_runtime_def has_process_spec split: if_splits)

lemma observe_health_avoids [avoids_intro]:
  fixes bk :: "('w, 'p, 'e, 'n) backend"
  shows "avoids (entry_inv P) illegal_error (observe_health bk cap)"
proof (rule avoidsI)
  fix st :: "('p, 'w) entry_state" and x
  assume i: "entry_inv P st" and err: "fst (observe_health bk cap st) = Err x"
  obtain e w where st: "st = (e, w)" by (cases st)
  obtain r e1 w1 where ready: "process_ready bk (e, w) = (r, (e1, w1))" by (metis prod.exhaust)
  show "\<not> illegal_error x"
  proof (cases r)
    case (Ok b)
    let ?m = "bind_op (observation bk cap (rt_process (se_runtime e1) \<noteq> None) b) (\<lambda>obs.
      seq_op (map_err_op apply_health_error (on_runtime (apply_health (is_healthy obs))))
      (seq_op (set_health obs) (return_op obs)))"
    have "avoids (entry_inv P) illegal_error ?m"
      by (intro avoids_bind avoids_seq avoids_map_err avoids_on_runtime apply_health_avoids
          avoids_steps avoids_simple keeps_intro) (simp add: avoids_def observation_no_error)
    moreover have "entry_inv P (e1, w1)"
      using keeps_run [OF keeps_process_ready i [unfolded st] ready] .
    moreover have "fst (?m (e1, w1)) = Err x"
      using err by (simp only: st observe_health_ready [OF ready [unfolded Ok]])
    ultimately show ?thesis by (rule avoidsD)
  next
    case (Err y)
    have "avoids (\<lambda>_. True) illegal_error (process_ready bk)" by (rule process_ready_avoids)
    from avoidsD [OF this, of "(e, w)" y] have "\<not> illegal_error y"
      using ready by (simp add: Err)
    moreover have "y = x" using err ready by (simp add: observe_health_def bind_op_def st Err)
    ultimately show ?thesis by simp
  next
    case Panic
    then show ?thesis using err ready by (simp add: observe_health_def bind_op_def st)
  qed
qed

lemma wait_healthy_avoids:
  "entry_inv P (e, w) \<Longrightarrow> fst (wait_healthy bk deadline started (e, w)) = Err x \<Longrightarrow> \<not> illegal_error x"
proof (induction bk deadline started "(e, w)" arbitrary: e w rule: wait_healthy.induct)
  case (1 bk deadline started e w)
  obtain now1 w1 where now1: "instant_now bk w = (now1, w1)" by fastforce
  let ?cap = "Some (deadline - (now1 - started))"
  obtain out e2 w2 where obs: "observe_health bk ?cap (e, w1) = (out, (e2, w2))" by (metis prod.exhaust)
  obtain now2 w3 where now2: "instant_now bk w2 = (now2, w3)" by fastforce
  have i1: "entry_inv P (e, w1)" using 1(2) entry_inv_world by metis
  have keep: "entry_inv P (e2, v)" for v
    using keeps_run [OF keeps_observe_health i1 obs] entry_inv_world by metis
  note step = wait_healthy.simps [of bk deadline started e w] now1 obs now2
  show ?case
  proof (cases out)
    case (Ok h)
    then show ?thesis
      using 1(1) [OF now1 [symmetric] obs [symmetric] _ _ _ now2 [symmetric] _ keep] 1(3)
      by (auto simp: step split: if_splits)
  next
    case (Err y)
    then show ?thesis
      using 1(3) avoidsD [OF observe_health_avoids i1, of bk ?cap y] by (simp add: step)
  next
    case Panic
    then show ?thesis using 1(3) by (simp add: step)
  qed
qed

lemma wait_until_healthy_avoids [avoids_intro]:
  "avoids (entry_inv P) illegal_error (wait_until_healthy bk)"
  by (auto simp: avoids_def wait_until_healthy_def split: prod.splits
      dest!: wait_healthy_avoids [rotated] intro: entry_inv_world [THEN iffD1])

lemma record_started_avoids [avoids_intro]:
  "(\<And>r cs sv now ms. P r cs sv \<Longrightarrow> P r cs (record_started now ms act sv)) \<Longrightarrow>
     avoids (entry_inv P) illegal_error (record_started_op bk act)"
  unfolding record_started_op_def by (intro avoids_intro keeps_intro keeps_on_supervision)

lemma start_entry_avoids: "avoids (entry_inv (sound Q)) illegal_error (start_entry bk a r)"
  unfolding start_entry_def
  by (intro avoids_intro keeps_intro keeps_on_supervision keeps_on_control keeps_record_started)
     (auto simp: sound_def)

lemma stop_entry_avoids: "avoids (entry_inv (sound Q)) illegal_error (stop_entry bk a r)"
  unfolding stop_entry_def
  by (intro avoids_intro keeps_intro keeps_on_supervision keeps_on_control)
     (auto simp: sound_def remember_owned_pids_def split: option.split)

lemma restart_entry_avoids: "avoids (entry_inv (sound Q)) illegal_error (restart_entry bk a r)"
proof -
  have run: "keeps (entry_inv P) (run_restart bk)" "avoids (entry_inv P) illegal_error (run_restart bk)"
    for P by (rule keeps_run_restart, rule avoids_run_restart)
  let ?tail = "bind_op (run_restart bk) (\<lambda>(outcome, shutdown).
      seq_op
        (if outcome = RestartTerminationPending then
           seq_op (on_supervision (remember_owned_pids shutdown \<circ> defer_restart_after_termination))
                  (set_health health_unknown)
         else seq_op (record_started_op bk ActRestart) (wait_until_healthy bk))
        (return_op \<lparr>srr_outcome = outcome, srr_shutdown = shutdown\<rparr>))"
  have tail: "avoids (entry_inv (meant_to_run Q)) illegal_error ?tail"
    by (intro avoids_intro keeps_intro keeps_on_supervision keeps_record_started)
       (auto simp: meant_to_run_def remember_owned_pids_def defer_restart_after_termination_def
          split: option.split)
  have body: "avoids (entry_inv (sound Q)) illegal_error (seq_op (on_supervision (request_running a)) ?tail)"
  proof (rule avoidsI)
    fix st e assume i: "entry_inv (sound Q) st"
      and err: "fst (seq_op (on_supervision (request_running a)) ?tail st) = Err e"
    obtain en w where st: "st = (en, w)" by (cases st)
    let ?st' = "(en\<lparr>se_supervision := request_running a (se_supervision en)\<rparr>, w)"
    have run: "seq_op (on_supervision (request_running a)) ?tail st = ?tail ?st'"
      unfolding seq_op_def st
      by (rule bind_op_run) (simp add: on_supervision_def modify_op_def)
    have inv: "entry_inv (meant_to_run Q) ?st'"
      using i by (simp add: st entry_inv_def meant_to_run_def sound_def)
    show "\<not> illegal_error e" by (rule avoidsD [OF tail inv err [unfolded run]])
  qed
  show ?thesis
    unfolding restart_entry_def
    by (rule avoids_with_mutation,
        (rule avoids_seq, (rule avoids_authorize avoids_preflight avoids_steps),
         (intro keeps_intro keeps_on_control; simp add: sound_def))+, rule body)
qed

lemma avoids_inspect [avoids_intro]:
  fixes f :: "lifecycle_state \<Rightarrow> 'p option \<Rightarrow> ('w world, 'a, 'e) op"
  shows "avoids (entry_inv P) illegal_error
    (map_err_op (map_observation_error :: 'e runtime_error \<Rightarrow> ('e, 'n) registry_error)
       (on_runtime (inspect_with f)))"
  by (auto simp: avoids_def map_err_op_def on_runtime_def inspect_with_spec
      split: prod.splits outcome.splits if_splits)

lemma reconcile_exit_error:
  assumes "runtime_ok rt" and "fst (reconcile_exit_with f (rt, s)) = Err x"
  shows "x = RtPoisoned \<or> (\<exists>y. x = RtInspect y)"
  using assms by (auto simp: reconcile_exit_with_spec split: prod.splits outcome.splits if_splits option.splits)

lemma avoids_reconcile_exit [avoids_intro]:
  fixes f :: "('p \<times> 'w world, exit_status option, 'e) op"
  shows "avoids (entry_inv P) illegal_error
    (map_err_op (map_observation_error :: 'e runtime_error \<Rightarrow> ('e, 'n) registry_error)
       (on_runtime (reconcile_exit_with f)))"
proof (intro avoids_map_err avoids_on_runtime avoidsI)
  fix st :: "'p runtime \<times> 'w world" and x
  assume "runtime_ok_st st" and "fst (reconcile_exit_with f st) = Err x"
  then show "\<not> illegal_error (map_observation_error x :: ('e, 'n) registry_error)"
    using reconcile_exit_error by (cases st) fastforce
qed

lemma avoids_clock_steps [avoids_intro]:
  "avoids I B (record_exit_op bk window st)" "avoids I B (exit_health_op bk previous st)"
  "avoids I B take_last_owned_pids"
  by (auto simp: avoids_def record_exit_op_def settled_op_def exit_health_op_def take_last_owned_pids_def
      on_world_def map_op_def wall_clock_def monotonic_clock_def bind_op_def
      split: prod.splits option.splits if_splits)

lemma snapshot_entry_avoids: "avoids (entry_inv P) illegal_error (snapshot_entry bk)"
  unfolding snapshot_entry_def by (intro avoids_intro keeps_intro)

lemma refresh_entry_avoids: "avoids (entry_inv (sound Q)) illegal_error (refresh_entry bk window)"
proof -
  have "avoids (entry_inv (sound Q)) illegal_error (reconcile_process_exit bk window)"
    unfolding reconcile_process_exit_def
    by (intro avoids_intro keeps_intro keeps_on_supervision keeps_record_exit keeps_take_pids)
       (auto simp: sound_def record_exit_def Let_def)
  then show ?thesis
    unfolding refresh_entry_def by (intro avoids_intro keeps_intro)
qed

end
