(* ===== verification/Registry.thy ===== *)
theory Registry
  imports Entry_Operations
begin

text \<open>
  The registry of \<open>src/src/application/service_registry.rs\<close>: the ordered map of entries behind
  a read-write lock, and the operations of the entries lifted to it. Only
  \<open>reconcile_registrations\<close> takes the lock for writing and it calls no adapter, so the lock is
  never poisoned. The state of an operation is the map paired with the world.
\<close>

type_synonym 'p services = "(string, 'p service_entry) btree"
type_synonym ('p, 'w) registry_state = "'p services \<times> 'w world"

section \<open>Construction and lookup\<close>

datatype registry_build_error = DuplicateServiceId string

text \<open>The \<open>Entry::Vacant\<close>/\<open>Entry::Occupied\<close> loop of the two operations that take registrations.\<close>

fun collect_unique ::
  "(service_registration \<Rightarrow> 'v) \<Rightarrow> service_registration list \<Rightarrow> (string, 'v) btree
     \<Rightarrow> string + (string, 'v) btree" where
  "collect_unique f [] m = Inr m"
| "collect_unique f (r # rs) m =
     (if bt_contains m (reg_id r) then Inl (reg_id r)
      else collect_unique f rs (bt_insert (reg_id r) (f r) m))"

definition registry_new :: "service_registration list \<Rightarrow> registry_build_error + 'p services" where
  "registry_new regs = (case collect_unique service_entry_new regs bt_empty of
      Inl sid \<Rightarrow> Inl (DuplicateServiceId sid)
    | Inr services \<Rightarrow> Inr services)"

definition service_ids :: "'p services \<Rightarrow> string list" where
  "service_ids services = bt_keys services"

text \<open>\<open>Self::entry(&services, service_id)?\<close> and the operation on the entry found.\<close>

definition with_entry ::
  "string \<Rightarrow> (('p, 'w) entry_state, 'a, ('e, 'n) registry_error) op \<Rightarrow>
     (('p, 'w) registry_state, 'a, ('e, 'n) registry_error) op" where
  "with_entry sid m = (\<lambda>(services, w). case bt_get services sid of
      None \<Rightarrow> (Err (RegServiceNotFound sid), (services, w))
    | Some e \<Rightarrow> (case m (e, w) of (r, (e', w')) \<Rightarrow> (r, (bt_insert sid e' services, w'))))"

section \<open>Lifecycle operations\<close>

definition preflight_launches ::
  "('w, 'p, 'e, 'n) backend \<Rightarrow> string list \<Rightarrow> (('p, 'w) registry_state, unit, ('e, 'n) registry_error) op" where
  "preflight_launches bk = each_op (\<lambda>sid. with_entry sid (preflight_entry bk))"

definition registry_start ::
  "('w, 'p, 'e, 'n) backend \<Rightarrow> string \<Rightarrow> actor \<Rightarrow> reason \<Rightarrow>
     (('p, 'w) registry_state, start_outcome, ('e, 'n) registry_error) op" where
  "registry_start bk sid a r = with_entry sid (start_entry bk a r)"

definition stop_with_report ::
  "('w, 'p, 'e, 'n) backend \<Rightarrow> string \<Rightarrow> actor \<Rightarrow> reason \<Rightarrow>
     (('p, 'w) registry_state, service_stop_result, ('e, 'n) registry_error) op" where
  "stop_with_report bk sid a r = with_entry sid (stop_entry bk a r)"

definition registry_stop ::
  "('w, 'p, 'e, 'n) backend \<Rightarrow> string \<Rightarrow> actor \<Rightarrow> reason \<Rightarrow>
     (('p, 'w) registry_state, stop_outcome, ('e, 'n) registry_error) op" where
  "registry_stop bk sid a r = map_op sst_outcome (stop_with_report bk sid a r)"

definition restart_with_report ::
  "('w, 'p, 'e, 'n) backend \<Rightarrow> string \<Rightarrow> actor \<Rightarrow> reason \<Rightarrow>
     (('p, 'w) registry_state, service_restart_result, ('e, 'n) registry_error) op" where
  "restart_with_report bk sid a r = with_entry sid (restart_entry bk a r)"

definition registry_restart ::
  "('w, 'p, 'e, 'n) backend \<Rightarrow> string \<Rightarrow> actor \<Rightarrow> reason \<Rightarrow>
     (('p, 'w) registry_state, restart_outcome, ('e, 'n) registry_error) op" where
  "registry_restart bk sid a r = map_op srr_outcome (restart_with_report bk sid a r)"

section \<open>Operations on every service\<close>

text \<open>\<open>values().map(f).collect::<Result<Vec<_>, _>>()\<close>: in key order, up to the first failure.\<close>

fun collect_entries ::
  "(('p, 'w) entry_state, 'a, 'x) op \<Rightarrow> (('p, 'w) registry_state, 'a list, 'x) op" where
  "collect_entries m ([], w) = (Ok [], ([], w))"
| "collect_entries m ((k, e) # services, w) =
     (case m (e, w) of
        (Ok a, (e', w')) \<Rightarrow>
          (case collect_entries m (services, w') of
             (r, (services', w'')) \<Rightarrow> (map_outcome ((#) a) r, ((k, e') # services', w'')))
      | (Err x, (e', w')) \<Rightarrow> (Err x, ((k, e') # services, w'))
      | (Panic, (e', w')) \<Rightarrow> (Panic, ((k, e') # services, w')))"

definition snapshots ::
  "('w, 'p, 'e, 'n) backend \<Rightarrow>
     (('p, 'w) registry_state, service_snapshot list, ('e, 'n) registry_error) op" where
  "snapshots bk = collect_entries (snapshot_entry bk)"

definition refresh_services ::
  "('w, 'p, 'e, 'n) backend \<Rightarrow> nat \<Rightarrow>
     (('p, 'w) registry_state, service_refresh list, ('e, 'n) registry_error) op" where
  "refresh_services bk window = collect_entries (refresh_entry bk window)"

definition refresh_healths ::
  "('w, 'p, 'e, 'n) backend \<Rightarrow> nat \<Rightarrow>
     (('p, 'w) registry_state, health_snapshot list, ('e, 'n) registry_error) op" where
  "refresh_healths bk window = map_op (map sr_health) (refresh_services bk window)"

section \<open>Reconciliation of the topology\<close>

record reconcile_outcome =
  ro_added :: "string list"
  ro_updated :: "string list"
  ro_removed :: "string list"

definition reconcile_changed :: "reconcile_outcome \<Rightarrow> bool" where
  "reconcile_changed o' = (\<not> (ro_added o' = [] \<and> ro_updated o' = [] \<and> ro_removed o' = []))"

datatype 'e reconcile_error =
  RecDuplicateServiceId string
| RecServiceActive string
| RecLockPoisoned
| RecInternalState
| RecObservation 'e

text \<open>
  The check of one entry whose registration changes or goes away. The runtime is only asked
  whether it has a process, which fails when its lock is poisoned and in no other way.
\<close>

definition reconcile_check ::
  "(string, service_registration) btree \<Rightarrow> string \<times> 'p service_entry \<Rightarrow> 'e reconcile_error option" where
  "reconcile_check desired = (\<lambda>(sid, e).
     if bt_get desired sid = Some (se_registration e) then None
     else if rt_poisoned (se_runtime e) then Some RecLockPoisoned
     else if sv_desired_state (se_supervision e) \<noteq> DesiredStopped \<or> rt_process (se_runtime e) \<noteq> None
       then Some (RecServiceActive sid)
     else None)"

fun first_error :: "('x \<Rightarrow> 'y option) \<Rightarrow> 'x list \<Rightarrow> 'y option" where
  "first_error f [] = None"
| "first_error f (x # xs) = (case f x of None \<Rightarrow> first_error f xs | Some e \<Rightarrow> Some e)"

text \<open>The loop over the desired registrations: \<open>current\<close> shrinks, \<open>next\<close> and the outcome grow.\<close>

fun reconcile_loop ::
  "(string \<times> service_registration) list \<Rightarrow> 'p services \<Rightarrow> 'p services \<Rightarrow> reconcile_outcome \<Rightarrow>
     'p services \<times> reconcile_outcome" where
  "reconcile_loop [] current next out =
     (next, out\<lparr>ro_removed := ro_removed out @ bt_keys current\<rparr>)"
| "reconcile_loop ((sid, r) # desired) current next out =
     (case bt_get current sid of
        Some e \<Rightarrow>
          if se_registration e = r
          then reconcile_loop desired (bt_remove sid current) (bt_insert sid e next) out
          else reconcile_loop desired (bt_remove sid current)
                 (bt_insert sid (service_entry_new r) next)
                 (out\<lparr>ro_updated := ro_updated out @ [sid]\<rparr>)
      | None \<Rightarrow>
          reconcile_loop desired (bt_remove sid current) (bt_insert sid (service_entry_new r) next)
            (out\<lparr>ro_added := ro_added out @ [sid]\<rparr>))"

definition reconcile_registrations ::
  "service_registration list \<Rightarrow> 'p services \<Rightarrow> ('e reconcile_error + reconcile_outcome) \<times> 'p services" where
  "reconcile_registrations regs services =
     (case collect_unique (\<lambda>r. r) regs bt_empty of
        Inl sid \<Rightarrow> (Inl (RecDuplicateServiceId sid), services)
      | Inr desired \<Rightarrow>
          (case first_error (reconcile_check desired) services of
             Some x \<Rightarrow> (Inl x, services)
           | None \<Rightarrow>
               (case reconcile_loop desired services bt_empty
                       \<lparr>ro_added = [], ro_updated = [], ro_removed = []\<rparr> of
                  (next, out) \<Rightarrow> (Inr out, next))))"

section \<open>The invariant\<close>

definition named_ok :: "string \<Rightarrow> 'p service_entry \<Rightarrow> bool" where
  "named_ok k e \<longleftrightarrow> entry_ok e \<and> reg_id (se_registration e) = k"

definition registry_ok :: "'p services \<Rightarrow> bool" where
  "registry_ok services \<longleftrightarrow>
     bt_invar services \<and> (\<forall>k e. bt_get services k = Some e \<longrightarrow> named_ok k e)"

abbreviation registry_ok_st :: "('p, 'w) registry_state \<Rightarrow> bool" where
  "registry_ok_st st \<equiv> registry_ok (fst st)"

abbreviation named :: "string \<Rightarrow> service_registration \<Rightarrow> bool" where
  "named k r \<equiv> reg_id r = k"

lemma named_ok_inv: "named_ok k e \<longleftrightarrow> entry_inv (sound (named k)) (e, w)"
  by (simp add: named_ok_def entry_inv_sound)

lemma registry_okD: "registry_ok services \<Longrightarrow> bt_get services k = Some e \<Longrightarrow> named_ok k e"
  by (simp add: registry_ok_def)

lemma registry_ok_invar: "registry_ok services \<Longrightarrow> bt_invar services"
  by (simp add: registry_ok_def)

lemma registry_ok_insert: "registry_ok services \<Longrightarrow> named_ok k e \<Longrightarrow> registry_ok (bt_insert k e services)"
  by (simp add: registry_ok_def)

lemma service_entry_new_named: "named_ok (reg_id r) (service_entry_new r)"
  by (simp add: named_ok_def) (simp add: service_entry_new_def)

lemma collect_unique_ok:
  assumes "collect_unique service_entry_new regs m = Inr services" and "registry_ok m"
  shows "registry_ok services"
  using assms
  by (induction regs arbitrary: m)
     (auto split: if_splits intro: registry_ok_insert service_entry_new_named)

lemma registry_new_ok: "registry_new regs = Inr services \<Longrightarrow> registry_ok services"
  by (auto simp: registry_new_def registry_ok_def [of bt_empty] split: sum.splits
      dest!: collect_unique_ok)

text \<open>An operation of an entry keeps the invariant of the registry.\<close>

lemma with_entry_keeps [keeps_intro]:
  fixes m :: "(('p, 'w) entry_state, 'a, ('e, 'n) registry_error) op"
  assumes "keeps (entry_inv (sound (named sid))) m"
  shows "keeps registry_ok_st (with_entry sid m)"
proof (rule keepsI)
  fix st :: "('p, 'w) registry_state" assume ok: "registry_ok_st st"
  obtain services w where st: "st = (services, w)" by (cases st)
  show "registry_ok_st (snd (with_entry sid m st))"
  proof (cases "bt_get services sid")
    case None
    then show ?thesis using ok by (simp add: st with_entry_def)
  next
    case (Some e)
    obtain r e' w' where m: "m (e, w) = (r, (e', w'))" by (metis prod.exhaust)
    have "named_ok sid e" using ok Some by (simp add: st registry_okD)
    then have "named_ok sid e'"
      using keeps_run [OF assms _ m] named_ok_inv by blast
    then show ?thesis
      using ok by (simp add: st with_entry_def Some m registry_ok_insert)
  qed
qed

lemma with_entry_avoids [avoids_intro]:
  fixes m :: "(('p, 'w) entry_state, 'a, ('e, 'n) registry_error) op"
  assumes "avoids (entry_inv (sound (named sid))) illegal_error m"
  shows "avoids registry_ok_st illegal_error (with_entry sid m)"
proof (rule avoidsI)
  fix st :: "('p, 'w) registry_state" and x
  assume ok: "registry_ok_st st" and err: "fst (with_entry sid m st) = Err x"
  obtain services w where st: "st = (services, w)" by (cases st)
  show "\<not> illegal_error x"
  proof (cases "bt_get services sid")
    case None
    then show ?thesis using err by (auto simp: st with_entry_def)
  next
    case (Some e)
    have "entry_inv (sound (named sid)) (e, w)"
      using registry_okD [of services sid e] ok Some by (simp add: st flip: named_ok_inv)
    moreover have "fst (m (e, w)) = Err x"
      using err by (simp add: st with_entry_def Some split: prod.splits)
    ultimately show ?thesis by (rule avoidsD [OF assms])
  qed
qed

lemma collect_entries_keys: "bt_keys (fst (snd (collect_entries m (services, w)))) = bt_keys services"
proof (induction services arbitrary: w)
  case (Cons p services)
  obtain k e where p: "p = (k, e)" by (cases p)
  obtain r e' w' where m: "m (e, w) = (r, (e', w'))" by (metis prod.exhaust)
  show ?case
    using Cons [of w'] by (cases r) (auto simp: p m bt_keys_def split: prod.splits)
qed simp

lemma collect_entries_all:
  assumes step: "\<And>k e w. I k e \<Longrightarrow> I k (fst (snd (m (e, w))))"
    and all: "\<forall>(k, e) \<in> set services. I k e"
  shows "\<forall>(k, e) \<in> set (fst (snd (collect_entries m (services, w)))). I k e"
  using all
proof (induction services arbitrary: w)
  case (Cons p services)
  obtain k e where p: "p = (k, e)" by (cases p)
  obtain r e' w' where m: "m (e, w) = (r, (e', w'))" by (metis prod.exhaust)
  have "I k e'" using step [of k e w] Cons.prems by (simp add: m p)
  then show ?case
    using Cons.IH [of w'] Cons.prems by (cases r) (auto simp: p m split: prod.splits)
qed simp

lemma registry_ok_iff:
  "registry_ok services \<longleftrightarrow> bt_invar services \<and> (\<forall>(k, e) \<in> set services. named_ok k e)"
  using bt.entries_iff [of services] by (fastforce simp: registry_ok_def)

lemma bt_invar_keys: "bt_keys m = bt_keys n \<Longrightarrow> bt_invar m \<Longrightarrow> bt_invar n"
  by (simp add: bt_keys_def bt_invar_def)

lemma collect_entries_keeps [keeps_intro]:
  fixes m :: "(('p, 'w) entry_state, 'a, ('e, 'n) registry_error) op"
  assumes "\<And>k. keeps (entry_inv (sound (named k))) m"
  shows "keeps registry_ok_st (collect_entries m)"
proof (rule keepsI)
  fix st :: "('p, 'w) registry_state" assume ok: "registry_ok_st st"
  obtain services w where st: "st = (services, w)" by (cases st)
  have "named_ok k (fst (snd (m (e, v))))" if "named_ok k e" for k e v
  proof -
    have "entry_inv (sound (named k)) (snd (m (e, v)))"
      using keepsD [OF assms] named_ok_inv that by blast
    then show ?thesis by (simp add: named_ok_inv [of k _ "snd (snd (m (e, v)))"])
  qed
  then have "\<forall>(k, e) \<in> set (fst (snd (collect_entries m (services, w)))). named_ok k e"
    using ok by (intro collect_entries_all) (auto simp: st registry_ok_iff)
  moreover have "bt_invar (fst (snd (collect_entries m (services, w))))"
    using ok by (intro bt_invar_keys [OF collect_entries_keys [symmetric]]) (simp add: st registry_ok_invar)
  ultimately show "registry_ok_st (snd (collect_entries m st))"
    by (simp add: st registry_ok_iff)
qed

lemma collect_entries_avoids [avoids_intro]:
  fixes m :: "(('p, 'w) entry_state, 'a, ('e, 'n) registry_error) op"
  assumes "\<And>k. avoids (entry_inv (sound (named k))) illegal_error m"
  shows "avoids registry_ok_st illegal_error (collect_entries m)"
proof (rule avoidsI)
  fix st :: "('p, 'w) registry_state" and x
  assume ok: "registry_ok_st st" and err: "fst (collect_entries m st) = Err x"
  obtain services w where st: "st = (services, w)" by (cases st)
  have "\<forall>(k, e) \<in> set services. named_ok k e" using ok by (simp add: st registry_ok_iff)
  then show "\<not> illegal_error x" using err unfolding st
  proof (induction services arbitrary: w)
    case (Cons p services)
    obtain k e where p: "p = (k, e)" by (cases p)
    obtain r e' w' where m: "m (e, w) = (r, (e', w'))" by (metis prod.exhaust)
    have inv: "entry_inv (sound (named k)) (e, w)"
      using Cons.prems(1) by (simp add: p flip: named_ok_inv)
    show ?case
    proof (cases r)
      case (Ok a)
      then show ?thesis
        using Cons.prems Cons.IH [of w'] m
        by (auto simp: p map_outcome_def split: prod.splits outcome.splits)
    next
      case (Err y)
      then have "y = x" using Cons.prems m p by simp
      moreover have "\<not> illegal_error y" using avoidsD [OF assms [of k] inv, of y] m Err by simp
      ultimately show ?thesis by simp
    next
      case Panic
      with Cons m p show ?thesis by simp
    qed
  qed simp
qed

section \<open>What a reconciliation does\<close>

text \<open>The entry a registration gets: the live one when nothing changed, a new one otherwise.\<close>

definition reconciled :: "'p services \<Rightarrow> string \<Rightarrow> service_registration \<Rightarrow> 'p service_entry" where
  "reconciled services k r = (case bt_get services k of
      Some e \<Rightarrow> if se_registration e = r then e else service_entry_new r
    | None \<Rightarrow> service_entry_new r)"

definition is_new :: "'p services \<Rightarrow> string \<times> service_registration \<Rightarrow> bool" where
  "is_new services = (\<lambda>(k, r). bt_get services k = None)"

definition is_update :: "'p services \<Rightarrow> string \<times> service_registration \<Rightarrow> bool" where
  "is_update services = (\<lambda>(k, r).
     case bt_get services k of None \<Rightarrow> False | Some e \<Rightarrow> se_registration e \<noteq> r)"

lemma collect_unique_spec:
  assumes "collect_unique f regs m = Inr m'" and "bt_invar m"
  shows "bt_invar m' \<and> distinct (map reg_id regs) \<and> (\<forall>r \<in> set regs. bt_get m (reg_id r) = None)
    \<and> bt_get m' = bt_get m ++ map_of (map (\<lambda>r. (reg_id r, f r)) regs)"
  using assms
proof (induction regs arbitrary: m)
  case (Cons r rs)
  let ?m = "bt_insert (reg_id r) (f r) m" and ?rs = "map_of (map (\<lambda>r. (reg_id r, f r)) rs)"
  have new: "bt_get m (reg_id r) = None" and rec: "collect_unique f rs ?m = Inr m'"
    using Cons.prems(1) by (auto simp: bt_contains_def split: if_splits)
  have IH: "bt_invar m' \<and> distinct (map reg_id rs) \<and> (\<forall>s \<in> set rs. bt_get ?m (reg_id s) = None)
    \<and> bt_get m' = bt_get ?m ++ ?rs"
    using Cons.IH [OF rec] Cons.prems(2) by (simp add: fun_upd_def)
  then have other: "reg_id s \<noteq> reg_id r \<and> bt_get m (reg_id s) = None" if "s \<in> set rs" for s
    using that Cons.prems(2) by (auto split: if_splits)
  then have "?rs (reg_id r) = None" by (force simp: map_of_eq_None_iff)
  then have "bt_get m' = bt_get m ++ map_of (map (\<lambda>r. (reg_id r, f r)) (r # rs))"
    using IH Cons.prems(2) by (auto simp: fun_eq_iff map_add_def split: option.split)
  moreover have "distinct (map reg_id (r # rs))" and "\<forall>s \<in> set (r # rs). bt_get m (reg_id s) = None"
    using IH other new by force+
  ultimately show ?case using IH by blast
qed simp

lemma reconcile_loop_spec:
  assumes "distinct (map fst desired)" and "bt_invar current" and "bt_invar next"
    and "reconcile_loop desired current next out = (next', out')"
  shows "bt_invar next' \<and>
    bt_get next' = bt_get next ++ map_of (map (\<lambda>(k, r). (k, reconciled current k r)) desired) \<and>
    ro_added out' = ro_added out @ map fst (filter (is_new current) desired) \<and>
    ro_updated out' = ro_updated out @ map fst (filter (is_update current) desired) \<and>
    ro_removed out' = ro_removed out @ filter (\<lambda>k. k \<notin> fst ` set desired) (bt_keys current)"
  using assms
proof (induction desired arbitrary: current "next" out)
  case (Cons p desired)
  obtain k r where p: "p = (k, r)" by (cases p)
  let ?out = "(if is_new current p then out\<lparr>ro_added := ro_added out @ [k]\<rparr>
    else if is_update current p then out\<lparr>ro_updated := ro_updated out @ [k]\<rparr> else out)"
  have step: "reconcile_loop (p # desired) current next out =
      reconcile_loop desired (bt_remove k current) (bt_insert k (reconciled current k r) next) ?out"
    by (auto simp: p is_new_def is_update_def reconciled_def split: option.splits)
  have fresh: "k \<notin> fst ` set desired" using Cons.prems(1) p by auto
  have tail: "filter (is_new (bt_remove k current)) desired = filter (is_new current) desired"
    "filter (is_update (bt_remove k current)) desired = filter (is_update current) desired"
    "map (\<lambda>(j, r). (j, reconciled (bt_remove k current) j r)) desired =
       map (\<lambda>(j, r). (j, reconciled current j r)) desired"
    using fresh Cons.prems(2)
    by (intro filter_cong map_cong refl, force simp: is_new_def is_update_def reconciled_def)+
  have keys: "filter (\<lambda>j. j \<notin> fst ` set desired) (bt_keys (bt_remove k current)) =
      filter (\<lambda>j. j \<notin> fst ` set (p # desired)) (bt_keys current)"
    by (simp add: bt_keys_def bt_remove_def filter_map p comp_def conj_commute)
  note IH = Cons.IH [of "bt_remove k current" "bt_insert k (reconciled current k r) next" ?out]
  have get: "bt_get next' = (bt_get next)(k \<mapsto> reconciled current k r)
      ++ map_of (map (\<lambda>(j, r). (j, reconciled current j r)) desired)"
    using IH Cons.prems step tail by (simp add: fun_upd_def)
  have "map_of (map (\<lambda>(j, r). (j, reconciled current j r)) desired) k = None"
    using fresh by (force simp: map_of_eq_None_iff)
  then have "bt_get next' = bt_get next ++ map_of (map (\<lambda>(j, r). (j, reconciled current j r)) (p # desired))"
    by (auto simp: get p fun_eq_iff map_add_def split: option.splits)
  moreover have "ro_added ?out = ro_added out @ map fst (filter (is_new current) [p])"
    and "ro_updated ?out = ro_updated out @ map fst (filter (is_update current) [p])"
    and "ro_removed ?out = ro_removed out"
    by (auto simp: p is_new_def is_update_def split: option.split)
  moreover have "bt_invar next' \<and>
      ro_added out' = ro_added ?out @ map fst (filter (is_new current) desired) \<and>
      ro_updated out' = ro_updated ?out @ map fst (filter (is_update current) desired) \<and>
      ro_removed out' = ro_removed ?out @ filter (\<lambda>j. j \<notin> fst ` set (p # desired)) (bt_keys current)"
    using IH Cons.prems step tail keys by simp
  ultimately show ?case by (intro conjI) (assumption | simp)+
qed auto

lemma first_error_None: "first_error f xs = None \<longleftrightarrow> (\<forall>x \<in> set xs. f x = None)"
  by (induction xs) (auto split: option.split)

lemma first_error_Some: "first_error f xs = Some y \<Longrightarrow> \<exists>x \<in> set xs. f x = Some y"
  by (induction xs) (auto split: option.splits)

lemma reconcile_error_unchanged:
  "reconcile_registrations regs services = (Inl x, services') \<Longrightarrow> services' = services"
  by (auto simp: reconcile_registrations_def split: sum.splits option.splits prod.splits)

text \<open>The registration a list of registrations gives to an identifier.\<close>

definition registered :: "service_registration list \<Rightarrow> string \<Rightarrow> service_registration option" where
  "registered regs = map_of (map (\<lambda>r. (reg_id r, r)) regs)"

lemma registered_named: "registered regs k = Some r \<Longrightarrow> reg_id r = k \<and> r \<in> set regs"
  by (auto simp: registered_def dest: map_of_SomeD)

lemma reconcile_Inr:
  fixes services :: "'p services"
  assumes ok: "bt_invar services"
    and run: "reconcile_registrations regs services =
      (Inr out :: 'e reconcile_error + reconcile_outcome, services')"
  shows "distinct (map reg_id regs)" and "bt_invar services'"
    and "bt_get services' k = map_option (reconciled services k) (registered regs k)"
    and "k \<in> set (ro_added out) \<longleftrightarrow> registered regs k \<noteq> None \<and> bt_get services k = None"
    and "k \<in> set (ro_updated out) \<longleftrightarrow>
           (\<exists>r e. registered regs k = Some r \<and> bt_get services k = Some e \<and> se_registration e \<noteq> r)"
    and "k \<in> set (ro_removed out) \<longleftrightarrow> registered regs k = None \<and> bt_get services k \<noteq> None"
    and "bt_get services k = Some e \<Longrightarrow> registered regs k \<noteq> Some (se_registration e) \<Longrightarrow>
           \<not> rt_poisoned (se_runtime e) \<and> rt_process (se_runtime e) = None
           \<and> sv_desired_state (se_supervision e) = DesiredStopped"
proof -
  obtain desired where coll: "collect_unique (\<lambda>r. r) regs bt_empty = Inr desired"
    and check: "first_error (reconcile_check desired :: _ \<Rightarrow> 'e reconcile_error option) services = None"
    and loop: "reconcile_loop desired services bt_empty
        \<lparr>ro_added = [], ro_updated = [], ro_removed = []\<rparr> = (services', out)"
    using run by (auto simp: reconcile_registrations_def split: sum.splits option.splits prod.splits)
  have inv: "bt_invar desired" and dist: "distinct (map reg_id regs)"
    and get: "bt_get desired = registered regs"
    using collect_unique_spec [OF coll] by (simp_all add: registered_def)
  have entries: "(j, r) \<in> set desired \<longleftrightarrow> registered regs j = Some r" for j r
    by (simp add: bt.entries_iff [OF inv] get)
  have keys: "j \<in> fst ` set desired \<longleftrightarrow> registered regs j \<noteq> None" for j
    using entries [of j] by (auto simp: image_iff Bex_def)
  note spec = reconcile_loop_spec [OF bt.keys_distinct [OF inv] ok _ loop, simplified]
  show "distinct (map reg_id regs)" by (rule dist)
  show "bt_invar services'" using spec by simp
  have "map_of (map (\<lambda>(j, r). (j, reconciled services j r)) desired) k =
      map_option (reconciled services k) (map_of desired k)"
    by (induction desired) auto
  then show "bt_get services' k = map_option (reconciled services k) (registered regs k)"
    using spec get by (simp add: bt_get_def [abs_def])
  show "k \<in> set (ro_added out) \<longleftrightarrow> registered regs k \<noteq> None \<and> bt_get services k = None"
    using spec by (force simp: is_new_def entries image_iff)
  show "k \<in> set (ro_updated out) \<longleftrightarrow>
      (\<exists>r e. registered regs k = Some r \<and> bt_get services k = Some e \<and> se_registration e \<noteq> r)"
    using spec by (force simp: is_update_def entries image_iff split: option.splits)
  show "k \<in> set (ro_removed out) \<longleftrightarrow> registered regs k = None \<and> bt_get services k \<noteq> None"
    using spec keys by (simp add: bt_keys_set domIff) blast
  assume live: "bt_get services k = Some e" and changed: "registered regs k \<noteq> Some (se_registration e)"
  have "(k, e) \<in> set services" using live bt.entries_iff [OF ok] by simp
  then have "(reconcile_check desired :: _ \<Rightarrow> 'e reconcile_error option) (k, e) = None"
    using check by (simp add: first_error_None)
  then show "\<not> rt_poisoned (se_runtime e) \<and> rt_process (se_runtime e) = None
      \<and> sv_desired_state (se_supervision e) = DesiredStopped"
    using changed by (auto simp: reconcile_check_def get split: if_splits)
qed

lemma reconciled_named:
  "registry_ok services \<Longrightarrow> reg_id r = k \<Longrightarrow> named_ok k (reconciled services k r)"
  using service_entry_new_named [of r] registry_okD [of services k]
  by (auto simp: reconciled_def split: option.split)

lemma reconcile_ok:
  assumes "registry_ok services" and "reconcile_registrations regs services = (r, services')"
  shows "registry_ok services'"
proof (cases r)
  case (Inl x)
  then show ?thesis using assms reconcile_error_unchanged by metis
next
  case (Inr out)
  note rec = reconcile_Inr [OF registry_ok_invar [OF assms(1)] assms(2) [unfolded Inr]]
  show ?thesis
    using rec(2) reconciled_named [OF assms(1)] by (auto simp: registry_ok_def rec(3) dest: registered_named)
qed

end
