(* ===== verification/Entry_Facts.thy ===== *)
theory Entry_Facts
  imports Entry_Operations
begin

text \<open>
  What the lifecycle operations of an entry do, branch by branch: the requests that are refused
  without touching anything, the postconditions of a start, a stop and a restart that succeed,
  and what one refresh does to an exited tree.
\<close>

section \<open>Refusals leave everything as it is\<close>

lemma authorize_op_Inl:
  "authorize (cs_policy (se_control e)) a act = Inl x \<Longrightarrow>
     seq_op (authorize_op a act) m (e, w) = (Err (RegUnauthorized x), (e, w))"
  by (simp add: seq_op_def bind_op_def authorize_op_def)

lemma authorize_op_Inr:
  "authorize (cs_policy (se_control e)) a act = Inr u \<Longrightarrow>
     seq_op (authorize_op a act) m (e, w) = m (e, w)"
  by (simp add: seq_op_def bind_op_def authorize_op_def)

lemma authorize_recovery_refused:
  "sv_desired_state (se_supervision e) = DesiredStopped \<Longrightarrow>
     seq_op (authorize_recovery Recovery) m (e, w) =
       (Err (RegUnauthorized RecoveryDesiredStateStopped), (e, w))"
  by (simp add: seq_op_def bind_op_def authorize_recovery_def)

lemma authorize_recovery_passed:
  "a \<noteq> Recovery \<or> sv_desired_state (se_supervision e) \<noteq> DesiredStopped \<Longrightarrow>
     seq_op (authorize_recovery a) m (e, w) = m (e, w)"
  by (auto simp: seq_op_def bind_op_def authorize_recovery_def)

lemma with_mutation_Err:
  "\<not> se_poisoned e \<Longrightarrow> m (e, w) = (Err x, (e, w)) \<Longrightarrow> with_mutation m (e, w) = (Err x, (e, w))"
  by (simp add: with_mutation_def)

lemma held_refused:
  assumes "\<not> se_poisoned e" and "cp_operator_hold (cs_policy (se_control e)) = HoldStopped"
    and "\<not> is_user a"
  shows "start_entry bk a r (e, w) = (Err (RegUnauthorized OperatorHoldStopped), (e, w))"
    and "restart_entry bk a r (e, w) = (Err (RegUnauthorized OperatorHoldStopped), (e, w))"
  unfolding start_entry_def restart_entry_def
  by (rule with_mutation_Err [OF assms(1)], rule authorize_op_Inl, rule authorize_held, use assms in auto)+

lemma recovery_refused_op:
  assumes "\<not> se_poisoned e" and "sv_desired_state (se_supervision e) = DesiredStopped"
  shows "\<exists>x. with_mutation (seq_op (authorize_op Recovery act) (seq_op (authorize_recovery Recovery) m)) (e, w) =
      (Err (RegUnauthorized x), (e, w))"
proof (cases "authorize (cs_policy (se_control e)) Recovery act")
  case (Inl x)
  then show ?thesis
    using with_mutation_Err [OF assms(1)] authorize_op_Inl by blast
next
  case (Inr u)
  then show ?thesis
    using with_mutation_Err [OF assms(1)] authorize_recovery_refused [OF assms(2)]
      authorize_op_Inr [OF Inr] by metis
qed

lemma recovery_refused:
  assumes "\<not> se_poisoned e" and "sv_desired_state (se_supervision e) = DesiredStopped"
  shows "\<exists>x. start_entry bk Recovery r (e, w) = (Err (RegUnauthorized x), (e, w))"
    and "\<exists>x. restart_entry bk Recovery r (e, w) = (Err (RegUnauthorized x), (e, w))"
  unfolding start_entry_def restart_entry_def by (rule recovery_refused_op [OF assms])+

text \<open>A start of a service that has an owner is a no-op that says so.\<close>

lemma start_already_running:
  assumes "\<not> se_poisoned e" and "\<not> rt_poisoned (se_runtime e)" and "rt_process (se_runtime e) \<noteq> None"
    and "authorize (cs_policy (se_control e)) a ActStart = Inr u"
    and "a \<noteq> Recovery \<or> sv_desired_state (se_supervision e) \<noteq> DesiredStopped"
  shows "start_entry bk a r (e, w) = (Ok StartAlreadyRunning, (e, w))"
proof -
  have hp: "bind_op (map_err_op has_process_error (on_runtime has_process)) f (e, w) = f True (e, w)" for f
    using assms(3) by (intro bind_op_run) (simp add: has_process_op [OF assms(2)])
  show ?thesis
    unfolding start_entry_def with_mutation_def
    by (simp only: split authorize_op_Inr [OF assms(4)] authorize_recovery_passed [OF assms(5)] hp)
       (simp add: assms(1) return_op_def)
qed

section \<open>Health observations\<close>

lemma observation_state:
  "observation bk cap hp ready (e, w) = (r, (e', w')) \<Longrightarrow> e' = e"
  by (auto simp: observation_def on_world_def Let_def split: if_splits prod.splits)

lemma observation_healthy:
  "observation bk cap hp ready (e, w) = (Ok h, st) \<Longrightarrow> is_healthy h \<Longrightarrow> hp \<and> ready"
  by (auto simp: observation_def on_world_def Let_def map_op_def wall_clock_def
      split: if_splits prod.splits)

definition health_lifecycle :: "bool \<Rightarrow> 'p runtime \<Rightarrow> lifecycle_state" where
  "health_lifecycle healthy rt =
     (if rt_process rt \<noteq> None \<and> rt_lifecycle rt \<in> {Running, Unhealthy}
      then if healthy then Running else Unhealthy else rt_lifecycle rt)"

lemma health_lifecycle_same [simp]: "rt\<lparr>rt_lifecycle := rt_lifecycle rt\<rparr> = rt"
  by (cases rt) simp

lemma same_lifecycle: "rt_lifecycle rt = l \<Longrightarrow> rt\<lparr>rt_lifecycle := l\<rparr> = rt"
  by auto

lemma same_runtime [simp]: "e\<lparr>se_runtime := se_runtime e\<rparr> = e"
  by (cases e) simp

lemma apply_health_run:
  assumes "runtime_ok (se_runtime e)" and "\<not> rt_poisoned (se_runtime e)"
  shows "map_err_op f (on_runtime (apply_health h)) (e, w) =
    (Ok (), (e\<lparr>se_runtime := (se_runtime e)\<lparr>rt_lifecycle := health_lifecycle h (se_runtime e)\<rparr>\<rparr>, w))"
  using assms
  by (auto simp: map_err_op_def on_runtime_def apply_health_spec health_lifecycle_def)

lemma observe_health_Ok:
  fixes bk :: "('w, 'p, 'e, 'n) backend"
  assumes ok: "runtime_ok (se_runtime e)"
    and run: "observe_health bk cap (e, w) = (Ok h, (e', w'))"
  shows "se_health e' = h"
    and "se_runtime e' = (se_runtime e)\<lparr>rt_lifecycle := health_lifecycle (is_healthy h) (se_runtime e)\<rparr>"
    and "\<not> rt_poisoned (se_runtime e)"
    and "is_healthy h \<Longrightarrow> rt_process (se_runtime e) \<noteq> None"
proof -
  obtain ready e1 w1 where ready: "process_ready bk (e, w) = (Ok ready, (e1, w1))"
    using run by (auto simp: observe_health_def bind_op_Ok)
  have rt: "se_runtime e1 = se_runtime e" "\<not> rt_poisoned (se_runtime e1)"
    using process_ready_Ok [OF ready] by auto
  obtain obs e2 w2 where obs: "observation bk cap (rt_process (se_runtime e1) \<noteq> None) ready (e1, w1) =
      (Ok obs, (e2, w2))" and rest: "seq_op (map_err_op (apply_health_error :: _ \<Rightarrow> ('e, 'n) registry_error) (on_runtime
        (apply_health (is_healthy obs)))) (seq_op (set_health obs) (return_op obs)) (e2, w2) = (Ok h, (e', w'))"
    using run unfolding observe_health_ready [OF ready] by (auto simp: bind_op_Ok)
  have e2: "e2 = e1" by (rule observation_state [OF obs])
  have ok1: "runtime_ok (se_runtime e1)" using ok rt(1) by simp
  have fin: "h = obs \<and> e' = e1\<lparr>se_runtime := (se_runtime e1)\<lparr>rt_lifecycle :=
      health_lifecycle (is_healthy obs) (se_runtime e1)\<rparr>, se_health := obs\<rparr>"
    using rest unfolding e2 seq_op_def
    by (auto simp: bind_op_Ok apply_health_run [OF ok1 rt(2)] set_health_def modify_op_def return_op_def)
  show "se_health e' = h"
    "se_runtime e' = (se_runtime e)\<lparr>rt_lifecycle := health_lifecycle (is_healthy h) (se_runtime e)\<rparr>"
    "\<not> rt_poisoned (se_runtime e)"
    using fin rt by simp_all
  show "is_healthy h \<Longrightarrow> rt_process (se_runtime e) \<noteq> None"
    using observation_healthy [OF obs] fin rt by simp
qed

lemma wait_healthy_Ok:
  assumes "runtime_ok (se_runtime e)" and "wait_healthy bk deadline started (e, w) = (Ok (), (e', w'))"
    and "rt_process (se_runtime e) \<noteq> None" and "rt_lifecycle (se_runtime e) \<in> {Running, Unhealthy}"
  shows "is_healthy (se_health e') \<and> se_runtime e' = (se_runtime e)\<lparr>rt_lifecycle := Running\<rparr>
    \<and> \<not> rt_poisoned (se_runtime e)
    \<and> se_registration e' = se_registration e \<and> se_control e' = se_control e
    \<and> se_supervision e' = se_supervision e"
  using assms
proof (induction bk deadline started "(e, w)" arbitrary: e w rule: wait_healthy.induct)
  case (1 bk deadline started e w)
  obtain now1 w1 where now1: "instant_now bk w = (now1, w1)" by fastforce
  let ?cap = "Some (deadline - (now1 - started))"
  obtain out e2 w2 where obs: "observe_health bk ?cap (e, w1) = (out, (e2, w2))" by (metis prod.exhaust)
  obtain now2 w3 where now2: "instant_now bk w2 = (now2, w3)" by fastforce
  note step = wait_healthy.simps [of bk deadline started e w] now1 obs now2
  obtain h where out: "out = Ok h" using 1(3) by (cases out) (auto simp: step)
  note ob = observe_health_Ok [OF 1(2) obs [unfolded out]]
  have frame: "se_registration e2 = se_registration e \<and> se_control e2 = se_control e
      \<and> se_supervision e2 = se_supervision e"
    using keepsD [OF observe_health_frame, of "(e, w1)" "(e, w1)" bk ?cap] obs
    by (simp add: same_frame_def)
  show ?case
  proof (cases "is_healthy h")
    case True
    then show ?thesis
      using 1(3-5) ob frame by (auto simp: step out health_lifecycle_def)
  next
    case False
    then have more: "\<not> deadline \<le> now2 - started"
      and rec: "wait_healthy bk deadline started
        (e2, thread_sleep bk (min 100000000 (deadline - (now2 - started))) w3) = (Ok (), (e', w'))"
      using 1(3) by (auto simp: step out split: if_splits)
    have ok2: "runtime_ok (se_runtime e2)" "rt_process (se_runtime e2) \<noteq> None"
      "rt_lifecycle (se_runtime e2) \<in> {Running, Unhealthy}"
      using ob(2,3) 1(2,4,5) by (auto simp: runtime_ok_def owner_matches_def health_lifecycle_def)
    show ?thesis
      using 1(1) [OF now1 [symmetric] obs [symmetric] _ _ False now2 [symmetric] more ok2(1) rec ok2(2,3)]
        out frame ob(2,3) by (auto simp: health_lifecycle_def)
  qed
qed

lemma wait_until_healthy_Ok:
  assumes "runtime_ok (se_runtime e)" and "wait_until_healthy bk (e, w) = (Ok (), (e', w'))"
    and "rt_process (se_runtime e) \<noteq> None" and "rt_lifecycle (se_runtime e) \<in> {Running, Unhealthy}"
  shows "is_healthy (se_health e') \<and> se_runtime e' = (se_runtime e)\<lparr>rt_lifecycle := Running\<rparr>
    \<and> \<not> rt_poisoned (se_runtime e)
    \<and> se_registration e' = se_registration e \<and> se_control e' = se_control e
    \<and> se_supervision e' = se_supervision e"
proof -
  obtain started w1 where now: "instant_now bk w = (started, w1)" by fastforce
  have "wait_healthy bk (startup_deadline (reg_health (se_registration e))) started (e, w1) = (Ok (), (e', w'))"
    using assms(2) by (simp add: wait_until_healthy_def now)
  from wait_healthy_Ok [OF assms(1) this assms(3,4)] show ?thesis .
qed

section \<open>The steps of an operation that succeeds\<close>

lemma with_mutation_Ok:
  "with_mutation m (e, w) = (Ok a, st) \<longleftrightarrow> \<not> se_poisoned e \<and> m (e, w) = (Ok a, st)"
  by (auto simp: with_mutation_def split: outcome.splits prod.splits)

lemma seq_op_Ok: "seq_op m n s = (Ok b, t) \<longleftrightarrow> (\<exists>s'. m s = (Ok (), s') \<and> n s' = (Ok b, t))"
  by (simp add: seq_op_def bind_op_Ok)

lemma return_op_Ok: "return_op a s = (Ok b, t) \<longleftrightarrow> b = a \<and> t = s"
  by (auto simp: return_op_def)

lemma authorize_op_Ok:
  "authorize_op a act (e, w) = (Ok u, st) \<longleftrightarrow>
     authorize (cs_policy (se_control e)) a act = Inr () \<and> st = (e, w)"
  by (auto simp: authorize_op_def split: sum.split)

lemma authorize_recovery_Ok:
  "authorize_recovery a (e, w) = (Ok u, st) \<longleftrightarrow>
     (a \<noteq> Recovery \<or> sv_desired_state (se_supervision e) \<noteq> DesiredStopped) \<and> st = (e, w)"
  by (auto simp: authorize_recovery_def)

lemma on_control_Ok: "on_control f (e, w) = (Ok u, st) \<longleftrightarrow> st = (e\<lparr>se_control := f (se_control e)\<rparr>, w)"
  by (auto simp: on_control_def modify_op_def)

lemma on_supervision_Ok:
  "on_supervision f (e, w) = (Ok u, st) \<longleftrightarrow> st = (e\<lparr>se_supervision := f (se_supervision e)\<rparr>, w)"
  by (auto simp: on_supervision_def modify_op_def)

lemma set_health_Ok: "set_health h (e, w) = (Ok u, st) \<longleftrightarrow> st = (e\<lparr>se_health := h\<rparr>, w)"
  by (auto simp: set_health_def modify_op_def)

lemma preflight_entry_Ok: "preflight_entry bk (e, w) = (Ok u, st) \<Longrightarrow> fst st = e"
  by (auto simp: preflight_entry_def on_world_def split: prod.splits)

lemma has_process_Ok:
  "map_err_op f (on_runtime has_process) (e, w) = (Ok b, st) \<longleftrightarrow>
     \<not> rt_poisoned (se_runtime e) \<and> b = (rt_process (se_runtime e) \<noteq> None) \<and> st = (e, w)"
  by (auto simp: map_err_op_def on_runtime_def has_process_spec)

lemma record_started_Ok:
  "record_started_op bk act (e, w) = (Ok u, st) \<Longrightarrow>
     \<exists>now ms. fst st = e\<lparr>se_supervision := record_started now ms act (se_supervision e)\<rparr>"
  by (auto simp: record_started_op_def bind_op_Ok on_world_def wall_clock_def monotonic_clock_def
      on_supervision_Ok split: prod.splits)

lemma run_start_Ok:
  assumes "runtime_ok (se_runtime e)" and "run_start bk (e, w) = (Ok out, (e', w'))"
  shows "\<not> rt_poisoned (se_runtime e) \<and> (if out = StartAlreadyRunning then rt_process (se_runtime e) \<noteq> None \<and> e' = e
     else rt_process (se_runtime e) = None \<and>
       (\<exists>p. e' = e\<lparr>se_runtime := (se_runtime e)\<lparr>rt_lifecycle := Running, rt_process := Some p\<rparr>\<rparr>))"
  using assms
  by (auto simp: run_start_def map_err_op_def on_runtime_def start_with_spec
      split: prod.splits outcome.splits if_splits)

lemmas step_Ok = with_mutation_Ok seq_op_Ok bind_op_Ok return_op_Ok authorize_op_Ok authorize_recovery_Ok
  on_control_Ok on_supervision_Ok set_health_Ok has_process_Ok

section \<open>Postconditions\<close>

definition serving :: "'p service_entry \<Rightarrow> bool" where
  "serving e \<longleftrightarrow> \<not> rt_poisoned (se_runtime e) \<and> rt_process (se_runtime e) \<noteq> None
     \<and> rt_lifecycle (se_runtime e) = Running \<and> is_healthy (se_health e)
     \<and> sv_desired_state (se_supervision e) = DesiredRunning
     \<and> sv_started_at (se_supervision e) \<noteq> None"

lemma start_entry_Ok:
  assumes "entry_ok e" and "start_entry bk a r (e, w) = (Ok out, (e', w'))"
  shows "if out = StartAlreadyRunning then rt_process (se_runtime e) \<noteq> None \<and> (e', w') = (e, w)
    else rt_process (se_runtime e) = None \<and> serving e'
      \<and> se_control e' = accept_request a ActStart r (se_control e)"
proof (cases "rt_process (se_runtime e)")
  case (Some p)
  then show ?thesis
    using assms(2) by (auto simp: start_entry_def step_Ok)
next
  case None
  have ok: "runtime_ok (se_runtime e)" using assms(1) by (simp add: entry_ok_def)
  obtain st1 where pre: "preflight_entry bk (e, w) = (Ok (), st1)"
    and rest: "seq_op (on_control (accept_request a ActStart r)) (seq_op (on_supervision (request_running a))
      (bind_op (run_start bk) (\<lambda>outcome. if outcome = StartStarted then
         seq_op (record_started_op bk ActStart) (seq_op (wait_until_healthy bk) (return_op outcome))
         else return_op outcome))) st1 = (Ok out, (e', w'))"
    using assms(2) None by (auto simp: start_entry_def with_mutation_Ok bind_op_Ok [of _ _ "(e, w)"]
        seq_op_Ok [of _ _ "(e, w)"] authorize_op_Ok authorize_recovery_Ok has_process_Ok)
  obtain w1 where st1: "st1 = (e, w1)" using preflight_entry_Ok [OF pre] by (cases st1) simp
  let ?e = "e\<lparr>se_control := accept_request a ActStart r (se_control e),
    se_supervision := request_running a (se_supervision e)\<rparr>"
  obtain o2 e2 w2 where run: "run_start bk (?e, w1) = (Ok o2, (e2, w2))"
    and rest2: "(if o2 = StartStarted then
         seq_op (record_started_op bk ActStart) (seq_op (wait_until_healthy bk) (return_op o2))
         else return_op o2) (e2, w2) = (Ok out, (e', w'))"
    using rest by (auto simp: st1 seq_op_Ok [of "on_control _"] seq_op_Ok [of "on_supervision _"]
        on_control_Ok on_supervision_Ok bind_op_Ok)
  have run': "o2 = StartStarted \<and> (\<exists>p. e2 = ?e\<lparr>se_runtime := (se_runtime e)\<lparr>rt_lifecycle := Running, rt_process := Some p\<rparr>\<rparr>)
     \<and> \<not> rt_poisoned (se_runtime e)"
    using run_start_Ok [OF _ run] ok None by (cases o2) auto
  then obtain p where e2: "e2 = ?e\<lparr>se_runtime := (se_runtime e)\<lparr>rt_lifecycle := Running, rt_process := Some p\<rparr>\<rparr>"
    by blast
  obtain e3 w3 where rec: "record_started_op bk ActStart (e2, w2) = (Ok (), (e3, w3))"
    and wait: "wait_until_healthy bk (e3, w3) = (Ok (), (e', w'))" and out: "out = StartStarted"
    using rest2 run' by (auto simp: step_Ok)
  obtain now ms where e3: "e3 = e2\<lparr>se_supervision := record_started now ms ActStart (se_supervision e2)\<rparr>"
    using record_started_Ok [OF rec] by auto
  have "runtime_ok (se_runtime e3)" by (simp add: e3 e2 runtime_ok_def owner_matches_def)
  from wait_until_healthy_Ok [OF this wait] show ?thesis
    using None out by (auto simp: serving_def e3 e2)
qed

lemma stop_callback_run:
  "stop_callback bk grace (p, (w, sd)) = (case on_process (bk_stop bk grace) (p, w) of
     (Ok report, (p', w')) \<Rightarrow> (Ok (if is_complete report then StopComplete else StopPending), (p', (w', Some report)))
   | (Err e, (p', w')) \<Rightarrow> (Err (BkProcess e), (p', (w', sd)))
   | (Panic, (p', w')) \<Rightarrow> (Panic, (p', (w', sd))))"
  by (simp add: stop_callback_def)

text \<open>How an owner leaves, or does not leave: the report of the process tree decides.\<close>

definition stop_result ::
  "('w, 'p, 'e, 'n) backend \<Rightarrow> 'p service_entry \<Rightarrow> 'w world \<Rightarrow> stop_outcome \<Rightarrow>
     tree_stop_report option \<Rightarrow> 'p runtime \<Rightarrow> 'w world \<Rightarrow> bool" where
  "stop_result bk e w out shutdown rt' w' \<longleftrightarrow>
     (case rt_process (se_runtime e) of
        None \<Rightarrow> shutdown = None \<and> w' = w \<and> rt' = (se_runtime e)\<lparr>rt_lifecycle := Stopped\<rparr>
          \<and> out = (if rt_lifecycle (se_runtime e) = Failed then StopStopped else StopAlreadyStopped)
      | Some p \<Rightarrow> (\<exists>report p'.
          on_process (bk_stop bk (reg_shutdown_grace (se_registration e))) (p, w) = (Ok report, (p', w'))
          \<and> shutdown = Some report
          \<and> (if is_complete report
             then out = StopStopped \<and> rt' = (se_runtime e)\<lparr>rt_lifecycle := Stopped, rt_process := None\<rparr>
             else out = StopTerminationPending
               \<and> rt' = (se_runtime e)\<lparr>rt_lifecycle := TerminationPending, rt_process := Some p'\<rparr>)))"

lemma stop_result_cong:
  "se_runtime e1 = se_runtime e \<Longrightarrow> se_registration e1 = se_registration e \<Longrightarrow>
     stop_result bk e1 w out sd rt' w' \<longleftrightarrow> stop_result bk e w out sd rt' w'"
  by (simp only: stop_result_def)

lemma run_stop_Ok:
  assumes ok: "runtime_ok (se_runtime e)" and run: "run_stop bk (e, w) = (Ok (out, shutdown), (e', w'))"
  shows "\<not> rt_poisoned (se_runtime e) \<and>
     (\<exists>rt'. e' = e\<lparr>se_runtime := rt'\<rparr> \<and> stop_result bk e w out shutdown rt' w')"
proof (cases "rt_process (se_runtime e)")
  case None
  then have "rt_lifecycle (se_runtime e) \<in> {Stopped, Failed}" if "\<not> rt_poisoned (se_runtime e)"
    using ok that by (auto simp: runtime_ok_def owner_matches_def)
  then show ?thesis
    using run None
    by (auto simp: run_stop_def stop_with_spec [OF ok] stop_result_def same_lifecycle split: if_splits)
next
  case (Some p)
  obtain r p' w2 where st: "on_process (bk_stop bk (reg_shutdown_grace (se_registration e))) (p, w) = (r, (p', w2))"
    by (metis prod.exhaust)
  show ?thesis
    using run Some st
    by (cases r) (auto simp: run_stop_def stop_with_spec [OF ok] stop_callback_run stop_result_def split: if_splits)
qed

lemma stop_result_owner:
  "stop_result bk e w out shutdown rt' w' \<Longrightarrow> out \<noteq> StopTerminationPending \<Longrightarrow>
     rt_process rt' = None \<and> rt_lifecycle rt' = Stopped"
  "stop_result bk e w StopTerminationPending shutdown rt' w' \<Longrightarrow>
     rt_process rt' \<noteq> None \<and> rt_lifecycle rt' = TerminationPending
     \<and> (\<exists>report. shutdown = Some report \<and> tsr_owned_pids_after report \<noteq> [])"
  by (auto simp: stop_result_def is_complete_def split: option.splits if_splits)

lemma remember_owned_pids_simps [simp]:
  "sv_desired_state (remember_owned_pids sd sv) = sv_desired_state sv"
  "sv_restart_after_termination (remember_owned_pids sd sv) = sv_restart_after_termination sv"
  "sv_last_owned_pids (remember_owned_pids (Some report) sv) = tsr_owned_pids_before report"
  by (auto simp: remember_owned_pids_def split: option.split)

lemma stop_entry_Ok:
  fixes bk :: "('w, 'p, 'e, 'n) backend"
  assumes "entry_ok e" and "stop_entry bk a r (e, w) = (Ok res, (e', w'))"
  shows "\<exists>rt'. se_runtime e' = rt' \<and> stop_result bk e w (sst_outcome res) (sst_shutdown res) rt' w'
    \<and> se_control e' = accept_request a ActStop r (se_control e)
    \<and> sv_desired_state (se_supervision e') = DesiredStopped
    \<and> \<not> sv_restart_after_termination (se_supervision e')
    \<and> (sst_outcome res \<noteq> StopAlreadyStopped \<longrightarrow> se_health e' = health_unknown)
    \<and> (\<forall>report. sst_outcome res = StopTerminationPending \<longrightarrow> sst_shutdown res = Some report \<longrightarrow>
         sv_last_owned_pids (se_supervision e') = tsr_owned_pids_before report)"
proof -
  let ?e = "e\<lparr>se_control := accept_request a ActStop r (se_control e),
    se_supervision := request_stopped (se_supervision e)\<rparr>"
  obtain out sd e2 w2 where run: "run_stop bk (?e, w) = (Ok (out, sd), (e2, w2))"
    and rest: "seq_op (if out \<in> {StopStopped, StopTerminationPending}
                then set_health health_unknown :: (_, _, ('e, 'n) registry_error) op else return_op ())
        (seq_op (if out = StopTerminationPending
                 then on_supervision (remember_owned_pids sd) else return_op ())
        (return_op \<lparr>sst_outcome = out, sst_shutdown = sd\<rparr>)) (e2, w2) = (Ok res, (e', w'))"
    using assms(2) unfolding stop_entry_def
    by (auto simp: with_mutation_Ok seq_op_Ok [of "authorize_op _ _"] seq_op_Ok [of "on_control _"]
        seq_op_Ok [of "on_supervision request_stopped"] authorize_op_Ok on_control_Ok on_supervision_Ok bind_op_Ok)
  have "runtime_ok (se_runtime ?e)" using assms(1) by (simp add: entry_ok_def)
  from run_stop_Ok [OF this run] obtain rt' where
    e2: "e2 = ?e\<lparr>se_runtime := rt'\<rparr>" and res: "stop_result bk ?e w out sd rt' w2" by blast
  have res': "stop_result bk e w out sd rt' w2" 
    using res by (simp add: stop_result_cong [of ?e e])
  show ?thesis
    using rest res' by (cases out) (auto simp: step_Ok e2)
qed

lemma stop_entry_Err:
  assumes "entry_ok e" and "stop_entry bk a r (e, w) = (Err x, (e', w'))"
  shows "rt_process (se_runtime e') = None \<longleftrightarrow> rt_process (se_runtime e) = None"
proof (cases "se_poisoned e")
  case True
  then show ?thesis using assms(2) by (simp add: stop_entry_def with_mutation_def)
next
  case False
  let ?e = "e\<lparr>se_control := accept_request a ActStop r (se_control e),
    se_supervision := request_stopped (se_supervision e)\<rparr>"
  have ok: "runtime_ok (se_runtime ?e)" using assms(1) by (simp add: entry_ok_def)
  have run: "run_stop bk (?e, w) = (Err x, (e', w'))"
    using assms(2) False
    by (auto simp: stop_entry_def with_mutation_def seq_op_def bind_op_def authorize_op_def on_control_def
        on_supervision_def modify_op_def set_health_def return_op_def
        split: outcome.splits prod.splits if_splits)
  show ?thesis
  proof (cases "rt_process (se_runtime e)")
    case None
    then show ?thesis
      using run by (auto simp: run_stop_def stop_with_spec [OF ok, simplified] split: if_splits)
  next
    case (Some p)
    obtain res p' w2 where st: "on_process (bk_stop bk (reg_shutdown_grace (se_registration e))) (p, w) = (res, (p', w2))"
      by (metis prod.exhaust)
    show ?thesis
      using run Some st
      by (cases res) (auto simp: run_stop_def stop_with_spec [OF ok, simplified] stop_callback_run split: if_splits)
  qed
qed

lemma on_first_spawn:
  "on_first m (w, x) = (case m w of (r, w') \<Rightarrow> (r, (w', x)))"
  by (simp add: on_first_def)

lemma run_restart_Ok:
  assumes ok: "runtime_ok (se_runtime e)" and run: "run_restart bk (e, w) = (Ok (out, shutdown), (e', w'))"
  shows "\<not> rt_poisoned (se_runtime e) \<and> (\<exists>rt'. e' = e\<lparr>se_runtime := rt'\<rparr> \<and> rt_process rt' \<noteq> None
     \<and> rt_lifecycle rt' = (if out = RestartTerminationPending then TerminationPending else Running))"
proof (cases "rt_process (se_runtime e)")
  case None
  show ?thesis
    using run None
    by (auto simp: run_restart_def restart_with_spec [OF ok] split: if_splits prod.splits outcome.splits)
next
  case (Some p)
  obtain r p' w2 where st: "on_process (bk_stop bk (reg_shutdown_grace (se_registration e))) (p, w) = (r, (p', w2))"
    by (metis prod.exhaust)
  show ?thesis
    using run Some st
    by (cases r) (auto simp: run_restart_def restart_with_spec [OF ok] stop_callback_run on_first_spawn
        split: if_splits prod.splits outcome.splits)
qed

lemma restart_entry_Ok:
  fixes bk :: "('w, 'p, 'e, 'n) backend"
  assumes "entry_ok e" and "restart_entry bk a r (e, w) = (Ok res, (e', w'))"
  shows "se_control e' = accept_request a ActRestart r (se_control e)
    \<and> (if srr_outcome res = RestartTerminationPending
       then rt_lifecycle (se_runtime e') = TerminationPending \<and> rt_process (se_runtime e') \<noteq> None
         \<and> sv_restart_after_termination (se_supervision e')
         \<and> sv_desired_state (se_supervision e') = DesiredRunning
       else serving e')"
proof -
  obtain st1 where pre: "preflight_entry bk (e, w) = (Ok (), st1)"
    and rest: "seq_op (on_control (accept_request a ActRestart r)) (seq_op (on_supervision (request_running a))
      (bind_op (run_restart bk) (\<lambda>(outcome, shutdown).
        seq_op
          (if outcome = RestartTerminationPending then
             seq_op (on_supervision (remember_owned_pids shutdown \<circ> defer_restart_after_termination))
                    (set_health health_unknown)
           else
             seq_op (record_started_op bk ActRestart) (wait_until_healthy bk))
          (return_op \<lparr>srr_outcome = outcome, srr_shutdown = shutdown\<rparr>)))) st1 = (Ok res, (e', w'))"
    using assms(2) by (auto simp: restart_entry_def with_mutation_Ok
        seq_op_Ok [of _ _ "(e, w)"] authorize_op_Ok authorize_recovery_Ok)
  obtain w1 where st1: "st1 = (e, w1)" using preflight_entry_Ok [OF pre] by (cases st1) simp
  let ?e = "e\<lparr>se_control := accept_request a ActRestart r (se_control e),
    se_supervision := request_running a (se_supervision e)\<rparr>"
  obtain out sd e2 w2 where run: "run_restart bk (?e, w1) = (Ok (out, sd), (e2, w2))"
    and rest2: "seq_op (if out = RestartTerminationPending then
             seq_op (on_supervision (remember_owned_pids sd \<circ> defer_restart_after_termination))
                    (set_health health_unknown)
           else seq_op (record_started_op bk ActRestart) (wait_until_healthy bk))
          (return_op \<lparr>srr_outcome = out, srr_shutdown = sd\<rparr>) (e2, w2) = (Ok res, (e', w'))"
    using rest by (auto simp: st1 seq_op_Ok [of "on_control _"] seq_op_Ok [of "on_supervision (request_running _)"]
        on_control_Ok on_supervision_Ok bind_op_Ok)
  have "runtime_ok (se_runtime ?e)" using assms(1) by (simp add: entry_ok_def)
  from run_restart_Ok [OF this run] obtain rt' where e2: "e2 = ?e\<lparr>se_runtime := rt'\<rparr>"
    and rt': "rt_process rt' \<noteq> None"
      "rt_lifecycle rt' = (if out = RestartTerminationPending then TerminationPending else Running)" by blast
  show ?thesis
  proof (cases "out = RestartTerminationPending")
    case True
    then show ?thesis
      using rest2 rt' by (auto simp: step_Ok e2 defer_restart_after_termination_def)
  next
    case False
    then obtain e3 w3 where rec: "record_started_op bk ActRestart (e2, w2) = (Ok (), (e3, w3))"
      and wait: "wait_until_healthy bk (e3, w3) = (Ok (), (e', w'))" and res: "srr_outcome res = out"
      using rest2 by (auto simp: seq_op_Ok return_op_Ok)
    obtain now ms where e3: "e3 = e2\<lparr>se_supervision := record_started now ms ActRestart (se_supervision e2)\<rparr>"
      using record_started_Ok [OF rec] by auto
    have "runtime_ok (se_runtime e3)" using rt' False by (auto simp: e3 e2 runtime_ok_def owner_matches_def)
    from wait_until_healthy_Ok [OF this wait] show ?thesis
      using False res rt' by (auto simp: serving_def e3 e2)
  qed
qed

section \<open>Exits\<close>

text \<open>A refresh reports an exit only by releasing the owner, so a tree is reported at most once.\<close>

lemma map_outcome_Ok: "map_outcome f r = Ok b \<longleftrightarrow> (\<exists>a. r = Ok a \<and> b = f a)"
  by (cases r) auto

lemma inspect_Ok:
  "map_err_op g (on_runtime (inspect_with f)) (e, w) = (Ok x, (e', w')) \<longleftrightarrow>
     \<not> rt_poisoned (se_runtime e) \<and> e' = e
     \<and> f (rt_lifecycle (se_runtime e)) (rt_process (se_runtime e)) w = (Ok x, w')"
  by (auto simp: map_err_op_def on_runtime_def inspect_with_spec
      split: if_splits prod.splits outcome.splits)

lemma reconcile_exit_Ok:
  assumes "runtime_ok (se_runtime e)"
    and "map_err_op g (on_runtime (reconcile_exit_with f)) (e, w) = (Ok status, (e', w'))"
  shows "\<not> rt_poisoned (se_runtime e) \<and> (case rt_process (se_runtime e) of
     None \<Rightarrow> status = None \<and> (e', w') = (e, w)
   | Some p \<Rightarrow> (\<exists>p'. f (p, w) = (Ok status, (p', w'))
       \<and> e' = e\<lparr>se_runtime := (if status = None then (se_runtime e)\<lparr>rt_process := Some p'\<rparr>
           else (se_runtime e)\<lparr>rt_process := None, rt_lifecycle :=
             (if rt_lifecycle (se_runtime e) = TerminationPending then Stopped else Failed)\<rparr>)\<rparr>))"
  using assms(2)
  by (auto simp: map_err_op_def on_runtime_def reconcile_exit_with_spec [OF assms(1)]
      split: if_splits prod.splits outcome.splits option.splits)

lemma record_exit_op_Ok:
  assumes "record_exit_op bk window status (e, w) = (Ok (automatic, deferred), (e', w'))"
  shows "\<exists>settled ms sv'. record_exit settled ms status (reg_restart_policy (se_registration e))
      (cp_operator_hold (cs_policy (se_control e))) (se_supervision e) = ((automatic, deferred), sv')
    \<and> e' = e\<lparr>se_supervision := sv'\<rparr>"
  using assms
  by (auto simp: record_exit_op_def bind_op_Ok settled_op_def on_world_def map_op_def
      monotonic_clock_def wall_clock_def split: prod.splits option.splits)

lemma exit_health_op_Ok: "exit_health_op bk previous status (e, w) = (Ok h, (e', w')) \<Longrightarrow> e' = e
    \<and> \<not> is_healthy h"
  by (auto simp: exit_health_op_def on_world_def map_op_def wall_clock_def split: if_splits prod.splits)

lemma take_pids_Ok:
  "take_last_owned_pids (e, w) = (Ok ps, (e', w')) \<longleftrightarrow>
     ps = sv_last_owned_pids (se_supervision e) \<and> w' = w
     \<and> e' = e\<lparr>se_supervision := (se_supervision e)\<lparr>sv_last_owned_pids := []\<rparr>\<rparr>"
  by (auto simp: take_last_owned_pids_def)

definition released :: "exit_status \<Rightarrow> process_exit_event \<Rightarrow> 'p service_entry \<Rightarrow> 'p service_entry \<Rightarrow> bool" where
  "released status ev e e' \<longleftrightarrow>
     rt_process (se_runtime e) \<noteq> None \<and> rt_process (se_runtime e') = None
     \<and> pee_service_id ev = reg_id (se_registration e)
     \<and> pee_previous_state ev = rt_lifecycle (se_runtime e)
     \<and> rt_lifecycle (se_runtime e') = (if pee_previous_state ev = TerminationPending then Stopped else Failed)
     \<and> pee_exit_code ev = exit_code status \<and> pee_successful ev = exit_success status
     \<and> pee_owned_pids_before ev = sv_last_owned_pids (se_supervision e)
     \<and> \<not> is_healthy (se_health e')
     \<and> (\<exists>settled ms sv'. record_exit settled ms status (reg_restart_policy (se_registration e))
          (cp_operator_hold (cs_policy (se_control e))) (se_supervision e) =
            ((pee_automatic_restart_planned ev, pee_deferred_restart_planned ev), sv')
        \<and> se_supervision e' = sv'\<lparr>sv_last_owned_pids := []\<rparr>)"

lemma record_exit_pids: "record_exit settled ms st pol h sv = (planned, sv') \<Longrightarrow>
    sv_last_owned_pids sv' = sv_last_owned_pids sv"
  by (auto simp: record_exit_def Let_def split: if_splits)

lemma reconcile_process_exit_Some:
  fixes bk :: "('w, 'p, 'e, 'n) backend"
  assumes ok: "runtime_ok (se_runtime e)"
    and run: "reconcile_process_exit bk window (e, w) = (Ok (Some ev), (e', w'))"
  shows "\<exists>status. released status ev e e' \<and> se_control e' = se_control e \<and> se_registration e' = se_registration e"
proof -
  obtain status previous w1 e2 w2 where
    prev: "previous = rt_lifecycle (se_runtime e)"
    and rec: "map_err_op (map_observation_error :: 'e runtime_error \<Rightarrow> ('e, 'n) registry_error)
          (on_runtime (reconcile_exit_with (on_process (bk_try_wait bk)))) (e, w1) = (Ok (Some status), (e2, w2))"
    and rest: "bind_op (record_exit_op bk window status) (\<lambda>(automatic, deferred).
           bind_op (exit_health_op bk previous status) (\<lambda>health.
           seq_op (set_health health)
           (bind_op take_last_owned_pids (\<lambda>pids.
           get_op (\<lambda>(e, w). Some
             \<lparr>pee_service_id = reg_id (se_registration e),
              pee_previous_state = previous,
              pee_owned_pids_before = pids,
              pee_exit_code = exit_code status,
              pee_successful = exit_success status,
              pee_automatic_restart_planned = automatic,
              pee_deferred_restart_planned = deferred\<rparr>))))) (e2, w2) =
         (Ok (Some ev) :: (_, ('e, 'n) registry_error) outcome, (e', w'))"
    using run
    by (auto simp: reconcile_process_exit_def bind_op_Ok [of _ _ "(e, w)"] inspect_Ok
        seq_op_Ok return_op_Ok map_op_def map_outcome_Ok return_op_def
        bind_op_Ok [of "map_err_op map_observation_error (on_runtime (reconcile_exit_with _))"]
        split: if_splits option.splits prod.splits outcome.splits)
  obtain automatic deferred h e3 w3 e4 w4 where
    ex: "record_exit_op bk window status (e2, w2) =
      (Ok (automatic, deferred) :: (_, ('e, 'n) registry_error) outcome, (e3, w3))"
    and hl: "exit_health_op bk previous status (e3, w3) = (Ok h :: (_, ('e, 'n) registry_error) outcome, (e4, w4))"
    and fin: "e' = e4\<lparr>se_health := h, se_supervision := (se_supervision e4)\<lparr>sv_last_owned_pids := []\<rparr>\<rparr>"
      "ev = \<lparr>pee_service_id = reg_id (se_registration e4), pee_previous_state = previous,
              pee_owned_pids_before = sv_last_owned_pids (se_supervision e4),
              pee_exit_code = exit_code status, pee_successful = exit_success status,
              pee_automatic_restart_planned = automatic, pee_deferred_restart_planned = deferred\<rparr>"
    using rest by (auto simp: bind_op_Ok seq_op_Ok set_health_Ok take_pids_Ok get_op_def)
  obtain settled ms sv' where sv: "record_exit settled ms status (reg_restart_policy (se_registration e2))
      (cp_operator_hold (cs_policy (se_control e2))) (se_supervision e2) = ((automatic, deferred), sv')"
    and e3: "e3 = e2\<lparr>se_supervision := sv'\<rparr>"
    using record_exit_op_Ok [OF ex] by blast
  have e4: "e4 = e3" and unh: "\<not> is_healthy h" using exit_health_op_Ok [OF hl] by auto
  have e2: "rt_process (se_runtime e) \<noteq> None \<and> e2 = e\<lparr>se_runtime := (se_runtime e)\<lparr>rt_process := None, rt_lifecycle :=
             (if rt_lifecycle (se_runtime e) = TerminationPending then Stopped else Failed)\<rparr>\<rparr>"
    using reconcile_exit_Ok [OF ok rec] by (auto split: option.splits)
  show ?thesis
    using e2 sv record_exit_pids [OF sv] unh prev
    by (intro exI [of _ status]) (auto simp: released_def fin e4 e3)
qed

end
