(* ===== verification/Registry_Laws.thy ===== *)
theory Registry_Laws
  imports Registry Entry_Facts
begin

text \<open>
  The registry as a state machine: the requests of the control adapters and of the refresh
  loop, the states they reach, what holds in every reachable state, and what a request cannot
  do: report an illegal transition, or bring back a service the operator has stopped.
\<close>

section \<open>Requests and reachable states\<close>

datatype registry_request =
  ReqPreflight "string list"
| ReqStart string actor reason
| ReqStop string actor reason
| ReqRestart string actor reason
| ReqSnapshots
| ReqRefresh
| ReqReconcile "service_registration list"

text \<open>The state after a request and the error it reported, if any.\<close>

definition error_of :: "('a, 'e) outcome \<Rightarrow> 'e option" where
  "error_of r = (case r of Err e \<Rightarrow> Some e | _ \<Rightarrow> None)"

fun registry_exec ::
  "('w, 'p, 'e, 'n) backend \<Rightarrow> nat \<Rightarrow> registry_request \<Rightarrow> ('p, 'w) registry_state \<Rightarrow>
     ('e, 'n) registry_error option \<times> ('p, 'w) registry_state" where
  "registry_exec bk window (ReqPreflight sids) st = apfst error_of (preflight_launches bk sids st)"
| "registry_exec bk window (ReqStart sid a r) st = apfst error_of (registry_start bk sid a r st)"
| "registry_exec bk window (ReqStop sid a r) st = apfst error_of (stop_with_report bk sid a r st)"
| "registry_exec bk window (ReqRestart sid a r) st = apfst error_of (restart_with_report bk sid a r st)"
| "registry_exec bk window ReqSnapshots st = apfst error_of (snapshots bk st)"
| "registry_exec bk window ReqRefresh st = apfst error_of (refresh_services bk window st)"
| "registry_exec bk window (ReqReconcile regs) (services, w) =
     (None, (snd (reconcile_registrations regs services :: ('e reconcile_error + reconcile_outcome) \<times> _), w))"

text \<open>
  Requests follow each other in any order; between two of them the platform may do anything
  (processes exit, ports are taken, time passes).
\<close>

inductive registry_reach ::
  "('w, 'p, 'e, 'n) backend \<Rightarrow> nat \<Rightarrow> service_registration list \<Rightarrow> ('p, 'w) registry_state \<Rightarrow> bool"
  for bk window regs where
  init: "registry_new regs = Inr services \<Longrightarrow> registry_reach bk window regs (services, w)"
| platform: "registry_reach bk window regs (services, w) \<Longrightarrow> registry_reach bk window regs (services, w')"
| request: "registry_reach bk window regs st \<Longrightarrow> registry_exec bk window req st = (err, st') \<Longrightarrow>
    registry_reach bk window regs st'"

inductive_cases registry_reachE: "registry_reach bk window regs st"

lemmas registry_keeps = start_entry_keeps stop_entry_keeps restart_entry_keeps snapshot_entry_keeps
  refresh_entry_keeps keeps_preflight

lemma registry_ops_keep:
  "keeps registry_ok_st (preflight_launches bk sids)"
  "keeps registry_ok_st (registry_start bk sid a r)"
  "keeps registry_ok_st (stop_with_report bk sid a r)"
  "keeps registry_ok_st (restart_with_report bk sid a r)"
  "keeps registry_ok_st (snapshots bk)"
  "keeps registry_ok_st (refresh_services bk window)"
  unfolding preflight_launches_def registry_start_def stop_with_report_def restart_with_report_def
    snapshots_def refresh_services_def
  by (intro keeps_intro registry_keeps)+

lemma registry_exec_ok:
  assumes "registry_ok (fst st)"
  shows "registry_ok (fst (snd (registry_exec bk window req st)))"
proof (cases req)
  case (ReqReconcile regs)
  then show ?thesis
    using assms by (cases st) (auto intro: reconcile_ok [OF _ prod.collapse [symmetric]])
qed (use assms in \<open>simp_all add: keepsD [where I = registry_ok_st] registry_ops_keep\<close>)

lemma registry_reach_ok: "registry_reach bk window regs st \<Longrightarrow> registry_ok (fst st)"
proof (induction rule: registry_reach.induct)
  case (request st req err st')
  then show ?case using registry_exec_ok [of st bk window req] by simp
qed (simp_all add: registry_new_ok)

lemma each_op_avoids [avoids_intro]:
  "(\<And>x. avoids I B (f x)) \<Longrightarrow> (\<And>x. keeps I (f x)) \<Longrightarrow> avoids I B (each_op f xs)"
  by (induction xs) (auto intro: avoids_simple avoids_seq)

lemmas registry_avoids = start_entry_avoids stop_entry_avoids restart_entry_avoids
  snapshot_entry_avoids refresh_entry_avoids avoids_preflight

lemma registry_ops_avoid:
  "avoids registry_ok_st illegal_error (preflight_launches bk sids)"
  "avoids registry_ok_st illegal_error (registry_start bk sid a r)"
  "avoids registry_ok_st illegal_error (stop_with_report bk sid a r)"
  "avoids registry_ok_st illegal_error (restart_with_report bk sid a r)"
  "avoids registry_ok_st illegal_error (snapshots bk)"
  "avoids registry_ok_st illegal_error (refresh_services bk window)"
  unfolding preflight_launches_def registry_start_def stop_with_report_def restart_with_report_def
    snapshots_def refresh_services_def
  by (intro avoids_intro keeps_intro registry_avoids registry_keeps)+

lemma avoids_registry:
  "avoids registry_ok_st B m \<Longrightarrow> fst (m (services, w)) = Err e \<Longrightarrow> registry_ok services \<Longrightarrow> \<not> B e"
  by (simp add: avoids_def)

lemma registry_exec_avoids:
  assumes "registry_ok (fst st)" and "fst (registry_exec bk window req st) = Some e"
  shows "\<not> illegal_error e"
  using assms
  by (cases req; cases st)
     (auto simp: error_of_def split: outcome.splits
       dest: avoids_registry [OF registry_ops_avoid(1)] avoids_registry [OF registry_ops_avoid(2)]
         avoids_registry [OF registry_ops_avoid(3)] avoids_registry [OF registry_ops_avoid(4)]
         avoids_registry [OF registry_ops_avoid(5)] avoids_registry [OF registry_ops_avoid(6)])

section \<open>A stopped service stays down\<close>

definition ownerless :: "('p, 'w) entry_state \<Rightarrow> bool" where
  "ownerless st \<longleftrightarrow> runtime_ok (se_runtime (fst st)) \<and> rt_process (se_runtime (fst st)) = None"

lemma keeps_ownerless_same:
  "(\<And>st. se_runtime (fst (snd (m st))) = se_runtime (fst st)) \<Longrightarrow> keeps ownerless m"
  by (simp add: keeps_def ownerless_def)

lemma keeps_ownerless_steps [keeps_intro]:
  "keeps ownerless (on_control f)" "keeps ownerless (on_supervision g)" "keeps ownerless (set_health h)"
  "keeps ownerless (on_world m)" "keeps ownerless (authorize_op a act)"
  "keeps ownerless take_last_owned_pids" "keeps ownerless (exit_health_op bk previous st)"
  by (auto intro!: keeps_ownerless_same simp: on_control_def on_supervision_def set_health_def modify_op_def
      on_world_def authorize_op_def take_last_owned_pids_def exit_health_op_def
      split: prod.split sum.split)

lemma keeps_ownerless_runtime:
  fixes m :: "('p runtime \<times> 'w world, 'a, 'x) op"
  assumes "\<And>rt w. runtime_ok rt \<Longrightarrow> rt_process rt = None \<Longrightarrow>
    runtime_ok (fst (snd (m (rt, w)))) \<and> rt_process (fst (snd (m (rt, w)))) = None"
  shows "keeps ownerless (on_runtime m)"
proof (rule keepsI)
  fix st :: "('p, 'w) entry_state" assume "ownerless st"
  then show "ownerless (snd (on_runtime m st))"
    using assms [of "se_runtime (fst st)" "snd st"]
    by (auto simp: ownerless_def on_runtime_def split: prod.split)
qed

lemma runtime_ok_poison: "runtime_ok rt \<Longrightarrow> runtime_ok (rt\<lparr>rt_poisoned := True\<rparr>)"
  by (simp add: runtime_ok_def)

lemma ownerless_runtime [keeps_intro]:
  "keeps ownerless (on_runtime (inspect_with f))"
  "keeps ownerless (on_runtime (reconcile_exit_with g))"
  "keeps ownerless (on_runtime (apply_health h))"
  "keeps ownerless (on_runtime has_process)"
  by (auto intro!: keeps_ownerless_runtime simp: runtime_specs runtime_ok_poison
      split: prod.split outcome.split)

lemma ownerless_run_stop [keeps_intro]:
  fixes bk :: "('w, 'p, 'e, 'n) backend"
  shows "keeps ownerless (run_stop bk)"
proof (rule keepsI)
  fix st :: "('p, 'w) entry_state" assume o: "ownerless st"
  obtain e w where st: "st = (e, w)" by (cases st)
  have ok: "runtime_ok (se_runtime e)" and none: "rt_process (se_runtime e) = None"
    using o by (simp_all add: ownerless_def st)
  show "ownerless (snd (run_stop bk st))"
    using keepsD [OF keeps_run_stop [of "\<lambda>_ _ _. True" bk], of "(e, w)"] ok none
    by (auto simp: run_stop_def stop_with_spec [OF ok] ownerless_def entry_inv_def st)
qed

lemma ownerless_with_mutation [keeps_intro]:
  fixes m :: "(('p, 'w) entry_state, 'a, ('e, 'n) registry_error) op"
  assumes "keeps ownerless m"
  shows "keeps ownerless (with_mutation m)"
proof (rule keepsI)
  fix st :: "('p, 'w) entry_state" assume o: "ownerless st"
  obtain e w where st: "st = (e, w)" by (cases st)
  obtain r e' w' where m: "m (e, w) = (r, (e', w'))" by (metis prod.exhaust)
  have "ownerless (e', w')" using keeps_run [OF assms o [unfolded st] m] .
  with o show "ownerless (snd (with_mutation m st))"
    by (cases r) (auto simp: st m with_mutation_def ownerless_def)
qed

lemma ownerless_observation [keeps_intro]: "keeps ownerless (observation bk cap hp ready)"
  by (rule keeps_ownerless_same) (auto simp: observation_def Let_def on_world_def split: prod.split)

lemma ownerless_record_exit [keeps_intro]: "keeps ownerless (record_exit_op bk window status)"
  by (rule keeps_ownerless_same)
     (auto simp: record_exit_op_def bind_op_def settled_op_def on_world_def
       split: prod.split outcome.split option.split)

lemma ownerless_observe_health [keeps_intro]: "keeps ownerless (observe_health bk cap)"
  unfolding observe_health_def process_ready_def by (intro keeps_intro)

lemma ownerless_snapshot: "keeps ownerless (snapshot_entry bk)"
  unfolding snapshot_entry_def by (intro keeps_intro)

lemma ownerless_refresh: "keeps ownerless (refresh_entry bk window)"
  unfolding refresh_entry_def reconcile_process_exit_def by (intro keeps_intro)

lemma ownerless_stop: "keeps ownerless (stop_entry bk a r)"
  unfolding stop_entry_def by (intro keeps_intro)

text \<open>The operator's hold: a service that is held, has no owner, and has the registration \<open>reg\<close>.\<close>

definition held ::
  "service_registration \<Rightarrow> service_registration \<Rightarrow> control_state \<Rightarrow> supervision_state \<Rightarrow> bool" where
  "held reg r cs sv \<longleftrightarrow> r = reg \<and> cp_operator_hold (cs_policy cs) = HoldStopped"

definition held_down :: "service_registration \<Rightarrow> ('p, 'w) entry_state \<Rightarrow> bool" where
  "held_down reg st \<longleftrightarrow> ownerless st \<and> entry_inv (held reg) st"

definition down :: "service_registration \<Rightarrow> 'p service_entry \<Rightarrow> bool" where
  "down reg e \<longleftrightarrow> runtime_ok (se_runtime e) \<and> rt_process (se_runtime e) = None
     \<and> se_registration e = reg \<and> cp_operator_hold (cs_policy (se_control e)) = HoldStopped"

lemma held_down_iff: "held_down reg (e, w) \<longleftrightarrow> down reg e"
  by (auto simp: held_down_def ownerless_def entry_inv_def held_def down_def)

lemma keeps_conj: "keeps I m \<Longrightarrow> keeps J m \<Longrightarrow> keeps (\<lambda>s. I s \<and> J s) m"
  by (simp add: keeps_def)

lemma held_down_refused:
  "\<not> is_user a \<Longrightarrow> keeps (held_down reg) (start_entry bk a r)"
  "\<not> is_user a \<Longrightarrow> keeps (held_down reg) (restart_entry bk a r)"
proof -
  assume a: "\<not> is_user a"
  have "snd (start_entry bk a r (e, w)) = (e, w) \<and> snd (restart_entry bk a r (e, w)) = (e, w)"
    if "held_down reg (e, w)" for e w
  proof (cases "se_poisoned e")
    case True
    then show ?thesis by (simp add: start_entry_def restart_entry_def with_mutation_def)
  next
    case False
    then show ?thesis
      using held_refused [OF False _ a, of bk r w] that by (simp add: held_down_iff down_def)
  qed
  then show "keeps (held_down reg) (start_entry bk a r)" "keeps (held_down reg) (restart_entry bk a r)"
    by (auto simp: keeps_def)
qed

lemma held_down_observed:
  "keeps (held_down reg) (snapshot_entry bk)" "keeps (held_down reg) (refresh_entry bk window)"
proof -
  have "keeps (entry_inv (held reg)) (refresh_entry bk window)"
    unfolding refresh_entry_def reconcile_process_exit_def
    by (intro keeps_intro keeps_on_supervision keeps_record_exit keeps_take_pids) (simp_all add: held_def)
  then show "keeps (held_down reg) (refresh_entry bk window)"
    unfolding held_down_def [abs_def] by (intro keeps_conj ownerless_refresh)
  show "keeps (held_down reg) (snapshot_entry bk)"
    unfolding held_down_def [abs_def] by (intro keeps_conj ownerless_snapshot snapshot_entry_keeps)
qed

lemma held_down_stop: "keeps (held_down reg) (stop_entry bk a r)"
proof -
  have "keeps (entry_inv (held reg)) (stop_entry bk a r)"
    unfolding stop_entry_def
    by (intro keeps_intro keeps_on_supervision keeps_on_control)
       (simp_all add: held_def accept_request_def apply_user_action_hold hold_of_action_def)
  then show ?thesis unfolding held_down_def [abs_def] by (intro keeps_conj ownerless_stop)
qed

lemma with_entry_other:
  "bt_invar services \<Longrightarrow> k \<noteq> sid \<Longrightarrow>
     bt_get (fst (snd (with_entry sid m (services, w)))) k = bt_get services k"
  by (auto simp: with_entry_def split: option.split prod.split)

lemma with_entry_down:
  fixes m :: "(('p, 'w) entry_state, 'a, ('e, 'n) registry_error) op"
  assumes "bt_invar services" and "bt_get services sid = Some e" and "down reg e" and "keeps (held_down reg) m"
  shows "\<exists>e'. bt_get (fst (snd (with_entry sid m (services, w)))) sid = Some e' \<and> down reg e'"
proof -
  obtain r e' w' where m: "m (e, w) = (r, (e', w'))" by (metis prod.exhaust)
  have "down reg e'"
    using keeps_run [OF assms(4) _ m] assms(3) by (simp add: held_down_iff)
  then show ?thesis using assms(1) by (simp add: with_entry_def assms(2) m)
qed

definition service_down :: "string \<Rightarrow> service_registration \<Rightarrow> ('p, 'w) registry_state \<Rightarrow> bool" where
  "service_down sid reg st \<longleftrightarrow>
     registry_ok (fst st) \<and> (\<exists>e. bt_get (fst st) sid = Some e \<and> down reg e)"

lemma with_entry_service_down:
  fixes m :: "(('p, 'w) entry_state, 'a, ('e, 'n) registry_error) op"
  assumes "keeps (entry_inv (sound (named k))) m" and "k = sid \<Longrightarrow> keeps (held_down reg) m"
  shows "keeps (service_down sid reg) (with_entry k m)"
proof (rule keepsI)
  fix st :: "('p, 'w) registry_state" assume i: "service_down sid reg st"
  obtain services w where st: "st = (services, w)" by (cases st)
  obtain e where ok: "registry_ok services" and e: "bt_get services sid = Some e" "down reg e"
    using i by (auto simp: service_down_def st)
  have "registry_ok (fst (snd (with_entry k m (services, w))))"
    using keepsD [OF with_entry_keeps [OF assms(1)], of "(services, w)"] ok by simp
  moreover have "\<exists>e'. bt_get (fst (snd (with_entry k m (services, w)))) sid = Some e' \<and> down reg e'"
  proof (cases "k = sid")
    case True
    then show ?thesis using with_entry_down [OF registry_ok_invar [OF ok] e] assms(2) by blast
  next
    case False
    then show ?thesis using with_entry_other [OF registry_ok_invar [OF ok], of sid k m w] e by simp
  qed
  ultimately show "service_down sid reg (snd (with_entry k m st))" by (simp add: service_down_def st)
qed

lemma collect_entries_service_down:
  fixes m :: "(('p, 'w) entry_state, 'a, ('e, 'n) registry_error) op"
  assumes "\<And>k. keeps (entry_inv (sound (named k))) m" and "keeps (held_down reg) m"
  shows "keeps (service_down sid reg) (collect_entries m)"
proof (rule keepsI)
  fix st :: "('p, 'w) registry_state" assume i: "service_down sid reg st"
  obtain services w where st: "st = (services, w)" by (cases st)
  let ?s = "fst (snd (collect_entries m (services, w)))"
  obtain e where ok: "registry_ok services" and e: "bt_get services sid = Some e" "down reg e"
    using i by (auto simp: service_down_def st)
  have ok': "registry_ok ?s"
    using keepsD [OF collect_entries_keeps [OF assms(1)], of "(services, w)"] ok by simp
  have "down reg (fst (snd (m (e, w))))" if "down reg e" for e w
    using keepsD [OF assms(2), of "(e, w)"] that held_down_iff [of reg e w]
      held_down_iff [of reg "fst (snd (m (e, w)))" "snd (snd (m (e, w)))"] by simp
  then have all: "\<forall>(k, e) \<in> set ?s. k = sid \<longrightarrow> down reg e"
    using e bt.entries_iff [OF registry_ok_invar [OF ok]] by (intro collect_entries_all) auto
  have "sid \<in> set (bt_keys ?s)"
    using e bt_get_keys by (simp add: collect_entries_keys) fastforce
  then obtain e' where "bt_get ?s sid = Some e'" by (auto simp: bt_keys_set)
  then show "service_down sid reg (snd (collect_entries m st))"
    using all ok' bt.entries_iff [OF registry_ok_invar [OF ok']] by (auto simp: service_down_def st)
qed

lemma held_down_preflight: "keeps (held_down reg) (preflight_entry bk)"
  unfolding held_down_def [abs_def]
  by (intro keeps_conj keeps_preflight keeps_ownerless_same)
     (auto simp: preflight_entry_def on_world_def split: prod.split)

text \<open>The requests that do not ask, as the operator, for \<open>sid\<close> to run, nor take its registration away.\<close>

fun leaves_held :: "string \<Rightarrow> service_registration \<Rightarrow> registry_request \<Rightarrow> bool" where
  "leaves_held sid reg (ReqStart k a r) = (k = sid \<longrightarrow> \<not> is_user a)"
| "leaves_held sid reg (ReqRestart k a r) = (k = sid \<longrightarrow> \<not> is_user a)"
| "leaves_held sid reg (ReqReconcile regs) = (registered regs sid = Some reg)"
| "leaves_held sid reg _ = True"

lemma reconcile_service_down:
  fixes services :: "'p services"
  assumes "service_down sid reg (services, w)" and "registered regs sid = Some reg"
    and run: "reconcile_registrations regs services =
      (out :: 'e reconcile_error + reconcile_outcome, services')"
  shows "service_down sid reg (services', w)"
proof -
  obtain e where ok: "registry_ok services" and e: "bt_get services sid = Some e" "down reg e"
    using assms(1) by (auto simp: service_down_def)
  have ok': "registry_ok services'" by (rule reconcile_ok [OF ok run])
  show ?thesis
  proof (cases out)
    case (Inl x)
    then show ?thesis using assms(1) reconcile_error_unchanged run by metis
  next
    case (Inr out')
    have "bt_get services' sid = Some e"
      using reconcile_Inr(3) [OF registry_ok_invar [OF ok] run [unfolded Inr], of sid] assms(2) e
      by (simp add: reconciled_def down_def)
    then show ?thesis using ok' e by (simp add: service_down_def)
  qed
qed

lemma registry_ops_down:
  "keeps (service_down sid reg) (preflight_launches bk sids)"
  "leaves_held sid reg (ReqStart k a r) \<Longrightarrow> keeps (service_down sid reg) (registry_start bk k a r)"
  "keeps (service_down sid reg) (stop_with_report bk k a r)"
  "leaves_held sid reg (ReqRestart k a r) \<Longrightarrow> keeps (service_down sid reg) (restart_with_report bk k a r)"
  "keeps (service_down sid reg) (snapshots bk)"
  "keeps (service_down sid reg) (refresh_services bk window)"
  unfolding preflight_launches_def registry_start_def stop_with_report_def restart_with_report_def
    snapshots_def refresh_services_def
  by (intro keeps_each with_entry_service_down collect_entries_service_down registry_keeps
      held_down_preflight held_down_refused held_down_stop held_down_observed; simp)+

lemma registry_exec_down:
  assumes i: "service_down sid reg st" and "leaves_held sid reg req"
  shows "service_down sid reg (snd (registry_exec bk window req st))"
proof (cases req)
  case (ReqReconcile regs)
  obtain services w where st: "st = (services, w)" by (cases st)
  show ?thesis
    using reconcile_service_down [OF i [unfolded st] _ prod.collapse [symmetric]] assms(2) ReqReconcile
    by (simp add: st)
qed (use assms in \<open>simp_all add: keepsD [where I = "service_down sid reg"] registry_ops_down\<close>)

definition registry_run ::
  "('w, 'p, 'e, 'n) backend \<Rightarrow> nat \<Rightarrow> registry_request list \<Rightarrow> ('p, 'w) registry_state \<Rightarrow>
     ('p, 'w) registry_state" where
  "registry_run bk window = fold (\<lambda>req st. snd (registry_exec bk window req st))"

lemma registry_run_down:
  "service_down sid reg st \<Longrightarrow> list_all (leaves_held sid reg) reqs \<Longrightarrow>
     service_down sid reg (registry_run bk window reqs st)"
  unfolding registry_run_def
  by (induction reqs arbitrary: st) (auto simp: registry_exec_down)

end
