(* ===== verification/Control_Api.thy ===== *)
theory Control_Api
  imports Registry_Laws
begin

text \<open>
  \<open>src/src/application/control_api.rs\<close>: the interface every control adapter uses
  (\<open>SupervisorControl\<close>), its results and errors, and its implementation by the registry. The
  trait is the record \<open>control\<close> of its three operations; the locale \<open>supervisor_control\<close>
  states what the wrappers around a control rely on, and the registry satisfies it.
\<close>

section \<open>Results and errors\<close>

datatype control_action = CtlStart | CtlStop | CtlRestart

datatype mutation_outcome =
  MutStarted | MutAlreadyRunning | MutStopped | MutTerminationPending | MutAlreadyStopped | MutRestarted

record mutation_result =
  mr_outcome :: mutation_outcome
  mr_shutdown :: "tree_stop_report option"

datatype control_error_kind =
  KindServiceNotFound | KindUnauthorized | KindPortConflictExternal | KindSpawnFailed
| KindHealthFailed | KindShutdownTimeout | KindOwnershipLost | KindInternal

record control_error =
  ce_kind :: control_error_kind
  ce_message :: string

definition ce_internal :: "string \<Rightarrow> control_error" where
  "ce_internal message = \<lparr>ce_kind = KindInternal, ce_message = message\<rparr>"

definition ce_service_not_found :: "string \<Rightarrow> control_error" where
  "ce_service_not_found sid =
     \<lparr>ce_kind = KindServiceNotFound, ce_message = ''service not found: '' @ sid\<rparr>"

definition with_context :: "string \<Rightarrow> control_error \<Rightarrow> control_error" where
  "with_context message e = e\<lparr>ce_message := message @ '': '' @ ce_message e\<rparr>"

section \<open>Messages\<close>

fun show_action :: "control_action \<Rightarrow> string" where
  "show_action CtlStart = ''Start''"
| "show_action CtlStop = ''Stop''"
| "show_action CtlRestart = ''Restart''"

fun show_lifecycle :: "lifecycle_state \<Rightarrow> string" where
  "show_lifecycle Stopped = ''Stopped''"
| "show_lifecycle Starting = ''Starting''"
| "show_lifecycle Running = ''Running''"
| "show_lifecycle Stopping = ''Stopping''"
| "show_lifecycle TerminationPending = ''TerminationPending''"
| "show_lifecycle Unhealthy = ''Unhealthy''"
| "show_lifecycle Failed = ''Failed''"

definition show_transition_error :: "transition_error \<Rightarrow> string" where
  "show_transition_error e = ''illegal lifecycle transition from '' @ show_lifecycle (te_previous e)
     @ '' to '' @ show_lifecycle (te_requested e)"

fun show_authorization_error :: "authorization_error \<Rightarrow> string" where
  "show_authorization_error OperatorHoldStopped =
     ''a user stop hold blocks agent and recovery start actions''"
| "show_authorization_error AgentStartDisabled = ''agent start and restart actions are disabled''"
| "show_authorization_error RecoveryDesiredStateStopped =
     ''automatic recovery is suppressed because the desired state is stopped''"

definition show_occupant :: "port_occupant \<Rightarrow> string" where
  "show_occupant o' = ''PortOccupant { pid: '' @ decimal (unat (po_pid o')) @ '', family: ''
     @ (case po_family o' of V4 \<Rightarrow> ''V4'' | V6 \<Rightarrow> ''V6'') @ '' }''"

text \<open>\<open>Display\<close>, given the \<open>Display\<close> of the failures of the platform.\<close>

fun show_backend_error ::
  "('e \<Rightarrow> string) \<Rightarrow> ('n \<Rightarrow> string) \<Rightarrow> ('e, 'n) backend_operation_error \<Rightarrow> string" where
  "show_backend_error se sn (BkProcess e) = se e"
| "show_backend_error se sn (BkStartupPrerequisite index detail) =
     ''startup prerequisite '' @ decimal (index + 1) @ '' failed: '' @ detail"
| "show_backend_error se sn (BkPortInspection port source) =
     ''failed to inspect TCP port '' @ decimal (unat port) @ '': '' @ sn source"
| "show_backend_error se sn (BkPortConflict port occupants) =
     ''TCP port '' @ decimal (unat port) @ '' is occupied by ['' @
     join '', '' (map show_occupant occupants) @ '']''"

fun show_runtime_error :: "('x \<Rightarrow> string) \<Rightarrow> 'x runtime_error \<Rightarrow> string" where
  "show_runtime_error sx RtPoisoned = ''service lifecycle lock is poisoned''"
| "show_runtime_error sx (RtTransition e) = show_transition_error e"
| "show_runtime_error sx (RtStart e) = ''service start failed: '' @ sx e"
| "show_runtime_error sx (RtStop e) = ''service stop failed: '' @ sx e"
| "show_runtime_error sx (RtInspect e) = ''service inspection failed: '' @ sx e"

fun show_registry_error ::
  "('e \<Rightarrow> string) \<Rightarrow> ('n \<Rightarrow> string) \<Rightarrow> ('e, 'n) registry_error \<Rightarrow> string" where
  "show_registry_error se sn (RegServiceNotFound sid) = ''unknown service: '' @ sid"
| "show_registry_error se sn (RegUnauthorized e) = show_authorization_error e"
| "show_registry_error se sn RegLockPoisoned = ''service registry lock is poisoned''"
| "show_registry_error se sn (RegTransition e) = show_transition_error e"
| "show_registry_error se sn RegInternalState = ''service registry invariant was violated''"
| "show_registry_error se sn (RegObservation e) = ''process observation failed: '' @ se e"
| "show_registry_error se sn (RegHealthFailed detail) = ''service health failed: '' @ detail"
| "show_registry_error se sn (RegRuntime e) = show_runtime_error (show_backend_error se sn) e"

fun error_kind_of :: "('e, 'n) registry_error \<Rightarrow> control_error_kind" where
  "error_kind_of (RegServiceNotFound _) = KindServiceNotFound"
| "error_kind_of (RegUnauthorized _) = KindUnauthorized"
| "error_kind_of (RegRuntime (RtStart (BkPortConflict _ _))) = KindPortConflictExternal"
| "error_kind_of (RegRuntime (RtStart (BkProcess _))) = KindSpawnFailed"
| "error_kind_of (RegRuntime (RtStart (BkStartupPrerequisite _ _))) = KindHealthFailed"
| "error_kind_of (RegHealthFailed _) = KindHealthFailed"
| "error_kind_of (RegRuntime (RtStop _)) = KindShutdownTimeout"
| "error_kind_of (RegObservation _) = KindOwnershipLost"
| "error_kind_of (RegRuntime (RtInspect _)) = KindOwnershipLost"
| "error_kind_of RegLockPoisoned = KindInternal"
| "error_kind_of (RegTransition _) = KindInternal"
| "error_kind_of RegInternalState = KindInternal"
| "error_kind_of (RegRuntime RtPoisoned) = KindInternal"
| "error_kind_of (RegRuntime (RtTransition _)) = KindInternal"
| "error_kind_of (RegRuntime (RtStart (BkPortInspection _ _))) = KindInternal"

definition control_error_of ::
  "('e \<Rightarrow> string) \<Rightarrow> ('n \<Rightarrow> string) \<Rightarrow> ('e, 'n) registry_error \<Rightarrow> control_error" where
  "control_error_of se sn e =
     \<lparr>ce_kind = error_kind_of e, ce_message = show_registry_error se sn e\<rparr>"

section \<open>The interface\<close>

record 's control =
  ctl_snapshots :: "('s, service_snapshot list, control_error) op"
  ctl_preflight :: "string list \<Rightarrow> ('s, unit, control_error) op"
  ctl_mutate :: "control_action \<Rightarrow> string \<Rightarrow> actor \<Rightarrow> reason \<Rightarrow> ('s, mutation_result, control_error) op"

text \<open>The default method of the trait.\<close>

definition default_preflight :: "string list \<Rightarrow> ('s, unit, control_error) op" where
  "default_preflight sids = return_op ()"

fun start_result :: "start_outcome \<Rightarrow> mutation_result" where
  "start_result StartStarted = \<lparr>mr_outcome = MutStarted, mr_shutdown = None\<rparr>"
| "start_result StartAlreadyRunning = \<lparr>mr_outcome = MutAlreadyRunning, mr_shutdown = None\<rparr>"

definition stop_result_of :: "service_stop_result \<Rightarrow> mutation_result" where
  "stop_result_of res =
     \<lparr>mr_outcome = (case sst_outcome res of StopStopped \<Rightarrow> MutStopped
        | StopTerminationPending \<Rightarrow> MutTerminationPending | StopAlreadyStopped \<Rightarrow> MutAlreadyStopped),
      mr_shutdown = sst_shutdown res\<rparr>"

definition restart_result_of :: "service_restart_result \<Rightarrow> mutation_result" where
  "restart_result_of res =
     \<lparr>mr_outcome = (case srr_outcome res of RestartRestarted \<Rightarrow> MutRestarted
        | RestartTerminationPending \<Rightarrow> MutTerminationPending | RestartStarted \<Rightarrow> MutStarted),
      mr_shutdown = srr_shutdown res\<rparr>"

definition registry_mutate ::
  "('e \<Rightarrow> string) \<Rightarrow> ('n \<Rightarrow> string) \<Rightarrow> ('w, 'p, 'e, 'n) backend \<Rightarrow> control_action \<Rightarrow> string \<Rightarrow>
     actor \<Rightarrow> reason \<Rightarrow> (('p, 'w) registry_state, mutation_result, control_error) op" where
  "registry_mutate se sn bk action sid a r = map_err_op (control_error_of se sn)
     (case action of
        CtlStart \<Rightarrow> map_op start_result (registry_start bk sid a r)
      | CtlStop \<Rightarrow> map_op stop_result_of (stop_with_report bk sid a r)
      | CtlRestart \<Rightarrow> map_op restart_result_of (restart_with_report bk sid a r))"

definition registry_control ::
  "('e \<Rightarrow> string) \<Rightarrow> ('n \<Rightarrow> string) \<Rightarrow> ('w, 'p, 'e, 'n) backend \<Rightarrow> ('p, 'w) registry_state control" where
  "registry_control se sn bk =
     \<lparr>ctl_snapshots = map_err_op (control_error_of se sn) (snapshots bk),
      ctl_preflight = (\<lambda>sids. map_err_op (control_error_of se sn) (preflight_launches bk sids)),
      ctl_mutate = registry_mutate se sn bk\<rparr>"

section \<open>The contract\<close>

text \<open>
  Observing the services and checking launch paths change no service (\<open>view\<close> is what a client
  can tell of the services), identifiers are unique, and every operation keeps the invariant of
  the implementation. An observation that panics poisons the lock it holds.
\<close>

locale supervisor_control =
  fixes ctl :: "'s control"
    and inv :: "'s \<Rightarrow> bool"
    and view :: "'s \<Rightarrow> 'v"
  assumes inv_snapshots: "keeps inv (ctl_snapshots ctl)"
    and inv_preflight: "keeps inv (ctl_preflight ctl sids)"
    and inv_mutate: "keeps inv (ctl_mutate ctl action sid a r)"
    and view_snapshots: "inv s \<Longrightarrow> ctl_snapshots ctl s = (out, s') \<Longrightarrow> out \<noteq> Panic \<Longrightarrow> view s' = view s"
    and view_preflight: "inv s \<Longrightarrow> view (snd (ctl_preflight ctl sids s)) = view s"
    and distinct_snapshots: "inv s \<Longrightarrow> ctl_snapshots ctl s = (Ok snaps, s') \<Longrightarrow> distinct (map ss_id snaps)"
begin

lemma keeps_view: "keeps (\<lambda>s. inv s \<and> view s = v) (ctl_preflight ctl sids)"
  using keepsD [OF inv_preflight] view_preflight by (simp add: keeps_def)

end

lemma bt_insert_same: "bt_invar m \<Longrightarrow> bt_get m k = Some v \<Longrightarrow> bt_insert k v m = m"
  by (rule bt.entries_ext) (auto simp: fun_eq_iff)

lemma with_entry_unchanged:
  assumes "\<And>e w. fst (snd (m (e, w))) = e" and "bt_invar services"
  shows "fst (snd (with_entry sid m (services, w))) = services"
proof (cases "bt_get services sid")
  case None
  then show ?thesis by (simp add: with_entry_def)
next
  case (Some e)
  then show ?thesis
    using assms(1) [of e w] bt_insert_same [OF assms(2) Some]
    by (auto simp: with_entry_def split: prod.split)
qed

lemma preflight_entry_unchanged: "fst (snd (preflight_entry bk (e, w))) = e"
  by (simp add: preflight_entry_def on_world_def split: prod.split)

lemma preflight_unchanged:
  "bt_invar services \<Longrightarrow> fst (snd (preflight_launches bk sids (services, w))) = services"
proof (induction sids arbitrary: w)
  case (Cons sid sids)
  obtain r s1 w1 where first: "with_entry sid (preflight_entry bk) (services, w) = (r, (s1, w1))"
    by (metis prod.exhaust)
  have "s1 = services"
    using with_entry_unchanged [of "preflight_entry bk" services sid w] preflight_entry_unchanged [of bk] Cons.prems
      by (simp add: first)
  then show ?case
    using Cons first by (cases r) (simp_all add: preflight_launches_def seq_op_def bind_op_def)
qed (simp add: preflight_launches_def return_op_def)

lemma snapshot_entry_unchanged:
  "snapshot_entry bk (e, w) = (r, (e', w')) \<Longrightarrow> r \<noteq> Panic \<Longrightarrow> e' = e"
  by (auto simp: snapshot_entry_def with_mutation_def bind_op_def map_err_op_def on_runtime_def inspect_with_spec
      get_op_def split: if_splits outcome.splits prod.splits)

lemma snapshot_entry_id:
  "snapshot_entry bk (e, w) = (Ok snap, st) \<Longrightarrow> ss_id snap = reg_id (se_registration e)"
  by (auto simp: snapshot_entry_def with_mutation_Ok bind_op_Ok inspect_Ok get_op_def)

lemma snapshots_unchanged:
  "snapshots bk (services, w) = (r, (services', w')) \<Longrightarrow> r \<noteq> Panic \<Longrightarrow> services' = services"
  unfolding snapshots_def
proof (induction services arbitrary: w r services' w')
  case (Cons p services)
  obtain k e where p: "p = (k, e)" by (cases p)
  obtain r1 e1 w1 where m: "snapshot_entry bk (e, w) = (r1, (e1, w1))" by (metis prod.exhaust)
  obtain r2 s2 w2 where rest: "collect_entries (snapshot_entry bk) (services, w1) = (r2, (s2, w2))"
    by (metis prod.exhaust)
  show ?case
    using Cons snapshot_entry_unchanged [OF m] m rest
    by (cases r1; cases r2) (auto simp: p)
qed simp

lemma snapshots_ids:
  "registry_ok services \<Longrightarrow> snapshots bk (services, w) = (Ok snaps, st) \<Longrightarrow>
     map ss_id snaps = bt_keys services"
proof -
  assume "registry_ok services"
  then have "\<forall>(k, e) \<in> set services. named_ok k e" by (simp add: registry_ok_iff)
  then show "snapshots bk (services, w) = (Ok snaps, st) \<Longrightarrow> map ss_id snaps = bt_keys services"
    unfolding snapshots_def
  proof (induction services arbitrary: w snaps st)
    case (Cons p services)
    obtain k e where p: "p = (k, e)" by (cases p)
    obtain r1 e1 w1 where m: "snapshot_entry bk (e, w) = (r1, (e1, w1))" by (metis prod.exhaust)
    obtain r2 s2 w2 where rest: "collect_entries (snapshot_entry bk) (services, w1) = (r2, (s2, w2))"
      by (metis prod.exhaust)
    show ?case
      using Cons m rest snapshot_entry_id [of bk e w]
      by (cases r1; cases r2) (auto simp: p bt_keys_def named_ok_def)
  qed (simp add: bt_keys_def)
qed

lemma registry_mutate_keeps: "keeps registry_ok_st (registry_mutate se sn bk action sid a r)"
  by (cases action) (auto simp: registry_mutate_def intro!: keeps_intro registry_ops_keep)

interpretation reg: supervisor_control "registry_control se sn bk" registry_ok_st fst
proof unfold_locales
  show "keeps registry_ok_st (ctl_snapshots (registry_control se sn bk))"
    by (simp add: registry_control_def keeps_map_err registry_ops_keep)
  show "keeps registry_ok_st (ctl_preflight (registry_control se sn bk) sids)" for sids
    by (simp add: registry_control_def keeps_map_err registry_ops_keep)
  show "keeps registry_ok_st (ctl_mutate (registry_control se sn bk) action sid a r)" for action sid a r
    by (simp add: registry_control_def registry_mutate_keeps)
  show "fst s' = fst s"
    if "registry_ok_st s" and "ctl_snapshots (registry_control se sn bk) s = (out, s')" and "out \<noteq> Panic"
    for s s' out
    using that snapshots_unchanged [of bk "fst s" "snd s"]
    by (cases s; cases s') (auto simp: registry_control_def map_err_op_def split: prod.splits)
  show "fst (snd (ctl_preflight (registry_control se sn bk) sids s)) = fst s" if "registry_ok_st s" for sids s
    using preflight_unchanged [OF registry_ok_invar [OF that], of bk sids "snd s"]
    by (cases s) (auto simp: registry_control_def map_err_op_def split: prod.splits)
  show "distinct (map ss_id snaps)"
    if "registry_ok_st s" and "ctl_snapshots (registry_control se sn bk) s = (Ok snaps, s')" for s s' snaps
    using that snapshots_ids [of "fst s" bk "snd s" snaps] bt_keys_distinct [OF registry_ok_invar]
    by (cases s) (auto simp: registry_control_def map_err_op_def split: prod.splits)
qed

end
