(* ===== verification/Dependency.thy ===== *)
theory Dependency
  imports Control_Api
begin

text \<open>
  \<open>src/src/application/dependency_control.rs\<close>: the order in which services start, and the
  wrapper \<open>DependencyAwareControl\<close> that checks every launch path of a plan, then starts the
  dependencies in order, then the requested service.
\<close>

section \<open>The start order\<close>

text \<open>
  \<open>visit_start\<close>. The set \<open>visiting\<close> is the path of the depth-first search: the code inserts the
  service, visits its dependencies and removes it again, so a call returns with the set it was
  given and it is passed down here. The loops over the dependencies and over the requested
  services are the same function. The search ends because every nested visit adds a registered
  service to the path.
\<close>

type_synonym visit_state = "string set \<times> string list"

function visit_start ::
  "(string, service_snapshot) btree \<Rightarrow> string set \<Rightarrow> string \<Rightarrow> visit_state \<Rightarrow> control_error + visit_state"
and visit_all ::
  "(string, service_snapshot) btree \<Rightarrow> string set \<Rightarrow> string list \<Rightarrow> visit_state \<Rightarrow> control_error + visit_state"
where
  "visit_start services visiting sid (visited, ordered) =
     (if sid \<in> visited then Inr (visited, ordered)
      else case bt_get services sid of
        None \<Rightarrow> Inl (ce_service_not_found sid)
      | Some service \<Rightarrow>
          if sid \<in> visiting then Inl (ce_internal (''service dependency cycle reached at '' @ sid))
          else (case visit_all services (insert sid visiting) (ss_depends_on service) (visited, ordered) of
              Inl e \<Rightarrow> Inl e
            | Inr (visited, ordered) \<Rightarrow> Inr (insert sid visited, ordered @ [sid])))"
| "visit_all services visiting [] st = Inr st"
| "visit_all services visiting (d # ds) st =
     (case visit_start services visiting d st of
        Inl e \<Rightarrow> Inl e
      | Inr st' \<Rightarrow> visit_all services visiting ds st')"
  by pat_completeness auto

termination
proof (relation "measures
    [\<lambda>x. case x of Inl (services, visiting, _) \<Rightarrow> card (set (bt_keys services) - visiting)
       | Inr (services, visiting, _) \<Rightarrow> card (set (bt_keys services) - visiting),
     \<lambda>x. case x of Inl _ \<Rightarrow> 0 | Inr (_, _, ds, _) \<Rightarrow> length ds]", simp, goal_cases)
  case (1 services visiting sid visited ordered service)
  have "sid \<in> set (bt_keys services)" using 1(2) by (rule bt_get_keys)
  then have "card (set (bt_keys services) - insert sid visiting) < card (set (bt_keys services) - visiting)"
    using 1(3) by (intro psubset_card_mono) auto
  then show ?case by simp
qed auto

declare visit_start.simps [simp del] visit_all.simps [simp del]

definition snapshot_index :: "service_snapshot list \<Rightarrow> (string, service_snapshot) btree" where
  "snapshot_index snaps = bt_collect (map (\<lambda>s. (ss_id s, s)) snaps)"

definition stable_start_order :: "service_snapshot list \<Rightarrow> string list \<Rightarrow> control_error + string list" where
  "stable_start_order snaps requested =
     (case visit_all (snapshot_index snaps) {} requested ({}, []) of
        Inl e \<Rightarrow> Inl e
      | Inr (visited, ordered) \<Rightarrow> Inr ordered)"

section \<open>The order is topological and exactly the closure\<close>

definition depends :: "(string, service_snapshot) btree \<Rightarrow> (string \<times> string) set" where
  "depends services =
     {(x, d). \<exists>s. bt_get services x = Some s \<and> d \<in> set (ss_depends_on s)}"

text \<open>Every service of the list is registered and comes after all of its dependencies.\<close>

fun dependencies_first :: "(string, service_snapshot) btree \<Rightarrow> string list \<Rightarrow> string list \<Rightarrow> bool" where
  "dependencies_first services before [] = True"
| "dependencies_first services before (x # xs) \<longleftrightarrow>
     bt_get services x \<noteq> None \<and> {d. (x, d) \<in> depends services} \<subseteq> set before
     \<and> dependencies_first services (before @ [x]) xs"

lemma dependencies_first_append:
  "dependencies_first services before (xs @ ys) \<longleftrightarrow>
     dependencies_first services before xs \<and> dependencies_first services (before @ xs) ys"
  by (induction xs arbitrary: before) auto

text \<open>What one visit adds to an order: its own closure, after everything that was there.\<close>

definition extends ::
  "(string, service_snapshot) btree \<Rightarrow> string set \<Rightarrow> string set \<Rightarrow> string list \<Rightarrow> string list \<Rightarrow> bool" where
  "extends services visiting from ordered ordered' \<longleftrightarrow>
     (\<exists>new. ordered' = ordered @ new \<and> set new \<inter> visiting = {}
        \<and> set new \<subseteq> (depends services)\<^sup>* `` from \<and> from \<subseteq> set ordered'
        \<and> distinct ordered' \<and> dependencies_first services [] ordered')"

lemma extends_trans:
  assumes "extends services visiting A xs ys" and "extends services visiting B ys zs"
  shows "extends services visiting (A \<union> B) xs zs"
proof -
  obtain a b where a: "ys = xs @ a" "set a \<inter> visiting = {}" "set a \<subseteq> (depends services)\<^sup>* `` A" "A \<subseteq> set ys"
    and b: "zs = ys @ b" "set b \<inter> visiting = {}" "set b \<subseteq> (depends services)\<^sup>* `` B" "B \<subseteq> set zs"
      "distinct zs" "dependencies_first services [] zs"
    using assms unfolding extends_def by blast
  then show ?thesis unfolding extends_def by (intro exI [of _ "a @ b"]) auto
qed

lemma visit_extends:
  "visit_start services visiting sid (visited, ordered) = Inr (visited', ordered') \<Longrightarrow>
     visited = set ordered \<Longrightarrow> distinct ordered \<Longrightarrow> dependencies_first services [] ordered \<Longrightarrow>
     visited' = set ordered' \<and> extends services visiting {sid} ordered ordered'"
  "visit_all services visiting ds (visited, ordered) = Inr (visited', ordered') \<Longrightarrow>
     visited = set ordered \<Longrightarrow> distinct ordered \<Longrightarrow> dependencies_first services [] ordered \<Longrightarrow>
     visited' = set ordered' \<and> extends services visiting (set ds) ordered ordered'"
proof (induction services visiting sid "(visited, ordered)" and services visiting ds "(visited, ordered)"
    arbitrary: visited ordered visited' ordered' and visited ordered visited' ordered'
    rule: visit_start_visit_all.induct)
  case (1 services visiting sid visited ordered)
  show ?case
  proof (cases "sid \<in> visited")
    case True
    then show ?thesis using 1(2-5) by (auto simp: visit_start.simps extends_def)
  next
    case False
    then obtain service v o1 where s: "bt_get services sid = Some service" and nv: "sid \<notin> visiting"
      and all: "visit_all services (insert sid visiting) (ss_depends_on service) (visited, ordered) = Inr (v, o1)"
      and res: "visited' = insert sid v" "ordered' = o1 @ [sid]"
      using 1(2) by (auto simp: visit_start.simps split: option.splits if_splits sum.splits prod.splits)
    have sub: "v = set o1 \<and> extends services (insert sid visiting) (set (ss_depends_on service)) ordered o1"
      using 1(1) [OF False s nv all 1(3,4,5)] .
    then obtain new where o1: "o1 = ordered @ new" "set new \<inter> insert sid visiting = {}"
      "set new \<subseteq> (depends services)\<^sup>* `` set (ss_depends_on service)" "set (ss_depends_on service) \<subseteq> set o1"
      "distinct o1" "dependencies_first services [] o1"
      unfolding extends_def by blast
    have deps: "{d. (sid, d) \<in> depends services} = set (ss_depends_on service)"
      using s by (auto simp: depends_def)
    have sid: "sid \<notin> set o1" using o1(1,2) False 1(3) by auto
    have "(depends services)\<^sup>* `` set (ss_depends_on service) \<subseteq> (depends services)\<^sup>* `` {sid}"
      using deps by (auto intro: converse_rtrancl_into_rtrancl)
    then have new: "set (new @ [sid]) \<subseteq> (depends services)\<^sup>* `` {sid}" using o1(3) by auto
    have "dependencies_first services [] ordered'"
      using o1(4,6) deps s by (simp add: res dependencies_first_append)
    moreover have "distinct ordered'" "ordered' = ordered @ (new @ [sid])" "set (new @ [sid]) \<inter> visiting = {}"
      using o1 sid nv by (auto simp: res)
    ultimately have "extends services visiting {sid} ordered ordered'"
      unfolding extends_def using new by (intro exI [of _ "new @ [sid]"]) simp
    then show ?thesis using sub by (simp add: res)
  qed
next
  case (2 services visiting)
  then show ?case by (auto simp: visit_all.simps extends_def)
next
  case (3 services visiting d ds)
  obtain v1 o1 where first: "visit_start services visiting d (visited, ordered) = Inr (v1, o1)"
    and rest: "visit_all services visiting ds (v1, o1) = Inr (visited', ordered')"
    using 3(3) by (auto simp: visit_all.simps split: sum.splits)
  have a: "v1 = set o1 \<and> extends services visiting {d} ordered o1" using 3(1) [OF first 3(4,5,6)] .
  have "visited' = set ordered' \<and> extends services visiting (set ds) o1 ordered'"
    using 3(2) [OF first rest] a by (auto simp: extends_def)
  then show ?case using a extends_trans by (metis insert_is_Un list.simps(15))
qed

lemma closure_in_order:
  assumes "dependencies_first services [] ordered" and "A \<subseteq> set ordered"
  shows "(depends services)\<^sup>* `` A \<subseteq> set ordered"
proof -
  have "d \<in> set ordered" if x: "x \<in> set ordered" and xd: "(x, d) \<in> depends services" for x d
  proof -
    obtain xs ys where split: "ordered = xs @ x # ys" using split_list [OF x] by blast
    have "{d. (x, d) \<in> depends services} \<subseteq> set xs"
      using assms(1) unfolding split dependencies_first_append by simp
    then show ?thesis using xd split by auto
  qed
  then have step: "x \<in> set ordered \<Longrightarrow> (x, d) \<in> depends services \<Longrightarrow> d \<in> set ordered" for x d .
  have "y \<in> set ordered" if "(x, y) \<in> (depends services)\<^sup>*" "x \<in> set ordered" for x y
    using that by (induction rule: rtrancl_induct) (auto intro: step)
  then show ?thesis using assms(2) by auto
qed

lemma stable_start_order_Inr:
  assumes "stable_start_order snaps requested = Inr ordered"
  shows "distinct ordered" and "dependencies_first (snapshot_index snaps) [] ordered"
    and "set ordered = (depends (snapshot_index snaps))\<^sup>* `` set requested"
proof -
  obtain v where "visit_all (snapshot_index snaps) {} requested ({}, []) = Inr (v, ordered)"
    using assms by (auto simp: stable_start_order_def split: sum.splits prod.splits)
  then have ext: "extends (snapshot_index snaps) {} (set requested) [] ordered"
    using visit_extends(2) by fastforce
  then show "distinct ordered" "dependencies_first (snapshot_index snaps) [] ordered"
    by (simp_all add: extends_def)
  show "set ordered = (depends (snapshot_index snaps))\<^sup>* `` set requested"
    using ext closure_in_order [of "snapshot_index snaps" ordered "set requested"] by (auto simp: extends_def)
qed

lemma order_last:
  assumes "stable_start_order snaps [sid] = Inr ordered"
  shows "ordered \<noteq> [] \<and> last ordered = sid"
proof -
  let ?services = "snapshot_index snaps"
  obtain v where "visit_start ?services {} sid ({}, []) = Inr (v, ordered)"
    using assms by (auto simp: stable_start_order_def visit_all.simps split: sum.splits prod.splits)
  then show ?thesis
    by (auto simp: visit_start.simps split: option.splits sum.splits prod.splits)
qed

section \<open>When there is no order\<close>

lemma visit_error:
  "visit_start services visiting sid st = Inl e \<Longrightarrow>
     (\<forall>v \<in> visiting. (v, sid) \<in> (depends services)\<^sup>+) \<Longrightarrow>
     (\<exists>d. (sid, d) \<in> (depends services)\<^sup>* \<and> bt_get services d = None \<and> e = ce_service_not_found d)
     \<or> (\<exists>c. (sid, c) \<in> (depends services)\<^sup>* \<and> (c, c) \<in> (depends services)\<^sup>+ \<and> ce_kind e = KindInternal)"
  "visit_all services visiting ds st = Inl e \<Longrightarrow>
     (\<forall>v \<in> visiting. \<forall>d \<in> set ds. (v, d) \<in> (depends services)\<^sup>+) \<Longrightarrow>
     (\<exists>s \<in> set ds. (\<exists>d. (s, d) \<in> (depends services)\<^sup>* \<and> bt_get services d = None \<and> e = ce_service_not_found d)
     \<or> (\<exists>c. (s, c) \<in> (depends services)\<^sup>* \<and> (c, c) \<in> (depends services)\<^sup>+ \<and> ce_kind e = KindInternal))"
proof (induction services visiting sid st and services visiting ds st rule: visit_start_visit_all.induct)
  case (1 services visiting sid visited ordered)
  show ?case
  proof (cases "bt_get services sid")
    case None
    then show ?thesis using 1(2) by (auto simp: visit_start.simps split: if_splits)
  next
    case (Some service)
    have deps: "(sid, d) \<in> depends services" if "d \<in> set (ss_depends_on service)" for d
      using that Some by (auto simp: depends_def)
    show ?thesis
    proof (cases "sid \<in> visiting")
      case True
      then show ?thesis
        using 1(2,3) Some by (auto simp: visit_start.simps ce_internal_def split: if_splits)
    next
      case False
      then have nv: "sid \<notin> visited"
        and all: "visit_all services (insert sid visiting) (ss_depends_on service) (visited, ordered) = Inl e"
        using 1(2) Some by (auto simp: visit_start.simps split: if_splits sum.splits prod.splits)
      have path: "\<forall>v \<in> insert sid visiting. \<forall>d \<in> set (ss_depends_on service). (v, d) \<in> (depends services)\<^sup>+"
        using deps 1(3) by (auto intro: trancl_into_trancl)
      show ?thesis
        using 1(1) [OF nv Some False all path] deps
        by (meson converse_rtrancl_into_rtrancl)
    qed
  qed
next
  case (2 services visiting st)
  then show ?case by (simp add: visit_all.simps)
next
  case (3 services visiting d ds st)
  show ?case
  proof (cases "visit_start services visiting d st")
    case (Inl e')
    then show ?thesis using 3 by (auto simp: visit_all.simps)
  next
    case (Inr st')
    then show ?thesis using 3(2) [OF Inr] 3(3,4) by (auto simp: visit_all.simps)
  qed
qed

text \<open>An order exists when every dependency is registered and there is no cycle.\<close>

lemma stable_start_order_total:
  assumes "acyclic (depends (snapshot_index snaps))"
    and "\<And>d. d \<in> (depends (snapshot_index snaps))\<^sup>* `` set requested \<Longrightarrow> bt_get (snapshot_index snaps) d \<noteq> None"
  shows "\<exists>ordered. stable_start_order snaps requested = Inr ordered"
proof (cases "visit_all (snapshot_index snaps) {} requested ({}, [])")
  case (Inl e)
  from visit_error(2) [OF this] obtain s d where
    "s \<in> set requested" "(s, d) \<in> (depends (snapshot_index snaps))\<^sup>*" "bt_get (snapshot_index snaps) d = None"
    using assms(1) by (auto simp: acyclic_def)
  then show ?thesis using assms(2) [of d] by auto
next
  case (Inr st)
  then show ?thesis by (cases st) (simp add: stable_start_order_def)
qed

section \<open>The wrapper\<close>

text \<open>
  The services of a plan that the action would launch: those without a root process, and the
  requested one when it is restarted.
\<close>

definition launch_ids ::
  "control_action \<Rightarrow> string \<Rightarrow> service_snapshot list \<Rightarrow> string list \<Rightarrow> string list" where
  "launch_ids action sid snaps order = filter (\<lambda>planned.
     planned = sid \<and> action = CtlRestart
     \<or> (case bt_get (snapshot_index snaps) planned of
          None \<Rightarrow> False
        | Some snapshot \<Rightarrow> ss_root_pid snapshot = None)) order"

definition direct_dependencies :: "string \<Rightarrow> service_snapshot list \<Rightarrow> string list" where
  "direct_dependencies sid snaps = (case find (\<lambda>s. ss_id s = sid) snaps of
      None \<Rightarrow> []
    | Some s \<Rightarrow> ss_depends_on s)"

text \<open>
  \<open>DependencyPlanObserver\<close> is a callback that returns nothing; it acts on the state.
  \<open>IgnoreDependencyPlans\<close> is the default one.
\<close>

type_synonym 's plan_observer = "control_action \<Rightarrow> string \<Rightarrow> string list \<Rightarrow> string list \<Rightarrow> 's \<Rightarrow> 's"

definition ignore_dependency_plans :: "'s plan_observer" where
  "ignore_dependency_plans action sid direct order s = s"

definition preflight_plan ::
  "'s control \<Rightarrow> control_action \<Rightarrow> string \<Rightarrow> string list \<Rightarrow> ('s, unit, control_error) op" where
  "preflight_plan ctl action sid = each_op (\<lambda>launch_id.
     map_err_op (with_context (''cannot prepare service '' @ launch_id @ '' before '' @
         show_action action @ '' of '' @ sid))
       (ctl_preflight ctl [launch_id]))"

definition start_dependencies ::
  "'s control \<Rightarrow> string \<Rightarrow> actor \<Rightarrow> reason \<Rightarrow> string list \<Rightarrow> ('s, unit, control_error) op" where
  "start_dependencies ctl sid a r = each_op (\<lambda>dependency.
     map_op (\<lambda>_. ()) (map_err_op (with_context (''cannot start dependency '' @ dependency @ '' for '' @ sid))
       (ctl_mutate ctl CtlStart dependency a r)))"

definition plan_and_start ::
  "'s control \<Rightarrow> 's plan_observer \<Rightarrow> control_action \<Rightarrow> string \<Rightarrow> actor \<Rightarrow> reason \<Rightarrow>
     ('s, unit, control_error) op" where
  "plan_and_start ctl observer action sid a r =
     bind_op (ctl_snapshots ctl) (\<lambda>snaps.
     bind_op (lift_sum (stable_start_order snaps [sid])) (\<lambda>order.
     seq_op (preflight_plan ctl action sid (launch_ids action sid snaps order))
     (seq_op (if length order > 1
              then modify_op (observer action sid (direct_dependencies sid snaps) order)
              else return_op ())
     (start_dependencies ctl sid a r (take (length order - 1) order)))))"

definition dependency_mutate ::
  "'s control \<Rightarrow> 's plan_observer \<Rightarrow> control_action \<Rightarrow> string \<Rightarrow> actor \<Rightarrow> reason \<Rightarrow>
     ('s, mutation_result, control_error) op" where
  "dependency_mutate ctl observer action sid a r =
     seq_op (if action \<in> {CtlStart, CtlRestart} then plan_and_start ctl observer action sid a r
             else return_op ())
       (ctl_mutate ctl action sid a r)"

text \<open>\<open>DependencyAwareControl\<close> keeps the default \<open>preflight_launches\<close> of the trait.\<close>

definition dependency_control :: "'s control \<Rightarrow> 's plan_observer \<Rightarrow> 's control" where
  "dependency_control ctl observer =
     \<lparr>ctl_snapshots = ctl_snapshots ctl, ctl_preflight = default_preflight,
      ctl_mutate = dependency_mutate ctl observer\<rparr>"

section \<open>The wrapper honours the contract\<close>

locale observed_control = supervisor_control ctl inv view
  for ctl :: "'s control" and inv :: "'s \<Rightarrow> bool" and view :: "'s \<Rightarrow> 'v" +
  fixes observer :: "'s plan_observer"
  assumes inv_observer: "inv s \<Longrightarrow> inv (observer action sid direct order s)"
    and view_observer: "inv s \<Longrightarrow> view (observer action sid direct order s) = view s"
begin

lemma inv_plan: "keeps inv (plan_and_start ctl observer action sid a r)"
  unfolding plan_and_start_def preflight_plan_def start_dependencies_def
  by (intro keeps_intro inv_snapshots inv_preflight inv_mutate keeps_modify inv_observer)

lemma inv_dependency_mutate: "keeps inv (dependency_mutate ctl observer action sid a r)"
  unfolding dependency_mutate_def by (intro keeps_intro inv_plan inv_mutate)

lemma view_preflight_plan:
  "inv s \<Longrightarrow> view (snd (preflight_plan ctl action sid ids s)) = view s
     \<and> inv (snd (preflight_plan ctl action sid ids s))"
proof -
  assume "inv s"
  have "keeps (\<lambda>t. inv t \<and> view t = view s) (preflight_plan ctl action sid ids)"
    unfolding preflight_plan_def by (intro keeps_intro keeps_view)
  from keepsD [OF this, of s] \<open>inv s\<close> show ?thesis by simp
qed

text \<open>
  A plan that cannot be made or whose launch paths fail has no effect: the services are as they
  were before the request.
\<close>

lemma failed_plan_unchanged:
  assumes "inv s" and "ctl_snapshots ctl s = (Ok snaps, s1)" and "action \<in> {CtlStart, CtlRestart}"
    and "stable_start_order snaps [sid] = Inl e \<or> (\<exists>order. stable_start_order snaps [sid] = Inr order
      \<and> (\<exists>x. fst (preflight_plan ctl action sid (launch_ids action sid snaps order) s1) = Err x))"
  shows "view (snd (dependency_mutate ctl observer action sid a r s)) = view s
    \<and> (\<exists>x. fst (dependency_mutate ctl observer action sid a r s) = Err x)"
proof -
  have i1: "inv s1" using keeps_run [OF inv_snapshots assms(1,2)] .
  have v1: "view s1 = view s" using view_snapshots [OF assms(1,2)] by simp
  have run: "dependency_mutate ctl observer action sid a r s =
    seq_op (bind_op (lift_sum (stable_start_order snaps [sid])) (\<lambda>order.
     seq_op (preflight_plan ctl action sid (launch_ids action sid snaps order))
     (seq_op (if length order > 1
              then modify_op (observer action sid (direct_dependencies sid snaps) order)
              else return_op ())
     (start_dependencies ctl sid a r (take (length order - 1) order))))) (ctl_mutate ctl action sid a r) s1"
    using assms(2,3) by (simp add: dependency_mutate_def plan_and_start_def seq_op_def bind_op_def)
  show ?thesis
  proof (cases "stable_start_order snaps [sid]")
    case (Inl e')
    then show ?thesis
      using v1 by (simp add: run seq_op_def bind_op_def lift_sum_def fail_op_def)
  next
    case (Inr order)
    let ?pre = "preflight_plan ctl action sid (launch_ids action sid snaps order) s1"
    obtain x where "fst ?pre = Err x" using assms(4) Inr by auto
    moreover have "view (snd ?pre) = view s" using view_preflight_plan [OF i1] v1 by metis
    ultimately show ?thesis
      by (cases ?pre) (simp add: run Inr seq_op_def bind_op_def lift_sum_def return_op_def)
  qed
qed

end

sublocale observed_control \<subseteq> dep: supervisor_control "dependency_control ctl observer" inv view
proof unfold_locales
  show "keeps inv (ctl_snapshots (dependency_control ctl observer))"
    by (simp add: dependency_control_def inv_snapshots)
  show "keeps inv (ctl_preflight (dependency_control ctl observer) sids)" for sids
    by (simp add: dependency_control_def default_preflight_def keeps_return)
  show "keeps inv (ctl_mutate (dependency_control ctl observer) action sid a r)" for action sid a r
    by (simp add: dependency_control_def inv_dependency_mutate)
  show "view s' = view s"
    if "inv s" and "ctl_snapshots (dependency_control ctl observer) s = (out, s')" and "out \<noteq> Panic" for s s' out
    using that view_snapshots by (simp add: dependency_control_def)
  show "view (snd (ctl_preflight (dependency_control ctl observer) sids s)) = view s" for sids s
    by (simp add: dependency_control_def default_preflight_def return_op_def)
  show "distinct (map ss_id snaps)"
    if "inv s" and "ctl_snapshots (dependency_control ctl observer) s = (Ok snaps, s')" for s s' snaps
    using that distinct_snapshots by (simp add: dependency_control_def)
qed

interpretation dreg: observed_control "registry_control se sn bk" registry_ok_st fst ignore_dependency_plans
  by unfold_locales (simp_all add: ignore_dependency_plans_def)

section \<open>A dependency-aware start on the registry\<close>

definition service_deps :: "'p services \<Rightarrow> (string \<times> string) set" where
  "service_deps services = {(k, d). \<exists>e. bt_get services k = Some e
      \<and> d \<in> set (reg_dependencies (se_registration e))}"

lemma snapshot_entry_deps:
  "snapshot_entry bk (e, w) = (Ok snap, st) \<Longrightarrow> ss_depends_on snap = reg_dependencies (se_registration e)"
  by (auto simp: snapshot_entry_def with_mutation_Ok bind_op_Ok inspect_Ok get_op_def)

lemma snapshots_deps:
  assumes "registry_ok services" and "snapshots bk (services, w) = (Ok snaps, st)"
  shows "map (\<lambda>s. (ss_id s, ss_depends_on s)) snaps =
    map (\<lambda>(k, e). (k, reg_dependencies (se_registration e))) services"
proof -
  have "\<forall>(k, e) \<in> set services. named_ok k e" using assms(1) by (simp add: registry_ok_iff)
  then show ?thesis using assms(2) unfolding snapshots_def
  proof (induction services arbitrary: w snaps st)
    case (Cons p services)
    obtain k e where p: "p = (k, e)" by (cases p)
    obtain r1 e1 w1 where m: "snapshot_entry bk (e, w) = (r1, (e1, w1))" by (metis prod.exhaust)
    obtain r2 s2 w2 where rest: "collect_entries (snapshot_entry bk) (services, w1) = (r2, (s2, w2))"
      by (metis prod.exhaust)
    show ?case
      using Cons m rest snapshot_entry_id [of bk e w] snapshot_entry_deps [of bk e w]
      by (cases r1; cases r2) (auto simp: p named_ok_def)
  qed simp
qed

lemma depends_snapshot_index:
  assumes "distinct (map ss_id snaps)"
  shows "depends (snapshot_index snaps) = {(x, d). \<exists>s \<in> set snaps. ss_id s = x \<and> d \<in> set (ss_depends_on s)}"
proof -
  have "bt_get (snapshot_index snaps) x = Some s \<longleftrightarrow> s \<in> set snaps \<and> ss_id s = x" for x s
    unfolding snapshot_index_def using assms
    by (subst bt_collect_get_distinct) (auto simp: comp_def map_of_eq_Some_iff)
  then show ?thesis by (auto simp: depends_def)
qed

lemma depends_registry:
  assumes "registry_ok services" and "snapshots bk (services, w) = (Ok snaps, st)"
  shows "depends (snapshot_index snaps) = service_deps services"
proof -
  have d: "distinct (map ss_id snaps)"
    using snapshots_ids [OF assms] bt_keys_distinct [OF registry_ok_invar [OF assms(1)]] by simp
  have "(\<exists>s \<in> set snaps. ss_id s = x \<and> y \<in> set (ss_depends_on s)) \<longleftrightarrow>
      (\<exists>ds. (x, ds) \<in> set (map (\<lambda>s. (ss_id s, ss_depends_on s)) snaps) \<and> y \<in> set ds)" for x y
    by auto
  moreover have "(\<exists>ds. (x, ds) \<in> set (map (\<lambda>(k, e). (k, reg_dependencies (se_registration e))) services)
      \<and> y \<in> set ds) \<longleftrightarrow> (\<exists>e. bt_get services x = Some e \<and> y \<in> set (reg_dependencies (se_registration e)))" for x y
    using bt.entries_iff [OF registry_ok_invar [OF assms(1)]] by force
  ultimately show ?thesis
    by (auto simp: depends_snapshot_index [OF d] service_deps_def snapshots_deps [OF assms])
qed

definition owned :: "'p services \<Rightarrow> string \<Rightarrow> bool" where
  "owned services k \<longleftrightarrow> (\<exists>e. bt_get services k = Some e \<and> rt_process (se_runtime e) \<noteq> None)"

lemma registry_mutate_other:
  "bt_invar services \<Longrightarrow> k \<noteq> sid \<Longrightarrow>
     bt_get (fst (snd (registry_mutate se sn bk action sid a r (services, w)))) k = bt_get services k"
  using with_entry_other [of services k sid "start_entry bk a r" w]
    with_entry_other [of services k sid "stop_entry bk a r" w]
    with_entry_other [of services k sid "restart_entry bk a r" w]
  by (cases action) (auto simp: registry_mutate_def registry_start_def stop_with_report_def
      restart_with_report_def map_err_op_def map_op_def split: prod.splits)

lemma with_entry_Ok:
  "with_entry sid m (services, w) = (Ok x, (services', w')) \<longleftrightarrow>
     (\<exists>e e'. bt_get services sid = Some e \<and> m (e, w) = (Ok x, (e', w')) \<and> services' = bt_insert sid e' services)"
  by (auto simp: with_entry_def split: option.splits prod.splits)

lemma map_op_Ok: "map_op f m s = (Ok b, t) \<longleftrightarrow> (\<exists>a. m s = (Ok a, t) \<and> b = f a)"
  by (auto simp: map_op_def map_outcome_Ok split: prod.splits)

lemma map_err_op_Ok: "map_err_op f m s = (Ok b, t) \<longleftrightarrow> m s = (Ok b, t)"
  by (auto simp: map_err_op_def split: prod.splits)

lemma registry_mutate_owned:
  assumes "registry_ok services" and "action \<in> {CtlStart, CtlRestart}"
    and "registry_mutate se sn bk action sid a r (services, w) = (Ok res, (services', w'))"
  shows "owned services' sid"
proof (cases action)
  case CtlStart
  then obtain out e e' where e: "bt_get services sid = Some e" and s': "services' = bt_insert sid e' services"
    and run: "start_entry bk a r (e, w) = (Ok out, (e', w'))"
    using assms(3) by (auto simp: registry_mutate_def map_err_op_Ok map_op_Ok registry_start_def with_entry_Ok)
  have "entry_ok e" using registry_okD [OF assms(1) e] by (simp add: named_ok_def)
  from start_entry_Ok [OF this run] have "rt_process (se_runtime e') \<noteq> None"
    by (auto simp: serving_def split: if_splits)
  then show ?thesis using s' registry_ok_invar [OF assms(1)] by (simp add: owned_def)
next
  case CtlRestart
  then obtain res e e' where e: "bt_get services sid = Some e" and s': "services' = bt_insert sid e' services"
    and run: "restart_entry bk a r (e, w) = (Ok res, (e', w'))"
    using assms(3) by (auto simp: registry_mutate_def map_err_op_Ok map_op_Ok restart_with_report_def with_entry_Ok)
  have "entry_ok e" using registry_okD [OF assms(1) e] by (simp add: named_ok_def)
  from restart_entry_Ok [OF this run] have "rt_process (se_runtime e') \<noteq> None"
    by (auto simp: serving_def split: if_splits)
  then show ?thesis using s' registry_ok_invar [OF assms(1)] by (simp add: owned_def)
qed (use assms(2) in simp)

lemma owned_other:
  "registry_ok services \<Longrightarrow> k \<noteq> sid \<Longrightarrow>
     registry_mutate se sn bk action sid a r (services, w) = (out, (services', w')) \<Longrightarrow>
     owned services' k = owned services k"
  using registry_mutate_other [OF registry_ok_invar, of services k sid se sn bk action a r w]
  by (simp add: owned_def)

lemma start_dependencies_owned:
  assumes "registry_ok services" and "distinct ds"
    and "start_dependencies (registry_control se sn bk) sid a r ds (services, w) = (Ok (), (services', w'))"
  shows "registry_ok services' \<and> (\<forall>d \<in> set ds. owned services' d)
    \<and> (\<forall>k. k \<notin> set ds \<longrightarrow> bt_get services' k = bt_get services k)"
  using assms
proof (induction ds arbitrary: services w)
  case Nil
  then show ?case by (simp add: start_dependencies_def return_op_def)
next
  case (Cons d ds)
  obtain res s1 w1 where first: "registry_mutate se sn bk CtlStart d a r (services, w) = (Ok res, (s1, w1))"
    and rest: "start_dependencies (registry_control se sn bk) sid a r ds (s1, w1) = (Ok (), (services', w'))"
    using Cons.prems(3)
    by (auto simp: start_dependencies_def registry_control_def seq_op_Ok map_op_Ok map_err_op_Ok)
  have ok1: "registry_ok s1"
    using keepsD [OF registry_mutate_keeps, of "(services, w)" se sn bk CtlStart d a r] Cons.prems(1) first
    by simp
  have get1: "bt_get s1 k = bt_get services k" if "k \<noteq> d" for k
    using registry_mutate_other [OF registry_ok_invar [OF Cons.prems(1)] that, of se sn bk CtlStart a r w]
    by (simp add: first)
  have d: "owned s1 d" by (rule registry_mutate_owned [OF Cons.prems(1) _ first]) simp
  have IH: "registry_ok services' \<and> (\<forall>d \<in> set ds. owned services' d)
      \<and> (\<forall>k. k \<notin> set ds \<longrightarrow> bt_get services' k = bt_get s1 k)"
    using Cons.IH [OF ok1 _ rest] Cons.prems(2) by simp
  moreover have "owned services' d" using IH d Cons.prems(2) by (simp add: owned_def)
  ultimately show ?case using get1 by auto
qed

lemma dependency_start_owned:
  assumes ok: "registry_ok services" and act: "action \<in> {CtlStart, CtlRestart}"
    and run: "dependency_mutate (registry_control se sn bk) ignore_dependency_plans action sid a r
      (services, w) = (Ok res, (services', w'))"
  shows "(\<forall>k. (sid, k) \<in> (service_deps services)\<^sup>* \<longrightarrow> owned services' k)
    \<and> (\<forall>k. (sid, k) \<notin> (service_deps services)\<^sup>* \<longrightarrow> bt_get services' k = bt_get services k)"
proof -
  let ?ctl = "registry_control se sn bk"
  obtain s1 where plan: "plan_and_start ?ctl ignore_dependency_plans action sid a r (services, w) = (Ok (), s1)"
    and last: "registry_mutate se sn bk action sid a r s1 = (Ok res, (services', w'))"
    using run act by (auto simp: dependency_mutate_def seq_op_Ok registry_control_def)
  obtain snaps s2 where snaps: "ctl_snapshots ?ctl (services, w) = (Ok snaps, s2)"
    and rest: "bind_op (lift_sum (stable_start_order snaps [sid])) (\<lambda>order.
     seq_op (preflight_plan ?ctl action sid (launch_ids action sid snaps order))
     (seq_op (if length order > 1
              then modify_op (ignore_dependency_plans action sid (direct_dependencies sid snaps) order)
              else return_op ())
     (start_dependencies ?ctl sid a r (take (length order - 1) order)))) s2 = (Ok (), s1)"
    using plan by (auto simp: plan_and_start_def bind_op_Ok)
  obtain order s3 where order: "stable_start_order snaps [sid] = Inr order"
    and pre: "preflight_plan ?ctl action sid (launch_ids action sid snaps order) s2 = (Ok (), s3)"
    and deps: "start_dependencies ?ctl sid a r (take (length order - 1) order) s3 = (Ok (), s1)"
    using rest
    by (cases "stable_start_order snaps [sid]")
       (auto simp: bind_op_Ok seq_op_Ok lift_sum_def fail_op_def return_op_def modify_op_def
          ignore_dependency_plans_def split: if_splits)
  have s2: "fst s2 = services" using reg.view_snapshots [OF _ snaps] ok by simp
  then have s3: "fst s3 = services" using dreg.view_preflight_plan [of s2 se sn bk action sid
      "launch_ids action sid snaps order"] ok pre by simp
  obtain w3 services1 w1 where st: "s3 = (services, w3)" "s1 = (services1, w1)"
    using s3 by (metis prod.collapse)
  have "\<exists>st. snapshots bk (services, w) = (Ok snaps, st)"
    using snaps by (auto simp: registry_control_def map_err_op_Ok)
  then have rel: "depends (snapshot_index snaps) = service_deps services"
    using depends_registry [OF ok] by blast
  have set: "set order = {k. (sid, k) \<in> (service_deps services)\<^sup>*}"
    using stable_start_order_Inr(3) [OF order] by (auto simp: rel)
  have butlast: "take (length order - 1) order = butlast order" by (simp add: butlast_conv_take)
  have ord: "order \<noteq> []" "last order = sid" "distinct order"
    using order_last [OF order] stable_start_order_Inr(1) [OF order] by auto
  then have split: "order = butlast order @ [sid]" using append_butlast_last_id by fastforce
  have "distinct (butlast order)" using ord(3) by (simp add: distinct_butlast)
  from start_dependencies_owned [OF ok this deps [unfolded butlast st]]
  have ok1: "registry_ok services1" and own1: "\<forall>d \<in> set (butlast order). owned services1 d"
    and get1: "\<forall>k. k \<notin> set (butlast order) \<longrightarrow> bt_get services1 k = bt_get services k" by auto
  have sid: "owned services' sid" by (rule registry_mutate_owned [OF ok1 act last [unfolded st]])
  have notin: "sid \<notin> set (butlast order)" using split ord(3) by (metis distinct.simps(2) distinct1_rotate rotate1.simps(2))
  have other: "bt_get services' k = bt_get services1 k" if "k \<noteq> sid" for k
    using registry_mutate_other [OF registry_ok_invar [OF ok1] that, of se sn bk action a r w1] last
    by (simp add: st)
  have "owned services' k" if "k \<in> set order" for k
  proof (cases "k = sid")
    case False
    have "k \<in> set (butlast order) \<or> k = sid" using that by (subst (asm) split) auto
    then show ?thesis using False own1 other by (simp add: owned_def)
  qed (simp add: sid)
  moreover have "bt_get services' k = bt_get services k" if "k \<notin> set order" for k
  proof -
    have "k \<noteq> sid" "k \<notin> set (butlast order)" using that split by (metis in_set_conv_decomp, metis in_set_butlastD)
    then show ?thesis using other get1 by simp
  qed
  ultimately show ?thesis using set by simp
qed

end
