(* ===== verification/Demo.thy ===== *)
theory Demo
  imports Dependency "HOL-Library.Code_Target_Nat"
begin

text \<open>
  A concrete platform to evaluate the model on: process trees are numbers, the state is the list
  of those that are alive, and every clock reading takes one nanosecond. \<open>stubborn\<close> lists the
  trees that survive a stop. The theorems hold for every platform; the examples beside them run
  on this one.
\<close>

section \<open>Evaluation\<close>

text \<open>
  Code equations of the combinators for a given state, so that an operation is only unfolded
  when the state it runs on is known.
\<close>

lemma op_code [code]:
  "return_op a s = (Ok a, s)"
  "fail_op e s = (Err e, s)"
  "bind_op m f s = (case m s of
     (Ok a, s') \<Rightarrow> f a s' | (Err e, s') \<Rightarrow> (Err e, s') | (Panic, s') \<Rightarrow> (Panic, s'))"
  "get_op g s = (Ok (g s), s)"
  "modify_op h s = (Ok (), h s)"
  "map_err_op k m s = (case m s of (r, s') \<Rightarrow> (map_outcome_err k r, s'))"
  "map_op k' m s = (case m s of (r, s') \<Rightarrow> (map_outcome k' r, s'))"
  by (simp_all add: return_op_def fail_op_def bind_op_def get_op_def modify_op_def map_err_op_def map_op_def)

lemma seq_op_code [code]: "seq_op m n s = bind_op m (\<lambda>_. n) s"
  by (simp add: seq_op_def)

lemma wait_until_healthy_code [code]:
  "wait_until_healthy bk (e, w) = (case instant_now bk w of
     (started, w') \<Rightarrow> wait_healthy bk (startup_deadline (reg_health (se_registration e))) started (e, w'))"
  by (simp add: wait_until_healthy_def)

lemma with_mutation_code [code]:
  "with_mutation body (e, w) =
     (if se_poisoned e then (Err RegLockPoisoned, (e, w))
     else case body (e, w) of
       (Ok a, st) \<Rightarrow> (Ok a, st)
     | (Err x, st) \<Rightarrow> (Err x, st)
     | (Panic, (e', w')) \<Rightarrow> (Panic, (e'\<lparr>se_poisoned := True\<rparr>, w')))"
  by (simp add: with_mutation_def)

lemma with_entry_code [code]:
  "with_entry sid m (services, w) = (case bt_get services sid of
      None \<Rightarrow> (Err (RegServiceNotFound sid), (services, w))
    | Some e \<Rightarrow> (case m (e, w) of (r, (e', w')) \<Rightarrow> (r, (bt_insert sid e' services, w'))))"
  by (simp add: with_entry_def)

section \<open>The platform\<close>

record demo_os =
  dm_alive :: "u32 list"
  dm_next :: u32

definition demo_stop :: "u32 list \<Rightarrow> nat \<Rightarrow> (u32 \<times> demo_os, tree_stop_report, unit) op" where
  "demo_stop stubborn grace = (\<lambda>(p, os).
     (Ok \<lparr>tsr_owned_pids_before = [p],
          tsr_owned_pids_after = (if p \<in> set stubborn then [p] else []),
          tsr_graceful_signal_sent = True, tsr_graceful_signal_error = None, tsr_forced = False\<rparr>,
      (p, if p \<in> set stubborn then os else os\<lparr>dm_alive := removeAll p (dm_alive os)\<rparr>)))"

definition demo :: "u32 list \<Rightarrow> (demo_os, u32, unit, unit) backend" where
  "demo stubborn =
     \<lparr>bk_preflight_launch = default_preflight_launch,
      bk_spawn = (\<lambda>sid launch os. (Ok (dm_next os),
         \<lparr>dm_alive = dm_next os # dm_alive os, dm_next = dm_next os + 1\<rparr>)),
      bk_root_pid = (\<lambda>p. p),
      bk_owned_pids = (\<lambda>p os. (Ok (filter (\<lambda>q. q = p) (dm_alive os)), os)),
      bk_owned_processes = (\<lambda>p os.
         (Ok (map (\<lambda>q. \<lparr>pi_pid = q, pi_name = None\<rparr>) (filter (\<lambda>q. q = p) (dm_alive os))), os)),
      bk_try_wait = (\<lambda>(p, os).
         (Ok (if p \<in> set (dm_alive os) then None else Some (ExitStatus (Some 1))), (p, os))),
      bk_stop = demo_stop stubborn,
      bk_inspect_tcp_port = (\<lambda>port os. (Ok \<lparr>pd_port = port, pd_occupants = []\<rparr>, os)),
      bk_probe = (\<lambda>check timeout os.
         (\<lparr>th_transport_ready = True, th_healthy = True, th_detail = ''ok'', th_observed = bt_empty\<rparr>, os)),
      bk_elapse = (\<lambda>os. (1, os)),
      bk_sleep = (\<lambda>d os. os),
      bk_wall_ms = (\<lambda>os. (1000, os))\<rparr>"

definition demo_world :: "demo_os world" where
  "demo_world = \<lparr>wd_clock = 0, wd_os = \<lparr>dm_alive = [], dm_next = 100\<rparr>\<rparr>"

definition demo_launch :: launch_spec where
  "demo_launch = launch_spec_new ''app'' [] ''.'' []"

definition demo_registration :: "string \<Rightarrow> string list \<Rightarrow> service_registration" where
  "demo_registration sid deps = with_dependencies deps
     (registration_new sid sid demo_launch HealthProcess PolicyOnFailure [8080] 5)"

definition demo_regs :: "service_registration list" where
  "demo_regs = [demo_registration ''web'' [''db''], demo_registration ''db'' []]"

definition demo_services :: "u32 services" where
  "demo_services = (case registry_new demo_regs of Inl _ \<Rightarrow> bt_empty | Inr services \<Rightarrow> services)"

definition demo_reason :: reason where
  "demo_reason = Reason ''operator request''"

lemma demo_new: "registry_new demo_regs = Inr demo_services"
  by code_simp

lemma demo_services_ok: "registry_ok demo_services"
  using registry_new_ok [OF demo_new] .

lemma demo_start_db:
  "fst (registry_start (demo []) ''db'' UserCli demo_reason (demo_services, demo_world)) = Ok StartStarted"
  by code_simp

lemma demo_start_web:
  "map_outcome mr_outcome (fst (dependency_mutate (registry_control (\<lambda>_. ''e'') (\<lambda>_. ''n'') (demo []))
     ignore_dependency_plans CtlStart ''web'' UserCli demo_reason (demo_services, demo_world))) = Ok MutStarted"
  by code_simp

end
