(* ===== verification/Service_Properties.thy ===== *)
theory Service_Properties
  imports Demo
begin

text \<open>
  The properties of the service registry and of the dependency-aware control, with an
  evaluated instance of each on the demonstration platform.
\<close>

section \<open>Instances\<close>

definition demo_entry :: "u32 service_entry" where
  "demo_entry = service_entry_new (demo_registration ''db'' [])"

definition demo_after :: "registry_request list \<Rightarrow> (u32, demo_os) registry_state" where
  "demo_after reqs = registry_run (demo []) default_restart_stability_window reqs (demo_services, demo_world)"

lemma demo_reach: "registry_reach (demo ss) window demo_regs (demo_services, demo_world)"
  by (rule registry_reach.init [OF demo_new])

lemma registry_run_reach:
  "registry_reach bk window regs st \<Longrightarrow> registry_reach bk window regs (registry_run bk window reqs st)"
  unfolding registry_run_def
proof (induction reqs arbitrary: st)
  case (Cons req reqs)
  have "registry_reach bk window regs (snd (registry_exec bk window req st))"
    using registry_reach.request [OF Cons.prems] by (metis prod.collapse)
  then show ?case using Cons.IH by simp
qed simp

lemma demo_after_reach:
  "registry_reach (demo []) default_restart_stability_window demo_regs (demo_after reqs)"
  unfolding demo_after_def by (rule registry_run_reach [OF demo_reach])

lemma demo_entry_ok: "entry_ok demo_entry"
  by (simp add: demo_entry_def)

section \<open>The registry as a whole\<close>

text \<open>C28: In every reachable state the entries are stored under their own identifier in key order,
  a process owner exists exactly in the lifecycle states that may have one, and a restart is only
  deferred for a service that is meant to run.\<close>

theorem registry_invariant:
  assumes "registry_reach bk window regs (services, w)" and "bt_get services k = Some e"
  shows "bt_invar services \<and> reg_id (se_registration e) = k
    \<and> (\<not> rt_poisoned (se_runtime e) \<longrightarrow>
         (rt_process (se_runtime e) = None \<longrightarrow> rt_lifecycle (se_runtime e) \<in> {Stopped, Failed})
         \<and> (rt_process (se_runtime e) \<noteq> None \<longrightarrow>
              rt_lifecycle (se_runtime e) \<in> {Running, Unhealthy, TerminationPending, Failed}))
    \<and> (sv_restart_after_termination (se_supervision e) \<longrightarrow>
         sv_desired_state (se_supervision e) = DesiredRunning)"
proof -
  have ok: "registry_ok services" using registry_reach_ok [OF assms(1)] by simp
  show ?thesis
    using registry_okD [OF ok assms(2)] registry_ok_invar [OF ok]
    by (auto simp: named_ok_def entry_ok_def sound_def runtime_ok_def owner_matches_def)
qed

lemma registry_invariant_witness:
  "\<exists>e. bt_get demo_services ''db'' = Some e \<and> reg_id (se_registration e) = ''db''"
proof -
  have "bt_get demo_services ''db'' = Some demo_entry" by code_simp
  with registry_invariant [OF demo_reach [of "[]" 0] this] show ?thesis by blast
qed

text \<open>C4: No request in a reachable state reports an illegal lifecycle transition or a violated
  internal invariant; every error is one the caller can act on.\<close>

theorem registry_never_illegal:
  assumes "registry_reach bk window regs st" and "fst (registry_exec bk window req st) = Some e"
  shows "\<not> illegal_error e"
  by (rule registry_exec_avoids [OF registry_reach_ok [OF assms(1)] assms(2)])

lemma registry_never_illegal_witness:
  "\<not> illegal_error (RegServiceNotFound ''x'' :: (unit, unit) registry_error)"
proof (rule registry_never_illegal [OF demo_reach])
  show "fst (registry_exec (demo []) 0 (ReqStart ''x'' UserCli demo_reason) (demo_services, demo_world)) =
      Some (RegServiceNotFound ''x'')"
    by code_simp
qed

text \<open>C1: A stop by the operator is final for the registration it stopped: after it completed, no sequence of
  requests by agents and recovery, refreshes and observations, or topology updates that keep the
  registration as it is ever gives the service a process again, and the hold stays. Requests on other
  services are free. An update that changes or removes the registration makes a new entry without the hold.\<close>

theorem operator_stop_is_final:
  assumes "registry_reach bk window regs (services, w)" and "bt_get services sid = Some e"
    and "is_user a" and "stop_with_report bk sid a r (services, w) = (Ok res, st)"
    and "sst_outcome res \<noteq> StopTerminationPending"
    and "list_all (leaves_held sid (se_registration e)) reqs"
  shows "\<exists>e'. bt_get (fst (registry_run bk window reqs st)) sid = Some e'
    \<and> rt_process (se_runtime e') = None
    \<and> cp_operator_hold (cs_policy (se_control e')) = HoldStopped"
proof -
  have ok: "registry_ok services" using registry_reach_ok [OF assms(1)] by simp
  obtain e' services' w' where st: "st = (services', w')" and s': "services' = bt_insert sid e' services"
    and run: "stop_entry bk a r (e, w) = (Ok res, (e', w'))"
    using assms(2,4) by (cases st) (auto simp: stop_with_report_def with_entry_Ok)
  have eok: "entry_ok e" using registry_okD [OF ok assms(2)] by (simp add: named_ok_def)
  have out: "rt_process (se_runtime e') = None" "se_control e' = accept_request a ActStop r (se_control e)"
    using stop_entry_Ok [OF eok run] stop_result_owner(1) [OF _ assms(5)] by blast+
  have ok': "registry_ok services'"
    using keepsD [OF registry_ops_keep(3), of "(services, w)" bk sid a r] ok assms(4) by (simp add: st)
  have get: "bt_get services' sid = Some e'" using registry_ok_invar [OF ok] by (simp add: s')
  have inv: "entry_inv (sound (\<lambda>x. x = se_registration e)) (e', w')"
    by (rule keeps_run [OF stop_entry_keeps _ run]) (simp add: entry_inv_sound eok)
  have "down (se_registration e) e'"
    using inv out assms(3)
    by (auto simp: down_def entry_inv_def sound_def accept_request_def apply_user_action_hold hold_of_action_def)
  then have "service_down sid (se_registration e) st"
    using ok' get by (auto simp: service_down_def st)
  from registry_run_down [OF this assms(6), of bk window] show ?thesis
    by (auto simp: service_down_def down_def)
qed

definition demo_stop_reqs :: "registry_request list" where
  "demo_stop_reqs = [ReqRefresh, ReqStart ''db'' Agent demo_reason, ReqRestart ''db'' Recovery demo_reason,
     ReqStart ''web'' UserCli demo_reason, ReqReconcile demo_regs, ReqSnapshots]"

lemma operator_stop_is_final_witness:
  "\<exists>st e'. bt_get (fst (registry_run (demo []) 0 demo_stop_reqs st)) ''db'' = Some e'
     \<and> rt_process (se_runtime e') = None"
proof -
  have get: "bt_get demo_services ''db'' = Some demo_entry" by code_simp
  obtain res st where run: "stop_with_report (demo []) ''db'' UserCli demo_reason (demo_services, demo_world) =
      (res, st)" by (metis prod.exhaust)
  have res: "map_outcome sst_outcome (fst (stop_with_report (demo []) ''db'' UserCli demo_reason
      (demo_services, demo_world))) = Ok StopAlreadyStopped" by code_simp
  then obtain res' where r: "res = Ok res'" "sst_outcome res' \<noteq> StopTerminationPending"
    by (cases res) (auto simp: run)
  have reqs: "list_all (leaves_held ''db'' (se_registration demo_entry)) demo_stop_reqs" by code_simp
  have user: "is_user UserCli" by simp
  from operator_stop_is_final [OF demo_reach get user run [unfolded r(1)] r(2) reqs]
  show ?thesis by blast
qed

text \<open>Automatic recovery never starts or restarts a service that is meant to be stopped: the
  request is refused and neither the services nor the platform are touched.\<close>

lemma recovery_respects_desired_state:
  assumes "registry_reach bk window regs (services, w)" and "bt_get services sid = Some e"
    and "\<not> se_poisoned e" and "sv_desired_state (se_supervision e) = DesiredStopped"
  shows "(\<exists>x. registry_start bk sid Recovery r (services, w) = (Err (RegUnauthorized x), (services, w)))
    \<and> (\<exists>x. restart_with_report bk sid Recovery r (services, w) = (Err (RegUnauthorized x), (services, w)))"
proof -
  have inv: "bt_invar services" using registry_reach_ok [OF assms(1)] registry_ok_invar by fastforce
  show ?thesis
    using recovery_refused [OF assms(3,4), of bk r w] bt_insert_same [OF inv assms(2)] assms(2)
    by (auto simp: registry_start_def restart_with_report_def with_entry_def)
qed

section \<open>Start, stop, restart\<close>

text \<open>A start that answers \<open>AlreadyRunning\<close> changed nothing, and one that answers \<open>Started\<close>
  leaves a service with a live owner that is running, healthy, meant to run and has a start time;
  only its own entry changed.\<close>

lemma start_postcondition:
  assumes "registry_reach bk window regs (services, w)" and "bt_get services sid = Some e"
    and "registry_start bk sid a r (services, w) = (Ok out, (services', w'))"
  shows "if out = StartAlreadyRunning
    then rt_process (se_runtime e) \<noteq> None \<and> services' = services \<and> w' = w
    else rt_process (se_runtime e) = None
      \<and> (\<exists>e'. bt_get services' sid = Some e' \<and> serving e'
           \<and> cs_last_action (se_control e') = Some \<lparr>la_action = ActStart, la_actor = a, la_reason = r\<rparr>)
      \<and> (\<forall>k. k \<noteq> sid \<longrightarrow> bt_get services' k = bt_get services k)"
proof -
  have ok: "registry_ok services" using registry_reach_ok [OF assms(1)] by simp
  obtain e' where run: "start_entry bk a r (e, w) = (Ok out, (e', w'))" and s': "services' = bt_insert sid e' services"
    using assms(2,3) by (auto simp: registry_start_def with_entry_Ok)
  have eok: "entry_ok e" using registry_okD [OF ok assms(2)] by (simp add: named_ok_def)
  show ?thesis
    using start_entry_Ok [OF eok run] registry_ok_invar [OF ok] bt_insert_same [OF _ assms(2)]
    by (auto simp: s' accept_request_def)
qed

text \<open>A stop that completes leaves no owner, the lifecycle \<open>Stopped\<close> and the service meant to
  be stopped; one that reports pending termination keeps the owner, with processes that are still
  alive in its report, remembers the tree it tried to stop and never claims \<open>Stopped\<close>.\<close>

lemma stop_postcondition:
  assumes "registry_reach bk window regs (services, w)" and "bt_get services sid = Some e"
    and "stop_with_report bk sid a r (services, w) = (Ok res, (services', w'))"
  shows "\<exists>e'. bt_get services' sid = Some e' \<and> sv_desired_state (se_supervision e') = DesiredStopped
    \<and> (if sst_outcome res = StopTerminationPending
       then rt_process (se_runtime e') \<noteq> None \<and> rt_lifecycle (se_runtime e') = TerminationPending
         \<and> (\<exists>report. sst_shutdown res = Some report \<and> tsr_owned_pids_after report \<noteq> []
              \<and> sv_last_owned_pids (se_supervision e') = tsr_owned_pids_before report)
       else rt_process (se_runtime e') = None \<and> rt_lifecycle (se_runtime e') = Stopped)"
proof -
  have ok: "registry_ok services" using registry_reach_ok [OF assms(1)] by simp
  obtain e' where run: "stop_entry bk a r (e, w) = (Ok res, (e', w'))" and s': "services' = bt_insert sid e' services"
    using assms(2,3) by (auto simp: stop_with_report_def with_entry_Ok)
  have eok: "entry_ok e" using registry_okD [OF ok assms(2)] by (simp add: named_ok_def)
  obtain rt' where rt: "se_runtime e' = rt'" "stop_result bk e w (sst_outcome res) (sst_shutdown res) rt' w'"
    "sv_desired_state (se_supervision e') = DesiredStopped"
    "\<forall>report. sst_outcome res = StopTerminationPending \<longrightarrow> sst_shutdown res = Some report \<longrightarrow>
       sv_last_owned_pids (se_supervision e') = tsr_owned_pids_before report"
    using stop_entry_Ok [OF eok run] by blast
  show ?thesis
  proof (cases "sst_outcome res = StopTerminationPending")
    case True
    then show ?thesis
      using stop_result_owner(2) [OF rt(2) [unfolded True]] rt registry_ok_invar [OF ok] by (auto simp: s')
  next
    case False
    then show ?thesis
      using stop_result_owner(1) [OF rt(2) False] rt registry_ok_invar [OF ok] by (auto simp: s')
  qed
qed

text \<open>A restart that succeeds ends with a running, healthy service with an owner and a
  new start time, unless the old tree did not terminate: then the owner is kept, the lifecycle is
  \<open>TerminationPending\<close> and the restart is deferred until the tree exits.\<close>

lemma restart_postcondition:
  assumes "registry_reach bk window regs (services, w)" and "bt_get services sid = Some e"
    and "restart_with_report bk sid a r (services, w) = (Ok res, (services', w'))"
  shows "\<exists>e'. bt_get services' sid = Some e'
    \<and> (if srr_outcome res = RestartTerminationPending
       then rt_lifecycle (se_runtime e') = TerminationPending \<and> rt_process (se_runtime e') \<noteq> None
         \<and> sv_restart_after_termination (se_supervision e')
         \<and> sv_desired_state (se_supervision e') = DesiredRunning
       else serving e')
    \<and> cs_last_action (se_control e') = Some \<lparr>la_action = ActRestart, la_actor = a, la_reason = r\<rparr>"
proof -
  have ok: "registry_ok services" using registry_reach_ok [OF assms(1)] by simp
  obtain e' where run: "restart_entry bk a r (e, w) = (Ok res, (e', w'))" and s': "services' = bt_insert sid e' services"
    using assms(2,3) by (auto simp: restart_with_report_def with_entry_Ok)
  have eok: "entry_ok e" using registry_okD [OF ok assms(2)] by (simp add: named_ok_def)
  show ?thesis
    using restart_entry_Ok [OF eok run] registry_ok_invar [OF ok] by (auto simp: s' accept_request_def)
qed

section \<open>Exits and automatic restarts\<close>

text \<open>A terminated tree is reported once: a refresh that reports an exit found an owner, releases
  it, and marks the service stopped or failed; as long as nobody starts the service again no later
  refresh reports another exit.\<close>

lemma exit_reported_once:
  assumes "entry_ok e" and "refresh_entry bk window (e, w) = (Ok res, (e', w'))"
    and "sr_process_exit res = Some ev"
  shows "rt_process (se_runtime e) \<noteq> None \<and> rt_process (se_runtime e') = None
    \<and> pee_service_id ev = reg_id (se_registration e)
    \<and> pee_previous_state ev = rt_lifecycle (se_runtime e)
    \<and> rt_lifecycle (se_runtime e') = (if pee_previous_state ev = TerminationPending then Stopped else Failed)
    \<and> (\<forall>w1 res1 st1. refresh_entry bk window (e', w1) = (Ok res1, st1) \<longrightarrow> sr_process_exit res1 = None)"
proof -
  have run: "reconcile_process_exit bk window (e, w) = (Ok (Some ev), (e', w'))"
    using assms(2,3)
    by (auto simp: refresh_entry_def with_mutation_Ok bind_op_Ok get_op_def return_op_def split: if_splits)
  obtain status where rel: "released status ev e e'"
    using reconcile_process_exit_Some [OF _ run] assms(1) by (auto simp: entry_ok_def)
  have ok': "entry_ok e'"
    using keepsD [OF refresh_entry_keeps [of "\<lambda>_. True"], of "(e, w)" bk window] assms
    by (simp add: entry_inv_sound)
  have "sr_process_exit res1 = None" if again: "refresh_entry bk window (e', w1) = (Ok res1, st1)" for w1 res1 st1
  proof (cases "sr_process_exit res1")
    case (Some ev1)
    then have "reconcile_process_exit bk window (e', w1) = (Ok (Some ev1), st1)"
      using again
      by (auto simp: refresh_entry_def with_mutation_Ok bind_op_Ok get_op_def return_op_def split: if_splits)
    then show ?thesis
      using reconcile_process_exit_Some [of e' bk window w1 ev1 "fst st1" "snd st1"] ok' rel
      by (auto simp: entry_ok_def released_def)
  qed
  with rel show ?thesis by (simp add: released_def)
qed

definition demo_exited :: "u32 service_entry" where
  "demo_exited = demo_entry\<lparr>se_runtime := \<lparr>rt_lifecycle = Running, rt_process = Some 7, rt_poisoned = False\<rparr>,
     se_supervision := (se_supervision demo_entry)\<lparr>sv_desired_state := DesiredRunning\<rparr>\<rparr>"

lemma demo_exited_ok: "entry_ok demo_exited"
  by (simp add: demo_exited_def entry_ok_def sound_def runtime_ok_def owner_matches_def demo_entry_def
      service_entry_new_def supervision_new_def)

lemma demo_exit:
  "map_outcome (map_option pee_automatic_restart_planned \<circ> sr_process_exit)
     (fst (refresh_entry (demo []) 60 (demo_exited, demo_world))) = Ok (Some True)"
  by code_simp

lemma demo_exit_run: "\<exists>res ev e' w'. refresh_entry (demo []) 60 (demo_exited, demo_world) = (Ok res, (e', w'))
    \<and> sr_process_exit res = Some ev \<and> pee_automatic_restart_planned ev"
  using demo_exit
  by (cases "refresh_entry (demo []) 60 (demo_exited, demo_world)") (auto simp: map_outcome_Ok eq_commute [of "Some _" "map_option _ _"])

text \<open>A refresh plans at most one kind of restart. An automatic restart is planned only when
  the policy is on-failure, the tree failed, the service is meant to run, the operator does not
  hold it stopped and the episode has not used its restart; a deferred one only when a restart was
  waiting for the termination of a service that is still meant to run.\<close>

lemma restart_plan_justified:
  assumes "entry_ok e" and "refresh_entry bk window (e, w) = (Ok res, (e', w'))"
    and "sr_process_exit res = Some ev"
  shows "\<not> (pee_automatic_restart_planned ev \<and> pee_deferred_restart_planned ev)
    \<and> (pee_automatic_restart_planned ev \<or> pee_deferred_restart_planned ev \<longrightarrow>
         sv_desired_state (se_supervision e') = DesiredRunning
         \<and> cp_operator_hold (cs_policy (se_control e')) \<noteq> HoldStopped)
    \<and> (pee_automatic_restart_planned ev \<longrightarrow>
         reg_restart_policy (se_registration e') = PolicyOnFailure \<and> \<not> pee_successful ev
         \<and> sv_automatic_restarts_in_episode (se_supervision e') = 1)
    \<and> (pee_deferred_restart_planned ev \<longrightarrow> sv_restart_after_termination (se_supervision e))
    \<and> \<not> sv_restart_after_termination (se_supervision e')"
proof -
  have run: "reconcile_process_exit bk window (e, w) = (Ok (Some ev), (e', w'))"
    using assms(2,3)
    by (auto simp: refresh_entry_def with_mutation_Ok bind_op_Ok get_op_def return_op_def split: if_splits)
  obtain status where rel: "released status ev e e'"
    and same: "se_control e' = se_control e" "se_registration e' = se_registration e"
    using reconcile_process_exit_Some [OF _ run] assms(1) by (auto simp: entry_ok_def)
  obtain settled ms sv' where ex: "record_exit settled ms status (reg_restart_policy (se_registration e))
      (cp_operator_hold (cs_policy (se_control e))) (se_supervision e) =
        ((pee_automatic_restart_planned ev, pee_deferred_restart_planned ev), sv')"
    and sv: "se_supervision e' = sv'\<lparr>sv_last_owned_pids := []\<rparr>" and ok: "pee_successful ev = exit_success status"
    using rel by (auto simp: released_def)
  show ?thesis using record_exit_planned [OF ex] by (auto simp: sv same ok)
qed

text \<open>Within one episode (recovery requests and exits before the stability window) at most one
  automatic restart is planned, whatever the order of starts, deferrals and exits.\<close>

lemma automatic_restart_bounded:
  assumes "list_all within_episode evs"
  shows "automatic_restarts evs sv \<le> 1"
  by (rule automatic_restarts_le_1 [OF assms])

definition crash :: supervision_event where
  "crash = EvExit False 5 (ExitStatus (Some 1)) PolicyOnFailure HoldNone"

definition crash_loop :: "supervision_event list" where
  "crash_loop = [EvRequestRunning Recovery, EvStarted 1 1 ActStart, crash, EvRequestRunning Recovery,
     EvStarted 2 2 ActRestart, crash, crash]"

section \<open>Topology updates\<close>

text \<open>A topology update that is accepted replaces exactly what changed: an unchanged
  registration keeps its entry with owner, hold and restart state, a new or changed one gets a
  fresh entry, a missing one is gone, the three reported lists say which, and every entry that was
  replaced or removed had no process and was meant to be stopped.\<close>

lemma reconcile_retains_unchanged:
  assumes "registry_reach bk window regs0 (services, w)"
    and "reconcile_registrations regs services = (Inr out :: 'x reconcile_error + reconcile_outcome, services')"
  shows "bt_get services' k = (case registered regs k of
       None \<Rightarrow> None
     | Some r \<Rightarrow> Some (case bt_get services k of
         Some e \<Rightarrow> if se_registration e = r then e else service_entry_new r
       | None \<Rightarrow> service_entry_new r))
    \<and> (k \<in> set (ro_added out) \<longleftrightarrow> registered regs k \<noteq> None \<and> bt_get services k = None)
    \<and> (k \<in> set (ro_removed out) \<longleftrightarrow> registered regs k = None \<and> bt_get services k \<noteq> None)
    \<and> (k \<in> set (ro_updated out) \<longleftrightarrow> (\<exists>r e. registered regs k = Some r \<and> bt_get services k = Some e
         \<and> se_registration e \<noteq> r))
    \<and> (\<forall>e. bt_get services k = Some e \<and> registered regs k \<noteq> Some (se_registration e) \<longrightarrow>
         rt_process (se_runtime e) = None \<and> sv_desired_state (se_supervision e) = DesiredStopped)"
proof -
  have inv: "bt_invar services" using registry_reach_ok [OF assms(1)] registry_ok_invar by fastforce
  note rec = reconcile_Inr [OF inv assms(2)]
  show ?thesis
    using rec(3) [of k] rec(4) [of k] rec(5) [of k] rec(6) [of k] rec(7) [of k]
    by (auto simp: reconciled_def split: option.split)
qed

text \<open>A topology update that is refused changes nothing.\<close>

lemma reconcile_atomic:
  assumes "reconcile_registrations regs services = (Inl x :: 'x reconcile_error + reconcile_outcome, services')"
  shows "services' = services"
  by (rule reconcile_error_unchanged [OF assms])

section \<open>Dependencies\<close>

text \<open>C10: A start order lists exactly the requested services and their transitive dependencies,
  each once, and every service after all of its dependencies.\<close>

theorem start_order_topological:
  assumes "stable_start_order snaps requested = Inr ordered"
  shows "distinct ordered
    \<and> set ordered = (depends (snapshot_index snaps))\<^sup>* `` set requested
    \<and> (\<forall>xs x ys d. ordered = xs @ x # ys \<and> (x, d) \<in> depends (snapshot_index snaps) \<longrightarrow> d \<in> set xs)"
proof -
  have "d \<in> set xs" if "ordered = xs @ x # ys" and "(x, d) \<in> depends (snapshot_index snaps)" for xs x ys d
    using stable_start_order_Inr(2) [OF assms] that by (auto simp: dependencies_first_append)
  then show ?thesis using stable_start_order_Inr(1,3) [OF assms] by blast
qed

definition demo_snapshots :: "service_snapshot list" where
  "demo_snapshots = (case fst (snapshots (demo []) (demo_services, demo_world)) of Ok snaps \<Rightarrow> snaps | _ \<Rightarrow> [])"

lemma start_order_topological_witness:
  "stable_start_order demo_snapshots [''web''] = Inr [''db'', ''web'']
     \<and> distinct [''db'', ''web'']"
proof -
  have order: "stable_start_order demo_snapshots [''web''] = Inr [''db'', ''web'']" by code_simp
  show ?thesis using start_order_topological [OF order] order by blast
qed

text \<open>C5: A start or restart through the dependency-aware control that succeeds leaves every service
  of the dependency closure with a process owner, and touches no service outside of it.\<close>

theorem dependency_closure_owned:
  assumes "registry_reach bk window regs (services, w)" and "action \<in> {CtlStart, CtlRestart}"
    and "ctl_mutate (dependency_control (registry_control se sn bk) ignore_dependency_plans) action sid a r
      (services, w) = (Ok res, (services', w'))"
  shows "((sid, k) \<in> (service_deps services)\<^sup>* \<longrightarrow>
        (\<exists>e. bt_get services' k = Some e \<and> rt_process (se_runtime e) \<noteq> None))
    \<and> ((sid, k) \<notin> (service_deps services)\<^sup>* \<longrightarrow> bt_get services' k = bt_get services k)"
proof -
  have "registry_ok services" using registry_reach_ok [OF assms(1)] by simp
  from dependency_start_owned [OF this assms(2), of se sn bk sid a r w res services' w'] assms(3)
  show ?thesis by (auto simp: dependency_control_def owned_def)
qed

lemma dependency_closure_owned_witness:
  "\<exists>services' w' res. ctl_mutate (dependency_control (registry_control (\<lambda>_. ''e'') (\<lambda>_. ''n'') (demo []))
      ignore_dependency_plans) CtlStart ''web'' UserCli demo_reason (demo_services, demo_world) =
        (Ok res, (services', w'))
     \<and> (\<exists>e. bt_get services' ''web'' = Some e \<and> rt_process (se_runtime e) \<noteq> None)"
proof -
  let ?run = "ctl_mutate (dependency_control (registry_control (\<lambda>_. ''e'') (\<lambda>_. ''n'') (demo []))
      ignore_dependency_plans) CtlStart ''web'' UserCli demo_reason (demo_services, demo_world)"
  obtain res services' w' where run: "?run = (Ok res, (services', w'))"
    using demo_start_web by (cases ?run) (auto simp: dependency_control_def map_outcome_Ok)
  have "CtlStart \<in> {CtlStart, CtlRestart}" by simp
  from dependency_closure_owned [OF demo_reach this run, where k = "''web''"] run show ?thesis by auto
qed

text \<open>A plan is checked as a whole before anything is started: when there is no start order,
  or a launch path of the plan is not usable, the request fails and no service has changed.\<close>

lemma failed_plan_changes_nothing:
  assumes "registry_reach bk window regs (services, w)"
    and "ctl_snapshots (registry_control se sn bk) (services, w) = (Ok snaps, s1)"
    and "action \<in> {CtlStart, CtlRestart}"
    and "stable_start_order snaps [sid] = Inl e \<or> (\<exists>order. stable_start_order snaps [sid] = Inr order
      \<and> (\<exists>x. fst (preflight_plan (registry_control se sn bk) action sid
           (launch_ids action sid snaps order) s1) = Err x))"
  shows "fst (snd (dependency_mutate (registry_control se sn bk) ignore_dependency_plans action sid a r
      (services, w))) = services
    \<and> (\<exists>x. fst (dependency_mutate (registry_control se sn bk) ignore_dependency_plans action sid a r
      (services, w)) = Err x)"
proof -
  have "registry_ok_st (services, w)" using registry_reach_ok [OF assms(1)] by simp
  from dreg.failed_plan_unchanged [OF this assms(2-4), of a r] show ?thesis by simp
qed

section \<open>The domain\<close>

text \<open>No path of legal lifecycle transitions from a state without a process reaches \<open>Running\<close>
  or \<open>Unhealthy\<close> without passing through \<open>Starting\<close>.\<close>

lemma running_only_through_starting:
  assumes "lifecycle_path s p" and "s \<in> {Stopped, Failed}" and "{Running, Unhealthy} \<inter> set p \<noteq> {}"
  shows "Starting \<in> set p"
  using path_through_starting(1) [OF assms(1,2)] assms(3) by blast

text \<open>The operator hold is decided by the last user action alone: after any history of accepted
  actions by any principals it is the hold of the last user action, and an agent or recovery may
  start or restart exactly when that was not a stop and agent starts are allowed.\<close>

lemma hold_follows_last_user_action:
  "(let p = fold (\<lambda>(a, act). apply_user_action a act) history default_policy in
     cp_operator_hold p = (if last_user_action history = Some ActStop then HoldStopped else HoldNone)
     \<and> (authorize p actor act = Inr () \<longleftrightarrow>
          is_user actor \<or> act = ActStop \<or> last_user_action history \<noteq> Some ActStop))"
proof -
  let ?p = "fold (\<lambda>(a, act). apply_user_action a act) history default_policy"
  have hold: "cp_operator_hold ?p = (if last_user_action history = Some ActStop then HoldStopped else HoldNone)"
    by (simp add: fold_user_actions default_policy_def hold_of_action_def split: option.split)
  have "cp_agent_start_allowed (fold (\<lambda>(a, act). apply_user_action a act) history p) = cp_agent_start_allowed p" for p
    by (induction history arbitrary: p) (simp_all add: split_beta)
  then have "cp_agent_start_allowed ?p" by (simp add: default_policy_def)
  then show ?thesis using hold by (cases act) (auto simp: Let_def authorize_def)
qed

text \<open>A reason that is accepted is trimmed, not empty and at most 500 bytes long, is exactly the
  trimmed input, and is accepted again unchanged.\<close>

lemma accepted_reason:
  assumes "reason_new v = Inr r"
  shows "reason_as_str r = trim v \<and> reason_as_str r \<noteq> [] \<and> length (reason_as_str r) \<le> 500
    \<and> trim (reason_as_str r) = reason_as_str r \<and> reason_new (reason_as_str r) = Inr r"
  using reason_new_str [OF assms] reason_new_valid [OF assms] reason_new_idem [OF reason_new_valid [OF assms]]
  by (cases r) (auto simp: valid_reason_def reason_max_bytes_def)

text \<open>Every principal survives a round trip through its wire form, and the structured form
  identifies exactly one principal.\<close>

lemma actor_roundtrip:
  "deserialize_actor (serialize_actor a) = Some a
   \<and> (deserialize_actor (Identity t i) = Some b \<longleftrightarrow> serialize_actor b = Identity t i)"
  using serialize_deserialize deserialize_identity_iff [of t i b]
  by (auto simp: serialize_actor_def split: prod.split)

end
