(* ===== verification/Reconciliation.thy ===== *)
theory Reconciliation
  imports Registry
begin

text \<open>
  \<open>src/src/application/registry_reconciliation.rs\<close>: what the supervisor reports about the
  relation between the configuration on disk and the live registry. The record is behind a lock
  whose poisoning is ignored, so an operation is a function on it; \<open>now\<close> is the wall clock in
  milliseconds.
\<close>

datatype reconciliation_state = RecCurrent | RecPending | RecDeferred | RecRejected

record reconciliation_snapshot =
  rs_state :: reconciliation_state
  rs_active_revision :: string
  rs_disk_revision :: "string option"
  rs_attempted_at :: "u64 option"
  rs_applied_at :: "u64 option"
  rs_detail :: "string option"
  rs_added :: "string list"
  rs_updated :: "string list"
  rs_removed :: "string list"

definition reconciliation_new :: "u64 \<Rightarrow> string \<Rightarrow> reconciliation_snapshot" where
  "reconciliation_new now initial_revision =
     \<lparr>rs_state = RecCurrent, rs_active_revision = initial_revision,
      rs_disk_revision = Some initial_revision, rs_attempted_at = Some now,
      rs_applied_at = Some now, rs_detail = None, rs_added = [], rs_updated = [], rs_removed = []\<rparr>"

definition clear_changes :: "reconciliation_snapshot \<Rightarrow> reconciliation_snapshot" where
  "clear_changes s = s\<lparr>rs_added := [], rs_updated := [], rs_removed := []\<rparr>"

definition rec_bounded_detail :: "string \<Rightarrow> string" where
  "rec_bounded_detail detail = take_chars 512 detail"

definition rec_pending :: "u64 \<Rightarrow> string \<Rightarrow> reconciliation_snapshot \<Rightarrow> reconciliation_snapshot" where
  "rec_pending now disk_revision s = clear_changes
     (s\<lparr>rs_state := RecPending, rs_disk_revision := Some disk_revision,
        rs_attempted_at := Some now, rs_detail := None\<rparr>)"

definition rec_applied ::
  "u64 \<Rightarrow> string \<Rightarrow> reconcile_outcome \<Rightarrow> reconciliation_snapshot \<Rightarrow> reconciliation_snapshot" where
  "rec_applied now revision out s =
     s\<lparr>rs_state := RecCurrent, rs_active_revision := revision, rs_disk_revision := Some revision,
       rs_attempted_at := Some now, rs_applied_at := Some now, rs_detail := None,
       rs_added := ro_added out, rs_updated := ro_updated out, rs_removed := ro_removed out\<rparr>"

definition rec_failed ::
  "u64 \<Rightarrow> reconciliation_state \<Rightarrow> string option \<Rightarrow> string \<Rightarrow> reconciliation_snapshot
     \<Rightarrow> reconciliation_snapshot" where
  "rec_failed now state disk_revision detail s = clear_changes
     (s\<lparr>rs_state := state, rs_disk_revision := disk_revision, rs_attempted_at := Some now,
        rs_detail := Some (rec_bounded_detail detail)\<rparr>)"

definition rec_deferred ::
  "u64 \<Rightarrow> string option \<Rightarrow> string \<Rightarrow> reconciliation_snapshot \<Rightarrow> reconciliation_snapshot" where
  "rec_deferred now = rec_failed now RecDeferred"

definition rec_rejected ::
  "u64 \<Rightarrow> string option \<Rightarrow> string \<Rightarrow> reconciliation_snapshot \<Rightarrow> reconciliation_snapshot" where
  "rec_rejected now = rec_failed now RecRejected"

section \<open>Histories\<close>

datatype rec_event =
  EvPending u64 string
| EvApplied u64 string reconcile_outcome
| EvDeferred u64 "string option" string
| EvRejected u64 "string option" string

fun rec_step :: "rec_event \<Rightarrow> reconciliation_snapshot \<Rightarrow> reconciliation_snapshot" where
  "rec_step (EvPending now rv) s = rec_pending now rv s"
| "rec_step (EvApplied now rv out) s = rec_applied now rv out s"
| "rec_step (EvDeferred now rv detail) s = rec_deferred now rv detail s"
| "rec_step (EvRejected now rv detail) s = rec_rejected now rv detail s"

text \<open>The revision and the time of the last application in a history.\<close>

fun last_applied :: "rec_event list \<Rightarrow> (u64 \<times> string) \<Rightarrow> u64 \<times> string" where
  "last_applied [] cur = cur"
| "last_applied (EvApplied now rv out # evs) cur = last_applied evs (now, rv)"
| "last_applied (ev # evs) cur = last_applied evs cur"

text \<open>What a reader can rely on.\<close>

definition rec_ok :: "reconciliation_snapshot \<Rightarrow> bool" where
  "rec_ok s \<longleftrightarrow>
     (rs_state s = RecCurrent \<longrightarrow> rs_disk_revision s = Some (rs_active_revision s) \<and> rs_detail s = None)
     \<and> (rs_state s \<noteq> RecCurrent \<longrightarrow> rs_added s = [] \<and> rs_updated s = [] \<and> rs_removed s = [])
     \<and> (rs_state s \<in> {RecDeferred, RecRejected} \<longleftrightarrow> rs_detail s \<noteq> None)
     \<and> (\<forall>d. rs_detail s = Some d \<longrightarrow> length (char_indices d) \<le> 512)"

lemmas rec_defs = rec_pending_def rec_applied_def rec_failed_def rec_deferred_def rec_rejected_def
  clear_changes_def rec_bounded_detail_def

lemma rec_new_ok: "rec_ok (reconciliation_new now rv)"
  by (simp add: rec_ok_def reconciliation_new_def)

lemma rec_step_ok: "rec_ok s \<Longrightarrow> rec_ok (rec_step ev s)"
  by (cases ev) (auto simp: rec_ok_def rec_defs take_chars_count)

lemma rec_history_applied:
  "rs_active_revision (fold rec_step evs s) = snd (last_applied evs (t, rs_active_revision s))
   \<and> (rs_applied_at s = Some t \<longrightarrow>
        rs_applied_at (fold rec_step evs s) = Some (fst (last_applied evs (t, rs_active_revision s))))"
proof (induction evs arbitrary: s t)
  case (Cons ev evs)
  then show ?case
  proof (cases ev)
    case (EvApplied now rv out)
    then show ?thesis using Cons.IH [of "rec_applied now rv out s" now] by (simp add: rec_applied_def)
  qed (use Cons.IH [of "rec_step ev s" t] in \<open>simp_all add: rec_defs\<close>)
qed simp

lemma rec_history_ok: "rec_ok s \<Longrightarrow> rec_ok (fold rec_step evs s)"
  by (induction evs arbitrary: s) (simp_all add: rec_step_ok)

section \<open>Properties\<close>

text \<open>After any history of updates the report is coherent: it says current only when the disk
  revision is the active one, it names changes only then, it carries a bounded detail exactly when
  the last attempt was deferred or rejected, and the active revision is the one applied last.\<close>

lemma reconciliation_report_coherent:
  "rec_ok (fold rec_step evs (reconciliation_new now rv))
   \<and> rs_active_revision (fold rec_step evs (reconciliation_new now rv)) = snd (last_applied evs (now, rv))
   \<and> rs_applied_at (fold rec_step evs (reconciliation_new now rv)) = Some (fst (last_applied evs (now, rv)))"
  using rec_history_ok [OF rec_new_ok] rec_history_applied [of evs "reconciliation_new now rv" now]
  by (simp add: reconciliation_new_def)

end
