(* ===== verification/Cooperative.thy ===== *)
theory Cooperative
  imports Authority Ordered_Map
begin

text \<open>
  \<open>src/src/application/cooperative_operations.rs\<close> and \<open>cooperative_actions.rs\<close>: the manager of
  cooperative operations (a reload of a browser extension that an external relay carries out).
  It runs one operation at a time on a worker thread, replays a request with the same identifier
  and input, and retains the last 128 operations. A method is one or two critical sections of the
  manager's lock; each is a function here, and a step relation interleaves them with the worker.
  No critical section calls code that can panic, so the lock is never poisoned.
\<close>

section \<open>Data\<close>

datatype coop_stage =
  StRequested | StRelayCreated | StDelivered | StAccepted | StHeartbeatObserved | StCompleted | StFailed

datatype coop_status = OpRunning | OpCompleted | OpFailed

record coop_progress =
  cpg_stage :: coop_stage
  cpg_relay_action_id :: "string option"
  cpg_expected_build_id :: "string option"
  cpg_observed_build_id :: "string option"
  cpg_message :: string

datatype coop_action_status = ActionCompleted | ActionFailed

record coop_outcome =
  cout_target :: string
  cout_action :: string
  cout_status :: coop_action_status
  cout_relay_action_id :: "string option"
  cout_previous_build_id :: "string option"
  cout_expected_build_id :: "string option"
  cout_observed_build_id :: "string option"
  cout_message :: string

record coop_action_error =
  cae_category :: string
  cae_message :: string
  cae_relay_action_id :: "string option"
  cae_observed_build_id :: "string option"

definition coop_action_error_new :: "string \<Rightarrow> string \<Rightarrow> coop_action_error" where
  "coop_action_error_new category message =
     \<lparr>cae_category = category, cae_message = message, cae_relay_action_id = None,
      cae_observed_build_id = None\<rparr>"

definition coop_error_with_context ::
  "string option \<Rightarrow> string option \<Rightarrow> coop_action_error \<Rightarrow> coop_action_error" where
  "coop_error_with_context relay observed e =
     e\<lparr>cae_relay_action_id := relay, cae_observed_build_id := observed\<rparr>"

record coop_operation =
  co_request_id :: string
  co_target :: string
  co_action :: string
  co_actor :: actor
  co_reason :: reason
  co_status :: coop_status
  co_stage :: coop_stage
  co_relay_action_id :: "string option"
  co_expected_build_id :: "string option"
  co_observed_build_id :: "string option"
  co_error_category :: "string option"
  co_message :: string

record operation_state =
  os_operations :: "(string, coop_operation) btree"
  os_order :: "string list"
  os_active :: "string option"

definition operation_state_new :: operation_state where
  "operation_state_new = \<lparr>os_operations = bt_empty, os_order = [], os_active = None\<rparr>"

datatype coop_error =
  CoopNotFound | CoopIdempotencyConflict | CoopActionInProgress string | CoopWorkerSpawn string | CoopPoisoned

fun show_coop_error :: "coop_error \<Rightarrow> string" where
  "show_coop_error CoopNotFound = ''cooperative operation was not found''"
| "show_coop_error CoopIdempotencyConflict = ''requestId was already used with different input''"
| "show_coop_error (CoopActionInProgress request_id) = ''cooperative action is already active: '' @ request_id"
| "show_coop_error (CoopWorkerSpawn message) = ''failed to start operation worker: '' @ message"
| "show_coop_error CoopPoisoned = ''cooperative operation registry is poisoned''"

definition retained_operations :: nat where
  "retained_operations = 128"

section \<open>The critical sections\<close>

text \<open>
  The eviction loop of \<open>OperationState::insert\<close>. With an empty queue it would never end, which
  is the value \<open>None\<close>.
\<close>

partial_function (option) evict :: "operation_state \<Rightarrow> operation_state option" where
  "evict st =
     (if length (os_operations st) \<ge> retained_operations
      then (case os_order st of
          [] \<Rightarrow> evict st
        | oldest # rest \<Rightarrow>
            evict (st\<lparr>os_order := rest, os_operations := bt_remove oldest (os_operations st)\<rparr>))
      else Some st)"

declare evict.simps [code]

definition op_insert :: "coop_operation \<Rightarrow> operation_state \<Rightarrow> operation_state option" where
  "op_insert operation st = (case evict st of
      None \<Rightarrow> None
    | Some st' \<Rightarrow> Some (st'\<lparr>os_order := os_order st' @ [co_request_id operation],
        os_operations := bt_insert (co_request_id operation) operation (os_operations st')\<rparr>))"

definition accepted_operation :: "string \<Rightarrow> actor \<Rightarrow> reason \<Rightarrow> string \<Rightarrow> coop_operation" where
  "accepted_operation target a r rid =
     \<lparr>co_request_id = rid, co_target = target, co_action = ''reload_self'', co_actor = a,
      co_reason = r, co_status = OpRunning, co_stage = StRequested, co_relay_action_id = None,
      co_expected_build_id = None, co_observed_build_id = None, co_error_category = None,
      co_message = ''authenticated cooperative reload operation accepted''\<rparr>"

text \<open>The first section of \<open>begin\<close>: the answer, or \<open>BeginSpawn\<close> when a worker is to be started.\<close>

datatype begin_answer = BeginReply "coop_error + coop_operation" | BeginSpawn

definition begin_accept ::
  "string \<Rightarrow> actor \<Rightarrow> reason \<Rightarrow> string \<Rightarrow> operation_state \<Rightarrow> (begin_answer \<times> operation_state) option" where
  "begin_accept target a r rid st =
     (case bt_get (os_operations st) rid of
        Some existing \<Rightarrow>
          if co_actor existing = a \<and> co_reason existing = r then Some (BeginReply (Inr existing), st)
          else Some (BeginReply (Inl CoopIdempotencyConflict), st)
      | None \<Rightarrow>
          (case os_active st of
             Some active \<Rightarrow> Some (BeginReply (Inl (CoopActionInProgress active)), st)
           | None \<Rightarrow>
               (case op_insert (accepted_operation target a r rid) (st\<lparr>os_active := Some rid\<rparr>) of
                  None \<Rightarrow> None
                | Some st' \<Rightarrow> Some (BeginSpawn, st'))))"

text \<open>The section of \<open>begin\<close> after the thread could not be spawned.\<close>

definition begin_cancel :: "string \<Rightarrow> string \<Rightarrow> operation_state \<Rightarrow> coop_error \<times> operation_state" where
  "begin_cancel message rid st =
     (CoopWorkerSpawn message,
      st\<lparr>os_operations := bt_remove rid (os_operations st),
         os_order := filter (\<lambda>candidate. candidate \<noteq> rid) (os_order st), os_active := None\<rparr>)"

definition coop_get :: "string \<Rightarrow> operation_state \<Rightarrow> coop_error + coop_operation" where
  "coop_get rid st = (case bt_get (os_operations st) rid of
      None \<Rightarrow> Inl CoopNotFound | Some operation \<Rightarrow> Inr operation)"

definition coop_active :: "operation_state \<Rightarrow> coop_operation option" where
  "coop_active st = (case os_active st of None \<Rightarrow> None | Some rid \<Rightarrow> bt_get (os_operations st) rid)"

definition or_old :: "'a option \<Rightarrow> 'a option \<Rightarrow> 'a option" where
  "or_old new old = (if new \<noteq> None then new else old)"

definition progress_operation :: "coop_progress \<Rightarrow> coop_operation \<Rightarrow> coop_operation" where
  "progress_operation u operation =
     operation\<lparr>co_stage := cpg_stage u,
       co_relay_action_id := or_old (cpg_relay_action_id u) (co_relay_action_id operation),
       co_expected_build_id := or_old (cpg_expected_build_id u) (co_expected_build_id operation),
       co_observed_build_id := or_old (cpg_observed_build_id u) (co_observed_build_id operation),
       co_message := cpg_message u\<rparr>"

definition update_progress :: "string \<Rightarrow> coop_progress \<Rightarrow> operation_state \<Rightarrow> operation_state" where
  "update_progress rid u st = (case bt_get (os_operations st) rid of
      None \<Rightarrow> st
    | Some operation \<Rightarrow>
        st\<lparr>os_operations := bt_insert rid (progress_operation u operation) (os_operations st)\<rparr>)"

definition finished_operation ::
  "coop_action_error + coop_outcome \<Rightarrow> coop_operation \<Rightarrow> coop_operation" where
  "finished_operation result operation = (case result of
      Inr outcome \<Rightarrow> operation\<lparr>co_status := OpCompleted, co_stage := StCompleted,
        co_relay_action_id := cout_relay_action_id outcome,
        co_expected_build_id := cout_expected_build_id outcome,
        co_observed_build_id := cout_observed_build_id outcome,
        co_message := cout_message outcome\<rparr>
    | Inl e \<Rightarrow> operation\<lparr>co_status := OpFailed, co_stage := StFailed,
        co_relay_action_id := (if co_relay_action_id operation = None then cae_relay_action_id e
                               else co_relay_action_id operation),
        co_observed_build_id := (if co_observed_build_id operation = None then cae_observed_build_id e
                               else co_observed_build_id operation),
        co_error_category := Some (cae_category e), co_message := cae_message e\<rparr>)"

text \<open>The section of \<open>execute\<close> after the action returned.\<close>

definition finish ::
  "string \<Rightarrow> coop_action_error + coop_outcome \<Rightarrow> operation_state \<Rightarrow> operation_state" where
  "finish rid result st = (case bt_get (os_operations st) rid of
      None \<Rightarrow> st
    | Some operation \<Rightarrow>
        st\<lparr>os_operations := bt_insert rid (finished_operation result operation) (os_operations st),
           os_active := (if os_active st = Some rid then None else os_active st)\<rparr>)"

section \<open>Interleavings\<close>

text \<open>
  The state of the manager together with the workers that are still running their action. A
  worker may report progress any number of times, finish, or die in a panic of the action; a
  worker that could not be spawned is cancelled instead of running. The callers' sections
  interleave with it.
\<close>

inductive coop_step ::
  "string \<Rightarrow> operation_state \<times> string set \<Rightarrow> operation_state \<times> string set \<Rightarrow> bool" for target where
  reply: "begin_accept target a r rid st = Some (BeginReply ans, st') \<Longrightarrow> coop_step target (st, ws) (st', ws)"
| spawn: "begin_accept target a r rid st = Some (BeginSpawn, st') \<Longrightarrow> coop_step target (st, ws) (st', insert rid ws)"
| no_worker: "rid \<in> ws \<Longrightarrow> begin_cancel message rid st = (err, st') \<Longrightarrow>
    coop_step target (st, ws) (st', ws - {rid})"
| progress: "rid \<in> ws \<Longrightarrow> coop_step target (st, ws) (update_progress rid u st, ws)"
| finish: "rid \<in> ws \<Longrightarrow> coop_step target (st, ws) (finish rid result st, ws - {rid})"
| crash: "rid \<in> ws \<Longrightarrow> coop_step target (st, ws) (st, ws - {rid})"

inductive_cases coop_stepE: "coop_step target s s'"

inductive coop_reach :: "string \<Rightarrow> operation_state \<times> string set \<Rightarrow> bool" for target where
  start: "coop_reach target (operation_state_new, {})"
| step: "coop_reach target s \<Longrightarrow> coop_step target s s' \<Longrightarrow> coop_reach target s'"

text \<open>
  The invariant: the queue lists exactly the retained operations, there are at most 128, an
  operation is stored under its request, a worker belongs to the active operation, and an
  operation that is not the active one is over.
\<close>

definition queue_ok :: "operation_state \<Rightarrow> bool" where
  "queue_ok st \<longleftrightarrow> bt_invar (os_operations st) \<and> distinct (os_order st)
     \<and> set (os_order st) = set (bt_keys (os_operations st))"

definition coop_ok :: "operation_state \<times> string set \<Rightarrow> bool" where
  "coop_ok = (\<lambda>(st, ws). queue_ok st \<and> length (os_operations st) \<le> retained_operations
     \<and> ws \<subseteq> {rid. os_active st = Some rid}
     \<and> (\<forall>rid. os_active st = Some rid \<longrightarrow> bt_get (os_operations st) rid \<noteq> None)
     \<and> (\<forall>rid operation. bt_get (os_operations st) rid = Some operation \<longrightarrow>
          co_request_id operation = rid
          \<and> (co_status operation = OpRunning \<longleftrightarrow> os_active st = Some rid)))"

lemma queue_length: "queue_ok st \<Longrightarrow> length (os_order st) = length (os_operations st)"
proof -
  assume ok: "queue_ok st"
  then have "length (os_order st) = card (set (bt_keys (os_operations st)))"
    unfolding queue_ok_def using distinct_card by metis
  also have "\<dots> = length (bt_keys (os_operations st))"
    using ok by (simp add: queue_ok_def distinct_card)
  finally show ?thesis by (simp add: bt_keys_def)
qed

lemma bt_remove_keys: "bt_keys (bt_remove k m) = filter (\<lambda>j. j \<noteq> k) (bt_keys m)"
  by (simp add: bt_keys_def bt_remove_def filter_map comp_def)

text \<open>Under the invariant the loop ends: it drops the oldest operations until there is room.\<close>

lemma evict_some:
  assumes "queue_ok st"
  shows "\<exists>n. evict st = Some (st\<lparr>os_order := drop n (os_order st),
      os_operations := bt_retain (\<lambda>k. k \<notin> set (take n (os_order st))) (os_operations st)\<rparr>)
    \<and> n = length (os_operations st) + 1 - retained_operations"
  using assms
proof (induction "length (os_operations st)" arbitrary: st rule: less_induct)
  case less
  show ?case
  proof (cases "length (os_operations st) \<ge> retained_operations")
    case False
    then show ?thesis
      by (subst evict.simps) (simp add: bt_retain_def retained_operations_def)
  next
    case True
    then have "os_order st \<noteq> []"
      using queue_length [OF less.prems] by (auto simp: retained_operations_def)
    then obtain x xs where order: "os_order st = x # xs" by (cases "os_order st") auto
    let ?st = "st\<lparr>os_order := xs, os_operations := bt_remove x (os_operations st)\<rparr>"
    have inv: "bt_invar (os_operations st)" and dist: "x \<notin> set xs" "distinct xs"
      and keys: "set (bt_keys (os_operations st)) = insert x (set xs)"
      using less.prems by (auto simp: queue_ok_def order)
    have ok: "queue_ok ?st"
      using inv dist keys by (auto simp: queue_ok_def bt_remove_keys)
    have len: "Suc (length (bt_remove x (os_operations st))) = length (os_operations st)"
      by (rule bt.remove_length [OF inv]) (use keys in \<open>auto simp: bt_keys_set\<close>)
    obtain n where n: "evict ?st = Some (?st\<lparr>os_order := drop n (os_order ?st),
        os_operations := bt_retain (\<lambda>k. k \<notin> set (take n (os_order ?st))) (os_operations ?st)\<rparr>)"
      "n = length (os_operations ?st) + 1 - retained_operations"
      using less.hyps [OF _ ok] len by auto
    have "evict st = evict ?st" using True by (subst evict.simps) (simp add: order)
    then show ?thesis
      using n True len
      by (intro exI [of _ "Suc n"]) (auto simp: order bt_retain_def bt_remove_def conj_commute intro!: filter_cong)
  qed
qed

section \<open>Invariant\<close>

lemma queue_ok_drop:
  assumes "queue_ok st"
  shows "queue_ok (st\<lparr>os_order := drop n (os_order st),
      os_operations := bt_retain (\<lambda>k. k \<notin> set (take n (os_order st))) (os_operations st)\<rparr>)"
proof -
  have parts: "set (take n (os_order st)) \<union> set (drop n (os_order st)) = set (os_order st)"
    "set (take n (os_order st)) \<inter> set (drop n (os_order st)) = {}"
    using assms by (auto simp: queue_ok_def set_take_disj_set_drop_if_distinct simp flip: set_append)
  have "set (bt_keys (bt_retain (\<lambda>k. k \<notin> set (take n (os_order st))) (os_operations st))) =
      set (bt_keys (os_operations st)) - set (take n (os_order st))"
    by (auto simp: bt_keys_def bt_retain_def)
  then show ?thesis
    using assms parts by (auto simp: queue_ok_def)
qed

lemma op_insert_spec:
  assumes "queue_ok st" and "bt_get (os_operations st) (co_request_id operation) = None"
  shows "\<exists>n st'. op_insert operation st = Some st' \<and> n = length (os_operations st) + 1 - retained_operations
    \<and> os_order st' = drop n (os_order st) @ [co_request_id operation]
    \<and> (\<forall>k. bt_get (os_operations st') k = (if k = co_request_id operation then Some operation
          else if k \<in> set (take n (os_order st)) then None else bt_get (os_operations st) k))
    \<and> os_active st' = os_active st \<and> queue_ok st' \<and> length (os_operations st') \<le> retained_operations"
proof -
  obtain n where ev: "evict st = Some (st\<lparr>os_order := drop n (os_order st),
      os_operations := bt_retain (\<lambda>k. k \<notin> set (take n (os_order st))) (os_operations st)\<rparr>)"
    and n: "n = length (os_operations st) + 1 - retained_operations"
    using evict_some [OF assms(1)] by blast
  let ?ops = "bt_retain (\<lambda>k. k \<notin> set (take n (os_order st))) (os_operations st)"
  let ?mid = "st\<lparr>os_order := drop n (os_order st), os_operations := ?ops\<rparr>"
  let ?new = "?mid\<lparr>os_order := drop n (os_order st) @ [co_request_id operation],
      os_operations := bt_insert (co_request_id operation) operation ?ops\<rparr>"
  have mid: "queue_ok ?mid" by (rule queue_ok_drop [OF assms(1)])
  have inv: "bt_invar ?ops" using mid by (simp add: queue_ok_def)
  have fresh: "bt_get ?ops (co_request_id operation) = None" using assms(2) by simp
  have len: "length ?ops = length (os_order st) - n" using queue_length [OF mid] by simp
  have keys: "set (bt_keys (bt_insert (co_request_id operation) operation ?ops)) =
      insert (co_request_id operation) (set (bt_keys ?ops))"
    by (simp add: bt_keys_def bt_insert_keys)
  have "co_request_id operation \<notin> set (drop n (os_order st))"
    using mid fresh by (auto simp: queue_ok_def bt_keys_set)
  then have ok: "queue_ok ?new" using mid inv keys by (auto simp: queue_ok_def)
  have "length (os_operations ?new) \<le> retained_operations"
    using bt.insert_new_length [OF inv fresh, of operation] len n queue_length [OF assms(1)]
    by (simp add: retained_operations_def)
  moreover have "op_insert operation st = Some ?new" by (simp add: op_insert_def ev)
  ultimately show ?thesis
    using ok inv n by (intro exI [of _ n] exI [of _ ?new]) auto
qed

lemma coop_okD:
  assumes "coop_ok (st, ws)"
  shows "queue_ok st" and "bt_invar (os_operations st)" and "length (os_operations st) \<le> retained_operations"
    and "rid \<in> ws \<Longrightarrow> os_active st = Some rid"
    and "os_active st = Some rid \<Longrightarrow> bt_get (os_operations st) rid \<noteq> None"
    and "bt_get (os_operations st) rid = Some operation \<Longrightarrow>
      co_request_id operation = rid \<and> (co_status operation = OpRunning \<longleftrightarrow> os_active st = Some rid)"
  using assms by (auto simp: coop_ok_def queue_ok_def)

lemma begin_accept_spec:
  assumes ok: "coop_ok (st, ws)" and run: "begin_accept target a r rid st = Some (ans, st')"
  shows "case ans of
      BeginReply _ \<Rightarrow> st' = st
    | BeginSpawn \<Rightarrow> bt_get (os_operations st) rid = None \<and> os_active st = None \<and> ws = {}
        \<and> os_active st' = Some rid \<and> coop_ok (st', {rid})
        \<and> (\<forall>k. k \<noteq> rid \<longrightarrow> bt_get (os_operations st') k \<in> {None, bt_get (os_operations st) k})
        \<and> bt_get (os_operations st') rid = Some (accepted_operation target a r rid)"
proof (cases ans)
  case (BeginReply x)
  then show ?thesis
    using run by (auto simp: begin_accept_def split: option.splits if_splits)
next
  case BeginSpawn
  let ?op = "accepted_operation target a r rid"
  have none: "bt_get (os_operations st) rid = None" "os_active st = None"
    and ins: "op_insert ?op (st\<lparr>os_active := Some rid\<rparr>) = Some st'"
    using run BeginSpawn by (auto simp: begin_accept_def split: option.splits if_splits)
  have ws: "ws = {}" using coop_okD(4) [OF ok] none(2) by auto
  have rid: "co_request_id ?op = rid" by (simp add: accepted_operation_def)
  have q: "queue_ok (st\<lparr>os_active := Some rid\<rparr>)" using coop_okD(1) [OF ok] by (simp add: queue_ok_def)
  obtain n where st': "os_order st' = drop n (os_order st) @ [rid]"
    "\<forall>k. bt_get (os_operations st') k = (if k = rid then Some ?op
          else if k \<in> set (take n (os_order st)) then None else bt_get (os_operations st) k)"
    "os_active st' = Some rid" "queue_ok st'" "length (os_operations st') \<le> retained_operations"
    using op_insert_spec [OF q, of ?op] none ins by (auto simp: rid)
  have "coop_ok (st', {rid})"
    using st' coop_okD(6) [OF ok] none(2) by (auto simp: coop_ok_def accepted_operation_def split: if_splits)
  then show ?thesis using BeginSpawn none ws st' by auto
qed

lemma queue_ok_update:
  "queue_ok st \<Longrightarrow> bt_get (os_operations st) rid \<noteq> None \<Longrightarrow>
     queue_ok (st\<lparr>os_operations := bt_insert rid operation (os_operations st)\<rparr>)
     \<and> length (bt_insert rid operation (os_operations st)) = length (os_operations st)"
proof -
  assume ok: "queue_ok st" and old: "bt_get (os_operations st) rid \<noteq> None"
  let ?st = "st\<lparr>os_operations := bt_insert rid operation (os_operations st)\<rparr>"
  have "rid \<in> set (bt_keys (os_operations st))" using old by (auto simp: bt_keys_set)
  then have "queue_ok ?st" using ok by (auto simp: queue_ok_def bt_keys_def bt_insert_keys)
  then show ?thesis using queue_length [OF ok] queue_length [of ?st] by simp
qed

lemma update_progress_ok:
  assumes "coop_ok (st, ws)"
  shows "coop_ok (update_progress rid u st, ws)"
proof (cases "bt_get (os_operations st) rid")
  case None
  then show ?thesis using assms by (simp add: update_progress_def)
next
  case (Some operation)
  then show ?thesis
    using assms queue_ok_update [of st rid "progress_operation u operation"] coop_okD [OF assms]
    by (auto simp: update_progress_def coop_ok_def progress_operation_def queue_ok_def)
qed

lemma finish_ok:
  assumes "coop_ok (st, ws)" and "rid \<in> ws"
  shows "coop_ok (finish rid result st, ws - {rid})"
proof -
  have act: "os_active st = Some rid" using coop_okD(4) [OF assms] .
  then obtain operation where op: "bt_get (os_operations st) rid = Some operation"
    using coop_okD(5) [OF assms(1)] by auto
  have ws: "ws - {rid} = {}" using coop_okD(4) [OF assms(1)] act by auto
  show ?thesis
    using queue_ok_update [OF coop_okD(1) [OF assms(1)], of rid "finished_operation result operation"]
      op act coop_okD(2,3,6) [OF assms(1)]
    by (auto simp: finish_def coop_ok_def ws queue_ok_def finished_operation_def split: sum.splits)
qed

lemma begin_cancel_ok:
  assumes "coop_ok (st, ws)" and "rid \<in> ws" and "begin_cancel message rid st = (err, st')"
  shows "coop_ok (st', ws - {rid})"
proof -
  have act: "os_active st = Some rid" using coop_okD(4) [OF assms(1,2)] .
  have ws: "ws - {rid} = {}" using coop_okD(4) [OF assms(1)] act by auto
  have "length (bt_remove rid (os_operations st)) \<le> length (os_operations st)"
    by (simp add: bt_remove_def)
  then show ?thesis
    using assms(3) act coop_okD [OF assms(1)]
    by (auto simp: begin_cancel_def coop_ok_def ws queue_ok_def bt_remove_keys split: if_splits)
qed

lemma coop_step_ok:
  assumes "coop_step target s s'" and "coop_ok s"
  shows "coop_ok s'"
  using assms
proof (induction rule: coop_step.induct)
  case (reply a r rid st ans st' ws)
  then show ?case using begin_accept_spec [OF reply(2,1)] by simp
next
  case (spawn a r rid st st' ws)
  then show ?case using begin_accept_spec [OF spawn(2,1)] by simp
next
  case (crash rid ws st)
  then show ?case by (auto simp: coop_ok_def)
qed (auto simp: update_progress_ok finish_ok begin_cancel_ok)

lemma operation_state_new_ok: "coop_ok (operation_state_new, {})"
  by (simp add: coop_ok_def queue_ok_def operation_state_new_def bt_keys_def bt_empty_def bt_invar_def
      bt_get_def)

lemma coop_reach_ok: "coop_reach target s \<Longrightarrow> coop_ok s"
  by (induction rule: coop_reach.induct) (auto intro: operation_state_new_ok coop_step_ok)

text \<open>An operation that is over is never changed again; it can only be evicted.\<close>

lemma terminal_stays:
  assumes "coop_step target (st, ws) (st', ws')" and ok: "coop_ok (st, ws)"
    and op: "bt_get (os_operations st) rid = Some operation" and "co_status operation \<noteq> OpRunning"
  shows "bt_get (os_operations st') rid \<in> {None, Some operation}"
proof -
  have na: "os_active st \<noteq> Some rid" using coop_okD(6) [OF ok op] assms(4) by simp
  note inv = coop_okD(2) [OF ok]
  from assms(1) show ?thesis
  proof cases
    case (reply a r k ans)
    then show ?thesis using begin_accept_spec [OF ok reply(2)] op by simp
  next
    case (spawn a r k)
    have "k \<noteq> rid" using begin_accept_spec [OF ok spawn(2)] op by auto
    then show ?thesis using begin_accept_spec [OF ok spawn(2)] op by fastforce
  next
    case (no_worker k message err)
    then have "k \<noteq> rid" using coop_okD(4) [OF ok] na by auto
    then show ?thesis using no_worker inv op by (auto simp: begin_cancel_def)
  next
    case (progress k u)
    then have "k \<noteq> rid" using coop_okD(4) [OF ok] na by auto
    then show ?thesis using progress inv op by (auto simp: update_progress_def split: option.split)
  next
    case (finish k result)
    then have "k \<noteq> rid" using coop_okD(4) [OF ok] na by auto
    then show ?thesis using finish inv op by (auto simp: finish_def split: option.split)
  next
    case (crash k)
    then show ?thesis using op by simp
  qed
qed

text \<open>A concrete run: a reload is accepted, its worker fails, and the failure stays.\<close>

definition example_running :: operation_state where
  "example_running = \<lparr>os_operations = [(''r'', accepted_operation ''x'' Codex (Reason ''why'') ''r'')],
     os_order = [''r''], os_active = Some ''r''\<rparr>"

definition example_over :: operation_state where
  "example_over = finish ''r'' (Inl (coop_action_error_new ''timeout'' ''late'')) example_running"

lemma example_runs:
  "coop_reach ''x'' (example_running, {''r''})" "coop_reach ''x'' (example_over, {})"
proof -
  have "begin_accept ''x'' Codex (Reason ''why'') ''r'' operation_state_new = Some (BeginSpawn, example_running)"
    by (simp add: begin_accept_def operation_state_new_def op_insert_def evict.simps retained_operations_def
        example_running_def accepted_operation_def bt_get_def bt_empty_def)
  then show run: "coop_reach ''x'' (example_running, {''r''})"
    using coop_reach.step [OF coop_reach.start coop_step.spawn] by simp
  have "coop_step ''x'' (example_running, {''r''}) (example_over, {''r''} - {''r''})"
    unfolding example_over_def by (rule coop_step.finish) simp
  then show "coop_reach ''x'' (example_over, {})" using coop_reach.step [OF run] by simp
qed

section \<open>Properties\<close>

text \<open>C30: One operation at a time: in every interleaving at most one worker runs, it works on the
  active operation, which is retained and running, every other operation is over, and at most 128
  operations are retained.\<close>

theorem cooperative_single_flight:
  assumes "coop_reach target (st, ws)"
  shows "card ws \<le> 1 \<and> ws \<subseteq> {rid. os_active st = Some rid}
    \<and> length (os_operations st) \<le> 128
    \<and> (\<forall>rid operation. bt_get (os_operations st) rid = Some operation \<longrightarrow>
         (co_status operation = OpRunning \<longleftrightarrow> os_active st = Some rid))"
proof -
  have ok: "coop_ok (st, ws)" by (rule coop_reach_ok [OF assms])
  have sub: "ws \<subseteq> {rid. os_active st = Some rid}" using coop_okD(4) [OF ok] by auto
  have "ws \<subseteq> (case os_active st of None \<Rightarrow> {} | Some rid \<Rightarrow> {rid})" using sub by (auto split: option.split)
  then have "card ws \<le> 1" by (cases "os_active st") (auto dest: subset_singletonD)
  then show ?thesis using sub coop_okD(3,6) [OF ok] by (simp add: retained_operations_def)
qed

lemma cooperative_single_flight_witness:
  "card {''r''} \<le> 1 \<and> length (os_operations example_running) \<le> 128
    \<and> os_active example_running = Some ''r''
    \<and> co_status (accepted_operation ''x'' Codex (Reason ''why'') ''r'') = OpRunning"
proof -
  have "bt_get (os_operations example_running) ''r'' = Some (accepted_operation ''x'' Codex (Reason ''why'') ''r'')"
    and "os_active example_running = Some ''r''"
    by (simp_all add: example_running_def bt_get_def)
  with cooperative_single_flight [OF example_runs(1)] show ?thesis by blast
qed

text \<open>A request is idempotent and never waits: in every reachable state \<open>begin\<close> returns; the same
  request by the same principal for the same reason is answered with the retained operation, a
  different one under the same identifier with a conflict, a new one while another is active with
  the active identifier, and in these cases nothing changes. Otherwise the operation is accepted,
  retained as running under its identifier, and becomes the active one.\<close>

lemma cooperative_begin_idempotent:
  assumes "coop_reach target (st, ws)"
  shows "case bt_get (os_operations st) rid of
      Some operation \<Rightarrow>
        begin_accept target a r rid st =
          Some (BeginReply (if co_actor operation = a \<and> co_reason operation = r then Inr operation
                            else Inl CoopIdempotencyConflict), st)
    | None \<Rightarrow> (case os_active st of
        Some active \<Rightarrow> begin_accept target a r rid st = Some (BeginReply (Inl (CoopActionInProgress active)), st)
      | None \<Rightarrow> \<exists>st'. begin_accept target a r rid st = Some (BeginSpawn, st') \<and> os_active st' = Some rid
          \<and> coop_active st' = Some (accepted_operation target a r rid))"
proof -
  have ok: "coop_ok (st, ws)" by (rule coop_reach_ok [OF assms])
  have q: "queue_ok (st\<lparr>os_active := Some rid\<rparr>)" using coop_okD(1) [OF ok] by (simp add: queue_ok_def)
  show ?thesis
  proof (cases "bt_get (os_operations st) rid = None \<and> os_active st = None")
    case True
    then obtain st' where "op_insert (accepted_operation target a r rid) (st\<lparr>os_active := Some rid\<rparr>) = Some st'"
      using op_insert_spec [OF q, of "accepted_operation target a r rid"] by (auto simp: accepted_operation_def)
    then have run: "begin_accept target a r rid st = Some (BeginSpawn, st')"
      using True by (simp add: begin_accept_def)
    show ?thesis using True run begin_accept_spec [OF ok run] by (simp add: coop_active_def)
  next
    case False
    then show ?thesis by (auto simp: begin_accept_def split: option.split)
  qed
qed

text \<open>The outcome of an operation is final: no later step of anybody changes a completed or failed
  operation; it can only be evicted.\<close>

lemma cooperative_outcome_final:
  assumes "coop_reach target (st, ws)" and "coop_step target (st, ws) (st', ws')"
    and "bt_get (os_operations st) rid = Some operation" and "co_status operation \<noteq> OpRunning"
  shows "bt_get (os_operations st') rid = Some operation \<or> bt_get (os_operations st') rid = None"
  using terminal_stays [OF assms(2) coop_reach_ok [OF assms(1)] assms(3,4)] by auto

end
