(* ===== verification/Redaction.thy ===== *)
theory Redaction
  imports Rust_Text "HOL-Library.Word"
begin

unbundle bit_operations_syntax

text \<open>
  Secrets: the runtime token (\<open>src/src/adapters/runtime_token.rs\<close>) and the redaction and bounding
  of the texts the journal persists (\<open>src/src/adapters/journal.rs\<close>). The file system and the
  generator of the operating system are the results they give, as arguments.
\<close>

section \<open>The runtime token\<close>

definition token_length :: nat where
  "token_length = 64"

definition is_token_byte :: "char \<Rightarrow> bool" where
  "is_token_byte c = (is_ascii_digit c \<or> (97 \<le> (of_char c :: nat) \<and> (of_char c :: nat) \<le> 102))"

datatype 'io io_result_error = IoNotFound | IoAlreadyExists | IoOther 'io

datatype 'io token_error =
  TokenRead "'io io_result_error" | TokenCreateDirectory "'io io_result_error"
| TokenGenerate "'io io_result_error" | TokenWrite "'io io_result_error" | TokenInvalid

definition token_parse :: "string \<Rightarrow> 'io token_error + string" where
  "token_parse value =
     (let value = trim value in
      if length value \<noteq> token_length \<or> \<not> list_all is_token_byte value then Inl TokenInvalid
      else Inr value)"

definition token_load :: "'io io_result_error + string \<Rightarrow> 'io token_error + string" where
  "token_load content = (case content of Inl source \<Rightarrow> Inl (TokenRead source) | Inr value \<Rightarrow> token_parse value)"

text \<open>
  \<open>load_or_create\<close>: \<open>content\<close> is the first read of the file, \<open>mkdir\<close> the failure of creating the
  directory, \<open>generated\<close> what the generator gives, \<open>create\<close> the failure of creating the new file,
  \<open>write\<close> the failure of writing it, and \<open>again\<close> the second read.
\<close>

definition token_load_or_create ::
  "'io io_result_error + string \<Rightarrow> 'io io_result_error option \<Rightarrow> 'io io_result_error + string \<Rightarrow>
     'io io_result_error option \<Rightarrow> 'io io_result_error option \<Rightarrow> 'io io_result_error + string \<Rightarrow>
     'io token_error + string" where
  "token_load_or_create content mkdir generated create write again =
     (case token_load content of
        Inr token \<Rightarrow> Inr token
      | Inl e \<Rightarrow>
          if e \<noteq> TokenRead IoNotFound then Inl e
          else case mkdir of
            Some source \<Rightarrow> Inl (TokenCreateDirectory source)
          | None \<Rightarrow>
              (case generated of
                 Inl source \<Rightarrow> Inl (TokenGenerate source)
               | Inr value \<Rightarrow>
                   (case token_parse value of
                      Inl e \<Rightarrow> Inl e
                    | Inr token \<Rightarrow>
                        (case create of
                           None \<Rightarrow> (case write of None \<Rightarrow> Inr token | Some source \<Rightarrow> Inl (TokenWrite source))
                         | Some source \<Rightarrow>
                             if source = IoAlreadyExists then token_load again
                             else Inl (TokenWrite source)))))"

definition byte_at :: "string \<Rightarrow> nat \<Rightarrow> 8 word" where
  "byte_at s i = (if i < length s then word_of_nat (of_char (s ! i)) else 0)"

definition constant_time_equal :: "string \<Rightarrow> string \<Rightarrow> bool" where
  "constant_time_equal expected candidate =
     (fold (\<lambda>i difference. difference OR ucast (byte_at expected i XOR byte_at candidate i))
        [0..<max (length expected) (length candidate)]
        (word_of_nat (length expected) XOR word_of_nat (length candidate)) = (0 :: 64 word))"

definition bearer_matches :: "string \<Rightarrow> string \<Rightarrow> bool" where
  "bearer_matches token candidate = constant_time_equal token candidate"

section \<open>Redaction and bounds\<close>

text \<open>\<open>str::replace\<close> of a non-empty pattern.\<close>

function str_replace :: "string \<Rightarrow> string \<Rightarrow> string \<Rightarrow> string" where
  "str_replace pat to s =
     (if s = [] then []
      else if pat \<noteq> [] \<and> prefix pat s then to @ str_replace pat to (drop (length pat) s)
      else hd s # str_replace pat to (tl s))"
  by pat_completeness auto
termination
  by (relation "measure (\<lambda>(pat, to, s). length s)") auto

declare str_replace.simps [simp del]

definition redact_known_secrets :: "string \<Rightarrow> string list \<Rightarrow> string" where
  "redact_known_secrets value known_secrets =
     fold (\<lambda>secret text. str_replace secret ''[REDACTED]'' text)
       (filter (\<lambda>secret. secret \<noteq> []) known_secrets) value"

definition bounded_text :: "string \<Rightarrow> nat \<Rightarrow> string" where
  "bounded_text value max_bytes =
     (if length value \<le> max_bytes then value
      else (let limit = max_bytes - length ''...'';
                starts = takeWhile (\<lambda>i. i \<le> limit) (char_indices value);
                boundary = (if starts = [] then 0 else last starts)
            in trim_end (take boundary value) @ ''...''))"

definition max_error_detail_bytes :: nat where
  "max_error_detail_bytes = 512"

definition bounded_error_detail :: "string \<Rightarrow> string" where
  "bounded_error_detail value =
     bounded_text (join '' '' (split_whitespace value)) max_error_detail_bytes"

section \<open>Facts on tokens\<close>

lemma token_parse_ok:
  "token_parse value = Inr token \<Longrightarrow>
     token = trim value \<and> length token = token_length \<and> list_all is_token_byte token"
  by (auto simp: token_parse_def Let_def split: if_splits)

lemma token_parse_error: "token_parse value = Inl e \<Longrightarrow> e = TokenInvalid"
  by (auto simp: token_parse_def Let_def split: if_splits)

lemma fold_or_zero:
  "fold (\<lambda>i difference. difference OR f i) xs a = (0 :: 'a::len word) \<longleftrightarrow> a = 0 \<and> (\<forall>i \<in> set xs. f i = 0)"
  by (induction xs arbitrary: a) (auto simp: or_eq_0_iff)

lemma ucast_zero: "ucast (x :: 8 word) = (0 :: 64 word) \<longleftrightarrow> x = 0"
proof -
  have "uint (ucast x :: 64 word) = uint x" by (rule uint_up_ucast) (simp add: is_up)
  then show ?thesis by (metis unsigned_0 unsigned_eq_0_iff)
qed

lemma byte_of_inj: "(word_of_nat (of_char c) :: 8 word) = word_of_nat (of_char d) \<longleftrightarrow> c = d"
proof -
  have "unat (word_of_nat (of_char x) :: 8 word) = of_char x" for x
    by (simp add: unat_of_nat take_bit_eq_mod)
  then show ?thesis by (metis of_char_eq_iff)
qed

lemma xor_zero: "a XOR b = 0 \<longleftrightarrow> a = (b :: 'a::len word)"
  by (metis xor.right_neutral xor_self_eq xor.assoc)

text \<open>The comparison without early exit is equality.\<close>

lemma constant_time_equal_iff:
  assumes "length expected < 2 ^ 64" and "length candidate < 2 ^ 64"
  shows "constant_time_equal expected candidate \<longleftrightarrow> expected = candidate"
proof -
  have "unat (word_of_nat n :: 64 word) = n" if "n < 2 ^ 64" for n
    using that by (simp add: unat_of_nat take_bit_eq_mod)
  then have len: "(word_of_nat (length expected) :: 64 word) = word_of_nat (length candidate)
      \<longleftrightarrow> length expected = length candidate"
    using assms by metis
  have bytes: "(\<forall>i \<in> {..<length candidate}. byte_at expected i = byte_at candidate i) \<longleftrightarrow> expected = candidate"
    if "length expected = length candidate"
    using that by (auto simp: byte_at_def byte_of_inj list_eq_iff_nth_eq)
  show ?thesis
    unfolding constant_time_equal_def fold_or_zero
    using len bytes by (auto simp: ucast_zero xor_zero atLeast_upt)
qed

section \<open>Facts on redaction\<close>

text \<open>A pattern that shares no character with a separator occurs on one of its sides.\<close>

lemma sublist_around:
  assumes "p \<noteq> []" and "set p \<inter> set b = {}" and "b \<noteq> []" and "sublist p (a @ b @ c)"
  shows "sublist p a \<or> sublist p c"
proof -
  have no_b: "\<not> sublist p b"
    using assms(1,2) by (meson disjoint_iff hd_in_set set_mono_sublist subsetD)
  have suf: "xs = []" if "suffix xs b" "set xs \<subseteq> set p" for xs
    using that assms(2) set_mono_suffix [of xs b] by (cases xs) auto
  have pre: "prefix q c \<Longrightarrow> q = p \<Longrightarrow> sublist p c" for q by auto
  have right: "sublist p b \<or> sublist p c \<or> (\<exists>xs ys. p = xs @ ys \<and> suffix xs b \<and> prefix ys c) \<Longrightarrow> sublist p c"
    using no_b suf by (metis append_Nil prefix_imp_sublist set_append sup_ge1)
  consider "sublist p a" | "sublist p (b @ c)"
    | xs ys where "p = xs @ ys" "suffix xs a" "prefix ys (b @ c)"
    using assms(4) by (auto simp: sublist_append)
  then show ?thesis
  proof cases
    case 2
    then show ?thesis using right by (simp add: sublist_append)
  next
    case 3
    have "ys = []"
    proof (rule ccontr)
      assume "ys \<noteq> []"
      then have "hd ys = hd b" using 3(3) assms(3) by (metis hd_append2 prefix_def)
      then show False using \<open>ys \<noteq> []\<close> assms(2,3) 3(1) by (metis IntI Un_iff empty_iff hd_in_set set_append)
    qed
    then show ?thesis using 3 by auto
  qed simp
qed

lemma prefix_replace:
  "prefix p (str_replace pat to s) \<Longrightarrow> set p \<inter> set to = {} \<Longrightarrow> to \<noteq> [] \<Longrightarrow> prefix p s"
proof (induction pat to s arbitrary: p rule: str_replace.induct)
  case (1 pat to s)
  show ?case
  proof (cases "s = [] \<or> p = []")
    case True
    then show ?thesis using 1(3) by (auto simp: str_replace.simps)
  next
    case False
    show ?thesis
    proof (cases "pat \<noteq> [] \<and> prefix pat s")
      case True
      then have "prefix p (to @ str_replace pat to (drop (length pat) s))"
        using 1(3) False by (subst (asm) str_replace.simps) simp
      then have "hd p = hd to" using False 1(5) by (metis hd_append2 prefix_def)
      then show ?thesis using False 1(4,5) by (metis disjoint_iff hd_in_set)
    next
      case no: False
      obtain c cs where s: "s = c # cs" using False by (cases s) auto
      obtain q where q: "p = c # q" "prefix q (str_replace pat to cs)"
        using 1(3) False no unfolding s by (cases p) (auto simp: str_replace.simps [of pat to "c # cs"])
      have "prefix q cs" using 1(2) [of q] q 1(4,5) False no by (auto simp: s)
      then show ?thesis by (simp add: s q)
    qed
  qed
qed

text \<open>Replacing a secret by text that shares no character with it leaves no occurrence.\<close>

lemma replace_removes:
  assumes "pat \<noteq> []" and "set pat \<inter> set to = {}" and "to \<noteq> []"
  shows "\<not> sublist pat (str_replace pat to s)"
  using assms
proof (induction pat to s rule: str_replace.induct)
  case (1 pat to s)
  show ?case
  proof (cases "s = []")
    case True
    then show ?thesis using 1(3) by (simp add: str_replace.simps)
  next
    case False
    show ?thesis
    proof (cases "prefix pat s")
      case True
      then have "\<not> sublist pat (str_replace pat to (drop (length pat) s))"
        using 1(1) False 1(3-5) by auto
      then show ?thesis
        using True False 1(3) sublist_around [OF 1(3,4,5), of "[]"] by (subst str_replace.simps) auto
    next
      case no: False
      then have step: "str_replace pat to s = hd s # str_replace pat to (tl s)"
        using False by (subst str_replace.simps) simp
      have "\<not> sublist pat (str_replace pat to (tl s))" using 1(2) False no 1(3-5) by auto
      moreover have "\<not> prefix pat (hd s # str_replace pat to (tl s))"
        using no prefix_replace [of pat pat to s] 1(4,5) step by metis
      ultimately show ?thesis by (simp add: step sublist_Cons_right)
    qed
  qed
qed

lemma split_ws_sublist: "w \<in> set (split_ws cur s) \<Longrightarrow> sublist w (cur @ s)"
proof (induction cur s rule: split_ws.induct)
  case (1 cur s)
  show ?case
  proof (cases "s = []")
    case True
    then show ?thesis using 1(3) by (simp add: split_ws.simps [of cur "[]"] split: if_splits)
  next
    case False
    show ?thesis
    proof (cases "ws_len s = 0")
      case True
      then show ?thesis using False 1(1,3) by (simp add: split_ws.simps [of cur s])
    next
      case no: False
      have "w = cur \<or> w \<in> set (split_ws [] (drop (ws_len s) s))"
        using 1(3) False no by (auto simp: split_ws.simps [of cur s] split: if_splits)
      then show ?thesis
      proof
        assume "w \<in> set (split_ws [] (drop (ws_len s) s))"
        then have "sublist w (drop (ws_len s) s)" using 1(2) False no by auto
        then have "sublist w s" by (meson sublist_drop sublist_order.order_trans)
        then show ?thesis by (simp add: sublist_appendI sublist_append)
      qed (simp add: sublist_append)
    qed
  qed
qed

lemma sublist_join:
  assumes "p \<noteq> []" and "CHR '' '' \<notin> set p" and "sublist p (join '' '' ws)"
  shows "\<exists>w \<in> set ws. sublist p w"
  using assms(3)
proof (induction "'' ''" ws rule: join.induct)
  case 1
  then show ?case using assms(1) by simp
next
  case (3 w v ws)
  then have "sublist p (w @ '' '' @ join '' '' (v # ws))" by simp
  then have "sublist p w \<or> sublist p (join '' '' (v # ws))"
    using sublist_around [of p "'' ''"] assms(1,2) by auto
  then show ?case using 3(1) by auto
qed simp

lemma sublist_single_line:
  "p \<noteq> [] \<Longrightarrow> CHR '' '' \<notin> set p \<Longrightarrow> sublist p (join '' '' (split_whitespace s)) \<Longrightarrow> sublist p s"
  unfolding split_whitespace_def
  by (metis append_Nil split_ws_sublist sublist_join sublist_order.order_trans)

lemma bounded_text_cut:
  assumes "\<not> length s \<le> n"
  shows "\<exists>b \<le> n - 3. bounded_text s n = trim_end (take b s) @ ''...''"
proof -
  let ?starts = "takeWhile (\<lambda>i. i \<le> n - length ''...'') (char_indices s)"
  let ?b = "if ?starts = [] then 0 else last ?starts"
  have "bounded_text s n = trim_end (take ?b s) @ ''...''"
    using assms by (simp only: bounded_text_def Let_def if_False)
  moreover have "last ?starts \<le> n - length ''...''" if "?starts \<noteq> []"
    using set_takeWhileD [OF last_in_set [OF that]] by simp
  then have "?b \<le> n - 3" by (simp add: numeral_3_eq_3)
  ultimately show ?thesis by blast
qed

lemma sublist_bounded_text:
  assumes "p \<noteq> []" and "CHR ''.'' \<notin> set p" and "sublist p (bounded_text s n)"
  shows "sublist p s"
proof (cases "length s \<le> n")
  case True
  then show ?thesis using assms(3) by (simp add: bounded_text_def)
next
  case False
  then obtain b where "bounded_text s n = trim_end (take b s) @ ''...''"
    using bounded_text_cut by blast
  then have "sublist p (trim_end (take b s) @ ''...'' @ [])" using assms(3) by simp
  then have "sublist p (trim_end (take b s))"
    using sublist_around [of p "''...''" "trim_end (take b s)" "[]"] assms(1,2) by auto
  then show ?thesis
    by (meson prefix_imp_sublist sublist_order.order_trans sublist_take trim_end_prefix)
qed

lemma sublist_bounded_error_detail:
  "p \<noteq> [] \<Longrightarrow> CHR ''.'' \<notin> set p \<Longrightarrow> CHR '' '' \<notin> set p \<Longrightarrow> sublist p (bounded_error_detail s) \<Longrightarrow> sublist p s"
  unfolding bounded_error_detail_def by (blast dest: sublist_bounded_text sublist_single_line)

lemma bounded_text_length:
  assumes "3 \<le> n"
  shows "length (bounded_text s n) \<le> n"
proof (cases "length s \<le> n")
  case True
  then show ?thesis by (simp add: bounded_text_def)
next
  case False
  then obtain b where "b \<le> n - 3" "bounded_text s n = trim_end (take b s) @ ''...''"
    using bounded_text_cut by blast
  moreover have "length (trim_end (take b s)) \<le> b" using trim_end_length [of "take b s"] by simp
  ultimately show ?thesis using assms by simp
qed

lemma bounded_error_detail_length: "length (bounded_error_detail s) \<le> 512"
  using bounded_text_length [of 512] by (simp add: bounded_error_detail_def max_error_detail_bytes_def)

text \<open>The characters of a token are not those of the replacement, of white space or of an ellipsis.\<close>

lemma token_chars:
  assumes "list_all is_token_byte token"
  shows "set token \<inter> set ''[REDACTED]'' = {}" and "CHR ''.'' \<notin> set token" and "CHR '' '' \<notin> set token"
  using assms by (auto simp: list_all_iff is_token_byte_def is_ascii_digit_def)

lemma redact_one:
  assumes "list_all is_token_byte token" and "token \<noteq> []"
  shows "\<not> sublist token (redact_known_secrets s [token])"
  using assms replace_removes [OF assms(2) token_chars(1) [OF assms(1)]]
  by (simp add: redact_known_secrets_def)

end
