(* ===== verification/Journal_Record.thy ===== *)
theory Journal_Record
  imports Redaction Dependency
begin

text \<open>
  The records of \<open>src/src/adapters/journal.rs\<close>, what is removed from them before they are
  persisted, and the lines that show them on the foreground console, with the timestamps of
  \<open>src/src/adapters/console_time.rs\<close>. The calendar library is the record \<open>chrono\<close>; \<open>dbg\<close>
  is the \<open>Debug\<close> rendering of a string, which needs the Unicode tables of the standard library.
\<close>

section \<open>Records\<close>

datatype journal_result = JrSuccess | JrFailure

datatype error_category =
  CatConfigInvalid | CatAlreadyRunning | CatAlreadyStopped | CatPortConflictExternal | CatSpawnFailed
| CatStartupTimeout | CatHealthFailed | CatShutdownTimeout | CatOwnershipLost | CatProcessExited
| CatUnauthorized | CatSupervisorInternalError

datatype journal_action = JaStart | JaStop | JaRestart | JaProcessExit

record journal_record =
  jr_sequence :: u64
  jr_timestamp :: string
  jr_supervisor_instance_id :: string
  jr_service_id :: string
  jr_action :: journal_action
  jr_actor :: actor
  jr_reason :: reason
  jr_previous_state :: lifecycle_state
  jr_resulting_state :: lifecycle_state
  jr_owned_pids_before :: "u32 list"
  jr_owned_pids_after :: "u32 list"
  jr_result :: journal_result
  jr_error_category :: "error_category option"
  jr_error_detail :: "string option"
  jr_exit_code :: "i32 option"
  jr_automatic_restart_planned :: "bool option"
  jr_deferred_restart_planned :: "bool option"
  jr_shutdown :: "tree_stop_report option"
  jr_config_fingerprint :: string

definition redacted_reason :: reason where
  "redacted_reason = (case reason_new ''[REDACTED]'' of Inr r \<Rightarrow> r | Inl _ \<Rightarrow> Reason ''[REDACTED]'')"

definition sanitized :: "string list \<Rightarrow> journal_record \<Rightarrow> journal_record" where
  "sanitized known_secrets record' =
     record'\<lparr>jr_reason := (case reason_new (bounded_text
          (redact_known_secrets (reason_as_str (jr_reason record')) known_secrets) reason_max_bytes) of
            Inr r \<Rightarrow> r | Inl _ \<Rightarrow> redacted_reason),
       jr_error_detail := map_option
          (\<lambda>detail. bounded_error_detail (redact_known_secrets detail known_secrets))
          (jr_error_detail record')\<rparr>"

section \<open>Console lines\<close>

datatype display_timezone = TzLocal | TzUtc

definition timezone_parse :: "string \<Rightarrow> display_timezone option" where
  "timezone_parse value =
     (if value = ''local'' then Some TzLocal else if value = ''utc'' then Some TzUtc else None)"

fun timezone_as_str :: "display_timezone \<Rightarrow> string" where
  "timezone_as_str TzLocal = ''local''"
| "timezone_as_str TzUtc = ''utc''"

record 't chrono =
  ch_from_millis :: "nat \<Rightarrow> 't option"
  ch_parse_rfc3339 :: "string \<Rightarrow> 't option"
  ch_utc :: "'t \<Rightarrow> string"
  ch_local :: "'t \<Rightarrow> string"

text \<open>\<open>str::parse::<u128>\<close>: an optional plus sign and at least one digit, within the range.\<close>

definition digit_value :: "char \<Rightarrow> nat" where
  "digit_value c = of_char c - 48"

definition parse_u128 :: "string \<Rightarrow> nat option" where
  "parse_u128 s =
     (let digits = (if s \<noteq> [] \<and> hd s = CHR ''+'' then tl s else s) in
      if digits = [] \<or> \<not> list_all is_ascii_digit digits then None
      else let n = foldl (\<lambda>n c. 10 * n + digit_value c) 0 digits in
           if n < 2 ^ 128 then Some n else None)"

definition strip_prefix :: "string \<Rightarrow> string \<Rightarrow> string option" where
  "strip_prefix p s = (if prefix p s then Some (drop (length p) s) else None)"

definition render_time :: "'t chrono \<Rightarrow> 't \<Rightarrow> display_timezone \<Rightarrow> string" where
  "render_time ch utc tz = (case tz of TzUtc \<Rightarrow> ch_utc ch utc | TzLocal \<Rightarrow> ch_local ch utc)"

definition format_unix_milliseconds :: "'t chrono \<Rightarrow> nat \<Rightarrow> display_timezone \<Rightarrow> string option" where
  "format_unix_milliseconds ch milliseconds tz =
     (if milliseconds \<ge> 2 ^ 63 then None
      else case ch_from_millis ch milliseconds of
        None \<Rightarrow> None
      | Some utc \<Rightarrow> Some (render_time ch utc tz))"

definition format_persisted_timestamp :: "'t chrono \<Rightarrow> string \<Rightarrow> display_timezone \<Rightarrow> string" where
  "format_persisted_timestamp ch value tz =
     (case Option.bind (strip_prefix ''unix-ms:'' value) parse_u128 of
        Some milliseconds \<Rightarrow>
          (case format_unix_milliseconds ch milliseconds tz of
             None \<Rightarrow> ''timestamp-invalid'' | Some text \<Rightarrow> text)
      | None \<Rightarrow>
          (case ch_parse_rfc3339 ch value of
             Some timestamp \<Rightarrow> render_time ch timestamp tz
           | None \<Rightarrow> ''timestamp-invalid''))"

datatype console_events = EventsOff | EventsLifecycle | EventsVerbose

fun journal_action_label :: "journal_action \<Rightarrow> string" where
  "journal_action_label JaStart = ''start''"
| "journal_action_label JaStop = ''stop''"
| "journal_action_label JaRestart = ''restart''"
| "journal_action_label JaProcessExit = ''process_exit''"

fun journal_result_label :: "journal_result \<Rightarrow> string" where
  "journal_result_label JrSuccess = ''success''"
| "journal_result_label JrFailure = ''failure''"

fun actor_label :: "actor \<Rightarrow> string" where
  "actor_label UserCli = ''user/cli''"
| "actor_label UserUi = ''user/ui''"
| "actor_label Agent = ''agent/generic''"
| "actor_label Codex = ''agent/codex''"
| "actor_label Recovery = ''recovery/supervisor''"

fun lifecycle_state_label :: "lifecycle_state \<Rightarrow> string" where
  "lifecycle_state_label Stopped = ''stopped''"
| "lifecycle_state_label Starting = ''starting''"
| "lifecycle_state_label Running = ''running''"
| "lifecycle_state_label Stopping = ''stopping''"
| "lifecycle_state_label TerminationPending = ''termination_pending''"
| "lifecycle_state_label Unhealthy = ''unhealthy''"
| "lifecycle_state_label Failed = ''failed''"

fun error_category_label :: "error_category \<Rightarrow> string" where
  "error_category_label CatConfigInvalid = ''config_invalid''"
| "error_category_label CatAlreadyRunning = ''already_running''"
| "error_category_label CatAlreadyStopped = ''already_stopped''"
| "error_category_label CatPortConflictExternal = ''port_conflict_external''"
| "error_category_label CatSpawnFailed = ''spawn_failed''"
| "error_category_label CatStartupTimeout = ''startup_timeout''"
| "error_category_label CatHealthFailed = ''health_failed''"
| "error_category_label CatShutdownTimeout = ''shutdown_timeout''"
| "error_category_label CatOwnershipLost = ''ownership_lost''"
| "error_category_label CatProcessExited = ''process_exited''"
| "error_category_label CatUnauthorized = ''unauthorized''"
| "error_category_label CatSupervisorInternalError = ''supervisor_internal_error''"

definition shutdown_is_graceful :: "tree_stop_report \<Rightarrow> bool" where
  "shutdown_is_graceful s \<longleftrightarrow> tsr_graceful_signal_sent s \<and> tsr_graceful_signal_error s = None"

definition event_outcome_label :: "journal_record \<Rightarrow> string" where
  "event_outcome_label record' =
     (if jr_result record' = JrFailure then
        (case jr_error_category record' of None \<Rightarrow> ''failure'' | Some c \<Rightarrow> error_category_label c)
      else if jr_error_category record' \<in> {Some CatAlreadyRunning, Some CatAlreadyStopped} then
        (case jr_error_category record' of None \<Rightarrow> ''success'' | Some c \<Rightarrow> error_category_label c)
      else (case jr_shutdown record' of
          None \<Rightarrow> ''success''
        | Some s \<Rightarrow> if tsr_forced s then ''forced''
            else if shutdown_is_graceful s then ''graceful'' else ''success''))"

definition event_details :: "(string \<Rightarrow> string) \<Rightarrow> journal_record \<Rightarrow> string list" where
  "event_details dbg record' =
     [''service='' @ jr_service_id record',
      ''action='' @ journal_action_label (jr_action record'),
      ''actor='' @ actor_label (jr_actor record'),
      ''state='' @ lifecycle_state_label (jr_previous_state record') @ ''->''
        @ lifecycle_state_label (jr_resulting_state record'),
      ''result='' @ journal_result_label (jr_result record'),
      ''reason='' @ dbg (reason_as_str (jr_reason record')),
      ''pids='' @ decimal (length (jr_owned_pids_before record')) @ ''->''
        @ decimal (length (jr_owned_pids_after record'))]
     @ (case jr_error_category record' of
          None \<Rightarrow> [] | Some c \<Rightarrow> [''category='' @ error_category_label c])
     @ (case jr_error_detail record' of None \<Rightarrow> [] | Some detail \<Rightarrow> [''detail='' @ dbg detail])
     @ (case jr_shutdown record' of
          None \<Rightarrow> []
        | Some s \<Rightarrow> [''shutdown='' @ (if tsr_forced s then ''forced''
            else if shutdown_is_graceful s then ''graceful'' else ''completed'')])
     @ (case jr_exit_code record' of None \<Rightarrow> [] | Some c \<Rightarrow> [''exitCode='' @ show_i32 c])"

definition format_console_event ::
  "'t chrono \<Rightarrow> (string \<Rightarrow> string) \<Rightarrow> journal_record \<Rightarrow> console_events \<Rightarrow> display_timezone \<Rightarrow> string option" where
  "format_console_event ch dbg record' mode tz =
     (if mode = EventsOff \<and> jr_result record' = JrSuccess then None
      else
        let stamp = format_persisted_timestamp ch (jr_timestamp record') tz;
            number = decimal (unat (jr_sequence record'))
        in if mode \<noteq> EventsVerbose then
             Some (''['' @ stamp @ ''] [event #'' @ number @ ''] '' @ jr_service_id record' @ '' ''
               @ journal_action_label (jr_action record') @ '': ''
               @ lifecycle_state_label (jr_previous_state record') @ '' -> ''
               @ lifecycle_state_label (jr_resulting_state record') @ '' (''
               @ actor_label (jr_actor record') @ '', '' @ event_outcome_label record' @ '')'')
           else Some (''['' @ stamp @ ''] [event #'' @ number @ ''] '' @ join '' '' (event_details dbg record')))"

section \<open>Nothing secret is persisted\<close>

lemma sublist_reason_new:
  "reason_new v = Inr r \<Longrightarrow> sublist (reason_as_str r) v"
  using trim_sublist by (simp add: reason_new_str)

lemma redacted_reason_text: "redacted_reason = Reason ''[REDACTED]''"
  by (code_simp)

lemma sanitized_reason_cases:
  "jr_reason (sanitized ks r) = redacted_reason
   \<or> sublist (reason_as_str (jr_reason (sanitized ks r)))
       (bounded_text (redact_known_secrets (reason_as_str (jr_reason r)) ks) reason_max_bytes)"
  by (auto simp: sanitized_def dest: sublist_reason_new split: sum.split)

lemma redact_none [simp]: "redact_known_secrets s [] = s"
  by (simp add: redact_known_secrets_def)

lemma token_not_redaction:
  assumes "list_all is_token_byte token" and "token \<noteq> []"
  shows "\<not> sublist token ''[REDACTED]''"
  using set_mono_sublist [of token "''[REDACTED]''"] token_chars(1) [OF assms(1)] assms(2)
  by (metis Int_absorb2 set_empty)

text \<open>A token in a sanitized text was in the redacted one.\<close>

lemma sanitized_from_redacted:
  assumes tok: "list_all is_token_byte token" "token \<noteq> []"
  shows "sublist token (reason_as_str (jr_reason (sanitized ks r))) \<Longrightarrow>
      sublist token (redact_known_secrets (reason_as_str (jr_reason r)) ks)"
    and "jr_error_detail (sanitized ks r) = Some d \<Longrightarrow> sublist token d \<Longrightarrow>
      \<exists>d0. jr_error_detail r = Some d0 \<and> sublist token (redact_known_secrets d0 ks)"
proof -
  note chars = token_chars(2,3) [OF tok(1)]
  assume sub: "sublist token (reason_as_str (jr_reason (sanitized ks r)))"
  have "\<not> sublist token (reason_as_str redacted_reason)"
    using token_not_redaction [OF tok] by (simp add: redacted_reason_text)
  then have "jr_reason (sanitized ks r) \<noteq> redacted_reason" using sub by auto
  then have "sublist token
      (bounded_text (redact_known_secrets (reason_as_str (jr_reason r)) ks) reason_max_bytes)"
    using sanitized_reason_cases [of ks r] sublist_order.order_trans [OF sub] by blast
  then show "sublist token (redact_known_secrets (reason_as_str (jr_reason r)) ks)"
    by (rule sublist_bounded_text [OF tok(2) chars(1)])
next
  note chars = token_chars(2,3) [OF tok(1)]
  assume "jr_error_detail (sanitized ks r) = Some d" and "sublist token d"
  then show "\<exists>d0. jr_error_detail r = Some d0 \<and> sublist token (redact_known_secrets d0 ks)"
    using sublist_bounded_error_detail [OF tok(2) chars] by (auto simp: sanitized_def)
qed

text \<open>Sanitizing again without secrets brings nothing back.\<close>

lemma sanitized_twice:
  assumes tok: "list_all is_token_byte token" "token \<noteq> []"
  shows "\<not> sublist token (reason_as_str (jr_reason (sanitized [] (sanitized [token] r))))
    \<and> (\<forall>d. jr_error_detail (sanitized [] (sanitized [token] r)) = Some d \<longrightarrow> \<not> sublist token d)"
  using sanitized_from_redacted [OF tok, of "[]" "sanitized [token] r"]
    sanitized_from_redacted [OF tok, of "[token]" r] redact_one [OF tok]
  unfolding redact_none by blast

end
