(* ===== verification/Journal.thy ===== *)
theory Journal
  imports Journal_Record
begin

text \<open>
  \<open>src/src/adapters/journal.rs\<close>: the append-only journal and the control that records every
  mutation in it. The journal's state is the bytes of its file, the next sequence number and the
  faults the file system will have on the coming appends (none when the list is used up). The
  JSON library and the reading of a line are the record \<open>journal_host\<close>. The critical sections
  contain no panic, so the locks are never poisoned.
\<close>

section \<open>The file\<close>

datatype ('io, 'je) file_journal_error =
  FjCreateDirectory 'io | FjOpen 'io | FjRead 'io | FjWrite 'io | FjParse nat 'je
| FjSerialize 'je | FjNonMonotonic u64 | FjLockPoisoned

record ('io, 'je) journal_host =
  jh_path :: string
  jh_encode :: "journal_record \<Rightarrow> 'je + string"
  jh_decode :: "string \<Rightarrow> 'je + journal_record"
  jh_line_error :: "string \<Rightarrow> 'io option"
  jh_show_io :: "'io \<Rightarrow> string"
  jh_show_json :: "'je \<Rightarrow> string"

datatype 'io disk_fault = OpenFault 'io | WriteFault nat 'io

record 'io journal_state =
  js_file :: string
  js_next_sequence :: u64
  js_faults :: "'io disk_fault option list"

fun show_file_journal_error ::
  "('io, 'je) journal_host \<Rightarrow> ('io, 'je) file_journal_error \<Rightarrow> string" where
  "show_file_journal_error h (FjCreateDirectory source) =
     ''failed to create journal directory '' @ jh_path h @ '': '' @ jh_show_io h source"
| "show_file_journal_error h (FjOpen source) =
     ''failed to open journal '' @ jh_path h @ '': '' @ jh_show_io h source"
| "show_file_journal_error h (FjRead source) =
     ''failed to read journal '' @ jh_path h @ '': '' @ jh_show_io h source"
| "show_file_journal_error h (FjWrite source) =
     ''failed to write journal '' @ jh_path h @ '': '' @ jh_show_io h source"
| "show_file_journal_error h (FjParse line source) =
     ''invalid journal record at '' @ jh_path h @ '':'' @ decimal line @ '': '' @ jh_show_json h source"
| "show_file_journal_error h (FjSerialize source) =
     ''failed to serialize journal: '' @ jh_show_json h source"
| "show_file_journal_error h (FjNonMonotonic sequence) =
     ''journal '' @ jh_path h @ '' has non-monotonic sequence '' @ decimal (unat sequence)"
| "show_file_journal_error h FjLockPoisoned = ''journal lock is poisoned''"

fun parse_lines ::
  "('io, 'je) journal_host \<Rightarrow> nat \<Rightarrow> string list \<Rightarrow> ('io, 'je) file_journal_error + journal_record list" where
  "parse_lines h i [] = Inr []"
| "parse_lines h i (l # ls) =
     (case jh_line_error h l of
        Some source \<Rightarrow> Inl (FjRead source)
      | None \<Rightarrow>
          if trim l = [] then parse_lines h (i + 1) ls
          else (case jh_decode h l of
              Inl source \<Rightarrow> Inl (FjParse (i + 1) source)
            | Inr r \<Rightarrow> (case parse_lines h (i + 1) ls of Inl e \<Rightarrow> Inl e | Inr rs \<Rightarrow> Inr (r # rs))))"

definition read_records ::
  "('io, 'je) journal_host \<Rightarrow> 'io option \<Rightarrow> string \<Rightarrow> ('io, 'je) file_journal_error + journal_record list" where
  "read_records h fault content = (case fault of
      Some source \<Rightarrow> Inl (FjOpen source)
    | None \<Rightarrow> parse_lines h 0 (file_lines [] content))"

fun check_monotonic :: "u64 \<Rightarrow> journal_record list \<Rightarrow> ('io, 'je) file_journal_error + u64" where
  "check_monotonic previous [] = Inr previous"
| "check_monotonic previous (r # rs) =
     (if jr_sequence r \<le> previous then Inl (FjNonMonotonic (jr_sequence r))
      else check_monotonic (jr_sequence r) rs)"

definition max_word :: "'a::len word \<Rightarrow> 'a word \<Rightarrow> 'a word" where
  "max_word a b = (if a \<le> b then b else a)"

text \<open>
  \<open>FileJournal::open\<close> on a file with this content (empty when it was just created); the faults
  are those of creating the directory, of opening for append and of opening for reading.
\<close>

definition journal_open ::
  "('io, 'je) journal_host \<Rightarrow> 'io option \<Rightarrow> 'io option \<Rightarrow> 'io option \<Rightarrow> string \<Rightarrow>
     'io disk_fault option list \<Rightarrow> ('io, 'je) file_journal_error + 'io journal_state" where
  "journal_open h mkdir create opened content faults =
     (case mkdir of
        Some source \<Rightarrow> Inl (FjCreateDirectory source)
      | None \<Rightarrow>
          (case create of
             Some source \<Rightarrow> Inl (FjOpen source)
           | None \<Rightarrow>
               (case read_records h opened content of
                  Inl e \<Rightarrow> Inl e
                | Inr records \<Rightarrow>
                    (case check_monotonic 0 records of
                       Inl e \<Rightarrow> Inl e
                     | Inr previous \<Rightarrow>
                         Inr \<lparr>js_file = content,
                           js_next_sequence = max_word (saturating_add previous 1) 1,
                           js_faults = faults\<rparr>))))"

definition next_fault :: "'io journal_state \<Rightarrow> 'io disk_fault option" where
  "next_fault js = (case js_faults js of [] \<Rightarrow> None | f # _ \<Rightarrow> f)"

definition to_json_line ::
  "('io, 'je) journal_host \<Rightarrow> string list \<Rightarrow> journal_record \<Rightarrow> 'je + string" where
  "to_json_line h known_secrets r = (case jh_encode h (sanitized known_secrets r) of
      Inl e \<Rightarrow> Inl e | Inr text \<Rightarrow> Inr (text @ [CHR 0x0A]))"

text \<open>
  \<open>FileJournal::append\<close>. A failed write or sync may still have left a part of the line, or all of
  it, in the file; the sequence number advances only after a success.
\<close>

definition journal_append ::
  "('io, 'je) journal_host \<Rightarrow> string list \<Rightarrow> journal_record \<Rightarrow>
     ('io journal_state, journal_record, ('io, 'je) file_journal_error) op" where
  "journal_append h secrets r js =
     (let r = sanitized secrets (r\<lparr>jr_sequence := js_next_sequence js\<rparr>) in
      case to_json_line h [] r of
        Inl e \<Rightarrow> (Err (FjSerialize e), js)
      | Inr line \<Rightarrow>
          (let fault = next_fault js; js = js\<lparr>js_faults := tl (js_faults js)\<rparr> in
           case fault of
             Some (OpenFault source) \<Rightarrow> (Err (FjOpen source), js)
           | Some (WriteFault n source) \<Rightarrow>
               (Err (FjWrite source), js\<lparr>js_file := js_file js @ take n line\<rparr>)
           | None \<Rightarrow>
               (Ok r, js\<lparr>js_file := js_file js @ line,
                  js_next_sequence := saturating_add (js_next_sequence js) 1\<rparr>)))"

definition max_event_limit :: nat where
  "max_event_limit = 200"

definition journal_events ::
  "('io, 'je) journal_host \<Rightarrow> 'io option \<Rightarrow> u64 \<Rightarrow> nat \<Rightarrow> 'io journal_state \<Rightarrow>
     ('io, 'je) file_journal_error + journal_record list" where
  "journal_events h fault after limit js = (case read_records h fault (js_file js) of
      Inl e \<Rightarrow> Inl e
    | Inr records \<Rightarrow> Inr (take (max 1 (min limit max_event_limit))
        (filter (\<lambda>r. jr_sequence r > after) records)))"

section \<open>The audited control\<close>

text \<open>
  What \<open>AuditedControl\<close> holds besides the journal: the fixed parameters, the configuration
  fingerprint, which a reconciliation replaces, and what it has printed (on the error stream or
  not). The wall clock is read off the state of the control it wraps.
\<close>

record ('s, 'io, 'je, 't) audit_config =
  ac_host :: "('io, 'je) journal_host"
  ac_secrets :: "string list"
  ac_instance_id :: string
  ac_console_events :: "console_events option"
  ac_console_timezone :: display_timezone
  ac_clock :: "'s \<Rightarrow> nat"
  ac_chrono :: "'t chrono"
  ac_debug :: "string \<Rightarrow> string"

record 'io audit_state =
  as_journal :: "'io journal_state"
  as_fingerprint :: string
  as_console :: "(bool \<times> string) list"

definition set_config_fingerprint :: "string \<Rightarrow> 'io audit_state \<Rightarrow> 'io audit_state" where
  "set_config_fingerprint fingerprint au = au\<lparr>as_fingerprint := fingerprint\<rparr>"

definition publish_console_event ::
  "('s, 'io, 'je, 't) audit_config \<Rightarrow> journal_record \<Rightarrow> 'io audit_state \<Rightarrow> 'io audit_state" where
  "publish_console_event cfg r au = (case ac_console_events cfg of
      None \<Rightarrow> au
    | Some mode \<Rightarrow>
        (case format_console_event (ac_chrono cfg) (ac_debug cfg) r mode (ac_console_timezone cfg) of
           None \<Rightarrow> au
         | Some line \<Rightarrow> au\<lparr>as_console := as_console au @ [(jr_result r = JrFailure, line)]\<rparr>))"

definition on_inner :: "('s, 'a, 'e) op \<Rightarrow> ('s \<times> 'u, 'a, 'e) op" where
  "on_inner m = (\<lambda>(s, u). case m s of (out, s') \<Rightarrow> (out, (s', u)))"

text \<open>The result of an operation as a value; a panic still unwinds.\<close>

definition attempt_op :: "('s, 'a, 'e) op \<Rightarrow> ('s, 'e + 'a, 'e) op" where
  "attempt_op m = (\<lambda>s. case m s of
      (Ok a, s') \<Rightarrow> (Ok (Inr a), s')
    | (Err e, s') \<Rightarrow> (Ok (Inl e), s')
    | (Panic, s') \<Rightarrow> (Panic, s'))"

text \<open>Append a record and show it; \<open>context\<close> is the message of a failure.\<close>

definition append_and_publish ::
  "('s, 'io, 'je, 't) audit_config \<Rightarrow> string \<Rightarrow> journal_record \<Rightarrow>
     ('s \<times> 'io audit_state, unit, control_error) op" where
  "append_and_publish cfg failure r = (\<lambda>(s, au).
     case journal_append (ac_host cfg) (ac_secrets cfg) r (as_journal au) of
       (Ok r', js) \<Rightarrow> (Ok (), (s, publish_console_event cfg r' (au\<lparr>as_journal := js\<rparr>)))
     | (Err e, js) \<Rightarrow>
         (Err (ce_internal (failure @ '': '' @ show_file_journal_error (ac_host cfg) e)),
          (s, au\<lparr>as_journal := js\<rparr>))
     | (Panic, js) \<Rightarrow> (Panic, (s, au\<lparr>as_journal := js\<rparr>)))"

fun journal_action_of :: "control_action \<Rightarrow> journal_action" where
  "journal_action_of CtlStart = JaStart"
| "journal_action_of CtlStop = JaStop"
| "journal_action_of CtlRestart = JaRestart"

fun category_of_kind :: "control_error_kind \<Rightarrow> error_category" where
  "category_of_kind KindUnauthorized = CatUnauthorized"
| "category_of_kind KindPortConflictExternal = CatPortConflictExternal"
| "category_of_kind KindSpawnFailed = CatSpawnFailed"
| "category_of_kind KindHealthFailed = CatHealthFailed"
| "category_of_kind KindShutdownTimeout = CatShutdownTimeout"
| "category_of_kind KindOwnershipLost = CatOwnershipLost"
| "category_of_kind KindServiceNotFound = CatSupervisorInternalError"
| "category_of_kind KindInternal = CatSupervisorInternalError"

fun outcome_category :: "control_error + mutation_result \<Rightarrow> journal_result \<times> error_category option" where
  "outcome_category (Inr res) =
     (JrSuccess, (case mr_outcome res of
        MutAlreadyRunning \<Rightarrow> Some CatAlreadyRunning
      | MutAlreadyStopped \<Rightarrow> Some CatAlreadyStopped
      | _ \<Rightarrow> None))"
| "outcome_category (Inl e) = (JrFailure, Some (category_of_kind (ce_kind e)))"

definition find_service :: "string \<Rightarrow> service_snapshot list \<Rightarrow> service_snapshot option" where
  "find_service sid snaps = find (\<lambda>s. ss_id s = sid) snaps"

definition unix_ms_stamp :: "nat \<Rightarrow> string" where
  "unix_ms_stamp now = ''unix-ms:'' @ decimal now"

definition mutation_record ::
  "('s, 'io, 'je, 't) audit_config \<Rightarrow> control_action \<Rightarrow> string \<Rightarrow> actor \<Rightarrow> reason \<Rightarrow>
     service_snapshot option \<Rightarrow> service_snapshot option \<Rightarrow> control_error + mutation_result \<Rightarrow>
     nat \<Rightarrow> string \<Rightarrow> journal_record" where
  "mutation_record cfg action sid a r before after res now fingerprint =
     \<lparr>jr_sequence = 0, jr_timestamp = unix_ms_stamp now,
      jr_supervisor_instance_id = ac_instance_id cfg, jr_service_id = sid,
      jr_action = journal_action_of action, jr_actor = a, jr_reason = r,
      jr_previous_state = (case before of None \<Rightarrow> Stopped | Some s \<Rightarrow> ss_lifecycle s),
      jr_resulting_state = (case (if after = None then before else after) of
          None \<Rightarrow> Stopped | Some s \<Rightarrow> ss_lifecycle s),
      jr_owned_pids_before = (case before of None \<Rightarrow> [] | Some s \<Rightarrow> ss_owned_pids s),
      jr_owned_pids_after = (case after of None \<Rightarrow> [] | Some s \<Rightarrow> ss_owned_pids s),
      jr_result = fst (outcome_category res), jr_error_category = snd (outcome_category res),
      jr_error_detail = (case res of
          Inl e \<Rightarrow> Some (bounded_error_detail (ce_message e)) | Inr _ \<Rightarrow> None),
      jr_exit_code = None, jr_automatic_restart_planned = None, jr_deferred_restart_planned = None,
      jr_shutdown = (case res of Inl _ \<Rightarrow> None | Inr m \<Rightarrow> mr_shutdown m),
      jr_config_fingerprint = fingerprint\<rparr>"

definition audited_mutate ::
  "('s, 'io, 'je, 't) audit_config \<Rightarrow> 's control \<Rightarrow> control_action \<Rightarrow> string \<Rightarrow> actor \<Rightarrow> reason \<Rightarrow>
     ('s \<times> 'io audit_state, mutation_result, control_error) op" where
  "audited_mutate cfg ctl action sid a r =
     bind_op (on_inner (ctl_snapshots ctl)) (\<lambda>snaps.
     bind_op (attempt_op (on_inner (ctl_mutate ctl action sid a r))) (\<lambda>res.
     bind_op (attempt_op (on_inner (ctl_snapshots ctl))) (\<lambda>later.
     bind_op (get_op (\<lambda>(s, au). (ac_clock cfg s, as_fingerprint au))) (\<lambda>(now, fingerprint).
     seq_op
       (append_and_publish cfg ''failed to persist lifecycle journal''
          (mutation_record cfg action sid a r (find_service sid snaps)
             (case later of Inl _ \<Rightarrow> None | Inr services \<Rightarrow> find_service sid services)
             res now fingerprint))
       (lift_sum res)))))"

definition audited_control ::
  "('s, 'io, 'je, 't) audit_config \<Rightarrow> 's control \<Rightarrow> ('s \<times> 'io audit_state) control" where
  "audited_control cfg ctl =
     \<lparr>ctl_snapshots = on_inner (ctl_snapshots ctl),
      ctl_preflight = (\<lambda>sids. on_inner (ctl_preflight ctl sids)),
      ctl_mutate = audited_mutate cfg ctl\<rparr>"

section \<open>Process exits\<close>

fun show_reason_error :: "reason_error \<Rightarrow> string" where
  "show_reason_error ReasonEmpty = ''lifecycle reason must not be empty''"
| "show_reason_error (ReasonTooLong actual maximum) =
     ''lifecycle reason is '' @ decimal actual @ '' bytes; maximum is '' @ decimal maximum"

definition exit_text :: "process_exit_event \<Rightarrow> string" where
  "exit_text event = (case pee_exit_code event of
      None \<Rightarrow> ''without a numeric exit code'' | Some code \<Rightarrow> ''with code '' @ show_i32 code)"

definition recovery_text :: "process_exit_event \<Rightarrow> string" where
  "recovery_text event =
     (if pee_deferred_restart_planned event then ''deferred restart planned after termination completes''
      else if pee_automatic_restart_planned event then ''automatic on-failure restart planned''
      else ''no automatic restart planned'')"

definition exit_record ::
  "('s, 'io, 'je, 't) audit_config \<Rightarrow> process_exit_event \<Rightarrow> reason \<Rightarrow> nat \<Rightarrow> string \<Rightarrow> journal_record" where
  "exit_record cfg event r now fingerprint =
     (let completed = (pee_previous_state event = TerminationPending) in
     \<lparr>jr_sequence = 0, jr_timestamp = unix_ms_stamp now,
      jr_supervisor_instance_id = ac_instance_id cfg, jr_service_id = pee_service_id event,
      jr_action = JaProcessExit, jr_actor = Recovery, jr_reason = r,
      jr_previous_state = pee_previous_state event,
      jr_resulting_state = (if completed then Stopped else Failed),
      jr_owned_pids_before = pee_owned_pids_before event, jr_owned_pids_after = [],
      jr_result = (if completed then JrSuccess else JrFailure),
      jr_error_category = (if completed then None else Some CatProcessExited),
      jr_error_detail = (if completed then None
         else Some (bounded_error_detail (''owned process tree exited '' @ exit_text event))),
      jr_exit_code = pee_exit_code event,
      jr_automatic_restart_planned = Some (pee_automatic_restart_planned event),
      jr_deferred_restart_planned = Some (pee_deferred_restart_planned event),
      jr_shutdown = None, jr_config_fingerprint = fingerprint\<rparr>)"

definition record_process_exit ::
  "('s, 'io, 'je, 't) audit_config \<Rightarrow> process_exit_event \<Rightarrow>
     ('s \<times> 'io audit_state, unit, control_error) op" where
  "record_process_exit cfg event =
     (case reason_new (''owned process tree exited '' @ exit_text event @ ''; '' @ recovery_text event) of
        Inl e \<Rightarrow> fail_op (ce_internal (''invalid process-exit reason: '' @ show_reason_error e))
      | Inr r \<Rightarrow>
          bind_op (get_op (\<lambda>(s, au). (ac_clock cfg s, as_fingerprint au))) (\<lambda>(now, fingerprint).
          append_and_publish cfg ''failed to persist process-exit journal''
            (exit_record cfg event r now fingerprint)))"

end
