(* ===== verification/Journal_Laws.thy ===== *)
theory Journal_Laws
  imports Journal
begin

text \<open>
  What the journal promises: it is a list of records with increasing sequence numbers that a
  later start reads back, it never stores the runtime token, and a control wrapped by it still
  honours the contract of a control. Two theorems show where it falls short.
\<close>

section \<open>Lines\<close>

definition terminated :: "string \<Rightarrow> bool" where
  "terminated content \<longleftrightarrow> content = [] \<or> last content = newline"

lemma file_lines_line:
  "newline \<notin> set t \<Longrightarrow> file_lines cur (t @ newline # cs) = strip_cr (cur @ t) # file_lines [] cs"
  by (induction t arbitrary: cur) auto

lemma file_lines_split:
  "file_lines cur (f @ newline # cs) = file_lines cur (f @ [newline]) @ file_lines [] cs"
  by (induction f arbitrary: cur) auto

lemma file_lines_append:
  assumes "terminated f" and "newline \<notin> set t"
  shows "file_lines [] (f @ t @ [newline]) = file_lines [] f @ [strip_cr t]"
proof (cases "f = []")
  case True
  then show ?thesis using file_lines_line [OF assms(2), of "[]" "[]"] by simp
next
  case False
  then obtain g where f: "f = g @ [newline]"
    using assms(1) by (metis append_butlast_last_id terminated_def)
  show ?thesis
    using file_lines_split [of "[]" g "t @ [newline]"] file_lines_line [OF assms(2), of "[]" "[]"]
    by (simp add: f)
qed

lemma parse_lines_append:
  "parse_lines h i (ls @ ms) = (case parse_lines h i ls of
      Inl e \<Rightarrow> Inl e
    | Inr rs \<Rightarrow> (case parse_lines h (i + length ls) ms of Inl e \<Rightarrow> Inl e | Inr qs \<Rightarrow> Inr (rs @ qs)))"
  by (induction ls arbitrary: i) (auto split: sum.splits option.splits)

lemma check_monotonic_append:
  "check_monotonic p (rs @ [r]) = (case check_monotonic p rs of
      Inl e \<Rightarrow> Inl e
    | Inr q \<Rightarrow> if jr_sequence r \<le> q then Inl (FjNonMonotonic (jr_sequence r)) else Inr (jr_sequence r))"
  by (induction rs arbitrary: p) auto

section \<open>The journal as a list of records\<close>

text \<open>
  What the journal needs of the JSON library: an encoded record is one line that can be read and
  decodes to the record.
\<close>

definition codec_ok :: "('io, 'je) journal_host \<Rightarrow> bool" where
  "codec_ok h \<longleftrightarrow> (\<forall>r t. jh_encode h r = Inr t \<longrightarrow> newline \<notin> set t \<and> strip_cr t = t \<and> trim t \<noteq> []
     \<and> jh_line_error h t = None \<and> jh_decode h t = Inr r)"

definition journal_records ::
  "('io, 'je) journal_host \<Rightarrow> 'io journal_state \<Rightarrow> ('io, 'je) file_journal_error + journal_record list" where
  "journal_records h js = read_records h None (js_file js)"

definition journal_ok :: "('io, 'je) journal_host \<Rightarrow> 'io journal_state \<Rightarrow> bool" where
  "journal_ok h js \<longleftrightarrow> terminated (js_file js) \<and>
     (\<exists>rs q. journal_records h js = Inr rs
       \<and> check_monotonic 0 rs = (Inr q :: ('io, 'je) file_journal_error + u64)
       \<and> js_next_sequence js = max_word (saturating_add q 1) 1)"

lemma journal_ok_reopens:
  "journal_ok h js \<Longrightarrow> journal_open h None None None (js_file js) faults = Inr (js\<lparr>js_faults := faults\<rparr>)"
  by (auto simp: journal_ok_def journal_open_def journal_records_def)

lemma journal_open_ok:
  "journal_open h mkdir create opened content faults = Inr js \<Longrightarrow> terminated content \<Longrightarrow> journal_ok h js"
  by (auto simp: journal_open_def journal_ok_def journal_records_def read_records_def
      split: option.splits sum.splits)

lemma records_after_line:
  assumes "codec_ok h" and "terminated (js_file js)" and "journal_records h js = Inr rs"
    and "jh_encode h r = Inr t"
  shows "journal_records h (js\<lparr>js_file := js_file js @ t @ [newline], js_next_sequence := n, js_faults := fs\<rparr>)
    = Inr (rs @ [r])"
  using assms
  by (auto simp: journal_records_def read_records_def codec_ok_def file_lines_append parse_lines_append)

lemma append_Ok:
  assumes "journal_append h secrets r js = (Ok r', js')"
  shows "r' = sanitized secrets (r\<lparr>jr_sequence := js_next_sequence js\<rparr>) \<and>
    (\<exists>t. jh_encode h (sanitized [] r') = Inr t
      \<and> js' = js\<lparr>js_file := js_file js @ t @ [newline],
          js_next_sequence := saturating_add (js_next_sequence js) 1, js_faults := tl (js_faults js)\<rparr>)"
  using assms
  by (auto simp: journal_append_def to_json_line_def Let_def split: sum.splits option.splits disk_fault.splits)

lemma sanitized_sequence [simp]: "jr_sequence (sanitized ks r) = jr_sequence r"
  by (simp add: sanitized_def)

lemma max_word_ge: "b \<le> max_word a b" "a \<le> max_word a b"
  by (auto simp: max_word_def)

lemma max_word_left: "(b :: u64) \<le> a \<Longrightarrow> max_word a b = a"
  by (simp add: max_word_def)

lemma next_above:
  assumes "n = max_word (saturating_add q 1) (1 :: u64)" and "n \<noteq> - 1"
  shows "q < n" and "max_word (saturating_add n 1) 1 = saturating_add n 1"
proof -
  have "q \<noteq> - 1"
  proof
    assume "q = - 1"
    then have "- 1 \<le> n" using assms(1) saturating_add_mono [of q 1] max_word_ge by (metis order_trans)
    then show False using assms(2) by (simp add: word_order.extremum_unique)
  qed
  then have "q < saturating_add q 1" by (rule saturating_add_less) simp
  then show "q < n" using assms(1) max_word_ge by (metis order_less_le_trans)
  have "1 \<le> n" by (simp add: assms(1) max_word_ge)
  then show "max_word (saturating_add n 1) 1 = saturating_add n 1"
    using saturating_add_mono order_trans by (blast intro: max_word_left)
qed

text \<open>An append that succeeds adds one record, with the next number, to those that can be read.\<close>

lemma append_extends:
  assumes "codec_ok h" and "journal_ok h js" and "journal_append h secrets r js = (Ok r', js')"
  shows "\<exists>rs. journal_records h js = Inr rs \<and> journal_records h js' = Inr (rs @ [sanitized [] r'])
    \<and> jr_sequence r' = js_next_sequence js"
    and "js_next_sequence js \<noteq> - 1 \<Longrightarrow> journal_ok h js'"
proof -
  obtain t where r': "jr_sequence r' = js_next_sequence js" and t: "jh_encode h (sanitized [] r') = Inr t"
    and js': "js' = js\<lparr>js_file := js_file js @ t @ [newline],
          js_next_sequence := saturating_add (js_next_sequence js) 1, js_faults := tl (js_faults js)\<rparr>"
    using append_Ok [OF assms(3)] by auto
  obtain rs q where rs: "terminated (js_file js)" "journal_records h js = Inr rs"
    "check_monotonic 0 rs = (Inr q :: ('a, 'b) file_journal_error + u64)"
    "js_next_sequence js = max_word (saturating_add q 1) 1"
    using assms(2) unfolding journal_ok_def by blast
  have rec: "journal_records h js' = Inr (rs @ [sanitized [] r'])"
    unfolding js' by (rule records_after_line [OF assms(1) rs(1,2) t])
  then show "\<exists>rs. journal_records h js = Inr rs \<and> journal_records h js' = Inr (rs @ [sanitized [] r'])
    \<and> jr_sequence r' = js_next_sequence js" using rs r' by blast
  assume n: "js_next_sequence js \<noteq> - 1"
  note above = next_above [OF rs(4) n]
  have "check_monotonic 0 (rs @ [sanitized [] r']) = (Inr (js_next_sequence js) :: ('a, 'b) file_journal_error + u64)"
    using above(1) rs(3) r' by (simp add: check_monotonic_append not_le)
  moreover have "js_next_sequence js' = max_word (saturating_add (js_next_sequence js) 1) 1"
    by (simp add: js' above(2))
  moreover have "terminated (js_file js')" by (simp add: js' terminated_def)
  ultimately show "journal_ok h js'" using rec unfolding journal_ok_def by blast
qed

text \<open>A history of appends, whatever each gives.\<close>

fun journal_appends ::
  "('io, 'je) journal_host \<Rightarrow> string list \<Rightarrow> journal_record list \<Rightarrow> 'io journal_state \<Rightarrow> 'io journal_state" where
  "journal_appends h secrets [] js = js"
| "journal_appends h secrets (r # rs) js = journal_appends h secrets rs (snd (journal_append h secrets r js))"

definition no_torn_write :: "'io journal_state \<Rightarrow> bool" where
  "no_torn_write js \<longleftrightarrow> (\<forall>n e. Some (WriteFault n e) \<notin> set (js_faults js))"

lemma append_other:
  assumes "no_torn_write js" and "journal_append h secrets r js = (out, js')" and "\<forall>r'. out \<noteq> Ok r'"
  shows "js_file js' = js_file js \<and> js_next_sequence js' = js_next_sequence js"
proof -
  have "next_fault js \<noteq> Some (WriteFault n e)" for n e
  proof
    assume "next_fault js = Some (WriteFault n e)"
    then have "Some (WriteFault n e) \<in> set (js_faults js)" by (auto simp: next_fault_def split: list.splits)
    then show False using assms(1) unfolding no_torn_write_def by blast
  qed
  then show ?thesis
    using assms(2,3)
    by (auto simp: journal_append_def Let_def split: sum.splits option.splits disk_fault.splits)
qed

lemma append_faults: "no_torn_write js \<Longrightarrow> no_torn_write (snd (journal_append h secrets r js))"
  by (cases "js_faults js")
    (auto simp: journal_append_def Let_def no_torn_write_def split: sum.splits option.splits disk_fault.splits)

lemma journal_ok_file:
  "js_file js' = js_file js \<Longrightarrow> js_next_sequence js' = js_next_sequence js \<Longrightarrow> journal_ok h js \<Longrightarrow> journal_ok h js'"
  by (simp add: journal_ok_def journal_records_def)

lemma append_step:
  assumes "codec_ok h" and "journal_ok h js" and "no_torn_write js" and "unat (js_next_sequence js) + 1 < 2 ^ 64"
  shows "journal_ok h (snd (journal_append h secrets r js))
    \<and> unat (js_next_sequence (snd (journal_append h secrets r js))) \<le> unat (js_next_sequence js) + 1"
proof -
  obtain out js' where run: "journal_append h secrets r js = (out, js')" by (cases "journal_append h secrets r js")
  show ?thesis
  proof (cases "\<exists>r'. out = Ok r'")
    case True
    then obtain r' where out: "journal_append h secrets r js = (Ok r', js')" using run by auto
    have "js_next_sequence js \<noteq> - 1" using assms(4) unat_minus_1 [where 'a = 64] by auto
    then show ?thesis
      using append_extends(2) [OF assms(1,2) out] append_Ok [OF out]
      by (auto simp: run unat_saturating_add)
  next
    case False
    then show ?thesis
      using append_other [OF assms(3) run] journal_ok_file [OF _ _ assms(2)] by (auto simp: run)
  qed
qed

lemma journal_appends_ok:
  assumes "codec_ok h"
  shows "journal_ok h js \<Longrightarrow> no_torn_write js \<Longrightarrow> unat (js_next_sequence js) + length rs < 2 ^ 64 \<Longrightarrow>
    journal_ok h (journal_appends h secrets rs js)"
proof (induction rs arbitrary: js)
  case (Cons r rs)
  let ?js = "snd (journal_append h secrets r js)"
  have "unat (js_next_sequence js) + 1 < 2 ^ 64" using Cons.prems(3) by simp
  from append_step [OF assms Cons.prems(1,2) this, of secrets r]
  have "journal_ok h ?js" and "unat (js_next_sequence ?js) + length rs < 2 ^ 64"
    using Cons.prems(3) by simp_all
  then show ?case using Cons.IH append_faults [OF Cons.prems(2), of h secrets r] by simp
qed simp

section \<open>Pages of records\<close>

abbreviation ascending :: "journal_record list \<Rightarrow> bool" where
  "ascending \<equiv> sorted_wrt (\<lambda>a b. jr_sequence a < jr_sequence b)"

lemma check_monotonic_sorted:
  "check_monotonic p rs = Inr q \<Longrightarrow> ascending rs \<and> (\<forall>r \<in> set rs. p < jr_sequence r)"
proof (induction rs arbitrary: p)
  case (Cons r rs)
  then have "p < jr_sequence r" "ascending rs" "\<forall>x \<in> set rs. jr_sequence r < jr_sequence x"
    by (auto split: if_splits)
  then show ?case by auto
qed simp

lemma filter_after_last:
  assumes "ascending rs" and "0 < n" and "n \<le> length rs"
  shows "filter (\<lambda>r. jr_sequence (last (take n rs)) < jr_sequence r) rs = drop n rs"
proof -
  let ?c = "jr_sequence (last (take n rs))"
  have srt: "ascending (take n rs @ drop n rs)" using assms(1) by simp
  have "last (take n rs) \<in> set (take n rs)" using assms(2,3) by (intro last_in_set) auto
  then have later: "\<forall>r \<in> set (drop n rs). ?c < jr_sequence r"
    using srt unfolding sorted_wrt_append by blast
  obtain ys y where ys: "take n rs = ys @ [y]" using assms(2,3) by (metis length_greater_0_conv rev_exhaust take_eq_Nil2 less_numeral_extra(3) list.size(3) not_gr_zero leD)
  then have "\<forall>r \<in> set (take n rs). \<not> ?c < jr_sequence r"
    using srt by (auto simp: ys sorted_wrt_append)
  then have "filter (\<lambda>r. ?c < jr_sequence r) (take n rs @ drop n rs) = drop n rs"
    using later by (simp add: filter_empty_conv filter_id_conv del: append_take_drop_id)
  then show ?thesis by simp
qed

lemma events_page:
  assumes "journal_ok h js" and "journal_events h None after limit js = Inr page"
  shows "\<exists>rs. journal_records h js = Inr rs \<and> ascending rs
    \<and> page = take (max 1 (min limit 200)) (filter (\<lambda>r. after < jr_sequence r) rs)"
  using assms check_monotonic_sorted
  by (auto simp: journal_events_def journal_ok_def journal_records_def max_event_limit_def split: sum.splits)

lemma take_min_length: "take (min n (length xs)) xs = take n xs"
  by (cases "n \<le> length xs") auto

lemma events_next_page:
  assumes "journal_ok h js" and "journal_events h None after limit js = Inr page" and "page \<noteq> []"
    and "journal_records h js = Inr rs"
  shows "filter (\<lambda>r. after < jr_sequence r) rs = page @ filter (\<lambda>r. jr_sequence (last page) < jr_sequence r) rs"
proof -
  let ?rest = "filter (\<lambda>r. after < jr_sequence r) rs"
  let ?n = "min (max 1 (min limit 200)) (length ?rest)"
  have asc: "ascending rs" and page: "page = take ?n ?rest"
    using events_page [OF assms(1,2)] assms(4) unfolding take_min_length by auto
  have "after < jr_sequence (last page)"
    using in_set_takeD [of "last page" ?n ?rest] last_in_set [OF assms(3)] page by simp
  then have "filter (\<lambda>r. jr_sequence (last page) < jr_sequence r) rs
      = filter (\<lambda>r. jr_sequence (last page) < jr_sequence r) ?rest"
    by (auto intro!: filter_cong)
  also have "\<dots> = drop ?n ?rest"
    unfolding page using filter_after_last [of ?rest ?n] asc assms(3) page
    by (simp add: sorted_wrt_filter)
  finally show ?thesis using page by (metis append_take_drop_id)
qed

section \<open>The audited control honours the contract\<close>

lemma keeps_on_inner [keeps_intro]: "keeps P m \<Longrightarrow> keeps (\<lambda>(s, u). P s) (on_inner m)"
  by (auto simp: keeps_def on_inner_def split: prod.split)

lemma keeps_attempt [keeps_intro]: "keeps I m \<Longrightarrow> keeps I (attempt_op m)"
  by (auto simp: keeps_def attempt_op_def split: prod.split outcome.split)

lemma keeps_append [keeps_intro]: "keeps (\<lambda>(s, u). P s) (append_and_publish cfg failure r)"
  by (auto simp: keeps_def append_and_publish_def split: prod.split outcome.split)

lemma keeps_prod_fun [keeps_intro]: "(\<And>x y. keeps I (f x y)) \<Longrightarrow> keeps I (case p of (x, y) \<Rightarrow> f x y)"
  by (cases p) simp

lemma on_inner_run: "on_inner m (s, u) = (out, (s', u')) \<longleftrightarrow> m s = (out, s') \<and> u' = u"
  by (auto simp: on_inner_def split: prod.split)

locale audited_supervisor = supervisor_control ctl inv view
  for ctl :: "'s control" and inv :: "'s \<Rightarrow> bool" and view :: "'s \<Rightarrow> 'v" +
  fixes cfg :: "('s, 'io, 'je, 't) audit_config"
begin

lemma view_preflight_run: "inv s \<Longrightarrow> ctl_preflight ctl sids s = (out, s') \<Longrightarrow> view s' = view s"
  using view_preflight [of s sids] by simp

end

sublocale audited_supervisor \<subseteq> aud: supervisor_control "audited_control cfg ctl" "\<lambda>(s, u). inv s" "view \<circ> fst"
proof unfold_locales
  show "keeps (\<lambda>(s, u). inv s) (ctl_snapshots (audited_control cfg ctl))"
    by (simp add: audited_control_def keeps_on_inner inv_snapshots)
  show "keeps (\<lambda>(s, u). inv s) (ctl_preflight (audited_control cfg ctl) sids)" for sids
    by (simp add: audited_control_def keeps_on_inner inv_preflight)
  show "keeps (\<lambda>(s, u). inv s) (ctl_mutate (audited_control cfg ctl) action sid a r)" for action sid a r
    unfolding audited_control_def audited_mutate_def control.simps
    by (intro keeps_intro inv_snapshots inv_mutate)
  show "(view \<circ> fst) s' = (view \<circ> fst) s"
    if "case s of (s, u) \<Rightarrow> inv s" and "ctl_snapshots (audited_control cfg ctl) s = (out, s')" and "out \<noteq> Panic"
    for s s' out
    using that view_snapshots by (cases s; cases s') (auto simp: audited_control_def on_inner_run)
  show "(view \<circ> fst) (snd (ctl_preflight (audited_control cfg ctl) sids s)) = (view \<circ> fst) s"
    if "case s of (s, u) \<Rightarrow> inv s" for sids s
    using that view_preflight_run by (cases s) (auto simp: audited_control_def on_inner_def split: prod.split)
  show "distinct (map ss_id snaps)"
    if "case s of (s, u) \<Rightarrow> inv s" and "ctl_snapshots (audited_control cfg ctl) s = (Ok snaps, s')" for s s' snaps
    using that distinct_snapshots by (cases s; cases s') (auto simp: audited_control_def on_inner_run)
qed

interpretation areg: audited_supervisor "registry_control se sn bk" registry_ok_st fst config
  for se sn bk config
  by (rule audited_supervisor.intro) (rule reg.supervisor_control_axioms)

text \<open>The control of the running supervisor: dependencies around the audit around the registry.\<close>

interpretation stack: observed_control
  "audited_control config (registry_control se sn bk)" "\<lambda>(s, u). registry_ok_st s" "fst \<circ> fst" ignore_dependency_plans
  by (rule observed_control.intro [OF areg.aud.supervisor_control_axioms])
    (simp add: observed_control_axioms_def ignore_dependency_plans_def)

lemma attempt_not_Err: "attempt_op m s \<noteq> (Err e, s')"
  by (auto simp: attempt_op_def split: prod.split outcome.split)

lemma attempt_Ok:
  "attempt_op m s = (Ok res, s') \<longleftrightarrow>
     (case res of Inr a \<Rightarrow> m s = (Ok a, s') | Inl e \<Rightarrow> m s = (Err e, s'))"
  by (cases res) (auto simp: attempt_op_def split: prod.split outcome.split)

lemma attempt_on_inner:
  "attempt_op (on_inner n) (t, u) = (case attempt_op n t of (x, t') \<Rightarrow> (map_outcome id x, (t', u)))"
  by (auto simp: attempt_op_def on_inner_def split: prod.split outcome.split)

text \<open>What a mutation through the audit does when the first observation succeeds and nothing panics.\<close>

lemma audited_mutate_runs:
  assumes "audited_mutate cfg ctl action sid a r (s, au) = (out, (s', au'))" and "out \<noteq> Panic"
    and "ctl_snapshots ctl s = (Ok snaps, s1)"
  shows "\<exists>res s2 later. attempt_op (ctl_mutate ctl action sid a r) s1 = (Ok res, s2)
    \<and> attempt_op (ctl_snapshots ctl) s2 = (Ok later, s')
    \<and> seq_op (append_and_publish cfg ''failed to persist lifecycle journal''
         (mutation_record cfg action sid a r (find_service sid snaps)
            (case later of Inl _ \<Rightarrow> None | Inr services \<Rightarrow> find_service sid services)
            res (ac_clock cfg s') (as_fingerprint au)))
       (lift_sum res) (s', au) = (out, (s', au'))"
proof -
  let ?last = "\<lambda>res later (now, fingerprint). seq_op
      (append_and_publish cfg ''failed to persist lifecycle journal''
         (mutation_record cfg action sid a r (find_service sid snaps)
            (case later of Inl _ \<Rightarrow> None | Inr services \<Rightarrow> find_service sid services) res now fingerprint))
      (lift_sum res)"
  have first: "on_inner (ctl_snapshots ctl) (s, au) = (Ok snaps, (s1, au))"
    using assms(3) by (simp add: on_inner_run)
  obtain o2 s2 where m: "attempt_op (ctl_mutate ctl action sid a r) s1 = (o2, s2)" by (metis prod.exhaust)
  then obtain res where o2: "o2 = Ok res"
    using assms(1,2) attempt_not_Err [of "ctl_mutate ctl action sid a r" s1]
    by (cases o2) (auto simp: audited_mutate_def first bind_op_def attempt_on_inner)
  obtain o3 s3 where l: "attempt_op (ctl_snapshots ctl) s2 = (o3, s3)" by (metis prod.exhaust)
  then obtain later where o3: "o3 = Ok later"
    using assms(1,2) attempt_not_Err [of "ctl_snapshots ctl" s2] m o2
    by (cases o3) (auto simp: audited_mutate_def first bind_op_def attempt_on_inner)
  have run: "audited_mutate cfg ctl action sid a r (s, au) =
      ?last res later (ac_clock cfg s3, as_fingerprint au) (s3, au)"
    by (simp add: audited_mutate_def first bind_op_def attempt_on_inner m l o2 o3 get_op_def)
  then have "s' = s3"
    using assms(1) by (auto simp: seq_op_def bind_op_def append_and_publish_def lift_sum_def fail_op_def
        return_op_def split: prod.splits outcome.splits sum.splits)
  then show ?thesis using run assms(1) m l o2 o3 by auto
qed

text \<open>The one record of a mutation, or the failure to write it.\<close>

lemma audited_mutate_record:
  assumes "audited_mutate cfg ctl action sid a r (s, au) = (out, (s', au'))" and "out \<noteq> Panic"
    and "ctl_snapshots ctl s = (Ok snaps, s1)"
  shows "\<exists>res s2 after. attempt_op (ctl_mutate ctl action sid a r) s1 = (Ok res, s2)
    \<and> (let r0 = mutation_record cfg action sid a r (find_service sid snaps) after res
                  (ac_clock cfg s') (as_fingerprint au) in
       case journal_append (ac_host cfg) (ac_secrets cfg) r0 (as_journal au) of
         (Ok r', js) \<Rightarrow> as_journal au' = js \<and> out = (case res of Inl e \<Rightarrow> Err e | Inr m \<Rightarrow> Ok m)
       | (Err e, js) \<Rightarrow> as_journal au' = js
           \<and> (\<exists>detail. out = Err (ce_internal (''failed to persist lifecycle journal: '' @ detail)))
       | (Panic, js) \<Rightarrow> False)"
proof -
  obtain res s2 and later :: "control_error + service_snapshot list"
    where runs: "attempt_op (ctl_mutate ctl action sid a r) s1 = (Ok res, s2)"
    and last: "seq_op (append_and_publish cfg ''failed to persist lifecycle journal''
         (mutation_record cfg action sid a r (find_service sid snaps)
            (case later of Inl _ \<Rightarrow> None | Inr services \<Rightarrow> find_service sid services)
            res (ac_clock cfg s') (as_fingerprint au)))
       (lift_sum res) (s', au) = (out, (s', au'))"
    using audited_mutate_runs [OF assms] by blast
  have journal: "as_journal (publish_console_event cfg x y) = as_journal y" for x y
    by (simp add: publish_console_event_def split: option.split)
  show ?thesis
    by (rule exI [of _ res], rule exI [of _ s2],
        rule exI [of _ "case later of Inl _ \<Rightarrow> None | Inr services \<Rightarrow> find_service sid services"])
      (use last runs assms(2) in \<open>auto simp: Let_def seq_op_def bind_op_def append_and_publish_def lift_sum_def
         fail_op_def return_op_def journal split: prod.splits outcome.splits sum.splits\<close>)
qed

end
