(* ===== verification/Journal_Properties.thy ===== *)
theory Journal_Properties
  imports Journal_Laws
begin

text \<open>
  The properties of the journal and of the runtime token, each with a concrete instance, and the
  two histories in which the journal does not keep its promise.
\<close>

section \<open>Plain text\<close>

text \<open>Bytes that are visible ASCII: no white space and no part of a longer character.\<close>

definition plain :: "char \<Rightarrow> bool" where
  "plain c \<longleftrightarrow> 0x21 \<le> (of_char c :: nat) \<and> (of_char c :: nat) \<le> 0x7E"

lemma ws_not_plain: "w \<in> set ws_encodings \<Longrightarrow> w \<noteq> [] \<and> \<not> plain (hd w) \<and> \<not> plain (last w)"
  by (auto simp: ws_encodings_def plain_def)

lemma plain_ws_len: "s \<noteq> [] \<Longrightarrow> plain (hd s) \<Longrightarrow> ws_len s = 0"
  unfolding ws_len_0_iff using ws_not_plain by (metis hd_append2 prefix_def)

lemma plain_ws_end_len: "s \<noteq> [] \<Longrightarrow> plain (last s) \<Longrightarrow> ws_end_len s = 0"
  unfolding ws_end_len_0_iff using ws_not_plain by (metis last_appendR suffix_def)

lemma plain_split: "list_all plain s \<Longrightarrow> split_ws cur s = (if cur @ s = [] then [] else [cur @ s])"
proof (induction s arbitrary: cur)
  case (Cons c s)
  then show ?case using plain_ws_len [of "c # s"] by (simp add: split_ws.simps [of cur "c # s"])
qed (simp add: split_ws.simps)

lemma plain_single_line: "list_all plain s \<Longrightarrow> join '' '' (split_whitespace s) = s"
  by (simp add: split_whitespace_def plain_split)

lemma plain_trim_end: "list_all plain s \<Longrightarrow> trim_end s = s"
proof (cases "s = []")
  case True
  then show ?thesis using trim_end_length [of "[]"] by simp
next
  case False
  moreover assume "list_all plain s"
  ultimately show ?thesis using plain_ws_end_len [of s] by (simp add: trim_end.simps [of s] list_all_iff)
qed

lemma plain_indices: "list_all plain s \<Longrightarrow> char_indices s = [0..<length s]"
  by (auto simp: char_indices_def list_all_length plain_def is_continuation_def intro!: filter_True)

lemma plain_bounded:
  assumes "list_all plain s" and "n < length s" and "3 \<le> n"
  shows "bounded_text s n = take (n - 3) s @ ''...''"
proof -
  have "takeWhile (\<lambda>i. i \<le> n - 3) [0..<length s] = [0..<n - 2]"
  proof -
    have "[0..<length s] = [0..<n - 2] @ [n - 2..<length s]"
      using assms(2) by (metis le_add_diff_inverse less_imp_le_nat upt_add_eq_append zero_le diff_le_self order_trans)
    then show ?thesis
      using assms(2,3) by (auto simp: takeWhile_append upt_conv_Cons)
  qed
  moreover have "last [0..<n - 2] = n - 3" using assms(3) by (simp add: last_upt)
  moreover have "trim_end (take (n - 3) s) = take (n - 3) s"
    using assms(1) by (intro plain_trim_end) (auto simp: list_all_iff dest: in_set_takeD)
  ultimately show ?thesis
    using assms by (simp add: bounded_text_def Let_def plain_indices numeral_3_eq_3)
qed

lemma token_plain: "list_all is_token_byte token \<Longrightarrow> list_all plain token"
  by (auto simp: list_all_iff is_token_byte_def is_ascii_digit_def plain_def)

lemma replace_none: "\<not> sublist pat s \<Longrightarrow> str_replace pat to s = s"
proof (induction pat to s rule: str_replace.induct)
  case (1 pat to s)
  then show ?case
    by (cases s) (simp_all add: str_replace.simps [of pat to "a # x" for a x] str_replace.simps [of pat to "[]"]
        sublist_Cons_right)
qed

section \<open>A token cut in two\<close>

text \<open>An error message whose 447th byte is the first of the token.\<close>

definition cut_message :: "string \<Rightarrow> string" where
  "cut_message token = replicate 446 (CHR ''x'') @ token @ ''xxxx''"

definition cut_detail :: "string \<Rightarrow> string" where
  "cut_detail token = replicate 446 (CHR ''x'') @ take 63 token @ ''...''"

lemma cut_detail_bounded:
  assumes "length token = 64" and "list_all is_token_byte token"
  shows "bounded_error_detail (cut_message token) = cut_detail token"
    and "bounded_error_detail (cut_detail token) = cut_detail token"
    and "redact_known_secrets (cut_detail token) [token] = cut_detail token"
proof -
  have x: "plain (CHR ''x'')" "plain (CHR ''.'')" by (simp_all add: plain_def)
  have tk: "list_all plain token" "list_all plain (take 63 token)"
    using token_plain [OF assms(2)] by (auto simp: list_all_iff dest: in_set_takeD)
  have msg: "list_all plain (cut_message token)" and det: "list_all plain (cut_detail token)"
    using x tk by (auto simp: cut_message_def cut_detail_def list_all_iff)
  have len: "length (cut_message token) = 514" "length (cut_detail token) = 512"
    using assms(1) by (simp_all add: cut_message_def cut_detail_def)
  have "take 509 (cut_message token) = replicate 446 (CHR ''x'') @ take 63 token"
    using assms(1) by (simp add: cut_message_def)
  then show "bounded_error_detail (cut_message token) = cut_detail token"
    using plain_bounded [OF msg, of 512] len(1)
    by (simp add: bounded_error_detail_def plain_single_line [OF msg] max_error_detail_bytes_def cut_detail_def)
  show "bounded_error_detail (cut_detail token) = cut_detail token"
    using len(2)
    by (simp add: bounded_error_detail_def plain_single_line [OF det] max_error_detail_bytes_def bounded_text_def)
  have ne: "token \<noteq> []" using assms(1) by auto
  have "CHR ''x'' \<notin> set token"
    using assms(2) by (auto simp: list_all_iff is_token_byte_def is_ascii_digit_def)
  then have "set token \<inter> set (replicate 446 (CHR ''x'')) = {}" by simp
  have "\<not> sublist token (take 63 token)"
    using sublist_length_le [of token "take 63 token"] assms(1) by auto
  then have "\<not> sublist token (replicate 446 (CHR ''x'') @ take 63 token)"
    using sublist_around [of token "replicate 446 (CHR ''x'')" "[]" "take 63 token"] ne
      \<open>set token \<inter> _ = {}\<close> by auto
  then have "\<not> sublist token (cut_detail token)"
    using sublist_around [of token "''...''" "replicate 446 (CHR ''x'') @ take 63 token" "[]"]
      ne token_chars(2) [OF assms(2)] by (auto simp: cut_detail_def)
  then show "redact_known_secrets (cut_detail token) [token] = cut_detail token"
    using ne by (simp add: redact_known_secrets_def replace_none)
qed

section \<open>A concrete journal\<close>

definition demo_base :: journal_record where
  "demo_base = \<lparr>jr_sequence = 0, jr_timestamp = ''t'', jr_supervisor_instance_id = ''i'',
     jr_service_id = ''s'', jr_action = JaStart, jr_actor = Agent, jr_reason = Reason ''why'',
     jr_previous_state = Stopped, jr_resulting_state = Running, jr_owned_pids_before = [],
     jr_owned_pids_after = [7], jr_result = JrSuccess, jr_error_category = None,
     jr_error_detail = None, jr_exit_code = None, jr_automatic_restart_planned = None,
     jr_deferred_restart_planned = None, jr_shutdown = None, jr_config_fingerprint = ''f''\<rparr>"

definition demo_first :: journal_record where
  "demo_first = demo_base\<lparr>jr_sequence := 1\<rparr>"

text \<open>A library that can write one record only.\<close>

definition demo_host :: "(unit, unit) journal_host" where
  "demo_host = \<lparr>jh_path = ''j'', jh_encode = (\<lambda>r. if r = demo_first then Inr ''x'' else Inl ()),
     jh_decode = (\<lambda>t. if t = ''x'' then Inr demo_first else Inl ()), jh_line_error = (\<lambda>_. None),
     jh_show_io = (\<lambda>_. ''io''), jh_show_json = (\<lambda>_. ''json'')\<rparr>"

definition demo_journal :: "unit disk_fault option list \<Rightarrow> unit journal_state" where
  "demo_journal faults = \<lparr>js_file = [], js_next_sequence = 1, js_faults = faults\<rparr>"

lemma demo_sanitized:
  "sanitized [] demo_first = demo_first" "sanitized [''0f''] demo_first = demo_first"
  by code_simp+

lemma demo_codec_ok: "codec_ok demo_host"
proof -
  have "trim ''x'' \<noteq> []" by code_simp
  then show ?thesis by (simp add: codec_ok_def demo_host_def strip_cr_def)
qed

lemma demo_open: "journal_open demo_host None None None [] faults = Inr (demo_journal faults)"
  by (simp add: journal_open_def read_records_def saturating_add_def max_word_def demo_journal_def)

lemma demo_journal_ok: "journal_ok demo_host (demo_journal faults)"
  using journal_open_ok [OF demo_open] by (simp add: terminated_def)

lemma demo_append:
  assumes "sanitized secrets demo_first = demo_first" and "next_fault js = None" and "js_next_sequence js = 1"
  shows "journal_append demo_host secrets demo_base js =
    (Ok demo_first, js\<lparr>js_file := js_file js @ [CHR ''x'', newline], js_next_sequence := 2,
       js_faults := tl (js_faults js)\<rparr>)"
proof -
  have "demo_base\<lparr>jr_sequence := 1\<rparr> = demo_first" by (simp add: demo_first_def)
  then show ?thesis
    using assms demo_sanitized(1)
    by (simp add: journal_append_def to_json_line_def demo_host_def saturating_add_def)
qed

section \<open>Properties\<close>

text \<open>C32: The journal refines a list of records: an append that succeeds extends the records that can
  be read by exactly one, which carries the next sequence number, and the next append gets the
  number after it.\<close>

theorem journal_append_refines:
  assumes "codec_ok h" and "journal_ok h js" and "journal_append h secrets r js = (Ok r', js')"
  shows "\<exists>rs. journal_records h js = Inr rs \<and> journal_records h js' = Inr (rs @ [sanitized [] r'])
    \<and> jr_sequence r' = js_next_sequence js
    \<and> js_next_sequence js' = saturating_add (js_next_sequence js) 1"
  using append_extends(1) [OF assms] append_Ok [OF assms(3)] by auto

lemma journal_append_refines_witness:
  "\<exists>rs. journal_records demo_host (demo_journal []) = Inr rs
    \<and> journal_records demo_host (snd (journal_append demo_host [] demo_base (demo_journal [])))
      = Inr (rs @ [sanitized [] demo_first])"
proof -
  have "journal_append demo_host [] demo_base (demo_journal []) =
      (Ok demo_first, snd (journal_append demo_host [] demo_base (demo_journal [])))"
    using demo_append [OF demo_sanitized(1), of "demo_journal []"]
    by (simp add: demo_journal_def next_fault_def)
  from journal_append_refines [OF demo_codec_ok demo_journal_ok this] show ?thesis by blast
qed

text \<open>Appends survive a restart: after any history of appends on a journal that was opened, in which
  the file system may refuse to open the file but leaves no partial line, opening the file again
  succeeds and continues with the same sequence number.\<close>

lemma journal_reopens:
  assumes "codec_ok h" and "terminated content"
    and "journal_open h None None None content faults = Inr js"
    and "\<forall>n e. Some (WriteFault n e) \<notin> set faults"
    and "unat (js_next_sequence js) + length rs < 2 ^ 64"
  shows "journal_open h None None None (js_file (journal_appends h secrets rs js))
      (js_faults (journal_appends h secrets rs js)) = Inr (journal_appends h secrets rs js)"
proof -
  have "js_faults js = faults"
    using assms(3) by (auto simp: journal_open_def split: option.splits sum.splits)
  then have "no_torn_write js" using assms(4) by (simp add: no_torn_write_def)
  from journal_appends_ok [OF assms(1) journal_open_ok [OF assms(3,2)] this assms(5)]
  show ?thesis by (simp add: journal_ok_reopens)
qed

text \<open>A client that reads the journal page by page misses nothing: a page has at most 200 records, all
  after the cursor, and what follows it is exactly what the next request, with the last number of
  the page as cursor, ranges over.\<close>

lemma journal_pages_complete:
  assumes "journal_ok h js" and "journal_records h js = Inr rs"
    and "journal_events h None after limit js = Inr page" and "page \<noteq> []"
  shows "length page \<le> 200
    \<and> filter (\<lambda>r. after < jr_sequence r) rs = page @ filter (\<lambda>r. jr_sequence (last page) < jr_sequence r) rs"
  using events_next_page [OF assms(1,3,4,2)] events_page [OF assms(1,3)] by auto

text \<open>C33: The runtime token is not persisted in the reason or the error detail of a record: whatever these two
  texts are when it is appended, they contain the token neither in the record that is written nor in the
  one that is shown. The error of the stop signal in a shutdown report is written as it is.\<close>

theorem journal_token_redacted:
  assumes "list_all is_token_byte token" and "token \<noteq> []"
    and "journal_append h [token] r js = (Ok shown, js')"
  shows "\<exists>stored line. jh_encode h stored = Inr line \<and> js_file js' = js_file js @ line @ [CHR 0x0A]
    \<and> (\<forall>rec \<in> {stored, shown}. \<not> sublist token (reason_as_str (jr_reason rec))
        \<and> (\<forall>d. jr_error_detail rec = Some d \<longrightarrow> \<not> sublist token d))"
proof -
  obtain line where shown: "shown = sanitized [token] (r\<lparr>jr_sequence := js_next_sequence js\<rparr>)"
    and line: "jh_encode h (sanitized [] shown) = Inr line" "js_file js' = js_file js @ line @ [newline]"
    using append_Ok [OF assms(3)] by auto
  have "\<not> sublist token (reason_as_str (jr_reason shown))"
    and "\<forall>d. jr_error_detail shown = Some d \<longrightarrow> \<not> sublist token d"
    using sanitized_from_redacted [OF assms(1,2), of "[token]"] redact_one [OF assms(1,2)]
    unfolding shown by blast+
  then show ?thesis
    using line sanitized_twice [OF assms(1,2), of "r\<lparr>jr_sequence := js_next_sequence js\<rparr>"]
    unfolding shown [symmetric] by blast
qed

lemma journal_token_redacted_witness:
  "\<exists>stored line. jh_encode demo_host stored = Inr line
    \<and> js_file (snd (journal_append demo_host [''0f''] demo_base (demo_journal [])))
      = js_file (demo_journal []) @ line @ [CHR 0x0A]
    \<and> \<not> sublist ''0f'' (reason_as_str (jr_reason stored))
    \<and> \<not> sublist ''0f'' (reason_as_str (jr_reason demo_first))"
proof -
  have "journal_append demo_host [''0f''] demo_base (demo_journal []) =
      (Ok demo_first, snd (journal_append demo_host [''0f''] demo_base (demo_journal [])))"
    using demo_append [OF demo_sanitized(2), of "demo_journal []"]
    by (simp add: demo_journal_def next_fault_def)
  from journal_token_redacted [OF _ _ this] show ?thesis
    by (auto simp: is_token_byte_def is_ascii_digit_def)
qed

text \<open>C37: All but the last character of the token can be persisted: the error message is cut to 512
  bytes before it is redacted, so a token across the cut is no longer recognised.\<close>

theorem truncation_leaks_token:
  assumes "length token = 64" and "list_all is_token_byte token" and "ce_message e = cut_message token"
  shows "jr_error_detail (sanitized [token]
      (mutation_record cfg action sid a r before after (Inl e) now fingerprint))
    = Some (replicate 446 (CHR ''x'') @ take 63 token @ ''...'')"
  using cut_detail_bounded [OF assms(1,2)] assms(3)
  by (simp add: mutation_record_def sanitized_def cut_detail_def [symmetric])

lemma truncation_leaks_token_witness:
  "\<forall>cfg. jr_error_detail (sanitized [replicate 64 (CHR ''a'')]
      (mutation_record cfg CtlStart ''s'' Agent (Reason ''why'') None None
        (Inl (ce_internal (cut_message (replicate 64 (CHR ''a''))))) 0 ''f''))
    = Some (replicate 446 (CHR ''x'') @ take 63 (replicate 64 (CHR ''a'')) @ ''...'')"
  by (intro allI truncation_leaks_token)
    (simp_all add: is_token_byte_def is_ascii_digit_def ce_internal_def list_all_iff)

text \<open>C34: A failed flush and a later append make the journal unreadable for the next start: when a line reached
  the file but its append reported a failure, the next append that succeeds writes the same sequence
  number again, and opening the journal is refused from then on.\<close>

theorem failed_flush_blocks_reopen:
  assumes "codec_ok h" and "journal_ok h js" and "js_next_sequence js \<noteq> - 1"
    and "to_json_line h [] (sanitized secrets (r1\<lparr>jr_sequence := js_next_sequence js\<rparr>)) = Inr line"
    and "js_faults js = [Some (WriteFault (length line) e)]"
    and "journal_append h secrets r2 (snd (journal_append h secrets r1 js)) = (Ok r2', js2)"
  shows "fst (journal_append h secrets r1 js) = Err (FjWrite e)
    \<and> journal_open h None None None (js_file js2) faults = Inl (FjNonMonotonic (js_next_sequence js))"
proof -
  let ?p1 = "sanitized [] (sanitized secrets (r1\<lparr>jr_sequence := js_next_sequence js\<rparr>))"
  let ?js1 = "snd (journal_append h secrets r1 js)"
  obtain t where t: "jh_encode h ?p1 = Inr t" "line = t @ [newline]"
    using assms(4) by (auto simp: to_json_line_def split: sum.splits)
  have first: "journal_append h secrets r1 js =
      (Err (FjWrite e), js\<lparr>js_file := js_file js @ t @ [newline], js_next_sequence := js_next_sequence js,
         js_faults := []\<rparr>)"
    using assms(4,5) by (simp add: journal_append_def Let_def next_fault_def t(2))
  obtain rs q where rs: "terminated (js_file js)" "journal_records h js = Inr rs"
    "check_monotonic 0 rs = (Inr q :: ('a, 'b) file_journal_error + u64)"
    "js_next_sequence js = max_word (saturating_add q 1) 1"
    using assms(2) unfolding journal_ok_def by blast
  have rec1: "journal_records h ?js1 = Inr (rs @ [?p1])"
    unfolding first snd_conv by (rule records_after_line [OF assms(1) rs(1,2) t(1)])
  have next1: "js_next_sequence ?js1 = js_next_sequence js" and term1: "terminated (js_file ?js1)"
    by (simp_all add: first terminated_def)
  obtain t2 where seq2: "jr_sequence r2' = js_next_sequence js" and t2: "jh_encode h (sanitized [] r2') = Inr t2"
    and js2: "js2 = ?js1\<lparr>js_file := js_file ?js1 @ t2 @ [newline],
        js_next_sequence := saturating_add (js_next_sequence ?js1) 1, js_faults := tl (js_faults ?js1)\<rparr>"
    using append_Ok [OF assms(6)] next1 by auto
  have "journal_records h js2 = Inr ((rs @ [?p1]) @ [sanitized [] r2'])"
    unfolding js2 by (rule records_after_line [OF assms(1) term1 rec1 t2])
  moreover have "check_monotonic 0 ((rs @ [?p1]) @ [sanitized [] r2'])
      = (Inl (FjNonMonotonic (js_next_sequence js)) :: ('a, 'b) file_journal_error + u64)"
    unfolding check_monotonic_append using rs(3) next_above(1) [OF rs(4) assms(3)] seq2
    by (simp add: not_le)
  ultimately show ?thesis
    by (simp add: first journal_open_def journal_records_def)
qed

lemma failed_flush_blocks_reopen_witness:
  "journal_open demo_host None None None (js_file (snd (journal_append demo_host [] demo_base
      (snd (journal_append demo_host [] demo_base (demo_journal [Some (WriteFault 2 ())])))))) []
    = Inl (FjNonMonotonic 1)"
proof -
  let ?js = "demo_journal [Some (WriteFault 2 ())]"
  let ?js1 = "snd (journal_append demo_host [] demo_base ?js)"
  have line: "to_json_line demo_host [] (sanitized [] (demo_base\<lparr>jr_sequence := js_next_sequence ?js\<rparr>)) = Inr [CHR ''x'', newline]"
    using demo_sanitized(1)
    by (simp add: to_json_line_def demo_journal_def demo_first_def demo_host_def)
  have "next_fault ?js1 = None" "js_next_sequence ?js1 = 1"
    using line by (simp_all add: journal_append_def Let_def next_fault_def demo_journal_def)
  then have "journal_append demo_host [] demo_base ?js1
      = (Ok demo_first, snd (journal_append demo_host [] demo_base ?js1))"
    using demo_append [OF demo_sanitized(1), of ?js1] by simp
  from failed_flush_blocks_reopen [OF demo_codec_ok demo_journal_ok _ line _ this, of "()"]
  show ?thesis by (simp add: demo_journal_def)
qed

text \<open>The comparison of a presented token with the runtime token, which looks at every byte of the
  longer one, is equality.\<close>

lemma bearer_is_equality:
  assumes "length token < 2 ^ 64" and "length candidate < 2 ^ 64"
  shows "bearer_matches token candidate \<longleftrightarrow> token = candidate"
  using constant_time_equal_iff [OF assms] by (simp add: bearer_matches_def)

text \<open>Every token the supervisor starts with, loaded or created, is 64 lower-case hexadecimal digits,
  and an existing valid token is never replaced.\<close>

lemma runtime_token_wellformed:
  "case token_load_or_create content mkdir generated create write again of
      Inl _ \<Rightarrow> True
    | Inr token \<Rightarrow> length token = 64 \<and> list_all is_token_byte token
        \<and> (case content of Inr text \<Rightarrow> token = trim text | Inl _ \<Rightarrow> content = Inl IoNotFound)"
  using token_parse_ok
  by (auto simp: token_load_or_create_def token_load_def token_length_def dest: token_parse_error
      split: sum.split option.split)

text \<open>C31: A mutation is answered with the result of the control it wraps only when exactly one record with
  that result was appended; when the record cannot be written the answer is an error.\<close>

theorem audited_mutation_recorded:
  assumes "audited_mutate cfg ctl action sid a r (s, au) = (out, (s', au'))" and "out \<noteq> Panic"
    and "ctl_snapshots ctl s = (Ok snaps, s1)"
  shows "\<exists>res s2 after. attempt_op (ctl_mutate ctl action sid a r) s1 = (Ok res, s2)
    \<and> (let r0 = mutation_record cfg action sid a r (find_service sid snaps) after res
                  (ac_clock cfg s') (as_fingerprint au) in
       case journal_append (ac_host cfg) (ac_secrets cfg) r0 (as_journal au) of
         (Ok r', js) \<Rightarrow> as_journal au' = js \<and> out = (case res of Inl e \<Rightarrow> Err e | Inr m \<Rightarrow> Ok m)
       | (Err e, js) \<Rightarrow> as_journal au' = js
           \<and> (\<exists>detail. out = Err (ce_internal (''failed to persist lifecycle journal: '' @ detail)))
       | (Panic, js) \<Rightarrow> False)"
  by (rule audited_mutate_record [OF assms])

definition demo_control :: "unit control" where
  "demo_control = \<lparr>ctl_snapshots = return_op [], ctl_preflight = (\<lambda>_. return_op ()),
     ctl_mutate = (\<lambda>_ _ _ _. return_op \<lparr>mr_outcome = MutStarted, mr_shutdown = None\<rparr>)\<rparr>"

definition demo_config :: "(unit, unit, unit, unit) audit_config" where
  "demo_config = \<lparr>ac_host = demo_host\<lparr>jh_encode := (\<lambda>_. Inr ''x'')\<rparr>, ac_secrets = [],
     ac_instance_id = ''i'', ac_console_events = None, ac_console_timezone = TzUtc, ac_clock = (\<lambda>_. 5),
     ac_chrono = \<lparr>ch_from_millis = (\<lambda>_. None), ch_parse_rfc3339 = (\<lambda>_. None), ch_utc = (\<lambda>_. []),
       ch_local = (\<lambda>_. [])\<rparr>, ac_debug = id\<rparr>"

definition demo_audit :: "unit audit_state" where
  "demo_audit = \<lparr>as_journal = demo_journal [], as_fingerprint = ''f'', as_console = []\<rparr>"

lemma audited_mutation_recorded_witness:
  "\<exists>au' res s2 after. audited_mutate demo_config demo_control CtlStart ''s'' Agent (Reason ''why'') ((), demo_audit)
      = (Ok \<lparr>mr_outcome = MutStarted, mr_shutdown = None\<rparr>, ((), au'))
    \<and> attempt_op (ctl_mutate demo_control CtlStart ''s'' Agent (Reason ''why'')) () = (Ok res, s2)
    \<and> (let r0 = mutation_record demo_config CtlStart ''s'' Agent (Reason ''why'') (find_service ''s'' []) after res
                  (ac_clock demo_config ()) (as_fingerprint demo_audit) in
       case journal_append (ac_host demo_config) (ac_secrets demo_config) r0 (as_journal demo_audit) of
         (Ok r', js) \<Rightarrow> as_journal au' = js
           \<and> Ok \<lparr>mr_outcome = MutStarted, mr_shutdown = None\<rparr>
              = (case res of Inl e \<Rightarrow> Err e | Inr m \<Rightarrow> Ok (m :: mutation_result))
       | (Err e, js) \<Rightarrow> as_journal au' = js
           \<and> (\<exists>detail. Ok \<lparr>mr_outcome = MutStarted, mr_shutdown = None\<rparr>
                = Err (ce_internal (''failed to persist lifecycle journal: '' @ detail)))
       | (Panic, js) \<Rightarrow> False)"
proof -
  have "\<exists>au'. audited_mutate demo_config demo_control CtlStart ''s'' Agent (Reason ''why'') ((), demo_audit)
      = (Ok \<lparr>mr_outcome = MutStarted, mr_shutdown = None\<rparr>, ((), au'))"
    by (simp add: audited_mutate_def bind_op_def on_inner_def attempt_op_def get_op_def seq_op_def return_op_def
        demo_control_def append_and_publish_def journal_append_def to_json_line_def demo_config_def demo_audit_def
        demo_journal_def next_fault_def Let_def lift_sum_def)
  then obtain au' where run: "audited_mutate demo_config demo_control CtlStart ''s'' Agent (Reason ''why'') ((), demo_audit)
      = (Ok \<lparr>mr_outcome = MutStarted, mr_shutdown = None\<rparr>, ((), au'))" by blast
  have "ctl_snapshots demo_control () = (Ok [], ())" by (simp add: demo_control_def return_op_def)
  from audited_mutation_recorded [OF run _ this] run show ?thesis by blast
qed

end
