(* ===== verification/Live_Logs.thy ===== *)
theory Live_Logs
  imports Ordered_Map Rust_Text Supervisor_Prelude
begin

text \<open>
  \<open>src/src/adapters/service_logs.rs\<close>: the in-memory fan-out of service output. Bytes of a
  process become lines, a line becomes a numbered event, an event goes into a bounded ring and
  into the bounded queue of every subscriber; a subscriber that is too slow is told how many
  events it missed. A queue is the list of events its receiver has not taken; \<open>now\<close> is the wall
  clock when the event of a sequence number is made. Counts of bytes are \<open>nat\<close>: the code adds
  them with saturation at a size no memory has. No critical section can panic, so the lock is
  never poisoned.
\<close>

section \<open>Events\<close>

datatype log_stream = LogStdout | LogStderr

definition log_stream_parse :: "string \<Rightarrow> log_stream option" where
  "log_stream_parse value =
     (if value = ''stdout'' then Some LogStdout else if value = ''stderr'' then Some LogStderr else None)"

datatype live_selection = SelBoth | SelStdout | SelStderr

definition live_selection_parse :: "string \<Rightarrow> live_selection option" where
  "live_selection_parse value =
     (if value = ''both'' then Some SelBoth
      else if value = ''stdout'' then Some SelStdout
      else if value = ''stderr'' then Some SelStderr else None)"

fun sel_includes :: "live_selection \<Rightarrow> log_stream \<Rightarrow> bool" where
  "sel_includes SelBoth stream = True"
| "sel_includes SelStdout stream = (stream = LogStdout)"
| "sel_includes SelStderr stream = (stream = LogStderr)"

datatype live_kind = KindLine | KindGap | KindHeartbeat | KindHubReset

record live_cursor =
  lc_hub_instance_id :: string
  lc_sequence :: u64

record live_event =
  le_schema_version :: u32
  le_kind :: live_kind
  le_hub_instance_id :: string
  le_service_id :: string
  le_sequence :: "u64 option"
  le_stream :: "log_stream option"
  le_observed_at :: u64
  le_text :: "string option"
  le_dropped :: "u64 option"
  le_previous_hub :: "string option"
  le_replayed :: bool
  le_source_modified :: "u64 option"

definition heartbeat :: "u64 \<Rightarrow> string \<Rightarrow> string \<Rightarrow> live_event" where
  "heartbeat now hub sid =
     \<lparr>le_schema_version = 1, le_kind = KindHeartbeat, le_hub_instance_id = hub, le_service_id = sid,
      le_sequence = None, le_stream = None, le_observed_at = now, le_text = None, le_dropped = None,
      le_previous_hub = None, le_replayed = False, le_source_modified = None\<rparr>"

definition hub_reset :: "u64 \<Rightarrow> string \<Rightarrow> string \<Rightarrow> string \<Rightarrow> u64 \<Rightarrow> live_event" where
  "hub_reset now hub previous_hub sid high_watermark =
     \<lparr>le_schema_version = 1, le_kind = KindHubReset, le_hub_instance_id = hub, le_service_id = sid,
      le_sequence = Some high_watermark, le_stream = None, le_observed_at = now,
      le_text = Some ''AkuSupervisor live-log hub changed; replay cursor was reset'', le_dropped = None,
      le_previous_hub = Some previous_hub, le_replayed = False, le_source_modified = None\<rparr>"

definition line_event :: "(u64 \<Rightarrow> u64) \<Rightarrow> string \<Rightarrow> string \<Rightarrow> log_stream \<Rightarrow> u64 \<Rightarrow> string \<Rightarrow> live_event" where
  "line_event now hub sid stream sequence text =
     \<lparr>le_schema_version = 1, le_kind = KindLine, le_hub_instance_id = hub, le_service_id = sid,
      le_sequence = Some sequence, le_stream = Some stream, le_observed_at = now sequence,
      le_text = Some text, le_dropped = None, le_previous_hub = None, le_replayed = False,
      le_source_modified = None\<rparr>"

definition replayed_line_event ::
  "(u64 \<Rightarrow> u64) \<Rightarrow> string \<Rightarrow> string \<Rightarrow> log_stream \<Rightarrow> u64 \<Rightarrow> string \<Rightarrow> u64 option \<Rightarrow> live_event" where
  "replayed_line_event now hub sid stream sequence text modified =
     (line_event now hub sid stream sequence text)
       \<lparr>le_observed_at := (case modified of None \<Rightarrow> now sequence | Some t \<Rightarrow> t),
        le_replayed := True, le_source_modified := modified\<rparr>"

definition gap_event :: "(u64 \<Rightarrow> u64) \<Rightarrow> live_event \<Rightarrow> u64 \<Rightarrow> live_event" where
  "gap_event now event dropped =
     \<lparr>le_schema_version = 1, le_kind = KindGap, le_hub_instance_id = le_hub_instance_id event,
      le_service_id = le_service_id event, le_sequence = le_sequence event, le_stream = None,
      le_observed_at = now (case le_sequence event of None \<Rightarrow> 0 | Some n \<Rightarrow> n), le_text = None,
      le_dropped = Some dropped, le_previous_hub = None, le_replayed = False, le_source_modified = None\<rparr>"

definition event_bytes :: "live_event \<Rightarrow> nat" where
  "event_bytes e = (case le_text e of None \<Rightarrow> 0 | Some t \<Rightarrow> length t)"

section \<open>Subscribers\<close>

definition live_ring_lines :: nat where "live_ring_lines = 1000"
definition live_ring_bytes :: nat where "live_ring_bytes = 1048576"
definition live_subscriber_queue :: nat where "live_subscriber_queue = 256"
definition max_live_subscribers :: nat where "max_live_subscribers = 8"
definition max_partial_line_bytes :: nat where "max_partial_line_bytes = 65536"
definition max_tail_lines :: nat where "max_tail_lines = 1000"
definition max_read_bytes :: nat where "max_read_bytes = 5242880"

record live_subscriber =
  sub_selection :: live_selection
  sub_queue :: "live_event list"
  sub_connected :: bool
  sub_dropped :: u64

datatype send_result = SendOk | SendFull | SendDisconnected

definition try_send :: "live_event \<Rightarrow> live_subscriber \<Rightarrow> send_result \<times> live_subscriber" where
  "try_send e s =
     (if \<not> sub_connected s then (SendDisconnected, s)
      else if length (sub_queue s) \<ge> live_subscriber_queue then (SendFull, s)
      else (SendOk, s\<lparr>sub_queue := sub_queue s @ [e]\<rparr>))"

text \<open>The body of the loop of \<open>publish_event\<close> for one subscriber; the flag is whether it is gone.\<close>

definition send_event :: "live_event \<Rightarrow> live_subscriber \<Rightarrow> bool \<times> live_subscriber" where
  "send_event e s = (case try_send e s of
      (SendOk, s') \<Rightarrow> (False, s')
    | (SendFull, s') \<Rightarrow> (False, s'\<lparr>sub_dropped := saturating_add (sub_dropped s') 1\<rparr>)
    | (SendDisconnected, s') \<Rightarrow> (True, s'))"

definition offer :: "(u64 \<Rightarrow> u64) \<Rightarrow> live_event \<Rightarrow> live_subscriber \<Rightarrow> bool \<times> live_subscriber" where
  "offer now e s = (case le_stream e of
      None \<Rightarrow> (False, s)
    | Some stream \<Rightarrow>
        if \<not> sel_includes (sub_selection s) stream then (False, s)
        else if sub_dropped s > 0 then
          (case try_send (gap_event now e (sub_dropped s)) s of
             (SendOk, s') \<Rightarrow> send_event e (s'\<lparr>sub_dropped := 0\<rparr>)
           | (SendFull, s') \<Rightarrow> (False, s'\<lparr>sub_dropped := saturating_add (sub_dropped s') 1\<rparr>)
           | (SendDisconnected, s') \<Rightarrow> (True, s'))
        else send_event e s)"

record live_service =
  ls_ring :: "live_event list"
  ls_ring_bytes :: nat
  ls_stdout_partial :: string
  ls_stderr_partial :: string
  ls_subscribers :: "(u64, live_subscriber) btree"

definition live_service_new :: live_service where
  "live_service_new = \<lparr>ls_ring = [], ls_ring_bytes = 0, ls_stdout_partial = [], ls_stderr_partial = [],
     ls_subscribers = bt_empty\<rparr>"

fun trim_ring :: "live_event list \<Rightarrow> nat \<Rightarrow> live_event list \<times> nat" where
  "trim_ring [] bytes = ([], bytes)"
| "trim_ring (e # es) bytes =
     (if length (e # es) > live_ring_lines \<or> bytes > live_ring_bytes
      then trim_ring es (bytes - event_bytes e) else (e # es, bytes))"

definition push_ring :: "live_event \<Rightarrow> live_service \<Rightarrow> live_service" where
  "push_ring e service = (case trim_ring (ls_ring service @ [e]) (ls_ring_bytes service + event_bytes e) of
      (ring, bytes) \<Rightarrow> service\<lparr>ls_ring := ring, ls_ring_bytes := bytes\<rparr>)"

definition publish_event :: "(u64 \<Rightarrow> u64) \<Rightarrow> live_event \<Rightarrow> live_service \<Rightarrow> live_service" where
  "publish_event now e service =
     (let service = push_ring e service;
          offered = map (\<lambda>(k, s). (k, offer now e s)) (ls_subscribers service);
          disconnected = map fst (filter (\<lambda>(k, gone, s). gone) offered)
      in service\<lparr>ls_subscribers := fold bt_remove disconnected (map (\<lambda>(k, gone, s). (k, s)) offered)\<rparr>)"

section \<open>Lines\<close>

fun partial_of :: "log_stream \<Rightarrow> live_service \<Rightarrow> string" where
  "partial_of LogStdout service = ls_stdout_partial service"
| "partial_of LogStderr service = ls_stderr_partial service"

fun set_partial :: "log_stream \<Rightarrow> string \<Rightarrow> live_service \<Rightarrow> live_service" where
  "set_partial LogStdout p service = service\<lparr>ls_stdout_partial := p\<rparr>"
| "set_partial LogStderr p service = service\<lparr>ls_stderr_partial := p\<rparr>"

definition truncated_line :: "string \<Rightarrow> string" where
  "truncated_line bytes = utf8_lossy bytes @ '' [line truncated]''"

text \<open>The loop of \<open>take_complete_lines\<close>; each turn takes bytes off the partial line.\<close>

function split_lines :: "string \<Rightarrow> string list \<times> string" where
  "split_lines partial =
     (if newline \<in> set partial then
        (case split_lines (tl (dropWhile (\<lambda>c. c \<noteq> newline) partial)) of
           (lines, rest) \<Rightarrow> (utf8_lossy (strip_cr (takeWhile (\<lambda>c. c \<noteq> newline) partial)) # lines, rest))
      else if length partial \<ge> max_partial_line_bytes then
        (case split_lines (drop max_partial_line_bytes partial) of
           (lines, rest) \<Rightarrow> (truncated_line (take max_partial_line_bytes partial) # lines, rest))
      else ([], partial))"
  by pat_completeness auto
termination
proof (relation "measure length", simp, goal_cases)
  case (1 partial)
  then have "dropWhile (\<lambda>c. c \<noteq> newline) partial \<noteq> []" by (auto simp: dropWhile_eq_Nil_conv)
  then show ?case
    using length_dropWhile_le [of "\<lambda>c. c \<noteq> newline" partial]
    by (cases "dropWhile (\<lambda>c. c \<noteq> newline) partial") auto
next
  case (2 partial)
  then show ?case by (auto simp: max_partial_line_bytes_def)
qed

declare split_lines.simps [simp del]

definition take_complete_lines :: "log_stream \<Rightarrow> bool \<Rightarrow> live_service \<Rightarrow> string list \<times> live_service" where
  "take_complete_lines stream close service =
     (case split_lines (partial_of stream service) of
        (lines, rest) \<Rightarrow>
          if close \<and> rest \<noteq> [] then (lines @ [utf8_lossy rest], set_partial stream [] service)
          else (lines, set_partial stream rest service))"

section \<open>The hub\<close>

record live_hub =
  lh_instance_id :: string
  lh_next_sequence :: u64
  lh_next_subscriber :: u64
  lh_services :: "(string, live_service) btree"

definition live_hub_new :: "string \<Rightarrow> live_hub" where
  "live_hub_new hub = \<lparr>lh_instance_id = hub, lh_next_sequence = 0, lh_next_subscriber = 0, lh_services = bt_empty\<rparr>"

fun publish_lines ::
  "(u64 \<Rightarrow> u64) \<Rightarrow> string \<Rightarrow> string \<Rightarrow> log_stream \<Rightarrow> string list \<Rightarrow> u64 \<times> live_service \<Rightarrow> u64 \<times> live_service" where
  "publish_lines now hub sid stream [] st = st"
| "publish_lines now hub sid stream (t # ts) (n, service) =
     (let n' = saturating_add n 1 in
      publish_lines now hub sid stream ts
        (n', publish_event now (line_event now hub sid stream n' t) service))"

definition emit_lines ::
  "(u64 \<Rightarrow> u64) \<Rightarrow> string \<Rightarrow> log_stream \<Rightarrow> bool \<Rightarrow> live_service \<Rightarrow> live_hub \<Rightarrow> live_hub" where
  "emit_lines now sid stream close service hub =
     (case take_complete_lines stream close service of
        (lines, service') \<Rightarrow>
          (case publish_lines now (lh_instance_id hub) sid stream lines (lh_next_sequence hub, service') of
             (n, service'') \<Rightarrow>
               hub\<lparr>lh_next_sequence := n,
                 lh_services := bt_insert sid service'' (bt_remove sid (lh_services hub))\<rparr>))"

definition hub_publish :: "(u64 \<Rightarrow> u64) \<Rightarrow> string \<Rightarrow> log_stream \<Rightarrow> string \<Rightarrow> live_hub \<Rightarrow> live_hub" where
  "hub_publish now sid stream bytes hub = (case bt_get (lh_services hub) sid of
      None \<Rightarrow> hub
    | Some service \<Rightarrow>
        emit_lines now sid stream False (set_partial stream (partial_of stream service @ bytes) service) hub)"

definition hub_close_stream :: "(u64 \<Rightarrow> u64) \<Rightarrow> string \<Rightarrow> log_stream \<Rightarrow> live_hub \<Rightarrow> live_hub" where
  "hub_close_stream now sid stream hub = (case bt_get (lh_services hub) sid of
      None \<Rightarrow> hub
    | Some service \<Rightarrow> emit_lines now sid stream True service hub)"

datatype 'io service_log_error =
  SlServiceNotFound string | SlTooManySubscribers string | SlLockPoisoned | SlRead 'io | SlOversized u64

definition replayable :: "live_hub \<Rightarrow> live_selection \<Rightarrow> nat \<Rightarrow> live_cursor option \<Rightarrow> live_event list \<Rightarrow> live_event list" where
  "replayable hub selection tail cursor ring =
     (let matches = (case cursor of None \<Rightarrow> False | Some c \<Rightarrow> lc_hub_instance_id c = lh_instance_id hub);
          initial = filter (\<lambda>e.
            (case le_stream e of None \<Rightarrow> False | Some stream \<Rightarrow> sel_includes selection stream)
            \<and> (\<not> matches \<or> (case cursor of None \<Rightarrow> False | Some c \<Rightarrow>
                 (case le_sequence e of None \<Rightarrow> False | Some n \<Rightarrow> n > lc_sequence c)))) ring
      in if \<not> matches \<and> length initial > tail then drop (length initial - tail) initial else initial)"

definition hub_subscribe ::
  "(u64 \<Rightarrow> u64) \<Rightarrow> string \<Rightarrow> live_selection \<Rightarrow> nat \<Rightarrow> live_cursor option \<Rightarrow> live_hub \<Rightarrow>
     ('io service_log_error + u64 \<times> live_event list) \<times> live_hub" where
  "hub_subscribe now sid selection tail cursor hub =
     (let k = saturating_add (lh_next_subscriber hub) 1;
          hub = hub\<lparr>lh_next_subscriber := k\<rparr>;
          high_watermark = lh_next_sequence hub
      in case bt_get (lh_services hub) sid of
        None \<Rightarrow> (Inl (SlServiceNotFound sid), hub)
      | Some service \<Rightarrow>
          if length (ls_subscribers service) \<ge> max_live_subscribers then (Inl (SlTooManySubscribers sid), hub)
          else
            (let initial = replayable hub selection tail cursor (ls_ring service);
                 reset = (case cursor of
                     None \<Rightarrow> []
                   | Some c \<Rightarrow>
                       if lc_hub_instance_id c = lh_instance_id hub then []
                       else [hub_reset (now high_watermark) (lh_instance_id hub) (lc_hub_instance_id c) sid high_watermark]);
                 s = \<lparr>sub_selection = selection, sub_queue = [], sub_connected = True, sub_dropped = 0\<rparr>
             in (Inr (k, reset @ initial),
                 hub\<lparr>lh_services := bt_insert sid
                   (service\<lparr>ls_subscribers := bt_insert k s (ls_subscribers service)\<rparr>) (lh_services hub)\<rparr>)))"

definition hub_unsubscribe :: "string \<Rightarrow> u64 \<Rightarrow> live_hub \<Rightarrow> live_hub" where
  "hub_unsubscribe sid k hub = (case bt_get (lh_services hub) sid of
      None \<Rightarrow> hub
    | Some service \<Rightarrow>
        hub\<lparr>lh_services := bt_insert sid
          (service\<lparr>ls_subscribers := bt_remove k (ls_subscribers service)\<rparr>) (lh_services hub)\<rparr>)"

section \<open>Files\<close>

text \<open>What the file system has for a log file: its metadata, its bytes, its modification time.\<close>

datatype 'io log_meta = MetaLength u64 | MetaMissing | MetaFailed 'io

record 'io log_file =
  lf_meta :: "'io log_meta"
  lf_read :: "'io + string"
  lf_modified :: "u64 option"

definition read_tail_lines :: "'io log_file \<Rightarrow> nat \<Rightarrow> 'io service_log_error + string list" where
  "read_tail_lines file n =
     (case (case lf_meta file of
          MetaLength len \<Rightarrow>
            if unat len > max_read_bytes then Inl (SlOversized len)
            else (case lf_read file of Inl source \<Rightarrow> Inl (SlRead source) | Inr bytes \<Rightarrow> Inr bytes)
        | MetaMissing \<Rightarrow> Inr []
        | MetaFailed source \<Rightarrow> Inl (SlRead source)) of
        Inl e \<Rightarrow> Inl e
      | Inr bytes \<Rightarrow> Inr (rev (take n (rev (file_lines [] (utf8_lossy bytes))))))"

text \<open>The first half of \<open>reconcile\<close>: the last lines of the files of a service that is new to the hub.\<close>

definition modified_le :: "u64 option \<Rightarrow> u64 option \<Rightarrow> bool" where
  "modified_le a b = (case a of None \<Rightarrow> True | Some x \<Rightarrow> (case b of None \<Rightarrow> False | Some y \<Rightarrow> x \<le> y))"

definition preload_service ::
  "(string \<Rightarrow> log_stream \<Rightarrow> 'io log_file) \<Rightarrow> string \<Rightarrow> (log_stream \<times> u64 option \<times> string) list" where
  "preload_service files sid =
     (let streams = (if modified_le (lf_modified (files sid LogStdout)) (lf_modified (files sid LogStderr))
                     then [LogStdout, LogStderr] else [LogStderr, LogStdout])
      in concat (map (\<lambda>stream.
           map (\<lambda>line. (stream, lf_modified (files sid stream), line))
             (case read_tail_lines (files sid stream) (max_tail_lines div 2) of Inl _ \<Rightarrow> [] | Inr lines \<Rightarrow> lines))
           streams))"

fun replay_lines ::
  "(u64 \<Rightarrow> u64) \<Rightarrow> string \<Rightarrow> string \<Rightarrow> (log_stream \<times> u64 option \<times> string) list \<Rightarrow>
     u64 \<times> live_service \<Rightarrow> u64 \<times> live_service" where
  "replay_lines now hub sid [] st = st"
| "replay_lines now hub sid ((stream, modified, line) # ls) (n, service) =
     (let n' = saturating_add n 1 in
      replay_lines now hub sid ls
        (n', push_ring (replayed_line_event now hub sid stream n' line modified) service))"

text \<open>The second half: the new services with their replayed lines.\<close>

fun add_services ::
  "(u64 \<Rightarrow> u64) \<Rightarrow> (string \<times> (log_stream \<times> u64 option \<times> string) list) list \<Rightarrow> live_hub \<Rightarrow> live_hub" where
  "add_services now [] hub = hub"
| "add_services now ((sid, lines) # rest) hub =
     (if bt_get (lh_services hub) sid \<noteq> None then add_services now rest hub
      else (case replay_lines now (lh_instance_id hub) sid lines (lh_next_sequence hub, live_service_new) of
          (n, service) \<Rightarrow>
            add_services now rest
              (hub\<lparr>lh_next_sequence := n, lh_services := bt_insert sid service (lh_services hub)\<rparr>)))"

text \<open>
  The lock is taken twice: to see which services are there, and, after the files were read without it, to
  drop the services that left and add the new ones. Between the two the hub can change.
\<close>

definition hub_preload ::
  "(string \<Rightarrow> log_stream \<Rightarrow> 'io log_file) \<Rightarrow> string list \<Rightarrow> live_hub \<Rightarrow>
     (string \<times> (log_stream \<times> u64 option \<times> string) list) list" where
  "hub_preload files sids hub =
     (let existing = bt_keys (lh_services hub)
      in map (\<lambda>sid. (sid, preload_service files sid)) (filter (\<lambda>sid. sid \<notin> set existing) sids))"

definition hub_install ::
  "(u64 \<Rightarrow> u64) \<Rightarrow> string list \<Rightarrow> (string \<times> (log_stream \<times> u64 option \<times> string) list) list \<Rightarrow> live_hub \<Rightarrow> live_hub" where
  "hub_install now sids preloaded hub =
     add_services now preloaded (hub\<lparr>lh_services := bt_retain (\<lambda>sid. sid \<in> set sids) (lh_services hub)\<rparr>)"

text \<open>Both without a change in between, as when the store is made.\<close>

definition hub_reconcile ::
  "(u64 \<Rightarrow> u64) \<Rightarrow> (string \<Rightarrow> log_stream \<Rightarrow> 'io log_file) \<Rightarrow> string list \<Rightarrow> live_hub \<Rightarrow> live_hub" where
  "hub_reconcile now files sids hub = hub_install now sids (hub_preload files sids hub) hub"

section \<open>The store\<close>

text \<open>The allowlist of services (sorted, as the keys of the code's map) and the hub.\<close>

record log_store =
  lst_services :: "string list"
  lst_live :: live_hub

text \<open>The parts of \<open>reconcile_service_ids\<close>: what is allowed, the hub, and then the allowlist.\<close>

definition allowed_ids :: "string list \<Rightarrow> string list" where
  "allowed_ids sids = bt_keys (bt_collect (map (\<lambda>sid. (sid, ())) sids))"

definition store_install ::
  "(u64 \<Rightarrow> u64) \<Rightarrow> string list \<Rightarrow> (string \<times> (log_stream \<times> u64 option \<times> string) list) list \<Rightarrow> log_store \<Rightarrow> log_store" where
  "store_install now sids preloaded store =
     store\<lparr>lst_live := hub_install now (allowed_ids sids) preloaded (lst_live store)\<rparr>"

definition store_allow :: "string list \<Rightarrow> log_store \<Rightarrow> log_store" where
  "store_allow sids store = store\<lparr>lst_services := allowed_ids sids\<rparr>"

definition reconcile_service_ids ::
  "(u64 \<Rightarrow> u64) \<Rightarrow> (string \<Rightarrow> log_stream \<Rightarrow> 'io log_file) \<Rightarrow> string list \<Rightarrow> log_store \<Rightarrow> log_store" where
  "reconcile_service_ids now files sids store = store_allow sids
     (store_install now sids (hub_preload files (allowed_ids sids) (lst_live store)) store)"

definition log_store_new ::
  "(u64 \<Rightarrow> u64) \<Rightarrow> (string \<Rightarrow> log_stream \<Rightarrow> 'io log_file) \<Rightarrow> string \<Rightarrow> string list \<Rightarrow> log_store" where
  "log_store_new now files hub sids =
     reconcile_service_ids now files sids \<lparr>lst_services = [], lst_live = live_hub_new hub\<rparr>"

record service_log_tail =
  slt_service_id :: string
  slt_stream :: log_stream
  slt_lines :: "string list"
  slt_truncated_to :: nat

definition clamp :: "nat \<Rightarrow> nat \<Rightarrow> nat \<Rightarrow> nat" where
  "clamp lo hi n = (if n < lo then lo else if n > hi then hi else n)"

definition store_tail ::
  "(string \<Rightarrow> log_stream \<Rightarrow> 'io log_file) \<Rightarrow> string \<Rightarrow> log_stream \<Rightarrow> nat \<Rightarrow> log_store \<Rightarrow>
     'io service_log_error + service_log_tail" where
  "store_tail files sid stream n store =
     (if sid \<notin> set (lst_services store) then Inl (SlServiceNotFound sid)
      else (let n = clamp 1 max_tail_lines n in
        case read_tail_lines (files sid stream) n of
          Inl e \<Rightarrow> Inl e
        | Inr lines \<Rightarrow> Inr \<lparr>slt_service_id = sid, slt_stream = stream, slt_lines = lines, slt_truncated_to = n\<rparr>))"

definition store_subscribe ::
  "(u64 \<Rightarrow> u64) \<Rightarrow> string \<Rightarrow> live_selection \<Rightarrow> nat \<Rightarrow> live_cursor option \<Rightarrow> log_store \<Rightarrow>
     ('io service_log_error + u64 \<times> live_event list) \<times> log_store" where
  "store_subscribe now sid selection tail cursor store =
     (case hub_subscribe now sid selection (clamp 0 max_tail_lines tail) cursor (lst_live store) of
        (r, hub) \<Rightarrow> (r, store\<lparr>lst_live := hub\<rparr>))"

fun show_service_log_error :: "('io \<Rightarrow> string) \<Rightarrow> string \<Rightarrow> 'io service_log_error \<Rightarrow> string" where
  "show_service_log_error si path (SlServiceNotFound sid) = ''unknown service: '' @ sid"
| "show_service_log_error si path (SlTooManySubscribers sid) = ''too many live-log subscribers for '' @ sid"
| "show_service_log_error si path SlLockPoisoned = ''service log registry lock is poisoned''"
| "show_service_log_error si path (SlRead source) = ''failed to read service log '' @ path @ '': '' @ si source"
| "show_service_log_error si path (SlOversized bytes) =
     ''service log '' @ path @ '' exceeds bounded read size: '' @ decimal (unat bytes) @ '' bytes''"

end
