(* ===== verification/Live_Log_Facts.thy ===== *)
theory Live_Log_Facts
  imports Live_Logs
begin

text \<open>
  The invariant of the live-log hub (bounded rings, queues, partial lines and subscribers,
  increasing sequence numbers), kept by every operation, and the lemmas about lines and queues
  the properties use.
\<close>

section \<open>Rings\<close>

abbreviation ring_bytes :: "live_event list \<Rightarrow> nat" where
  "ring_bytes es \<equiv> sum_list (map event_bytes es)"

definition seq_of :: "live_event \<Rightarrow> u64" where
  "seq_of e = (case le_sequence e of None \<Rightarrow> 0 | Some n \<Rightarrow> n)"

text \<open>Numbers increase until the counter saturates.\<close>

definition ring_ok :: "u64 \<Rightarrow> live_event list \<Rightarrow> bool" where
  "ring_ok n ring \<longleftrightarrow> (\<forall>e \<in> set ring. le_sequence e \<noteq> None \<and> seq_of e \<le> n)
     \<and> (n = - 1 \<or> sorted_wrt (\<lambda>a b. seq_of a < seq_of b) ring)"

lemma max_top: "(- 1 :: u64) \<le> n \<longleftrightarrow> n = - 1"
  by (simp add: word_order.extremum_unique)

lemma ring_ok_mono: "ring_ok n ring \<Longrightarrow> n \<le> n' \<Longrightarrow> ring_ok n' ring"
  using max_top [of n'] by (auto simp: ring_ok_def)

lemma ring_ok_suffix: "ring_ok n (xs @ ys) \<Longrightarrow> ring_ok n ys"
  by (auto simp: ring_ok_def sorted_wrt_append)

lemma ring_ok_snoc:
  assumes "ring_ok n ring" and "le_sequence e = Some (saturating_add n 1)"
  shows "ring_ok (saturating_add n 1) (ring @ [e])"
proof -
  have mono: "n \<le> saturating_add n 1" by (rule saturating_add_mono)
  have e: "seq_of e = saturating_add n 1" by (simp add: seq_of_def assms(2))
  have "sorted_wrt (\<lambda>a b. seq_of a < seq_of b) (ring @ [e])" if "saturating_add n 1 \<noteq> - 1"
  proof -
    have n: "n \<noteq> - 1" using that mono max_top by metis
    then have "n < saturating_add n 1" by (rule saturating_add_less) simp
    then have "\<forall>x \<in> set ring. seq_of x < seq_of e"
      using assms(1) e by (auto simp: ring_ok_def intro: order_le_less_trans)
    then show ?thesis using assms(1) n by (auto simp: ring_ok_def sorted_wrt_append)
  qed
  moreover have "\<forall>x \<in> set (ring @ [e]). le_sequence x \<noteq> None \<and> seq_of x \<le> saturating_add n 1"
    using assms mono e by (auto simp: ring_ok_def intro: order_trans)
  ultimately show ?thesis unfolding ring_ok_def by blast
qed

lemma trim_ring_spec:
  "bytes = ring_bytes es \<Longrightarrow> \<exists>old. es = old @ fst (trim_ring es bytes)
     \<and> snd (trim_ring es bytes) = ring_bytes (fst (trim_ring es bytes))
     \<and> length (fst (trim_ring es bytes)) \<le> live_ring_lines
     \<and> snd (trim_ring es bytes) \<le> live_ring_bytes"
proof (induction es bytes rule: trim_ring.induct)
  case (2 e es bytes)
  show ?case
  proof (cases "length (e # es) > live_ring_lines \<or> bytes > live_ring_bytes")
    case True
    have "bytes - event_bytes e = ring_bytes es" using 2(2) by simp
    from 2(1) [OF True this] obtain old where "es = old @ fst (trim_ring es (bytes - event_bytes e))"
      and rest: "snd (trim_ring es (bytes - event_bytes e)) = ring_bytes (fst (trim_ring es (bytes - event_bytes e)))"
        "length (fst (trim_ring es (bytes - event_bytes e))) \<le> live_ring_lines"
        "snd (trim_ring es (bytes - event_bytes e)) \<le> live_ring_bytes" by blast
    moreover have "trim_ring (e # es) bytes = trim_ring es (bytes - event_bytes e)"
      using True by (simp only: trim_ring.simps if_True)
    ultimately show ?thesis by (intro exI [of _ "e # old"]) simp
  next
    case False
    then have "trim_ring (e # es) bytes = (e # es, bytes)" by (simp only: trim_ring.simps if_False)
    then show ?thesis using False 2(2) by auto
  qed
qed (simp add: live_ring_lines_def live_ring_bytes_def)

section \<open>The invariant\<close>

definition service_ok :: "u64 \<Rightarrow> live_service \<Rightarrow> bool" where
  "service_ok n s \<longleftrightarrow> ring_ok n (ls_ring s) \<and> ls_ring_bytes s = ring_bytes (ls_ring s)
     \<and> length (ls_ring s) \<le> live_ring_lines \<and> ls_ring_bytes s \<le> live_ring_bytes
     \<and> bt_invar (ls_subscribers s) \<and> length (ls_subscribers s) \<le> max_live_subscribers
     \<and> (\<forall>(k, u) \<in> set (ls_subscribers s). length (sub_queue u) \<le> live_subscriber_queue)"

definition partials_ok :: "live_service \<Rightarrow> bool" where
  "partials_ok s \<longleftrightarrow> length (ls_stdout_partial s) < max_partial_line_bytes
     \<and> length (ls_stderr_partial s) < max_partial_line_bytes"

definition hub_ok :: "live_hub \<Rightarrow> bool" where
  "hub_ok hub \<longleftrightarrow> bt_invar (lh_services hub)
     \<and> (\<forall>sid s. bt_get (lh_services hub) sid = Some s \<longrightarrow> service_ok (lh_next_sequence hub) s \<and> partials_ok s)"

lemma service_ok_mono: "service_ok n s \<Longrightarrow> n \<le> n' \<Longrightarrow> service_ok n' s"
  by (auto simp: service_ok_def intro: ring_ok_mono)

lemma push_ring_ok:
  assumes "service_ok n s" and "le_sequence e = Some (saturating_add n 1)"
  shows "service_ok (saturating_add n 1) (push_ring e s)"
    and "ls_subscribers (push_ring e s) = ls_subscribers s"
    and "partials_ok (push_ring e s) = partials_ok s"
    and "\<exists>old. ls_ring s @ [e] = old @ ls_ring (push_ring e s)"
proof -
  let ?t = "trim_ring (ls_ring s @ [e]) (ls_ring_bytes s + event_bytes e)"
  obtain ring bytes where t: "?t = (ring, bytes)" by (cases ?t)
  have "ls_ring_bytes s + event_bytes e = ring_bytes (ls_ring s @ [e])"
    using assms(1) by (simp add: service_ok_def)
  from trim_ring_spec [OF this] obtain old where ring: "ls_ring s @ [e] = old @ ring" "bytes = ring_bytes ring"
    "length ring \<le> live_ring_lines" "bytes \<le> live_ring_bytes" by (auto simp: t)
  have "ring_ok n (ls_ring s)" using assms(1) by (simp add: service_ok_def)
  from ring_ok_snoc [OF this assms(2)] have "ring_ok (saturating_add n 1) ring"
    unfolding ring(1) by (rule ring_ok_suffix)
  moreover have push: "push_ring e s = s\<lparr>ls_ring := ring, ls_ring_bytes := bytes\<rparr>"
    by (simp add: push_ring_def t)
  ultimately show "service_ok (saturating_add n 1) (push_ring e s)"
    using assms(1) ring(2-4) by (simp add: service_ok_def)
  show "ls_subscribers (push_ring e s) = ls_subscribers s" "partials_ok (push_ring e s) = partials_ok s"
    "\<exists>old. ls_ring s @ [e] = old @ ls_ring (push_ring e s)"
    using ring(1) by (auto simp: push partials_ok_def)
qed

lemma try_send_queue:
  "length (sub_queue u) \<le> live_subscriber_queue \<Longrightarrow>
     length (sub_queue (snd (try_send e u))) \<le> live_subscriber_queue"
  by (simp add: try_send_def)

lemma send_event_queue:
  "length (sub_queue u) \<le> live_subscriber_queue \<Longrightarrow>
     length (sub_queue (snd (send_event e u))) \<le> live_subscriber_queue"
  using try_send_queue [of u e] by (auto simp: send_event_def split: prod.splits send_result.splits)

lemma offer_queue:
  assumes "length (sub_queue u) \<le> live_subscriber_queue"
  shows "length (sub_queue (snd (offer now e u))) \<le> live_subscriber_queue"
  using assms send_event_queue [of u e]
    send_event_queue [of "snd (try_send (gap_event now e (sub_dropped u)) u)\<lparr>sub_dropped := 0\<rparr>" e]
    try_send_queue [of u "gap_event now e (sub_dropped u)"]
  by (auto simp: offer_def split: option.splits prod.splits send_result.splits)

lemma fold_remove_filter: "fold bt_remove ks m = filter (\<lambda>p. fst p \<notin> set ks) m"
  by (induction ks arbitrary: m) (auto simp: bt_remove_def intro!: filter_cong)

lemma publish_event_subscribers:
  "ls_subscribers (publish_event now e s) = filter (\<lambda>p. fst p \<notin> fst ` {q \<in> set (ls_subscribers s). fst (offer now e (snd q))})
     (map (\<lambda>(k, u). (k, snd (offer now e u))) (ls_subscribers (push_ring e s)))"
  if "ls_subscribers (push_ring e s) = ls_subscribers s"
proof -
  have gone: "fst ` {x \<in> (\<lambda>x. (fst x, offer now e (snd x))) ` S. fst (snd x)}
      = fst ` {q \<in> S. fst (offer now e (snd q))}" for S :: "(u64 \<times> live_subscriber) set"
    by force
  show ?thesis
    using that by (simp add: publish_event_def Let_def fold_remove_filter comp_def case_prod_unfold gone)
qed

lemma publish_event_ok:
  assumes "service_ok n s" and "le_sequence e = Some (saturating_add n 1)"
  shows "service_ok (saturating_add n 1) (publish_event now e s)"
    and "partials_ok (publish_event now e s) = partials_ok s"
    and "\<exists>old. ls_ring s @ [e] = old @ ls_ring (publish_event now e s)"
proof -
  note push = push_ring_ok [OF assms]
  let ?subs = "ls_subscribers (publish_event now e s)"
  have subs: "?subs = filter (\<lambda>p. fst p \<notin> fst ` {q \<in> set (ls_subscribers s). fst (offer now e (snd q))})
     (map (\<lambda>(k, u). (k, snd (offer now e u))) (ls_subscribers s))"
    using publish_event_subscribers [OF push(2)] by (simp add: push(2))
  have same: "ls_ring (publish_event now e s) = ls_ring (push_ring e s)"
    "ls_ring_bytes (publish_event now e s) = ls_ring_bytes (push_ring e s)"
    "partials_ok (publish_event now e s) = partials_ok (push_ring e s)"
    by (simp_all add: publish_event_def Let_def partials_ok_def)
  have ok: "bt_invar (ls_subscribers s)" "length (ls_subscribers s) \<le> max_live_subscribers"
    "\<forall>(k, u) \<in> set (ls_subscribers s). length (sub_queue u) \<le> live_subscriber_queue"
    using assms(1) by (simp_all add: service_ok_def)
  have "bt_invar ?subs"
    using ok(1) unfolding subs bt_invar_def
    by (simp add: sorted_wrt_map sorted_wrt_filter case_prod_unfold)
  moreover have "length ?subs \<le> max_live_subscribers"
    using ok(2) unfolding subs by (metis (no_types, lifting) length_filter_le length_map order_trans)
  moreover have "\<forall>(k, u) \<in> set ?subs. length (sub_queue u) \<le> live_subscriber_queue"
    using ok(3) offer_queue unfolding subs by fastforce
  ultimately show "service_ok (saturating_add n 1) (publish_event now e s)"
    using push(1) same(1,2) unfolding service_ok_def by simp
  show "partials_ok (publish_event now e s) = partials_ok s"
    "\<exists>old. ls_ring s @ [e] = old @ ls_ring (publish_event now e s)"
    using push same by simp_all
qed

lemma publish_lines_ok:
  "service_ok n s \<Longrightarrow> publish_lines now hub sid stream ts (n, s) = (n', s') \<Longrightarrow>
     service_ok n' s' \<and> partials_ok s' = partials_ok s \<and> n \<le> n'"
proof (induction ts arbitrary: n s)
  case (Cons t ts)
  let ?n = "saturating_add n 1" and ?e = "line_event now hub sid stream (saturating_add n 1) t"
  have e: "le_sequence ?e = Some ?n" by (simp add: line_event_def)
  have "publish_lines now hub sid stream ts (?n, publish_event now ?e s) = (n', s')"
    using Cons.prems(2) by (simp add: Let_def)
  then show ?case
    using Cons.IH [OF publish_event_ok(1) [OF Cons.prems(1) e]] publish_event_ok(2) [OF Cons.prems(1) e]
      saturating_add_mono [of n 1] by (auto intro: order_trans)
qed simp

section \<open>Lines\<close>

lemma split_lines_newline:
  assumes "newline \<notin> set l"
  shows "split_lines (l @ newline # p) =
    (utf8_lossy (strip_cr l) # fst (split_lines p), snd (split_lines p))"
proof -
  have "takeWhile (\<lambda>c. c \<noteq> newline) (l @ newline # p) = l"
    "dropWhile (\<lambda>c. c \<noteq> newline) (l @ newline # p) = newline # p"
    using assms by (auto simp: takeWhile_append dropWhile_append)
  then show ?thesis by (subst split_lines.simps) (simp add: case_prod_unfold)
qed

lemma split_lines_long:
  "newline \<notin> set p \<Longrightarrow> max_partial_line_bytes \<le> length p \<Longrightarrow>
    split_lines p = (truncated_line (take max_partial_line_bytes p)
      # fst (split_lines (drop max_partial_line_bytes p)), snd (split_lines (drop max_partial_line_bytes p)))"
  by (subst split_lines.simps) (simp add: case_prod_unfold)

lemma split_lines_short:
  "newline \<notin> set p \<Longrightarrow> length p < max_partial_line_bytes \<Longrightarrow> split_lines p = ([], p)"
  by (subst split_lines.simps) simp

text \<open>The three turns of the loop, as an induction.\<close>

lemma split_lines_induct [case_names newline long short]:
  assumes line: "\<And>l p. newline \<notin> set l \<Longrightarrow> P p \<Longrightarrow> P (l @ newline # p)"
    and long: "\<And>p. newline \<notin> set p \<Longrightarrow> max_partial_line_bytes \<le> length p \<Longrightarrow>
      P (drop max_partial_line_bytes p) \<Longrightarrow> P p"
    and short: "\<And>p. newline \<notin> set p \<Longrightarrow> length p < max_partial_line_bytes \<Longrightarrow> P p"
  shows "P p"
proof (induction "length p" arbitrary: p rule: less_induct)
  case less
  show ?case
  proof (cases "newline \<in> set p")
    case True
    then obtain l q where "p = l @ newline # q" "newline \<notin> set l" using split_list_first by metis
    then show ?thesis using line [of l q] less by simp
  next
    case False
    then show ?thesis
      using long [of p] short [of p] less
      by (cases "max_partial_line_bytes \<le> length p") (auto simp: max_partial_line_bytes_def)
  qed
qed

lemma split_lines_rest: "newline \<notin> set (snd (split_lines p)) \<and> length (snd (split_lines p)) < max_partial_line_bytes"
  by (induction p rule: split_lines_induct) (simp_all add: split_lines_newline split_lines_long split_lines_short)

text \<open>
  What has been split stays split: splitting more bytes continues from the rest, as long as no
  line is long enough to be truncated.
\<close>

fun short_lines :: "nat \<Rightarrow> string \<Rightarrow> bool" where
  "short_lines n [] \<longleftrightarrow> n < max_partial_line_bytes"
| "short_lines n (c # cs) \<longleftrightarrow>
     (if c = newline then short_lines 0 cs else n + 1 < max_partial_line_bytes \<and> short_lines (n + 1) cs)"

lemma short_lines_line:
  "newline \<notin> set l \<Longrightarrow> short_lines n (l @ newline # p) \<Longrightarrow> short_lines 0 p"
  by (induction l arbitrary: n) auto

lemma short_lines_length: "newline \<notin> set l \<Longrightarrow> short_lines n l \<Longrightarrow> n + length l < max_partial_line_bytes"
proof (induction l arbitrary: n)
  case (Cons c l)
  from Cons.IH [of "n + 1"] Cons.prems show ?case by (auto split: if_splits)
qed simp

lemma short_lines_prefix: "short_lines n (p @ q) \<Longrightarrow> n < max_partial_line_bytes \<Longrightarrow> short_lines n p"
  by (induction p arbitrary: n) (auto simp: max_partial_line_bytes_def split: if_splits)

lemma split_lines_append:
  "short_lines 0 (p @ q) \<Longrightarrow> split_lines (p @ q) =
     (fst (split_lines p) @ fst (split_lines (snd (split_lines p) @ q)), snd (split_lines (snd (split_lines p) @ q)))"
proof (induction p rule: split_lines_induct)
  case (newline l p)
  then have "short_lines 0 (p @ q)" using short_lines_line [of l 0 "p @ q"] by simp
  then show ?case using newline split_lines_newline [of l "p @ q"] by (simp add: split_lines_newline)
next
  case (long p)
  then have "short_lines 0 p" using short_lines_prefix by (metis max_partial_line_bytes_def zero_less_numeral)
  then show ?case using long short_lines_length [of p 0] by simp
next
  case (short p)
  then show ?case by (simp add: split_lines_short)
qed

section \<open>The hub\<close>

lemma service_ok_partial: "service_ok n (set_partial stream p s) = service_ok n s"
  by (cases stream) (simp_all add: service_ok_def)

lemma partials_ok_set:
  "partials_ok s \<Longrightarrow> length p < max_partial_line_bytes \<Longrightarrow> partials_ok (set_partial stream p s)"
  by (cases stream) (simp_all add: partials_ok_def)

lemma take_complete_ok:
  assumes "take_complete_lines stream close s = (ls, s')"
  shows "service_ok n s' = service_ok n s"
    and "(\<And>p. length p < max_partial_line_bytes \<Longrightarrow> partials_ok (set_partial stream p s)) \<Longrightarrow> partials_ok s'"
proof -
  have s': "s' = set_partial stream [] s \<or> s' = set_partial stream (snd (split_lines (partial_of stream s))) s"
    using assms by (auto simp: take_complete_lines_def split: prod.splits if_splits)
  then show "service_ok n s' = service_ok n s" using service_ok_partial by auto
  assume "\<And>p. length p < max_partial_line_bytes \<Longrightarrow> partials_ok (set_partial stream p s)"
  then show "partials_ok s'"
    using s' split_lines_rest [of "partial_of stream s"]
    by (auto simp: max_partial_line_bytes_def)
qed

lemma hub_okD:
  "hub_ok hub \<Longrightarrow> bt_get (lh_services hub) sid = Some s \<Longrightarrow> service_ok (lh_next_sequence hub) s \<and> partials_ok s"
  by (simp add: hub_ok_def)

lemma hub_ok_insert:
  assumes "hub_ok hub" and "service_ok n s" and "partials_ok s" and "lh_next_sequence hub \<le> n"
  shows "hub_ok (hub\<lparr>lh_next_sequence := n, lh_services := bt_insert sid s (lh_services hub)\<rparr>)"
  using assms by (auto simp: hub_ok_def intro: service_ok_mono)

lemma hub_ok_remove: "hub_ok hub \<Longrightarrow> hub_ok (hub\<lparr>lh_services := bt_remove sid (lh_services hub)\<rparr>)"
  by (auto simp: hub_ok_def)

lemma set_partial_twice [simp]: "set_partial stream p (set_partial stream q s) = set_partial stream p s"
  by (cases stream) simp_all

lemma emit_lines_ok:
  assumes "hub_ok hub" and "service_ok (lh_next_sequence hub) s"
    and "\<And>p. length p < max_partial_line_bytes \<Longrightarrow> partials_ok (set_partial stream p s)"
  shows "hub_ok (emit_lines now sid stream close s hub)"
proof -
  obtain ls s1 where t: "take_complete_lines stream close s = (ls, s1)" by (metis prod.exhaust)
  obtain n s2 where p: "publish_lines now (lh_instance_id hub) sid stream ls (lh_next_sequence hub, s1) = (n, s2)"
    by (metis prod.exhaust)
  have "service_ok (lh_next_sequence hub) s1" "partials_ok s1"
    using take_complete_ok [OF t] assms(2,3) by auto
  with publish_lines_ok [OF _ p] have "service_ok n s2" "partials_ok s2" "lh_next_sequence hub \<le> n" by auto
  with hub_ok_insert [OF hub_ok_remove [OF assms(1), of sid] this(1,2), of sid] show ?thesis
    by (simp add: emit_lines_def t p)
qed

lemma hub_publish_ok: "hub_ok hub \<Longrightarrow> hub_ok (hub_publish now sid stream bytes hub)"
proof (cases "bt_get (lh_services hub) sid")
  case (Some s)
  assume ok: "hub_ok hub"
  note s = hub_okD [OF ok Some]
  show ?thesis
    unfolding hub_publish_def Some option.case
    by (rule emit_lines_ok [OF ok]) (use s in \<open>auto simp: service_ok_partial partials_ok_set\<close>)
qed (simp add: hub_publish_def)

lemma hub_close_ok: "hub_ok hub \<Longrightarrow> hub_ok (hub_close_stream now sid stream hub)"
proof (cases "bt_get (lh_services hub) sid")
  case (Some s)
  assume ok: "hub_ok hub"
  note s = hub_okD [OF ok Some]
  show ?thesis
    unfolding hub_close_stream_def Some option.case
    by (rule emit_lines_ok [OF ok]) (use s in \<open>auto simp: partials_ok_set\<close>)
qed (simp add: hub_close_stream_def)

lemma hub_update_subscribers_ok:
  assumes "hub_ok hub" and "bt_get (lh_services hub) sid = Some s"
    and "bt_invar subs" and "length subs \<le> max_live_subscribers"
    and "\<forall>(k, u) \<in> set subs. length (sub_queue u) \<le> live_subscriber_queue"
  shows "hub_ok (hub\<lparr>lh_next_subscriber := k, lh_services := bt_insert sid (s\<lparr>ls_subscribers := subs\<rparr>) (lh_services hub)\<rparr>)"
proof -
  have "service_ok (lh_next_sequence hub) (s\<lparr>ls_subscribers := subs\<rparr>)" "partials_ok (s\<lparr>ls_subscribers := subs\<rparr>)"
    using hub_okD [OF assms(1,2)] assms(3-5) by (simp_all add: service_ok_def partials_ok_def)
  from hub_ok_insert [OF assms(1) this, of sid] show ?thesis by (simp add: hub_ok_def)
qed

lemma bt_insert_length: "length (bt_insert k v m) \<le> Suc (length m)"
  by (induction k v m rule: bt_insert.induct) auto

lemma bt_insert_set: "set (bt_insert k v m) \<subseteq> insert (k, v) (set m)"
  by (induction k v m rule: bt_insert.induct) auto

lemma hub_ok_subscriber_id: "hub_ok (hub\<lparr>lh_next_subscriber := k\<rparr>) = hub_ok hub"
  by (simp add: hub_ok_def)

lemma hub_subscribe_ok:
  assumes "hub_ok hub"
  shows "hub_ok (snd (hub_subscribe now sid selection tail cursor hub))"
proof (cases "bt_get (lh_services hub) sid")
  case None
  then show ?thesis using assms by (simp add: hub_subscribe_def Let_def hub_ok_subscriber_id)
next
  case (Some s)
  let ?k = "saturating_add (lh_next_subscriber hub) 1"
  let ?u = "\<lparr>sub_selection = selection, sub_queue = [], sub_connected = True, sub_dropped = 0\<rparr>"
  let ?subs = "bt_insert ?k ?u (ls_subscribers s)"
  have ok: "bt_invar (ls_subscribers s)"
    "\<forall>(k, u) \<in> set (ls_subscribers s). length (sub_queue u) \<le> live_subscriber_queue"
    using hub_okD [OF assms Some] by (simp_all add: service_ok_def)
  show ?thesis
  proof (cases "length (ls_subscribers s) \<ge> max_live_subscribers")
    case True
    then show ?thesis using assms Some by (simp add: hub_subscribe_def Let_def hub_ok_subscriber_id)
  next
    case False
    then have "length ?subs \<le> max_live_subscribers" using bt_insert_length [of ?k ?u "ls_subscribers s"] by simp
    moreover have "\<forall>(k, u) \<in> set ?subs. length (sub_queue u) \<le> live_subscriber_queue"
      using ok(2) bt_insert_set [of ?k ?u "ls_subscribers s"] by fastforce
    ultimately have "hub_ok (hub\<lparr>lh_next_subscriber := ?k,
        lh_services := bt_insert sid (s\<lparr>ls_subscribers := ?subs\<rparr>) (lh_services hub)\<rparr>)"
      using hub_update_subscribers_ok [OF assms Some] bt_insert_invar [OF ok(1)] by blast
    then show ?thesis using False Some by (simp add: hub_subscribe_def Let_def)
  qed
qed

lemma hub_unsubscribe_ok:
  assumes "hub_ok hub"
  shows "hub_ok (hub_unsubscribe sid k hub)"
proof (cases "bt_get (lh_services hub) sid")
  case (Some s)
  have "bt_invar (ls_subscribers s)" "length (ls_subscribers s) \<le> max_live_subscribers"
    "\<forall>(k, u) \<in> set (ls_subscribers s). length (sub_queue u) \<le> live_subscriber_queue"
    using hub_okD [OF assms Some] by (simp_all add: service_ok_def)
  then have "bt_invar (bt_remove k (ls_subscribers s))" "length (bt_remove k (ls_subscribers s)) \<le> max_live_subscribers"
    "\<forall>(k, u) \<in> set (bt_remove k (ls_subscribers s)). length (sub_queue u) \<le> live_subscriber_queue"
    by (simp_all add: bt.invar_remove) (auto simp: bt_remove_def intro: le_trans [OF length_filter_le])
  from hub_update_subscribers_ok [OF assms Some this, of "lh_next_subscriber hub"]
  show ?thesis by (simp add: hub_unsubscribe_def Some)
qed (simp add: hub_unsubscribe_def assms)

lemma replay_lines_ok:
  "service_ok n s \<Longrightarrow> partials_ok s \<Longrightarrow> replay_lines now hub sid ls (n, s) = (n', s') \<Longrightarrow>
     service_ok n' s' \<and> partials_ok s' \<and> n \<le> n'"
proof (induction ls arbitrary: n s)
  case (Cons l ls)
  obtain stream modified line where l: "l = (stream, modified, line)" by (cases l)
  let ?n = "saturating_add n 1"
  let ?e = "replayed_line_event now hub sid stream ?n line modified"
  have e: "le_sequence ?e = Some ?n" by (simp add: replayed_line_event_def line_event_def)
  have "replay_lines now hub sid ls (?n, push_ring ?e s) = (n', s')"
    using Cons.prems(3) by (simp add: Let_def l)
  then show ?case
    using Cons.IH [OF push_ring_ok(1) [OF Cons.prems(1) e]] push_ring_ok(3) [OF Cons.prems(1) e] Cons.prems(2)
      saturating_add_mono [of n 1] by (auto intro: order_trans)
qed simp

lemma live_service_new_ok: "service_ok n live_service_new" "partials_ok live_service_new"
  by (simp_all add: service_ok_def live_service_new_def ring_ok_def bt_empty_def bt_invar_def partials_ok_def
      max_partial_line_bytes_def)

lemma add_services_ok: "hub_ok hub \<Longrightarrow> hub_ok (add_services now new hub)"
proof (induction now new hub rule: add_services.induct)
  case (2 now sid lines rest hub)
  show ?case
  proof (cases "bt_get (lh_services hub) sid = None")
    case True
    obtain n s where r: "replay_lines now (lh_instance_id hub) sid lines (lh_next_sequence hub, live_service_new) = (n, s)"
      by (metis prod.exhaust)
    have "service_ok n s \<and> partials_ok s \<and> lh_next_sequence hub \<le> n"
      using replay_lines_ok [OF live_service_new_ok r] .
    then have "hub_ok (hub\<lparr>lh_next_sequence := n, lh_services := bt_insert sid s (lh_services hub)\<rparr>)"
      using hub_ok_insert 2(3) by blast
    then show ?thesis using 2(2) True r by simp
  next
    case False
    then show ?thesis using 2 by simp
  qed
qed simp

lemma hub_install_ok:
  assumes "hub_ok hub"
  shows "hub_ok (hub_install now sids preloaded hub)"
proof -
  have "hub_ok (hub\<lparr>lh_services := bt_retain (\<lambda>sid. sid \<in> set sids) (lh_services hub)\<rparr>)"
    using assms by (auto simp: hub_ok_def split: if_splits)
  then show ?thesis by (simp add: hub_install_def add_services_ok)
qed

section \<open>Histories\<close>

text \<open>
  A receiver takes the first event of its queue; its end of the channel can go away. A reconciliation
  installs what it preloaded for a hub of any earlier moment.
\<close>

definition hub_receiver :: "string \<Rightarrow> u64 \<Rightarrow> (live_subscriber \<Rightarrow> live_subscriber) \<Rightarrow> live_hub \<Rightarrow> live_hub" where
  "hub_receiver sid k f hub = (case bt_get (lh_services hub) sid of
      None \<Rightarrow> hub
    | Some s \<Rightarrow> hub\<lparr>lh_services := bt_insert sid
        (s\<lparr>ls_subscribers := map (\<lambda>(j, u). (j, if j = k then f u else u)) (ls_subscribers s)\<rparr>) (lh_services hub)\<rparr>)"

definition receive_one :: "live_subscriber \<Rightarrow> live_subscriber" where
  "receive_one u = u\<lparr>sub_queue := tl (sub_queue u)\<rparr>"

definition hang_up :: "live_subscriber \<Rightarrow> live_subscriber" where
  "hang_up u = u\<lparr>sub_connected := False\<rparr>"

inductive live_reach :: "live_hub \<Rightarrow> bool" where
  new: "live_reach (live_hub_new hub)"
| publish: "live_reach hub \<Longrightarrow> live_reach (hub_publish now sid stream bytes hub)"
| close: "live_reach hub \<Longrightarrow> live_reach (hub_close_stream now sid stream hub)"
| subscribe: "live_reach hub \<Longrightarrow> live_reach (snd
    (hub_subscribe now sid selection tail cursor hub :: (string service_log_error + u64 \<times> live_event list) \<times> live_hub))"
| unsubscribe: "live_reach hub \<Longrightarrow> live_reach (hub_unsubscribe sid k hub)"
| install: "live_reach hub \<Longrightarrow>
    live_reach (hub_install now sids (hub_preload (files :: string \<Rightarrow> log_stream \<Rightarrow> string log_file) sids earlier) hub)"
| receive: "live_reach hub \<Longrightarrow> live_reach (hub_receiver sid k receive_one hub)"
| hang_up: "live_reach hub \<Longrightarrow> live_reach (hub_receiver sid k hang_up hub)"

lemma hub_receiver_ok:
  assumes "hub_ok hub" and "\<And>u. length (sub_queue (f u)) \<le> length (sub_queue u)"
  shows "hub_ok (hub_receiver sid k f hub)"
proof (cases "bt_get (lh_services hub) sid")
  case (Some s)
  let ?subs = "map (\<lambda>(j, u). (j, if j = k then f u else u)) (ls_subscribers s)"
  have ok: "bt_invar (ls_subscribers s)" "length (ls_subscribers s) \<le> max_live_subscribers"
    "\<forall>(k, u) \<in> set (ls_subscribers s). length (sub_queue u) \<le> live_subscriber_queue"
    using hub_okD [OF assms(1) Some] by (simp_all add: service_ok_def)
  have "bt_invar ?subs" using ok(1) by (simp add: bt_invar_def comp_def case_prod_unfold)
  moreover have "length ?subs \<le> max_live_subscribers" using ok(2) by simp
  moreover have "\<forall>(k, u) \<in> set ?subs. length (sub_queue u) \<le> live_subscriber_queue"
    using ok(3) assms(2) by (fastforce intro: order_trans)
  ultimately have "hub_ok (hub\<lparr>lh_next_subscriber := lh_next_subscriber hub,
      lh_services := bt_insert sid (s\<lparr>ls_subscribers := ?subs\<rparr>) (lh_services hub)\<rparr>)"
    by (rule hub_update_subscribers_ok [OF assms(1) Some])
  then show ?thesis by (simp add: hub_receiver_def Some)
qed (simp add: hub_receiver_def assms)

lemma live_reach_ok: "live_reach hub \<Longrightarrow> hub_ok hub"
proof (induction rule: live_reach.induct)
  case (new hub)
  then show ?case by (simp add: hub_ok_def live_hub_new_def bt_empty_def bt_invar_def bt_get_def)
next
  case (receive hub sid k)
  then show ?case by (intro hub_receiver_ok) (simp_all add: receive_one_def)
next
  case (hang_up hub sid k)
  then show ?case by (intro hub_receiver_ok) (simp_all add: hang_up_def)
qed (simp_all add: hub_publish_ok hub_close_ok hub_subscribe_ok hub_unsubscribe_ok hub_install_ok)

end
