(* ===== verification/Live_Log_Properties.thy ===== *)
theory Live_Log_Properties
  imports Live_Log_Facts "HOL-Library.Code_Target_Nat"
begin

text \<open>The properties of the live-log hub, each with a concrete instance.\<close>

section \<open>Accounting for a subscriber\<close>

definition weight :: "live_event \<Rightarrow> nat" where
  "weight e = (case le_kind e of
      KindLine \<Rightarrow> 1
    | KindGap \<Rightarrow> (case le_dropped e of None \<Rightarrow> 0 | Some d \<Rightarrow> unat d)
    | _ \<Rightarrow> 0)"

abbreviation weights :: "live_event list \<Rightarrow> nat" where
  "weights es \<equiv> sum_list (map weight es)"

definition wanted :: "live_selection \<Rightarrow> live_event \<Rightarrow> bool" where
  "wanted selection e = (case le_stream e of None \<Rightarrow> False | Some stream \<Rightarrow> sel_includes selection stream)"

text \<open>What one subscriber sees: events are published to it and it takes events from its queue.\<close>

datatype client_step = Publish live_event | Take

fun client_run ::
  "(u64 \<Rightarrow> u64) \<Rightarrow> client_step list \<Rightarrow> live_subscriber \<times> live_event list \<Rightarrow> live_subscriber \<times> live_event list" where
  "client_run now [] st = st"
| "client_run now (Publish e # cs) (u, got) = client_run now cs (snd (offer now e u), got)"
| "client_run now (Take # cs) (u, got) = (case sub_queue u of
      [] \<Rightarrow> client_run now cs (u, got)
    | e # es \<Rightarrow> client_run now cs (u\<lparr>sub_queue := es\<rparr>, got @ [e]))"

definition published :: "live_selection \<Rightarrow> client_step list \<Rightarrow> live_event list" where
  "published selection cs = concat (map (\<lambda>c. case c of
      Publish e \<Rightarrow> if wanted selection e then [e] else [] | Take \<Rightarrow> []) cs)"

abbreviation lines_of :: "live_event list \<Rightarrow> live_event list" where
  "lines_of \<equiv> filter (\<lambda>e. le_kind e = KindLine)"

lemma saturating_small: "unat d + 1 < 2 ^ 64 \<Longrightarrow> unat (saturating_add (d :: u64) 1) = unat d + 1"
  by (simp add: unat_saturating_add)

abbreviation full :: "live_subscriber \<Rightarrow> bool" where
  "full u \<equiv> live_subscriber_queue \<le> length (sub_queue u)"

lemma try_send_full:
  "sub_connected u \<Longrightarrow> try_send e u = (if full u then (SendFull, u) else (SendOk, u\<lparr>sub_queue := sub_queue u @ [e]\<rparr>))"
  by (simp add: try_send_def)

lemma send_event_full:
  "sub_connected u \<Longrightarrow> send_event e u = (False, if full u then u\<lparr>sub_dropped := saturating_add (sub_dropped u) 1\<rparr>
     else u\<lparr>sub_queue := sub_queue u @ [e]\<rparr>)"
  by (simp add: send_event_def try_send_full)

lemma offer_account:
  assumes "le_kind e = KindLine" and "sub_connected u" and "unat (sub_dropped u) + 1 < 2 ^ 64"
  shows "sub_connected (snd (offer now e u)) \<and> \<not> fst (offer now e u)
    \<and> sub_selection (snd (offer now e u)) = sub_selection u
    \<and> weights (sub_queue (snd (offer now e u))) + unat (sub_dropped (snd (offer now e u)))
      = weights (sub_queue u) + unat (sub_dropped u) + (if wanted (sub_selection u) e then 1 else 0)
    \<and> (lines_of (sub_queue (snd (offer now e u))) = lines_of (sub_queue u)
       \<or> wanted (sub_selection u) e \<and> lines_of (sub_queue (snd (offer now e u))) = lines_of (sub_queue u) @ [e])"
proof (cases "wanted (sub_selection u) e")
  case False
  then show ?thesis
    using assms(2) by (auto simp: offer_def wanted_def split: option.splits)
next
  case True
  then obtain stream where stream: "le_stream e = Some stream" "sel_includes (sub_selection u) stream"
    by (auto simp: wanted_def split: option.splits)
  have one: "weight e = 1" using assms(1) by (simp add: weight_def)
  have gap_facts: "weight (gap_event now e d) = unat d" "le_kind (gap_event now e d) = KindGap" for d
    by (simp_all add: gap_event_def weight_def)
  let ?more = "unat (saturating_add (sub_dropped u) 1) = unat (sub_dropped u) + 1"
  have more: ?more by (rule saturating_small [OF assms(3)])
  let ?gap = "gap_event now e (sub_dropped u)"
  consider (room) "sub_dropped u = 0" "\<not> full u" | (full) "full u"
    | (gap) "sub_dropped u > 0" "\<not> full u" "\<not> full (u\<lparr>sub_queue := sub_queue u @ [?gap], sub_dropped := 0\<rparr>)"
    | (gap_full) "sub_dropped u > 0" "\<not> full u" "full (u\<lparr>sub_queue := sub_queue u @ [?gap], sub_dropped := 0\<rparr>)"
    by (metis word_gt_0)
  then show ?thesis
  proof cases
    case room
    then have "offer now e u = (False, u\<lparr>sub_queue := sub_queue u @ [e]\<rparr>)"
      using stream assms(2) by (simp add: offer_def send_event_full)
    then show ?thesis using True one assms(1,2) by simp
  next
    case full
    then have "offer now e u = (False, u\<lparr>sub_dropped := saturating_add (sub_dropped u) 1\<rparr>)"
      using stream assms(2) by (simp add: offer_def send_event_full try_send_full)
    then show ?thesis using True more assms(2) by simp
  next
    case gap
    then have "offer now e u = (False, u\<lparr>sub_queue := sub_queue u @ [?gap, e], sub_dropped := 0\<rparr>)"
      using stream assms(2) by (simp add: offer_def send_event_full try_send_full)
    then show ?thesis using True one gap assms(1,2) gap_facts by simp
  next
    case gap_full
    then have "offer now e u = (False, u\<lparr>sub_queue := sub_queue u @ [?gap], sub_dropped := saturating_add 0 1\<rparr>)"
      using stream assms(2) by (simp add: offer_def send_event_full try_send_full)
    then show ?thesis
      using True gap_full assms(2) gap_facts saturating_small [of 0] by simp
  qed
qed

lemma client_run_account:
  assumes "\<forall>e. Publish e \<in> set cs \<longrightarrow> le_kind e = KindLine"
    and "sub_connected u" and "weights (sub_queue u) + unat (sub_dropped u) + length cs < 2 ^ 64"
    and "client_run now cs (u, got) = (u', got')"
  shows "weights got' + weights (sub_queue u') + unat (sub_dropped u')
      = weights got + weights (sub_queue u) + unat (sub_dropped u) + length (published (sub_selection u) cs)
    \<and> (\<exists>more. subseq more (published (sub_selection u) cs)
        \<and> lines_of got' @ lines_of (sub_queue u') = (lines_of got @ lines_of (sub_queue u)) @ more)"
  using assms
proof (induction cs arbitrary: u got)
  case Nil
  then show ?case by (auto simp: published_def)
next
  case (Cons c cs)
  show ?case
  proof (cases c)
    case (Publish e)
    let ?u = "snd (offer now e u)"
    have line: "le_kind e = KindLine" using Cons.prems(1) Publish list.set_intros(1) by metis
    have small: "unat (sub_dropped u) + 1 < 2 ^ 64" using Cons.prems(3) by simp
    note acc = offer_account [OF line Cons.prems(2) small, of now]
    have sum: "weights (sub_queue ?u) + unat (sub_dropped ?u)
      = weights (sub_queue u) + unat (sub_dropped u) + (if wanted (sub_selection u) e then 1 else 0)"
      using acc by blast
    have lt: "weights (sub_queue ?u) + unat (sub_dropped ?u) + length cs < 2 ^ 64"
      using sum Cons.prems(3) by simp
    have run: "client_run now cs (?u, got) = (u', got')" using Cons.prems(4) Publish by simp
    have lines: "\<forall>e. Publish e \<in> set cs \<longrightarrow> le_kind e = KindLine"
      using Cons.prems(1) list.set_intros(2) by metis
    have pub: "published (sub_selection u) (c # cs)
        = (if wanted (sub_selection u) e then [e] else []) @ published (sub_selection u) cs"
      by (simp add: published_def Publish)
    obtain more where ih: "weights got' + weights (sub_queue u') + unat (sub_dropped u')
        = weights got + weights (sub_queue ?u) + unat (sub_dropped ?u) + length (published (sub_selection u) cs)"
      "subseq more (published (sub_selection u) cs)"
      "lines_of got' @ lines_of (sub_queue u') = (lines_of got @ lines_of (sub_queue ?u)) @ more"
      using Cons.IH [OF lines _ lt run] acc by auto
    have total: "weights got' + weights (sub_queue u') + unat (sub_dropped u')
      = weights got + weights (sub_queue u) + unat (sub_dropped u) + length (published (sub_selection u) (c # cs))"
      using ih(1) sum unfolding pub by simp
    consider "lines_of (sub_queue ?u) = lines_of (sub_queue u)"
      | "wanted (sub_selection u) e" "lines_of (sub_queue ?u) = lines_of (sub_queue u) @ [e]"
      using acc by blast
    then have "\<exists>more. subseq more (published (sub_selection u) (c # cs))
        \<and> lines_of got' @ lines_of (sub_queue u') = (lines_of got @ lines_of (sub_queue u)) @ more"
    proof cases
      case 1
      then show ?thesis using ih(2,3) unfolding pub by (intro exI [of _ more]) (simp add: list_emb_append2)
    next
      case 2
      then show ?thesis using ih(2,3) unfolding pub by (intro exI [of _ "e # more"]) simp
    qed
    then show ?thesis using total by blast
  next
    case Take
    have pub: "published (sub_selection u) (c # cs) = published (sub_selection u) cs"
      by (simp add: published_def Take)
    have lines: "\<forall>e. Publish e \<in> set cs \<longrightarrow> le_kind e = KindLine"
      using Cons.prems(1) list.set_intros(2) by metis
    show ?thesis
    proof (cases "sub_queue u")
      case Nil
      then show ?thesis using Cons.IH [OF lines Cons.prems(2), of got] Cons.prems(3,4) Take unfolding pub by simp
    next
      case (Cons q qs)
      have "client_run now cs (u\<lparr>sub_queue := qs\<rparr>, got @ [q]) = (u', got')"
        using Cons.prems(4) Take Cons by simp
      with Cons.IH [OF lines, of "u\<lparr>sub_queue := qs\<rparr>" "got @ [q]"] Cons.prems(2,3) Cons
      show ?thesis unfolding pub by (cases "le_kind q = KindLine") simp_all
    qed
  qed
qed

section \<open>Chunks\<close>

lemma publish_event_partial:
  "publish_event now e (set_partial stream p s) = set_partial stream p (publish_event now e s)"
  by (cases stream) (simp_all add: publish_event_def Let_def push_ring_def case_prod_unfold)

lemma publish_lines_partial:
  "publish_lines now hub sid stream ts (n, set_partial stream' p s) =
     (fst (publish_lines now hub sid stream ts (n, s)),
      set_partial stream' p (snd (publish_lines now hub sid stream ts (n, s))))"
  by (induction ts arbitrary: n s) (simp_all add: Let_def publish_event_partial)

lemma publish_lines_append:
  "publish_lines now hub sid stream (ts @ us) st = publish_lines now hub sid stream us
     (publish_lines now hub sid stream ts st)"
  by (induction ts arbitrary: st) (auto simp: Let_def)

lemma partial_of_set [simp]: "partial_of stream (set_partial stream p s) = p"
  by (cases stream) simp_all

lemma publish_lines_partial_of:
  "partial_of stream' (snd (publish_lines now hub sid stream ts (n, s))) = partial_of stream' s"
proof (induction ts arbitrary: n s)
  case (Cons t ts)
  have "partial_of stream' (publish_event now e s) = partial_of stream' s" for e
    by (cases stream') (simp_all add: publish_event_def Let_def push_ring_def case_prod_unfold)
  then show ?case using Cons by (simp add: Let_def)
qed simp

text \<open>The service and the counter after some bytes, as a function of the lines and the rest.\<close>

lemma emit_lines_split:
  "emit_lines now sid stream False (set_partial stream p s) hub =
    (case publish_lines now (lh_instance_id hub) sid stream (fst (split_lines p)) (lh_next_sequence hub, s) of
       (n, s') \<Rightarrow> hub\<lparr>lh_next_sequence := n,
          lh_services := bt_insert sid (set_partial stream (snd (split_lines p)) s')
            (bt_remove sid (lh_services hub))\<rparr>)"
  by (simp add: emit_lines_def take_complete_lines_def publish_lines_partial case_prod_unfold)

lemma bt_remove_insert:
  "bt_invar m \<Longrightarrow> bt_remove k (bt_insert k v (bt_remove k m)) = bt_remove k m"
  by (rule bt.entries_ext) (auto simp: fun_eq_iff)

lemma publish_chunks:
  assumes "hub_ok hub" and "bt_get (lh_services hub) sid = Some s"
    and "short_lines 0 (partial_of stream s @ b @ c)"
  shows "hub_publish now sid stream c (hub_publish now sid stream b hub) = hub_publish now sid stream (b @ c) hub"
proof -
  let ?p = "partial_of stream s @ b"
  let ?pub = "publish_lines now (lh_instance_id hub) sid stream"
  obtain n1 s1 where one: "?pub (fst (split_lines ?p)) (lh_next_sequence hub, s) = (n1, s1)" by (metis prod.exhaust)
  let ?s1 = "set_partial stream (snd (split_lines ?p)) s1"
  let ?hub1 = "hub\<lparr>lh_next_sequence := n1, lh_services := bt_insert sid ?s1 (bt_remove sid (lh_services hub))\<rparr>"
  have inv: "bt_invar (lh_services hub)" using assms(1) by (simp add: hub_ok_def)
  have first: "hub_publish now sid stream b hub = ?hub1"
    by (simp add: hub_publish_def assms(2) emit_lines_split one)
  have get: "bt_get (lh_services ?hub1) sid = Some ?s1" using inv by simp
  let ?q = "snd (split_lines ?p) @ c"
  have split: "split_lines (?p @ c) = (fst (split_lines ?p) @ fst (split_lines ?q), snd (split_lines ?q))"
    using split_lines_append [of ?p c] assms(3) by simp
  have "hub_publish now sid stream c ?hub1 =
      (case ?pub (fst (split_lines ?q)) (n1, s1) of
       (n, s') \<Rightarrow> hub\<lparr>lh_next_sequence := n,
          lh_services := bt_insert sid (set_partial stream (snd (split_lines ?q)) s') (bt_remove sid (lh_services hub))\<rparr>)"
    unfolding hub_publish_def get option.case emit_lines_split
    using inv by (simp add: emit_lines_def take_complete_lines_def publish_lines_partial case_prod_unfold bt_remove_insert)
  also have "\<dots> = hub_publish now sid stream (b @ c) hub"
    using split by (simp add: hub_publish_def assms(2) emit_lines_split publish_lines_append one)
  finally show ?thesis by (simp add: first)
qed

section \<open>Resuming\<close>

lemma replayable_matching:
  "lc_hub_instance_id c = lh_instance_id hub \<Longrightarrow> replayable hub selection tail (Some c) ring =
    filter (\<lambda>x. wanted selection x \<and> (case le_sequence x of None \<Rightarrow> False | Some n \<Rightarrow> lc_sequence c < n)) ring"
  by (simp add: replayable_def wanted_def)

lemma resume_exact:
  assumes "hub_ok hub" and "bt_get (lh_services hub) sid = Some s" and "ls_ring s = old @ e # newer"
    and "lh_next_sequence hub \<noteq> - 1"
  shows "replayable hub selection tail (Some \<lparr>lc_hub_instance_id = lh_instance_id hub, lc_sequence = seq_of e\<rparr>) (ls_ring s)
    = filter (wanted selection) newer"
proof -
  have "ring_ok (lh_next_sequence hub) (old @ e # newer)"
    using hub_okD [OF assms(1,2)] assms(3) by (simp add: service_ok_def)
  then have some: "\<forall>x \<in> set (old @ e # newer). le_sequence x \<noteq> None"
    and srt: "sorted_wrt (\<lambda>a b. seq_of a < seq_of b) (old @ e # newer)"
    using assms(4) by (auto simp: ring_ok_def)
  have older: "\<forall>x \<in> set old. \<not> seq_of e < seq_of x" and later: "\<forall>x \<in> set newer. seq_of e < seq_of x"
    using srt by (auto simp: sorted_wrt_append)
  have same: "(case le_sequence x of None \<Rightarrow> False | Some n \<Rightarrow> c < n) = (c < seq_of x)"
    if "le_sequence x \<noteq> None" for x and c :: u64
    using that by (cases "le_sequence x") (simp_all add: seq_of_def)
  have keep: "filter (\<lambda>x. wanted selection x \<and> (case le_sequence x of None \<Rightarrow> False | Some n \<Rightarrow> seq_of e < n)) (old @ e # newer)
      = filter (\<lambda>x. wanted selection x \<and> seq_of e < seq_of x) (old @ e # newer)"
  proof (rule filter_cong [OF refl])
    fix x
    assume "x \<in> set (old @ e # newer)"
    then have "le_sequence x \<noteq> None" using some by blast
    from same [OF this, of "seq_of e"]
    show "(wanted selection x \<and> (case le_sequence x of None \<Rightarrow> False | Some n \<Rightarrow> seq_of e < n))
        = (wanted selection x \<and> seq_of e < seq_of x)" by simp
  qed
  have "filter (\<lambda>x. wanted selection x \<and> seq_of e < seq_of x) old = []"
    using older by (auto simp: filter_empty_conv)
  moreover have "filter (\<lambda>x. wanted selection x \<and> seq_of e < seq_of x) newer = filter (wanted selection) newer"
    using later by (auto intro!: filter_cong)
  moreover have "\<not> seq_of e < seq_of e" by simp
  ultimately have "filter (\<lambda>x. wanted selection x \<and> seq_of e < seq_of x) (old @ e # newer) = filter (wanted selection) newer"
    by simp
  then show ?thesis
    using replayable_matching [of "\<lparr>lc_hub_instance_id = lh_instance_id hub, lc_sequence = seq_of e\<rparr>" hub selection tail
        "old @ e # newer"] keep assms(3) by (simp only: live_cursor.select_convs)
qed

section \<open>A concrete hub\<close>

definition demo_hub :: live_hub where
  "demo_hub = \<lparr>lh_instance_id = ''h'', lh_next_sequence = 0, lh_next_subscriber = 0,
     lh_services = [(''s'', live_service_new)]\<rparr>"

lemma demo_hub_reach: "live_reach demo_hub"
proof -
  let ?files = "\<lambda>(sid :: string) (stream :: log_stream). \<lparr>lf_meta = MetaMissing, lf_read = Inr [], lf_modified = None\<rparr> :: string log_file"
  let ?new = "live_hub_new ''h''"
  have "hub_install (\<lambda>_. 0) [''s''] (hub_preload ?files [''s''] ?new) ?new = demo_hub"
    by (simp add: hub_install_def hub_preload_def Let_def live_hub_new_def preload_service_def read_tail_lines_def
        demo_hub_def bt_empty_def bt_keys_def bt_retain_def bt_get_def modified_le_def utf8_lossy.simps)
  then show ?thesis using live_reach.install [OF live_reach.new, of "\<lambda>_. 0" "[''s'']" ?files ?new "''h''"] by simp
qed

definition demo_line :: live_event where
  "demo_line = line_event (\<lambda>_. 0) ''h'' ''s'' LogStdout 1 ''a''"

definition demo_service :: live_service where
  "demo_service = live_service_new\<lparr>ls_ring := [demo_line], ls_ring_bytes := 1\<rparr>"

lemma demo_publish:
  "hub_publish (\<lambda>_. 0) ''s'' LogStdout [CHR ''a'', newline] demo_hub
    = demo_hub\<lparr>lh_next_sequence := 1, lh_services := [(''s'', demo_service)]\<rparr>"
  by code_simp

section \<open>Properties\<close>

text \<open>C38: The memory of the hub is bounded: in every history of output, subscriptions, reconciliations
  and slow readers each service keeps at most 1000 events of at most 1 MiB of text, less than
  64 KiB of each unfinished line, and at most 8 subscribers with at most 256 queued events.\<close>

theorem live_hub_bounded:
  assumes "live_reach hub" and "bt_get (lh_services hub) sid = Some s"
  shows "length (ls_ring s) \<le> 1000 \<and> sum_list (map event_bytes (ls_ring s)) \<le> 2 ^ 20
    \<and> length (ls_stdout_partial s) < 2 ^ 16 \<and> length (ls_stderr_partial s) < 2 ^ 16
    \<and> length (ls_subscribers s) \<le> 8
    \<and> list_all (\<lambda>(k, u). length (sub_queue u) \<le> 256) (ls_subscribers s)"
  using hub_okD [OF live_reach_ok [OF assms(1)] assms(2)]
  by (auto simp: service_ok_def partials_ok_def live_ring_lines_def live_ring_bytes_def
      max_partial_line_bytes_def max_live_subscribers_def live_subscriber_queue_def list_all_iff)

lemma live_hub_bounded_witness:
  "length (ls_ring demo_service) \<le> 1000 \<and> length (ls_subscribers demo_service) \<le> 8"
proof -
  have reach: "live_reach (hub_publish (\<lambda>_. 0) ''s'' LogStdout [CHR ''a'', newline] demo_hub)"
    by (rule live_reach.publish [OF demo_hub_reach])
  have "bt_get (lh_services (hub_publish (\<lambda>_. 0) ''s'' LogStdout [CHR ''a'', newline] demo_hub)) ''s'' = Some demo_service"
    by (simp add: demo_publish bt_get_def)
  from live_hub_bounded [OF reach this] show ?thesis by blast
qed

text \<open>The way output is cut into reads does not matter: publishing two chunks one after the other
  leaves the hub exactly as publishing them as one, as long as no line is so long that it is
  truncated.\<close>

lemma live_chunks_irrelevant:
  assumes "live_reach hub" and "bt_get (lh_services hub) sid = Some s"
    and "short_lines 0 (partial_of stream s @ b @ c)"
  shows "hub_publish now sid stream c (hub_publish now sid stream b hub) = hub_publish now sid stream (b @ c) hub"
  by (rule publish_chunks [OF live_reach_ok [OF assms(1)] assms(2,3)])

text \<open>C39: No silent loss: whatever a subscriber with a selection is sent and however slowly it reads,
  the lines it has taken and has queued, the lines announced by gap events it took or has queued, and
  the lines counted as dropped for the next gap event are together exactly the lines of its selection
  that were published, and the lines it gets are in the order they were published. The count is only
  announced when a further line is published.\<close>

theorem live_no_silent_loss:
  assumes "\<forall>e. Publish e \<in> set cs \<longrightarrow> le_kind e = KindLine" and "length cs < 2 ^ 64"
    and "client_run now cs (\<lparr>sub_selection = selection, sub_queue = [], sub_connected = True, sub_dropped = 0\<rparr>, [])
      = (u, got)"
  shows "sum_list (map weight (got @ sub_queue u)) + unat (sub_dropped u) = length (published selection cs)
    \<and> subseq (filter (\<lambda>e. le_kind e = KindLine) (got @ sub_queue u)) (published selection cs)"
  using client_run_account [OF assms(1) _ _ assms(3)] assms(2) by auto

lemma live_no_silent_loss_witness:
  "\<exists>u got. client_run (\<lambda>_. 0) [Publish demo_line, Take]
      (\<lparr>sub_selection = SelBoth, sub_queue = [], sub_connected = True, sub_dropped = 0\<rparr>, []) = (u, got)
    \<and> sum_list (map weight (got @ sub_queue u)) + unat (sub_dropped u) = length (published SelBoth [Publish demo_line, Take])
    \<and> subseq (filter (\<lambda>e. le_kind e = KindLine) (got @ sub_queue u)) (published SelBoth [Publish demo_line, Take])"
proof -
  obtain u got where run: "client_run (\<lambda>_. 0) [Publish demo_line, Take]
      (\<lparr>sub_selection = SelBoth, sub_queue = [], sub_connected = True, sub_dropped = 0\<rparr>, []) = (u, got)"
    by (metis prod.exhaust)
  have "\<forall>e. Publish e \<in> set [Publish demo_line, Take] \<longrightarrow> le_kind e = KindLine"
    by (simp add: demo_line_def line_event_def)
  from live_no_silent_loss [OF this _ run] run show ?thesis by auto
qed

text \<open>Resuming is exact: a client that subscribes again with the number of the last event it saw, while
  that event is still in the ring, is given exactly the later events of its selection, none twice
  and none missing.\<close>

lemma live_resume_exact:
  assumes "live_reach hub" and "bt_get (lh_services hub) sid = Some s" and "ls_ring s = old @ e # newer"
    and "lh_next_sequence hub \<noteq> - 1" and "length (ls_subscribers s) < 8"
  shows "\<exists>k. fst (hub_subscribe now sid selection tail
      (Some \<lparr>lc_hub_instance_id = lh_instance_id hub, lc_sequence = seq_of e\<rparr>) hub)
    = Inr (k, filter (wanted selection) newer)"
proof -
  have "replayable (hub\<lparr>lh_next_subscriber := k\<rparr>) = replayable hub" for k
    by (simp add: replayable_def fun_eq_iff Let_def split: option.split)
  then show ?thesis
    using resume_exact [OF live_reach_ok [OF assms(1)] assms(2-4), of selection tail] assms(2,5)
    by (simp add: hub_subscribe_def Let_def max_live_subscribers_def)
qed

end
