(* ===== verification/Config.thy ===== *)
theory Config
  imports Registry Journal_Record
begin

text \<open>
  \<open>src/src/adapters/config.rs\<close>: the typed configuration, its validation and the registrations it
  gives. JSON parsing is the JSON library's; what it hands over for the services is the list of
  entries in the order of the text. The file system, the path syntax of the host and the address
  grammar of the standard library are the record \<open>host_env\<close>. A validator returns the issues it
  appends.
\<close>

section \<open>Data\<close>

datatype restart_policy = RpManual | RpOnFailure

fun restart_policy_spec :: "restart_policy \<Rightarrow> service_restart_policy" where
  "restart_policy_spec RpManual = PolicyManual"
| "restart_policy_spec RpOnFailure = PolicyOnFailure"

datatype startup_prerequisite =
  SpTcpConnect (sp_host: string) (sp_port: u16) (sp_timeout_ms: u64) (sp_startup_deadline_ms: u64)

datatype health_check =
  HcProcess
| HcTcpConnect string u16 u64 u64
| HcHttpStatus string u16 u64 u64
| HcHttpJson string u64 u64 json_path_mode "(string, json) btree" "string list"

fun health_startup_deadline_ms :: "health_check \<Rightarrow> u64" where
  "health_startup_deadline_ms HcProcess = 0"
| "health_startup_deadline_ms (HcTcpConnect _ _ _ d) = d"
| "health_startup_deadline_ms (HcHttpStatus _ _ _ d) = d"
| "health_startup_deadline_ms (HcHttpJson _ _ d _ _ _) = d"

text \<open>\<open>Duration::from_millis\<close>, in nanoseconds.\<close>

definition from_millis :: "u64 \<Rightarrow> nat" where
  "from_millis ms = unat ms * 1000000"

fun prerequisite_spec :: "startup_prerequisite \<Rightarrow> health_check_spec" where
  "prerequisite_spec (SpTcpConnect host port t d) = TcpConnect host port (from_millis t) (from_millis d)"

fun health_spec :: "health_check \<Rightarrow> health_check_spec" where
  "health_spec HcProcess = HealthProcess"
| "health_spec (HcTcpConnect host port t d) = TcpConnect host port (from_millis t) (from_millis d)"
| "health_spec (HcHttpStatus url status t d) = HttpStatus url status (from_millis t) (from_millis d)"
| "health_spec (HcHttpJson url t d mode expect observe) =
     HttpJson url (from_millis t) (from_millis d) mode expect observe"

record service_config =
  sc_label :: string
  sc_cwd :: string
  sc_command :: string
  sc_args :: "string list"
  sc_environment :: "(string, string) btree"
  sc_depends_on :: "string list"
  sc_startup_prerequisites :: "startup_prerequisite list"
  sc_health :: health_check
  sc_ports :: "u16 list"
  sc_restart_policy :: restart_policy
  sc_shutdown_grace_ms :: u64

record mcp_config =
  mcp_enabled :: bool
  mcp_allowed_origins :: "string list"

record control_config =
  cc_host :: string
  cc_port :: u16
  cc_token_file :: string
  cc_mcp :: mcp_config

record extension_reload_config =
  er_relay_origin :: string
  er_target :: string
  er_timeout_ms :: u64
  er_poll_interval_ms :: u64

text \<open>The observability settings hold the console events alone, the cooperative actions the reload alone.\<close>

record supervisor_config =
  sup_version :: u32
  sup_control :: control_config
  sup_console_events :: console_events
  sup_chrome_extension_reload :: "extension_reload_config option"
  sup_services :: "(string, service_config) btree"

record config_issue =
  ci_path :: string
  ci_code :: string
  ci_message :: string

definition issue :: "string \<Rightarrow> string \<Rightarrow> string \<Rightarrow> config_issue" where
  "issue path code message = \<lparr>ci_path = path, ci_code = code, ci_message = message\<rparr>"

datatype config_error = CfgParse string | CfgInvalid "config_issue list" | CfgFingerprint string

fun show_config_error :: "config_error \<Rightarrow> string" where
  "show_config_error (CfgParse message) = ''configuration parse failed: '' @ message"
| "show_config_error (CfgInvalid issues) =
     ''configuration has '' @ decimal (length issues) @ '' validation issue(s)''
     @ concat (map (\<lambda>i. ''; '' @ ci_path i @ '' ['' @ ci_code i @ ''] '' @ ci_message i) issues)"
| "show_config_error (CfgFingerprint message) = ''configuration fingerprint failed: '' @ message"

datatype path_component = CompPrefix | CompRootDir | CompCurDir | CompParentDir | CompNormal string

record host_env =
  he_is_absolute :: "string \<Rightarrow> bool"
  he_is_dir :: "string \<Rightarrow> bool"
  he_is_file :: "string \<Rightarrow> bool"
  he_components :: "string \<Rightarrow> path_component list"
  he_join :: "string \<Rightarrow> string \<Rightarrow> string"
  he_loopback_ip :: "string \<Rightarrow> bool"
  he_loopback_socket :: "string \<Rightarrow> bool"

section \<open>Reading the services\<close>

fun collect_services ::
  "(string \<times> service_config) list \<Rightarrow> (string, service_config) btree \<Rightarrow> string + (string, service_config) btree" where
  "collect_services [] services = Inr services"
| "collect_services ((sid, service) # entries) services =
     (if bt_get services sid \<noteq> None then Inl (''duplicate service ID: '' @ sid)
      else collect_services entries (bt_insert sid service services))"

text \<open>
  \<open>cl_parse\<close> is the JSON library on the whole document: the configuration without its services and
  their entries, or the text of its error; \<open>cl_locate\<close> is the text it makes of an error of the
  visitor. \<open>cl_fingerprint\<close> is the hash of the serialised configuration.
\<close>

record config_library =
  cl_parse :: "string \<Rightarrow> string + supervisor_config \<times> (string \<times> service_config) list"
  cl_locate :: "string \<Rightarrow> string \<Rightarrow> string"
  cl_fingerprint :: "supervisor_config \<Rightarrow> string + string"

definition parse_json :: "config_library \<Rightarrow> string \<Rightarrow> config_error + supervisor_config" where
  "parse_json lib input = (case cl_parse lib input of
      Inl message \<Rightarrow> Inl (CfgParse message)
    | Inr (c, entries) \<Rightarrow>
        (case collect_services entries bt_empty of
           Inl message \<Rightarrow> Inl (CfgParse (cl_locate lib input message))
         | Inr services \<Rightarrow> Inr (c\<lparr>sup_services := services\<rparr>)))"

definition config_fingerprint :: "config_library \<Rightarrow> supervisor_config \<Rightarrow> config_error + string" where
  "config_fingerprint lib c = (case cl_fingerprint lib c of
      Inl message \<Rightarrow> Inl (CfgFingerprint message) | Inr digest \<Rightarrow> Inr (''sha256:'' @ digest))"

section \<open>Validators\<close>

definition check :: "bool \<Rightarrow> string \<Rightarrow> string \<Rightarrow> string \<Rightarrow> config_issue list" where
  "check bad path code message = (if bad then [issue path code message] else [])"

definition validate_transport_deadlines :: "u64 \<Rightarrow> u64 \<Rightarrow> string \<Rightarrow> config_issue list" where
  "validate_transport_deadlines timeout_ms startup_deadline_ms pre =
     check (timeout_ms = 0) (pre @ ''.health.timeoutMs'') ''health_timeout_invalid''
       ''health timeout must be greater than zero''
     @ check (startup_deadline_ms < timeout_ms) (pre @ ''.health.startupDeadlineMs'')
       ''startup_deadline_invalid'' ''startup deadline must be at least the health timeout''"

definition strip_http :: "string \<Rightarrow> string option" where
  "strip_http url = (if prefix ''http://'' url then Some (drop (length ''http://'') url) else None)"

definition validate_http_fields ::
  "host_env \<Rightarrow> string \<Rightarrow> u64 \<Rightarrow> u64 \<Rightarrow> string \<Rightarrow> config_issue list" where
  "validate_http_fields env url timeout_ms startup_deadline_ms pre =
     check (\<not> (case strip_http url of
          None \<Rightarrow> False
        | Some remainder \<Rightarrow> he_loopback_socket env (takeWhile (\<lambda>c. c \<noteq> CHR ''/'') remainder)))
       (pre @ ''.health.url'') ''health_url_invalid''
       ''health URL must use an explicit loopback HTTP IP and port''
     @ validate_transport_deadlines timeout_ms startup_deadline_ms pre"

fun pointer_escapes :: "string \<Rightarrow> bool" where
  "pointer_escapes [] = True"
| "pointer_escapes [c] = (c \<noteq> CHR ''~'')"
| "pointer_escapes (c # d # cs) =
     (if c = CHR ''~'' then d \<in> {CHR ''0'', CHR ''1''} \<and> pointer_escapes cs else pointer_escapes (d # cs))"

definition valid_json_pointer :: "string \<Rightarrow> bool" where
  "valid_json_pointer pointer =
     (if pointer = [] then True
      else if hd pointer \<noteq> CHR ''/'' then False
      else pointer_escapes pointer)"

definition is_compound :: "json \<Rightarrow> bool" where
  "is_compound v = (case v of JArray _ \<Rightarrow> True | JObject _ \<Rightarrow> True | _ \<Rightarrow> False)"

definition check_pointers :: "string \<Rightarrow> string list \<Rightarrow> config_issue list" where
  "check_pointers path pointers = concat (map (\<lambda>pointer.
     check (\<not> valid_json_pointer pointer) path ''health_json_pointer_invalid''
       (''invalid RFC 6901 JSON Pointer: '' @ pointer)) pointers)"

definition validate_http_json_expectations ::
  "json_path_mode \<Rightarrow> (string, json) btree \<Rightarrow> string list \<Rightarrow> string \<Rightarrow> config_issue list" where
  "validate_http_json_expectations mode expect observe pre =
     check (expect = bt_empty) (pre @ ''.health.expect'') ''health_expect_empty''
       ''HTTP JSON health expectations must not be empty''
     @ (case mode of
          Shallow \<Rightarrow> check (list_ex is_compound (bt_values expect)) (pre @ ''.health.expect'')
            ''health_expect_not_shallow'' ''shallow HTTP JSON expectations support scalar fields only''
        | JsonPointer \<Rightarrow> check_pointers (pre @ ''.health.expect'') (bt_keys expect)
            @ check_pointers (pre @ ''.health.observe'') observe)
     @ check (mode = Shallow \<and> [] \<in> set observe) (pre @ ''.health.observe'') ''health_observe_empty''
       ''shallow HTTP JSON observation fields must not be empty''
     @ check (\<not> distinct observe) (pre @ ''.health.observe'') ''health_observe_duplicate''
       ''HTTP JSON observation fields must be unique''"

fun validate_health :: "host_env \<Rightarrow> health_check \<Rightarrow> string \<Rightarrow> config_issue list" where
  "validate_health env HcProcess pre = []"
| "validate_health env (HcTcpConnect host port t d) pre =
     check (\<not> he_loopback_ip env host) (pre @ ''.health.host'') ''health_host_invalid''
       ''TCP health host must be an explicit loopback IP''
     @ check (port = 0) (pre @ ''.health.port'') ''health_port_invalid''
       ''TCP health port must be greater than zero''
     @ validate_transport_deadlines t d pre"
| "validate_health env (HcHttpStatus url status t d) pre =
     validate_http_fields env url t d pre
     @ check (\<not> (100 \<le> status \<and> status \<le> 599)) (pre @ ''.health.expectedStatus'')
       ''health_status_invalid'' ''expected HTTP status must be between 100 and 599''"
| "validate_health env (HcHttpJson url t d mode expect observe) pre =
     validate_http_fields env url t d pre
     @ validate_http_json_expectations mode expect observe pre"

fun validate_startup_prerequisite :: "host_env \<Rightarrow> startup_prerequisite \<Rightarrow> string \<Rightarrow> config_issue list" where
  "validate_startup_prerequisite env (SpTcpConnect host port t d) pre =
     check (\<not> he_loopback_ip env host) (pre @ ''.host'') ''startup_prerequisite_host_invalid''
       ''TCP startup prerequisite host must be an explicit loopback IP''
     @ check (port = 0) (pre @ ''.port'') ''startup_prerequisite_port_invalid''
       ''TCP startup prerequisite port must be greater than zero''
     @ check (t = 0) (pre @ ''.timeoutMs'') ''startup_prerequisite_timeout_invalid''
       ''startup prerequisite timeout must be greater than zero''
     @ check (d < t) (pre @ ''.startupDeadlineMs'') ''startup_prerequisite_deadline_invalid''
       ''startup prerequisite deadline must be at least its timeout''"

definition validate_startup_prerequisites ::
  "host_env \<Rightarrow> startup_prerequisite list \<Rightarrow> string \<Rightarrow> config_issue list" where
  "validate_startup_prerequisites env prerequisites pre =
     check (length prerequisites > 8) (pre @ ''.startupPrerequisites'') ''startup_prerequisites_too_many''
       ''at most 8 startup prerequisites are allowed''
     @ concat (map (\<lambda>(index, p). validate_startup_prerequisite env p
         (pre @ ''.startupPrerequisites.'' @ decimal index)) (enumerate 0 prerequisites))"

definition validate_directory :: "host_env \<Rightarrow> string \<Rightarrow> string \<Rightarrow> bool \<Rightarrow> config_issue list" where
  "validate_directory env path pre check_exists =
     (if \<not> he_is_absolute env path then
        [issue (pre @ ''.cwd'') ''cwd_not_absolute'' ''working directory must be absolute'']
      else if check_exists \<and> \<not> he_is_dir env path then
        [issue (pre @ ''.cwd'') ''cwd_missing'' ''working directory does not exist'']
      else [])"

definition validate_executable :: "host_env \<Rightarrow> string \<Rightarrow> string \<Rightarrow> bool \<Rightarrow> config_issue list" where
  "validate_executable env path pre check_exists =
     (if \<not> he_is_absolute env path then
        [issue (pre @ ''.command'') ''command_not_absolute'' ''command must be an absolute executable path'']
      else if check_exists \<and> \<not> he_is_file env path then
        [issue (pre @ ''.command'') ''command_missing'' ''configured executable does not exist'']
      else [])"

definition validate_cooperative_actions ::
  "host_env \<Rightarrow> extension_reload_config option \<Rightarrow> config_issue list" where
  "validate_cooperative_actions env actions = (case actions of
      None \<Rightarrow> []
    | Some reload \<Rightarrow>
        check (\<not> (case strip_http (er_relay_origin reload) of
            None \<Rightarrow> False
          | Some authority \<Rightarrow> CHR ''/'' \<notin> set authority \<and> he_loopback_socket env authority))
          ''cooperativeActions.chromeExtensionReload.relayOrigin'' ''extension_relay_origin_invalid''
          ''Chrome extension reload requires a pathless loopback HTTP relay origin with an explicit port''
        @ check (trim (er_target reload) = [])
          ''cooperativeActions.chromeExtensionReload.target'' ''extension_reload_target_invalid''
          ''Chrome extension reload target must not be empty''
        @ check (\<not> (1000 \<le> er_timeout_ms reload \<and> er_timeout_ms reload \<le> 60000))
          ''cooperativeActions.chromeExtensionReload.timeoutMs'' ''extension_reload_timeout_invalid''
          ''Chrome extension reload timeout must be between 1000 and 60000 milliseconds''
        @ check (er_poll_interval_ms reload = 0 \<or> er_poll_interval_ms reload > er_timeout_ms reload)
          ''cooperativeActions.chromeExtensionReload.pollIntervalMs'' ''extension_reload_poll_invalid''
          ''Chrome extension reload poll interval must be non-zero and no greater than its timeout'')"

definition valid_service_id :: "string \<Rightarrow> bool" where
  "valid_service_id value \<longleftrightarrow> value \<noteq> []
     \<and> list_all (\<lambda>c. is_ascii_lowercase c \<or> is_ascii_digit c \<or> c = CHR ''-'') value"

definition is_normal :: "path_component \<Rightarrow> bool" where
  "is_normal c = (case c of CompNormal _ \<Rightarrow> True | _ \<Rightarrow> False)"

definition is_runtime_token_path :: "host_env \<Rightarrow> string \<Rightarrow> bool" where
  "is_runtime_token_path env path =
     (if he_is_absolute env path then False
      else case he_components env path of
        [] \<Rightarrow> False
      | first # remaining \<Rightarrow>
          if first \<noteq> CompNormal ''.runtime'' then False
          else remaining \<noteq> [] \<and> list_all is_normal remaining)"

section \<open>Dependencies\<close>

text \<open>
  The search of \<open>dependency_cycle\<close>. The code keeps a state per service: 1 on the search path, 2
  when it is finished. A service has state 1 exactly while it is on the stack, so the model keeps
  the stack, which a call leaves as it found it, and the set of finished services. The loops over
  the dependencies and over all services are the same function.
\<close>

function visit_cycle ::
  "(string, service_config) btree \<Rightarrow> string list \<Rightarrow> string \<Rightarrow> string set \<Rightarrow> string list + string set"
and visit_cycles ::
  "(string, service_config) btree \<Rightarrow> string list \<Rightarrow> string list \<Rightarrow> string set \<Rightarrow> string list + string set"
where
  "visit_cycle services stack sid finished =
     (if sid \<in> finished then Inr finished
      else if sid \<in> set stack then Inl (dropWhile (\<lambda>c. c \<noteq> sid) stack @ [sid])
      else case bt_get services sid of
        None \<Rightarrow> Inr (insert sid finished)
      | Some service \<Rightarrow>
          (case visit_cycles services (stack @ [sid]) (sc_depends_on service) finished of
             Inl cycle \<Rightarrow> Inl cycle
           | Inr finished \<Rightarrow> Inr (insert sid finished)))"
| "visit_cycles services stack [] finished = Inr finished"
| "visit_cycles services stack (d # ds) finished =
     (if bt_get services d = None then visit_cycles services stack ds finished
      else case visit_cycle services stack d finished of
          Inl cycle \<Rightarrow> Inl cycle
        | Inr finished \<Rightarrow> visit_cycles services stack ds finished)"
  by pat_completeness auto

termination
proof (relation "measures
    [\<lambda>x. case x of Inl (services, stack, _) \<Rightarrow> card (set (bt_keys services) - set stack)
       | Inr (services, stack, _) \<Rightarrow> card (set (bt_keys services) - set stack),
     \<lambda>x. case x of Inl _ \<Rightarrow> 0 | Inr (_, _, ds, _) \<Rightarrow> Suc (length ds)]", simp, goal_cases)
  case (1 services stack sid finished service)
  have "sid \<in> set (bt_keys services)" using 1(3) by (rule bt_get_keys)
  then have "card (set (bt_keys services) - set (stack @ [sid])) < card (set (bt_keys services) - set stack)"
    using 1(2) by (intro psubset_card_mono) auto
  then show ?case by simp
qed auto

declare visit_cycle.simps [simp del] visit_cycles.simps [simp del]

definition dependency_cycle :: "(string, service_config) btree \<Rightarrow> string list option" where
  "dependency_cycle services = (case visit_cycles services [] (bt_keys services) {} of
      Inl cycle \<Rightarrow> Some cycle | Inr _ \<Rightarrow> None)"

fun check_dependencies ::
  "(string, service_config) btree \<Rightarrow> string \<Rightarrow> string \<Rightarrow> string set \<Rightarrow> string list \<Rightarrow> config_issue list" where
  "check_dependencies services sid path unique [] = []"
| "check_dependencies services sid path unique (d # ds) =
     (if d = sid then
        [issue path ''service_dependency_self'' (''service '' @ sid @ '' cannot depend on itself'')]
      else if bt_get services d = None then
        [issue path ''service_dependency_unknown'' (''dependency '' @ d @ '' is not a registered service'')]
      else [])
     @ check (d \<in> unique) path ''service_dependency_duplicate''
         (''dependency '' @ d @ '' is declared more than once'')
     @ check_dependencies services sid path (insert d unique) ds"

definition validate_service_dependencies :: "(string, service_config) btree \<Rightarrow> config_issue list" where
  "validate_service_dependencies services =
     concat (map (\<lambda>(sid, service).
       check_dependencies services sid (''services.'' @ sid @ ''.dependsOn'') {} (sc_depends_on service)) services)
     @ (case dependency_cycle services of
          None \<Rightarrow> []
        | Some cycle \<Rightarrow> [issue ''services'' ''service_dependency_cycle''
            (''service dependency cycle detected: '' @ join '' -> '' cycle)])"

section \<open>Ports\<close>

fun check_ports ::
  "string \<Rightarrow> string \<Rightarrow> u16 set \<Rightarrow> (u16, string) btree \<Rightarrow> u16 list \<Rightarrow> config_issue list \<times> (u16, string) btree" where
  "check_ports sid path seen claimed [] = ([], claimed)"
| "check_ports sid path seen claimed (port # ports) =
     (if port = 0 then
        (case check_ports sid path seen claimed ports of (is, claimed') \<Rightarrow>
           (issue path ''service_port_invalid'' ''declared ports must be non-zero'' # is, claimed'))
      else if port \<in> seen then
        (case check_ports sid path seen claimed ports of (is, claimed') \<Rightarrow>
           (issue path ''service_port_duplicate'' (''port '' @ decimal (unat port) @ '' is declared more than once'')
             # is, claimed'))
      else (case bt_get claimed port of
          None \<Rightarrow> check_ports sid path (insert port seen) (bt_insert port sid claimed) ports
        | Some owner \<Rightarrow>
            (case check_ports sid path (insert port seen) claimed ports of (is, claimed') \<Rightarrow>
               (issue path ''declared_port_conflict''
                  (''port '' @ decimal (unat port) @ '' is already declared by '' @ owner) # is, claimed'))))"

definition validate_service ::
  "host_env \<Rightarrow> bool \<Rightarrow> string \<Rightarrow> service_config \<Rightarrow> config_issue list" where
  "validate_service env check_filesystem sid service =
     (let pre = ''services.'' @ sid in
      check (\<not> valid_service_id sid) (pre @ ''.id'') ''service_id_invalid''
        ''service ID must contain lowercase ASCII letters, digits, or hyphens''
      @ check (trim (sc_label service) = []) (pre @ ''.label'') ''service_label_empty''
        ''service label must not be empty''
      @ validate_directory env (sc_cwd service) pre check_filesystem
      @ validate_executable env (sc_command service) pre check_filesystem
      @ check (sc_shutdown_grace_ms service = 0) (pre @ ''.shutdownGraceMs'') ''shutdown_grace_invalid''
        ''shutdown grace must be greater than zero''
      @ validate_health env (sc_health service) pre
      @ validate_startup_prerequisites env (sc_startup_prerequisites service) pre)"

fun validate_services ::
  "host_env \<Rightarrow> bool \<Rightarrow> (u16, string) btree \<Rightarrow> (string \<times> service_config) list \<Rightarrow> config_issue list" where
  "validate_services env check_filesystem claimed [] = []"
| "validate_services env check_filesystem claimed ((sid, service) # rest) =
     (case check_ports sid (''services.'' @ sid @ ''.ports'') {} claimed (sc_ports service) of
        (is, claimed') \<Rightarrow>
          validate_service env check_filesystem sid service @ is
          @ validate_services env check_filesystem claimed' rest)"

definition config_version :: u32 where
  "config_version = 2"

definition validation_issues_with_filesystem ::
  "host_env \<Rightarrow> bool \<Rightarrow> supervisor_config \<Rightarrow> config_issue list" where
  "validation_issues_with_filesystem env check_filesystem c =
     check (sup_version c \<noteq> config_version) ''version'' ''version_unsupported''
       (''expected version '' @ decimal (unat config_version) @ '', got '' @ decimal (unat (sup_version c)))
     @ check (cc_host (sup_control c) \<noteq> ''127.0.0.1'') ''control.host'' ''control_host_not_loopback''
       ''version 0 requires host 127.0.0.1''
     @ check (cc_port (sup_control c) = 0) ''control.port'' ''control_port_invalid''
       ''control port must be non-zero''
     @ check (\<not> is_runtime_token_path env (cc_token_file (sup_control c))) ''control.tokenFile''
       ''token_path_outside_runtime'' ''token file must be a relative path beneath .runtime''
     @ check (sup_services c = bt_empty) ''services'' ''services_empty''
       ''at least one registered service is required''
     @ validate_cooperative_actions env (sup_chrome_extension_reload c)
     @ validate_service_dependencies (sup_services c)
     @ validate_services env check_filesystem [(cc_port (sup_control c), ''control'')] (sup_services c)"

definition validation_issues :: "host_env \<Rightarrow> supervisor_config \<Rightarrow> config_issue list" where
  "validation_issues env c = validation_issues_with_filesystem env True c"

definition structural_contract_issues :: "host_env \<Rightarrow> supervisor_config \<Rightarrow> config_issue list" where
  "structural_contract_issues env c = validation_issues_with_filesystem env False c"

definition invalid_or :: "config_issue list \<Rightarrow> config_error + unit" where
  "invalid_or issues = (if issues = [] then Inr () else Inl (CfgInvalid issues))"

definition validate_config :: "host_env \<Rightarrow> supervisor_config \<Rightarrow> config_error + unit" where
  "validate_config env c = invalid_or (validation_issues env c)"

definition validate_structure :: "host_env \<Rightarrow> supervisor_config \<Rightarrow> config_error + unit" where
  "validate_structure env c = invalid_or (structural_contract_issues env c)"

section \<open>Launch readiness\<close>

definition service_not_found :: "string \<Rightarrow> config_issue" where
  "service_not_found sid = issue (''services.'' @ sid) ''service_not_found''
     ''service is not registered in the configuration''"

definition sorted_set :: "string list \<Rightarrow> string list" where
  "sorted_set xs = bt_keys (bt_collect (map (\<lambda>x. (x, ())) xs))"

definition selected_service_filesystem_issues ::
  "host_env \<Rightarrow> supervisor_config \<Rightarrow> string list \<Rightarrow> config_issue list" where
  "selected_service_filesystem_issues env c sids = concat (map (\<lambda>sid.
     (case bt_get (sup_services c) sid of
        None \<Rightarrow> [service_not_found sid]
      | Some service \<Rightarrow>
          validate_directory env (sc_cwd service) (''services.'' @ sid) True
          @ validate_executable env (sc_command service) (''services.'' @ sid) True)) (sorted_set sids))"

definition all_dependencies :: "(string, service_config) btree \<Rightarrow> string set" where
  "all_dependencies services = (\<Union>(sid, service) \<in> set services. set (sc_depends_on service))"

lemma all_dependencies_finite: "finite (all_dependencies services)"
  by (auto simp: all_dependencies_def)

lemma dependency_in_all:
  "bt_get services sid = Some service \<Longrightarrow> set (sc_depends_on service) \<subseteq> all_dependencies services"
  by (auto simp: all_dependencies_def bt_get_def dest: map_of_SomeD)

lemma pending_less:
  assumes "pending \<noteq> []" and "last pending \<notin> relevant" and "set new \<subseteq> D" and "finite D"
  shows "card ((set (butlast pending @ new) \<union> D) - insert (last pending) relevant)
    < card ((set pending \<union> D) - relevant)"
proof (rule psubset_card_mono)
  show "finite ((set pending \<union> D) - relevant)" using assms(4) by simp
  have "set (butlast pending @ new) \<subseteq> set pending \<union> D"
    using assms(3) by (auto dest: in_set_butlastD)
  moreover have "last pending \<in> (set pending \<union> D) - relevant" using assms(1,2) by simp
  ultimately show "(set (butlast pending @ new) \<union> D) - insert (last pending) relevant \<subset> (set pending \<union> D) - relevant"
    by blast
qed

text \<open>
  The work list: the last identifier is taken, an identifier that was seen is skipped. It ends
  because every identifier that is not skipped is a new one of finitely many.
\<close>

function relevant_loop ::
  "(string, service_config) btree \<Rightarrow> string list \<Rightarrow> string set \<Rightarrow> config_issue list \<times> string set" where
  "relevant_loop services pending relevant =
     (if pending = [] then ([], relevant)
      else (let sid = last pending; pending = butlast pending in
        if sid \<in> relevant then relevant_loop services pending relevant
        else (case bt_get services sid of
            None \<Rightarrow>
              (case relevant_loop services pending (insert sid relevant) of
                 (is, relevant') \<Rightarrow> (service_not_found sid # is, relevant'))
          | Some service \<Rightarrow>
              relevant_loop services (pending @ sc_depends_on service) (insert sid relevant))))"
  by pat_completeness auto

termination
proof (relation "measures
    [\<lambda>(services, pending, relevant). card ((set pending \<union> all_dependencies services) - relevant),
     \<lambda>(services, pending, relevant). length pending]", simp, goal_cases)
  case (1 services pending relevant sid rest)
  have "set pending = insert (last pending) (set (butlast pending))"
    using 1(1) by (metis append_butlast_last_id list.simps(15) rotate1.simps(2) set_rotate1)
  then have "set pending \<union> all_dependencies services - relevant
      = set (butlast pending) \<union> all_dependencies services - relevant"
    using 1(2,4) by auto
  then show ?case using 1 by auto
next
  case (2 services pending relevant sid rest)
  then show ?case
    using pending_less [of pending relevant "[]" "all_dependencies services"] all_dependencies_finite by auto
next
  case (3 services pending relevant sid rest service)
  then show ?case
    using pending_less [of pending relevant "sc_depends_on service" "all_dependencies services"]
      all_dependencies_finite dependency_in_all by auto
qed

declare relevant_loop.simps [simp del]

definition launch_readiness_issues :: "host_env \<Rightarrow> supervisor_config \<Rightarrow> string list \<Rightarrow> config_issue list" where
  "launch_readiness_issues env c sids =
     check (sids = []) ''services'' ''service_ids_empty''
       ''at least one service ID is required for launch readiness validation''
     @ (case relevant_loop (sup_services c) sids {} of
          (is, relevant) \<Rightarrow> is @ selected_service_filesystem_issues env c
            (filter (\<lambda>sid. sid \<in> relevant) (bt_keys (sup_services c))))"

definition validate_launch_readiness :: "host_env \<Rightarrow> supervisor_config \<Rightarrow> string list \<Rightarrow> config_error + unit" where
  "validate_launch_readiness env c sids = invalid_or (launch_readiness_issues env c sids)"

section \<open>Registrations\<close>

definition config_launch_spec :: "service_config \<Rightarrow> launch_spec" where
  "config_launch_spec s = launch_spec_new (sc_command s) (sc_args s) (sc_cwd s) (sc_environment s)"

definition config_registration :: "string \<Rightarrow> service_config \<Rightarrow> launch_spec \<Rightarrow> service_registration" where
  "config_registration sid s launch =
     with_startup_prerequisites (map prerequisite_spec (sc_startup_prerequisites s))
       (with_dependencies (sc_depends_on s)
         (registration_new sid (sc_label s) launch (health_spec (sc_health s))
            (restart_policy_spec (sc_restart_policy s)) (sc_ports s) (from_millis (sc_shutdown_grace_ms s))))"

definition service_registrations :: "supervisor_config \<Rightarrow> service_registration list" where
  "service_registrations c =
     map (\<lambda>(sid, s). config_registration sid s (config_launch_spec s)) (sup_services c)"

definition service_registrations_with_logs ::
  "host_env \<Rightarrow> string \<Rightarrow> supervisor_config \<Rightarrow> service_registration list" where
  "service_registrations_with_logs env dir c = map (\<lambda>(sid, s).
     config_registration sid s (with_log_files (he_join env dir (sid @ ''.stdout.log''))
       (he_join env dir (sid @ ''.stderr.log'')) (config_launch_spec s))) (sup_services c)"

end
