(* ===== verification/Config_Facts.thy ===== *)
theory Config_Facts
  imports Config
begin

text \<open>
  What validation finds: the search for a dependency cycle is exact, no issue means that every
  dependency is a registered service and every port has one owner, and the work list of the
  launch check is the dependency closure.
\<close>

section \<open>Cycles\<close>

text \<open>A dependency between registered services, as the search follows it.\<close>

definition config_deps :: "(string, service_config) btree \<Rightarrow> (string \<times> string) set" where
  "config_deps services = {(x, d). \<exists>s. bt_get services x = Some s \<and> d \<in> set (sc_depends_on s)
      \<and> bt_get services d \<noteq> None}"

text \<open>A path, as consecutive pairs.\<close>

fun chain :: "('a \<times> 'a) set \<Rightarrow> 'a list \<Rightarrow> bool" where
  "chain R [] \<longleftrightarrow> True"
| "chain R [x] \<longleftrightarrow> True"
| "chain R (x # y # ys) \<longleftrightarrow> (x, y) \<in> R \<and> chain R (y # ys)"

lemma chain_snoc: "chain R (xs @ [y]) \<longleftrightarrow> chain R xs \<and> (xs = [] \<or> (last xs, y) \<in> R)"
  by (induction R xs rule: chain.induct) auto

lemma chain_append: "chain R (xs @ ys) \<Longrightarrow> chain R ys"
proof (induction xs)
  case (Cons x xs)
  then show ?case by (cases "xs @ ys") auto
qed simp

lemma chain_trancl: "chain R (x # xs) \<Longrightarrow> xs \<noteq> [] \<Longrightarrow> (x, last xs) \<in> R\<^sup>+"
proof (induction xs arbitrary: x)
  case (Cons y ys)
  then show ?case
    by (cases "ys = []") (auto intro: trancl_into_trancl2)
qed simp

definition is_cycle :: "('a \<times> 'a) set \<Rightarrow> 'a list \<Rightarrow> bool" where
  "is_cycle R cycle \<longleftrightarrow> length cycle \<ge> 2 \<and> hd cycle = last cycle \<and> chain R cycle"

lemma is_cycle_trancl: "is_cycle R cycle \<Longrightarrow> \<exists>x. (x, x) \<in> R\<^sup>+"
proof -
  assume cyc: "is_cycle R cycle"
  then obtain x y ys where cycle: "cycle = x # y # ys"
    by (cases cycle; cases "tl cycle") (auto simp: is_cycle_def)
  then have "(x, last (y # ys)) \<in> R\<^sup>+" using cyc chain_trancl [of R x "y # ys"] by (auto simp: is_cycle_def)
  then show ?thesis using cyc cycle by (auto simp: is_cycle_def)
qed

text \<open>Finished services: closed under dependencies, and no cycle among them.\<close>

definition finished_ok :: "('a \<times> 'a) set \<Rightarrow> 'a set \<Rightarrow> bool" where
  "finished_ok R F \<longleftrightarrow> R `` F \<subseteq> F \<and> (\<forall>x \<in> F. (x, x) \<notin> R\<^sup>+)"

lemma closed_trancl: "(x, y) \<in> R\<^sup>+ \<Longrightarrow> R `` F \<subseteq> F \<Longrightarrow> x \<in> F \<Longrightarrow> y \<in> F"
  by (induction rule: trancl_induct) auto

lemma finished_ok_insert:
  assumes "finished_ok R F" and "R `` {x} \<subseteq> F" and "x \<notin> F"
  shows "finished_ok R (insert x F)"
proof -
  have closed: "R `` F \<subseteq> F" using assms(1) by (simp add: finished_ok_def)
  have "(x, x) \<notin> R\<^sup>+"
  proof
    assume "(x, x) \<in> R\<^sup>+"
    then obtain y where "(x, y) \<in> R" "(y, x) \<in> R\<^sup>*" by (metis tranclD)
    then show False using assms(2,3) closed_trancl [OF _ closed, of y x] by (auto simp: rtrancl_eq_or_trancl)
  qed
  then show ?thesis using assms closed by (auto simp: finished_ok_def)
qed

lemma dropWhile_head: "x \<in> set xs \<Longrightarrow> \<exists>ys. dropWhile (\<lambda>c. c \<noteq> x) xs = x # ys \<and> (\<exists>zs. xs = zs @ x # ys)"
proof (induction xs)
  case (Cons a xs)
  show ?case
  proof (cases "a = x")
    case False
    then obtain ys zs where "dropWhile (\<lambda>c. c \<noteq> x) xs = x # ys" "xs = zs @ x # ys" using Cons by auto
    then show ?thesis using False by (auto intro: exI [of _ "a # zs"])
  qed auto
qed simp

lemma visit_cycle_found:
  "visit_cycle services stack sid finished = Inl cycle \<Longrightarrow> chain (config_deps services) (stack @ [sid]) \<Longrightarrow>
     bt_get services sid \<noteq> None \<Longrightarrow> is_cycle (config_deps services) cycle"
  "visit_cycles services stack ds finished = Inl cycle \<Longrightarrow> chain (config_deps services) stack \<Longrightarrow>
     (\<forall>d \<in> set ds. bt_get services d \<noteq> None \<longrightarrow> stack = [] \<or> (last stack, d) \<in> config_deps services) \<Longrightarrow>
     is_cycle (config_deps services) cycle"
proof (induction services stack sid finished and services stack ds finished rule: visit_cycle_visit_cycles.induct)
  case (1 services stack sid finished)
  show ?case
  proof (cases "sid \<in> set stack \<and> sid \<notin> finished")
    case True
    then have cycle: "cycle = dropWhile (\<lambda>c. c \<noteq> sid) stack @ [sid]"
      using 1(2) by (simp add: visit_cycle.simps)
    obtain ys zs where st: "dropWhile (\<lambda>c. c \<noteq> sid) stack = sid # ys" "stack = zs @ sid # ys"
      using dropWhile_head True by metis
    have "chain (config_deps services) ((sid # ys) @ [sid])"
      using 1(3) st(2) chain_append [of _ zs "(sid # ys) @ [sid]"] by simp
    then show ?thesis by (simp add: cycle st(1) is_cycle_def)
  next
    case False
    then obtain s where nf: "sid \<notin> finished" "sid \<notin> set stack" and s: "bt_get services sid = Some s"
      and all: "visit_cycles services (stack @ [sid]) (sc_depends_on s) finished = Inl cycle"
      using 1(2,4) by (auto simp: visit_cycle.simps split: if_splits option.splits sum.splits)
    have "\<forall>d \<in> set (sc_depends_on s). bt_get services d \<noteq> None \<longrightarrow>
        stack @ [sid] = [] \<or> (last (stack @ [sid]), d) \<in> config_deps services"
      using s by (auto simp: config_deps_def)
    then show ?thesis using 1(1) [OF nf s all 1(3)] by blast
  qed
next
  case (3 services stack d ds finished)
  show ?case
  proof (cases "bt_get services d = None")
    case True
    then show ?thesis using 3 by (simp add: visit_cycles.simps)
  next
    case False
    have path: "chain (config_deps services) (stack @ [d])"
      using 3(5,6) False by (auto simp: chain_snoc)
    show ?thesis
    proof (cases "visit_cycle services stack d finished")
      case (Inl c)
      then have "visit_cycle services stack d finished = Inl cycle" using 3(4) False by (simp add: visit_cycles.simps)
      then show ?thesis using 3(2) [OF False _ path False] by blast
    next
      case (Inr f)
      then show ?thesis using 3(3) [OF False Inr] 3(4-6) False by (simp add: visit_cycles.simps)
    qed
  qed
qed (simp add: visit_cycles.simps)

lemma visit_cycle_none:
  "visit_cycle services stack sid finished = Inr finished' \<Longrightarrow> finished_ok (config_deps services) finished \<Longrightarrow>
     set stack \<inter> finished = {} \<Longrightarrow>
     finished_ok (config_deps services) finished' \<and> insert sid finished \<subseteq> finished' \<and> set stack \<inter> finished' = {}"
  "visit_cycles services stack ds finished = Inr finished' \<Longrightarrow> finished_ok (config_deps services) finished \<Longrightarrow>
     set stack \<inter> finished = {} \<Longrightarrow>
     finished_ok (config_deps services) finished' \<and> finished \<subseteq> finished' \<and> set stack \<inter> finished' = {}
     \<and> (\<forall>d \<in> set ds. bt_get services d \<noteq> None \<longrightarrow> d \<in> finished')"
proof (induction services stack sid finished and services stack ds finished
    arbitrary: finished' and finished' rule: visit_cycle_visit_cycles.induct)
  case (1 services stack sid finished)
  show ?case
  proof (cases "sid \<in> finished")
    case True
    then show ?thesis using 1(2-4) by (simp add: visit_cycle.simps)
  next
    case False
    then have ns: "sid \<notin> set stack" using 1(2) by (auto simp: visit_cycle.simps split: if_splits)
    show ?thesis
    proof (cases "bt_get services sid")
      case None
      have "finished_ok (config_deps services) (insert sid finished)"
        using None False by (intro finished_ok_insert [OF 1(3)]) (auto simp: config_deps_def)
      then show ?thesis using 1(2,4) False ns None by (auto simp: visit_cycle.simps)
    next
      case (Some s)
      obtain f where all: "visit_cycles services (stack @ [sid]) (sc_depends_on s) finished = Inr f"
        and f': "finished' = insert sid f"
        using 1(2) False ns Some by (auto simp: visit_cycle.simps split: sum.splits)
      have "set (stack @ [sid]) \<inter> finished = {}" using 1(4) False by auto
      note ih = 1(1) [OF False ns Some all 1(3) this]
      have "config_deps services `` {sid} \<subseteq> f" using ih Some by (auto simp: config_deps_def)
      then have "finished_ok (config_deps services) (insert sid f)"
        using ih by (intro finished_ok_insert) auto
      then show ?thesis using ih ns f' by auto
    qed
  qed
next
  case (2 services stack finished)
  then show ?case by (simp add: visit_cycles.simps)
next
  case (3 services stack d ds finished)
  show ?case
  proof (cases "bt_get services d = None")
    case True
    then show ?thesis using 3 by (simp add: visit_cycles.simps)
  next
    case False
    obtain f where one: "visit_cycle services stack d finished = Inr f"
      and rest: "visit_cycles services stack ds f = Inr finished'"
      using 3(4) False by (auto simp: visit_cycles.simps split: sum.splits)
    note first = 3(2) [OF False one 3(5,6)]
    show ?thesis using 3(3) [OF False one rest] first by auto
  qed
qed

lemma dependency_cycle_None:
  assumes "dependency_cycle services = None"
  shows "acyclic (config_deps services)"
proof -
  obtain f where run: "visit_cycles services [] (bt_keys services) {} = Inr f"
    using assms by (auto simp: dependency_cycle_def split: sum.splits)
  have "finished_ok (config_deps services) {}" by (simp add: finished_ok_def)
  from visit_cycle_none(2) [OF run this] have f: "finished_ok (config_deps services) f"
    and all: "\<forall>d \<in> set (bt_keys services). bt_get services d \<noteq> None \<longrightarrow> d \<in> f" by auto
  have "(x, x) \<notin> (config_deps services)\<^sup>+" for x
  proof
    assume cyc: "(x, x) \<in> (config_deps services)\<^sup>+"
    then obtain y where "(x, y) \<in> config_deps services" by (metis tranclD)
    then have "x \<in> f" using all by (auto simp: config_deps_def bt_keys_set)
    then show False using f cyc by (simp add: finished_ok_def)
  qed
  then show ?thesis by (simp add: acyclic_def)
qed

lemma dependency_cycle_Some:
  "dependency_cycle services = Some cycle \<Longrightarrow> is_cycle (config_deps services) cycle"
  using visit_cycle_found(2) [of services "[]" "bt_keys services" "{}" cycle]
  by (auto simp: dependency_cycle_def split: sum.splits)

section \<open>No issue\<close>

lemma check_Nil [simp]: "check bad path code message = [] \<longleftrightarrow> \<not> bad"
  by (simp add: check_def)

lemma check_dependencies_Nil:
  "check_dependencies services sid path unique ds = [] \<longleftrightarrow>
     distinct ds \<and> sid \<notin> set ds \<and> set ds \<inter> unique = {} \<and> (\<forall>d \<in> set ds. bt_get services d \<noteq> None)"
  by (induction services sid path unique ds rule: check_dependencies.induct) auto

lemma validate_service_dependencies_Nil:
  "validate_service_dependencies services = [] \<longleftrightarrow>
     (\<forall>(sid, s) \<in> set services. distinct (sc_depends_on s) \<and> sid \<notin> set (sc_depends_on s)
        \<and> (\<forall>d \<in> set (sc_depends_on s). bt_get services d \<noteq> None))
     \<and> dependency_cycle services = None"
  by (auto simp: validate_service_dependencies_def check_dependencies_Nil split: option.splits)

lemma check_ports_Nil:
  assumes "check_ports sid path seen claimed ports = ([], claimed')" and "bt_invar claimed"
  shows "bt_invar claimed' \<and> 0 \<notin> set ports \<and> distinct ports \<and> set ports \<inter> seen = {}
    \<and> set ports \<inter> dom (bt_get claimed) = {}
    \<and> dom (bt_get claimed') = set ports \<union> dom (bt_get claimed)"
  using assms
proof (induction sid path seen claimed ports rule: check_ports.induct)
  case (2 sid path seen claimed port ports)
  have ok: "port \<noteq> 0" "port \<notin> seen" and new: "bt_get claimed port = None"
    and rest: "check_ports sid path (insert port seen) (bt_insert port sid claimed) ports = ([], claimed')"
    using "2.prems"(1) by (auto split: if_splits option.splits prod.splits)
  have "bt_invar (bt_insert port sid claimed)" using "2.prems"(2) by (rule bt_insert_invar)
  from "2.IH"(3) [OF ok new rest this] show ?case using ok new "2.prems"(2) by auto
qed simp

lemma validate_services_Nil:
  assumes "validate_services env check_filesystem claimed services = []" and "bt_invar claimed"
  shows "distinct (concat (map (sc_ports \<circ> snd) services))
    \<and> set (concat (map (sc_ports \<circ> snd) services)) \<inter> insert 0 (dom (bt_get claimed)) = {}
    \<and> (\<forall>(sid, s) \<in> set services. validate_service env check_filesystem sid s = [])"
  using assms
proof (induction services arbitrary: claimed)
  case (Cons a services)
  obtain sid s where a: "a = (sid, s)" by force
  obtain claimed' where ports: "check_ports sid (''services.'' @ sid @ ''.ports'') {} claimed (sc_ports s) = ([], claimed')"
    and one: "validate_service env check_filesystem sid s = []"
    and rest: "validate_services env check_filesystem claimed' services = []"
    using Cons.prems(1) by (auto simp: a split: prod.splits)
  note p = check_ports_Nil [OF ports Cons.prems(2)]
  note ih = Cons.IH [OF rest conjunct1 [OF p]]
  let ?ps = "concat (map (sc_ports \<circ> snd) services)"
  have all: "concat (map (sc_ports \<circ> snd) (a # services)) = sc_ports s @ ?ps" by (simp add: a)
  have dom: "dom (bt_get claimed') = set (sc_ports s) \<union> dom (bt_get claimed)" using p by (elim conjE)
  have new: "set ?ps \<inter> insert 0 (dom (bt_get claimed')) = {}" using ih by (elim conjE)
  have old: "set (sc_ports s) \<inter> dom (bt_get claimed) = {}" using p by (elim conjE)
  have nz: "0 \<notin> set (sc_ports s)" using p by (elim conjE)
  have "distinct (sc_ports s)" using p by (elim conjE)
  moreover have "distinct ?ps" using ih by (elim conjE)
  moreover have "set (sc_ports s) \<inter> set ?ps = {}" using new unfolding dom by blast
  ultimately
  have "distinct (concat (map (sc_ports \<circ> snd) (a # services)))" unfolding all distinct_append by blast
  moreover have "set (concat (map (sc_ports \<circ> snd) (a # services))) \<inter> insert 0 (dom (bt_get claimed)) = {}"
    unfolding all set_append using new old nz unfolding dom by blast
  moreover have "\<forall>(sid, s) \<in> set (a # services). validate_service env check_filesystem sid s = []"
    using one ih by (simp add: a)
  ultimately show ?case by (intro conjI)
qed simp

lemma validate_structure_Inr:
  "validate_structure env c = Inr () \<longleftrightarrow> structural_contract_issues env c = []"
  by (simp add: validate_structure_def invalid_or_def)

lemma valid_structure_parts:
  assumes "validate_structure env c = Inr ()"
  shows "validate_service_dependencies (sup_services c) = []"
    and "validate_services env False [(cc_port (sup_control c), ''control'')] (sup_services c) = []"
    and "sup_services c \<noteq> bt_empty" and "cc_port (sup_control c) \<noteq> 0"
  using assms
  by (simp_all add: validate_structure_Inr structural_contract_issues_def
      validation_issues_with_filesystem_def)

section \<open>The work list of the launch check\<close>

definition declared_deps :: "(string, service_config) btree \<Rightarrow> (string \<times> string) set" where
  "declared_deps services = {(x, d). \<exists>s. bt_get services x = Some s \<and> d \<in> set (sc_depends_on s)}"

text \<open>
  The set of seen identifiers is closed up to what is pending, and every issue is a missing service
  among the reachable ones.
\<close>

lemma relevant_loop_spec:
  assumes "relevant_loop services pending relevant = (is, relevant')"
    and "declared_deps services `` relevant \<subseteq> relevant \<union> set pending"
  shows "relevant' = relevant \<union> (declared_deps services)\<^sup>* `` set pending
    \<and> set is = service_not_found ` {x \<in> relevant' - relevant. bt_get services x = None}"
  using assms
proof (induction services pending relevant arbitrary: "is" rule: relevant_loop.induct)
  case (1 services pending relevant)
  let ?R = "declared_deps services"
  show ?case
  proof (cases "pending = []")
    case True
    then show ?thesis using "1.prems" by (simp add: relevant_loop.simps)
  next
    case False
    then obtain p x where px: "pending = p @ [x]" by (metis rev_exhaust)
    show ?thesis
    proof (cases "x \<in> relevant")
      case True
      have run: "relevant_loop services p relevant = (is, relevant')"
        using "1.prems"(1) True by (subst (asm) relevant_loop.simps) (simp add: px)
      have sub: "?R `` relevant \<subseteq> relevant \<union> set p" using "1.prems"(2) True px by auto
      have ih: "relevant' = relevant \<union> ?R\<^sup>* `` set p
          \<and> set is = service_not_found ` {x \<in> relevant' - relevant. bt_get services x = None}"
        by (rule "1.IH"(1) [OF False _ _ True run sub]) (simp_all add: px)
      have "?R\<^sup>* `` relevant \<subseteq> relevant \<union> ?R\<^sup>* `` set p"
      proof (rule subsetI)
        fix y assume "y \<in> ?R\<^sup>* `` relevant"
        then obtain z where z: "z \<in> relevant" and "(z, y) \<in> ?R\<^sup>*" by blast
        from this(2) show "y \<in> relevant \<union> ?R\<^sup>* `` set p"
          using z sub by (induction rule: rtrancl_induct) (auto intro: rtrancl_into_rtrancl)
      qed
      then have "?R\<^sup>* `` set pending \<union> relevant = ?R\<^sup>* `` set p \<union> relevant" using True px by auto
      then show ?thesis using ih by blast
    next
      case nx: False
      have step: "insert x relevant \<union> ?R\<^sup>* `` set (p @ new) = relevant \<union> ?R\<^sup>* `` set pending"
        if "set new = ?R `` {x}" for new
        using that px by (auto intro: converse_rtrancl_into_rtrancl elim: converse_rtranclE)
      show ?thesis
      proof (cases "bt_get services x")
        case None
        obtain js where js: "relevant_loop services p (insert x relevant) = (js, relevant')"
          and "is": "is = service_not_found x # js"
          using "1.prems"(1) nx None by (subst (asm) relevant_loop.simps) (auto simp: px split: prod.splits)
        have no: "?R `` {x} = {}" using None by (auto simp: declared_deps_def)
        then have sub: "?R `` insert x relevant \<subseteq> insert x relevant \<union> set p" using "1.prems"(2) px by auto
        have ih: "relevant' = insert x relevant \<union> ?R\<^sup>* `` set p
          \<and> set js = service_not_found ` {y \<in> relevant' - insert x relevant. bt_get services y = None}"
          by (rule "1.IH"(2) [OF False _ _ nx None js sub]) (simp_all add: px)
        have rel: "relevant' = relevant \<union> ?R\<^sup>* `` set pending" using ih step [of "[]"] no by simp
        moreover have "x \<in> relevant'" using ih by blast
        then have "relevant' - relevant = insert x (relevant' - insert x relevant)" using nx by blast
        then have "{y \<in> relevant' - relevant. bt_get services y = None}
            = insert x {y \<in> relevant' - insert x relevant. bt_get services y = None}" using None by blast
        moreover have "set is = service_not_found ` insert x {y \<in> relevant' - insert x relevant. bt_get services y = None}"
          using conjunct2 [OF ih] by (simp add: "is")
        ultimately show ?thesis by presburger
      next
        case (Some s)
        have run: "relevant_loop services (p @ sc_depends_on s) (insert x relevant) = (is, relevant')"
          using "1.prems"(1) nx Some by (subst (asm) relevant_loop.simps) (auto simp: px split: prod.splits)
        have deps: "set (sc_depends_on s) = ?R `` {x}" using Some by (auto simp: declared_deps_def)
        then have sub: "?R `` insert x relevant \<subseteq> insert x relevant \<union> set (p @ sc_depends_on s)"
          using "1.prems"(2) px by auto
        have ih: "relevant' = insert x relevant \<union> ?R\<^sup>* `` set (p @ sc_depends_on s)
          \<and> set is = service_not_found ` {y \<in> relevant' - insert x relevant. bt_get services y = None}"
          by (rule "1.IH"(3) [OF False _ _ nx Some run sub]) (simp_all add: px)
        have rel: "relevant' = relevant \<union> ?R\<^sup>* `` set pending" using ih step [OF deps] by simp
        moreover have "x \<in> relevant'" using ih by blast
        then have "relevant' - relevant = insert x (relevant' - insert x relevant)" using nx by blast
        then have "{y \<in> relevant' - relevant. bt_get services y = None}
            = {y \<in> relevant' - insert x relevant. bt_get services y = None}" using Some by auto
        ultimately show ?thesis using conjunct2 [OF ih] by presburger
      qed
    qed
  qed
qed

lemma sorted_set_set [simp]: "set (sorted_set xs) = set xs"
proof -
  have "dom (map_of (map (\<lambda>x. (x, ())) (rev xs))) = set xs" by (simp add: dom_map_of_conv_image_fst image_image)
  then show ?thesis by (simp add: sorted_set_def bt_keys_set bt_collect_get rev_map)
qed

section \<open>Registrations\<close>

lemma collect_unique_total:
  assumes "distinct (map reg_id regs)" and "\<forall>r \<in> set regs. bt_get m (reg_id r) = None" and "bt_invar m"
  shows "\<exists>m'. collect_unique f regs m = Inr m'"
  using assms
proof (induction regs arbitrary: m)
  case (Cons r rs)
  have "\<not> bt_contains m (reg_id r)" using Cons.prems(2) by (simp add: bt_contains_def)
  moreover have "reg_id x \<noteq> reg_id r" if "x \<in> set rs" for x
    using that Cons.prems(1) by (metis distinct.simps(2) image_eqI list.simps(9) list.set_map)
  then have "\<exists>m'. collect_unique f rs (bt_insert (reg_id r) (f r) m) = Inr m'"
    using Cons.prems by (intro Cons.IH) (simp_all add: bt_insert_invar)
  ultimately show ?case by simp
qed simp

lemma config_registration_simps [simp]:
  "reg_id (config_registration sid s launch) = sid"
  "reg_dependencies (config_registration sid s launch) = sc_depends_on s"
  by (simp_all add: config_registration_def registration_new_def with_dependencies_def
      with_startup_prerequisites_def)

lemma service_registrations_ids: "map reg_id (service_registrations c) = bt_keys (sup_services c)"
  by (induction "sup_services c") (auto simp: service_registrations_def bt_keys_def comp_def split: prod.splits)

section \<open>Parsing\<close>

lemma collect_services_Inr:
  assumes "collect_services entries m = Inr services" and "bt_invar m"
  shows "bt_invar services \<and> distinct (map fst entries) \<and> (\<forall>(k, s) \<in> set entries. bt_get m k = None)
    \<and> bt_get services = bt_get m ++ map_of entries"
  using assms
proof (induction entries m rule: collect_services.induct)
  case (2 sid service entries m)
  have new: "bt_get m sid = None" and rest: "collect_services entries (bt_insert sid service m) = Inr services"
    using "2.prems"(1) by (auto split: if_splits)
  have ih: "bt_invar services" "distinct (map fst entries)"
    "\<forall>(k, s) \<in> set entries. bt_get (bt_insert sid service m) k = None"
    "bt_get services = bt_get (bt_insert sid service m) ++ map_of entries"
    using "2.IH" new rest bt_insert_invar [OF "2.prems"(2)] by simp_all
  have fresh: "sid \<notin> fst ` set entries" using ih(3) "2.prems"(2) by (fastforce split: if_splits)
  have others: "bt_get m k = None" if "(k, s) \<in> set entries" for k s
    using ih(3) that "2.prems"(2) by (fastforce split: if_splits)
  have get: "bt_get services = bt_get m ++ map_of ((sid, service) # entries)"
    using ih(4) "2.prems"(2) fresh
    by (auto simp: fun_eq_iff map_add_def map_of_eq_None_iff split: option.splits)
  show ?case
    by (intro conjI ih(1) get) (use ih(2) fresh new others in auto)
qed simp

lemma parse_json_invar: "parse_json lib input = Inr c \<Longrightarrow> bt_invar (sup_services c)"
  using collect_services_Inr [of _ bt_empty]
  by (auto simp: parse_json_def split: sum.splits prod.splits)

end
