(* ===== verification/Config_Properties.thy ===== *)
theory Config_Properties
  imports Config_Facts Demo
begin

text \<open>
  The properties of the configuration, and what a valid one guarantees to the components that run
  on it: the registry of its registrations exists and every start order can be made.
\<close>

section \<open>The registry of a configuration\<close>

lemma registrations_new:
  assumes "bt_invar (sup_services c)"
  shows "\<exists>services :: 'p services. registry_new (service_registrations c) = Inr services"
proof -
  have "\<exists>services :: 'p services. collect_unique service_entry_new (service_registrations c) bt_empty = Inr services"
    using assms by (intro collect_unique_total) (simp_all add: service_registrations_ids)
  then show ?thesis by (auto simp: registry_new_def)
qed

lemma map_of_keyed: "map_of (map (\<lambda>(k, v). (k, f k v)) xs) k = map_option (f k) (map_of xs k)"
  by (induction xs) auto

lemma registrations_get:
  assumes "registry_new (service_registrations c) = Inr services" and "bt_invar (sup_services c)"
  shows "bt_get services sid = map_option (\<lambda>s. service_entry_new (config_registration sid s (config_launch_spec s)))
    (bt_get (sup_services c) sid)"
proof -
  have "collect_unique service_entry_new (service_registrations c) bt_empty = Inr services"
    using assms(1) by (simp add: registry_new_def split: sum.splits)
  from collect_unique_spec [OF this] have "bt_get services
      = map_of (map (\<lambda>r. (reg_id r, service_entry_new r)) (service_registrations c))"
    by (simp add: fun_eq_iff map_add_def)
  also have "\<dots> = map_of (map (\<lambda>(sid, s). (sid, service_entry_new (config_registration sid s (config_launch_spec s))))
      (sup_services c))"
    by (simp add: service_registrations_def comp_def case_prod_unfold)
  finally show ?thesis by (simp add: bt_get_def map_of_keyed)
qed

lemma registrations_deps:
  assumes "registry_new (service_registrations c) = Inr services" and "bt_invar (sup_services c)"
  shows "service_deps services = declared_deps (sup_services c)"
  by (auto simp: service_deps_def declared_deps_def registrations_get [OF assms] service_entry_new_def)

lemma valid_deps:
  assumes "validate_service_dependencies services = []" and "bt_invar services"
  shows "declared_deps services = config_deps services" and "acyclic (declared_deps services)"
proof -
  have deps: "bt_get services d \<noteq> None" if "bt_get services x = Some s" "d \<in> set (sc_depends_on s)" for x s d
    using assms(1) that bt.entries_iff [OF assms(2), of x s]
    by (fastforce simp: validate_service_dependencies_Nil)
  then show eq: "declared_deps services = config_deps services"
    by (auto simp: declared_deps_def config_deps_def)
  show "acyclic (declared_deps services)"
    using assms(1) dependency_cycle_None by (simp add: eq validate_service_dependencies_Nil)
qed

lemma snapshot_index_registered:
  assumes "registry_ok services" and "snapshots bk (services, w) = (Ok snaps, st)"
  shows "bt_get (snapshot_index snaps) sid \<noteq> None \<longleftrightarrow> sid \<in> set (bt_keys services)"
proof -
  have "distinct (map ss_id snaps)"
    using snapshots_ids [OF assms] bt_keys_distinct [OF registry_ok_invar [OF assms(1)]] by simp
  then have "bt_get (snapshot_index snaps) = map_of (map (\<lambda>s. (ss_id s, s)) snaps)"
    by (intro ext) (simp add: snapshot_index_def bt_collect_get_distinct comp_def)
  moreover have "dom (map_of (map (\<lambda>s. (ss_id s, s)) snaps)) = set (map ss_id snaps)"
    by (simp add: dom_map_of_conv_image_fst image_image)
  ultimately show ?thesis by (simp only: snapshots_ids [OF assms] domIff [symmetric])
qed

lemma valid_config_order:
  assumes valid: "validate_structure env c = Inr ()" and inv: "bt_invar (sup_services c)"
    and new: "registry_new (service_registrations c) = Inr services"
    and snaps: "snapshots bk (services, w) = (Ok snaps, st)"
    and requested: "set sids \<subseteq> set (bt_keys (sup_services c))"
  shows "\<exists>order. stable_start_order snaps sids = Inr order"
proof (rule stable_start_order_total)
  note deps = valid_deps [OF valid_structure_parts(1) [OF valid] inv]
  have rel: "depends (snapshot_index snaps) = declared_deps (sup_services c)"
    using depends_registry [OF registry_new_ok [OF new] snaps] registrations_deps [OF new inv] by simp
  then show "acyclic (depends (snapshot_index snaps))" using deps(2) by simp
  have keys: "k \<in> set (bt_keys services) \<longleftrightarrow> bt_get (sup_services c) k \<noteq> None" for k
    by (simp add: bt_keys_set domIff registrations_get [OF new inv])
  have "bt_get (sup_services c) d \<noteq> None" if "(s, d) \<in> (declared_deps (sup_services c))\<^sup>*" "s \<in> set sids" for s d
    using that(1)
  proof (cases rule: rtranclE)
    case base
    then show ?thesis using that(2) requested by (auto simp: bt_keys_set)
  qed (auto simp: deps(1) config_deps_def)
  then show "d \<in> (depends (snapshot_index snaps))\<^sup>* `` set sids \<Longrightarrow> bt_get (snapshot_index snaps) d \<noteq> None" for d
    using snapshot_index_registered [OF registry_new_ok [OF new] snaps] keys unfolding rel by blast
qed

section \<open>An example\<close>

definition example_env :: host_env where
  "example_env = \<lparr>he_is_absolute = (\<lambda>p. prefix ''/'' p), he_is_dir = (\<lambda>p. p = ''/srv''),
     he_is_file = (\<lambda>p. p = ''/bin/app''),
     he_components = (\<lambda>p. [CompNormal ''.runtime'', CompNormal ''control.token'']),
     he_join = (\<lambda>a b. a @ ''/'' @ b), he_loopback_ip = (\<lambda>s. s = ''127.0.0.1''),
     he_loopback_socket = (\<lambda>s. prefix ''127.0.0.1:'' s)\<rparr>"

definition example_service :: "string list \<Rightarrow> u16 list \<Rightarrow> service_config" where
  "example_service deps ports = \<lparr>sc_label = ''App'', sc_cwd = ''/srv'', sc_command = ''/bin/app'', sc_args = [],
     sc_environment = bt_empty, sc_depends_on = deps, sc_startup_prerequisites = [],
     sc_health = HcTcpConnect ''127.0.0.1'' 8080 500 5000, sc_ports = ports, sc_restart_policy = RpOnFailure,
     sc_shutdown_grace_ms = 1000\<rparr>"

definition example_config :: "(string, service_config) btree \<Rightarrow> supervisor_config" where
  "example_config services = \<lparr>sup_version = 2,
     sup_control = \<lparr>cc_host = ''127.0.0.1'', cc_port = 7000, cc_token_file = ''.runtime/control.token'',
       cc_mcp = \<lparr>mcp_enabled = False, mcp_allowed_origins = []\<rparr>\<rparr>,
     sup_console_events = EventsLifecycle, sup_chrome_extension_reload = None, sup_services = services\<rparr>"

definition example_pair :: "(string, service_config) btree" where
  "example_pair = [(''db'', example_service [] [5432]), (''web'', example_service [''db''] [8080, 8081])]"

lemma example_pair_invar: "bt_invar example_pair"
  by code_simp

lemma example_config_valid: "validate_structure example_env (example_config example_pair) = Inr ()"
  by code_simp

section \<open>Properties\<close>

text \<open>C40: The search for a dependency cycle is exact: when it finds none, the dependencies between
  registered services are acyclic, and what it reports is a cycle of declared dependencies.\<close>

theorem dependency_cycle_exact:
  "case dependency_cycle services of
      None \<Rightarrow> acyclic (config_deps services)
    | Some cycle \<Rightarrow> is_cycle (config_deps services) cycle"
  using dependency_cycle_None [of services] dependency_cycle_Some [of services] by (simp split: option.split)

text \<open>In a configuration that passes the structural validation every port has one owner: the
  control port and the declared ports of all services are distinct and none is zero.\<close>

lemma valid_config_ports_owned:
  assumes "validate_structure env c = Inr ()"
  shows "distinct (cc_port (sup_control c) # concat (map (sc_ports \<circ> snd) (sup_services c)))
    \<and> 0 \<notin> set (cc_port (sup_control c) # concat (map (sc_ports \<circ> snd) (sup_services c)))"
proof -
  have "bt_invar [(cc_port (sup_control c), ''control'')]" by (simp add: bt_invar_def)
  from validate_services_Nil [OF valid_structure_parts(2) [OF assms] this] valid_structure_parts(4) [OF assms]
  show ?thesis by (auto simp: bt_get_def)
qed

text \<open>The launch check is exact: it finds no issue just when at least one service was named and
  every service reachable over the declared dependencies is registered, with an absolute existing
  working directory and executable.\<close>

lemma launch_readiness_exact:
  "validate_launch_readiness env c sids = Inr () \<longleftrightarrow>
     sids \<noteq> [] \<and> (\<forall>sid \<in> (declared_deps (sup_services c))\<^sup>* `` set sids. \<exists>s.
        bt_get (sup_services c) sid = Some s
        \<and> he_is_absolute env (sc_cwd s) \<and> he_is_dir env (sc_cwd s)
        \<and> he_is_absolute env (sc_command s) \<and> he_is_file env (sc_command s))"
proof -
  obtain js relevant where run: "relevant_loop (sup_services c) sids {} = (js, relevant)" by force
  have spec: "relevant = (declared_deps (sup_services c))\<^sup>* `` set sids"
    "set js = service_not_found ` {x \<in> relevant. bt_get (sup_services c) x = None}"
    using relevant_loop_spec [OF run] by simp_all
  let ?sel = "filter (\<lambda>sid. sid \<in> relevant) (bt_keys (sup_services c))"
  have sel: "selected_service_filesystem_issues env c ?sel = [] \<longleftrightarrow>
      (\<forall>sid \<in> relevant. \<forall>s. bt_get (sup_services c) sid = Some s \<longrightarrow>
        he_is_absolute env (sc_cwd s) \<and> he_is_dir env (sc_cwd s)
        \<and> he_is_absolute env (sc_command s) \<and> he_is_file env (sc_command s))"
    by (auto simp: selected_service_filesystem_issues_def validate_directory_def validate_executable_def
        bt_keys_set split: option.splits if_splits)
  have "validate_launch_readiness env c sids = Inr () \<longleftrightarrow>
      sids \<noteq> [] \<and> js = [] \<and> selected_service_filesystem_issues env c ?sel = []"
    by (simp add: validate_launch_readiness_def invalid_or_def launch_readiness_issues_def run)
  moreover have "js = [] \<longleftrightarrow> (\<forall>sid \<in> relevant. bt_get (sup_services c) sid \<noteq> None)"
    using spec(2) by (cases js) auto
  ultimately show ?thesis unfolding sel spec(1) [symmetric] by (metis not_Some_eq option.sel)
qed

text \<open>C29: A configuration that passes the structural validation can be run: its registrations give a
  registry, and from every snapshot of it a start order can be made for every list of its services.\<close>

theorem valid_config_plans:
  fixes bk :: "('w, 'p, 'e, 'n) backend"
  assumes "validate_structure env c = Inr ()" and "bt_invar (sup_services c)"
    and "set sids \<subseteq> set (bt_keys (sup_services c))"
  shows "case registry_new (service_registrations c) of
      Inl e \<Rightarrow> False
    | Inr services \<Rightarrow> (case snapshots bk (services, w) of
          (Ok snaps, st) \<Rightarrow> (\<exists>order. stable_start_order snaps sids = Inr order)
        | (_, st) \<Rightarrow> True)"
proof -
  obtain services :: "'p services" where new: "registry_new (service_registrations c) = Inr services"
    using registrations_new [OF assms(2)] by blast
  show ?thesis
    using valid_config_order [OF assms(1,2) new _ assms(3)]
    by (auto simp: new split: prod.splits outcome.splits)
qed

lemma valid_config_plans_witness:
  "\<exists>services snaps st order. registry_new (service_registrations (example_config example_pair)) = Inr services
     \<and> snapshots (demo []) (services, demo_world) = (Ok snaps, st)
     \<and> stable_start_order snaps [''web''] = Inr order"
proof -
  let ?regs = "service_registrations (example_config example_pair)"
  have run: "(case registry_new ?regs of Inl e \<Rightarrow> None
      | Inr services \<Rightarrow> Some (map_outcome (\<lambda>_. ()) (fst (snapshots (demo []) (services, demo_world))))) = Some (Ok ())"
    by code_simp
  then obtain services where new: "registry_new ?regs = Inr services"
    and ok: "map_outcome (\<lambda>_. ()) (fst (snapshots (demo []) (services, demo_world))) = Ok ()"
    by (auto split: sum.splits)
  then obtain snaps st where snaps: "snapshots (demo []) (services, demo_world) = (Ok snaps, st)"
    by (cases "snapshots (demo []) (services, demo_world)") (auto simp: map_outcome_Ok)
  have "bt_invar (sup_services (example_config example_pair))"
    "set [''web''] \<subseteq> set (bt_keys (sup_services (example_config example_pair)))" by code_simp+
  from valid_config_plans [OF example_config_valid this, where bk = "demo []" and w = demo_world] new snaps
  show ?thesis by auto
qed

end
