(* ===== verification/Shutdown_Order.thy ===== *)
theory Shutdown_Order
  imports Dependency "HOL-Library.Multiset"
begin

text \<open>
  \<open>stable_shutdown_order\<close> of \<open>src/src/application/dependency_control.rs\<close>: the order in which the
  supervisor stops its services when it ends. Dependents come first; among the services that are
  ready the one listed first is taken.
\<close>

section \<open>The order\<close>

text \<open>One pass over the dependencies of a service: how often each is needed, and by whom.\<close>

type_synonym plan_counts = "(string, nat) btree \<times> (string, string list) btree"

fun count_service :: "string \<Rightarrow> string list \<Rightarrow> plan_counts \<Rightarrow> control_error + plan_counts" where
  "count_service sid [] (remaining, dependencies) = Inr (remaining, dependencies)"
| "count_service sid (d # ds) (remaining, dependencies) =
     (case bt_get remaining d of
        None \<Rightarrow> Inl (ce_service_not_found d)
      | Some n \<Rightarrow>
          (case bt_get dependencies sid of
             None \<Rightarrow> Inl (ce_service_not_found sid)
           | Some l \<Rightarrow> count_service sid ds (bt_insert d (n + 1) remaining, bt_insert sid (l @ [d]) dependencies)))"

fun count_services :: "service_snapshot list \<Rightarrow> plan_counts \<Rightarrow> control_error + plan_counts" where
  "count_services [] counts = Inr counts"
| "count_services (s # snaps) counts =
     (case count_service (ss_id s) (ss_depends_on s) counts of
        Inl e \<Rightarrow> Inl e
      | Inr counts \<Rightarrow> count_services snaps counts)"

text \<open>
  The dependencies of a service that was taken: each is needed once less, and is ready when it is
  not needed any more. A count below zero is the overflow of the subtraction.
\<close>

fun release ::
  "string list \<Rightarrow> (string, nat) btree \<times> string list \<Rightarrow> ((string, nat) btree \<times> string list, control_error) outcome" where
  "release [] (remaining, ready) = Ok (remaining, ready)"
| "release (d # ds) (remaining, ready) =
     (case bt_get remaining d of
        None \<Rightarrow> Err (ce_service_not_found d)
      | Some n \<Rightarrow>
          if n = 0 then Panic
          else release ds (bt_insert d (n - 1) remaining, if n - 1 = 0 then ready @ [d] else ready))"

definition needed :: "(string, nat) btree \<Rightarrow> string set" where
  "needed remaining = {k. \<exists>n > 0. bt_get remaining k = Some n}"

lemma bt_get_insert_any: "bt_get (bt_insert k v m) = (bt_get m)(k \<mapsto> v)"
proof (intro ext)
  show "bt_get (bt_insert k v m) j = ((bt_get m)(k \<mapsto> v)) j" for j
    unfolding bt_get_def by (induction k v m rule: bt_insert.induct) auto
qed

lemma needed_finite: "finite (needed remaining)"
proof (rule finite_subset)
  show "needed remaining \<subseteq> fst ` set remaining"
    by (auto simp: needed_def bt_get_def dest!: map_of_SomeD intro: rev_image_eqI)
qed simp

lemma release_measure:
  "release ds (remaining, ready) = Ok (remaining', ready') \<Longrightarrow>
     length ready' + card (needed remaining') \<le> length ready + card (needed remaining)"
proof (induction ds arbitrary: remaining ready)
  case (Cons d ds)
  obtain n where n: "bt_get remaining d = Some n" "n > 0"
    and rest: "release ds (bt_insert d (n - 1) remaining, if n - 1 = 0 then ready @ [d] else ready) = Ok (remaining', ready')"
    using Cons.prems by (auto split: option.splits if_splits)
  have d: "d \<in> needed remaining" using n by (auto simp: needed_def)
  have "needed (bt_insert d (n - 1) remaining) = (if n - 1 = 0 then needed remaining - {d} else needed remaining)"
    using n by (auto simp: needed_def bt_get_insert_any)
  moreover have "card (needed remaining) = Suc (card (needed remaining - {d}))"
    using d needed_finite by (metis card_Suc_Diff1)
  ultimately show ?case using Cons.IH [OF rest] by (auto split: if_splits)
qed simp

definition position_of :: "(string, nat) btree \<Rightarrow> string \<Rightarrow> nat" where
  "position_of positions sid = (case bt_get positions sid of None \<Rightarrow> 2 ^ 64 - 1 | Some p \<Rightarrow> p)"

lemma sort_key_Cons_length: "sort_key f xs = y # ys \<Longrightarrow> length ys < length xs"
  by (metis Suc_le_eq length_Cons length_sort order_refl)

function shutdown_loop ::
  "(string, nat) btree \<Rightarrow> (string, string list) btree \<Rightarrow> (string, nat) btree \<Rightarrow> string list \<Rightarrow> string list
     \<Rightarrow> (string list, control_error) outcome" where
  "shutdown_loop positions dependencies remaining ready ordered =
     (case sort_key (position_of positions) ready of
        [] \<Rightarrow> Ok ordered
      | sid # ready \<Rightarrow>
          (case bt_get dependencies sid of
             None \<Rightarrow> Err (ce_service_not_found sid)
           | Some ds \<Rightarrow>
               (case release ds (remaining, ready) of
                  Ok (remaining, ready) \<Rightarrow> shutdown_loop positions dependencies remaining ready (ordered @ [sid])
                | Err e \<Rightarrow> Err e
                | Panic \<Rightarrow> Panic)))"
  by pat_completeness auto
termination
proof (relation "measure (\<lambda>(_, _, remaining, ready, _). length ready + card (needed remaining))", simp, goal_cases)
  case (1 positions dependencies remaining ready ordered sid rest ds x r q)
  then show ?case
    using release_measure [of ds remaining rest r q] sort_key_Cons_length [of "position_of positions" ready sid rest]
    by simp
qed

declare shutdown_loop.simps [simp del]

definition stable_shutdown_order :: "service_snapshot list \<Rightarrow> (string list, control_error) outcome" where
  "stable_shutdown_order snaps =
     (let positions = bt_collect (zip (map ss_id snaps) [0..<length snaps]);
          remaining = bt_collect (map (\<lambda>s. (ss_id s, 0)) snaps);
          dependencies = bt_collect (map (\<lambda>s. (ss_id s, [])) snaps) in
      case count_services snaps (remaining, dependencies) of
        Inl e \<Rightarrow> Err e
      | Inr (remaining, dependencies) \<Rightarrow>
          (case shutdown_loop positions dependencies remaining
              (map ss_id (filter (\<lambda>s. bt_get remaining (ss_id s) = Some 0) snaps)) [] of
             Ok ordered \<Rightarrow>
               if length ordered \<noteq> length snaps
               then Err (ce_internal ''service dependency cycle reached while planning shutdown'')
               else Ok ordered
           | Err e \<Rightarrow> Err e
           | Panic \<Rightarrow> Panic))"

section \<open>Counting\<close>

lemma count_service_Inl:
  "count_service sid ds (remaining, dependencies) = Inl e \<Longrightarrow> bt_get dependencies sid \<noteq> None \<Longrightarrow>
     \<exists>d \<in> set ds. bt_get remaining d = None \<and> e = ce_service_not_found d"
proof (induction ds arbitrary: remaining dependencies)
  case (Cons d ds)
  show ?case
  proof (cases "bt_get remaining d")
    case (Some n)
    then obtain l where rest: "count_service sid ds (bt_insert d (n + 1) remaining, bt_insert sid (l @ [d]) dependencies) = Inl e"
      using Cons.prems by auto
    then obtain d' where "d' \<in> set ds" "bt_get (bt_insert d (n + 1) remaining) d' = None" "e = ce_service_not_found d'"
      using Cons.IH [OF rest] by (auto simp: bt_get_insert_any)
    then show ?thesis by (auto simp: bt_get_insert_any split: if_splits)
  qed (use Cons.prems in auto)
qed simp

lemma count_service_Inr:
  "count_service sid ds (remaining, dependencies) = Inr (remaining', dependencies') \<Longrightarrow>
     (\<forall>d \<in> set ds. bt_get remaining d \<noteq> None)
     \<and> (\<forall>k. bt_get remaining' k = map_option (\<lambda>n. n + count_list ds k) (bt_get remaining k))
     \<and> (\<forall>k. bt_get dependencies' k = map_option (\<lambda>l. l @ (if k = sid then ds else [])) (bt_get dependencies k))"
proof (induction ds arbitrary: remaining dependencies)
  case Nil
  then show ?case by (auto simp: option.map_ident)
next
  case (Cons d ds)
  obtain n l where n: "bt_get remaining d = Some n" "bt_get dependencies sid = Some l"
    and rest: "count_service sid ds (bt_insert d (n + 1) remaining, bt_insert sid (l @ [d]) dependencies)
      = Inr (remaining', dependencies')"
    using Cons.prems by (auto split: option.splits)
  show ?case using Cons.IH [OF rest] n
    by (auto simp: bt_get_insert_any split: if_splits)
qed

lemma count_services_Inl:
  "count_services snaps (remaining, dependencies) = Inl e \<Longrightarrow> \<forall>s \<in> set snaps. bt_get dependencies (ss_id s) \<noteq> None \<Longrightarrow>
     \<exists>s \<in> set snaps. \<exists>d \<in> set (ss_depends_on s). bt_get remaining d = None \<and> e = ce_service_not_found d"
proof (induction snaps arbitrary: remaining dependencies)
  case (Cons s snaps)
  show ?case
  proof (cases "count_service (ss_id s) (ss_depends_on s) (remaining, dependencies)")
    case (Inl e')
    then show ?thesis using Cons.prems count_service_Inl [OF Inl] by auto
  next
    case (Inr counts)
    obtain r d where counts: "counts = (r, d)" by force
    note spec = count_service_Inr [OF Inr [unfolded counts]]
    have rest: "count_services snaps (r, d) = Inl e" using Cons.prems Inr counts by simp
    have "\<forall>s \<in> set snaps. bt_get d (ss_id s) \<noteq> None" using Cons.prems(2) spec by simp
    from Cons.IH [OF rest this] show ?thesis using spec by auto
  qed
qed simp

lemma count_services_Inr:
  "count_services snaps (remaining, dependencies) = Inr (remaining', dependencies') \<Longrightarrow>
     (\<forall>s \<in> set snaps. \<forall>d \<in> set (ss_depends_on s). bt_get remaining d \<noteq> None)
     \<and> (\<forall>k. bt_get remaining' k = map_option (\<lambda>n. n + (\<Sum>s\<leftarrow>snaps. count_list (ss_depends_on s) k)) (bt_get remaining k))
     \<and> (\<forall>k. bt_get dependencies' k =
          map_option (\<lambda>l. l @ concat (map (\<lambda>s. if ss_id s = k then ss_depends_on s else []) snaps)) (bt_get dependencies k))"
proof (induction snaps arbitrary: remaining dependencies)
  case Nil
  then show ?case by (auto simp: option.map_ident)
next
  case (Cons s snaps)
  obtain r d where one: "count_service (ss_id s) (ss_depends_on s) (remaining, dependencies) = Inr (r, d)"
    and rest: "count_services snaps (r, d) = Inr (remaining', dependencies')"
    using Cons.prems by (auto split: sum.splits)
  note a = count_service_Inr [OF one] and b = Cons.IH [OF rest]
  show ?case
  proof (intro conjI allI)
    show "\<forall>s \<in> set (s # snaps). \<forall>d \<in> set (ss_depends_on s). bt_get remaining d \<noteq> None" using a b by auto
    show "bt_get remaining' k = map_option (\<lambda>n. n + (\<Sum>s\<leftarrow>s # snaps. count_list (ss_depends_on s) k)) (bt_get remaining k)" for k
      using a b by (simp add: option.map_comp comp_def add.assoc)
    show "bt_get dependencies' k = map_option (\<lambda>l. l @ concat (map (\<lambda>s. if ss_id s = k then ss_depends_on s else []) (s # snaps)))
        (bt_get dependencies k)" for k
      using a b by (auto simp: option.map_comp comp_def)
  qed
qed

section \<open>Taking services\<close>

lemma release_Ok:
  assumes "\<forall>d \<in> set ds. \<exists>n. bt_get remaining d = Some n \<and> count_list ds d \<le> n"
  shows "\<exists>remaining' new. release ds (remaining, ready) = Ok (remaining', ready @ new)
    \<and> (\<forall>k. bt_get remaining' k = map_option (\<lambda>n. n - count_list ds k) (bt_get remaining k))
    \<and> distinct new \<and> set new = {k \<in> set ds. bt_get remaining k = Some (count_list ds k)}"
  using assms
proof (induction ds arbitrary: remaining ready)
  case Nil
  then show ?case by (auto simp: option.map_ident)
next
  case (Cons d ds)
  obtain n where n: "bt_get remaining d = Some n" "Suc (count_list ds d) \<le> n" using Cons.prems by auto
  let ?rem = "bt_insert d (n - 1) remaining" and ?ready = "if n - 1 = 0 then ready @ [d] else ready"
  have "\<forall>x \<in> set ds. \<exists>m. bt_get ?rem x = Some m \<and> count_list ds x \<le> m"
    using Cons.prems n by (auto simp: bt_get_insert_any split: if_splits)
  from Cons.IH [OF this, of ?ready] obtain remaining' new where
    run: "release ds (?rem, ?ready) = Ok (remaining', ?ready @ new)"
    and get: "\<forall>k. bt_get remaining' k = map_option (\<lambda>n. n - count_list ds k) (bt_get ?rem k)"
    and dist: "distinct new" and new: "set new = {k \<in> set ds. bt_get ?rem k = Some (count_list ds k)}" by blast
  have rel: "release (d # ds) (remaining, ready) = Ok (remaining', ready @ ((if n - 1 = 0 then [d] else []) @ new))"
    using run n by (auto split: if_splits)
  moreover have "\<forall>k. bt_get remaining' k = map_option (\<lambda>n. n - count_list (d # ds) k) (bt_get remaining k)"
    using get n by (auto simp: bt_get_insert_any)
  moreover have zero: "d \<notin> set ds" if "n - 1 = 0" using that n by (simp add: count_list_0_iff [symmetric])
  then have "distinct ((if n - 1 = 0 then [d] else []) @ new)" using dist new by auto
  moreover have "x \<in> set ((if n - 1 = 0 then [d] else []) @ new) \<longleftrightarrow>
      x \<in> set (d # ds) \<and> bt_get remaining x = Some (count_list (d # ds) x)" for x
  proof (cases "x = d")
    case True
    have mem: "d \<in> set new \<longleftrightarrow> d \<in> set ds \<and> n - 1 = count_list ds d"
      using new by (simp add: bt_get_insert_any)
    have none: "d \<notin> set ds \<Longrightarrow> count_list ds d = 0" by (simp add: count_list_0_iff)
    show ?thesis
    proof (cases "n - 1 = 0")
      case z: True
      then show ?thesis using True n none [OF zero [OF z]] by simp
    next
      case False
      then have "n = Suc (count_list ds d) \<Longrightarrow> d \<in> set ds" using none by fastforce
      then show ?thesis using True False n mem by auto
    qed
  next
    case False
    then show ?thesis using new by (auto simp: bt_get_insert_any)
  qed
  then have "set ((if n - 1 = 0 then [d] else []) @ new)
      = {k \<in> set (d # ds). bt_get remaining k = Some (count_list (d # ds) k)}" by blast
  ultimately show ?case by blast
qed

section \<open>The loop\<close>

text \<open>Every service comes after all services that depend on it.\<close>

fun dependents_first :: "('a \<times> 'a) set \<Rightarrow> 'a list \<Rightarrow> 'a list \<Rightarrow> bool" where
  "dependents_first R before [] = True"
| "dependents_first R before (x # xs) \<longleftrightarrow>
     {s. (s, x) \<in> R} \<subseteq> set before \<and> dependents_first R (before @ [x]) xs"

lemma dependents_first_append:
  "dependents_first R before (xs @ ys) \<longleftrightarrow> dependents_first R before xs \<and> dependents_first R (before @ xs) ys"
  by (induction xs arbitrary: before) auto

definition snapshot_deps :: "service_snapshot list \<Rightarrow> (string \<times> string) set" where
  "snapshot_deps snaps = {(x, d). \<exists>s \<in> set snaps. ss_id s = x \<and> d \<in> set (ss_depends_on s)}"

definition snapshot_ids :: "service_snapshot list \<Rightarrow> string set" where
  "snapshot_ids snaps = set (map ss_id snaps)"

text \<open>How often a service is needed by those that were not taken yet.\<close>

definition pending :: "service_snapshot list \<Rightarrow> string set \<Rightarrow> string \<Rightarrow> nat" where
  "pending snaps taken k = (\<Sum>s\<leftarrow>snaps. if ss_id s \<in> taken then 0 else count_list (ss_depends_on s) k)"

lemma pending_0: "pending snaps taken k = 0 \<longleftrightarrow> {x. (x, k) \<in> snapshot_deps snaps} \<subseteq> taken"
proof -
  have "pending snaps taken k = 0 \<longleftrightarrow> (\<forall>s \<in> set snaps. ss_id s \<notin> taken \<longrightarrow> k \<notin> set (ss_depends_on s))"
    unfolding pending_def by (induction snaps) (auto simp: count_list_0_iff)
  then show ?thesis by (auto simp: snapshot_deps_def)
qed

lemma pending_take:
  assumes "s \<in> set snaps" and "distinct (map ss_id snaps)" and "ss_id s \<notin> taken"
  shows "pending snaps taken k = count_list (ss_depends_on s) k + pending snaps (insert (ss_id s) taken) k"
proof -
  obtain xs ys where snaps: "snaps = xs @ s # ys" using split_list [OF assms(1)] by blast
  have other: "ss_id x \<noteq> ss_id s" if "x \<in> set xs \<union> set ys" for x
    using that assms(2) by (auto simp: snaps image_iff)
  have same: "pending zs (insert (ss_id s) taken) k = pending zs taken k" if "set zs \<subseteq> set xs \<union> set ys" for zs
    unfolding pending_def using that other by (intro arg_cong [of _ _ sum_list] map_cong) auto
  have "pending snaps t k = pending xs t k + (if ss_id s \<in> t then 0 else count_list (ss_depends_on s) k) + pending ys t k" for t
    by (simp add: snaps pending_def)
  then show ?thesis using assms(3) same [of xs] same [of ys] by simp
qed

definition loop_inv ::
  "service_snapshot list \<Rightarrow> (string, string list) btree \<Rightarrow> (string, nat) btree \<Rightarrow> string list \<Rightarrow> string list \<Rightarrow> bool" where
  "loop_inv snaps dependencies remaining ready ordered \<longleftrightarrow>
     (\<forall>s \<in> set snaps. bt_get dependencies (ss_id s) = Some (ss_depends_on s)
        \<and> set (ss_depends_on s) \<subseteq> snapshot_ids snaps)
     \<and> (\<forall>k \<in> snapshot_ids snaps. bt_get remaining k = Some (pending snaps (set ordered) k))
     \<and> distinct ready
     \<and> set ready = {k \<in> snapshot_ids snaps. pending snaps (set ordered) k = 0 \<and> k \<notin> set ordered}
     \<and> distinct ordered \<and> set ordered \<subseteq> snapshot_ids snaps
     \<and> (\<forall>k \<in> set ordered. pending snaps (set ordered) k = 0)
     \<and> dependents_first (snapshot_deps snaps) [] ordered"

lemma loop_inv_step:
  assumes inv: "loop_inv snaps dependencies remaining ready ordered" and dist: "distinct (map ss_id snaps)"
    and sort: "sort_key (position_of positions) ready = sid # rest"
  shows "\<exists>s remaining' ready'. s \<in> set snaps \<and> ss_id s = sid \<and> bt_get dependencies sid = Some (ss_depends_on s)
    \<and> release (ss_depends_on s) (remaining, rest) = Ok (remaining', ready')
    \<and> loop_inv snaps dependencies remaining' ready' (ordered @ [sid])"
proof -
  let ?P = "pending snaps (set ordered)" and ?P' = "pending snaps (insert sid (set ordered))"
  have ready: "set ready = insert sid (set rest)" "sid \<notin> set rest" "distinct rest"
    using sort inv distinct_sort [of "position_of positions" ready] set_sort [of "position_of positions" ready]
    by (auto simp: loop_inv_def)
  have sid: "sid \<in> snapshot_ids snaps" "?P sid = 0" "sid \<notin> set ordered"
    using ready(1) inv by (auto simp: loop_inv_def)
  then obtain s where s: "s \<in> set snaps" "ss_id s = sid" by (auto simp: snapshot_ids_def)
  let ?ds = "ss_depends_on s"
  have take: "?P k = count_list ?ds k + ?P' k" for k
    using pending_take [OF s(1) dist, of "set ordered" k] s(2) sid(3) by simp
  have deps: "bt_get dependencies sid = Some ?ds" "set ?ds \<subseteq> snapshot_ids snaps"
    using inv s by (auto simp: loop_inv_def)
  have rem: "bt_get remaining k = Some (?P k)" if "k \<in> snapshot_ids snaps" for k
    using inv that by (simp add: loop_inv_def)
  have "\<forall>d \<in> set ?ds. \<exists>n. bt_get remaining d = Some n \<and> count_list ?ds d \<le> n"
    using deps(2) rem take by auto
  from release_Ok [OF this, of rest] obtain remaining' new where
    run: "release ?ds (remaining, rest) = Ok (remaining', rest @ new)"
    and get: "\<forall>k. bt_get remaining' k = map_option (\<lambda>n. n - count_list ?ds k) (bt_get remaining k)"
    and new: "distinct new" "set new = {k \<in> set ?ds. bt_get remaining k = Some (count_list ?ds k)}" by blast
  have new': "set new = {k \<in> set ?ds. ?P' k = 0}"
    using new(2) rem deps(2) take by (auto simp: subset_iff)
  have zero: "k \<notin> set ?ds" if "?P k = 0" for k
    using that take [of k] by (simp add: count_list_0_iff)
  have old: "?P k = 0" if "k \<in> insert sid (set ordered)" for k
    using that sid(2) inv by (auto simp: loop_inv_def)
  have rest: "set rest = {k \<in> snapshot_ids snaps. ?P k = 0 \<and> k \<notin> insert sid (set ordered)}"
    using ready inv by (auto simp: loop_inv_def)
  have "set (rest @ new) = {k \<in> snapshot_ids snaps. ?P' k = 0 \<and> k \<notin> insert sid (set ordered)}"
  proof (intro equalityI subsetI)
    fix k assume "k \<in> set (rest @ new)"
    then show "k \<in> {k \<in> snapshot_ids snaps. ?P' k = 0 \<and> k \<notin> insert sid (set ordered)}"
      using rest new' deps(2) zero old take [of k] by auto
  next
    fix k assume k: "k \<in> {k \<in> snapshot_ids snaps. ?P' k = 0 \<and> k \<notin> insert sid (set ordered)}"
    show "k \<in> set (rest @ new)"
    proof (cases "k \<in> set ?ds")
      case False
      then have "?P k = 0" using take [of k] k by (simp add: count_list_0_iff)
      then show ?thesis using k rest by simp
    qed (use k new' in simp)
  qed
  moreover have "distinct (rest @ new)" using ready(3) new(1) new' rest zero by auto
  moreover have "\<forall>k \<in> insert sid (set ordered). ?P' k = 0" using old take by simp
  moreover have "{x. (x, sid) \<in> snapshot_deps snaps} \<subseteq> set ordered" using sid(2) by (simp add: pending_0)
  ultimately have "loop_inv snaps dependencies remaining' (rest @ new) (ordered @ [sid])"
    using inv sid get rem take by (auto simp: loop_inv_def dependents_first_append)
  then show ?thesis using s deps(1) run by blast
qed

lemma shutdown_loop_Ok:
  assumes "loop_inv snaps dependencies remaining ready ordered" and "distinct (map ss_id snaps)"
  shows "\<exists>remaining' ordered'. shutdown_loop positions dependencies remaining ready ordered = Ok ordered'
    \<and> loop_inv snaps dependencies remaining' [] ordered'"
  using assms(1)
proof (induction positions dependencies remaining ready ordered rule: shutdown_loop.induct)
  case (1 positions dependencies remaining ready ordered)
  show ?case
  proof (cases "sort_key (position_of positions) ready")
    case Nil
    then have "ready = []" by (metis length_0_conv length_sort)
    then show ?thesis using "1.prems" by (auto simp: shutdown_loop.simps)
  next
    case (Cons sid rest)
    obtain s :: service_snapshot and r q where s: "bt_get dependencies sid = Some (ss_depends_on s)"
      "release (ss_depends_on s) (remaining, rest) = Ok (r, q)"
      and inv: "loop_inv snaps dependencies r q (ordered @ [sid])"
      using loop_inv_step [OF "1.prems" assms(2) Cons] by blast
    from "1.IH" [OF Cons s refl inv] show ?thesis
      by (subst shutdown_loop.simps) (simp add: Cons s)
  qed
qed

lemma order_complete:
  assumes "loop_inv snaps dependencies remaining [] ordered" and "distinct (map ss_id snaps)"
    and "acyclic (snapshot_deps snaps)"
  shows "length ordered = length snaps"
proof -
  let ?R = "snapshot_deps snaps"
  have "?R \<subseteq> (\<Union>s \<in> set snaps. {ss_id s} \<times> set (ss_depends_on s))" by (auto simp: snapshot_deps_def)
  then have "finite ?R" by (rule finite_subset) simp
  then have wf: "wf ?R" using assms(3) by (simp add: finite_acyclic_wf)
  have "snapshot_ids snaps - set ordered = {}"
  proof (rule ccontr)
    assume "snapshot_ids snaps - set ordered \<noteq> {}"
    then obtain z where z: "z \<in> snapshot_ids snaps - set ordered"
      and min: "\<And>y. (y, z) \<in> ?R \<Longrightarrow> y \<notin> snapshot_ids snaps - set ordered"
      using wf unfolding wf_eq_minimal by (metis ex_in_conv)
    have "{x. (x, z) \<in> ?R} \<subseteq> set ordered" using min by (auto simp: snapshot_deps_def snapshot_ids_def)
    then show False using z assms(1) by (auto simp: loop_inv_def pending_0 [symmetric])
  qed
  then have "set ordered = set (map ss_id snaps)" using assms(1) by (auto simp: loop_inv_def snapshot_ids_def)
  then show ?thesis using assms by (metis distinct_card length_map loop_inv_def)
qed

lemma count_start:
  assumes "distinct (map ss_id snaps)"
    and "count_services snaps (bt_collect (map (\<lambda>s. (ss_id s, 0)) snaps), bt_collect (map (\<lambda>s. (ss_id s, [])) snaps))
      = Inr (remaining, dependencies)"
  shows "loop_inv snaps dependencies remaining (map ss_id (filter (\<lambda>s. bt_get remaining (ss_id s) = Some 0) snaps)) []"
proof -
  have get: "bt_get (bt_collect (map (\<lambda>s. (ss_id s, v)) snaps)) k = (if k \<in> snapshot_ids snaps then Some v else None)"
    for k and v :: 'v
    using assms(1) by (subst bt_collect_get_distinct) (auto simp: comp_def snapshot_ids_def map_of_eq_None_iff image_iff
      intro!: map_of_is_SomeI)
  note spec = count_services_Inr [OF assms(2)]
  have "concat (map (\<lambda>t. if ss_id t = ss_id s then ss_depends_on t else []) snaps) = ss_depends_on s"
    if "s \<in> set snaps" for s
    using that assms(1) by (induction snaps) (auto simp: image_iff; metis)+
  then show ?thesis
    using spec assms(1)
    by (auto simp: loop_inv_def get pending_def snapshot_ids_def distinct_map intro: inj_on_subset split: if_splits)
qed

section \<open>The order is exact\<close>

lemma shutdown_order_spec:
  assumes "distinct (map ss_id snaps)"
  shows "case stable_shutdown_order snaps of
      Ok order \<Rightarrow> distinct order \<and> set order = snapshot_ids snaps
        \<and> dependents_first (snapshot_deps snaps) [] order
    | Err e \<Rightarrow> (\<exists>(x, d) \<in> snapshot_deps snaps. d \<notin> snapshot_ids snaps \<and> e = ce_service_not_found d)
        \<or> \<not> acyclic (snapshot_deps snaps) \<and> ce_kind e = KindInternal
    | Panic \<Rightarrow> False"
proof -
  let ?rem = "bt_collect (map (\<lambda>s. (ss_id s, 0 :: nat)) snaps)"
  let ?deps = "bt_collect (map (\<lambda>s. (ss_id s, [] :: string list)) snaps)"
  have get: "bt_get ?rem k \<noteq> None \<longleftrightarrow> k \<in> snapshot_ids snaps" "bt_get ?deps k \<noteq> None \<longleftrightarrow> k \<in> snapshot_ids snaps" for k
    using assms by (simp_all add: bt_collect_get_distinct comp_def map_of_eq_None_iff snapshot_ids_def image_image)
  show ?thesis
  proof (cases "count_services snaps (?rem, ?deps)")
    case (Inl e)
    have "\<forall>s \<in> set snaps. bt_get ?deps (ss_id s) \<noteq> None" unfolding get by (simp add: snapshot_ids_def)
    from count_services_Inl [OF Inl this] obtain s d where
      sd: "s \<in> set snaps" "d \<in> set (ss_depends_on s)" "bt_get ?rem d = None" "e = ce_service_not_found d" by blast
    have "(ss_id s, d) \<in> snapshot_deps snaps" using sd(1,2) by (auto simp: snapshot_deps_def)
    moreover have "d \<notin> snapshot_ids snaps" using sd(3) get(1) by blast
    moreover have "stable_shutdown_order snaps = Err e" by (simp add: stable_shutdown_order_def Inl)
    ultimately show ?thesis using sd(4) by auto
  next
    case (Inr counts)
    obtain remaining dependencies where counts: "counts = (remaining, dependencies)" by force
    let ?ready = "map ss_id (filter (\<lambda>s. bt_get remaining (ss_id s) = Some 0) snaps)"
    let ?positions = "bt_collect (zip (map ss_id snaps) [0..<length snaps])"
    obtain r order where run: "shutdown_loop ?positions dependencies remaining ?ready [] = Ok order"
      and inv: "loop_inv snaps dependencies r [] order"
      using shutdown_loop_Ok [OF count_start [OF assms Inr [unfolded counts]] assms] by blast
    have res: "stable_shutdown_order snaps = (if length order \<noteq> length snaps
        then Err (ce_internal ''service dependency cycle reached while planning shutdown'') else Ok order)"
      by (simp add: stable_shutdown_order_def Inr counts run)
    show ?thesis
    proof (cases "length order = length snaps")
      case True
      have "distinct order" "set order \<subseteq> snapshot_ids snaps" "dependents_first (snapshot_deps snaps) [] order"
        using inv by (simp_all add: loop_inv_def)
      moreover have "card (snapshot_ids snaps) = length snaps"
        using distinct_card [OF assms] unfolding snapshot_ids_def by simp
      moreover have "finite (snapshot_ids snaps)" by (simp add: snapshot_ids_def)
      ultimately have "set order = snapshot_ids snaps"
        using distinct_card [of order] True by (intro card_subset_eq) simp_all
      then show ?thesis using inv True by (simp add: res loop_inv_def)
    next
      case False
      then show ?thesis using order_complete [OF inv assms] by (auto simp: res ce_internal_def)
    qed
  qed
qed

text \<open>The order is the reverse of a start order: dependencies come first when it is read backwards.\<close>

lemma dependents_first_before:
  "dependents_first R before (xs @ x # ys) \<Longrightarrow> (s, x) \<in> R \<Longrightarrow> s \<in> set before \<union> set xs"
  by (auto simp: dependents_first_append)

end
