(* ===== verification/Foreground.thy ===== *)
theory Foreground
  imports Shutdown_Order Config Journal Live_Logs Reconciliation
begin

text \<open>
  \<open>src/src/adapters/foreground.rs\<close>: the foreground process around the components. Its state is the
  stack of controls (registry, world and audit), the log store, the reconciliation report and what
  the monitors remember. The bodies of the monitor loops, the reconciliation of the configuration
  and the clean-up at the end are modelled; what is printed is appended to the console of the audit
  state. A turn of the configuration monitor is cut at its critical sections, since it changes the
  state of several components; a turn of the service monitor and a request are one step each.
\<close>

section \<open>The console\<close>

definition print_line :: "bool \<Rightarrow> string \<Rightarrow> 's \<times> 'io audit_state \<Rightarrow> 's \<times> 'io audit_state" where
  "print_line err line = apsnd (\<lambda>au. au\<lparr>as_console := as_console au @ [(err, line)]\<rparr>)"

definition console_timestamp_now :: "('s, 'io, 'je, 't) audit_config \<Rightarrow> 's \<Rightarrow> string" where
  "console_timestamp_now cfg s =
     (case format_unix_milliseconds (ac_chrono cfg) (ac_clock cfg s) (ac_console_timezone cfg) of
        None \<Rightarrow> ''timestamp-invalid'' | Some text \<Rightarrow> text)"

definition display_service_ids :: "string list \<Rightarrow> string" where
  "display_service_ids sids = (if sids = [] then ''-'' else join '','' sids)"

fun plan_verb :: "control_action \<Rightarrow> string" where
  "plan_verb CtlStart = ''Starting''"
| "plan_verb CtlRestart = ''Restarting''"
| "plan_verb CtlStop = ''Stopping''"

definition format_dependency_plan :: "control_action \<Rightarrow> string \<Rightarrow> string list \<Rightarrow> string list \<Rightarrow> string" where
  "format_dependency_plan action sid direct order =
     plan_verb action @ '' '' @ sid @ ''; dependsOn='' @ join '','' direct
     @ ''; checking order: '' @ join '' -> '' order @ ''.''"

text \<open>\<open>ConsoleDependencyPlanObserver\<close>.\<close>

definition console_observer ::
  "('s, 'io, 'je, 't) audit_config \<Rightarrow> bool \<Rightarrow> ('s \<times> 'io audit_state) plan_observer" where
  "console_observer cfg enabled action sid direct order s =
     (if \<not> enabled then s
      else print_line False (''['' @ console_timestamp_now cfg (fst s) @ ''] [dependency] ''
             @ format_dependency_plan action sid direct order) s)"

section \<open>Interactive commands\<close>

datatype interactive_command =
  IcStatus
| IcStart string reason
| IcStop string reason
| IcRestart string reason
| IcHelp
| IcQuit

definition lifecycle_command :: "string \<Rightarrow> string \<Rightarrow> reason \<Rightarrow> interactive_command" where
  "lifecycle_command action sid r =
     (if action = ''start'' then IcStart sid r else if action = ''stop'' then IcStop sid r else IcRestart sid r)"

definition parse_interactive :: "string \<Rightarrow> string + interactive_command" where
  "parse_interactive line =
     (let fields = split_whitespace line in
      if fields = [] \<or> fields = [''status''] then Inr IcStatus
      else if fields = [''help''] then Inr IcHelp
      else if fields = [''quit''] \<or> fields = [''exit''] then Inr IcQuit
      else if hd fields \<in> {''start'', ''stop'', ''restart''} then
        (case tl fields of
           [] \<Rightarrow> Inl ''service ID is required''
         | sid # words \<Rightarrow>
             (case reason_new (if words = [] then ''interactive CLI '' @ hd fields @ '' request''
                               else join '' '' words) of
                Inl e \<Rightarrow> Inl (show_reason_error e)
              | Inr r \<Rightarrow> Inr (lifecycle_command (hd fields) sid r)))
      else Inl ''unknown command; type help'')"

section \<open>The end of the process\<close>

record shutdown_cause =
  sc_actor :: actor
  sc_reason :: reason

text \<open>The reasons of the causes are literals that the reason type accepts.\<close>

definition user_cause :: "string \<Rightarrow> shutdown_cause" where
  "user_cause text = \<lparr>sc_actor = UserCli, sc_reason = Reason text\<rparr>"

definition recovery_cause :: "string \<Rightarrow> shutdown_cause" where
  "recovery_cause text = \<lparr>sc_actor = Recovery, sc_reason = Reason text\<rparr>"

definition shutdown_cause_for_development :: "string \<Rightarrow> shutdown_cause" where
  "shutdown_cause_for_development text =
     (if text = ''development watcher stopped by user''
      then user_cause ''user stopped development watcher''
      else \<lparr>sc_actor = Recovery,
        sc_reason = (case reason_new (''development watcher handoff: '' @ text) of
            Inr r \<Rightarrow> r
          | Inl _ \<Rightarrow> Reason ''development watcher requested bounded handoff'')\<rparr>)"

text \<open>\<open>SupervisorShutdown\<close>: one request is accepted, and repeated when it is the same.\<close>

record shutdown_request =
  sr_actor :: actor
  sr_reason :: reason
  sr_request_id :: string

datatype shutdown_outcome = ShutdownAccepted | ShutdownAlreadyAccepted

datatype shutdown_error = ShutdownAlreadyInProgress | ShutdownLockPoisoned

definition request_shutdown ::
  "shutdown_request \<Rightarrow> shutdown_request option \<Rightarrow> (shutdown_error + shutdown_outcome) \<times> shutdown_request option" where
  "request_shutdown req current = (case current of
      Some existing \<Rightarrow>
        (if existing = req then Inr ShutdownAlreadyAccepted else Inl ShutdownAlreadyInProgress, current)
    | None \<Rightarrow> (Inr ShutdownAccepted, Some req))"

text \<open>The services are stopped one after the other; a failure does not end the clean-up.\<close>

definition stopping_line :: "string \<Rightarrow> string" where
  "stopping_line sid = ''[shutdown] Stopping owned service: '' @ sid"

fun stop_all ::
  "('s \<times> 'io audit_state) control \<Rightarrow> shutdown_cause \<Rightarrow> string list \<Rightarrow>
     ('s \<times> 'io audit_state, string list, string list) op" where
  "stop_all ctl cause [] s = (Ok [], s)"
| "stop_all ctl cause (sid # sids) s =
     (case ctl_mutate ctl CtlStop sid (sc_actor cause) (sc_reason cause)
         (print_line False (stopping_line sid) s) of
        (Ok _, s) \<Rightarrow> stop_all ctl cause sids s
      | (Err e, s) \<Rightarrow>
          (case stop_all ctl cause sids s of
             (r, s) \<Rightarrow> (map_outcome ((#) (sid @ '': '' @ ce_message e)) r, s))
      | (Panic, s) \<Rightarrow> (Panic, s))"

text \<open>The error is the list of failures that \<open>ForegroundError::Cleanup\<close> carries.\<close>

definition cleanup ::
  "('s \<times> 'io audit_state) control \<Rightarrow> shutdown_cause \<Rightarrow> ('s \<times> 'io audit_state, unit, string list) op" where
  "cleanup ctl cause =
     bind_op (map_err_op (\<lambda>e. [ce_message e]) (ctl_snapshots ctl)) (\<lambda>snaps.
     bind_op (map_err_op (\<lambda>e. [ce_message e]) (\<lambda>s. (stable_shutdown_order snaps, s))) (\<lambda>order.
     bind_op (stop_all ctl cause order) (\<lambda>failures.
       if failures = [] then modify_op (print_line False ''Owned service cleanup complete.'')
       else fail_op failures)))"

section \<open>The monitor of the services\<close>

definition restart_reason_text :: "process_exit_event \<Rightarrow> string" where
  "restart_reason_text event =
     (if pee_deferred_restart_planned event then ''deferred restart after forced termination completed''
      else ''automatic on-failure restart'')
     @ '' after process tree exited '' @ exit_text event"

text \<open>
  One observed exit: it is recorded first, and a planned restart is only requested when that
  succeeded. An unusable reason would be a panic.
\<close>

definition handle_exit ::
  "('s, 'io, 'je, 't) audit_config \<Rightarrow> ('s \<times> 'io audit_state) control \<Rightarrow> process_exit_event \<Rightarrow>
     ('s \<times> 'io audit_state, unit, control_error) op" where
  "handle_exit cfg ctl event s =
     (case record_process_exit cfg event s of
        (Err e, s) \<Rightarrow>
          (Ok (), print_line True (''process exit audit failed for '' @ pee_service_id event @ '': ''
             @ ce_message e @ ''; planned restart suppressed'') s)
      | (Panic, s) \<Rightarrow> (Panic, s)
      | (Ok _, s) \<Rightarrow>
          if pee_automatic_restart_planned event \<or> pee_deferred_restart_planned event then
            (case reason_new (restart_reason_text event) of
               Inl _ \<Rightarrow> (Panic, s)
             | Inr r \<Rightarrow>
                 (case ctl_mutate ctl CtlRestart (pee_service_id event) Recovery r s of
                    (Ok _, s) \<Rightarrow> (Ok (), s)
                  | (Err e, s) \<Rightarrow>
                      (Ok (), print_line True (''automatic restart failed for '' @ pee_service_id event
                         @ '': '' @ ce_message e) s)
                  | (Panic, s) \<Rightarrow> (Panic, s)))
          else (Ok (), s))"

text \<open>The exits of one refresh, each with the stop flag as it is read before it.\<close>

fun handle_exits ::
  "('s, 'io, 'je, 't) audit_config \<Rightarrow> ('s \<times> 'io audit_state) control \<Rightarrow> (bool \<times> process_exit_event) list \<Rightarrow>
     ('s \<times> 'io audit_state, unit, control_error) op" where
  "handle_exits cfg ctl [] s = (Ok (), s)"
| "handle_exits cfg ctl ((stop, event) # events) s =
     (if stop then (Ok (), s)
      else seq_op (handle_exit cfg ctl event) (handle_exits cfg ctl events) s)"

definition process_exits :: "service_refresh list \<Rightarrow> process_exit_event list" where
  "process_exits refreshes = List.map_filter sr_process_exit refreshes"

text \<open>The body of the loop, with what it remembers of the last error.\<close>

definition service_tick ::
  "('s, 'io, 'je, 't) audit_config \<Rightarrow> ('s \<times> 'io audit_state) control \<Rightarrow> ('x \<Rightarrow> string) \<Rightarrow>
     ('s, service_refresh list, 'x) op \<Rightarrow> (nat \<Rightarrow> bool) \<Rightarrow>
     (string option \<times> 's \<times> 'io audit_state, unit, control_error) op" where
  "service_tick cfg ctl show_error refresh stop = (\<lambda>(last_error, s).
     case on_inner refresh s of
       (Ok refreshes, s) \<Rightarrow>
         (case handle_exits cfg ctl (map (\<lambda>(i, event). (stop i, event))
             (enumerate 0 (process_exits refreshes))) s of (r, s) \<Rightarrow> (r, (None, s)))
     | (Err e, s) \<Rightarrow>
         (Ok (), (Some (show_error e),
           if last_error \<noteq> Some (show_error e)
           then print_line True (''health refresh failed: '' @ show_error e) s else s))
     | (Panic, s) \<Rightarrow> (Panic, (last_error, s)))"

section \<open>The monitor of the configuration\<close>

fun show_reconcile_error :: "('e \<Rightarrow> string) \<Rightarrow> 'e reconcile_error \<Rightarrow> string" where
  "show_reconcile_error se (RecDuplicateServiceId sid) = ''duplicate registered service ID: '' @ sid"
| "show_reconcile_error se (RecServiceActive sid) =
     ''service must be stopped before its registration can change: '' @ sid"
| "show_reconcile_error se RecLockPoisoned = ''service registry lock is poisoned''"
| "show_reconcile_error se RecInternalState = ''service registry invariant was violated''"
| "show_reconcile_error se (RecObservation e) = ''process observation failed: '' @ se e"

definition same_foreground_contract :: "supervisor_config \<Rightarrow> supervisor_config \<Rightarrow> bool" where
  "same_foreground_contract left right \<longleftrightarrow>
     sup_version left = sup_version right \<and> sup_control left = sup_control right
     \<and> sup_console_events left = sup_console_events right
     \<and> sup_chrome_extension_reload left = sup_chrome_extension_reload right"

text \<open>
  What the monitor is given: the host, the JSON and hash libraries, the path as it is shown, the
  directory of the service logs, the clock and the files of the log store, the text of a process
  error, and the configuration of the audit.
\<close>

record ('s, 'io, 'je, 't, 'e, 'lf) monitor_env =
  me_host :: host_env
  me_library :: config_library
  me_path :: string
  me_services_dir :: string
  me_log_now :: "u64 \<Rightarrow> u64"
  me_log_files :: "string \<Rightarrow> log_stream \<Rightarrow> 'lf log_file"
  me_show_error :: "'e \<Rightarrow> string"
  me_audit :: "('s, 'io, 'je, 't) audit_config"

text \<open>
  Where the configuration monitor is in a turn of its loop. It changes the state of the process in
  critical sections of several locks, and between two of them the other threads see the state as it is
  then; the phase is what the monitor carries from one to the next.
\<close>

datatype config_phase =
  CfgIdle
| CfgFound supervisor_config string
| CfgRefused string string
| CfgRegistered supervisor_config string reconcile_outcome
| CfgPreloaded supervisor_config string reconcile_outcome "(string \<times> (log_stream \<times> u64 option \<times> string) list) list"
| CfgInstalled supervisor_config string reconcile_outcome
| CfgLogged supervisor_config string reconcile_outcome
| CfgAudited supervisor_config string reconcile_outcome
| CfgApplied string reconcile_outcome
| CfgFailed string

text \<open>The state of the process: the stack, and what the configuration monitor works on.\<close>

record ('p, 'w, 'io) host_state =
  fg_stack :: "('p, 'w) registry_state \<times> 'io audit_state"
  fg_logs :: log_store
  fg_status :: reconciliation_snapshot
  fg_config :: supervisor_config
  fg_fingerprint :: string
  fg_config_error :: "string option"
  fg_phase :: config_phase

definition wall_stamp :: "('s, 'io, 'je, 't) audit_config \<Rightarrow> 's \<Rightarrow> u64" where
  "wall_stamp cfg s = (if ac_clock cfg s < 2 ^ 64 then of_nat (ac_clock cfg s) else - 1)"

definition host_stamp ::
  "(('p, 'w) registry_state, 'io, 'je, 't, 'e, 'lf) monitor_env \<Rightarrow> ('p, 'w, 'io) host_state \<Rightarrow> u64" where
  "host_stamp me h = wall_stamp (me_audit me) (fst (fg_stack h))"

definition reject_config ::
  "(('p, 'w) registry_state, 'io, 'je, 't, 'e, 'lf) monitor_env \<Rightarrow> string option \<Rightarrow> string \<Rightarrow>
     ('p, 'w, 'io) host_state \<Rightarrow> ('p, 'w, 'io) host_state" where
  "reject_config me revision message h =
     h\<lparr>fg_status := rec_rejected (host_stamp me h) revision message (fg_status h), fg_phase := CfgFailed message\<rparr>"

text \<open>
  The start of \<open>reconcile_configuration\<close>, up to the first report; \<open>source\<close> is what reading the file gave.
  Nobody else writes the report, so that it is read before it is written is not seen.
\<close>

definition find_config ::
  "(('p, 'w) registry_state, 'io, 'je, 't, 'e, 'lf) monitor_env \<Rightarrow> string + string \<Rightarrow>
     ('p, 'w, 'io) host_state \<Rightarrow> ('p, 'w, 'io) host_state" where
  "find_config me source h =
     (case source of
        Inl error \<Rightarrow> reject_config me None (''cannot read '' @ me_path me @ '': '' @ error) h
      | Inr text \<Rightarrow>
     (case parse_json (me_library me) text of
        Inl e \<Rightarrow> reject_config me None (show_config_error e) h
      | Inr config \<Rightarrow>
     (case validate_structure (me_host me) config of
        Inl e \<Rightarrow> reject_config me None (show_config_error e) h
      | Inr _ \<Rightarrow>
     (case config_fingerprint (me_library me) config of
        Inl e \<Rightarrow> reject_config me None (show_config_error e) h
      | Inr fingerprint \<Rightarrow>
          if fingerprint = fg_fingerprint h then
            (if rs_state (fg_status h) \<noteq> RecCurrent
             then h\<lparr>fg_status := rec_applied (host_stamp me h) fingerprint
               \<lparr>ro_added = [], ro_updated = [], ro_removed = []\<rparr> (fg_status h)\<rparr>
             else h)\<lparr>fg_config_error := None\<rparr>
          else h\<lparr>fg_status := rec_pending (host_stamp me h) fingerprint (fg_status h),
            fg_phase := CfgFound config fingerprint\<rparr>))))"

text \<open>The update of the registry, or the report that the process has to be restarted.\<close>

definition register_config ::
  "(('p, 'w) registry_state, 'io, 'je, 't, 'e, 'lf) monitor_env \<Rightarrow> supervisor_config \<Rightarrow> string \<Rightarrow>
     ('p, 'w, 'io) host_state \<Rightarrow> ('p, 'w, 'io) host_state" where
  "register_config me config fingerprint h =
     (if \<not> same_foreground_contract (fg_config h) config
      then reject_config me (Some fingerprint)
        (''non-service configuration changed; control, observability, cooperative actions, ''
         @ ''and version require an explicit Supervisor restart'') h
      else (case fg_stack h of ((services, w), au) \<Rightarrow>
       (case reconcile_registrations
           (service_registrations_with_logs (me_host me) (me_services_dir me) config) services of
          (Inl e, services') \<Rightarrow>
            h\<lparr>fg_stack := ((services', w), au),
              fg_phase := CfgRefused fingerprint (show_reconcile_error (me_show_error me) e)\<rparr>
        | (Inr out, services') \<Rightarrow>
            h\<lparr>fg_stack := ((services', w), au), fg_phase := CfgRegistered config fingerprint out\<rparr>)))"

definition host_print :: "bool \<Rightarrow> string \<Rightarrow> ('p, 'w, 'io) host_state \<Rightarrow> ('p, 'w, 'io) host_state" where
  "host_print err line h = h\<lparr>fg_stack := print_line err line (fg_stack h)\<rparr>"

definition host_time ::
  "(('p, 'w) registry_state, 'io, 'je, 't, 'e, 'lf) monitor_env \<Rightarrow> ('p, 'w, 'io) host_state \<Rightarrow> string" where
  "host_time me h = console_timestamp_now (me_audit me) (fst (fg_stack h))"

fun reconciliation_label :: "reconciliation_state \<Rightarrow> string" where
  "reconciliation_label RecDeferred = ''deferred''"
| "reconciliation_label RecRejected = ''rejected''"
| "reconciliation_label RecPending = ''pending''"
| "reconciliation_label RecCurrent = ''current''"

text \<open>The report of an error, unless it is the one reported last.\<close>

definition report_config_error ::
  "(('p, 'w) registry_state, 'io, 'je, 't, 'e, 'lf) monitor_env \<Rightarrow> string \<Rightarrow> ('p, 'w, 'io) host_state \<Rightarrow>
     ('p, 'w, 'io) host_state" where
  "report_config_error me error h =
     (if fg_config_error h \<noteq> Some error
      then host_print True (''['' @ host_time me h @ ''] [registry] Configuration reconciliation ''
        @ reconciliation_label (rs_state (fg_status h)) @ '': '' @ error) h
      else h)\<lparr>fg_config_error := Some error, fg_phase := CfgIdle\<rparr>"

definition report_applied ::
  "(('p, 'w) registry_state, 'io, 'je, 't, 'e, 'lf) monitor_env \<Rightarrow> string \<Rightarrow> reconcile_outcome \<Rightarrow>
     ('p, 'w, 'io) host_state \<Rightarrow> ('p, 'w, 'io) host_state" where
  "report_applied me fingerprint out h =
     (host_print False (''['' @ host_time me h @ ''] [registry] Applied revision '' @ fingerprint
        @ '' without Supervisor handoff: added='' @ display_service_ids (ro_added out)
        @ '', updated='' @ display_service_ids (ro_updated out)
        @ '', removed='' @ display_service_ids (ro_removed out)
        @ ''; unrelated services preserved.'') h)\<lparr>fg_phase := CfgIdle\<rparr>"

text \<open>
  One critical section of a turn of \<open>ConfigMonitor\<close>: the registry, the two of the hub of the live logs, the
  allowlist of the log store, the fingerprint of the audit and the report are each under a lock of their
  own. A registry that cannot change yet leaves everything as it is.
\<close>

definition config_section ::
  "(('p, 'w) registry_state, 'io, 'je, 't, 'e, 'lf) monitor_env \<Rightarrow> string + string \<Rightarrow>
     ('p, 'w, 'io) host_state \<Rightarrow> ('p, 'w, 'io) host_state" where
  "config_section me source h = (case fg_phase h of
      CfgIdle \<Rightarrow> find_config me source h
    | CfgFound config fingerprint \<Rightarrow> register_config me config fingerprint h
    | CfgRefused fingerprint message \<Rightarrow>
        h\<lparr>fg_status := rec_deferred (host_stamp me h) (Some fingerprint) message (fg_status h),
          fg_phase := CfgFailed message\<rparr>
    | CfgRegistered config fingerprint out \<Rightarrow>
        h\<lparr>fg_phase := CfgPreloaded config fingerprint out (hub_preload (me_log_files me)
            (allowed_ids (bt_keys (sup_services config))) (lst_live (fg_logs h)))\<rparr>
    | CfgPreloaded config fingerprint out preloaded \<Rightarrow>
        h\<lparr>fg_logs := store_install (me_log_now me) (bt_keys (sup_services config)) preloaded (fg_logs h),
          fg_phase := CfgInstalled config fingerprint out\<rparr>
    | CfgInstalled config fingerprint out \<Rightarrow>
        h\<lparr>fg_logs := store_allow (bt_keys (sup_services config)) (fg_logs h),
          fg_phase := CfgLogged config fingerprint out\<rparr>
    | CfgLogged config fingerprint out \<Rightarrow>
        h\<lparr>fg_stack := apsnd (set_config_fingerprint fingerprint) (fg_stack h),
          fg_phase := CfgAudited config fingerprint out\<rparr>
    | CfgAudited config fingerprint out \<Rightarrow>
        h\<lparr>fg_config_error := None, fg_config := config, fg_fingerprint := fingerprint,
          fg_status := rec_applied (host_stamp me h) fingerprint out (fg_status h),
          fg_phase := CfgApplied fingerprint out\<rparr>
    | CfgApplied fingerprint out \<Rightarrow> report_applied me fingerprint out h
    | CfgFailed error \<Rightarrow> report_config_error me error h)"

text \<open>The start of the process, from a configuration that was read and validated.\<close>

definition host_start ::
  "(('p, 'w) registry_state, 'io, 'je, 't, 'e, 'lf) monitor_env \<Rightarrow> supervisor_config \<Rightarrow> string \<Rightarrow> string \<Rightarrow>
     'io journal_state \<Rightarrow> 'w world \<Rightarrow> registry_build_error + ('p, 'w, 'io) host_state" where
  "host_start me config fingerprint hub journal w =
     (case registry_new (service_registrations_with_logs (me_host me) (me_services_dir me) config) of
        Inl e \<Rightarrow> Inl e
      | Inr services \<Rightarrow> Inr
          \<lparr>fg_stack = ((services, w), \<lparr>as_journal = journal, as_fingerprint = fingerprint, as_console = []\<rparr>),
           fg_logs = log_store_new (me_log_now me) (me_log_files me) hub (bt_keys (sup_services config)),
           fg_status = reconciliation_new (wall_stamp (me_audit me) (services, w)) fingerprint,
           fg_config = config, fg_fingerprint = fingerprint, fg_config_error = None, fg_phase = CfgIdle\<rparr>)"

end
