(* ===== verification/Foreground_Facts.thy ===== *)
theory Foreground_Facts
  imports Foreground Config_Properties Journal_Laws Live_Log_Facts
begin

text \<open>
  What the foreground process relies on: the whole stack of controls changes no registration, a
  clean-up stops one service at a time, and an applied configuration is what the registry, the log
  store, the audit and the report show.
\<close>

section \<open>No operation but the topology update changes a registration\<close>

definition registrations :: "'p services \<Rightarrow> string \<Rightarrow> service_registration option" where
  "registrations services k = map_option se_registration (bt_get services k)"

abbreviation registry_of :: "(string \<Rightarrow> service_registration option) \<Rightarrow> ('p, 'w) registry_state \<Rightarrow> bool" where
  "registry_of R st \<equiv> registry_ok (fst st) \<and> registrations (fst st) = R"

lemma entry_registration_kept:
  assumes "\<And>Q. keeps (entry_inv (sound Q)) m" and "entry_ok e"
  shows "se_registration (fst (snd (m (e, w)))) = se_registration e"
  using keepsD [OF assms(1) [of "\<lambda>r. r = se_registration e"], of "(e, w)"] assms(2)
  by (simp add: entry_inv_sound)

lemma with_entry_registry_of:
  fixes m :: "(('p, 'w) entry_state, 'a, ('e, 'n) registry_error) op"
  assumes "\<And>Q. keeps (entry_inv (sound Q)) m"
  shows "keeps (registry_of R) (with_entry sid m)"
proof (rule keepsI)
  fix st :: "('p, 'w) registry_state" assume st: "registry_of R st"
  have "registry_ok (fst (snd (with_entry sid m st)))"
    using keepsD [OF with_entry_keeps [OF assms]] st by blast
  moreover have "registrations (fst (snd (with_entry sid m st))) = registrations (fst st)"
  proof (cases "bt_get (fst st) sid")
    case (Some e)
    have "entry_ok e" using st registry_okD [OF _ Some] by (simp add: named_ok_def)
    then have "se_registration (fst (snd (m (e, snd st)))) = se_registration e"
      by (rule entry_registration_kept [OF assms])
    moreover have "bt_invar (fst st)" using st registry_ok_invar by blast
    ultimately show ?thesis
      using Some by (cases st) (auto simp: with_entry_def registrations_def fun_eq_iff split: prod.splits)
  qed (cases st, simp add: with_entry_def)
  ultimately show "registry_of R (snd (with_entry sid m st))" using st by simp
qed

lemma collect_registrations:
  assumes "\<And>Q. keeps (entry_inv (sound Q)) m" and "\<forall>(k, e) \<in> set services. entry_ok e"
  shows "map (\<lambda>(k, e). (k, se_registration e)) (fst (snd (collect_entries m (services, w))))
    = map (\<lambda>(k, e). (k, se_registration e)) services"
  using assms(2)
proof (induction services arbitrary: w)
  case (Cons p services)
  obtain k e where p: "p = (k, e)" by (cases p)
  obtain r e' w' where m: "m (e, w) = (r, (e', w'))" by (metis prod.exhaust)
  have "se_registration e' = se_registration e"
    using entry_registration_kept [OF assms(1), of e w] Cons.prems by (simp add: m p)
  then show ?case using Cons.IH [of w'] Cons.prems by (cases r) (auto simp: p m split: prod.splits)
qed simp

lemma registrations_map_of:
  "registrations services = map_of (map (\<lambda>(k, e). (k, se_registration e)) services)"
  by (auto simp: registrations_def bt_get_def map_of_map fun_eq_iff comp_def)

lemma collect_registry_of:
  fixes m :: "(('p, 'w) entry_state, 'a, ('e, 'n) registry_error) op"
  assumes "\<And>Q. keeps (entry_inv (sound Q)) m"
  shows "keeps (registry_of R) (collect_entries m)"
proof (rule keepsI)
  fix st :: "('p, 'w) registry_state" assume st: "registry_of R st"
  have "\<forall>(k, e) \<in> set (fst st). entry_ok e" using st by (auto simp: registry_ok_iff named_ok_def)
  from collect_registrations [OF assms this, of "snd st"] have
    "registrations (fst (snd (collect_entries m st))) = registrations (fst st)"
    by (simp add: registrations_map_of)
  moreover have "registry_ok (fst (snd (collect_entries m st)))"
    using keepsD [OF collect_entries_keeps [OF assms]] st by blast
  ultimately show "registry_of R (snd (collect_entries m st))" using st by simp
qed

lemma registry_ops_registry_of:
  "keeps (registry_of R) (preflight_launches bk sids)"
  "keeps (registry_of R) (registry_start bk sid a r)"
  "keeps (registry_of R) (stop_with_report bk sid a r)"
  "keeps (registry_of R) (restart_with_report bk sid a r)"
  "keeps (registry_of R) (snapshots bk)"
  "keeps (registry_of R) (refresh_services bk window)"
  unfolding preflight_launches_def registry_start_def stop_with_report_def restart_with_report_def
    snapshots_def refresh_services_def
  by (intro keeps_each with_entry_registry_of collect_registry_of registry_keeps)+

lemma registry_mutate_registry_of: "keeps (registry_of R) (registry_mutate se sn bk action sid a r)"
  by (cases action) (auto simp: registry_mutate_def intro!: keeps_map_err keeps_map registry_ops_registry_of)

interpretation kept: supervisor_control "registry_control se sn bk" "registry_of R" fst
proof unfold_locales
  show "keeps (registry_of R) (ctl_snapshots (registry_control se sn bk))"
    by (simp add: registry_control_def keeps_map_err registry_ops_registry_of)
  show "keeps (registry_of R) (ctl_preflight (registry_control se sn bk) sids)" for sids
    by (simp add: registry_control_def keeps_map_err registry_ops_registry_of)
  show "keeps (registry_of R) (ctl_mutate (registry_control se sn bk) action sid a r)" for action sid a r
    by (simp add: registry_control_def registry_mutate_registry_of)
  show "fst s' = fst s"
    if "registry_of R s" and "ctl_snapshots (registry_control se sn bk) s = (out, s')" and "out \<noteq> Panic"
    for s s' out
    using that reg.view_snapshots by blast
  show "fst (snd (ctl_preflight (registry_control se sn bk) sids s)) = fst s" if "registry_of R s" for sids s
    using that reg.view_preflight by blast
  show "distinct (map ss_id snaps)"
    if "registry_of R s" and "ctl_snapshots (registry_control se sn bk) s = (Ok snaps, s')" for s s' snaps
    using that reg.distinct_snapshots by blast
qed

interpretation akept: audited_supervisor "registry_control se sn bk" "registry_of R" fst config
  for se sn bk R config
  by (rule audited_supervisor.intro) (rule kept.supervisor_control_axioms)

text \<open>The stack of the process: the observer of the plans prints, and nothing else.\<close>

lemma print_line_fst [simp]: "fst (print_line err line s) = fst s"
  by (simp add: print_line_def)

lemma console_observer_fst [simp]: "fst (console_observer cfg enabled action sid direct order s) = fst s"
  by (simp add: console_observer_def)

definition host_control ::
  "(('p, 'w) registry_state, 'io, 'je, 't) audit_config \<Rightarrow> ('e \<Rightarrow> string) \<Rightarrow> ('n \<Rightarrow> string) \<Rightarrow>
     ('w, 'p, 'e, 'n) backend \<Rightarrow> bool \<Rightarrow> (('p, 'w) registry_state \<times> 'io audit_state) control" where
  "host_control cfg se sn bk enabled =
     dependency_control (audited_control cfg (registry_control se sn bk)) (console_observer cfg enabled)"

section \<open>Cleaning up\<close>

text \<open>What a stop leaves: the service is meant to be stopped, and either has no process or waits for it to end.\<close>

definition put_down :: "'p service_entry \<Rightarrow> bool" where
  "put_down e \<longleftrightarrow> sv_desired_state (se_supervision e) = DesiredStopped
     \<and> (if rt_process (se_runtime e) = None then rt_lifecycle (se_runtime e) = Stopped
        else rt_lifecycle (se_runtime e) = TerminationPending)"

lemma stop_entry_put_down:
  assumes "entry_ok e" and "stop_entry bk a r (e, w) = (Ok res, (e', w'))"
  shows "put_down e'"
proof -
  obtain rt' where rt: "se_runtime e' = rt'" "stop_result bk e w (sst_outcome res) (sst_shutdown res) rt' w'"
    "sv_desired_state (se_supervision e') = DesiredStopped"
    using stop_entry_Ok [OF assms] by blast
  show ?thesis
  proof (cases "sst_outcome res = StopTerminationPending")
    case True
    then show ?thesis using stop_result_owner(2) [OF rt(2) [unfolded True]] rt by (auto simp: put_down_def)
  next
    case False
    then show ?thesis using stop_result_owner(1) [OF rt(2) False] rt by (auto simp: put_down_def)
  qed
qed

lemma registry_stop_put_down:
  assumes "registry_ok services"
    and "registry_mutate se sn bk CtlStop sid a r (services, w) = (Ok res, (services', w'))"
  shows "\<exists>e. bt_get services' sid = Some e \<and> put_down e"
proof -
  obtain out e e' where e: "bt_get services sid = Some e" and s': "services' = bt_insert sid e' services"
    and run: "stop_entry bk a r (e, w) = (Ok out, (e', w'))"
    using assms(2) by (auto simp: registry_mutate_def map_err_op_Ok map_op_Ok stop_with_report_def with_entry_Ok)
  have "entry_ok e" using registry_okD [OF assms(1) e] by (simp add: named_ok_def)
  from stop_entry_put_down [OF this run] show ?thesis using s' registry_ok_invar [OF assms(1)] by simp
qed

text \<open>A mutation through the audit: the registry is mutated between two observations, or not at all.\<close>

lemma audited_mutate_registry:
  assumes "audited_mutate cfg (registry_control se sn bk) action sid a r ((services, w), au) = (out, ((services', w'), au'))"
    and "registry_ok services" and "out \<noteq> Panic"
  shows "services' = services \<and> (\<exists>e. out = Err e)
    \<or> (\<exists>w1 res w2. registry_mutate se sn bk action sid a r (services, w1) = (res, (services', w2))
        \<and> (\<forall>x. out = Ok x \<longrightarrow> (\<exists>y. res = Ok y)))"
proof -
  obtain o1 s1 where Pair: "ctl_snapshots (registry_control se sn bk) (services, w) = (o1, s1)" by (metis prod.exhaust)
  show ?thesis
  proof (cases o1)
    case (Ok snaps)
    obtain w1 where s1: "s1 = (services, w1)"
      using reg.view_snapshots [OF _ Pair] assms(2) Ok by (cases s1) simp
    obtain res s2 later where m: "attempt_op (ctl_mutate (registry_control se sn bk) action sid a r) s1 = (Ok res, s2)"
      and l: "attempt_op (ctl_snapshots (registry_control se sn bk)) s2 = (Ok later, (services', w'))"
      and last: "seq_op (append_and_publish cfg ''failed to persist lifecycle journal''
         (mutation_record cfg action sid a r (find_service sid snaps)
            (case later of Inl _ \<Rightarrow> None | Inr services \<Rightarrow> find_service sid services)
            res (ac_clock cfg (services', w')) (as_fingerprint au)))
       (lift_sum res) ((services', w'), au) = (out, ((services', w'), au'))"
      using audited_mutate_runs [OF assms(1,3) Pair [unfolded Ok]] by blast
    obtain x where run: "registry_mutate se sn bk action sid a r (services, w1) = (x, s2)"
      and x: "x \<noteq> Panic" "\<forall>y. res = Inr y \<longrightarrow> x = Ok y"
      using m by (cases res) (auto simp: attempt_Ok s1 registry_control_def)
    have ok2: "registry_ok (fst s2)"
      using keeps_run [OF registry_mutate_keeps _ run] assms(2) by simp
    have "services' = fst s2"
      using reg.view_snapshots [OF ok2] l by (cases later) (fastforce simp: attempt_Ok)+
    then obtain w2 where s2: "s2 = (services', w2)" by (cases s2) simp
    have "\<forall>z. out = Ok z \<longrightarrow> (\<exists>y. x = Ok y)"
      using last x by (cases res) (auto simp: seq_op_Ok lift_sum_def fail_op_def)
    then show ?thesis using run [unfolded s2] by blast
  next
    case (Err e)
    then show ?thesis
      using assms(1) reg.view_snapshots [OF _ Pair] assms(2)
      by (auto simp: audited_mutate_def bind_op_def on_inner_def Pair)
  next
    case Panic
    then show ?thesis using assms(1,3) by (auto simp: audited_mutate_def bind_op_def on_inner_def Pair)
  qed
qed

lemma host_stop:
  assumes "ctl_mutate (host_control cfg se sn bk enabled) CtlStop sid a r ((services, w), au) = (out, ((services', w'), au'))"
    and "registry_ok services" and "out \<noteq> Panic"
  shows "registry_ok services' \<and> (\<forall>k. k \<noteq> sid \<longrightarrow> bt_get services' k = bt_get services k)
    \<and> (\<forall>res. out = Ok res \<longrightarrow> (\<exists>e. bt_get services' sid = Some e \<and> put_down e))"
proof -
  have run: "audited_mutate cfg (registry_control se sn bk) CtlStop sid a r ((services, w), au) = (out, ((services', w'), au'))"
    using assms(1) by (simp add: host_control_def dependency_control_def dependency_mutate_def seq_op_def
        bind_op_def return_op_def audited_control_def)
  from audited_mutate_registry [OF this assms(2,3)] show ?thesis
  proof (elim disjE)
    assume "services' = services \<and> (\<exists>e. out = Err e)"
    then show ?thesis using assms(2) by auto
  next
    assume "\<exists>w1 res w2. registry_mutate se sn bk CtlStop sid a r (services, w1) = (res, (services', w2))
        \<and> (\<forall>x. out = Ok x \<longrightarrow> (\<exists>y. res = Ok y))"
    then obtain w1 res w2 where m: "registry_mutate se sn bk CtlStop sid a r (services, w1) = (res, (services', w2))"
      and res: "\<forall>x. out = Ok x \<longrightarrow> (\<exists>y. res = Ok y)" by (elim exE conjE) (rule that)
    have "registry_ok services'" using keeps_run [OF registry_mutate_keeps _ m] assms(2) by simp
    moreover have "bt_get services' k = bt_get services k" if "k \<noteq> sid" for k
      using registry_mutate_other [OF registry_ok_invar [OF assms(2)] that, of se sn bk CtlStop a r w1] m by simp
    moreover have "\<exists>e. bt_get services' sid = Some e \<and> put_down e" if ok: "out = Ok x" for x
    proof -
      obtain y where "res = Ok y" using res ok by blast
      then show ?thesis using registry_stop_put_down [OF assms(2)] m by blast
    qed
    ultimately show ?thesis by blast
  qed
qed

lemma stop_all_put_down:
  assumes "stop_all (host_control cfg se sn bk enabled) cause sids ((services, w), au) = (Ok failures, ((services', w'), au'))"
    and "registry_ok services" and "distinct sids"
  shows "registry_ok services' \<and> (\<forall>k. k \<notin> set sids \<longrightarrow> bt_get services' k = bt_get services k)
    \<and> (failures = [] \<longrightarrow> (\<forall>sid \<in> set sids. \<exists>e. bt_get services' sid = Some e \<and> put_down e))"
  using assms
proof (induction sids arbitrary: services w au failures)
  case (Cons sid sids)
  let ?start = "print_line False (stopping_line sid) ((services, w), au)"
  obtain au0 where start: "?start = ((services, w), au0)" by (metis print_line_fst prod.collapse fst_conv)
  obtain out services1 w1 au1 where one: "ctl_mutate (host_control cfg se sn bk enabled) CtlStop sid (sc_actor cause)
      (sc_reason cause) ((services, w), au0) = (out, ((services1, w1), au1))" by (metis prod.exhaust)
  have np: "out \<noteq> Panic" using Cons.prems(1) by (auto simp: start one)
  note h = host_stop [OF one Cons.prems(2) np]
  obtain failures1 where rest: "stop_all (host_control cfg se sn bk enabled) cause sids ((services1, w1), au1)
      = (Ok failures1, ((services', w'), au'))" and nf: "failures = [] \<longrightarrow> failures1 = [] \<and> (\<exists>res. out = Ok res)"
    using Cons.prems(1) np by (cases out) (auto simp: start one map_outcome_Ok split: prod.splits)
  note ih = Cons.IH [OF rest conjunct1 [OF h]]
  have dist: "sid \<notin> set sids" "distinct sids" using Cons.prems(3) by simp_all
  have i: "registry_ok services'" "\<forall>k. k \<notin> set sids \<longrightarrow> bt_get services' k = bt_get services1 k"
    "failures1 = [] \<longrightarrow> (\<forall>sid \<in> set sids. \<exists>e. bt_get services' sid = Some e \<and> put_down e)"
    using ih [OF dist(2)] by blast+
  have "bt_get services' k = bt_get services k" if "k \<notin> set (sid # sids)" for k
    using that i(2) h by simp
  moreover have "\<exists>e. bt_get services' x = Some e \<and> put_down e" if "failures = []" "x \<in> set (sid # sids)" for x
  proof (cases "x = sid")
    case True
    then show ?thesis using nf that(1) h i(2) dist(1) by auto
  next
    case False
    then show ?thesis using that nf i(3) by simp
  qed
  ultimately show ?case using i(1) by blast
qed simp

lemma cleanup_put_down:
  assumes "cleanup (host_control cfg se sn bk enabled) cause ((services, w), au) = (Ok (), ((services', w'), au'))"
    and "registry_ok services" and "bt_get services' k = Some e"
  shows "put_down e"
proof -
  let ?ctl = "host_control cfg se sn bk enabled"
  obtain snaps s1 where 1: "map_err_op (\<lambda>e. [ce_message e]) (ctl_snapshots ?ctl) ((services, w), au) = (Ok snaps, s1)"
    and 2: "bind_op (map_err_op (\<lambda>e. [ce_message e]) (\<lambda>s. (stable_shutdown_order snaps, s))) (\<lambda>order.
      bind_op (stop_all ?ctl cause order) (\<lambda>failures.
        if failures = [] then modify_op (print_line False ''Owned service cleanup complete.'')
        else fail_op failures)) s1 = (Ok (), ((services', w'), au'))"
    using assms(1) unfolding cleanup_def bind_op_Ok by blast
  have snap: "ctl_snapshots ?ctl ((services, w), au) = (Ok snaps, s1)" using 1 by (simp add: map_err_op_Ok)
  obtain order where order: "stable_shutdown_order snaps = Ok order"
    and 3: "bind_op (stop_all ?ctl cause order) (\<lambda>failures.
        if failures = [] then modify_op (print_line False ''Owned service cleanup complete.'')
        else fail_op failures) s1 = (Ok (), ((services', w'), au'))"
    using 2 unfolding bind_op_Ok map_err_op_Ok by auto
  obtain failures s2 where stop: "stop_all ?ctl cause order s1 = (Ok failures, s2)"
    and 4: "(if failures = [] then modify_op (print_line False ''Owned service cleanup complete.'')
        else fail_op failures) s2 = (Ok (), ((services', w'), au'))"
    using 3 unfolding bind_op_Ok by blast
  have fin: "failures = []" "fst s2 = (services', w')"
    using 4 by (auto simp: fail_op_def modify_op_def split: if_splits) (metis fst_conv print_line_fst)
  have ctl: "ctl_snapshots ?ctl = on_inner (map_err_op (control_error_of se sn) (snapshots bk))"
    by (simp add: host_control_def dependency_control_def audited_control_def registry_control_def)
  obtain services1 w1 au1 where s1': "s1 = ((services1, w1), au1)" by (metis prod.exhaust)
  have raw1: "snapshots bk (services, w) = (Ok snaps, (services1, w1))"
    using snap unfolding ctl s1' on_inner_run map_err_op_Ok by simp
  then have "services1 = services" using snapshots_unchanged by blast
  then have raw: "snapshots bk (services, w) = (Ok snaps, (services, w1))" and s1: "s1 = ((services, w1), au1)"
    using raw1 s1' by simp_all
  have ids: "map ss_id snaps = bt_keys services" using snapshots_ids [OF assms(2) raw] .
  then have "distinct (map ss_id snaps)" using bt_keys_distinct [OF registry_ok_invar [OF assms(2)]] by simp
  from shutdown_order_spec [OF this] have o: "distinct order" "set order = set (bt_keys services)"
    by (simp_all add: order snapshot_ids_def flip: ids)
  obtain au2 where s2: "s2 = ((services', w'), au2)" using fin(2) by (cases s2) auto
  note spec = stop_all_put_down [OF stop [unfolded s1 s2] assms(2) o(1)]
  show ?thesis
  proof (cases "k \<in> set order")
    case True
    then show ?thesis using spec fin(1) assms(3) by fastforce
  next
    case False
    then have "bt_get services k = Some e" using spec assms(3) by simp
    then show ?thesis using False o(2) bt_get_keys by metis
  qed
qed

end
