(* ===== verification/Foreground_Properties.thy ===== *)
theory Foreground_Properties
  imports Foreground_Facts Journal_Properties Service_Properties
begin

text \<open>
  The composed process: what its monitors and clients keep true together, the clean-up at its end
  and the order in which it stops its services.
\<close>

section \<open>The stack keeps the registrations and the fingerprint\<close>

definition stack_of :: "(string \<Rightarrow> service_registration option) \<Rightarrow> string \<Rightarrow>
    ('p, 'w) registry_state \<times> 'io audit_state \<Rightarrow> bool" where
  "stack_of R fingerprint st \<longleftrightarrow> registry_of R (fst st) \<and> as_fingerprint (snd st) = fingerprint"

lemma stack_of_conj:
  "stack_of R fingerprint = (\<lambda>st. (case st of (s, u) \<Rightarrow> registry_of R s) \<and> as_fingerprint (snd st) = fingerprint)"
  by (auto simp: stack_of_def fun_eq_iff)

lemma keeps_fingerprint_inner: "keeps (\<lambda>st. as_fingerprint (snd st) = fingerprint) (on_inner m)"
  by (auto simp: keeps_def on_inner_def split: prod.split)

lemma publish_fingerprint [simp]: "as_fingerprint (publish_console_event cfg r au) = as_fingerprint au"
  by (simp add: publish_console_event_def split: option.split)

lemma keeps_fingerprint_append: "keeps (\<lambda>st. as_fingerprint (snd st) = fingerprint) (append_and_publish cfg failure r)"
  by (auto simp: keeps_def append_and_publish_def split: prod.split outcome.split)

lemma keeps_stack_append [keeps_intro]: "keeps (stack_of R fingerprint) (append_and_publish cfg failure r)"
  unfolding stack_of_conj by (rule keeps_conj [OF keeps_append keeps_fingerprint_append])

lemma keeps_stack_inner [keeps_intro]:
  "keeps (registry_of R) m \<Longrightarrow> keeps (stack_of R fingerprint) (on_inner m)"
  unfolding stack_of_conj by (rule keeps_conj [OF keeps_on_inner keeps_fingerprint_inner])

interpretation host: supervisor_control "audited_control config (registry_control se sn bk)"
  "stack_of R fingerprint" "fst \<circ> fst" for se sn bk R config fingerprint
proof unfold_locales
  let ?ctl = "audited_control config (registry_control se sn bk)"
  show "keeps (stack_of R fingerprint) (ctl_snapshots ?ctl)"
    by (simp add: audited_control_def keeps_stack_inner kept.inv_snapshots)
  show "keeps (stack_of R fingerprint) (ctl_preflight ?ctl sids)" for sids
    by (simp add: audited_control_def keeps_stack_inner kept.inv_preflight)
  show "keeps (stack_of R fingerprint) (ctl_mutate ?ctl action sid a r)" for action sid a r
    unfolding audited_control_def audited_mutate_def control.simps
    by (intro keeps_intro kept.inv_snapshots kept.inv_mutate)
  show "(fst \<circ> fst) s' = (fst \<circ> fst) s"
    if "stack_of R fingerprint s" and "ctl_snapshots ?ctl s = (out, s')" and "out \<noteq> Panic" for s s' out
    using that(1) akept.aud.view_snapshots [OF _ that(2,3), of R] by (simp add: stack_of_conj)
  show "(fst \<circ> fst) (snd (ctl_preflight ?ctl sids s)) = (fst \<circ> fst) s" if "stack_of R fingerprint s" for sids s
    using that akept.aud.view_preflight [of R s] by (simp add: stack_of_conj)
  show "distinct (map ss_id snaps)"
    if "stack_of R fingerprint s" and "ctl_snapshots ?ctl s = (Ok snaps, s')" for s s' snaps
    using that(1) akept.aud.distinct_snapshots [OF _ that(2), of R] by (simp add: stack_of_conj)
qed

lemma print_line_stack [simp]: "stack_of R fingerprint (print_line err line st) = stack_of R fingerprint st"
  by (cases st) (simp add: print_line_def stack_of_def)

interpretation full: observed_control "audited_control config (registry_control se sn bk)"
  "stack_of R fingerprint" "fst \<circ> fst" "console_observer config enabled"
  for se sn bk R config fingerprint enabled
proof (rule observed_control.intro [OF host.supervisor_control_axioms], unfold_locales)
  show "stack_of R fingerprint (console_observer config enabled action sid direct order s)"
    if "stack_of R fingerprint s" for action sid direct order s
    using that by (simp add: console_observer_def)
  show "(fst \<circ> fst) (console_observer config enabled action sid direct order s) = (fst \<circ> fst) s" for action sid direct order s
    by simp
qed

lemma host_control_keeps:
  "keeps (stack_of R fingerprint) (ctl_mutate (host_control cfg se sn bk enabled) action sid a r)"
  "keeps (stack_of R fingerprint) (ctl_snapshots (host_control cfg se sn bk enabled))"
  unfolding host_control_def by (rule full.dep.inv_mutate full.dep.inv_snapshots)+

lemma keeps_run': "keeps I m \<Longrightarrow> I s \<Longrightarrow> I (snd (m s))"
  by (simp add: keeps_def)

lemma record_exit_keeps: "keeps (stack_of R fingerprint) (record_process_exit cfg event)"
  unfolding record_process_exit_def
  by (auto split: sum.split intro!: keeps_fail keeps_bind keeps_get keeps_prod_fun keeps_stack_append)

lemma handle_exit_keeps:
  fixes cfg :: "(('p, 'w) registry_state, 'io, 'je, 't) audit_config"
  shows "keeps (stack_of R fingerprint) (handle_exit cfg (host_control cfg se sn bk enabled) event)"
proof (rule keepsI)
  fix st :: "('p, 'w) registry_state \<times> 'io audit_state" assume st: "stack_of R fingerprint st"
  let ?ctl = "host_control cfg se sn bk enabled"
  obtain out s1 where rec: "record_process_exit cfg event st = (out, s1)" by (metis prod.exhaust)
  have s1: "stack_of R fingerprint s1" using keeps_run [OF record_exit_keeps st rec] .
  show "stack_of R fingerprint (snd (handle_exit cfg ?ctl event st))"
  proof (cases out)
    case (Ok u)
    show ?thesis
    proof (cases "reason_new (restart_reason_text event)")
      case (Inr r)
      obtain o2 s2 where m: "ctl_mutate ?ctl CtlRestart (pee_service_id event) Recovery r s1 = (o2, s2)"
        by (metis prod.exhaust)
      have "stack_of R fingerprint s2" using keeps_run [OF host_control_keeps(1) s1 m] .
      then show ?thesis using s1 by (cases o2) (simp_all add: handle_exit_def rec Ok Inr m)
    qed (use s1 in \<open>simp add: handle_exit_def rec Ok\<close>)
  qed (use s1 in \<open>simp_all add: handle_exit_def rec\<close>)
qed

lemma handle_exits_keeps:
  "keeps (stack_of R fingerprint) (handle_exits cfg (host_control cfg se sn bk enabled) events)"
proof (induction events)
  case (Cons p events)
  obtain stop event where p: "p = (stop, event)" by (cases p)
  have "keeps (stack_of R fingerprint) (seq_op (handle_exit cfg (host_control cfg se sn bk enabled) event)
      (handle_exits cfg (host_control cfg se sn bk enabled) events))"
    by (rule keeps_seq [OF handle_exit_keeps Cons])
  then show ?case by (simp add: keeps_def p)
qed (simp add: keeps_def)

lemma service_tick_keeps:
  assumes "service_tick cfg (host_control cfg se sn bk enabled) show_error (refresh_services bk window) stop (err, st)
      = (out, (err', st'))"
    and "stack_of R fingerprint st"
  shows "stack_of R fingerprint st'"
proof -
  obtain o1 s1 where ref: "on_inner (refresh_services bk window) st = (o1, s1)" by (metis prod.exhaust)
  have s1: "stack_of R fingerprint s1"
    using keeps_run [OF keeps_stack_inner [OF registry_ops_registry_of(6)] assms(2) ref] .
  show ?thesis
  proof (cases o1)
    case (Ok refreshes)
    let ?events = "map (\<lambda>(i, event). (stop i, event)) (enumerate 0 (process_exits refreshes))"
    have "stack_of R fingerprint (snd (handle_exits cfg (host_control cfg se sn bk enabled) ?events s1))"
      by (rule keeps_run' [OF handle_exits_keeps s1])
    then show ?thesis using assms(1) by (auto simp: service_tick_def ref Ok split: prod.splits)
  qed (use assms(1) s1 in \<open>auto simp: service_tick_def ref split: if_splits\<close>)
qed

section \<open>The invariant of the process\<close>

definition config_regs ::
  "(('p, 'w) registry_state, 'io, 'je, 't, 'e, 'lf) monitor_env \<Rightarrow> supervisor_config \<Rightarrow> service_registration list" where
  "config_regs me c = service_registrations_with_logs (me_host me) (me_services_dir me) c"

text \<open>
  What the components have in a phase of the configuration monitor: a configuration that is being applied
  reaches the registry first, then the allowlist of the logs, then the audit, and then it is the active one.
\<close>

fun candidate :: "config_phase \<Rightarrow> supervisor_config option" where
  "candidate (CfgFound c _) = Some c"
| "candidate (CfgRegistered c _ _) = Some c"
| "candidate (CfgPreloaded c _ _ _) = Some c"
| "candidate (CfgInstalled c _ _) = Some c"
| "candidate (CfgLogged c _ _) = Some c"
| "candidate (CfgAudited c _ _) = Some c"
| "candidate _ = None"

fun registered_config :: "config_phase \<Rightarrow> supervisor_config \<Rightarrow> supervisor_config" where
  "registered_config (CfgRegistered c _ _) active = c"
| "registered_config (CfgPreloaded c _ _ _) active = c"
| "registered_config (CfgInstalled c _ _) active = c"
| "registered_config (CfgLogged c _ _) active = c"
| "registered_config (CfgAudited c _ _) active = c"
| "registered_config _ active = active"

fun served_config :: "config_phase \<Rightarrow> supervisor_config \<Rightarrow> supervisor_config" where
  "served_config (CfgLogged c _ _) active = c"
| "served_config (CfgAudited c _ _) active = c"
| "served_config _ active = active"

fun audited_revision :: "config_phase \<Rightarrow> string \<Rightarrow> string" where
  "audited_revision (CfgAudited _ f _) active = f"
| "audited_revision _ active = active"

definition usable_config ::
  "(('p, 'w) registry_state, 'io, 'je, 't, 'e, 'lf) monitor_env \<Rightarrow> supervisor_config \<Rightarrow> bool" where
  "usable_config me c \<longleftrightarrow> validate_structure (me_host me) c = Inr () \<and> bt_invar (sup_services c)"

definition host_ok ::
  "(('p, 'w) registry_state, 'io, 'je, 't, 'e, 'lf) monitor_env \<Rightarrow> supervisor_config \<Rightarrow>
     ('p, 'w, 'io) host_state \<Rightarrow> bool" where
  "host_ok me initial h \<longleftrightarrow>
     usable_config me (fg_config h) \<and> same_foreground_contract initial (fg_config h)
     \<and> pred_option (usable_config me) (candidate (fg_phase h))
     \<and> same_foreground_contract initial (registered_config (fg_phase h) (fg_config h))
     \<and> stack_of (registered (config_regs me (registered_config (fg_phase h) (fg_config h))))
         (audited_revision (fg_phase h) (fg_fingerprint h)) (fg_stack h)
     \<and> lst_services (fg_logs h) = bt_keys (sup_services (served_config (fg_phase h) (fg_config h)))
     \<and> rs_active_revision (fg_status h) = fg_fingerprint h"

lemma same_foreground_trans:
  "same_foreground_contract a b \<Longrightarrow> same_foreground_contract b c \<Longrightarrow> same_foreground_contract a c"
  by (simp add: same_foreground_contract_def)

lemma registry_new_registered:
  fixes services :: "'p services"
  assumes "registry_new regs = Inr services"
  shows "registrations services = registered regs"
proof -
  have "collect_unique service_entry_new regs bt_empty = Inr services"
    using assms by (simp add: registry_new_def split: sum.splits)
  from collect_unique_spec [OF this] have "bt_get services = map_of (map (\<lambda>r. (reg_id r, service_entry_new r)) regs)"
    by (simp add: fun_eq_iff map_add_def)
  moreover have "map_option se_registration (map_of (map (\<lambda>r. (reg_id r, service_entry_new r :: 'p service_entry)) regs) k)
      = map_of (map (\<lambda>r. (reg_id r, r)) regs) k" for k
    by (induction regs) (auto simp: service_entry_new_def)
  ultimately show ?thesis by (simp add: registrations_def registered_def fun_eq_iff)
qed

lemma reconcile_registered:
  assumes "reconcile_registrations regs services = (Inr out, services')" and "registry_ok services"
  shows "registrations services' = registered regs"
proof -
  have "se_registration (reconciled services k r) = r" for k r
    by (simp add: reconciled_def service_entry_new_def split: option.split)
  then show ?thesis
    using reconcile_Inr(3) [OF registry_ok_invar [OF assms(2)] assms(1)]
    by (simp add: registrations_def fun_eq_iff option.map_comp comp_def option.map_ident)
qed

lemma allowed_sorted_set: "allowed_ids sids = sorted_set sids"
  by (simp add: allowed_ids_def sorted_set_def)

lemma reconcile_logs: "lst_services (reconcile_service_ids now files sids store) = sorted_set sids"
  by (simp add: reconcile_service_ids_def store_allow_def allowed_sorted_set)

lemma registrations_with_logs_ids:
  "map reg_id (service_registrations_with_logs env dir c) = bt_keys (sup_services c)"
  by (simp add: service_registrations_with_logs_def bt_keys_def comp_def case_prod_unfold)

lemma set_fingerprint_stack:
  "stack_of R fingerprint (apsnd (set_config_fingerprint fingerprint) st) \<longleftrightarrow> registry_of R (fst st)"
  by (cases st) (simp add: stack_of_def set_config_fingerprint_def)

lemma bt_keys_sorted_set: "bt_invar m \<Longrightarrow> sorted_set (bt_keys m) = bt_keys m"
proof -
  assume inv: "bt_invar m"
  have "sorted_wrt (<) (bt_keys m)" using inv by (simp add: bt_invar_def bt_keys_def)
  moreover have "sorted_wrt (<) (sorted_set (bt_keys m))"
    using bt_collect_invar unfolding sorted_set_def bt_invar_def bt_keys_def by blast
  moreover have "set (sorted_set (bt_keys m)) = set (bt_keys m)" by (rule sorted_set_set)
  ultimately show ?thesis by (simp add: sorted_distinct_set_unique strict_sorted_iff)
qed

lemma host_error_ok [simp]: "host_ok me initial (h\<lparr>fg_config_error := e\<rparr>) = host_ok me initial h"
  by (simp add: host_ok_def)

lemma host_print_ok [simp]: "host_ok me initial (host_print err line h) = host_ok me initial h"
  by (simp add: host_ok_def host_print_def)

text \<open>A status that keeps the active revision, in a phase in which nothing is applied yet.\<close>

lemma host_status_ok:
  assumes "host_ok me initial h" and "rs_active_revision status = fg_fingerprint h"
    and "registered_config (fg_phase h) = registered_config phase" "served_config (fg_phase h) = served_config phase"
    and "audited_revision (fg_phase h) = audited_revision phase" "pred_option (usable_config me) (candidate phase)"
  shows "host_ok me initial (h\<lparr>fg_status := status, fg_phase := phase\<rparr>)"
  using assms by (simp add: host_ok_def)

lemmas status_defs = rec_rejected_def rec_deferred_def rec_failed_def rec_pending_def rec_applied_def clear_changes_def

lemma reject_ok:
  assumes "host_ok me initial h" and "fg_phase h = CfgIdle \<or> (\<exists>c f. fg_phase h = CfgFound c f)"
  shows "host_ok me initial (reject_config me revision message h)"
proof -
  have "rs_active_revision (fg_status h) = fg_fingerprint h" using assms(1) by (simp add: host_ok_def)
  with assms show ?thesis
    unfolding reject_config_def
    by (intro host_status_ok) (auto simp: status_defs fun_eq_iff)
qed

lemma find_config_ok:
  assumes "host_ok me initial h" and "fg_phase h = CfgIdle"
  shows "host_ok me initial (find_config me source h)"
proof -
  note rejected = reject_ok [OF assms(1) disjI1 [OF assms(2)]]
  have rev: "rs_active_revision (fg_status h) = fg_fingerprint h" using assms(1) by (simp add: host_ok_def)
  show ?thesis
  proof (cases source)
    case source: (Inr input)
    show ?thesis
    proof (cases "parse_json (me_library me) input")
      case parsed: (Inr config)
      show ?thesis
      proof (cases "validate_structure (me_host me) config")
        case valid: (Inr u)
        have usable: "usable_config me config"
          using valid parse_json_invar [OF parsed] by (simp add: usable_config_def)
        show ?thesis
        proof (cases "config_fingerprint (me_library me) config")
          case print: (Inr fingerprint)
          have "host_ok me initial (h\<lparr>fg_status := rec_applied stamp (fg_fingerprint h) out (fg_status h)\<rparr>)" for stamp out
            using assms(1) by (simp add: host_ok_def rec_applied_def)
          moreover have "host_ok me initial (h\<lparr>fg_status := rec_pending stamp fingerprint (fg_status h),
              fg_phase := CfgFound config fingerprint\<rparr>)" for stamp
            using assms rev usable by (intro host_status_ok) (simp_all add: status_defs fun_eq_iff)
          ultimately show ?thesis
            using assms(1) by (simp add: find_config_def source parsed valid print)
        qed (simp add: find_config_def source parsed valid rejected)
      qed (simp add: find_config_def source parsed rejected)
    qed (simp add: find_config_def source rejected)
  qed (simp add: find_config_def rejected)
qed

lemma register_config_ok:
  fixes me :: "(('p, 'w) registry_state, 'io, 'je, 't, 'e, 'lf) monitor_env"
  assumes "host_ok me initial h" and phase: "fg_phase h = CfgFound config fingerprint"
  shows "host_ok me initial (register_config me config fingerprint h)"
proof (cases "same_foreground_contract (fg_config h) config")
  case True
  obtain services w au where st: "fg_stack h = ((services, w), au)" by (metis prod.exhaust)
  have ok: "registry_ok services" and print: "as_fingerprint au = fg_fingerprint h"
    using assms by (simp_all add: host_ok_def stack_of_def st)
  obtain x :: "'e reconcile_error + reconcile_outcome" and services'
    where rec: "reconcile_registrations (config_regs me config) services = (x, services')"
    by (metis prod.exhaust)
  show ?thesis
  proof (cases x)
    case (Inl e)
    have "services' = services" using reconcile_error_unchanged rec Inl by blast
    then show ?thesis
      using assms True st by (simp add: register_config_def rec [unfolded config_regs_def] Inl host_ok_def)
  next
    case (Inr out)
    have "registrations services' = registered (config_regs me config)" "registry_ok services'"
      using reconcile_registered [OF rec [unfolded Inr] ok] reconcile_ok [OF ok rec] by simp_all
    moreover have "same_foreground_contract initial config"
      using same_foreground_trans True assms(1) by (auto simp: host_ok_def)
    ultimately show ?thesis
      using assms True st print
      by (simp add: register_config_def rec [unfolded config_regs_def] Inr host_ok_def stack_of_def)
  qed
qed (simp add: register_config_def reject_ok [OF assms(1)] phase)

text \<open>Every section keeps the invariant, and every turn comes to its end.\<close>

lemma config_section_ok:
  assumes "host_ok me initial h"
  shows "host_ok me initial (config_section me source h)"
proof (cases "fg_phase h")
  case CfgIdle
  then show ?thesis using find_config_ok [OF assms] by (simp add: config_section_def)
next
  case (CfgFound config fingerprint)
  then show ?thesis using register_config_ok [OF assms] by (simp add: config_section_def)
next
  case (CfgRefused fingerprint message)
  then show ?thesis using assms by (simp add: config_section_def host_ok_def status_defs)
next
  case (CfgRegistered config fingerprint out)
  then show ?thesis using assms by (simp add: config_section_def host_ok_def)
next
  case (CfgPreloaded config fingerprint out preloaded)
  then show ?thesis using assms by (simp add: config_section_def host_ok_def store_install_def)
next
  case (CfgInstalled config fingerprint out)
  then show ?thesis using assms
    by (simp add: config_section_def host_ok_def store_allow_def allowed_sorted_set bt_keys_sorted_set usable_config_def)
next
  case (CfgLogged config fingerprint out)
  then show ?thesis using assms
    by (simp add: config_section_def host_ok_def set_fingerprint_stack) (simp add: stack_of_def)
next
  case (CfgAudited config fingerprint out)
  then show ?thesis using assms by (simp add: config_section_def host_ok_def rec_applied_def)
next
  case (CfgApplied fingerprint out)
  then show ?thesis using assms by (simp add: config_section_def report_applied_def host_ok_def host_print_def)
next
  case (CfgFailed error)
  then show ?thesis using assms by (simp add: config_section_def report_config_error_def host_ok_def host_print_def)
qed

fun phase_left :: "config_phase \<Rightarrow> nat" where
  "phase_left CfgIdle = 0"
| "phase_left (CfgApplied _ _) = 1"
| "phase_left (CfgFailed _) = 1"
| "phase_left (CfgAudited _ _ _) = 2"
| "phase_left (CfgRefused _ _) = 2"
| "phase_left (CfgLogged _ _ _) = 3"
| "phase_left (CfgInstalled _ _ _) = 4"
| "phase_left (CfgPreloaded _ _ _ _) = 5"
| "phase_left (CfgRegistered _ _ _) = 6"
| "phase_left (CfgFound _ _) = 7"

lemma config_turn_ends:
  "fg_phase h \<noteq> CfgIdle \<Longrightarrow> phase_left (fg_phase (config_section me source h)) < phase_left (fg_phase h)"
  by (cases "fg_phase h")
    (auto simp: config_section_def register_config_def reject_config_def report_applied_def report_config_error_def
      host_print_def split: prod.split sum.split)

section \<open>Reachable states\<close>

text \<open>
  The process starts from a configuration that was parsed and validated. Then the sections of the
  configuration monitor, the turns of the service monitor, the requests by which clients read and
  change the services through the stack of controls, the output that reaches the log store and what
  the platform does follow each other in any order.
\<close>

inductive host_reach ::
  "(('p, 'w) registry_state, 'io, 'je, 't, 'e, 'lf) monitor_env \<Rightarrow> ('e \<Rightarrow> string) \<Rightarrow> ('n \<Rightarrow> string) \<Rightarrow>
     ('w, 'p, 'e, 'n) backend \<Rightarrow> nat \<Rightarrow> supervisor_config \<Rightarrow> ('p, 'w, 'io) host_state \<Rightarrow> bool"
  for me se sn bk window initial where
  start: "parse_json (me_library me) input = Inr initial \<Longrightarrow> validate_structure (me_host me) initial = Inr () \<Longrightarrow>
    config_fingerprint (me_library me) initial = Inr fingerprint \<Longrightarrow>
    host_start me initial fingerprint hub journal w = Inr h \<Longrightarrow> host_reach me se sn bk window initial h"
| platform: "host_reach me se sn bk window initial h \<Longrightarrow> fg_stack h = ((services, w), au) \<Longrightarrow>
    host_reach me se sn bk window initial (h\<lparr>fg_stack := ((services, w'), au)\<rparr>)"
| config: "host_reach me se sn bk window initial h \<Longrightarrow>
    host_reach me se sn bk window initial (config_section me source h)"
| service: "host_reach me se sn bk window initial h \<Longrightarrow>
    service_tick (me_audit me) (host_control (me_audit me) se sn bk (sup_console_events initial \<noteq> EventsOff))
      (show_registry_error se sn) (refresh_services bk window) stop (last_error, fg_stack h)
      = (out, (last_error', st)) \<Longrightarrow>
    host_reach me se sn bk window initial (h\<lparr>fg_stack := st\<rparr>)"
| mutate: "host_reach me se sn bk window initial h \<Longrightarrow>
    ctl_mutate (host_control (me_audit me) se sn bk (sup_console_events initial \<noteq> EventsOff)) action sid a r
      (fg_stack h) = (out, st) \<Longrightarrow>
    host_reach me se sn bk window initial (h\<lparr>fg_stack := st\<rparr>)"
| observe: "host_reach me se sn bk window initial h \<Longrightarrow>
    ctl_snapshots (host_control (me_audit me) se sn bk (sup_console_events initial \<noteq> EventsOff))
      (fg_stack h) = (out', st) \<Longrightarrow>
    host_reach me se sn bk window initial (h\<lparr>fg_stack := st\<rparr>)"
| log_output: "host_reach me se sn bk window initial h \<Longrightarrow> lst_services logs = lst_services (fg_logs h) \<Longrightarrow>
    host_reach me se sn bk window initial (h\<lparr>fg_logs := logs\<rparr>)"

lemma host_start_ok:
  assumes "host_start me initial fingerprint hub journal w = Inr h" and "bt_invar (sup_services initial)"
    and "validate_structure (me_host me) initial = Inr ()"
  shows "host_ok me initial h"
proof -
  obtain services where new: "registry_new (config_regs me initial) = Inr services"
    and h: "h = \<lparr>fg_stack = ((services, w), \<lparr>as_journal = journal, as_fingerprint = fingerprint, as_console = []\<rparr>),
           fg_logs = log_store_new (me_log_now me) (me_log_files me) hub (bt_keys (sup_services initial)),
           fg_status = reconciliation_new (wall_stamp (me_audit me) (services, w)) fingerprint,
           fg_config = initial, fg_fingerprint = fingerprint, fg_config_error = None, fg_phase = CfgIdle\<rparr>"
    using assms(1) by (auto simp: host_start_def config_regs_def split: sum.splits)
  have "registry_of (registered (config_regs me initial)) (services, w)"
    using registry_new_ok [OF new] registry_new_registered [OF new] by simp
  then show ?thesis
    using assms(2,3)
    by (simp add: h host_ok_def usable_config_def stack_of_def same_foreground_contract_def log_store_new_def
        reconcile_logs bt_keys_sorted_set reconciliation_new_def)
qed

lemma host_reach_ok: "host_reach me se sn bk window initial h \<Longrightarrow> host_ok me initial h"
proof (induction rule: host_reach.induct)
  case (start input fingerprint hub journal w h)
  then show ?case using host_start_ok parse_json_invar by blast
next
  case (platform h services w au w')
  then show ?case by (simp add: host_ok_def stack_of_def)
next
  case (config h source)
  then show ?case by (simp add: config_section_ok)
next
  case (service h stop last_error out last_error' st)
  then show ?case using service_tick_keeps [OF service(2)] by (simp add: host_ok_def)
next
  case (mutate h action sid a r out st)
  then show ?case using keeps_run [OF host_control_keeps(1) _ mutate(2)] by (simp add: host_ok_def)
next
  case (observe h out' st)
  then show ?case using keeps_run [OF host_control_keeps(2) _ observe(2)] by (simp add: host_ok_def)
next
  case (log_output h logs)
  then show ?case by (simp add: host_ok_def)
qed

section \<open>The reason of a planned restart\<close>

lemma decimal_plain: "decimal n \<noteq> [] \<and> list_all plain (decimal n)"
proof (induction n rule: decimal.induct)
  case (1 n)
  have "plain (char_of (48 + d))" if "d < 10" for d :: nat
    using that by (simp add: plain_def)
  then show ?case using 1 by (subst (1 2) decimal.simps) auto
qed

lemma decimal_length: "n < 10 ^ Suc k \<Longrightarrow> length (decimal n) \<le> Suc k"
proof (induction k arbitrary: n)
  case 0
  then show ?case by (simp add: decimal.simps [of n])
next
  case (Suc k)
  show ?case
  proof (cases "n < 10")
    case False
    have "n div 10 < 10 ^ Suc k" using Suc.prems by (simp add: less_mult_imp_div_less mult.commute)
    then show ?thesis using Suc.IH [of "n div 10"] False by (simp add: decimal.simps [of n])
  qed (simp add: decimal.simps [of n])
qed

lemma show_i32_plain: "show_i32 c \<noteq> [] \<and> plain (last (show_i32 c)) \<and> length (show_i32 c) \<le> 11"
proof -
  have range: "sint c < 2 ^ 31 \<and> - (2 ^ 31) \<le> sint c"
    using sint_range_size [of c] by (simp add: word_size)
  have "length (decimal (nat (abs (sint c)))) \<le> Suc 9"
    using range by (intro decimal_length) (simp add: nat_less_iff, linarith)
  moreover have "plain (last (decimal n))" for n
    using decimal_plain [of n] by (simp add: list_all_iff)
  ultimately show ?thesis
    using decimal_plain by (auto simp: show_i32_def abs_if)
qed

lemma reason_of_text:
  assumes "s \<noteq> []" and "plain (hd s)" and "plain (last s)" and "length s \<le> 500"
  shows "reason_new s = Inr (Reason s)"
proof -
  have "trim s = s" using plain_ws_len plain_ws_end_len assms by (intro trim_idem) auto
  then show ?thesis using assms by (simp add: reason_new_def reason_max_bytes_def)
qed

lemma exit_text_plain: "exit_text event \<noteq> [] \<and> plain (last (exit_text event)) \<and> length (exit_text event) \<le> 28"
proof (cases "pee_exit_code event")
  case (Some code)
  then show ?thesis using show_i32_plain [of code] by (simp add: exit_text_def)
qed (simp add: exit_text_def plain_def)

lemma restart_reason_accepted:
  "reason_new (restart_reason_text event) = Inr (Reason (restart_reason_text event))"
  using exit_text_plain [of event]
  by (intro reason_of_text) (auto simp: restart_reason_text_def plain_def)

lemma exit_reason_accepted:
  "reason_new (''owned process tree exited '' @ exit_text event @ ''; '' @ recovery_text event)
    = Inr (Reason (''owned process tree exited '' @ exit_text event @ ''; '' @ recovery_text event))"
  using exit_text_plain [of event]
  by (intro reason_of_text) (auto simp: recovery_text_def plain_def)

lemma journal_append_returns: "fst (journal_append h secrets r js) \<noteq> Panic"
  by (simp add: journal_append_def Let_def split: sum.split option.split disk_fault.split)

lemma record_exit_run:
  assumes "record_process_exit cfg event (s, au) = (out, (s', au'))"
  shows "s' = s \<and> out \<noteq> Panic
    \<and> (\<forall>u. out = Ok u \<longrightarrow> (\<exists>t. js_file (as_journal au') = js_file (as_journal au) @ t @ [newline]))"
proof -
  obtain r where r: "reason_new (''owned process tree exited '' @ exit_text event @ ''; '' @ recovery_text event) = Inr r"
    using exit_reason_accepted by blast
  let ?append = "journal_append (ac_host cfg) (ac_secrets cfg)
    (exit_record cfg event r (ac_clock cfg s) (as_fingerprint au)) (as_journal au)"
  have run: "record_process_exit cfg event (s, au) = append_and_publish cfg ''failed to persist process-exit journal''
      (exit_record cfg event r (ac_clock cfg s) (as_fingerprint au)) (s, au)"
    unfolding record_process_exit_def r by (simp add: bind_op_def get_op_def)
  have journal: "as_journal (publish_console_event cfg x y) = as_journal y" for x y
    by (simp add: publish_console_event_def split: option.split)
  obtain o1 js where app: "?append = (o1, js)" by (metis prod.exhaust)
  have np: "o1 \<noteq> Panic" using journal_append_returns app by (metis fst_conv)
  show ?thesis
  proof (cases o1)
    case (Ok r')
    have "\<exists>t. js_file js = js_file (as_journal au) @ t @ [newline]"
      using append_Ok [OF app [unfolded Ok]] by auto
    then show ?thesis using assms unfolding run append_and_publish_def
      by (auto simp: app Ok journal)
  qed (use assms np in \<open>auto simp: run append_and_publish_def app\<close>)
qed

section \<open>Properties\<close>

text \<open>C11: In every reachable state of the process, between any two critical sections of the configuration
  monitor, the active configuration is valid, differs from the one it started with in the services
  only, and is what the reconciliation reports as active. The registry runs, the log store serves and
  the audit records exactly the active configuration or the one that is being applied, which is
  valid: it is in the registry first, then in the allowlist of the logs, then in the audit.\<close>

theorem active_configuration:
  assumes "host_reach me se sn bk window initial h" and "fg_stack h = ((services, w), au)"
  shows "validate_structure (me_host me) (fg_config h) = Inr () \<and> same_foreground_contract initial (fg_config h)
    \<and> rs_active_revision (fg_status h) = fg_fingerprint h
    \<and> registry_ok services
    \<and> registrations services = registered (service_registrations_with_logs (me_host me) (me_services_dir me)
        (registered_config (fg_phase h) (fg_config h)))
    \<and> validate_structure (me_host me) (registered_config (fg_phase h) (fg_config h)) = Inr ()
    \<and> same_foreground_contract initial (registered_config (fg_phase h) (fg_config h))
    \<and> lst_services (fg_logs h) = bt_keys (sup_services (served_config (fg_phase h) (fg_config h)))
    \<and> as_fingerprint au = audited_revision (fg_phase h) (fg_fingerprint h)"
proof -
  note ok = host_reach_ok [OF assms(1)]
  have "validate_structure (me_host me) (registered_config (fg_phase h) (fg_config h)) = Inr ()"
    using ok by (cases "fg_phase h") (simp_all add: host_ok_def usable_config_def)
  then show ?thesis
    using ok assms(2) by (simp add: host_ok_def usable_config_def stack_of_def config_regs_def)
qed

definition example_monitor :: "((u32, demo_os) registry_state, unit, unit, unit, unit, unit) monitor_env" where
  "example_monitor = \<lparr>me_host = example_env,
     me_library = \<lparr>cl_parse = (\<lambda>_. Inr (example_config bt_empty, example_pair)), cl_locate = (\<lambda>_ m. m),
       cl_fingerprint = (\<lambda>_. Inr ''0'')\<rparr>,
     me_path = ''c'', me_services_dir = ''d'', me_log_now = id,
     me_log_files = (\<lambda>_ _. \<lparr>lf_meta = MetaMissing, lf_read = Inr [], lf_modified = None\<rparr>),
     me_show_error = (\<lambda>_. ''e''),
     me_audit = \<lparr>ac_host = demo_host\<lparr>jh_encode := (\<lambda>_. Inr ''x'')\<rparr>, ac_secrets = [], ac_instance_id = ''i'', ac_console_events = None,
       ac_console_timezone = TzUtc, ac_clock = (\<lambda>_. 5),
       ac_chrono = \<lparr>ch_from_millis = (\<lambda>_. None), ch_parse_rfc3339 = (\<lambda>_. None), ch_utc = (\<lambda>_. []),
         ch_local = (\<lambda>_. [])\<rparr>, ac_debug = id\<rparr>\<rparr>"

lemma active_configuration_witness:
  "\<exists>h services w au. host_start example_monitor (example_config example_pair) ''sha256:0'' ''hub'' (demo_journal [])
      demo_world = Inr h \<and> fg_stack h = ((services, w), au) \<and> as_fingerprint au = ''sha256:0''
    \<and> registrations services ''web'' \<noteq> None"
proof -
  let ?c = "example_config example_pair"
  let ?start = "host_start example_monitor ?c ''sha256:0'' ''hub'' (demo_journal []) demo_world"
  have parse: "parse_json (me_library example_monitor) [] = Inr ?c" by code_simp
  have valid: "validate_structure (me_host example_monitor) ?c = Inr ()" by code_simp
  have print: "config_fingerprint (me_library example_monitor) ?c = Inr ''sha256:0''" by code_simp
  have "case ?start of Inl e \<Rightarrow> False | Inr h \<Rightarrow> fg_fingerprint h = ''sha256:0'' \<and> fg_config h = ?c \<and> fg_phase h = CfgIdle"
    by code_simp
  then obtain h where h: "?start = Inr h" "fg_fingerprint h = ''sha256:0''" "fg_config h = ?c" "fg_phase h = CfgIdle"
    by (auto split: sum.splits)
  obtain services w au where st: "fg_stack h = ((services, w), au)" by (metis prod.exhaust)
  have reach: "host_reach example_monitor (\<lambda>_. ''e'') (\<lambda>_. ''n'') (demo []) 5 ?c h"
    by (rule host_reach.start [OF parse valid print h(1)])
  have "registered (service_registrations_with_logs example_env ''d'' ?c) ''web'' \<noteq> None"
    by code_simp
  then have "registrations services ''web'' \<noteq> None" "as_fingerprint au = ''sha256:0''"
    using active_configuration [OF reach st] h by (simp_all add: example_monitor_def)
  then show ?thesis using h(1) st by blast
qed

text \<open>A planned restart never happens without its record: an observed exit is appended to the journal
  first, and only when that succeeded a restart is requested by the recovery, always with an
  acceptable reason; when it failed no service is touched.\<close>

lemma restart_only_after_record:
  "case record_process_exit cfg event (s, au) of
     (Ok _, (s1, au1)) \<Rightarrow> s1 = s
       \<and> (\<exists>t. js_file (as_journal au1) = js_file (as_journal au) @ t @ [newline])
       \<and> (if pee_automatic_restart_planned event \<or> pee_deferred_restart_planned event
          then fst (snd (handle_exit cfg ctl event (s, au)))
            = fst (snd (ctl_mutate ctl CtlRestart (pee_service_id event) Recovery
                (Reason (restart_reason_text event)) (s1, au1)))
          else handle_exit cfg ctl event (s, au) = (Ok (), (s1, au1)))
   | (Err e, (s1, au1)) \<Rightarrow> s1 = s \<and> fst (handle_exit cfg ctl event (s, au)) = Ok ()
       \<and> fst (snd (handle_exit cfg ctl event (s, au))) = s
   | (Panic, _) \<Rightarrow> False"
proof -
  obtain out s1 au1 where run: "record_process_exit cfg event (s, au) = (out, (s1, au1))" by (metis prod.exhaust)
  note spec = record_exit_run [OF run]
  then have s1: "s1 = s" by blast
  obtain o2 st2 where m: "ctl_mutate ctl CtlRestart (pee_service_id event) Recovery
      (Reason (restart_reason_text event)) (s, au1) = (o2, st2)" by (metis prod.exhaust)
  show ?thesis
  proof (cases out)
    case (Ok u)
    then show ?thesis using spec
      by (cases o2) (simp_all add: run [unfolded s1] handle_exit_def restart_reason_accepted m)
  next
    case (Err e)
    then show ?thesis using spec by (simp add: run [unfolded s1] handle_exit_def)
  qed (use spec run in simp)
qed

text \<open>C20: A clean-up that succeeds puts every service down: each is meant to be stopped and has either no
  process and the lifecycle \<open>Stopped\<close>, or keeps its owner while its termination is pending.\<close>

theorem cleanup_stops_everything:
  assumes "host_reach me se sn bk window initial h" and "fg_stack h = ((services, w), au)"
    and "cleanup (host_control (me_audit me) se sn bk enabled) cause (fg_stack h) = (Ok (), ((services', w'), au'))"
    and "bt_get services' sid = Some e"
  shows "sv_desired_state (se_supervision e) = DesiredStopped
    \<and> (if rt_process (se_runtime e) = None then rt_lifecycle (se_runtime e) = Stopped
       else rt_lifecycle (se_runtime e) = TerminationPending)"
proof -
  have ok: "registry_ok services" using active_configuration [OF assms(1,2)] by blast
  from cleanup_put_down [OF assms(3) [unfolded assms(2)] ok assms(4)] show ?thesis by (simp add: put_down_def)
qed

lemma cleanup_stops_everything_witness:
  "\<exists>h services' w' au' e. host_start example_monitor (example_config example_pair) ''sha256:0'' ''hub''
      (demo_journal []) demo_world = Inr h
    \<and> cleanup (host_control (me_audit example_monitor) (\<lambda>_. ''e'') (\<lambda>_. ''n'') (demo []) False)
      (user_cause ''bye'') (fg_stack h) = (Ok (), ((services', w'), au'))
    \<and> bt_get services' ''web'' = Some e \<and> sv_desired_state (se_supervision e) = DesiredStopped"
proof -
  let ?c = "example_config example_pair"
  let ?ctl = "host_control (me_audit example_monitor) (\<lambda>_. ''e'') (\<lambda>_. ''n'') (demo []) False"
  let ?start = "host_start example_monitor ?c ''sha256:0'' ''hub'' (demo_journal []) demo_world"
  have parse: "parse_json (me_library example_monitor) [] = Inr ?c" by code_simp
  have valid: "validate_structure (me_host example_monitor) ?c = Inr ()" by code_simp
  have print: "config_fingerprint (me_library example_monitor) ?c = Inr ''sha256:0''" by code_simp
  have "case ?start of Inl e \<Rightarrow> False | Inr h \<Rightarrow>
      (case cleanup ?ctl (user_cause ''bye'') (fg_stack h) of
         (r, ((services, w), au)) \<Rightarrow> r = Ok () \<and> bt_contains services ''web'')"
    by code_simp
  then obtain h services' w' au' where h: "?start = Inr h"
    and run: "cleanup ?ctl (user_cause ''bye'') (fg_stack h) = (Ok (), ((services', w'), au'))"
    and web: "bt_contains services' ''web''"
    by (cases ?start) (auto split: prod.splits)
  obtain e where e: "bt_get services' ''web'' = Some e" using web by (auto simp: bt_contains_def)
  obtain services w au where st: "fg_stack h = ((services, w), au)" by (metis prod.exhaust)
  have reach: "host_reach example_monitor (\<lambda>_. ''e'') (\<lambda>_. ''n'') (demo []) 5 ?c h"
    by (rule host_reach.start [OF parse valid print h])
  from cleanup_stops_everything [OF reach st run e] show ?thesis using h run e by blast
qed

text \<open>C27: The shutdown order is exact: it lists every service once, after all services that depend on it;
  there is none only when a dependency is not registered or the dependencies have a cycle, and the
  counting never underflows.\<close>

theorem shutdown_order_exact:
  assumes "distinct (map ss_id snaps)"
  shows "case stable_shutdown_order snaps of
      Ok order \<Rightarrow> distinct order \<and> set order = set (map ss_id snaps)
        \<and> dependents_first (snapshot_deps snaps) [] order
    | Err e \<Rightarrow> (\<exists>(x, d) \<in> snapshot_deps snaps. d \<notin> set (map ss_id snaps) \<and> e = ce_service_not_found d)
        \<or> \<not> acyclic (snapshot_deps snaps) \<and> ce_kind e = KindInternal
    | Panic \<Rightarrow> False"
  using shutdown_order_spec [OF assms] unfolding snapshot_ids_def .

lemma shutdown_order_exact_witness:
  "\<exists>order. stable_shutdown_order demo_snapshots = Ok order \<and> distinct order
     \<and> set order = set (map ss_id demo_snapshots)"
proof -
  have "distinct (map ss_id demo_snapshots)" by code_simp
  moreover have "stable_shutdown_order demo_snapshots = Ok [''web'', ''db'']" by code_simp
  ultimately show ?thesis using shutdown_order_exact [of demo_snapshots] by simp
qed

end
