(* ===== verification/Config_Path.thy ===== *)
theory Config_Path
  imports Config Redaction
begin

text \<open>
  \<open>src/src/adapters/config_path.rs\<close>: which configuration file an invocation uses, and from
  \<open>src/src/adapters/runtime_token.rs\<close> where its token file is. What the path library of the host
  says of a path (its parent, its absolute form) is a parameter beside \<open>host_env\<close>; the process
  environment and the platform are arguments.
\<close>

section \<open>Discovery\<close>

datatype config_path_source = SourceExplicit | SourceEnvironment | SourceDefault

definition config_environment_variable :: string where
  "config_environment_variable = ''AKU_SUPERVISOR_CONFIG''"

definition config_file_name :: string where
  "config_file_name = ''services.json''"

fun config_path_source_label :: "config_path_source \<Rightarrow> string" where
  "config_path_source_label SourceExplicit = ''--config''"
| "config_path_source_label SourceEnvironment = config_environment_variable"
| "config_path_source_label SourceDefault = ''default user configuration''"

record resolved_config_path =
  rp_path :: string
  rp_source :: config_path_source

datatype config_path_error =
  CpDefaultLocationUnavailable string
| CpNotFound string config_path_source
| CpResolve string string

text \<open>The part of the path library the discovery uses.\<close>

record path_library =
  pl_env :: host_env
  pl_parent :: "string \<Rightarrow> string option"
  pl_absolute :: "string \<Rightarrow> string + string"

definition resolve_candidates ::
  "path_library \<Rightarrow> string option \<Rightarrow> string option \<Rightarrow> string \<Rightarrow> config_path_error + resolved_config_path" where
  "resolve_candidates pl explicit environment default_path =
     (let (path, source) = (case explicit of
          Some path \<Rightarrow> (path, SourceExplicit)
        | None \<Rightarrow> (case environment of
              Some path \<Rightarrow> (path, SourceEnvironment)
            | None \<Rightarrow> (default_path, SourceDefault))) in
      if he_is_file (pl_env pl) path then
        (case pl_absolute pl path of
           Inl message \<Rightarrow> Inl (CpResolve path message)
         | Inr absolute_path \<Rightarrow> Inr \<lparr>rp_path = absolute_path, rp_source = source\<rparr>)
      else Inl (CpNotFound path source))"

text \<open>The build targets the default location distinguishes.\<close>

datatype build_target = TargetWindows | TargetLinux | TargetMacos | TargetOther

definition joins :: "path_library \<Rightarrow> string \<Rightarrow> string list \<Rightarrow> string" where
  "joins pl = foldl (he_join (pl_env pl))"

definition nonempty :: "string option \<Rightarrow> string option" where
  "nonempty v = (case v of Some [] \<Rightarrow> None | _ \<Rightarrow> v)"

fun default_config_path ::
  "path_library \<Rightarrow> build_target \<Rightarrow> (string \<Rightarrow> string option) \<Rightarrow> config_path_error + string" where
  "default_config_path pl TargetWindows var = (case var ''LOCALAPPDATA'' of
      Some root \<Rightarrow> Inr (joins pl root [''AkuSupervisor'', config_file_name])
    | None \<Rightarrow> Inl (CpDefaultLocationUnavailable ''LOCALAPPDATA''))"
| "default_config_path pl TargetLinux var = (case nonempty (var ''XDG_CONFIG_HOME'') of
      Some root \<Rightarrow> Inr (joins pl root [''aku-supervisor'', config_file_name])
    | None \<Rightarrow> (case var ''HOME'' of
        Some root \<Rightarrow> Inr (joins pl root [''.config'', ''aku-supervisor'', config_file_name])
      | None \<Rightarrow> Inl (CpDefaultLocationUnavailable ''XDG_CONFIG_HOME or HOME'')))"
| "default_config_path pl TargetMacos var = (case var ''HOME'' of
      Some root \<Rightarrow> Inr (joins pl root [''Library'', ''Application Support'', ''AkuSupervisor'', config_file_name])
    | None \<Rightarrow> Inl (CpDefaultLocationUnavailable ''HOME''))"
| "default_config_path pl TargetOther var = (case var ''HOME'' of
      Some root \<Rightarrow> Inr (joins pl root [''.config'', ''aku-supervisor'', config_file_name])
    | None \<Rightarrow> Inl (CpDefaultLocationUnavailable ''HOME''))"

definition resolve_config_path ::
  "path_library \<Rightarrow> build_target \<Rightarrow> (string \<Rightarrow> string option) \<Rightarrow> string option
     \<Rightarrow> config_path_error + resolved_config_path" where
  "resolve_config_path pl target var explicit =
     (case default_config_path pl target var of
        Inl e \<Rightarrow> Inl e
      | Inr default_path \<Rightarrow>
          resolve_candidates pl explicit (nonempty (var config_environment_variable)) default_path)"

fun show_config_path_error :: "config_path_error \<Rightarrow> string" where
  "show_config_path_error (CpDefaultLocationUnavailable variable) =
     ''cannot determine the user configuration directory; '' @ variable @ '' is unavailable''"
| "show_config_path_error (CpNotFound path SourceDefault) =
     ''no configuration found'' @ [newline] @ ''expected: '' @ path @ [newline]
     @ ''use --config <path> or set '' @ config_environment_variable"
| "show_config_path_error (CpNotFound path source) =
     ''configuration selected by '' @ config_path_source_label source @ '' does not exist: '' @ path"
| "show_config_path_error (CpResolve path message) =
     ''failed to resolve configuration path '' @ path @ '': '' @ message"

lemma resolve_candidates_cases:
  "resolve_candidates pl (Some p) e d = resolve_candidates pl (Some p) None d'"
  "resolve_candidates pl None (Some p) d = resolve_candidates pl None (Some p) d'"
  by (simp_all add: resolve_candidates_def)

lemma resolve_candidates_file:
  "resolve_candidates pl explicit environment d = Inr r \<Longrightarrow>
     \<exists>path. path \<in> {d} \<union> set_option explicit \<union> set_option environment
       \<and> he_is_file (pl_env pl) path \<and> pl_absolute pl path = Inr (rp_path r)"
  by (auto simp: resolve_candidates_def split: option.splits if_splits sum.splits)

section \<open>The token file\<close>

text \<open>Only the normal components of the configured path are followed, beneath the directory of the configuration.\<close>

definition resolve_token_path :: "path_library \<Rightarrow> string \<Rightarrow> string \<Rightarrow> string" where
  "resolve_token_path pl config_path configured_path =
     foldl (\<lambda>resolved component.
        (case component of CompNormal name \<Rightarrow> he_join (pl_env pl) resolved name | _ \<Rightarrow> resolved))
       (case pl_parent pl config_path of None \<Rightarrow> ''.'' | Some parent \<Rightarrow> parent)
       (he_components (pl_env pl) configured_path)"

fun show_token_error :: "('io io_result_error \<Rightarrow> string) \<Rightarrow> string \<Rightarrow> 'io token_error \<Rightarrow> string" where
  "show_token_error show_io path (TokenRead source) = ''failed to read token '' @ path @ '': '' @ show_io source"
| "show_token_error show_io path (TokenCreateDirectory source) =
     ''failed to create runtime directory '' @ path @ '': '' @ show_io source"
| "show_token_error show_io path (TokenGenerate source) =
     ''failed to generate runtime token: '' @ show_io source"
| "show_token_error show_io path (TokenWrite source) = ''failed to write token '' @ path @ '': '' @ show_io source"
| "show_token_error show_io path TokenInvalid =
     ''runtime token '' @ path @ '' is not a 256-bit lowercase hexadecimal token''"

text \<open>\<open>derive_scoped\<close>: the hexadecimal SHA-256 digest is the parameter \<open>digest\<close>.\<close>

definition derive_scoped :: "(string \<Rightarrow> string) \<Rightarrow> string \<Rightarrow> string \<Rightarrow> string" where
  "derive_scoped digest token scope =
     digest (token @ [CHR 0x00] @ ''aku-supervisor-scoped-token'' @ [CHR 0x00] @ scope)"

text \<open>
  The text that is hashed determines the token and the scope: two capabilities of one token differ
  in what is hashed, and so do two tokens of the fixed length.
\<close>

lemma scoped_text_inj:
  assumes "length token = length token'"
    and "token @ [CHR 0x00] @ ''aku-supervisor-scoped-token'' @ [CHR 0x00] @ scope
      = token' @ [CHR 0x00] @ ''aku-supervisor-scoped-token'' @ [CHR 0x00] @ scope'"
  shows "token = token' \<and> scope = scope'"
  using assms by simp

end
