(* ===== verification/Json_Values.thy ===== *)
theory Json_Values
  imports Platform
begin

text \<open>
  Reading and building the values of \<open>serde_json\<close> the adapters exchange: an object that is built from
  fields, and the accessors that return nothing for a value of another kind.
\<close>

text \<open>\<open>json!\<close> of an object: the entries in the order of the map.\<close>

definition json_object :: "(string \<times> json) list \<Rightarrow> json" where
  "json_object members = JObject (bt_collect members)"

definition json_or_null :: "json option \<Rightarrow> json" where
  "json_or_null v = (case v of None \<Rightarrow> JNull | Some w \<Rightarrow> w)"

definition json_text :: "json \<Rightarrow> string \<Rightarrow> string option" where
  "json_text v key = Option.bind (json_get v key) json_as_str"

fun json_as_bool :: "json \<Rightarrow> bool option" where
  "json_as_bool (JBool b) = Some b"
| "json_as_bool _ = None"

fun json_as_u64 :: "json \<Rightarrow> u64 option" where
  "json_as_u64 (JNumber (PosInt n)) = Some n"
| "json_as_u64 _ = None"

fun json_as_array :: "json \<Rightarrow> json list option" where
  "json_as_array (JArray vs) = Some vs"
| "json_as_array _ = None"

fun json_as_object :: "json \<Rightarrow> (string \<times> json) list option" where
  "json_as_object (JObject members) = Some members"
| "json_as_object _ = None"

fun is_string_or_number :: "json \<Rightarrow> bool" where
  "is_string_or_number (JString _) = True"
| "is_string_or_number (JNumber _) = True"
| "is_string_or_number _ = False"

definition json_int :: "int \<Rightarrow> json" where
  "json_int i = JNumber (if 0 \<le> i then PosInt (of_int i) else NegInt (of_int i))"

definition json_strings :: "string list \<Rightarrow> json" where
  "json_strings ss = JArray (map JString ss)"

definition empty_object :: json where
  "empty_object = JObject []"

text \<open>The first key of a map, in its order, that is not allowed.\<close>

definition unknown_key :: "(string \<times> json) list \<Rightarrow> string list \<Rightarrow> string option" where
  "unknown_key members allowed = find (\<lambda>key. key \<notin> set allowed) (map fst members)"

text \<open>A key that holds a string that is not empty.\<close>

definition string_at :: "(string \<times> json) list \<Rightarrow> string \<Rightarrow> string option" where
  "string_at members key = (case Option.bind (map_of members key) json_as_str of
      None \<Rightarrow> None | Some v \<Rightarrow> if v = [] then None else Some v)"

definition json_size :: "nat \<Rightarrow> json" where
  "json_size n = JNumber (PosInt (of_nat n))"

lemma json_or_null_null [simp]: "json_or_null None = JNull" "json_or_null (Some v) = v"
  by (simp_all add: json_or_null_def)

end
