(* ===== verification/Wire_Text.thy ===== *)
theory Wire_Text
  imports Rust_Text "HOL-Library.Word"
begin

text \<open>
  The operations on strings and byte slices the HTTP and MCP adapters use: searching a slice,
  splitting, parsing unsigned integers, checking UTF-8, ignoring the case of ASCII letters. A
  \<open>String\<close> and a \<open>Vec<u8>\<close> are both a list of bytes.
\<close>

section \<open>Searching and splitting\<close>

text \<open>\<open>windows(n).position(..)\<close> for a pattern that is not empty, and \<open>str::find\<close>.\<close>

fun find_bytes :: "string \<Rightarrow> string \<Rightarrow> nat option" where
  "find_bytes [] needle = (if needle = [] then Some 0 else None)"
| "find_bytes (c # cs) needle =
     (if prefix needle (c # cs) then Some 0 else map_option Suc (find_bytes cs needle))"

definition split_once :: "string \<Rightarrow> string \<Rightarrow> (string \<times> string) option" where
  "split_once s sep = (case find_bytes s sep of
      None \<Rightarrow> None | Some i \<Rightarrow> Some (take i s, drop (i + length sep) s))"

fun split_on :: "char \<Rightarrow> string \<Rightarrow> string list" where
  "split_on sep [] = [[]]"
| "split_on sep (c # cs) =
     (if c = sep then [] # split_on sep cs
      else (case split_on sep cs of l # ls \<Rightarrow> (c # l) # ls | [] \<Rightarrow> [[c]]))"

text \<open>\<open>split\<close> at a pattern of several bytes.\<close>

function split_at :: "string \<Rightarrow> string \<Rightarrow> string list" where
  "split_at sep s = (case (if sep = [] then None else split_once s sep) of
      None \<Rightarrow> [s] | Some (l, rest) \<Rightarrow> l # split_at sep rest)"
  by pat_completeness auto
termination
proof (relation "measure (\<lambda>(sep, s). length s)", simp)
  fix sep s :: string and p l rest
  assume "(if sep = [] then None else split_once s sep) = Some p" "(l, rest) = p"
  then have "sep \<noteq> []" "rest = drop (the (find_bytes s sep) + length sep) s" "find_bytes s sep \<noteq> None"
    by (auto simp: split_once_def split: if_splits option.splits)
  moreover from this have "s \<noteq> []" by auto
  ultimately show "((sep, rest), sep, s) \<in> measure (\<lambda>(sep, s). length s)" by simp
qed

declare split_at.simps [simp del]

lemma find_bytes_sound: "find_bytes s p = Some i \<Longrightarrow> prefix p (drop i s) \<and> i + length p \<le> length s"
proof (induction s arbitrary: i)
  case (Cons c cs)
  then show ?case by (auto split: if_splits dest: prefix_length_le)
qed (auto split: if_splits)

lemma find_bytes_least: "find_bytes s p = Some i \<Longrightarrow> j < i \<Longrightarrow> \<not> prefix p (drop j s)"
proof (induction s arbitrary: i j)
  case (Cons c cs)
  then show ?case by (cases j) (auto split: if_splits)
qed (auto split: if_splits)

lemma find_bytes_first:
  "prefix p (drop i s) \<Longrightarrow> i \<le> length s \<Longrightarrow> (\<And>j. j < i \<Longrightarrow> \<not> prefix p (drop j s)) \<Longrightarrow> find_bytes s p = Some i"
proof (induction s arbitrary: i)
  case (Cons c cs)
  show ?case
  proof (cases i)
    case 0
    with Cons.prems(1) show ?thesis by simp
  next
    case (Suc k)
    have "find_bytes cs p = Some k"
      using Cons.IH [of k] Cons.prems Suc Cons.prems(3) [of "Suc _"] by fastforce
    moreover have "\<not> prefix p (c # cs)" using Cons.prems(3) [of 0] Suc by simp
    ultimately show ?thesis using Suc by simp
  qed
qed auto

lemma find_bytes_None: "find_bytes s p = None \<Longrightarrow> i \<le> length s \<Longrightarrow> \<not> prefix p (drop i s)"
proof (induction s arbitrary: i)
  case (Cons c cs)
  then show ?case by (cases i) (auto split: if_splits)
qed (auto split: if_splits)

text \<open>A line ends at the first line break, when its text does not hold the first byte of one.\<close>

lemma find_bytes_line:
  assumes "c \<notin> set l"
  shows "find_bytes (l @ c # p @ s) (c # p) = Some (length l)"
  using assms by (induction l) (auto simp: prefix_def)

lemma split_once_line: "c \<notin> set l \<Longrightarrow> split_once (l @ c # p @ s) (c # p) = Some (l, s)"
  by (simp add: split_once_def find_bytes_line)

lemma split_once_absent: "c \<notin> set s \<Longrightarrow> split_once s (c # p) = None"
  by (induction s) (auto simp: split_once_def split: option.splits)

lemma split_on_not_Nil [simp]: "split_on sep s \<noteq> []"
  by (induction s) (auto split: list.split)

lemma split_on_append:
  "split_on sep (s @ [sep] @ t) = split_on sep s @ split_on sep t"
  by (induction s) (auto split: list.split)

lemma split_on_line: "sep \<notin> set l \<Longrightarrow> split_on sep l = [l]"
  by (induction l) auto

lemma split_at_line: "c \<notin> set l \<Longrightarrow> split_at (c # p) (l @ c # p @ s) = l # split_at (c # p) s"
  by (subst split_at.simps) (simp add: split_once_line)

lemma split_at_last: "c \<notin> set l \<Longrightarrow> split_at (c # p) l = [l]"
  by (subst split_at.simps) (simp add: split_once_absent)

section \<open>Bytes\<close>

text \<open>\<open>str::from_utf8\<close> succeeds.\<close>

function utf8_valid :: "string \<Rightarrow> bool" where
  "utf8_valid s = (if s = [] then True
     else if snd (utf8_step s) then utf8_valid (drop (fst (utf8_step s)) s) else False)"
  by pat_completeness auto
termination
  using utf8_step_pos by (relation "measure length") auto

declare utf8_valid.simps [simp del]

definition is_ascii :: "char \<Rightarrow> bool" where
  "is_ascii c = ((of_char c :: nat) < 0x80)"

lemma utf8_valid_ascii: "list_all is_ascii s \<Longrightarrow> utf8_valid s"
proof (induction s)
  case (Cons c s)
  then have "utf8_step (c # s) = (1, True)"
    by (simp add: utf8_step_def in_bytes_def is_ascii_def)
  with Cons show ?case by (subst utf8_valid.simps) simp
qed (subst utf8_valid.simps, simp)

definition is_ascii_uppercase :: "char \<Rightarrow> bool" where
  "is_ascii_uppercase c = (65 \<le> (of_char c :: nat) \<and> (of_char c :: nat) \<le> 90)"

definition is_ascii_alphanumeric :: "char \<Rightarrow> bool" where
  "is_ascii_alphanumeric c = (is_ascii_lowercase c \<or> is_ascii_uppercase c \<or> is_ascii_digit c)"

definition eq_ignore_ascii_case :: "string \<Rightarrow> string \<Rightarrow> bool" where
  "eq_ignore_ascii_case a b = (to_ascii_lowercase a = to_ascii_lowercase b)"

section \<open>Unsigned integers\<close>

text \<open>
  \<open>from_str_radix\<close> of an unsigned type: an optional plus sign, at least one digit, and a value
  within the range of the type.
\<close>

definition radix_digit :: "nat \<Rightarrow> char \<Rightarrow> nat option" where
  "radix_digit radix c =
     (let n = (of_char c :: nat);
          v = (if 48 \<le> n \<and> n \<le> 57 then n - 48 else if 97 \<le> n \<and> n \<le> 122 then n - 87
               else if 65 \<le> n \<and> n \<le> 90 then n - 55 else radix) in
      if v < radix then Some v else None)"

definition radix_value :: "nat \<Rightarrow> string \<Rightarrow> nat" where
  "radix_value radix digits = foldl (\<lambda>n c. radix * n + the (radix_digit radix c)) 0 digits"

definition parse_unsigned :: "nat \<Rightarrow> nat \<Rightarrow> string \<Rightarrow> nat option" where
  "parse_unsigned radix bound s =
     (let digits = (if s \<noteq> [] \<and> hd s = CHR ''+'' then tl s else s) in
      if digits = [] \<or> list_ex (\<lambda>c. radix_digit radix c = None) digits then None
      else if radix_value radix digits < bound then Some (radix_value radix digits) else None)"

definition parse_u16 :: "string \<Rightarrow> u16 option" where
  "parse_u16 s = map_option of_nat (parse_unsigned 10 (2 ^ 16) s)"

definition parse_u64 :: "string \<Rightarrow> u64 option" where
  "parse_u64 s = map_option of_nat (parse_unsigned 10 (2 ^ 64) s)"

text \<open>\<open>usize\<close> has 64 bits; its values are natural numbers here.\<close>

abbreviation usize_bound :: nat where
  "usize_bound \<equiv> 2 ^ 64"

definition parse_usize :: "nat \<Rightarrow> string \<Rightarrow> nat option" where
  "parse_usize radix s = parse_unsigned radix usize_bound s"

lemma parse_usize_bound: "parse_usize radix s = Some n \<Longrightarrow> n < usize_bound"
  by (auto simp: parse_usize_def parse_unsigned_def Let_def split: if_splits)

end
