(* ===== verification/Registration.thy ===== *)
theory Registration
  imports Config_Path Config_Facts Reconciliation Json_Values Wire_Text
begin

text \<open>
  \<open>src/src/adapters/registration.rs\<close>: drafts of configuration changes, their approval by a human at
  a terminal and their commit. The files are the store: the configuration's text, the draft
  files by draft identifier, the audit, the commit lock and what was printed on the terminal. Every
  call of the operating system may fail (\<open>rh_io\<close>); the JSON library, the hash, the address grammar,
  the control client and the clocks are the other fields of the record \<open>registration_host\<close>. An
  atomic replacement happens completely or not at all.
\<close>

section \<open>Data\<close>

definition draft_lifetime_ms :: u64 where
  "draft_lifetime_ms = 30 * 60 * 1000"

definition registration_schema_version :: u32 where
  "registration_schema_version = 1"

text \<open>\<open>RECONCILIATION_ACK_TIMEOUT\<close> and \<open>RECONCILIATION_ACK_POLL\<close>, in nanoseconds.\<close>

definition reconciliation_ack_timeout :: nat where
  "reconciliation_ack_timeout = 2 * 1000000000"

definition reconciliation_ack_poll :: nat where
  "reconciliation_ack_poll = 50 * 1000000"

datatype registration_operation = OpRegister | OpUpdate | OpUnregister

fun registration_operation_label :: "registration_operation \<Rightarrow> string" where
  "registration_operation_label OpRegister = ''register''"
| "registration_operation_label OpUpdate = ''update''"
| "registration_operation_label OpUnregister = ''unregister''"

datatype draft_status = DraftPrepared | DraftApproved | DraftCommitted

record registration_draft =
  dr_schema_version :: u32
  dr_draft_id :: string
  dr_request_id :: string
  dr_operation :: registration_operation
  dr_service_id :: string
  dr_configuration_path :: string
  dr_base_revision :: string
  dr_proposed_revision :: string
  dr_proposal_hash :: string
  dr_created_at :: u64
  dr_expires_at :: u64
  dr_status :: draft_status
  dr_approved_at :: "u64 option"
  dr_committed_at :: "u64 option"
  dr_confirmation_phrase :: string
  dr_warnings :: "string list"
  dr_change_summary :: json
  dr_before :: supervisor_config
  dr_after :: supervisor_config

record prepare_registration =
  pr_request_id :: string
  pr_operation :: registration_operation
  pr_service_id :: string
  pr_base_revision :: string
  pr_service :: "service_config option"

datatype registration_outcome = OutApplied | OutPending | OutDeferred | OutRejected | OutOffline

record commit_report =
  cr_draft_id :: string
  cr_service_id :: string
  cr_operation :: registration_operation
  cr_previous_revision :: string
  cr_configuration_revision :: string
  cr_registered_state :: string
  cr_auto_started :: bool
  cr_registry_reload_required :: bool
  cr_registry_reconciliation :: registration_outcome
  cr_runtime_active_revision :: "string option"
  cr_runtime_disk_revision :: "string option"
  cr_reconciliation_detail :: "string option"
  cr_unrelated_services_restarted :: bool
  cr_next_command :: "string option"

record validation_result =
  vr_valid :: bool
  vr_operation :: registration_operation
  vr_service_id :: string
  vr_current_revision :: string
  vr_proposed_revision :: "string option"
  vr_issues :: "config_issue list"
  vr_warnings :: "string list"

record registration_authority =
  ra_configuration_path :: string
  ra_registration_directory :: string

record registration_error =
  rx_code :: string
  rx_message :: string
  rx_details :: "json option"

definition rx_new :: "string \<Rightarrow> string \<Rightarrow> registration_error" where
  "rx_new code message = \<lparr>rx_code = code, rx_message = message, rx_details = None\<rparr>"

definition rx_with_source :: "string \<Rightarrow> string \<Rightarrow> string \<Rightarrow> registration_error" where
  "rx_with_source code message cause = rx_new code (message @ '': '' @ cause)"

definition rx_with_details :: "string \<Rightarrow> string \<Rightarrow> json \<Rightarrow> registration_error" where
  "rx_with_details code message details =
     \<lparr>rx_code = code, rx_message = message, rx_details = Some details\<rparr>"

definition rx_structured :: "registration_error \<Rightarrow> json" where
  "rx_structured e = JObject
     [(''code'', JString (rx_code e)), (''details'', case rx_details e of None \<Rightarrow> JNull | Some d \<Rightarrow> d),
      (''message'', JString (rx_message e))]"

definition show_registration_error :: "registration_error \<Rightarrow> string" where
  "show_registration_error e = rx_code e @ '': '' @ rx_message e"

definition rx_config_error :: "config_error \<Rightarrow> registration_error" where
  "rx_config_error e =
     rx_with_source ''configuration_invalid'' ''configuration is invalid'' (show_config_error e)"

definition rx_json_error :: "string \<Rightarrow> registration_error" where
  "rx_json_error = rx_with_source ''json_serialization_failed'' ''failed to serialize registration data''"

definition rx_io_error :: "string \<Rightarrow> string \<Rightarrow> registration_error" where
  "rx_io_error code = rx_with_source code ''registration persistence failed''"

definition rx_config_path_error :: "config_path_error \<Rightarrow> registration_error" where
  "rx_config_path_error e = rx_with_source ''configuration_path_failed''
     ''failed to resolve configuration'' (show_config_path_error e)"

section \<open>The store and its host\<close>

datatype registration_call =
  CallRegistrationDirectory | CallLockOpen | CallLockRecord | CallLockNewline | CallLockRemove
| CallDraftsDirectory | CallReadConfig | CallReadDraft | CallWriteDirectory | CallTempCreate
| CallTempWrite | CallReplace | CallAuditDirectory | CallAuditOpen | CallAuditRecord | CallAuditNewline
| CallFlush

record audit_event =
  ae_timestamp :: u64
  ae_event :: string
  ae_actor :: "string option"
  ae_draft_id :: string
  ae_request_id :: string
  ae_operation :: registration_operation
  ae_service_id :: string
  ae_base_revision :: string
  ae_proposed_revision :: string
  ae_proposal_hash :: string
  ae_status :: draft_status

text \<open>A record whose write failed may have left a part of its line.\<close>

datatype audit_line = AuditLine audit_event | AuditTorn audit_event

record ('w, 'f) registration_store =
  rg_config :: "string option"
  rg_drafts :: "string \<Rightarrow> 'f option"
  rg_audit :: "audit_line list"
  rg_lock :: bool
  rg_printed :: string
  rg_clock :: nat
  rg_os :: 'w

record ('w, 'f, 'a) registration_host =
  rh_paths :: path_library
  rh_config :: config_library
  rh_print_config :: "supervisor_config \<Rightarrow> string + string"
  rh_print_draft :: "registration_draft \<Rightarrow> string + 'f"
  rh_parse_draft :: "'f \<Rightarrow> string + registration_draft"
  rh_config_json :: "supervisor_config \<Rightarrow> json"
  rh_service_json :: "service_config \<Rightarrow> json"
  rh_to_vec :: "json \<Rightarrow> string + string"
  rh_pretty :: "json \<Rightarrow> string + string"
  rh_digest :: "string \<Rightarrow> string"
  rh_snapshot :: "json \<Rightarrow> reconciliation_snapshot option"
  rh_address :: "string \<Rightarrow> string + 'a"
  rh_io :: "registration_call \<Rightarrow> 'w \<Rightarrow> string option \<times> 'w"
  rh_not_found :: string
  rh_token_file :: "string \<Rightarrow> 'w \<Rightarrow> (string io_result_error + string) \<times> 'w"
  rh_show_io :: "string io_result_error \<Rightarrow> string"
  rh_request :: "'a \<Rightarrow> string \<Rightarrow> string \<Rightarrow> nat option \<Rightarrow> 'w \<Rightarrow> (string + json) \<times> 'w"
  rh_system_time :: "'w \<Rightarrow> (string + nat) \<times> 'w"
  rh_elapse :: "'w \<Rightarrow> nat \<times> 'w"
  rh_sleep :: "nat \<Rightarrow> 'w \<Rightarrow> 'w"
  rh_is_terminal :: "'w \<Rightarrow> bool \<times> 'w"
  rh_read_line :: "'w \<Rightarrow> (string + string) \<times> 'w"

text \<open>A question to the operating system that changes no file of the store.\<close>

definition ask_os :: "('w \<Rightarrow> 'b \<times> 'w) \<Rightarrow> (('w, 'f) registration_store, 'b, 'x) op" where
  "ask_os q = (\<lambda>s. case q (rg_os s) of (b, os) \<Rightarrow> (Ok b, s\<lparr>rg_os := os\<rparr>))"

definition call_os ::
  "('w, 'f, 'a) registration_host \<Rightarrow> registration_call \<Rightarrow> (string \<Rightarrow> registration_error)
     \<Rightarrow> (('w, 'f) registration_store, unit, registration_error) op" where
  "call_os h c f = bind_op (ask_os (rh_io h c))
     (\<lambda>r. case r of None \<Rightarrow> return_op () | Some message \<Rightarrow> fail_op (f message))"

definition now_ms ::
  "('w, 'f, 'a) registration_host \<Rightarrow> (('w, 'f) registration_store, u64, registration_error) op" where
  "now_ms h = bind_op (ask_os (rh_system_time h)) (\<lambda>r. case r of
      Inl message \<Rightarrow> fail_op (rx_with_source ''system_clock_invalid'' ''system clock is before UNIX epoch'' message)
    | Inr millis \<Rightarrow>
        if millis < 2 ^ 64 then return_op (of_nat millis)
        else fail_op (rx_with_source ''system_clock_invalid'' ''system clock exceeds supported range''
          ''out of range integral type conversion attempted''))"

definition print_text :: "string \<Rightarrow> (('w, 'f) registration_store, unit, registration_error) op" where
  "print_text text = modify_op (\<lambda>s. s\<lparr>rg_printed := rg_printed s @ text\<rparr>)"

section \<open>Identifiers and hashes\<close>

definition is_hex_digit :: "char \<Rightarrow> bool" where
  "is_hex_digit c = (is_ascii_digit c
     \<or> (97 \<le> (of_char c :: nat) \<and> (of_char c :: nat) \<le> 102)
     \<or> (65 \<le> (of_char c :: nat) \<and> (of_char c :: nat) \<le> 70))"

definition rg_validate_service_id :: "string \<Rightarrow> registration_error + unit" where
  "rg_validate_service_id v =
     (if v \<noteq> [] \<and> list_all (\<lambda>c. is_ascii_lowercase c \<or> is_ascii_digit c \<or> c = CHR ''-'') v then Inr ()
      else Inl (rx_new ''service_id_invalid''
        ''serviceId must contain lowercase ASCII letters, digits, or hyphens''))"

definition validate_request_id :: "string \<Rightarrow> registration_error + unit" where
  "validate_request_id v =
     (if v \<noteq> [] \<and> length v \<le> 128
         \<and> list_all (\<lambda>c. is_ascii_alphanumeric c \<or> c \<in> {CHR ''-'', CHR ''_'', CHR ''.'', CHR '':''}) v
      then Inr ()
      else Inl (rx_new ''request_id_invalid'' ''requestId must be 1-128 URL-safe ASCII characters''))"

definition validate_draft_id :: "string \<Rightarrow> registration_error + unit" where
  "validate_draft_id v =
     (if (case strip_prefix ''registration-'' v of
            None \<Rightarrow> False | Some suff \<Rightarrow> length suff = 20 \<and> list_all is_hex_digit suff)
      then Inr () else Inl (rx_new ''draft_id_invalid'' ''draft ID is invalid''))"

definition draft_id_for_request :: "('w, 'f, 'a) registration_host \<Rightarrow> string \<Rightarrow> string" where
  "draft_id_for_request h request_id = ''registration-'' @ take 20 (rh_digest h request_id)"

definition hash_value :: "('w, 'f, 'a) registration_host \<Rightarrow> json \<Rightarrow> registration_error + string" where
  "hash_value h v = (case rh_to_vec h v of
      Inl message \<Rightarrow> Inl (rx_json_error message)
    | Inr bytes \<Rightarrow> Inr (''sha256:'' @ rh_digest h bytes))"

definition hash_suffix :: "string \<Rightarrow> string" where
  "hash_suffix hash = drop (length hash - 12) hash"

definition confirmation_phrase :: "string \<Rightarrow> string \<Rightarrow> string" where
  "confirmation_phrase sid hash = ''APPROVE '' @ sid @ '' '' @ hash_suffix hash"

definition proposal_json ::
  "('w, 'f, 'a) registration_host \<Rightarrow> string \<Rightarrow> registration_operation \<Rightarrow> string \<Rightarrow> string \<Rightarrow> string
     \<Rightarrow> supervisor_config \<Rightarrow> json" where
  "proposal_json h request_id oper sid base proposed_revision proposed = JObject
     [(''afterConfiguration'', rh_config_json h proposed),
      (''baseRevision'', JString base),
      (''operation'', JString (registration_operation_label oper)),
      (''proposedRevision'', JString proposed_revision),
      (''requestId'', JString request_id),
      (''serviceId'', JString sid)]"

definition rg_fingerprint :: "('w, 'f, 'a) registration_host \<Rightarrow> supervisor_config \<Rightarrow> registration_error + string" where
  "rg_fingerprint h c = (case config_fingerprint (rh_config h) c of
      Inl e \<Rightarrow> Inl (rx_config_error e) | Inr revision \<Rightarrow> Inr revision)"

section \<open>Proposals\<close>

definition to_ascii_uppercase :: "string \<Rightarrow> string" where
  "to_ascii_uppercase s = map (\<lambda>c. if is_ascii_lowercase c then char_of ((of_char c :: nat) - 32) else c) s"

definition sensitive_markers :: "string list" where
  "sensitive_markers =
     [''SECRET'', ''TOKEN'', ''PASSWORD'', ''PASSWD'', ''API_KEY'', ''PRIVATE_KEY'', ''CREDENTIAL'']"

definition is_sensitive_key :: "string \<Rightarrow> bool" where
  "is_sensitive_key key = list_ex (\<lambda>marker. sublist marker (to_ascii_uppercase key)) sensitive_markers"

definition sensitive_environment_keys :: "(string, string) btree \<Rightarrow> string list" where
  "sensitive_environment_keys environment = filter is_sensitive_key (bt_keys environment)"

definition unsafe_environment_paths :: "supervisor_config \<Rightarrow> string list" where
  "unsafe_environment_paths c = concat (map (\<lambda>(sid, service).
     map (\<lambda>key. ''services.'' @ sid @ ''.environment.'' @ key)
       (sensitive_environment_keys (sc_environment service))) (sup_services c))"

definition ensure_registration_safe_environment :: "supervisor_config \<Rightarrow> registration_error + unit" where
  "ensure_registration_safe_environment c =
     (if unsafe_environment_paths c = [] then Inr ()
      else Inl (rx_with_details ''sensitive_environment_key_rejected''
        ''registration is disabled while the selected profile contains likely secrets''
        (JObject [(''paths'', JArray (map JString (unsafe_environment_paths c)))])))"

definition environment_warning :: string where
  "environment_warning = ''Environment values are persisted in plain JSON and displayed during approval; use only non-sensitive development values.''"

definition sensitive_key_issue :: "string \<Rightarrow> string \<Rightarrow> config_issue" where
  "sensitive_key_issue sid key = issue (''services.'' @ sid @ ''.environment.'' @ key)
     ''sensitive_environment_key_rejected''
     ''registration does not accept likely secrets; use the program's own protected configuration''"

text \<open>The path issues of the target service are added unless the same path has the same code already.\<close>

fun extend_issues :: "config_issue list \<Rightarrow> config_issue list \<Rightarrow> config_issue list" where
  "extend_issues issues [] = issues"
| "extend_issues issues (i # is) =
     (if list_ex (\<lambda>e. ci_path e = ci_path i \<and> ci_code e = ci_code i) issues then extend_issues issues is
      else extend_issues (issues @ [i]) is)"

definition proposal_precondition ::
  "registration_operation \<Rightarrow> bool \<Rightarrow> registration_error + unit" where
  "proposal_precondition oper exists =
     (if oper = OpRegister \<and> exists then
        Inl (rx_new ''service_already_registered'' ''register requires a service ID that does not exist'')
      else if oper = OpUpdate \<and> \<not> exists then
        Inl (rx_new ''service_not_registered'' ''update requires an existing service ID'')
      else if oper = OpUnregister \<and> \<not> exists then
        Inl (rx_new ''service_not_registered'' ''unregister requires an existing service ID'')
      else Inr ())"

definition proposal_change ::
  "supervisor_config \<Rightarrow> registration_operation \<Rightarrow> string \<Rightarrow> service_config option
     \<Rightarrow> registration_error + supervisor_config \<times> config_issue list \<times> string list" where
  "proposal_change current oper sid service = (case oper of
      OpUnregister \<Rightarrow>
        (case service of
           Some _ \<Rightarrow> Inl (rx_new ''service_definition_forbidden'' ''unregister must omit the service object'')
         | None \<Rightarrow> Inr (current\<lparr>sup_services := bt_remove sid (sup_services current)\<rparr>, [], []))
    | _ \<Rightarrow>
        (case service of
           None \<Rightarrow> Inl (rx_new ''service_definition_required''
             ''register and update require a complete service object'')
         | Some definition' \<Rightarrow>
             Inr (current\<lparr>sup_services := bt_insert sid definition' (sup_services current)\<rparr>,
               map (sensitive_key_issue sid) (sensitive_environment_keys (sc_environment definition')),
               if sc_environment definition' = bt_empty then [] else [environment_warning])))"

definition validate_registration_proposal ::
  "host_env \<Rightarrow> supervisor_config \<Rightarrow> registration_operation \<Rightarrow> string \<Rightarrow> service_config option
     \<Rightarrow> registration_error + supervisor_config \<times> config_issue list \<times> string list" where
  "validate_registration_proposal env current oper sid service =
     (case proposal_precondition oper (bt_contains (sup_services current) sid) of
        Inl e \<Rightarrow> Inl e
      | Inr _ \<Rightarrow>
          (case proposal_change current oper sid service of
             Inl e \<Rightarrow> Inl e
           | Inr (proposed, issues, warnings) \<Rightarrow>
               Inr (proposed,
                 (if oper = OpUnregister then issues @ structural_contract_issues env proposed
                  else extend_issues (issues @ structural_contract_issues env proposed)
                    (selected_service_filesystem_issues env proposed [sid])),
                 warnings)))"

definition request_matches_draft :: "prepare_registration \<Rightarrow> registration_draft \<Rightarrow> bool" where
  "request_matches_draft r d =
     (if pr_request_id r \<noteq> dr_request_id d \<or> pr_operation r \<noteq> dr_operation d
         \<or> pr_service_id r \<noteq> dr_service_id d \<or> pr_base_revision r \<noteq> dr_base_revision d then False
      else if pr_operation r = OpUnregister then
        pr_service r = None \<and> \<not> bt_contains (sup_services (dr_after d)) (pr_service_id r)
      else (case pr_service r of
          None \<Rightarrow> False
        | Some service \<Rightarrow> bt_get (sup_services (dr_after d)) (pr_service_id r) = Some service))"

definition change_summary ::
  "('w, 'f, 'a) registration_host \<Rightarrow> registration_operation \<Rightarrow> string \<Rightarrow> supervisor_config
     \<Rightarrow> supervisor_config \<Rightarrow> json" where
  "change_summary h oper sid before after = JObject
     [(''afterService'', case bt_get (sup_services after) sid of None \<Rightarrow> JNull | Some s \<Rightarrow> rh_service_json h s),
      (''beforeService'', case bt_get (sup_services before) sid of None \<Rightarrow> JNull | Some s \<Rightarrow> rh_service_json h s),
      (''operation'', JString (registration_operation_label oper)),
      (''serviceCountAfter'', json_size (length (sup_services after))),
      (''serviceCountBefore'', json_size (length (sup_services before))),
      (''serviceId'', JString sid)]"

definition issue_json :: "config_issue \<Rightarrow> json" where
  "issue_json i = JObject
     [(''code'', JString (ci_code i)), (''message'', JString (ci_message i)), (''path'', JString (ci_path i))]"

definition rx_service_validation_failed :: "string \<Rightarrow> config_issue list \<Rightarrow> string list \<Rightarrow> registration_error" where
  "rx_service_validation_failed message issues warnings =
     rx_with_details ''service_validation_failed'' message
       (JObject [(''issues'', JArray (map issue_json issues)), (''warnings'', JArray (map JString warnings))])"

definition rx_revision_conflict :: "string \<Rightarrow> string \<Rightarrow> string \<Rightarrow> registration_error" where
  "rx_revision_conflict message expected actual =
     rx_with_details ''configuration_revision_conflict'' message
       (JObject [(''actual'', JString actual), (''expected'', JString expected)])"

definition draft_integrity_failed :: "string \<Rightarrow> registration_error" where
  "draft_integrity_failed message = rx_new ''draft_integrity_failed'' message"

definition verify_draft ::
  "('w, 'f, 'a) registration_host \<Rightarrow> registration_authority \<Rightarrow> registration_draft \<Rightarrow> registration_error + unit" where
  "verify_draft h ra d =
     (if dr_schema_version d \<noteq> registration_schema_version
         \<or> dr_configuration_path d \<noteq> ra_configuration_path ra
         \<or> dr_draft_id d \<noteq> draft_id_for_request h (dr_request_id d)
      then Inl (draft_integrity_failed ''registration draft identity is invalid'')
      else (case hash_value h (proposal_json h (dr_request_id d) (dr_operation d) (dr_service_id d)
             (dr_base_revision d) (dr_proposed_revision d) (dr_after d)) of
          Inl e \<Rightarrow> Inl e
        | Inr hash \<Rightarrow>
            if hash \<noteq> dr_proposal_hash d then
              Inl (draft_integrity_failed ''registration draft content does not match its proposal hash'')
            else (case rg_fingerprint h (dr_after d) of
                Inl e \<Rightarrow> Inl e
              | Inr revision \<Rightarrow>
                  if revision \<noteq> dr_proposed_revision d
                    \<or> dr_confirmation_phrase d \<noteq> confirmation_phrase (dr_service_id d) (dr_proposal_hash d)
                  then Inl (draft_integrity_failed ''registration draft content does not match its proposal hash'')
                  else Inr ())))"

section \<open>Files\<close>

definition read_structural_config ::
  "('w, 'f, 'a) registration_host \<Rightarrow> string
     \<Rightarrow> (('w, 'f) registration_store, supervisor_config, registration_error) op" where
  "read_structural_config h path =
     seq_op (call_os h CallReadConfig
         (rx_with_source ''configuration_read_failed'' (''failed to read '' @ path)))
       (bind_op (get_op rg_config) (\<lambda>content. case content of
            None \<Rightarrow> fail_op (rx_with_source ''configuration_read_failed'' (''failed to read '' @ path) (rh_not_found h))
          | Some input \<Rightarrow>
              (case parse_json (rh_config h) input of
                 Inl e \<Rightarrow> fail_op (rx_config_error e)
               | Inr c \<Rightarrow>
                   (case validate_structure (pl_env (rh_paths h)) c of
                      Inl e \<Rightarrow> fail_op (rx_config_error e)
                    | Inr _ \<Rightarrow> return_op c))))"

definition current_config ::
  "('w, 'f, 'a) registration_host \<Rightarrow> registration_authority
     \<Rightarrow> (('w, 'f) registration_store, supervisor_config, registration_error) op" where
  "current_config h ra =
     bind_op (read_structural_config h (ra_configuration_path ra)) (\<lambda>c.
       seq_op (lift_sum (ensure_registration_safe_environment c)) (return_op c))"

text \<open>
  The bytes go to a new temporary file beside the target, which then replaces the target; \<open>put\<close> is
  that replacement. A temporary file that is left behind is no part of the store.
\<close>

definition write_json_atomic ::
  "('w, 'f, 'a) registration_host \<Rightarrow> string option \<Rightarrow> string + 'c
     \<Rightarrow> ('c \<Rightarrow> ('w, 'f) registration_store \<Rightarrow> ('w, 'f) registration_store)
     \<Rightarrow> (('w, 'f) registration_store, unit, registration_error) op" where
  "write_json_atomic h parent bytes put =
     (case parent of
        None \<Rightarrow> fail_op (rx_new ''atomic_write_path_invalid'' ''target path has no parent directory'')
      | Some _ \<Rightarrow>
          seq_op (call_os h CallWriteDirectory (rx_io_error ''atomic_write_directory_create''))
            (case bytes of
               Inl message \<Rightarrow> fail_op (rx_json_error message)
             | Inr content \<Rightarrow>
                 bind_op (now_ms h) (\<lambda>_.
                   seq_op (call_os h CallTempCreate (rx_io_error ''atomic_write_create''))
                     (seq_op (call_os h CallTempWrite (rx_io_error ''atomic_write_flush''))
                       (seq_op (call_os h CallReplace (rx_with_source ''atomic_replace_failed''
                            ''failed to atomically replace registration data''))
                         (modify_op (put content)))))))"

definition drafts_directory :: "('w, 'f, 'a) registration_host \<Rightarrow> registration_authority \<Rightarrow> string" where
  "drafts_directory h ra = he_join (pl_env (rh_paths h)) (ra_registration_directory ra) ''drafts''"

definition write_draft ::
  "('w, 'f, 'a) registration_host \<Rightarrow> registration_authority \<Rightarrow> registration_draft
     \<Rightarrow> (('w, 'f) registration_store, unit, registration_error) op" where
  "write_draft h ra d = seq_op (lift_sum (validate_draft_id (dr_draft_id d)))
     (write_json_atomic h (Some (drafts_directory h ra)) (rh_print_draft h d)
       (\<lambda>content s. s\<lparr>rg_drafts := (rg_drafts s)(dr_draft_id d \<mapsto> content)\<rparr>))"

definition write_config ::
  "('w, 'f, 'a) registration_host \<Rightarrow> registration_authority \<Rightarrow> supervisor_config
     \<Rightarrow> (('w, 'f) registration_store, unit, registration_error) op" where
  "write_config h ra c = write_json_atomic h (pl_parent (rh_paths h) (ra_configuration_path ra))
     (rh_print_config h c) (\<lambda>content s. s\<lparr>rg_config := Some content\<rparr>)"

definition get_draft ::
  "('w, 'f, 'a) registration_host \<Rightarrow> registration_authority \<Rightarrow> string
     \<Rightarrow> (('w, 'f) registration_store, registration_draft, registration_error) op" where
  "get_draft h ra draft_id =
     seq_op (lift_sum (validate_draft_id draft_id))
       (bind_op (get_op (\<lambda>s. rg_drafts s draft_id)) (\<lambda>file. case file of
            None \<Rightarrow> fail_op (rx_new ''draft_not_found'' ''registration draft was not found'')
          | Some content \<Rightarrow>
              seq_op (call_os h CallReadDraft
                  (rx_with_source ''draft_read_failed'' ''failed to read registration draft''))
                (case rh_parse_draft h content of
                   Inl message \<Rightarrow> fail_op (rx_with_source ''draft_parse_failed''
                     ''registration draft is invalid'' message)
                 | Inr d \<Rightarrow> seq_op (lift_sum (verify_draft h ra d)) (return_op d))))"

definition append_audit :: "audit_line \<Rightarrow> (('w, 'f) registration_store, unit, 'x) op" where
  "append_audit l = modify_op (\<lambda>s. s\<lparr>rg_audit := rg_audit s @ [l]\<rparr>)"

definition audit_event_of ::
  "string \<Rightarrow> string option \<Rightarrow> u64 \<Rightarrow> registration_draft \<Rightarrow> audit_event" where
  "audit_event_of event actor now d =
     \<lparr>ae_timestamp = now, ae_event = event, ae_actor = actor, ae_draft_id = dr_draft_id d,
      ae_request_id = dr_request_id d, ae_operation = dr_operation d, ae_service_id = dr_service_id d,
      ae_base_revision = dr_base_revision d, ae_proposed_revision = dr_proposed_revision d,
      ae_proposal_hash = dr_proposal_hash d, ae_status = dr_status d\<rparr>"

definition audit ::
  "('w, 'f, 'a) registration_host \<Rightarrow> string \<Rightarrow> registration_draft \<Rightarrow> string option
     \<Rightarrow> (('w, 'f) registration_store, unit, registration_error) op" where
  "audit h event d actor =
     seq_op (call_os h CallAuditDirectory (rx_io_error ''audit_directory_create''))
       (bind_op (now_ms h) (\<lambda>now.
         seq_op (call_os h CallAuditOpen (rx_io_error ''registration_audit_open_failed''))
           (bind_op (ask_os (rh_io h CallAuditRecord)) (\<lambda>r. case r of
                Some message \<Rightarrow> seq_op (append_audit (AuditTorn (audit_event_of event actor now d)))
                  (fail_op (rx_with_source ''registration_audit_write_failed''
                    ''failed to serialize registration audit'' message))
              | None \<Rightarrow>
                  bind_op (ask_os (rh_io h CallAuditNewline)) (\<lambda>r. case r of
                      Some message \<Rightarrow> seq_op (append_audit (AuditTorn (audit_event_of event actor now d)))
                        (fail_op (rx_io_error ''registration_audit_write_failed'' message))
                    | None \<Rightarrow> append_audit (AuditLine (audit_event_of event actor now d)))))))"

section \<open>The lock\<close>

text \<open>Dropping the lock removes its file; a failure of that is ignored.\<close>

definition release_lock ::
  "('w, 'f, 'a) registration_host \<Rightarrow> ('w, 'f) registration_store \<Rightarrow> ('w, 'f) registration_store" where
  "release_lock h s = (case rh_io h CallLockRemove (rg_os s) of
      (None, os) \<Rightarrow> s\<lparr>rg_lock := False, rg_os := os\<rparr>
    | (Some _, os) \<Rightarrow> s\<lparr>rg_os := os\<rparr>)"

definition open_lock ::
  "('w, 'f, 'a) registration_host \<Rightarrow> (('w, 'f) registration_store, unit, registration_error) op" where
  "open_lock h = bind_op (get_op rg_lock) (\<lambda>held.
     if held then fail_op (rx_new ''registration_transaction_in_progress''
       ''another registration transaction owns the configuration lock; retry after it completes'')
     else seq_op (call_os h CallLockOpen (rx_with_source ''commit_lock_create_failed''
            ''failed to acquire the registration commit lock''))
         (modify_op (\<lambda>s. s\<lparr>rg_lock := True\<rparr>)))"

definition write_lock ::
  "('w, 'f, 'a) registration_host \<Rightarrow> (('w, 'f) registration_store, unit, registration_error) op" where
  "write_lock h = bind_op (now_ms h) (\<lambda>_.
     seq_op (call_os h CallLockRecord rx_json_error)
       (call_os h CallLockNewline (rx_io_error ''commit_lock_write_failed'')))"

text \<open>The scope of a lock that was opened: it is dropped however the scope is left.\<close>

definition locked ::
  "('w, 'f, 'a) registration_host \<Rightarrow> (('w, 'f) registration_store, 'b, registration_error) op
     \<Rightarrow> (('w, 'f) registration_store, 'b, registration_error) op" where
  "locked h m = (\<lambda>s. case m s of (r, s') \<Rightarrow> (r, release_lock h s'))"

definition with_registration_lock ::
  "('w, 'f, 'a) registration_host \<Rightarrow> (('w, 'f) registration_store, 'b, registration_error) op
     \<Rightarrow> (('w, 'f) registration_store, 'b, registration_error) op" where
  "with_registration_lock h m =
     seq_op (call_os h CallRegistrationDirectory (rx_io_error ''commit_lock_directory_create''))
       (seq_op (open_lock h) (locked h (seq_op (write_lock h) m)))"

section \<open>Opening, validating, preparing\<close>

definition registration_open ::
  "('w, 'f, 'a) registration_host \<Rightarrow> build_target \<Rightarrow> (string \<Rightarrow> string option) \<Rightarrow> string option
     \<Rightarrow> (('w, 'f) registration_store, registration_authority, registration_error) op" where
  "registration_open h target var explicit =
     (case resolve_config_path (rh_paths h) target var explicit of
        Inl e \<Rightarrow> fail_op (rx_config_path_error e)
      | Inr resolved \<Rightarrow>
          bind_op (read_structural_config h (rp_path resolved)) (\<lambda>c.
            seq_op (lift_sum (ensure_registration_safe_environment c))
              (case pl_parent (rh_paths h)
                  (resolve_token_path (rh_paths h) (rp_path resolved) (cc_token_file (sup_control c))) of
                 None \<Rightarrow> fail_op (rx_new ''runtime_layout_invalid'' ''control token path has no runtime directory'')
               | Some runtime_directory \<Rightarrow> return_op
                   \<lparr>ra_configuration_path = rp_path resolved,
                    ra_registration_directory =
                      he_join (pl_env (rh_paths h)) runtime_directory ''registration''\<rparr>)))"

definition rg_validate_service ::
  "('w, 'f, 'a) registration_host \<Rightarrow> registration_authority \<Rightarrow> registration_operation \<Rightarrow> string
     \<Rightarrow> service_config option \<Rightarrow> (('w, 'f) registration_store, validation_result, registration_error) op" where
  "rg_validate_service h ra oper sid service =
     seq_op (lift_sum (rg_validate_service_id sid))
       (bind_op (current_config h ra) (\<lambda>current.
         bind_op (lift_sum (rg_fingerprint h current)) (\<lambda>current_revision.
           bind_op (lift_sum (validate_registration_proposal (pl_env (rh_paths h)) current oper sid service))
             (\<lambda>(proposed, issues, warnings).
               bind_op (if issues = [] then map_op Some (lift_sum (rg_fingerprint h proposed)) else return_op None)
                 (\<lambda>proposed_revision. return_op
                   \<lparr>vr_valid = (issues = []), vr_operation = oper, vr_service_id = sid,
                    vr_current_revision = current_revision, vr_proposed_revision = proposed_revision,
                    vr_issues = issues, vr_warnings = warnings\<rparr>)))))"

definition request_id_conflict :: registration_error where
  "request_id_conflict = rx_new ''request_id_conflict''
     ''requestId was already used for a different registration proposal''"

definition new_draft ::
  "('w, 'f, 'a) registration_host \<Rightarrow> registration_authority \<Rightarrow> prepare_registration \<Rightarrow> supervisor_config
     \<Rightarrow> string \<Rightarrow> supervisor_config \<Rightarrow> string list \<Rightarrow> string \<Rightarrow> string \<Rightarrow> u64 \<Rightarrow> registration_draft" where
  "new_draft h ra r current current_revision proposed warnings proposed_revision hash now =
     \<lparr>dr_schema_version = registration_schema_version,
      dr_draft_id = draft_id_for_request h (pr_request_id r),
      dr_request_id = pr_request_id r,
      dr_operation = pr_operation r,
      dr_service_id = pr_service_id r,
      dr_configuration_path = ra_configuration_path ra,
      dr_base_revision = current_revision,
      dr_proposed_revision = proposed_revision,
      dr_proposal_hash = hash,
      dr_created_at = now,
      dr_expires_at = saturating_add now draft_lifetime_ms,
      dr_status = DraftPrepared,
      dr_approved_at = None,
      dr_committed_at = None,
      dr_confirmation_phrase = confirmation_phrase (pr_service_id r) hash,
      dr_warnings = warnings,
      dr_change_summary = change_summary h (pr_operation r) (pr_service_id r) current proposed,
      dr_before = current,
      dr_after = proposed\<rparr>"

text \<open>The part of \<open>prepare\<close> that ends with a new draft that no file holds yet.\<close>

definition propose ::
  "('w, 'f, 'a) registration_host \<Rightarrow> registration_authority \<Rightarrow> prepare_registration
     \<Rightarrow> (('w, 'f) registration_store, registration_draft, registration_error) op" where
  "propose h ra r =
     bind_op (current_config h ra) (\<lambda>current.
       bind_op (lift_sum (rg_fingerprint h current)) (\<lambda>current_revision.
         seq_op (guard_op (pr_base_revision r = current_revision) (rx_revision_conflict
             ''baseRevision does not match the current configuration'' current_revision (pr_base_revision r)))
           (bind_op (lift_sum (validate_registration_proposal (pl_env (rh_paths h)) current
               (pr_operation r) (pr_service_id r) (pr_service r))) (\<lambda>(proposed, issues, warnings).
             seq_op (guard_op (issues = []) (rx_service_validation_failed
                 ''the proposed configuration is not valid'' issues warnings))
               (bind_op (lift_sum (rg_fingerprint h proposed)) (\<lambda>proposed_revision.
                 bind_op (lift_sum (hash_value h (proposal_json h (pr_request_id r) (pr_operation r)
                     (pr_service_id r) (pr_base_revision r) proposed_revision proposed))) (\<lambda>hash.
                   bind_op (now_ms h) (\<lambda>now. return_op
                     (new_draft h ra r current current_revision proposed warnings proposed_revision hash now)))))))))"

text \<open>
  The second look for the draft file, after the directory was made: under the lock it sees what the
  first one saw.
\<close>

definition persist_draft ::
  "('w, 'f, 'a) registration_host \<Rightarrow> registration_authority \<Rightarrow> registration_draft
     \<Rightarrow> (('w, 'f) registration_store, registration_draft, registration_error) op" where
  "persist_draft h ra d =
     seq_op (call_os h CallDraftsDirectory (rx_io_error ''draft_directory_create''))
       (bind_op (get_op (\<lambda>s. rg_drafts s (dr_draft_id d) \<noteq> None)) (\<lambda>exists.
         if exists then
           bind_op (get_draft h ra (dr_draft_id d)) (\<lambda>existing.
             if dr_proposal_hash existing = dr_proposal_hash d then return_op existing
             else fail_op request_id_conflict)
         else
           seq_op (write_draft h ra d)
             (seq_op (audit h ''prepared'' d (Some ''registration_mcp'')) (return_op d))))"

definition prepare ::
  "('w, 'f, 'a) registration_host \<Rightarrow> registration_authority \<Rightarrow> prepare_registration
     \<Rightarrow> (('w, 'f) registration_store, registration_draft, registration_error) op" where
  "prepare h ra r =
     seq_op (lift_sum (validate_request_id (pr_request_id r)))
       (seq_op (lift_sum (rg_validate_service_id (pr_service_id r)))
         (with_registration_lock h
           (let draft_id = draft_id_for_request h (pr_request_id r) in
            seq_op (lift_sum (validate_draft_id draft_id))
              (bind_op (get_op (\<lambda>s. rg_drafts s draft_id \<noteq> None)) (\<lambda>exists.
                if exists then
                  bind_op (get_draft h ra draft_id) (\<lambda>existing.
                    if request_matches_draft r existing then return_op existing
                    else fail_op request_id_conflict)
                else bind_op (propose h ra r) (persist_draft h ra))))))"

section \<open>Capabilities\<close>

definition capability_contract :: json where
  "capability_contract = json_object [
    (''schemaVersion'', JNumber (PosInt (ucast registration_schema_version))),
    (''authority'', JString ''human-gated-registration''),
    (''supportedOperations'', JArray (map JString [''register'', ''update'', ''unregister''])),
    (''workflow'', JArray (map JString [''Call supervisor_registration_get_schema and supervisor_registration_get_capabilities.'', ''Validate the complete service object with supervisor_registration_validate_service.'', ''Prepare a revision-bound draft with supervisor_registration_prepare_change.'', ''Ask the user to run the returned approvalCommand in a real interactive terminal; its --commit flag completes the mutation after approval.'', ''After the user reports completion, call supervisor_registration_commit_change idempotently to retrieve or confirm the final result; the mutation does not depend on this follow-up.''])),
    (''safety'', json_object [
      (''approvalAvailableThroughMcp'', JBool False),
      (''approvalRequiresInteractiveTerminal'', JBool True),
      (''approvalShowsFullBeforeAndAfterConfiguration'', JBool True),
      (''approvalCommandCommits'', JBool True),
      (''agentCommitRequiredAfterApprovalCommand'', JBool False),
      (''mcpCommitIsIdempotent'', JBool True),
      (''approvalBoundToProposalHash'', JBool True),
      (''draftLifetimeMs'', JNumber (PosInt draft_lifetime_ms)),
      (''optimisticConcurrency'', JString ''exact base revision''),
      (''atomicConfigurationReplace'', JBool True),
      (''registerInitialState'', JString ''stopped''),
      (''autoStart'', JBool False),
      (''automaticRegistryReconciliation'', JBool True),
      (''boundedRuntimeAcknowledgmentMs'', json_size (reconciliation_ack_timeout div 1000000)),
      (''reconciliationOutcomes'', JArray (map JString [''applied'', ''pending'', ''deferred'', ''rejected'', ''offline''])),
      (''unrelatedServicesRestarted'', JBool False),
      (''updateAndUnregisterRequireObservedStoppedState'', JBool True),
      (''filesystemValidationScope'', JString ''registration validates the full structural contract and only the register/update target paths; launch preflight checks paths for services selected by the runtime launch plan''),
      (''arbitraryShellCommands'', JBool False),
      (''secretEnvironmentKeys'', JString ''rejected'')]),
    (''mcpTools'', JArray (map JString [''supervisor_registration_get_capabilities'', ''supervisor_registration_get_schema'', ''supervisor_registration_validate_service'', ''supervisor_registration_prepare_change'', ''supervisor_registration_get_draft'', ''supervisor_registration_commit_change''])),
    (''humanCommands'', json_object [
      (''inspect'', JString ''aku-supervisor registration show <draft-id>''),
      (''approveAndCommit'', JString ''aku-supervisor registration approve <draft-id> --commit''),
      (''approveOnly'', JString ''aku-supervisor registration approve <draft-id>'')])]"

definition capabilities ::
  "('w, 'f, 'a) registration_host \<Rightarrow> registration_authority
     \<Rightarrow> (('w, 'f) registration_store, json, registration_error) op" where
  "capabilities h ra =
     bind_op (current_config h ra) (\<lambda>c.
       bind_op (lift_sum (rg_fingerprint h c)) (\<lambda>revision.
         (case capability_contract of
            JObject members \<Rightarrow> return_op (JObject
              (bt_insert ''currentRevision'' (JString revision)
                (bt_insert ''configurationPath'' (JString (ra_configuration_path ra)) members)))
          | _ \<Rightarrow> fail_op (rx_new ''registration_contract_invalid''
              ''compiled registration capability contract is not an object''))))"

section \<open>Approval\<close>

definition text_line :: "string \<Rightarrow> string" where
  "text_line content = content @ [newline]"

definition review_heading :: "registration_draft \<Rightarrow> string" where
  "review_heading d =
     text_line (''AkuSupervisor registration approval'' @ [newline])
     @ text_line (''Draft:            '' @ dr_draft_id d)
     @ text_line (''Operation:        '' @ registration_operation_label (dr_operation d))
     @ text_line (''Service:          '' @ dr_service_id d)
     @ text_line (''Configuration:    '' @ dr_configuration_path d)
     @ text_line (''Base revision:    '' @ dr_base_revision d)
     @ text_line (''Proposed revision:'' @ dr_proposed_revision d)
     @ text_line (''Proposal hash:    '' @ dr_proposal_hash d)
     @ text_line (''Expires at (ms):  '' @ decimal (unat (dr_expires_at d)))
     @ (if dr_warnings d = [] then []
        else text_line ([newline] @ ''WARNINGS:'')
          @ concat (map (\<lambda>warning. text_line (''- '' @ warning)) (dr_warnings d)))"

definition review_closing :: "bool \<Rightarrow> string" where
  "review_closing commit_after_approval = text_line ([newline] @
     (if commit_after_approval then
        ''AFTER CONFIRMATION: this command will immediately commit the exact proposed configuration. The service will not auto-start. Revision and stopped-state checks still apply.''
      else ''APPROVAL ONLY: the configuration will remain unchanged until a separate commit. Use --commit to complete approval and mutation in one human command.''))"

definition print_pretty ::
  "('w, 'f, 'a) registration_host \<Rightarrow> string \<Rightarrow> json \<Rightarrow> (('w, 'f) registration_store, unit, registration_error) op" where
  "print_pretty h title v = (case rh_pretty h v of
      Inl message \<Rightarrow> fail_op (rx_json_error message)
    | Inr pretty \<Rightarrow> print_text (text_line ([newline] @ title @ [newline] @ pretty)))"

definition print_approval_review ::
  "('w, 'f, 'a) registration_host \<Rightarrow> registration_draft \<Rightarrow> bool
     \<Rightarrow> (('w, 'f) registration_store, unit, registration_error) op" where
  "print_approval_review h d commit_after_approval =
     seq_op (print_text (review_heading d))
       (seq_op (print_pretty h ''CHANGE SUMMARY:'' (dr_change_summary d))
         (seq_op (print_pretty h ''FULL CURRENT CONFIGURATION:'' (rh_config_json h (dr_before d)))
           (seq_op (print_pretty h ''FULL PROPOSED CONFIGURATION:'' (rh_config_json h (dr_after d)))
             (print_text (review_closing commit_after_approval)))))"

text \<open>The status and the time of the approval, persisted and audited.\<close>

definition record_approval ::
  "('w, 'f, 'a) registration_host \<Rightarrow> registration_authority \<Rightarrow> registration_draft
     \<Rightarrow> (('w, 'f) registration_store, registration_draft, registration_error) op" where
  "record_approval h ra d = bind_op (now_ms h) (\<lambda>approved_at.
     let approved = d\<lparr>dr_status := DraftApproved, dr_approved_at := Some approved_at\<rparr> in
     seq_op (write_draft h ra approved)
       (seq_op (audit h ''approved'' approved (Some ''human_cli'')) (return_op approved)))"

definition approve_with_confirmation ::
  "('w, 'f, 'a) registration_host \<Rightarrow> registration_authority \<Rightarrow> registration_draft \<Rightarrow> string
     \<Rightarrow> (('w, 'f) registration_store, registration_draft, registration_error) op" where
  "approve_with_confirmation h ra d confirmation =
     (if dr_status d \<noteq> DraftPrepared then
        (if dr_status d = DraftApproved \<and> confirmation = dr_confirmation_phrase d then
           seq_op (audit h ''approval_recovered'' d (Some ''human_cli'')) (return_op d)
         else fail_op (rx_new ''draft_not_prepared'' ''only a prepared draft can be approved''))
      else bind_op (now_ms h) (\<lambda>now.
        if now > dr_expires_at d then
          fail_op (rx_new ''draft_expired'' ''registration draft has expired; prepare a new draft'')
        else if confirmation \<noteq> dr_confirmation_phrase d then
          fail_op (rx_new ''approval_confirmation_mismatch''
            ''typed confirmation did not exactly match the hash-bound phrase'')
        else record_approval h ra d))"

text \<open>
  The interactive approval up to the prompt: nothing holds the lock while the human reads. The
  confirmation comes later, possibly after other transactions.
\<close>

definition begin_approval ::
  "('w, 'f, 'a) registration_host \<Rightarrow> registration_authority \<Rightarrow> string \<Rightarrow> bool
     \<Rightarrow> (('w, 'f) registration_store, registration_draft, registration_error) op" where
  "begin_approval h ra draft_id commit_after_approval =
     bind_op (ask_os (rh_is_terminal h)) (\<lambda>terminal.
       seq_op (guard_op terminal (rx_new ''interactive_terminal_required''
           ''approval must run in a real interactive terminal; piped input and MCP approval are forbidden''))
         (bind_op (get_draft h ra draft_id) (\<lambda>d.
           seq_op (print_approval_review h d commit_after_approval)
             (seq_op (print_text ([newline] @ ''Type exactly: '' @ dr_confirmation_phrase d @ [newline] @ ''> ''))
               (seq_op (call_os h CallFlush (rx_io_error ''approval_prompt_failed'')) (return_op d))))))"

definition finish_approval ::
  "('w, 'f, 'a) registration_host \<Rightarrow> registration_authority \<Rightarrow> registration_draft
     \<Rightarrow> (('w, 'f) registration_store, registration_draft, registration_error) op" where
  "finish_approval h ra d = bind_op (ask_os (rh_read_line h)) (\<lambda>r. case r of
      Inl message \<Rightarrow> fail_op (rx_io_error ''approval_read_failed'' message)
    | Inr typed \<Rightarrow> approve_with_confirmation h ra d (trim typed))"

definition approve_interactive_mode ::
  "('w, 'f, 'a) registration_host \<Rightarrow> registration_authority \<Rightarrow> string \<Rightarrow> bool
     \<Rightarrow> (('w, 'f) registration_store, registration_draft, registration_error) op" where
  "approve_interactive_mode h ra draft_id commit_after_approval =
     bind_op (begin_approval h ra draft_id commit_after_approval) (finish_approval h ra)"

definition approve_interactive ::
  "('w, 'f, 'a) registration_host \<Rightarrow> registration_authority \<Rightarrow> string
     \<Rightarrow> (('w, 'f) registration_store, registration_draft, registration_error) op" where
  "approve_interactive h ra draft_id = approve_interactive_mode h ra draft_id False"

section \<open>What the running supervisor says\<close>

record reconciliation_observation =
  ob_outcome :: registration_outcome
  ob_active_revision :: "string option"
  ob_disk_revision :: "string option"
  ob_detail :: "string option"

definition observation_from_snapshot ::
  "registration_outcome \<Rightarrow> reconciliation_snapshot \<Rightarrow> reconciliation_observation" where
  "observation_from_snapshot out snapshot =
     \<lparr>ob_outcome = out, ob_active_revision = Some (rs_active_revision snapshot),
      ob_disk_revision = rs_disk_revision snapshot, ob_detail = rs_detail snapshot\<rparr>"

definition observation_offline :: "string \<Rightarrow> reconciliation_observation" where
  "observation_offline detail =
     \<lparr>ob_outcome = OutOffline, ob_active_revision = None, ob_disk_revision = None,
      ob_detail = Some (take_chars 512 detail)\<rparr>"

definition pending_or_offline :: "reconciliation_snapshot option \<Rightarrow> string \<Rightarrow> reconciliation_observation" where
  "pending_or_offline last_snapshot detail = (case last_snapshot of
      None \<Rightarrow> observation_offline detail
    | Some snapshot \<Rightarrow> observation_from_snapshot OutPending snapshot)"

definition rg_instant ::
  "('w, 'f, 'a) registration_host \<Rightarrow> ('w, 'f) registration_store \<Rightarrow> nat \<times> ('w, 'f) registration_store" where
  "rg_instant h s = (case rh_elapse h (rg_os s) of
      (d, os) \<Rightarrow> (rg_clock s + d, s\<lparr>rg_clock := rg_clock s + d, rg_os := os\<rparr>))"

definition rg_sleep ::
  "('w, 'f, 'a) registration_host \<Rightarrow> nat \<Rightarrow> ('w, 'f) registration_store \<Rightarrow> ('w, 'f) registration_store" where
  "rg_sleep h d s = s\<lparr>rg_clock := rg_clock s + d, rg_os := rh_sleep h d (rg_os s)\<rparr>"

definition rg_request ::
  "('w, 'f, 'a) registration_host \<Rightarrow> 'a \<Rightarrow> string \<Rightarrow> string \<Rightarrow> nat option \<Rightarrow> ('w, 'f) registration_store
     \<Rightarrow> (string + json) \<times> ('w, 'f) registration_store" where
  "rg_request h address token path deadline s = (case rh_request h address token path deadline (rg_os s) of
      (r, os) \<Rightarrow> (r, s\<lparr>rg_os := os\<rparr>))"

text \<open>What one answer decides at once: the change is active, or the supervisor gave it up.\<close>

definition final_outcome :: "string \<Rightarrow> reconciliation_snapshot \<Rightarrow> registration_outcome option" where
  "final_outcome proposed_revision snapshot =
     (if rs_state snapshot = RecCurrent \<and> rs_active_revision snapshot = proposed_revision then Some OutApplied
      else if rs_disk_revision snapshot = Some proposed_revision \<and> rs_state snapshot = RecDeferred then Some OutDeferred
      else if rs_disk_revision snapshot = Some proposed_revision \<and> rs_state snapshot = RecRejected then Some OutRejected
      else None)"

lemma rg_instant_clock:
  "rg_instant h s = (now, s') \<Longrightarrow> now = rg_clock s' \<and> rg_clock s \<le> now"
  by (auto simp: rg_instant_def split: prod.splits)

lemma rg_request_clock: "rg_request h a t p d s = (r, s') \<Longrightarrow> rg_clock s' = rg_clock s"
  by (auto simp: rg_request_def split: prod.splits)

lemma rg_sleep_clock [simp]: "rg_clock (rg_sleep h d s) = rg_clock s + d"
  by (simp add: rg_sleep_def)

function observe_loop ::
  "('w, 'f, 'a) registration_host \<Rightarrow> 'a \<Rightarrow> string \<Rightarrow> string \<Rightarrow> nat \<Rightarrow> reconciliation_snapshot option
     \<Rightarrow> ('w, 'f) registration_store \<Rightarrow> reconciliation_observation \<times> ('w, 'f) registration_store" where
  "observe_loop h address token proposed_revision deadline last_snapshot s =
     (case rg_request h address token ''/v1/registry'' (Some deadline) s of
        (Inl message, s1) \<Rightarrow> (pending_or_offline last_snapshot message, s1)
      | (Inr response, s1) \<Rightarrow>
          (case Option.bind (json_get response ''registry'') (rh_snapshot h) of
             None \<Rightarrow> (observation_offline ''Supervisor returned an invalid registry reconciliation response'', s1)
           | Some snapshot \<Rightarrow>
               (case final_outcome proposed_revision snapshot of
                  Some out \<Rightarrow> (observation_from_snapshot out snapshot, s1)
                | None \<Rightarrow>
                    (case rg_instant h s1 of (now, s2) \<Rightarrow>
                       if deadline \<le> now then (observation_from_snapshot OutPending snapshot, s2)
                       else (case rg_instant h s2 of (later, s3) \<Rightarrow>
                         if deadline < later then
                           (pending_or_offline (Some snapshot) ''runtime acknowledgment timed out'', s3)
                         else observe_loop h address token proposed_revision deadline (Some snapshot)
                           (rg_sleep h (min reconciliation_ack_poll (deadline - later)) s3))))))"
  by pat_completeness auto

termination
proof (relation "measure (\<lambda>(h, address, token, proposed_revision, deadline, last_snapshot, s).
    deadline - rg_clock s)", simp, goal_cases)
  case (1 h address token proposed_revision deadline last_snapshot s p x2 s1 snapshot now s2 later s3)
  then show ?case
    by (auto dest!: rg_instant_clock [OF sym] rg_request_clock [OF sym] simp: reconciliation_ack_poll_def)
qed

declare observe_loop.simps [simp del]

definition load_token ::
  "('w, 'f, 'a) registration_host \<Rightarrow> registration_authority \<Rightarrow> supervisor_config \<Rightarrow> ('w, 'f) registration_store
     \<Rightarrow> (string + string) \<times> ('w, 'f) registration_store" where
  "load_token h ra c s =
     (let path = resolve_token_path (rh_paths h) (ra_configuration_path ra) (cc_token_file (sup_control c)) in
      case rh_token_file h path (rg_os s) of (content, os) \<Rightarrow>
        (case token_load content of
           Inl e \<Rightarrow> (Inl (show_token_error (rh_show_io h) path e), s\<lparr>rg_os := os\<rparr>)
         | Inr token \<Rightarrow> (Inr token, s\<lparr>rg_os := os\<rparr>)))"

definition control_address :: "('w, 'f, 'a) registration_host \<Rightarrow> supervisor_config \<Rightarrow> string + 'a" where
  "control_address h c = rh_address h
     (cc_host (sup_control c) @ '':'' @ decimal (unat (cc_port (sup_control c))))"

definition observe_reconciliation ::
  "('w, 'f, 'a) registration_host \<Rightarrow> registration_authority \<Rightarrow> supervisor_config \<Rightarrow> string
     \<Rightarrow> ('w, 'f) registration_store \<Rightarrow> reconciliation_observation \<times> ('w, 'f) registration_store" where
  "observe_reconciliation h ra c proposed_revision s =
     (case load_token h ra c s of
        (Inl message, s1) \<Rightarrow> (observation_offline message, s1)
      | (Inr token, s1) \<Rightarrow>
          (case control_address h c of
             Inl message \<Rightarrow> (observation_offline message, s1)
           | Inr address \<Rightarrow>
               (case rg_instant h s1 of (now, s2) \<Rightarrow>
                  observe_loop h address token proposed_revision (now + reconciliation_ack_timeout) None s2)))"

definition commit_result_of :: "registration_draft \<Rightarrow> reconciliation_observation \<Rightarrow> commit_report" where
  "commit_result_of d seen =
     (let present = bt_contains (sup_services (dr_after d)) (dr_service_id d) in
      \<lparr>cr_draft_id = dr_draft_id d,
       cr_service_id = dr_service_id d,
       cr_operation = dr_operation d,
       cr_previous_revision = dr_base_revision d,
       cr_configuration_revision = dr_proposed_revision d,
       cr_registered_state = (if present then ''stopped'' else ''unregistered''),
       cr_auto_started = False,
       cr_registry_reload_required = False,
       cr_registry_reconciliation = ob_outcome seen,
       cr_runtime_active_revision = ob_active_revision seen,
       cr_runtime_disk_revision = ob_disk_revision seen,
       cr_reconciliation_detail = ob_detail seen,
       cr_unrelated_services_restarted = False,
       cr_next_command = (if present then Some (''aku-supervisor start '' @ dr_service_id d
         @ '' --actor user --reason \"start registered service\"'') else None)\<rparr>)"

definition commit_result ::
  "('w, 'f, 'a) registration_host \<Rightarrow> registration_authority \<Rightarrow> registration_draft
     \<Rightarrow> (('w, 'f) registration_store, commit_report, registration_error) op" where
  "commit_result h ra d = (\<lambda>s.
     case observe_reconciliation h ra (dr_after d) (dr_proposed_revision d) s of
       (seen, s') \<Rightarrow> (Ok (commit_result_of d seen), s'))"

definition runtime_state_error :: "string \<Rightarrow> string \<Rightarrow> registration_error" where
  "runtime_state_error sid cause = rx_with_details ''runtime_state_unverifiable''
     ''cannot prove that the target service is stopped; keep AkuSupervisor running and stop the service first''
     (JObject [(''cause'', JString cause), (''serviceId'', JString sid)])"

definition require_observed_stopped ::
  "('w, 'f, 'a) registration_host \<Rightarrow> registration_authority \<Rightarrow> supervisor_config \<Rightarrow> string
     \<Rightarrow> (('w, 'f) registration_store, unit, registration_error) op" where
  "require_observed_stopped h ra c sid = (\<lambda>s.
     case load_token h ra c s of
       (Inl message, s1) \<Rightarrow> (Err (rx_with_source ''runtime_state_unverifiable''
         ''cannot verify stopped state because the control token is unavailable'' message), s1)
     | (Inr token, s1) \<Rightarrow>
         (case control_address h c of
            Inl message \<Rightarrow> (Err (rx_with_source ''control_address_invalid'' ''invalid control address'' message), s1)
          | Inr address \<Rightarrow>
              (case rg_request h address token (''/v1/services/'' @ sid) None s1 of
                 (Inl message, s2) \<Rightarrow> (Err (runtime_state_error sid message), s2)
               | (Inr response, s2) \<Rightarrow>
                   (case Option.bind (Option.bind (json_get response ''service'')
                       (\<lambda>v. json_get v ''lifecycle'')) json_as_str of
                      None \<Rightarrow> (Err (rx_new ''runtime_state_invalid''
                        ''Supervisor returned no service lifecycle''), s2)
                    | Some observed \<Rightarrow>
                        if observed \<noteq> ''stopped'' then
                          (Err (rx_with_details ''service_must_be_stopped''
                            ''update and unregister require the running Supervisor to observe the service as stopped''
                            (JObject [(''observedLifecycle'', JString observed), (''serviceId'', JString sid)])), s2)
                        else (Ok (), s2)))))"

section \<open>Commit\<close>

definition mark_committed ::
  "('w, 'f, 'a) registration_host \<Rightarrow> registration_authority \<Rightarrow> registration_draft \<Rightarrow> string \<Rightarrow> string
     \<Rightarrow> (('w, 'f) registration_store, commit_report, registration_error) op" where
  "mark_committed h ra d event actor =
     bind_op (now_ms h) (\<lambda>now.
       let done' = d\<lparr>dr_status := DraftCommitted, dr_committed_at := Some now\<rparr> in
       seq_op (write_draft h ra done')
         (seq_op (audit h event done' (Some actor)) (commit_result h ra done')))"

text \<open>The change that is applied again to the current configuration, with what the draft proposed for the service.\<close>

definition draft_service :: "registration_draft \<Rightarrow> registration_error + service_config option" where
  "draft_service d = (case dr_operation d of
      OpUnregister \<Rightarrow> Inr None
    | _ \<Rightarrow> (case bt_get (sup_services (dr_after d)) (dr_service_id d) of
        Some service \<Rightarrow> Inr (Some service)
      | None \<Rightarrow> Inl (draft_integrity_failed ''registration draft is missing its proposed service'')))"

definition check_draft ::
  "('w, 'f, 'a) registration_host \<Rightarrow> registration_authority \<Rightarrow> registration_draft \<Rightarrow> supervisor_config
     \<Rightarrow> (('w, 'f) registration_store, supervisor_config, registration_error) op" where
  "check_draft h ra d current =
     seq_op (if dr_operation d \<in> {OpUpdate, OpUnregister}
             then require_observed_stopped h ra current (dr_service_id d) else return_op ())
       (bind_op (lift_sum (draft_service d)) (\<lambda>service.
         bind_op (lift_sum (validate_registration_proposal (pl_env (rh_paths h)) current
             (dr_operation d) (dr_service_id d) service)) (\<lambda>(proposed, issues, warnings).
           seq_op (guard_op (issues = []) (rx_service_validation_failed
               ''the proposed configuration is no longer valid'' issues warnings))
             (bind_op (lift_sum (rg_fingerprint h proposed)) (\<lambda>revision.
               seq_op (guard_op (revision = dr_proposed_revision d) (draft_integrity_failed
                   ''registration draft no longer matches its operation-bound proposal''))
                 (return_op proposed))))))"

text \<open>The expiry and the configuration the commit starts from, with its revision.\<close>

definition commit_gate ::
  "('w, 'f, 'a) registration_host \<Rightarrow> registration_authority \<Rightarrow> registration_draft
     \<Rightarrow> (('w, 'f) registration_store, supervisor_config \<times> string, registration_error) op" where
  "commit_gate h ra d = bind_op (now_ms h) (\<lambda>now.
     if now > dr_expires_at d then
       fail_op (rx_new ''draft_expired'' ''approved draft expired before commit; prepare a new draft'')
     else bind_op (current_config h ra) (\<lambda>current.
       bind_op (lift_sum (rg_fingerprint h current)) (\<lambda>current_revision.
         return_op (current, current_revision))))"

definition commit_draft ::
  "('w, 'f, 'a) registration_host \<Rightarrow> registration_authority \<Rightarrow> registration_draft \<Rightarrow> string
     \<Rightarrow> (('w, 'f) registration_store, commit_report, registration_error) op" where
  "commit_draft h ra d actor =
     (if dr_status d = DraftCommitted then commit_result h ra d
      else if dr_status d \<noteq> DraftApproved then
        fail_op (rx_new ''human_approval_required''
          ''draft is not approved; commit cannot create its own approval'')
      else bind_op (commit_gate h ra d) (\<lambda>(current, current_revision).
        if current_revision = dr_proposed_revision d then mark_committed h ra d ''commit_recovered'' actor
        else if current_revision \<noteq> dr_base_revision d then
          fail_op (rx_revision_conflict ''configuration changed after this draft was prepared''
            (dr_base_revision d) current_revision)
        else bind_op (check_draft h ra d current) (\<lambda>proposed.
          seq_op (write_config h ra proposed) (mark_committed h ra d ''committed'' actor))))"

definition commit_with_actor ::
  "('w, 'f, 'a) registration_host \<Rightarrow> registration_authority \<Rightarrow> string \<Rightarrow> string
     \<Rightarrow> (('w, 'f) registration_store, commit_report, registration_error) op" where
  "commit_with_actor h ra draft_id actor =
     with_registration_lock h (bind_op (get_draft h ra draft_id) (\<lambda>d. commit_draft h ra d actor))"

definition commit ::
  "('w, 'f, 'a) registration_host \<Rightarrow> registration_authority \<Rightarrow> string
     \<Rightarrow> (('w, 'f) registration_store, commit_report, registration_error) op" where
  "commit h ra draft_id = commit_with_actor h ra draft_id ''registration_mcp''"

definition approve_and_commit_interactive ::
  "('w, 'f, 'a) registration_host \<Rightarrow> registration_authority \<Rightarrow> string
     \<Rightarrow> (('w, 'f) registration_store, commit_report, registration_error) op" where
  "approve_and_commit_interactive h ra draft_id =
     bind_op (get_draft h ra draft_id) (\<lambda>d.
       seq_op (if dr_status d = DraftPrepared
               then map_op (\<lambda>_. ()) (approve_interactive_mode h ra draft_id True) else return_op ())
         (commit_with_actor h ra draft_id ''human_cli''))"

end
