(* ===== verification/Registration_Facts.thy ===== *)
theory Registration_Facts
  imports Registration
begin

text \<open>
  Facts about \<open>Registration\<close>: which operations leave the configuration and the drafts alone, what a
  commit that replaces the configuration has checked, what a proposal changes, and the steps of the
  registration system with several terminals and outside editors.
\<close>

section \<open>Operations that write no file\<close>

definition files_are ::
  "string option \<Rightarrow> (string \<Rightarrow> 'f option) \<Rightarrow> ('w, 'f) registration_store \<Rightarrow> bool" where
  "files_are C D s \<longleftrightarrow> rg_config s = C \<and> rg_drafts s = D"

lemma keeps_sum [keeps_intro]:
  "(\<And>x. keeps I (f x)) \<Longrightarrow> (\<And>y. keeps I (g y)) \<Longrightarrow> keeps I (case v of Inl x \<Rightarrow> f x | Inr y \<Rightarrow> g y)"
  by (cases v) auto

lemma keeps_prod [keeps_intro]: "(\<And>x y. keeps I (f x y)) \<Longrightarrow> keeps I (case p of (x, y) \<Rightarrow> f x y)"
  by (cases p) simp

lemma keeps_triple [keeps_intro]: "(\<And>x y z. keeps I (f x y z)) \<Longrightarrow> keeps I (case p of (x, y, z) \<Rightarrow> f x y z)"
  by (cases p) simp

lemma keeps_let [keeps_intro]: "keeps I (f v) \<Longrightarrow> keeps I (Let v f)"
  by simp

named_theorems quiet \<open>operations that write neither the configuration nor a draft\<close>

lemma quiet_ask [quiet]: "keeps (files_are C D) (ask_os q)"
  by (auto simp: keeps_def ask_os_def files_are_def split: prod.split)

lemma quiet_call [quiet]: "keeps (files_are C D) (call_os h c f)"
  unfolding call_os_def by (intro keeps_intro quiet)

lemma quiet_now [quiet]: "keeps (files_are C D) (now_ms h)"
  unfolding now_ms_def by (intro keeps_intro quiet)

lemma quiet_print [quiet]: "keeps (files_are C D) (print_text x)"
  by (auto simp: keeps_def print_text_def modify_op_def files_are_def)

lemma quiet_append_audit [quiet]: "keeps (files_are C D) (append_audit x)"
  by (auto simp: keeps_def append_audit_def modify_op_def files_are_def)

lemma quiet_open_lock [quiet]: "keeps (files_are C D) (open_lock h)"
  unfolding open_lock_def
  by (intro keeps_intro quiet keeps_modify) (simp add: files_are_def)

lemma quiet_write_lock [quiet]: "keeps (files_are C D) (write_lock h)"
  unfolding write_lock_def by (intro keeps_intro quiet)

lemma quiet_audit [quiet]: "keeps (files_are C D) (audit h e d a)"
  unfolding audit_def by (intro keeps_intro quiet)

lemma quiet_read_config [quiet]: "keeps (files_are C D) (read_structural_config h path)"
  unfolding read_structural_config_def by (intro keeps_intro quiet)

lemma quiet_current_config [quiet]: "keeps (files_are C D) (current_config h ra)"
  unfolding current_config_def by (intro keeps_intro quiet)

lemma quiet_get_draft [quiet]: "keeps (files_are C D) (get_draft h ra draft_id)"
  unfolding get_draft_def by (intro keeps_intro quiet)

lemma quiet_propose [quiet]: "keeps (files_are C D) (propose h ra r)"
  unfolding propose_def by (intro keeps_intro quiet)

lemma quiet_print_pretty [quiet]: "keeps (files_are C D) (print_pretty h title v)"
  unfolding print_pretty_def by (intro keeps_intro quiet)

lemma quiet_begin_approval [quiet]: "keeps (files_are C D) (begin_approval h ra draft_id flag)"
  unfolding begin_approval_def print_approval_review_def by (intro keeps_intro quiet)

lemma quiet_load_token: "load_token h ra c s = (r, s') \<Longrightarrow> files_are C D s \<Longrightarrow> files_are C D s'"
  by (auto simp: load_token_def files_are_def Let_def split: prod.splits sum.splits)

lemma quiet_request: "rg_request h a t p d s = (r, s') \<Longrightarrow> files_are C D s \<Longrightarrow> files_are C D s'"
  by (auto simp: rg_request_def files_are_def split: prod.splits)

lemma quiet_stopped [quiet]: "keeps (files_are C D) (require_observed_stopped h ra c sid)"
  by (rule keepsI)
    (auto simp: require_observed_stopped_def dest: quiet_load_token quiet_request
      split: prod.splits sum.splits option.splits)

lemma quiet_instant: "rg_instant h s = (n, s') \<Longrightarrow> files_are C D s \<Longrightarrow> files_are C D s'"
  by (auto simp: rg_instant_def files_are_def split: prod.splits)

lemma quiet_sleep [simp]: "files_are C D (rg_sleep h d s) \<longleftrightarrow> files_are C D s"
  by (simp add: rg_sleep_def files_are_def)

lemma observe_loop_round:
  "observe_loop h a t rv deadline last_snapshot s = (seen, s') \<Longrightarrow>
     (\<exists>message. rg_request h a t ''/v1/registry'' (Some deadline) s = (Inl message, s')
        \<and> seen = pending_or_offline last_snapshot message)
   \<or> (\<exists>response s1. rg_request h a t ''/v1/registry'' (Some deadline) s = (Inr response, s1)
        \<and> (s' = s1 \<or> s' = snd (rg_instant h s1) \<or> s' = snd (rg_instant h (snd (rg_instant h s1))))
        \<and> (seen = observation_offline ''Supervisor returned an invalid registry reconciliation response''
          \<or> (\<exists>snapshot out. seen = observation_from_snapshot out snapshot
               \<and> (out = OutPending \<or> final_outcome rv snapshot = Some out))))
   \<or> (\<exists>response s1 snapshot now s2 later s3.
        rg_request h a t ''/v1/registry'' (Some deadline) s = (Inr response, s1)
        \<and> Option.bind (json_get response ''registry'') (rh_snapshot h) = Some snapshot
        \<and> final_outcome rv snapshot = None
        \<and> rg_instant h s1 = (now, s2) \<and> \<not> deadline \<le> now \<and> rg_instant h s2 = (later, s3) \<and> \<not> deadline < later
        \<and> observe_loop h a t rv deadline (Some snapshot)
            (rg_sleep h (min reconciliation_ack_poll (deadline - later)) s3) = (seen, s'))"
  by (subst (asm) observe_loop.simps)
    (auto simp: pending_or_offline_def split: prod.splits sum.splits option.splits if_splits)

lemma quiet_observe_loop:
  "observe_loop h a t rv deadline last_snapshot s = (seen, s') \<Longrightarrow> files_are C D s \<Longrightarrow> files_are C D s'"
proof (induction h a t rv deadline last_snapshot s rule: observe_loop.induct)
  case (1 h a t rv deadline last_snapshot s)
  from observe_loop_round [OF 1(2)] show ?case
  proof (elim disjE exE conjE)
    fix response s1 snapshot now s2 later s3
    assume r: "rg_request h a t ''/v1/registry'' (Some deadline) s = (Inr response, s1)"
      and b: "Option.bind (json_get response ''registry'') (rh_snapshot h) = Some snapshot"
      and f: "final_outcome rv snapshot = None"
      and n: "rg_instant h s1 = (now, s2)" "\<not> deadline \<le> now"
      and l: "rg_instant h s2 = (later, s3)" "\<not> deadline < later"
      and again: "observe_loop h a t rv deadline (Some snapshot)
        (rg_sleep h (min reconciliation_ack_poll (deadline - later)) s3) = (seen, s')"
    have "files_are C D s3" using 1(3) r n l by (blast dest: quiet_request quiet_instant)
    then show ?thesis
      by (intro 1(1) [OF r [symmetric] refl b f n(1) [symmetric] n(2) l(1) [symmetric] l(2) again]) simp
  qed (use 1(3) in \<open>force dest: quiet_request intro: quiet_instant [OF prod.collapse [symmetric]]\<close>)+
qed

lemma quiet_observe:
  "observe_reconciliation h ra c rv s = (seen, s') \<Longrightarrow> files_are C D s \<Longrightarrow> files_are C D s'"
  unfolding observe_reconciliation_def
  by (auto split: prod.splits sum.splits dest: quiet_load_token quiet_instant quiet_observe_loop)

lemma quiet_commit_result [quiet]: "keeps (files_are C D) (commit_result h ra d)"
  by (rule keepsI) (auto simp: commit_result_def dest: quiet_observe split: prod.split)

lemma quiet_release: "files_are C D (release_lock h s) \<longleftrightarrow> files_are C D s"
  by (auto simp: release_lock_def files_are_def split: prod.splits option.splits)

lemma quiet_check_draft [quiet]: "keeps (files_are C D) (check_draft h ra d current)"
  unfolding check_draft_def by (intro keeps_intro quiet)

lemma quiet_commit_gate [quiet]: "keeps (files_are C D) (commit_gate h ra d)"
  unfolding commit_gate_def by (intro keeps_intro quiet)

lemma quiet_run: "keeps (files_are C D) m \<Longrightarrow> files_are C D s \<Longrightarrow> m s = (r, s') \<Longrightarrow> files_are C D s'"
  by (rule keeps_run)

section \<open>What the writing operations leave behind\<close>

lemma bind_op_cases:
  "bind_op m f s = (r, s') \<Longrightarrow>
     (\<exists>a s1. m s = (Ok a, s1) \<and> f a s1 = (r, s')) \<or> (\<exists>e. m s = (Err e, s') \<and> r = Err e)
     \<or> (m s = (Panic, s') \<and> r = Panic)"
  by (auto simp: bind_op_def split: prod.splits outcome.splits)

lemma bind_quiet:
  assumes "bind_op m f s = (r, s')" and "keeps (files_are C D) m" and "files_are C D s"
  obtains (ran) a s1 where "m s = (Ok a, s1)" and "files_are C D s1" and "f a s1 = (r, s')"
    | (stopped) "files_are C D s'" and "\<And>a. r \<noteq> Ok a"
  using bind_op_cases [OF assms(1)] quiet_run [OF assms(2,3)] by auto

lemma lift_sum_Ok: "lift_sum v s = (Ok a, s') \<longleftrightarrow> v = Inr a \<and> s' = s"
  by (auto simp: lift_sum_def fail_op_def return_op_def split: sum.split)

lemma guard_op_Ok: "guard_op b e s = (Ok a, s') \<longleftrightarrow> b \<and> s' = s"
  by (auto simp: guard_op_def fail_op_def return_op_def)

lemma write_json_atomic_effect:
  assumes run: "write_json_atomic h parent bytes put s = (r, s')" and files: "files_are C D s"
  shows "(\<exists>content s0. r = Ok () \<and> bytes = Inr content \<and> files_are C D s0 \<and> s' = put content s0)
    \<or> (r \<noteq> Ok () \<and> files_are C D s')"
  using run files unfolding write_json_atomic_def
  by (cases parent; cases bytes)
    (auto simp: seq_op_def fail_op_def modify_op_def elim!: bind_quiet intro: quiet)

lemma write_draft_effect:
  assumes "write_draft h ra d s = (r, s')" and "files_are C D s"
  shows "(\<exists>f. r = Ok () \<and> rh_print_draft h d = Inr f \<and> files_are C (D(dr_draft_id d \<mapsto> f)) s')
    \<or> (r \<noteq> Ok () \<and> files_are C D s')"
  using assms unfolding write_draft_def seq_op_def
  by (elim bind_quiet) (auto intro: keeps_intro simp: lift_sum_Ok files_are_def
      dest!: write_json_atomic_effect [where C = C and D = D])

lemma write_config_effect:
  assumes "write_config h ra c s = (r, s')" and "files_are C D s"
  shows "(\<exists>content. r = Ok () \<and> rh_print_config h c = Inr content \<and> files_are (Some content) D s')
    \<or> (r \<noteq> Ok () \<and> files_are C D s')"
  using assms unfolding write_config_def
  by (auto simp: files_are_def dest!: write_json_atomic_effect [where C = C and D = D])

lemma with_registration_lock_effect:
  assumes "with_registration_lock h m s = (r, s')" and "files_are C D s"
  obtains (ran) s1 s2 where "files_are C D s1" and "m s1 = (r, s2)" and "s' = release_lock h s2"
    | (stopped) "files_are C D s'" and "\<And>a. r \<noteq> Ok a"
  using assms unfolding with_registration_lock_def seq_op_def locked_def
  apply (elim bind_quiet)
      apply (rule quiet | assumption)+
  subgoal for a s1 b s2
    by (cases "bind_op (write_lock h) (\<lambda>_. m) s2")
      (auto elim!: bind_quiet intro: quiet simp: quiet_release)
  by auto

text \<open>A draft is written and then nothing else: what is on disk afterwards.\<close>

definition draft_written ::
  "('w, 'f, 'a) registration_host \<Rightarrow> registration_draft \<Rightarrow> string option \<Rightarrow> (string \<Rightarrow> 'f option)
     \<Rightarrow> ('w, 'f) registration_store \<Rightarrow> bool" where
  "draft_written h d C D s \<longleftrightarrow>
     (\<exists>f. rh_print_draft h d = Inr f \<and> files_are C (D(dr_draft_id d \<mapsto> f)) s)"

lemma draft_written_release [simp]:
  "draft_written h d C D (release_lock h s) \<longleftrightarrow> draft_written h d C D s"
  by (simp add: draft_written_def quiet_release)

lemma write_draft_then:
  assumes run: "seq_op (write_draft h ra d) m s = (r, s')" and files: "files_are C D s"
    and rest: "\<And>D. keeps (files_are C D) m"
  shows "draft_written h d C D s' \<or> (files_are C D s' \<and> (\<forall>a. r \<noteq> Ok a))"
proof -
  obtain q s1 where w: "write_draft h ra d s = (q, s1)" by fastforce
  from write_draft_effect [OF w files] show ?thesis
  proof (elim disjE exE conjE)
    fix f assume "q = Ok ()" and p: "rh_print_draft h d = Inr f"
      and files: "files_are C (D(dr_draft_id d \<mapsto> f)) s1"
    with run w have "m s1 = (r, s')" by (simp add: seq_op_def bind_op_def)
    from quiet_run [OF rest files this] p show ?thesis by (auto simp: draft_written_def)
  next
    assume "q \<noteq> Ok ()" and "files_are C D s1"
    with run w show ?thesis by (cases q) (auto simp: seq_op_def bind_op_def)
  qed
qed

lemma persist_draft_effect:
  assumes run: "persist_draft h ra d s = (r, s')" and files: "files_are C D s"
  shows "files_are C D s' \<or> (D (dr_draft_id d) = None \<and> draft_written h d C D s')"
proof (rule bind_quiet [OF run [unfolded persist_draft_def seq_op_def [of "call_os h c f" for c f]] quiet_call files])
  fix a s1
  assume f1: "files_are C D s1"
    and rest: "bind_op (get_op (\<lambda>s. rg_drafts s (dr_draft_id d) \<noteq> None)) (\<lambda>exists.
      if exists then bind_op (get_draft h ra (dr_draft_id d)) (\<lambda>existing.
          if dr_proposal_hash existing = dr_proposal_hash d then return_op existing
          else fail_op request_id_conflict)
      else seq_op (write_draft h ra d)
        (seq_op (audit h ''prepared'' d (Some ''registration_mcp'')) (return_op d))) s1 = (r, s')"
  show ?thesis
  proof (cases "D (dr_draft_id d)")
    case None
    then have "seq_op (write_draft h ra d)
        (seq_op (audit h ''prepared'' d (Some ''registration_mcp'')) (return_op d)) s1 = (r, s')"
      using rest f1 by (simp add: bind_op_def get_op_def files_are_def)
    from write_draft_then [OF this f1] None show ?thesis by (blast intro: keeps_intro quiet)
  next
    case (Some y)
    then have "bind_op (get_draft h ra (dr_draft_id d)) (\<lambda>existing.
          if dr_proposal_hash existing = dr_proposal_hash d then return_op existing
          else fail_op request_id_conflict) s1 = (r, s')"
      using rest f1 by (simp add: bind_op_def get_op_def files_are_def)
    then have "files_are C D s'"
      by (rule keeps_run [rotated 2]) (intro keeps_intro quiet, rule f1)
    then show ?thesis by simp
  qed
qed simp

lemma current_config_Ok:
  "current_config h ra s = (Ok c, s') \<Longrightarrow>
     (\<exists>input. rg_config s = Some input \<and> parse_json (rh_config h) input = Inr c)
     \<and> ensure_registration_safe_environment c = Inr ()
     \<and> validate_structure (pl_env (rh_paths h)) c = Inr ()"
  unfolding current_config_def read_structural_config_def seq_op_def
  by (auto simp: bind_op_Ok lift_sum_Ok get_op_def fail_op_def return_op_def call_os_def ask_os_def
      split: option.splits sum.splits prod.splits)

lemma propose_Ok:
  "propose h ra r s = (Ok d, s') \<Longrightarrow> \<exists>current current_revision proposed warnings proposed_revision hash now.
     d = new_draft h ra r current current_revision proposed warnings proposed_revision hash now
     \<and> bt_invar (sup_services current) \<and> rg_fingerprint h current = Inr current_revision \<and> pr_base_revision r = current_revision
     \<and> ensure_registration_safe_environment current = Inr ()
     \<and> validate_registration_proposal (pl_env (rh_paths h)) current (pr_operation r) (pr_service_id r)
         (pr_service r) = Inr (proposed, [], warnings)
     \<and> rg_fingerprint h proposed = Inr proposed_revision
     \<and> hash_value h (proposal_json h (pr_request_id r) (pr_operation r) (pr_service_id r)
         (pr_base_revision r) proposed_revision proposed) = Inr hash"
  unfolding propose_def seq_op_def
  by (auto simp: bind_op_Ok lift_sum_Ok guard_op_Ok return_op_def split: prod.splits
      dest!: current_config_Ok) (blast dest: parse_json_invar)

lemma propose_prepared: "propose h ra r s = (Ok d, s') \<Longrightarrow>
    dr_status d = DraftPrepared \<and> dr_draft_id d = draft_id_for_request h (pr_request_id r)"
  by (auto simp: new_draft_def dest!: propose_Ok)

lemma prepare_effect:
  assumes run: "prepare h ra r s = (q, s')" and files: "files_are C D s"
  shows "files_are C D s' \<or> (\<exists>d. D (dr_draft_id d) = None \<and> dr_status d = DraftPrepared
     \<and> dr_draft_id d = draft_id_for_request h (pr_request_id r) \<and> draft_written h d C D s')"
proof -
  let ?i = "draft_id_for_request h (pr_request_id r)"
  let ?again = "bind_op (get_draft h ra ?i) (\<lambda>existing.
    if request_matches_draft r existing then return_op existing else fail_op request_id_conflict)"
  let ?fresh = "bind_op (propose h ra r) (persist_draft h ra)"
  let ?body = "seq_op (lift_sum (validate_draft_id ?i)) (bind_op (get_op (\<lambda>s. rg_drafts s ?i \<noteq> None))
    (\<lambda>exists. if exists then ?again else ?fresh))"
  have body: "files_are C D s2 \<or> (\<exists>d. D (dr_draft_id d) = None \<and> dr_status d = DraftPrepared
      \<and> dr_draft_id d = ?i \<and> draft_written h d C D s2)"
    if run: "?body s1 = (q, s2)" and f: "files_are C D s1" for q s1 s2
  proof (rule bind_quiet [OF run [unfolded seq_op_def] keeps_lift_sum f])
    fix a s3
    assume f3: "files_are C D s3" and rest: "bind_op (get_op (\<lambda>s. rg_drafts s ?i \<noteq> None))
      (\<lambda>exists. if exists then ?again else ?fresh) s3 = (q, s2)"
    then have "(if D ?i \<noteq> None then ?again else ?fresh) s3 = (q, s2)"
      by (simp add: bind_op_def get_op_def files_are_def)
    then consider "?again s3 = (q, s2)" | "?fresh s3 = (q, s2)" by (auto split: if_splits)
    then show ?thesis
    proof cases
      case 1
      then have "files_are C D s2"
        by (rule keeps_run [rotated 2]) (intro keeps_intro quiet, rule f3)
      then show ?thesis by simp
    next
      case 2
      then show ?thesis
      proof (rule bind_quiet [OF _ quiet_propose f3])
        fix d s4 assume "propose h ra r s3 = (Ok d, s4)" and f4: "files_are C D s4"
          and p: "persist_draft h ra d s4 = (q, s2)"
        with propose_prepared persist_draft_effect [OF p f4] show ?thesis by metis
      qed simp
    qed
  qed simp
  show ?thesis
  proof (rule bind_quiet [OF run [unfolded prepare_def Let_def seq_op_def [of "lift_sum (validate_request_id x)" for x]]
      keeps_lift_sum files])
    fix a s1 assume f1: "files_are C D s1"
      and rest: "seq_op (lift_sum (rg_validate_service_id (pr_service_id r))) (with_registration_lock h ?body) s1 = (q, s')"
    show ?thesis
    proof (rule bind_quiet [OF rest [unfolded seq_op_def [of "lift_sum (rg_validate_service_id x)" for x]]
        keeps_lift_sum f1])
      fix a s2 assume f2: "files_are C D s2" and l: "with_registration_lock h ?body s2 = (q, s')"
      show ?thesis
      proof (rule with_registration_lock_effect [OF l f2])
        fix s3 s4 assume "files_are C D s3" and b: "?body s3 = (q, s4)" and e: "s' = release_lock h s4"
        from body [OF b this(1)] show ?thesis unfolding e draft_written_release quiet_release .
      qed simp
    qed simp
  qed simp
qed

lemma write_then_effect:
  assumes run: "bind_op (now_ms h) (\<lambda>t. seq_op (write_draft h ra (g t)) (m t)) s = (r, s')"
    and files: "files_are C D s" and rest: "\<And>t D. keeps (files_are C D) (m t)"
  shows "files_are C D s' \<or> (\<exists>t. draft_written h (g t) C D s')"
proof (rule bind_quiet [OF run quiet_now files])
  fix t s1 assume "files_are C D s1" and w: "seq_op (write_draft h ra (g t)) (m t) s1 = (r, s')"
  from write_draft_then [OF w this(1) rest] show ?thesis by blast
qed simp

lemma record_approval_effect:
  assumes "record_approval h ra d s = (r, s')" and "files_are C D s"
  shows "files_are C D s' \<or>
    (\<exists>now. draft_written h (d\<lparr>dr_status := DraftApproved, dr_approved_at := Some now\<rparr>) C D s')"
  by (rule write_then_effect [OF assms(1) [unfolded record_approval_def Let_def] assms(2)])
    (intro keeps_intro quiet)

lemma approve_effect:
  assumes run: "approve_with_confirmation h ra d confirmation s = (r, s')" and files: "files_are C D s"
  shows "files_are C D s' \<or> (dr_status d = DraftPrepared \<and> confirmation = dr_confirmation_phrase d
     \<and> (\<exists>now. draft_written h (d\<lparr>dr_status := DraftApproved, dr_approved_at := Some now\<rparr>) C D s'))"
proof (cases "dr_status d = DraftPrepared \<and> confirmation = dr_confirmation_phrase d")
  case False
  have "keeps (files_are C D) (approve_with_confirmation h ra d confirmation)"
    unfolding approve_with_confirmation_def
    by (intro keeps_intro quiet) (use False in blast)
  from keeps_run [OF this files run] show ?thesis by simp
next
  case True
  with run have "bind_op (now_ms h) (\<lambda>now. if now > dr_expires_at d
       then fail_op (rx_new ''draft_expired'' ''registration draft has expired; prepare a new draft'')
       else record_approval h ra d) s = (r, s')"
    by (simp add: approve_with_confirmation_def cong: if_cong)
  then show ?thesis
  proof (rule bind_quiet [OF _ quiet_now files])
    fix now s1 assume "files_are C D s1" and "(if now > dr_expires_at d
       then fail_op (rx_new ''draft_expired'' ''registration draft has expired; prepare a new draft'')
       else record_approval h ra d) s1 = (r, s')"
    with True show ?thesis by (auto simp: fail_op_def dest: record_approval_effect split: if_splits)
  qed simp
qed

lemma get_draft_Ok:
  "get_draft h ra draft_id s = (Ok d, s') \<Longrightarrow>
     validate_draft_id draft_id = Inr () \<and> verify_draft h ra d = Inr ()
     \<and> (\<exists>f. rg_drafts s draft_id = Some f \<and> rh_parse_draft h f = Inr d)"
  unfolding get_draft_def seq_op_def
  by (auto simp: bind_op_Ok lift_sum_Ok get_op_def fail_op_def return_op_def call_os_def ask_os_def
      split: option.splits sum.splits prod.splits)

text \<open>What a commit has checked when it replaces the configuration \<open>C\<close> by \<open>content\<close> for the draft \<open>d\<close>.\<close>

definition replaces ::
  "('w, 'f, 'a) registration_host \<Rightarrow> registration_authority \<Rightarrow> registration_draft \<Rightarrow> string option \<Rightarrow> string \<Rightarrow> bool" where
  "replaces h ra d C content \<longleftrightarrow> (\<exists>input current proposed service warnings.
     C = Some input \<and> parse_json (rh_config h) input = Inr current
     \<and> ensure_registration_safe_environment current = Inr ()
     \<and> rg_fingerprint h current = Inr (dr_base_revision d)
     \<and> draft_service d = Inr service
     \<and> validate_registration_proposal (pl_env (rh_paths h)) current (dr_operation d) (dr_service_id d) service
         = Inr (proposed, [], warnings)
     \<and> rg_fingerprint h proposed = Inr (dr_proposed_revision d)
     \<and> rh_print_config h proposed = Inr content
     \<and> (dr_operation d = OpRegister \<or>
         (\<exists>s1 s2. require_observed_stopped h ra current (dr_service_id d) s1 = (Ok (), s2))))"

lemma check_draft_Ok:
  "check_draft h ra d current s = (Ok proposed, s') \<Longrightarrow> \<exists>service warnings.
     draft_service d = Inr service
     \<and> validate_registration_proposal (pl_env (rh_paths h)) current (dr_operation d) (dr_service_id d) service
         = Inr (proposed, [], warnings)
     \<and> rg_fingerprint h proposed = Inr (dr_proposed_revision d)
     \<and> (dr_operation d = OpRegister \<or>
         (\<exists>s1 s2. require_observed_stopped h ra current (dr_service_id d) s1 = (Ok (), s2)))"
  unfolding check_draft_def seq_op_def
  by (cases "dr_operation d")
    (auto simp: bind_op_Ok lift_sum_Ok guard_op_Ok return_op_def split: prod.splits)

lemma commit_gate_Ok:
  "commit_gate h ra d s = (Ok (current, rv), s') \<Longrightarrow> files_are C D s \<Longrightarrow>
     (\<exists>input. C = Some input \<and> parse_json (rh_config h) input = Inr current)
     \<and> ensure_registration_safe_environment current = Inr () \<and> rg_fingerprint h current = Inr rv"
  unfolding commit_gate_def
  by (auto simp: bind_op_Ok lift_sum_Ok return_op_def fail_op_def split: if_splits
      dest!: current_config_Ok) (metis files_are_def quiet_now keeps_run)

lemma mark_committed_effect:
  assumes "mark_committed h ra d event actor s = (r, s')" and "files_are C D s"
  shows "files_are C D s' \<or>
    (\<exists>now. draft_written h (d\<lparr>dr_status := DraftCommitted, dr_committed_at := Some now\<rparr>) C D s')"
  by (rule write_then_effect [OF assms(1) [unfolded mark_committed_def Let_def] assms(2)])
    (intro keeps_intro quiet)

text \<open>The three ends of a commit of the draft \<open>d\<close>: nothing written, the draft alone, or the configuration first.\<close>

definition commit_end ::
  "('w, 'f, 'a) registration_host \<Rightarrow> registration_authority \<Rightarrow> registration_draft \<Rightarrow> string option
     \<Rightarrow> (string \<Rightarrow> 'f option) \<Rightarrow> ('w, 'f) registration_store \<Rightarrow> bool" where
  "commit_end h ra d C D s \<longleftrightarrow> files_are C D s
     \<or> (dr_status d = DraftApproved \<and> (\<exists>now C'. (C' = C \<or> (\<exists>content. C' = Some content \<and> replaces h ra d C content))
          \<and> (files_are C' D s
            \<or> draft_written h (d\<lparr>dr_status := DraftCommitted, dr_committed_at := Some now\<rparr>) C' D s)))"

lemma commit_end_same: "files_are C D s \<Longrightarrow> commit_end h ra d C D s"
  by (simp add: commit_end_def)

lemma commit_end_marked:
  assumes "mark_committed h ra d event actor s = (r, s')" and "files_are C' D s"
    and "dr_status d = DraftApproved" and "C' = C \<or> (\<exists>content. C' = Some content \<and> replaces h ra d C content)"
  shows "commit_end h ra d C D s'"
  using mark_committed_effect [OF assms(1,2)] assms(3,4) by (auto simp: commit_end_def)

lemma commit_end_applied:
  assumes run: "bind_op (check_draft h ra d current) (\<lambda>proposed.
          seq_op (write_config h ra proposed) (mark_committed h ra d ''committed'' actor)) s = (r, s')"
    and files: "files_are C D s" and status: "dr_status d = DraftApproved"
    and current: "C = Some input" "parse_json (rh_config h) input = Inr current"
      "ensure_registration_safe_environment current = Inr ()" "rg_fingerprint h current = Inr (dr_base_revision d)"
  shows "commit_end h ra d C D s'"
proof (rule bind_quiet [OF run quiet_check_draft files])
  fix proposed s1
  assume ok: "check_draft h ra d current s = (Ok proposed, s1)" and f1: "files_are C D s1"
    and rest: "seq_op (write_config h ra proposed) (mark_committed h ra d ''committed'' actor) s1 = (r, s')"
  obtain q s2 where w: "write_config h ra proposed s1 = (q, s2)" by fastforce
  from write_config_effect [OF w f1] show ?thesis
  proof (elim disjE exE conjE)
    fix content assume q: "q = Ok ()" and p: "rh_print_config h proposed = Inr content"
      and f2: "files_are (Some content) D s2"
    have "mark_committed h ra d ''committed'' actor s2 = (r, s')"
      using rest w q by (simp add: seq_op_def bind_op_def)
    moreover have "replaces h ra d C content"
      using check_draft_Ok [OF ok] current p unfolding replaces_def by blast
    ultimately show ?thesis using commit_end_marked [OF _ f2 status] by blast
  next
    assume "q \<noteq> Ok ()" and "files_are C D s2"
    with rest w show ?thesis by (cases q) (auto simp: seq_op_def bind_op_def intro: commit_end_same)
  qed
qed (rule commit_end_same)

lemma commit_draft_effect:
  assumes run: "commit_draft h ra d actor s = (r, s')" and files: "files_are C D s"
  shows "commit_end h ra d C D s'"
proof (cases "dr_status d = DraftApproved")
  case False
  have "keeps (files_are C D) (commit_draft h ra d actor)"
    unfolding commit_draft_def by (intro keeps_intro quiet) (use False in blast)+
  from keeps_run [OF this files run] show ?thesis by (rule commit_end_same)
next
  case True
  let ?next = "\<lambda>(current, rv).
        if rv = dr_proposed_revision d then mark_committed h ra d ''commit_recovered'' actor
        else if rv \<noteq> dr_base_revision d then
          fail_op (rx_revision_conflict ''configuration changed after this draft was prepared''
            (dr_base_revision d) rv)
        else bind_op (check_draft h ra d current) (\<lambda>proposed.
          seq_op (write_config h ra proposed) (mark_committed h ra d ''committed'' actor))"
  from run True have "bind_op (commit_gate h ra d) ?next s = (r, s')"
    by (simp add: commit_draft_def)
  then show ?thesis
  proof (rule bind_quiet [OF _ quiet_commit_gate files])
    fix p s1 assume gate: "commit_gate h ra d s = (Ok p, s1)" and f1: "files_are C D s1" and rest: "?next p s1 = (r, s')"
    obtain current rv where p: "p = (current, rv)" by (metis prod.exhaust)
    from commit_gate_Ok [OF gate [unfolded p] files] obtain input where c: "C = Some input"
      "parse_json (rh_config h) input = Inr current" "ensure_registration_safe_environment current = Inr ()"
      "rg_fingerprint h current = Inr rv" by blast
    consider "mark_committed h ra d ''commit_recovered'' actor s1 = (r, s')"
      | "s' = s1"
      | "rv = dr_base_revision d" "bind_op (check_draft h ra d current) (\<lambda>proposed.
          seq_op (write_config h ra proposed) (mark_committed h ra d ''committed'' actor)) s1 = (r, s')"
      using rest unfolding p prod.case
      by (cases "rv = dr_proposed_revision d"; cases "rv = dr_base_revision d") (simp_all add: fail_op_def)
    then show ?thesis
    proof cases
      case 1
      with commit_end_marked [OF _ f1 True] show ?thesis by blast
    next
      case 2
      with f1 show ?thesis by (blast intro: commit_end_same)
    next
      case 3
      with commit_end_applied [OF _ f1 True c(1-3)] c(4) show ?thesis by blast
    qed
  qed (rule commit_end_same)
qed

lemma commit_effect:
  assumes run: "commit_with_actor h ra draft_id actor s = (r, s')" and files: "files_are C D s"
  shows "files_are C D s' \<or> (\<exists>d f. D draft_id = Some f \<and> rh_parse_draft h f = Inr d
     \<and> validate_draft_id draft_id = Inr () \<and> verify_draft h ra d = Inr () \<and> commit_end h ra d C D s')"
proof (rule with_registration_lock_effect [OF run [unfolded commit_with_actor_def] files])
  fix s1 s2 assume f1: "files_are C D s1" and e: "s' = release_lock h s2"
    and b: "bind_op (get_draft h ra draft_id) (\<lambda>d. commit_draft h ra d actor) s1 = (r, s2)"
  have rel: "commit_end h ra d C D s' \<longleftrightarrow> commit_end h ra d C D s2" for d
    by (simp add: e commit_end_def quiet_release)
  show ?thesis
  proof (rule bind_quiet [OF b quiet_get_draft f1])
    fix d s3 assume g: "get_draft h ra draft_id s1 = (Ok d, s3)" and f3: "files_are C D s3"
      and c: "commit_draft h ra d actor s3 = (r, s2)"
    from get_draft_Ok [OF g] f1 commit_draft_effect [OF c f3] show ?thesis
      unfolding rel by (auto simp: files_are_def)
  qed (simp add: e quiet_release)
qed simp

section \<open>When nothing fails\<close>

text \<open>Total correctness: from every state with \<open>P\<close> the operation succeeds, with \<open>Q\<close>.\<close>

definition sure :: "('s \<Rightarrow> bool) \<Rightarrow> ('s, 'a, 'e) op \<Rightarrow> ('a \<Rightarrow> 's \<Rightarrow> bool) \<Rightarrow> bool" where
  "sure P m Q \<longleftrightarrow> (\<forall>s. P s \<longrightarrow> (\<exists>a s'. m s = (Ok a, s') \<and> Q a s'))"

lemma sureI: "(\<And>s. P s \<Longrightarrow> \<exists>a s'. m s = (Ok a, s') \<and> Q a s') \<Longrightarrow> sure P m Q"
  by (simp add: sure_def)

lemma sureD: "sure P m Q \<Longrightarrow> P s \<Longrightarrow> \<exists>a s'. m s = (Ok a, s') \<and> Q a s'"
  by (simp add: sure_def)

lemma sure_bind: "sure P m Q \<Longrightarrow> (\<And>a. sure (Q a) (f a) R) \<Longrightarrow> sure P (bind_op m f) R"
  by (fastforce simp: sure_def bind_op_def)

lemma sure_seq: "sure P m (\<lambda>_. Q) \<Longrightarrow> sure Q n R \<Longrightarrow> sure P (seq_op m n) R"
  unfolding seq_op_def by (rule sure_bind)

lemma sure_return: "(\<And>s. P s \<Longrightarrow> Q a s) \<Longrightarrow> sure P (return_op a) Q"
  by (simp add: sure_def return_op_def)

lemma sure_lift: "v = Inr a \<Longrightarrow> (\<And>s. P s \<Longrightarrow> Q a s) \<Longrightarrow> sure P (lift_sum v) Q"
  by (simp add: sure_def lift_sum_def return_op_def)

lemma sure_checked: "v = Inr a \<Longrightarrow> sure P n R \<Longrightarrow> sure P (seq_op (lift_sum v) n) R"
  by (rule sure_seq [OF sure_lift])

lemma sure_modify: "(\<And>s. P s \<Longrightarrow> Q (f s)) \<Longrightarrow> sure P (modify_op f) (\<lambda>_. Q)"
  by (simp add: sure_def modify_op_def)

text \<open>No call of the operating system fails, and the clock shows at most \<open>limit\<close>.\<close>

definition calm :: "('w, 'f, 'a) registration_host \<Rightarrow> bool" where
  "calm h \<longleftrightarrow> (\<forall>c w. fst (rh_io h c w) = None)"

definition not_later :: "('w, 'f, 'a) registration_host \<Rightarrow> u64 \<Rightarrow> bool" where
  "not_later h limit \<longleftrightarrow> (\<forall>w. \<exists>ms. fst (rh_system_time h w) = Inr ms \<and> ms \<le> unat limit)"

lemma sure_call:
  assumes "calm h" and "\<And>s os. P s \<Longrightarrow> P (s\<lparr>rg_os := os\<rparr>)"
  shows "sure P (call_os h c f) (\<lambda>_. P)"
  using assms by (auto simp: sure_def call_os_def ask_os_def bind_op_def return_op_def calm_def
      split: prod.split option.split) (metis fst_conv option.distinct(1))

lemma files_are_os [simp]: "files_are C D (s\<lparr>rg_os := os\<rparr>) = files_are C D s"
  by (simp add: files_are_def)

lemma sure_get: "(\<And>s. P s \<Longrightarrow> g s = v) \<Longrightarrow> sure P (get_op g) (\<lambda>a s. a = v \<and> P s)"
  by (simp add: sure_def get_op_def)

lemma sure_pure: "(\<phi> \<Longrightarrow> sure P m Q) \<Longrightarrow> sure (\<lambda>s. \<phi> \<and> P s) m Q"
  by (auto simp: sure_def)

lemma sure_Inr: "v = Inr a \<Longrightarrow> sure P (g a) Q \<Longrightarrow> sure P (case v of Inl x \<Rightarrow> f x | Inr y \<Rightarrow> g y) Q"
  by simp

lemma sure_Some: "v = Some a \<Longrightarrow> sure P (g a) Q \<Longrightarrow> sure P (case v of None \<Rightarrow> f | Some y \<Rightarrow> g y) Q"
  by simp

lemma sure_none:
  "sure P m Q \<Longrightarrow> sure (\<lambda>s. r = None \<and> P s) (case r of None \<Rightarrow> m | Some x \<Rightarrow> f x) Q"
  by (cases r) (auto simp: sure_def)

lemma sure_now:
  fixes h :: "('w, 'f, 'a) registration_host"
  assumes "not_later h limit"
  shows "sure (files_are C D) (now_ms h) (\<lambda>now s. now \<le> limit \<and> files_are C D s)"
proof (rule sureI)
  fix s :: "('w, 'f) registration_store" assume s: "files_are C D s"
  from assms obtain ms os where t: "rh_system_time h (rg_os s) = (Inr ms, os)" and le: "ms \<le> unat limit"
    unfolding not_later_def by (metis prod.collapse)
  have "ms < 2 ^ 64" using le unat_le_max [of limit] by simp
  moreover from this have "(of_nat ms :: u64) \<le> limit"
    using le by (simp add: word_le_nat_alt unat_of_nat)
  ultimately show "\<exists>now s'. now_ms h s = (Ok now, s') \<and> now \<le> limit \<and> files_are C D s'"
    using s t by (simp add: now_ms_def bind_op_def ask_os_def return_op_def)
qed

lemma sure_now_any: "not_later h limit \<Longrightarrow> sure (files_are C D) (now_ms h) (\<lambda>_. files_are C D)"
  using sure_now unfolding sure_def by blast

lemma sure_write_json:
  assumes "calm h" and "not_later h limit" and put: "\<And>s. files_are C D s \<Longrightarrow> Q (put content s)"
  shows "sure (files_are C D) (write_json_atomic h (Some dir) (Inr content) put) (\<lambda>_. Q)"
  unfolding write_json_atomic_def option.case sum.case
  by (intro sure_seq [OF sure_call [OF assms(1)]] sure_bind [OF sure_now_any [OF assms(2)]] sure_modify put) simp_all

lemma sure_write_draft:
  assumes "calm h" and "not_later h limit" and "validate_draft_id (dr_draft_id d) = Inr ()"
    and "rh_print_draft h d = Inr f"
  shows "sure (files_are C D) (write_draft h ra d) (\<lambda>_. files_are C (D(dr_draft_id d \<mapsto> f)))"
  unfolding write_draft_def assms(4)
  by (rule sure_seq [OF sure_lift [OF assms(3)] sure_write_json [OF assms(1,2)]]) (auto simp: files_are_def)

lemma sure_audit:
  assumes "calm h" and "not_later h limit"
  shows "sure (files_are C D) (audit h event d actor) (\<lambda>_. files_are C D)"
proof -
  have ask: "sure (files_are C D) (ask_os (rh_io h c)) (\<lambda>r s. r = None \<and> files_are C D s)" for c
    using assms(1) by (auto simp: sure_def ask_os_def calm_def split: prod.split) (metis fst_conv)
  have line: "sure (files_are C D) (append_audit l) (\<lambda>_. files_are C D)" for l
    by (auto simp: sure_def append_audit_def modify_op_def files_are_def)
  show ?thesis
    unfolding audit_def
    by (rule sure_seq [OF sure_call [OF assms(1)]] sure_bind [OF sure_now_any [OF assms(2)]]
        sure_bind [OF ask] sure_none line | simp)+
qed

lemma sure_commit_result: "sure (files_are C D) (commit_result h ra d) (\<lambda>_. files_are C D)"
  by (rule sureI) (auto simp: commit_result_def dest: quiet_observe split: prod.split)

lemma sure_with_registration_lock:
  fixes h :: "('w, 'f, 'a) registration_host"
  assumes calm: "calm h" and time: "not_later h limit" and body: "sure (files_are C D) m Q"
    and rel: "\<And>a s. Q a s \<Longrightarrow> Q a (release_lock h s)"
  shows "sure (\<lambda>s. files_are C D s \<and> \<not> rg_lock s) (with_registration_lock h m) Q"
proof -
  have wl: "sure (files_are C D) (write_lock h) (\<lambda>_. files_are C D)"
    unfolding write_lock_def
    by (intro sure_bind [OF sure_now_any [OF time]] sure_seq [OF sure_call [OF calm]] sure_call calm) simp_all
  have ol: "sure (\<lambda>s. files_are C D s \<and> \<not> rg_lock s) (open_lock h) (\<lambda>_. files_are C D)"
  proof (rule sureI)
    fix s :: "('w, 'f) registration_store" assume s: "files_are C D s \<and> \<not> rg_lock s"
    have "sure (files_are C D) (seq_op (call_os h CallLockOpen f) (modify_op (\<lambda>s. s\<lparr>rg_lock := True\<rparr>))) (\<lambda>_. files_are C D)" for f
      by (intro sure_seq [OF sure_call [OF calm]] sure_modify) (simp_all add: files_are_def)
    from sureD [OF this] s show "\<exists>a s'. open_lock h s = (Ok a, s') \<and> files_are C D s'"
      unfolding open_lock_def bind_op_def get_op_def by simp
  qed
  have lo: "sure (files_are C D) (locked h (seq_op (write_lock h) m)) Q"
  proof (rule sureI)
    fix s :: "('w, 'f) registration_store" assume "files_are C D s"
    from sureD [OF sure_seq [OF wl body] this] rel
    show "\<exists>a s'. locked h (seq_op (write_lock h) m) s = (Ok a, s') \<and> Q a s'"
      unfolding locked_def by force
  qed
  show ?thesis
    unfolding with_registration_lock_def
    by (rule sure_seq [OF sure_call [OF calm] sure_seq [OF ol lo]]) simp
qed

section \<open>Proposals\<close>

lemma extend_issues_set: "set issues \<subseteq> set (extend_issues issues is)"
  by (induction issues "is" rule: extend_issues.induct) auto

lemma extend_issues_Nil [simp]: "extend_issues issues is = [] \<longleftrightarrow> issues = [] \<and> is = []"
proof
  assume e: "extend_issues issues is = []"
  then have "issues = []" using extend_issues_set [of issues "is"] by simp
  with e extend_issues_set [of "[hd is]" "tl is"] show "issues = [] \<and> is = []"
    by (cases "is") auto
qed simp

lemma bt_insert_subset: "set (bt_insert k v m) \<subseteq> insert (k, v) (set m)"
  by (induction k v m rule: bt_insert.induct) auto

lemma unsafe_paths_Nil: "unsafe_environment_paths c = [] \<longleftrightarrow>
    (\<forall>(sid, service) \<in> set (sup_services c). sensitive_environment_keys (sc_environment service) = [])"
  by (auto simp: unsafe_environment_paths_def)

lemma ensure_safe_iff: "ensure_registration_safe_environment c = Inr () \<longleftrightarrow> unsafe_environment_paths c = []"
  by (simp add: ensure_registration_safe_environment_def)

text \<open>An accepted proposal, as far as the target service is concerned and beyond it.\<close>

lemma proposal_accepted:
  assumes ok: "validate_registration_proposal env current oper sid service = Inr (proposed, [], warnings)"
    and ord: "bt_invar (sup_services current)"
  shows "bt_get (sup_services proposed) = (bt_get (sup_services current))(sid := service)"
    and "bt_invar (sup_services proposed)"
    and "proposed\<lparr>sup_services := sup_services current\<rparr> = current"
    and "validate_structure env proposed = Inr ()"
    and "(service = None) = (oper = OpUnregister)"
    and "(bt_get (sup_services current) sid = None) = (oper = OpRegister)"
    and "ensure_registration_safe_environment current = Inr () \<Longrightarrow>
      ensure_registration_safe_environment proposed = Inr ()"
proof -
  obtain extra where pre: "proposal_precondition oper (bt_contains (sup_services current) sid) = Inr ()"
    and ch: "proposal_change current oper sid service = Inr (proposed, extra, warnings)"
    and none: "extra = []" "structural_contract_issues env proposed = []"
    using ok unfolding validate_registration_proposal_def
    by (auto split: sum.splits prod.splits if_splits)
  show "bt_get (sup_services proposed) = (bt_get (sup_services current))(sid := service)"
    and "bt_invar (sup_services proposed)"
    and "proposed\<lparr>sup_services := sup_services current\<rparr> = current"
    and "(service = None) = (oper = OpUnregister)"
    using ch ord unfolding proposal_change_def
    by (auto split: registration_operation.splits option.splits)
  show "validate_structure env proposed = Inr ()"
    using none by (simp add: validate_structure_def invalid_or_def)
  show "(bt_get (sup_services current) sid = None) = (oper = OpRegister)"
    using pre by (cases oper) (auto simp: proposal_precondition_def bt_contains_def split: if_splits)
  assume "ensure_registration_safe_environment current = Inr ()"
  then show "ensure_registration_safe_environment proposed = Inr ()"
    using ch none(1) bt_insert_subset unfolding proposal_change_def ensure_safe_iff unsafe_paths_Nil
    by (fastforce simp: bt_remove_def split: registration_operation.splits option.splits)
qed


end
