(* ===== verification/Registration_Protocol.thy ===== *)
theory Registration_Protocol
  imports Registration_Facts
begin

text \<open>
  The registration system in use: requests that prepare and commit drafts, terminals on which a human
  reviews a draft and confirms it some time later, and everything outside (an editor of the
  configuration, the operating system, a lock file that is removed by hand), which leaves the draft
  files alone. The reviews are the drafts shown on a terminal and not answered yet; what was typed for
  a shown draft is kept as a history.
\<close>

record ('w, 'f) registration_system =
  sy_store :: "('w, 'f) registration_store"
  sy_reviews :: "registration_draft list"
  sy_typed :: "(registration_draft \<times> string) list"

datatype registration_action =
  ActPrepare prepare_registration
| ActReview string bool
| ActConfirm registration_draft string
| ActCommit string string
| ActOutside

inductive registration_step ::
  "('w, 'f, 'a) registration_host \<Rightarrow> registration_authority \<Rightarrow> ('w, 'f) registration_system
     \<Rightarrow> registration_action \<Rightarrow> ('w, 'f) registration_system \<Rightarrow> bool"
  for h ra where
  step_prepare: "prepare h ra r (sy_store y) = (res, s') \<Longrightarrow>
    registration_step h ra y (ActPrepare r) (y\<lparr>sy_store := s'\<rparr>)"
| step_review: "begin_approval h ra draft_id flag (sy_store y) = (Ok d, s') \<Longrightarrow>
    registration_step h ra y (ActReview draft_id flag) (y\<lparr>sy_store := s', sy_reviews := d # sy_reviews y\<rparr>)"
| step_review_refused: "begin_approval h ra draft_id flag (sy_store y) = (Err e, s') \<Longrightarrow>
    registration_step h ra y (ActReview draft_id flag) (y\<lparr>sy_store := s'\<rparr>)"
| step_confirm: "d \<in> set (sy_reviews y) \<Longrightarrow> fst (rh_read_line h (rg_os (sy_store y))) = Inr typed \<Longrightarrow>
    finish_approval h ra d (sy_store y) = (res, s') \<Longrightarrow>
    registration_step h ra y (ActConfirm d typed)
      (y\<lparr>sy_store := s', sy_reviews := remove1 d (sy_reviews y), sy_typed := (d, trim typed) # sy_typed y\<rparr>)"
| step_commit: "commit_with_actor h ra draft_id actor (sy_store y) = (res, s') \<Longrightarrow>
    registration_step h ra y (ActCommit draft_id actor) (y\<lparr>sy_store := s'\<rparr>)"
| step_outside: "rg_drafts s' = rg_drafts (sy_store y) \<Longrightarrow>
    registration_step h ra y ActOutside (y\<lparr>sy_store := s'\<rparr>)"

inductive registration_reach ::
  "('w, 'f, 'a) registration_host \<Rightarrow> registration_authority \<Rightarrow> ('w, 'f) registration_system \<Rightarrow> bool"
  for h ra where
  reach_start: "rg_drafts (sy_store y) = Map.empty \<Longrightarrow> sy_reviews y = [] \<Longrightarrow> sy_typed y = [] \<Longrightarrow>
    registration_reach h ra y"
| reach_step: "registration_reach h ra y \<Longrightarrow> registration_step h ra y act y' \<Longrightarrow> registration_reach h ra y'"

inductive_cases registration_stepE: "registration_step h ra y act y'"

text \<open>The draft without its progress, and a human having typed the phrase of exactly this draft.\<close>

definition proposal_of :: "registration_draft \<Rightarrow> registration_draft" where
  "proposal_of d = d\<lparr>dr_status := DraftPrepared, dr_approved_at := None, dr_committed_at := None\<rparr>"

definition confirmed :: "(registration_draft \<times> string) list \<Rightarrow> registration_draft \<Rightarrow> bool" where
  "confirmed typed d = list_ex (\<lambda>(shown, answer).
     answer = dr_confirmation_phrase shown \<and> proposal_of shown = proposal_of d) typed"

text \<open>What the JSON library promises of the draft files: a file that was written reads back.\<close>

definition drafts_read_back :: "('w, 'f, 'a) registration_host \<Rightarrow> bool" where
  "drafts_read_back h \<longleftrightarrow> (\<forall>d f. rh_print_draft h d = Inr f \<longrightarrow> rh_parse_draft h f = Inr d)"

definition draft_on_disk ::
  "('w, 'f, 'a) registration_host \<Rightarrow> (string \<Rightarrow> 'f option) \<Rightarrow> registration_draft \<Rightarrow> bool" where
  "draft_on_disk h D d \<longleftrightarrow> (\<exists>f d'. D (dr_draft_id d) = Some f \<and> rh_parse_draft h f = Inr d'
     \<and> proposal_of d' = proposal_of d)"

definition drafts_ok ::
  "('w, 'f, 'a) registration_host \<Rightarrow> (registration_draft \<times> string) list \<Rightarrow> (string \<Rightarrow> 'f option) \<Rightarrow> bool" where
  "drafts_ok h typed D \<longleftrightarrow> (\<forall>i f d. D i = Some f \<longrightarrow> rh_parse_draft h f = Inr d \<longrightarrow>
     dr_draft_id d = i \<and> (dr_status d \<noteq> DraftPrepared \<longrightarrow> confirmed typed d))"

definition registration_ok ::
  "('w, 'f, 'a) registration_host \<Rightarrow> ('w, 'f) registration_system \<Rightarrow> bool" where
  "registration_ok h y \<longleftrightarrow> drafts_ok h (sy_typed y) (rg_drafts (sy_store y))
     \<and> (\<forall>d \<in> set (sy_reviews y). draft_on_disk h (rg_drafts (sy_store y)) d)"

section \<open>Steps change drafts in one way\<close>

lemma proposal_of_update [simp]:
  "proposal_of (d\<lparr>dr_status := st, dr_approved_at := t\<rparr>) = proposal_of d"
  "proposal_of (d\<lparr>dr_status := st, dr_committed_at := t\<rparr>) = proposal_of d"
  by (simp_all add: proposal_of_def)

lemma proposal_of_id: "proposal_of d = proposal_of d' \<Longrightarrow> dr_draft_id d = dr_draft_id d'"
  by (simp add: proposal_of_def) (metis registration_draft.select_convs(2) registration_draft.surjective registration_draft.update_convs(12,13,14))

lemma confirmed_Cons: "confirmed typed d \<Longrightarrow> confirmed (x # typed) d"
  by (simp add: confirmed_def)

lemma confirmed_cong: "proposal_of d = proposal_of d' \<Longrightarrow> confirmed typed d = confirmed typed d'"
  by (simp add: confirmed_def)

text \<open>
  The one way in which an operation changes a draft file: a new identifier gets a prepared draft, or
  the draft of an identifier is replaced by one with the same proposal, which was confirmed.
\<close>

definition draft_change ::
  "('w, 'f, 'a) registration_host \<Rightarrow> (registration_draft \<times> string) list \<Rightarrow> (string \<Rightarrow> 'f option)
     \<Rightarrow> (string \<Rightarrow> 'f option) \<Rightarrow> bool" where
  "draft_change h typed D D' \<longleftrightarrow> D' = D \<or> (\<exists>d f. D' = D(dr_draft_id d \<mapsto> f) \<and> rh_parse_draft h f = Inr d
     \<and> (D (dr_draft_id d) = None \<and> dr_status d = DraftPrepared
        \<or> draft_on_disk h D d \<and> confirmed typed d))"

lemma draft_change_ok:
  assumes "drafts_ok h typed D" and "draft_change h typed D D'"
  shows "drafts_ok h typed D'"
  using assms unfolding drafts_ok_def draft_change_def by (auto split: if_splits)

lemma draft_change_on_disk:
  assumes "draft_change h typed D D'" and "draft_on_disk h D d"
  shows "draft_on_disk h D' d"
  using assms unfolding draft_change_def draft_on_disk_def
  by (elim disjE exE conjE) auto

lemma draft_written_change:
  assumes codec: "drafts_read_back h" and w: "draft_written h d C D s"
    and ok: "D (dr_draft_id d) = None \<and> dr_status d = DraftPrepared \<or> draft_on_disk h D d \<and> confirmed typed d"
  shows "draft_change h typed D (rg_drafts s)"
  using w codec ok unfolding draft_written_def drafts_read_back_def draft_change_def files_are_def by blast

lemma draft_on_disk_update [simp]:
  "draft_on_disk h D (d\<lparr>dr_status := st, dr_approved_at := t\<rparr>) = draft_on_disk h D d"
  "draft_on_disk h D (d\<lparr>dr_status := st, dr_committed_at := t\<rparr>) = draft_on_disk h D d"
  by (simp_all add: draft_on_disk_def)

lemma confirmed_update [simp]:
  "confirmed typed (d\<lparr>dr_status := st, dr_approved_at := t\<rparr>) = confirmed typed d"
  "confirmed typed (d\<lparr>dr_status := st, dr_committed_at := t\<rparr>) = confirmed typed d"
  by (simp_all add: confirmed_def)

lemma files_of: "files_are (rg_config s) (rg_drafts s) s"
  by (simp add: files_are_def)

lemma draft_change_refl: "files_are C D s \<Longrightarrow> draft_change h typed D (rg_drafts s)"
  by (simp add: draft_change_def files_are_def)

lemma prepare_change:
  assumes "drafts_read_back h" and "prepare h ra r s = (q, s')"
  shows "draft_change h typed (rg_drafts s) (rg_drafts s') \<and> rg_config s' = rg_config s"
  using prepare_effect [OF assms(2) files_of]
proof (elim disjE exE conjE)
  assume "files_are (rg_config s) (rg_drafts s) s'"
  then show ?thesis by (auto simp: files_are_def draft_change_def)
next
  fix d assume n: "rg_drafts s (dr_draft_id d) = None" "dr_status d = DraftPrepared"
    and w: "draft_written h d (rg_config s) (rg_drafts s) s'"
  with draft_written_change [OF assms(1) w] show ?thesis
    by (auto simp: draft_written_def files_are_def)
qed

lemma finish_approval_typed:
  "fst (rh_read_line h (rg_os s)) = Inr typed \<Longrightarrow>
     finish_approval h ra d s = approve_with_confirmation h ra d (trim typed) (s\<lparr>rg_os := snd (rh_read_line h (rg_os s))\<rparr>)"
  by (auto simp: finish_approval_def bind_op_def ask_os_def split: prod.splits)

lemma confirm_change:
  assumes codec: "drafts_read_back h" and shown: "draft_on_disk h (rg_drafts s) d"
    and line: "fst (rh_read_line h (rg_os s)) = Inr line" and run: "finish_approval h ra d s = (q, s')"
  shows "draft_change h ((d, trim line) # typed) (rg_drafts s) (rg_drafts s') \<and> rg_config s' = rg_config s"
proof -
  have files: "files_are (rg_config s) (rg_drafts s) (s\<lparr>rg_os := snd (rh_read_line h (rg_os s))\<rparr>)"
    by (simp add: files_are_def)
  from run line have "approve_with_confirmation h ra d (trim line) (s\<lparr>rg_os := snd (rh_read_line h (rg_os s))\<rparr>) = (q, s')"
    by (simp add: finish_approval_typed)
  from approve_effect [OF this files] show ?thesis
  proof (elim disjE exE conjE)
    assume "files_are (rg_config s) (rg_drafts s) s'"
    then show ?thesis by (auto simp: files_are_def draft_change_def)
  next
    fix now assume t: "trim line = dr_confirmation_phrase d"
      and w: "draft_written h (d\<lparr>dr_status := DraftApproved, dr_approved_at := Some now\<rparr>) (rg_config s) (rg_drafts s) s'"
    have "confirmed ((d, trim line) # typed) d" using t by (simp add: confirmed_def)
    with shown draft_written_change [OF codec w] w show ?thesis
      by (auto simp: draft_written_def files_are_def)
  qed
qed

lemma drafts_okD:
  "drafts_ok h typed D \<Longrightarrow> D i = Some f \<Longrightarrow> rh_parse_draft h f = Inr d \<Longrightarrow>
     dr_draft_id d = i \<and> (dr_status d \<noteq> DraftPrepared \<longrightarrow> confirmed typed d)"
  by (simp add: drafts_ok_def)

text \<open>What a commit does to both files: the draft it read was confirmed.\<close>

lemma commit_change:
  assumes codec: "drafts_read_back h" and ok: "drafts_ok h typed (rg_drafts s)"
    and run: "commit_with_actor h ra draft_id actor s = (q, s')"
  shows "draft_change h typed (rg_drafts s) (rg_drafts s')
    \<and> (rg_config s' = rg_config s \<or> (\<exists>d content. dr_draft_id d = draft_id \<and> confirmed typed d
        \<and> verify_draft h ra d = Inr () \<and> rg_config s' = Some content \<and> replaces h ra d (rg_config s) content))"
  using commit_effect [OF run files_of]
proof (elim disjE exE conjE)
  assume "files_are (rg_config s) (rg_drafts s) s'"
  then show ?thesis by (simp add: files_are_def draft_change_def)
next
  fix d f assume f: "rg_drafts s draft_id = Some f" "rh_parse_draft h f = Inr d"
    and v: "verify_draft h ra d = Inr ()" and e: "commit_end h ra d (rg_config s) (rg_drafts s) s'"
  from drafts_okD [OF ok f] have i: "dr_draft_id d = draft_id"
    and c: "dr_status d \<noteq> DraftPrepared \<Longrightarrow> confirmed typed d" by blast+
  with f have disk: "draft_on_disk h (rg_drafts s) d" by (auto simp: draft_on_disk_def)
  show ?thesis
  proof (cases "files_are (rg_config s) (rg_drafts s) s'")
    case True
    then show ?thesis by (simp add: files_are_def draft_change_def)
  next
    case False
    with e obtain now C' where a: "dr_status d = DraftApproved"
      and C': "C' = rg_config s \<or> (\<exists>content. C' = Some content \<and> replaces h ra d (rg_config s) content)"
      and w: "files_are C' (rg_drafts s) s'
        \<or> draft_written h (d\<lparr>dr_status := DraftCommitted, dr_committed_at := Some now\<rparr>) C' (rg_drafts s) s'"
      unfolding commit_end_def by blast
    have conf: "confirmed typed d" using a c by simp
    from w have "rg_config s' = C'" by (auto simp: draft_written_def files_are_def)
    moreover have "draft_change h typed (rg_drafts s) (rg_drafts s')"
      using w draft_change_refl draft_written_change [OF codec] disk conf by fastforce
    ultimately show ?thesis using C' i v conf by blast
  qed
qed

lemma begin_approval_Ok:
  "begin_approval h ra draft_id flag s = (Ok d, s') \<Longrightarrow>
     files_are (rg_config s) (rg_drafts s) s'
     \<and> (\<exists>f. rg_drafts s draft_id = Some f \<and> rh_parse_draft h f = Inr d)"
proof (rule conjI)
  assume run: "begin_approval h ra draft_id flag s = (Ok d, s')"
  then show "files_are (rg_config s) (rg_drafts s) s'"
    by (rule keeps_run [OF quiet_begin_approval files_of])
  from run show "\<exists>f. rg_drafts s draft_id = Some f \<and> rh_parse_draft h f = Inr d"
    unfolding begin_approval_def seq_op_def
    by (auto simp: bind_op_Ok guard_op_Ok return_op_def ask_os_def split: prod.splits dest!: get_draft_Ok)
qed

section \<open>The invariant\<close>

lemma step_change:
  assumes codec: "drafts_read_back h" and ok: "registration_ok h y" and step: "registration_step h ra y act y'"
  shows "draft_change h (sy_typed y') (rg_drafts (sy_store y)) (rg_drafts (sy_store y'))
    \<and> (\<forall>d \<in> set (sy_reviews y'). d \<in> set (sy_reviews y) \<or> draft_on_disk h (rg_drafts (sy_store y)) d)
    \<and> (\<forall>d. confirmed (sy_typed y) d \<longrightarrow> confirmed (sy_typed y') d)"
  using step
proof (cases rule: registration_step.cases)
  case (step_prepare r res s')
  then show ?thesis using prepare_change [OF codec] by simp
next
  case (step_review draft_id flag d s')
  from begin_approval_Ok [OF step_review(3)] obtain f where
    f: "rg_drafts (sy_store y) draft_id = Some f" "rh_parse_draft h f = Inr d"
    and same: "rg_drafts s' = rg_drafts (sy_store y)" by (auto simp: files_are_def)
  from ok f have "dr_draft_id d = draft_id" by (auto simp: registration_ok_def dest: drafts_okD)
  with f have "draft_on_disk h (rg_drafts (sy_store y)) d" by (auto simp: draft_on_disk_def)
  then show ?thesis using step_review same by (simp add: draft_change_def)
next
  case (step_review_refused draft_id flag e s')
  have "files_are (rg_config (sy_store y)) (rg_drafts (sy_store y)) s'"
    by (rule keeps_run [OF quiet_begin_approval files_of step_review_refused(3)])
  then show ?thesis using step_review_refused by (simp add: draft_change_refl)
next
  case (step_confirm d typed res s')
  with ok have "draft_on_disk h (rg_drafts (sy_store y)) d" by (simp add: registration_ok_def)
  with confirm_change [OF codec _ step_confirm(4,5)] step_confirm show ?thesis
    by (auto simp: confirmed_Cons dest: set_remove1_subset [THEN subsetD])
next
  case (step_commit draft_id actor res s')
  with commit_change [OF codec _ step_commit(3)] ok show ?thesis by (simp add: registration_ok_def)
next
  case (step_outside s')
  then show ?thesis by (simp add: draft_change_def)
qed

lemma drafts_ok_mono:
  "drafts_ok h typed D \<Longrightarrow> (\<And>d. confirmed typed d \<Longrightarrow> confirmed typed' d) \<Longrightarrow> drafts_ok h typed' D"
  by (auto simp: drafts_ok_def)

lemma registration_step_ok:
  assumes "drafts_read_back h" and "registration_ok h y" and "registration_step h ra y act y'"
  shows "registration_ok h y'"
proof -
  from step_change [OF assms] have
    change: "draft_change h (sy_typed y') (rg_drafts (sy_store y)) (rg_drafts (sy_store y'))"
    and reviews: "\<And>d. d \<in> set (sy_reviews y') \<Longrightarrow>
      d \<in> set (sy_reviews y) \<or> draft_on_disk h (rg_drafts (sy_store y)) d"
    and typed: "\<And>d. confirmed (sy_typed y) d \<Longrightarrow> confirmed (sy_typed y') d" by blast+
  from assms(2) have "drafts_ok h (sy_typed y') (rg_drafts (sy_store y))"
    unfolding registration_ok_def by (blast intro: drafts_ok_mono typed)
  from draft_change_ok [OF this change] show ?thesis
    using reviews assms(2) draft_change_on_disk [OF change] unfolding registration_ok_def by blast
qed

lemma registration_reach_ok:
  "registration_reach h ra y \<Longrightarrow> drafts_read_back h \<Longrightarrow> registration_ok h y"
proof (induction rule: registration_reach.induct)
  case (reach_start y)
  then show ?case by (simp add: registration_ok_def drafts_ok_def)
next
  case (reach_step y act y')
  then show ?case using registration_step_ok by blast
qed

end
