(* ===== verification/Registration_Properties.thy ===== *)
theory Registration_Properties
  imports Registration_Protocol Config_Properties
begin

text \<open>
  The properties of the registration of services, each with a concrete run of the example host at the
  end of the theory.
\<close>

section \<open>Retrying a commit\<close>

lemma verify_draft_progress [simp]:
  "verify_draft h ra (d\<lparr>dr_status := st, dr_committed_at := t\<rparr>) = verify_draft h ra d"
  "verify_draft h ra (d\<lparr>dr_status := st, dr_approved_at := t\<rparr>) = verify_draft h ra d"
  by (simp_all add: verify_draft_def split: sum.split)

lemma sure_get_draft:
  assumes "calm h" and "validate_draft_id i = Inr ()" and "D i = Some f" and "rh_parse_draft h f = Inr d"
    and "verify_draft h ra d = Inr ()"
  shows "sure (files_are C D) (get_draft h ra i) (\<lambda>d' s. d' = d \<and> files_are C D s)"
  unfolding get_draft_def
  apply (rule sure_checked [OF assms(2)])
  apply (rule sure_bind [OF sure_get [where v = "D i"]], simp add: files_are_def)
  apply (rule sure_pure)
  apply (rule sure_Some [OF trans [OF _ assms(3)]], assumption)
  apply (rule sure_seq [OF sure_call [OF assms(1)]], simp)
  apply (rule sure_Inr [OF assms(4)])
  apply (rule sure_checked [OF assms(5)])
  by (rule sure_return) simp

lemma sure_current_config:
  assumes "calm h" and "parse_json (rh_config h) content = Inr c"
    and "validate_structure (pl_env (rh_paths h)) c = Inr ()" and "ensure_registration_safe_environment c = Inr ()"
  shows "sure (files_are (Some content) D) (current_config h ra) (\<lambda>c' s. c' = c \<and> files_are (Some content) D s)"
proof -
  have read: "sure (files_are (Some content) D) (read_structural_config h path) (\<lambda>c' s. c' = c \<and> files_are (Some content) D s)" for path
    unfolding read_structural_config_def
    apply (rule sure_seq [OF sure_call [OF assms(1)]], simp)
    apply (rule sure_bind [OF sure_get [where v = "Some content"]], simp add: files_are_def)
    apply (rule sure_pure)
    apply (rule sure_Some, assumption)
    apply (rule sure_Inr [OF assms(2)])
    apply (rule sure_Inr [OF assms(3)])
    by (rule sure_return) simp
  show ?thesis
    unfolding current_config_def
    apply (rule sure_bind [OF read])
    apply (rule sure_pure)
    apply (rule sure_checked [where a = "()"], simp add: assms(4))
    by (rule sure_return) simp
qed

lemma sure_mark_committed:
  assumes "calm h" and "not_later h limit" and "validate_draft_id (dr_draft_id d) = Inr ()"
    and print: "\<And>d. \<exists>f. rh_print_draft h d = Inr f" and codec: "drafts_read_back h"
  shows "sure (files_are C D) (mark_committed h ra d event actor) (\<lambda>_ s. \<exists>f d'.
    files_are C (D(dr_draft_id d \<mapsto> f)) s \<and> rh_parse_draft h f = Inr d' \<and> dr_status d' = DraftCommitted)"
  unfolding mark_committed_def Let_def
proof (rule sure_bind [OF sure_now_any [OF assms(2)]])
  fix now
  let ?d = "d\<lparr>dr_status := DraftCommitted, dr_committed_at := Some now\<rparr>"
  obtain f where f: "rh_print_draft h ?d = Inr f" using print by blast
  with codec have p: "rh_parse_draft h f = Inr ?d" by (simp add: drafts_read_back_def)
  have "sure (files_are C D) (seq_op (write_draft h ra ?d)
      (seq_op (audit h event ?d (Some actor)) (commit_result h ra ?d)))
    (\<lambda>_. files_are C (D(dr_draft_id ?d \<mapsto> f)))"
    using assms(3)
    by (intro sure_seq [OF sure_write_draft [OF assms(1,2) _ f]] sure_seq [OF sure_audit [OF assms(1,2)]]
        sure_commit_result) simp
  then show "sure (files_are C D) (seq_op (write_draft h ra ?d)
      (seq_op (audit h event ?d (Some actor)) (commit_result h ra ?d))) (\<lambda>_ s. \<exists>f d'.
    files_are C (D(dr_draft_id d \<mapsto> f)) s \<and> rh_parse_draft h f = Inr d' \<and> dr_status d' = DraftCommitted)"
    using p unfolding sure_def by fastforce
qed

text \<open>The text of a configuration that was written reads back.\<close>

definition configs_read_back :: "('w, 'f, 'a) registration_host \<Rightarrow> bool" where
  "configs_read_back h \<longleftrightarrow>
     (\<forall>c content. rh_print_config h c = Inr content \<longrightarrow> parse_json (rh_config h) content = Inr c)"

lemma sure_commit_gate:
  assumes "calm h" and "not_later h (dr_expires_at d)" and "parse_json (rh_config h) content = Inr c"
    and "validate_structure (pl_env (rh_paths h)) c = Inr ()" and "ensure_registration_safe_environment c = Inr ()"
    and "rg_fingerprint h c = Inr rv"
  shows "sure (files_are (Some content) D) (commit_gate h ra d)
    (\<lambda>p s. p = (c, rv) \<and> files_are (Some content) D s)"
proof -
  have "sure (files_are (Some content) D) (bind_op (current_config h ra) (\<lambda>current.
      bind_op (lift_sum (rg_fingerprint h current)) (\<lambda>rv. return_op (current, rv))))
    (\<lambda>p s. p = (c, rv) \<and> files_are (Some content) D s)"
    by (rule sure_bind [OF sure_current_config [OF assms(1,3-5)]])
      (auto simp: sure_def bind_op_def lift_sum_def return_op_def assms(6))
  then show ?thesis
    unfolding commit_gate_def
    by (intro sure_bind [OF sure_now [OF assms(2)]])
      (auto simp: sure_def not_less)
qed

text \<open>
  A draft that is approved while the configuration is its proposal already (the commit was interrupted
  after the replacement) is marked by the next commit; a committed draft answers again.
\<close>

lemma retried_commit:
  assumes calm: "calm h" and time: "not_later h (dr_expires_at d)" and codec: "drafts_read_back h"
    and print: "\<And>d. \<exists>f. rh_print_draft h d = Inr f"
    and draft: "D i = Some f" "rh_parse_draft h f = Inr d" "dr_draft_id d = i" "validate_draft_id i = Inr ()"
      "verify_draft h ra d = Inr ()"
    and state: "dr_status d = DraftCommitted \<or> dr_status d = DraftApproved
      \<and> parse_json (rh_config h) content = Inr c \<and> validate_structure (pl_env (rh_paths h)) c = Inr ()
      \<and> ensure_registration_safe_environment c = Inr () \<and> rg_fingerprint h c = Inr (dr_proposed_revision d)"
  shows "sure (\<lambda>s. files_are (Some content) D s \<and> \<not> rg_lock s) (commit_with_actor h ra i actor)
    (\<lambda>_ s. rg_config s = Some content \<and> (\<exists>f d. rg_drafts s i = Some f \<and> rh_parse_draft h f = Inr d
      \<and> dr_status d = DraftCommitted))"
  unfolding commit_with_actor_def
proof (rule sure_with_registration_lock [OF calm time])
  let ?Q = "\<lambda>s. rg_config s = Some content \<and> (\<exists>f d. rg_drafts s i = Some f \<and> rh_parse_draft h f = Inr d
      \<and> dr_status d = DraftCommitted)"
  show "?Q (release_lock h s)" if "?Q s" for s
    using that quiet_release [of "rg_config s" "rg_drafts s" h s] by (simp add: files_are_def)
  show "sure (files_are (Some content) D) (bind_op (get_draft h ra i) (\<lambda>d. commit_draft h ra d actor)) (\<lambda>_. ?Q)"
  proof (rule sure_bind [OF sure_get_draft [where D = D, OF calm draft(4,1,2,5)]])
    fix d' show "sure (\<lambda>s. d' = d \<and> files_are (Some content) D s) (commit_draft h ra d' actor) (\<lambda>_. ?Q)"
    proof (cases "dr_status d = DraftCommitted")
      case True
      then show ?thesis
        using sureD [OF sure_commit_result, of "Some content" D] draft(1,2) unfolding sure_def commit_draft_def
        by (fastforce simp: files_are_def)
    next
      case False
      with state have a: "dr_status d = DraftApproved" and c: "parse_json (rh_config h) content = Inr c"
        "validate_structure (pl_env (rh_paths h)) c = Inr ()" "ensure_registration_safe_environment c = Inr ()"
        "rg_fingerprint h c = Inr (dr_proposed_revision d)" by blast+
      have m: "sure (files_are (Some content) D) (mark_committed h ra d ''commit_recovered'' actor) (\<lambda>_. ?Q)"
        using sure_mark_committed [OF calm time _ print codec, of d "Some content" D ra "''commit_recovered''" actor] draft(3,4)
        unfolding sure_def by (fastforce simp: files_are_def)
      have "sure (files_are (Some content) D) (commit_draft h ra d actor) (\<lambda>_. ?Q)"
        using a unfolding commit_draft_def
        by (simp, intro sure_bind [OF sure_commit_gate [OF calm time c]]) (use m in \<open>auto simp: sure_def\<close>)
      then show ?thesis by (auto simp: sure_def)
    qed
  qed
qed

section \<open>Confirming and committing when nothing fails\<close>

text \<open>The human types the phrase of the draft, with or without white space around it.\<close>

definition types_phrase :: "('w, 'f, 'a) registration_host \<Rightarrow> registration_draft \<Rightarrow> bool" where
  "types_phrase h d \<longleftrightarrow>
     (\<forall>w. \<exists>typed. fst (rh_read_line h w) = Inr typed \<and> trim typed = dr_confirmation_phrase d)"

lemma sure_finish_approval:
  fixes h :: "('w, 'f, 'a) registration_host"
  assumes calm: "calm h" and time: "not_later h (dr_expires_at d)" and "types_phrase h d"
    and "dr_status d = DraftPrepared" and id: "validate_draft_id (dr_draft_id d) = Inr ()"
    and print: "\<And>d. \<exists>f. rh_print_draft h d = Inr f"
  shows "sure (files_are C D) (finish_approval h ra d) (\<lambda>d' s. \<exists>now f.
    d' = d\<lparr>dr_status := DraftApproved, dr_approved_at := Some now\<rparr> \<and> rh_print_draft h d' = Inr f
    \<and> files_are C (D(dr_draft_id d \<mapsto> f)) s)" (is "sure _ _ ?Q")
proof -
  have rec: "sure (files_are C D) (record_approval h ra d) ?Q"
    unfolding record_approval_def Let_def
  proof (rule sure_bind [OF sure_now_any [OF time]])
    fix now
    let ?d = "d\<lparr>dr_status := DraftApproved, dr_approved_at := Some now\<rparr>"
    obtain f where f: "rh_print_draft h ?d = Inr f" using print by blast
    have "sure (files_are C D) (seq_op (write_draft h ra ?d) (seq_op (audit h ''approved'' ?d (Some ''human_cli''))
        (return_op ?d))) (\<lambda>d' s. d' = ?d \<and> files_are C (D(dr_draft_id ?d \<mapsto> f)) s)"
      using id by (intro sure_seq [OF sure_write_draft [OF calm time _ f]] sure_seq [OF sure_audit [OF calm time]]
        sure_return) simp_all
    then show "sure (files_are C D) (seq_op (write_draft h ra ?d) (seq_op (audit h ''approved'' ?d (Some ''human_cli''))
        (return_op ?d))) ?Q"
      using f unfolding sure_def by fastforce
  qed
  have "sure (files_are C D) (approve_with_confirmation h ra d (dr_confirmation_phrase d)) ?Q"
    using assms(4) unfolding approve_with_confirmation_def
    by (simp, intro sure_bind [OF sure_now [OF time]]) (use rec in \<open>auto simp: sure_def not_less\<close>)
  then have app: "sure (files_are C D) (approve_with_confirmation h ra d (trim typed)) ?Q"
    if "trim typed = dr_confirmation_phrase d" for typed using that by simp
  show ?thesis
  proof (rule sureI)
    fix s :: "('w, 'f) registration_store" assume s: "files_are C D s"
    from assms(3) obtain typed where t: "fst (rh_read_line h (rg_os s)) = Inr typed" "trim typed = dr_confirmation_phrase d"
      unfolding types_phrase_def by blast
    from sureD [OF app [OF t(2)], of "s\<lparr>rg_os := snd (rh_read_line h (rg_os s))\<rparr>"] s
    show "\<exists>a s'. finish_approval h ra d s = (Ok a, s') \<and> ?Q a s'"
      unfolding finish_approval_typed [OF t(1)] by simp
  qed
qed

lemma sure_check_register:
  assumes "dr_operation d = OpRegister" and "draft_service d = Inr service"
    and "validate_registration_proposal (pl_env (rh_paths h)) current OpRegister (dr_service_id d) service
      = Inr (proposed, [], warnings)"
    and "rg_fingerprint h proposed = Inr (dr_proposed_revision d)"
  shows "sure P (check_draft h ra d current) (\<lambda>p s. p = proposed \<and> P s)"
  unfolding check_draft_def using assms
  by (simp add: sure_def seq_op_def bind_op_def return_op_def lift_sum_def guard_op_def)

text \<open>An approved registration that is not out of date is committed.\<close>

lemma sure_commit_register:
  fixes h :: "('w, 'f, 'a) registration_host"
  assumes calm: "calm h" and time: "not_later h (dr_expires_at d)" and codec: "drafts_read_back h"
    and print: "\<And>d. \<exists>f. rh_print_draft h d = Inr f"
    and draft: "D i = Some f" "rh_parse_draft h f = Inr d" "dr_draft_id d = i" "validate_draft_id i = Inr ()"
      "verify_draft h ra d = Inr ()" "dr_status d = DraftApproved" "dr_operation d = OpRegister"
    and current: "parse_json (rh_config h) content = Inr current"
      "validate_structure (pl_env (rh_paths h)) current = Inr ()"
      "ensure_registration_safe_environment current = Inr ()" "rg_fingerprint h current = Inr (dr_base_revision d)"
    and new: "draft_service d = Inr service"
      "validate_registration_proposal (pl_env (rh_paths h)) current OpRegister (dr_service_id d) service
        = Inr (proposed, [], warnings)"
      "rg_fingerprint h proposed = Inr (dr_proposed_revision d)" "dr_proposed_revision d \<noteq> dr_base_revision d"
    and disk: "pl_parent (rh_paths h) (ra_configuration_path ra) = Some dir" "rh_print_config h proposed = Inr content'"
  shows "sure (\<lambda>s. files_are (Some content) D s \<and> \<not> rg_lock s) (commit_with_actor h ra i actor)
    (\<lambda>_ s. rg_config s = Some content' \<and> (\<exists>f d. rg_drafts s i = Some f \<and> rh_parse_draft h f = Inr d
      \<and> dr_status d = DraftCommitted))"
  unfolding commit_with_actor_def
proof (rule sure_with_registration_lock [OF calm time])
  let ?Q = "\<lambda>s. rg_config s = Some content' \<and> (\<exists>f d. rg_drafts s i = Some f \<and> rh_parse_draft h f = Inr d
      \<and> dr_status d = DraftCommitted)"
  show "?Q (release_lock h s)" if "?Q s" for s
    using that quiet_release [of "rg_config s" "rg_drafts s" h s] by (simp add: files_are_def)
  have m: "sure (files_are (Some content') D) (mark_committed h ra d ''committed'' actor) (\<lambda>_. ?Q)"
    using sure_mark_committed [OF calm time _ print codec, of d "Some content'" D ra "''committed''" actor] draft(3,4)
    unfolding sure_def by (fastforce simp: files_are_def)
  have w: "sure (files_are (Some content) D) (write_config h ra proposed) (\<lambda>_. files_are (Some content') D)"
    unfolding write_config_def disk by (rule sure_write_json [OF calm time]) (simp add: files_are_def)
  have c: "sure (files_are (Some content) D) (commit_draft h ra d actor) (\<lambda>_. ?Q)"
    unfolding commit_draft_def using draft(6)
    apply (simp, intro sure_bind [OF sure_commit_gate [OF calm time current]])
    subgoal for p
      using sure_bind [OF sure_check_register [OF draft(7) new(1-3)], where f = "\<lambda>p. seq_op (write_config h ra p)
        (mark_committed h ra d ''committed'' actor)" and R = "\<lambda>_. ?Q" and P = "files_are (Some content) D"]
        sure_seq [OF w m] new(4)
      by (cases p) (auto simp: sure_def)
    done
  show "sure (files_are (Some content) D) (bind_op (get_draft h ra i) (\<lambda>d. commit_draft h ra d actor)) (\<lambda>_. ?Q)"
    by (rule sure_bind [OF sure_get_draft [where D = D, OF calm draft(4,1,2,5)]]) (use c in \<open>auto simp: sure_def\<close>)
qed

section \<open>Preparing twice\<close>

lemma new_draft_verified:
  assumes "propose h ra r s = (Ok d, s')"
  shows "verify_draft h ra d = Inr () \<and> request_matches_draft r d"
proof -
  obtain current rv proposed warnings prv hash now where
    d: "d = new_draft h ra r current rv proposed warnings prv hash now"
    and inv: "bt_invar (sup_services current)" and b: "pr_base_revision r = rv"
    and v: "validate_registration_proposal (pl_env (rh_paths h)) current (pr_operation r) (pr_service_id r)
      (pr_service r) = Inr (proposed, [], warnings)"
    and f: "rg_fingerprint h proposed = Inr prv"
    and hash: "hash_value h (proposal_json h (pr_request_id r) (pr_operation r) (pr_service_id r)
      (pr_base_revision r) prv proposed) = Inr hash"
    using propose_Ok [OF assms] by blast
  have "verify_draft h ra d = Inr ()"
    using hash f b by (simp add: verify_draft_def d new_draft_def)
  moreover have "request_matches_draft r d"
    using proposal_accepted(1,5) [OF v inv] b
    by (auto simp: request_matches_draft_def d new_draft_def bt_contains_def split: option.split)
  ultimately show ?thesis ..
qed

lemma persist_new_draft:
  assumes run: "persist_draft h ra d s = (Ok d', s')" and new: "rg_drafts s (dr_draft_id d) = None"
    and codec: "drafts_read_back h"
  shows "d' = d \<and> (\<exists>f. rg_drafts s' (dr_draft_id d) = Some f \<and> rh_parse_draft h f = Inr d)"
proof -
  from run obtain s1 where c: "call_os h CallDraftsDirectory (rx_io_error ''draft_directory_create'') s = (Ok (), s1)"
    and rest: "bind_op (get_op (\<lambda>s. rg_drafts s (dr_draft_id d) \<noteq> None)) (\<lambda>exists.
         if exists then
           bind_op (get_draft h ra (dr_draft_id d)) (\<lambda>existing.
             if dr_proposal_hash existing = dr_proposal_hash d then return_op existing
             else fail_op request_id_conflict)
         else seq_op (write_draft h ra d)
             (seq_op (audit h ''prepared'' d (Some ''registration_mcp'')) (return_op d))) s1 = (Ok d', s')"
    unfolding persist_draft_def seq_op_def [of "call_os h c f" for c f] bind_op_Ok [of "call_os h c f" for c f]
    by auto
  have f1: "files_are (rg_config s) (rg_drafts s) s1" by (rule keeps_run [OF quiet_call files_of c])
  with rest new have "seq_op (write_draft h ra d)
      (seq_op (audit h ''prepared'' d (Some ''registration_mcp'')) (return_op d)) s1 = (Ok d', s')"
    by (simp add: bind_op_def get_op_def files_are_def)
  then obtain s2 s3 where w: "write_draft h ra d s1 = (Ok (), s2)"
    and a: "audit h ''prepared'' d (Some ''registration_mcp'') s2 = (Ok (), s3)" and e: "d' = d" "s' = s3"
    unfolding seq_op_def bind_op_Ok return_op_def by auto
  from write_draft_effect [OF w f1] obtain f where p: "rh_print_draft h d = Inr f"
    and f2: "files_are (rg_config s) ((rg_drafts s)(dr_draft_id d \<mapsto> f)) s2" by auto
  from keeps_run [OF quiet_audit f2 a] have "rg_drafts s3 (dr_draft_id d) = Some f" by (simp add: files_are_def)
  with p codec e show ?thesis by (auto simp: drafts_read_back_def)
qed

text \<open>The scope of \<open>prepare\<close> under the lock.\<close>

definition prepare_body ::
  "('w, 'f, 'a) registration_host \<Rightarrow> registration_authority \<Rightarrow> prepare_registration
     \<Rightarrow> (('w, 'f) registration_store, registration_draft, registration_error) op" where
  "prepare_body h ra r = (let draft_id = draft_id_for_request h (pr_request_id r) in
     seq_op (lift_sum (validate_draft_id draft_id))
       (bind_op (get_op (\<lambda>s. rg_drafts s draft_id \<noteq> None)) (\<lambda>exists.
         if exists then
           bind_op (get_draft h ra draft_id) (\<lambda>existing.
             if request_matches_draft r existing then return_op existing
             else fail_op request_id_conflict)
         else bind_op (propose h ra r) (persist_draft h ra))))"

lemma prepare_unfold: "prepare h ra r = seq_op (lift_sum (validate_request_id (pr_request_id r)))
    (seq_op (lift_sum (rg_validate_service_id (pr_service_id r))) (with_registration_lock h (prepare_body h ra r)))"
  by (simp add: prepare_def prepare_body_def)

lemma prepare_body_Ok:
  assumes codec: "drafts_read_back h" and run: "prepare_body h ra r s = (Ok d, s')"
  shows "validate_draft_id (draft_id_for_request h (pr_request_id r)) = Inr ()
    \<and> verify_draft h ra d = Inr () \<and> request_matches_draft r d
    \<and> (\<exists>f. rg_drafts s' (draft_id_for_request h (pr_request_id r)) = Some f \<and> rh_parse_draft h f = Inr d)"
proof -
  let ?i = "draft_id_for_request h (pr_request_id r)"
  have id: "validate_draft_id ?i = Inr ()"
    and rest: "(if rg_drafts s ?i \<noteq> None then bind_op (get_draft h ra ?i) (\<lambda>existing.
        if request_matches_draft r existing then return_op existing else fail_op request_id_conflict)
      else bind_op (propose h ra r) (persist_draft h ra)) s = (Ok d, s')"
    using run unfolding prepare_body_def Let_def seq_op_def bind_op_Ok lift_sum_Ok get_op_def by auto
  show ?thesis
  proof (cases "rg_drafts s ?i")
    case None
    with rest obtain d0 s1 where p: "propose h ra r s = (Ok d0, s1)" and q: "persist_draft h ra d0 s1 = (Ok d, s')"
      unfolding bind_op_Ok by (auto simp: bind_op_Ok)
    have "rg_drafts s1 ?i = None"
      using keeps_run [OF quiet_propose files_of p] None by (simp add: files_are_def)
    with persist_new_draft [OF q _ codec] propose_prepared [OF p] new_draft_verified [OF p] id
    show ?thesis by auto
  next
    case (Some f)
    with rest obtain s1 where g: "get_draft h ra ?i s = (Ok d, s')" and m: "request_matches_draft r d"
      by (auto simp: bind_op_Ok fail_op_def return_op_def split: if_splits)
    with get_draft_Ok [OF g] keeps_run [OF quiet_get_draft files_of g] id show ?thesis
      by (auto simp: files_are_def)
  qed
qed

lemma prepare_Ok:
  assumes codec: "drafts_read_back h" and run: "prepare h ra r s = (Ok d, s')"
  shows "validate_request_id (pr_request_id r) = Inr () \<and> rg_validate_service_id (pr_service_id r) = Inr ()
    \<and> validate_draft_id (draft_id_for_request h (pr_request_id r)) = Inr ()
    \<and> verify_draft h ra d = Inr () \<and> request_matches_draft r d
    \<and> (\<exists>f. rg_drafts s' (draft_id_for_request h (pr_request_id r)) = Some f \<and> rh_parse_draft h f = Inr d)"
proof -
  have ids: "validate_request_id (pr_request_id r) = Inr ()" "rg_validate_service_id (pr_service_id r) = Inr ()"
    and l: "with_registration_lock h (prepare_body h ra r) s = (Ok d, s')"
    using run unfolding prepare_unfold seq_op_def [of "lift_sum x" for x] bind_op_Ok lift_sum_Ok by auto
  obtain s1 s2 where "prepare_body h ra r s1 = (Ok d, s2)" and "s' = release_lock h s2"
    using with_registration_lock_effect [OF l files_of] by blast
  then have "rg_drafts s' = rg_drafts s2"
    using quiet_release [of "rg_config s2" "rg_drafts s2" h s2] by (simp add: files_are_def)
  with ids prepare_body_Ok [OF codec \<open>prepare_body h ra r s1 = (Ok d, s2)\<close>] show ?thesis by simp
qed

text \<open>A request whose draft exists already.\<close>

lemma prepare_again:
  assumes "validate_request_id (pr_request_id r) = Inr ()" and "rg_validate_service_id (pr_service_id r) = Inr ()"
    and id: "validate_draft_id (draft_id_for_request h (pr_request_id r)) = Inr ()"
    and d: "verify_draft h ra d = Inr ()" "request_matches_draft r d"
      "D (draft_id_for_request h (pr_request_id r)) = Some f" "rh_parse_draft h f = Inr d"
    and calm: "calm h" and time: "not_later h limit"
  shows "sure (\<lambda>s. files_are C D s \<and> \<not> rg_lock s) (prepare h ra r) (\<lambda>d' s. d' = d)"
proof -
  have got: "sure (files_are C D) (bind_op (get_draft h ra (draft_id_for_request h (pr_request_id r))) (\<lambda>existing.
        if request_matches_draft r existing then return_op existing else fail_op request_id_conflict)) (\<lambda>d' _. d' = d)"
    by (rule sure_bind [OF sure_get_draft [where D = D, OF calm id d(3,4,1)]])
      (use d(2) in \<open>auto simp: sure_def return_op_def\<close>)
  have body: "sure (files_are C D) (prepare_body h ra r) (\<lambda>d' _. d' = d)"
    unfolding prepare_body_def Let_def
    apply (rule sure_checked [OF id])
    apply (rule sure_bind [OF sure_get [where v = True]], simp add: files_are_def d(3))
    apply (rule sure_pure)
    using got by simp
  have "sure (\<lambda>s. files_are C D s \<and> \<not> rg_lock s) (with_registration_lock h (prepare_body h ra r)) (\<lambda>d' _. d' = d)"
    by (rule sure_with_registration_lock [OF calm time body])
  then show ?thesis
    unfolding prepare_unfold
    by (intro sure_checked [OF assms(1)] sure_checked [OF assms(2)])
qed

section \<open>An example\<close>

definition example_paths :: path_library where
  "example_paths = \<lparr>pl_env = example_env, pl_parent = (\<lambda>p. Some ''/srv''), pl_absolute = Inr\<rparr>"

definition one_service :: "(string, service_config) btree" where
  "one_service = [(''db'', example_service [] [5432])]"

definition example_library :: config_library where
  "example_library = \<lparr>
     cl_parse = (\<lambda>input. if input = ''one'' then Inr (example_config [], one_service)
       else if input = ''two'' then Inr (example_config [], example_pair) else Inl ''unexpected input''),
     cl_locate = (\<lambda>input message. message),
     cl_fingerprint = (\<lambda>c. Inr (decimal (length (sup_services c))))\<rparr>"

definition example_host :: "(unit, registration_draft, unit) registration_host" where
  "example_host = \<lparr>rh_paths = example_paths, rh_config = example_library,
     rh_print_config = (\<lambda>c. if c = example_config example_pair then Inr ''two'' else Inl ''unexpected''),
     rh_print_draft = Inr, rh_parse_draft = Inr,
     rh_config_json = (\<lambda>c. JNull), rh_service_json = (\<lambda>s. JNull),
     rh_to_vec = (\<lambda>v. Inr ''proposal''), rh_pretty = (\<lambda>v. Inr ''{}''),
     rh_digest = (\<lambda>t. replicate 64 (CHR ''a'')), rh_snapshot = (\<lambda>v. None), rh_address = (\<lambda>t. Inr ()),
     rh_io = (\<lambda>c w. (None, w)), rh_not_found = ''not found'',
     rh_token_file = (\<lambda>p w. (Inl IoNotFound, w)), rh_show_io = (\<lambda>e. ''not found''),
     rh_request = (\<lambda>a t p d w. (Inl ''refused'', w)),
     rh_system_time = (\<lambda>w. (Inr 1000, w)), rh_elapse = (\<lambda>w. (0, w)), rh_sleep = (\<lambda>d w. w),
     rh_is_terminal = (\<lambda>w. (True, w)),
     rh_read_line = (\<lambda>w. (Inr (''APPROVE web aaaaaaaaaaaa'' @ [newline]), w))\<rparr>"

definition example_authority :: registration_authority where
  "example_authority =
     \<lparr>ra_configuration_path = ''/srv/services.json'', ra_registration_directory = ''/srv/registration''\<rparr>"

definition example_request :: prepare_registration where
  "example_request = \<lparr>pr_request_id = ''r1'', pr_operation = OpRegister, pr_service_id = ''web'',
     pr_base_revision = ''sha256:1'', pr_service = Some (example_service [''db''] [8080, 8081])\<rparr>"

definition example_store :: "string \<Rightarrow> (string \<Rightarrow> registration_draft option) \<Rightarrow> (unit, registration_draft) registration_store" where
  "example_store config drafts = \<lparr>rg_config = Some config, rg_drafts = drafts, rg_audit = [],
     rg_lock = False, rg_printed = [], rg_clock = 0, rg_os = ()\<rparr>"

definition example_draft :: registration_draft where
  "example_draft = new_draft example_host example_authority example_request (example_config one_service) ''sha256:1''
     (example_config example_pair) [] ''sha256:2'' (''sha256:'' @ replicate 64 (CHR ''a'')) 1000"

lemma example_prepare:
  "fst (prepare example_host example_authority example_request (example_store ''one'' Map.empty)) = Ok example_draft"
  by code_simp

lemma example_written_config: "parse_json example_library ''two'' = Inr (example_config example_pair)"
  by code_simp

lemma example_host_codec: "drafts_read_back example_host" "calm example_host"
  "not_later example_host 2000" "\<exists>f. rh_print_draft example_host d = Inr f"
  by (simp_all add: drafts_read_back_def example_host_def calm_def not_later_def)

lemma example_configs_codec: "configs_read_back example_host"
  using example_written_config by (simp add: configs_read_back_def example_host_def)

text \<open>The example draft is prepared, shown, confirmed and committed; between the steps the store is tidied.\<close>

definition example_id :: string where
  "example_id = ''registration-'' @ replicate 20 (CHR ''a'')"

definition example_line :: string where
  "example_line = ''APPROVE web aaaaaaaaaaaa'' @ [newline]"

definition approved_draft :: "u64 \<Rightarrow> registration_draft" where
  "approved_draft now = example_draft\<lparr>dr_status := DraftApproved, dr_approved_at := Some now\<rparr>"

definition prepared_store :: "(unit, registration_draft) registration_store" where
  "prepared_store = example_store ''one'' (Map.empty(example_id \<mapsto> example_draft))"

definition approved_store :: "u64 \<Rightarrow> (unit, registration_draft) registration_store" where
  "approved_store now = example_store ''one'' (Map.empty(example_id \<mapsto> approved_draft now))"

lemma example_prepare_file: "rg_drafts (snd (prepare example_host example_authority example_request
    (example_store ''one'' Map.empty))) example_id = Some example_draft"
  by code_simp

lemma example_shown:
  "fst (begin_approval example_host example_authority example_id False prepared_store) = Ok example_draft"
  by code_simp

lemma example_draft_facts:
  "dr_draft_id example_draft = example_id" "dr_status example_draft = DraftPrepared"
  "dr_confirmation_phrase example_draft = trim example_line" "validate_draft_id example_id = Inr ()"
  "verify_draft example_host example_authority example_draft = Inr ()"
  "dr_operation example_draft = OpRegister" "dr_expires_at example_draft = 1801000"
  "dr_base_revision example_draft = ''sha256:1''" "dr_proposed_revision example_draft = ''sha256:2''"
  "dr_service_id example_draft = ''web''" "sup_services (dr_after example_draft) = example_pair"
  by code_simp+

lemma example_configs:
  "parse_json example_library ''one'' = Inr (example_config one_service)"
  "validate_structure example_env (example_config one_service) = Inr ()"
  "ensure_registration_safe_environment (example_config one_service) = Inr ()"
  "rg_fingerprint example_host (example_config one_service) = Inr ''sha256:1''"
  "rg_fingerprint example_host (example_config example_pair) = Inr ''sha256:2''"
  "validate_registration_proposal example_env (example_config one_service) OpRegister ''web''
    (Some (example_service [''db''] [8080, 8081])) = Inr (example_config example_pair, [], [])"
  "bt_get example_pair ''web'' = Some (example_service [''db''] [8080, 8081])"
  by code_simp+

lemma example_env_paths [simp]: "pl_env (rh_paths example_host) = example_env" "rh_config example_host = example_library"
  "pl_parent (rh_paths example_host) p = Some ''/srv''" "rh_print_draft example_host d = Inr d"
  "rh_parse_draft example_host d = Inr d"
  by (simp_all add: example_host_def example_paths_def)

lemma example_types: "types_phrase example_host example_draft" "fst (rh_read_line example_host w) = Inr example_line"
  by (simp_all add: types_phrase_def example_draft_facts) (simp_all add: example_host_def example_line_def)

lemma example_in_time: "not_later example_host (dr_expires_at example_draft)"
  by (simp add: not_later_def example_draft_facts) (simp add: example_host_def)

definition example_system ::
  "(unit, registration_draft) registration_store \<Rightarrow> registration_draft list \<Rightarrow> (registration_draft \<times> string) list
     \<Rightarrow> (unit, registration_draft) registration_system" where
  "example_system s reviews typed = \<lparr>sy_store = s, sy_reviews = reviews, sy_typed = typed\<rparr>"

definition example_typed :: "(registration_draft \<times> string) list" where
  "example_typed = [(example_draft, trim example_line)]"

lemma example_store_files [simp]:
  "rg_drafts (example_store c D) = D" "rg_config (example_store c D) = Some c" "rg_lock (example_store c D) = False"
  "files_are (Some c) D (example_store c D)"
  by (simp_all add: example_store_def files_are_def)

lemma example_system_store [simp]: "sy_store (example_system s reviews typed) = s"
  "sy_reviews (example_system s reviews typed) = reviews" "sy_typed (example_system s reviews typed) = typed"
  by (simp_all add: example_system_def)

lemma reach_tidy:
  assumes "registration_reach h ra (example_system s reviews typed)" and "rg_drafts s' = rg_drafts s"
  shows "registration_reach h ra (example_system s' reviews typed)"
  using reach_step [OF assms(1) step_outside [of s']] assms(2) by (simp add: example_system_def)

lemma draft_change_file:
  "draft_change h typed D D' \<Longrightarrow> D' i = Some f \<Longrightarrow> D i \<noteq> Some f \<Longrightarrow> D' = D(i \<mapsto> f)"
  unfolding draft_change_def by (metis fun_upd_other fun_upd_same option.inject)

lemma example_reach_prepared:
  "registration_reach example_host example_authority (example_system prepared_store [] [])"
proof -
  let ?s0 = "example_store ''one'' Map.empty :: (unit, registration_draft) registration_store"
  let ?s1 = "snd (prepare example_host example_authority example_request ?s0)"
  have "registration_reach example_host example_authority (example_system ?s0 [] [])"
    by (rule reach_start) simp_all
  from reach_step [OF this step_prepare [OF prod.collapse [symmetric]]]
  have "registration_reach example_host example_authority (example_system ?s1 [] [])"
    by (simp add: example_system_def)
  moreover have "rg_drafts ?s1 = (rg_drafts ?s0)(example_id \<mapsto> example_draft)"
    by (rule draft_change_file [OF conjunct1 [OF prepare_change [OF example_host_codec(1) prod.collapse [symmetric]]]
        example_prepare_file]) simp
  then have "rg_drafts prepared_store = rg_drafts ?s1" by (simp add: prepared_store_def)
  ultimately show ?thesis by (rule reach_tidy)
qed

lemma example_reach: "\<exists>now. registration_reach example_host example_authority
    (example_system (approved_store now) [] example_typed)"
proof -
  let ?h = example_host let ?ra = example_authority
  let ?s2 = "snd (begin_approval ?h ?ra example_id False prepared_store)"
  let ?s3 = "snd (finish_approval ?h ?ra example_draft prepared_store)"
  have shown: "begin_approval ?h ?ra example_id False prepared_store = (Ok example_draft, ?s2)"
    using example_shown by (simp add: prod_eq_iff)
  have "registration_reach ?h ?ra (example_system ?s2 [example_draft] [])"
    using reach_step [OF example_reach_prepared step_review [of ?h ?ra example_id False "example_system prepared_store [] []"]] shown
    by (simp add: example_system_def)
  moreover have "rg_drafts prepared_store = rg_drafts ?s2"
    using begin_approval_Ok [OF shown] by (simp add: files_are_def)
  ultimately have r2: "registration_reach ?h ?ra (example_system prepared_store [example_draft] [])" by (rule reach_tidy)
  have "files_are (Some ''one'') (Map.empty(example_id \<mapsto> example_draft)) prepared_store"
    by (simp add: prepared_store_def)
  from sureD [OF sure_finish_approval [where ra = ?ra, OF example_host_codec(2) example_in_time example_types(1)
      example_draft_facts(2) _ example_host_codec(4)] this]
  obtain d' s' now f where "finish_approval ?h ?ra example_draft prepared_store = (Ok d', s')"
    "d' = approved_draft now" "rh_print_draft ?h d' = Inr f"
    "files_are (Some ''one'') (Map.empty(example_id \<mapsto> example_draft, example_id \<mapsto> f)) s'"
    unfolding example_draft_facts(1) approved_draft_def by (metis (no_types) example_draft_facts(4))
  then have "rg_drafts ?s3 = Map.empty(example_id \<mapsto> approved_draft now)" by (simp add: files_are_def)
  then have same: "rg_drafts (approved_store now) = rg_drafts ?s3" by (simp add: approved_store_def)
  have "registration_reach ?h ?ra (example_system ?s3 [] example_typed)"
    using reach_step [OF r2 step_confirm [OF _ _ prod.collapse [symmetric], of example_draft _ _ example_line]]
    by (simp add: example_system_def example_typed_def example_types(2))
  then show ?thesis using same by (blast intro: reach_tidy)
qed

lemma example_commit:
  "\<exists>res s. commit_with_actor example_host example_authority example_id actor (approved_store now) = (Ok res, s)
     \<and> rg_config s = Some ''two''"
proof -
  have two: "rh_print_config example_host (example_config example_pair) = Inr ''two''" by (simp add: example_host_def)
  have "files_are (Some ''one'') (Map.empty(example_id \<mapsto> approved_draft now)) (approved_store now)
      \<and> \<not> rg_lock (approved_store now)"
    by (simp add: approved_store_def)
  then have "sure (\<lambda>s. files_are (Some ''one'') (Map.empty(example_id \<mapsto> approved_draft now)) s \<and> \<not> rg_lock s)
      (commit_with_actor example_host example_authority example_id actor)
      (\<lambda>_ s. rg_config s = Some ''two'' \<and> (\<exists>f d. rg_drafts s example_id = Some f
        \<and> rh_parse_draft example_host f = Inr d \<and> dr_status d = DraftCommitted)) \<Longrightarrow> ?thesis"
    by (fastforce dest: sureD)
  moreover have "draft_service (approved_draft now) = Inr (Some (example_service [''db''] [8080, 8081]))"
    by (simp add: draft_service_def approved_draft_def example_draft_facts example_configs(7))
  ultimately show ?thesis
  proof (elim meta_mp)
    let ?d = "approved_draft now"
    assume svc: "draft_service ?d = Inr (Some (example_service [''db''] [8080, 8081]))"
    have d: "dr_draft_id ?d = example_id" "verify_draft example_host example_authority ?d = Inr ()"
      "dr_status ?d = DraftApproved" "dr_operation ?d = OpRegister" "dr_expires_at ?d = dr_expires_at example_draft"
      "dr_base_revision ?d = ''sha256:1''" "dr_proposed_revision ?d = ''sha256:2''" "dr_service_id ?d = ''web''"
      by (simp_all add: approved_draft_def example_draft_facts)
    show "sure (\<lambda>s. files_are (Some ''one'') (Map.empty(example_id \<mapsto> ?d)) s \<and> \<not> rg_lock s)
      (commit_with_actor example_host example_authority example_id actor)
      (\<lambda>_ s. rg_config s = Some ''two'' \<and> (\<exists>f d. rg_drafts s example_id = Some f
        \<and> rh_parse_draft example_host f = Inr d \<and> dr_status d = DraftCommitted))"
      by (rule sure_commit_register [where d = ?d and f = ?d and dir = "''/srv''", OF example_host_codec(2) _
            example_host_codec(1,4) _ _ d(1) example_draft_facts(4) d(2-4), unfolded d(5-8) example_env_paths(1-3),
            OF example_in_time _ _ example_configs(1-4) svc example_configs(6,5) _ _ two]) simp_all
  qed
qed

text \<open>The same host with a full disk under the audit: the commit fails after it replaced the configuration.\<close>

definition failing_host :: "(unit, registration_draft, unit) registration_host" where
  "failing_host = example_host\<lparr>rh_io := (\<lambda>c w. (if c = CallAuditOpen then Some ''disk full'' else None, w))\<rparr>"

lemma failing_host_fields:
  "rh_io failing_host c w = (if c = CallAuditOpen then Some ''disk full'' else None, w)"
  "rh_system_time failing_host w = (Inr 1000, w)"
  "rh_parse_draft failing_host = Inr" "rh_print_draft failing_host = Inr" "rh_config failing_host = example_library"
  "rh_print_config failing_host (example_config example_pair) = Inr ''two''"
  "pl_parent (rh_paths failing_host) p = Some ''/srv''" "pl_env (rh_paths failing_host) = example_env"
  by (simp_all add: failing_host_def example_host_def example_paths_def)

lemma failing_host_pure:
  "rg_fingerprint failing_host = rg_fingerprint example_host"
  "verify_draft failing_host ra = verify_draft example_host ra"
  by (simp_all add: failing_host_def fun_eq_iff rg_fingerprint_def verify_draft_def draft_id_for_request_def
        hash_value_def proposal_json_def split: sum.split)

lemma approved_facts:
  "rg_drafts (approved_store now) example_id = Some (approved_draft now)" "rg_config (approved_store now) = Some ''one''"
  "dr_draft_id (approved_draft now) = example_id" "dr_expires_at (approved_draft now) = dr_expires_at example_draft"
  by (simp_all add: approved_store_def approved_draft_def example_draft_facts(1))

lemma failing_commit:
  "rg_config (snd (commit_with_actor failing_host example_authority example_id actor (approved_store now))) = Some ''two''"
proof -
  let ?d = "approved_draft now"
  have d: "dr_draft_id ?d = example_id" "verify_draft example_host example_authority ?d = Inr ()"
      "dr_status ?d = DraftApproved" "dr_operation ?d = OpRegister" "dr_expires_at ?d = 1801000"
      "dr_base_revision ?d = ''sha256:1''" "dr_proposed_revision ?d = ''sha256:2''" "dr_service_id ?d = ''web''"
      "draft_service ?d = Inr (Some (example_service [''db''] [8080, 8081]))"
    by (simp_all add: draft_service_def approved_draft_def example_draft_facts example_configs(7))
  show ?thesis
    by (simp add: commit_with_actor_def with_registration_lock_def seq_op_def bind_op_def call_os_def ask_os_def
        open_lock_def get_op_def locked_def write_lock_def now_ms_def return_op_def modify_op_def fail_op_def
        lift_sum_def guard_op_def get_draft_def commit_draft_def commit_gate_def current_config_def
        read_structural_config_def check_draft_def write_config_def write_json_atomic_def mark_committed_def
        write_draft_def audit_def release_lock_def failing_host_fields failing_host_pure d example_configs
        example_draft_facts(4) approved_store_def example_store_def cong: if_cong option.case_cong sum.case_cong)
qed

section \<open>Properties\<close>

text \<open>C2: In every history of the registration system the configuration changes, other than by
  somebody outside, only in a commit, and only to the configuration of a draft of which a human was
  shown exactly this proposal and typed the phrase bound to its hash. The commit found the
  configuration at the revision the draft was prepared from, without likely secrets, the replacement
  is structurally valid and has the proposed revision, and an update or a removal saw the running
  supervisor report the service as stopped.\<close>

theorem configuration_changes_only_after_confirmation:
  assumes "drafts_read_back h" and "registration_reach h ra y" and "registration_step h ra y act y'"
    and "rg_config (sy_store y') \<noteq> rg_config (sy_store y)" and "act \<noteq> ActOutside"
  shows "\<exists>d actor content. act = ActCommit (dr_draft_id d) actor \<and> confirmed (sy_typed y) d
    \<and> verify_draft h ra d = Inr () \<and> rg_config (sy_store y') = Some content
    \<and> replaces h ra d (rg_config (sy_store y)) content"
  using assms(3)
proof (cases rule: registration_step.cases)
  case (step_prepare r res s')
  then show ?thesis using prepare_change [OF assms(1)] assms(4) by simp
next
  case (step_review draft_id flag d s')
  then show ?thesis using begin_approval_Ok [OF step_review(3)] assms(4) by (auto simp: files_are_def)
next
  case (step_review_refused draft_id flag e s')
  then show ?thesis
    using keeps_run [OF quiet_begin_approval files_of step_review_refused(3)] assms(4) by (simp add: files_are_def)
next
  case (step_confirm d typed res s')
  then show ?thesis
    using confirm_change [OF assms(1) _ step_confirm(4,5)] registration_reach_ok [OF assms(2,1)] assms(4)
    by (auto simp: registration_ok_def)
next
  case (step_commit draft_id actor res s')
  have "drafts_ok h (sy_typed y) (rg_drafts (sy_store y))"
    using registration_reach_ok [OF assms(2,1)] by (simp add: registration_ok_def)
  from commit_change [OF assms(1) this step_commit(3)] assms(4) step_commit(1,2) show ?thesis by auto
next
  case (step_outside s')
  then show ?thesis using assms(5) by simp
qed

theorem configuration_changes_only_after_confirmation_witness:
  "\<exists>d content. confirmed example_typed d \<and> replaces example_host example_authority d (Some ''one'') content"
proof -
  obtain now where r: "registration_reach example_host example_authority
      (example_system (approved_store now) [] example_typed)"
    using example_reach by blast
  obtain res s where c: "commit_with_actor example_host example_authority example_id ''human_cli'' (approved_store now) = (Ok res, s)"
    and two: "rg_config s = Some ''two''"
    using example_commit by blast
  have one: "rg_config (approved_store now) = Some ''one''" by (simp add: approved_store_def)
  have "registration_step example_host example_authority (example_system (approved_store now) [] example_typed)
      (ActCommit example_id ''human_cli'') (example_system s [] example_typed)"
    using step_commit [of example_host example_authority example_id "''human_cli''"
        "example_system (approved_store now) [] example_typed"] c
    by (simp add: example_system_def)
  from configuration_changes_only_after_confirmation [OF example_host_codec(1) r this] two one
  show ?thesis by auto
qed

text \<open>A draft that is on disk stays there with the same proposal through every step of the
  system, and whenever it is no longer merely prepared, a human typed the phrase of exactly this
  proposal: no approval is created by a request.\<close>

lemma draft_proposals_are_final:
  assumes "drafts_read_back h" and "registration_reach h ra y" and "registration_step h ra y act y'"
    and "rg_drafts (sy_store y) i = Some f" and "rh_parse_draft h f = Inr d"
  shows "\<exists>f' d'. rg_drafts (sy_store y') i = Some f' \<and> rh_parse_draft h f' = Inr d'
    \<and> proposal_of d' = proposal_of d \<and> (dr_status d' = DraftPrepared \<or> confirmed (sy_typed y') d')"
proof -
  have ok: "registration_ok h y" by (rule registration_reach_ok [OF assms(2,1)])
  then have "dr_draft_id d = i" using assms(4,5) by (auto simp: registration_ok_def dest: drafts_okD)
  with assms(4,5) have "draft_on_disk h (rg_drafts (sy_store y)) d" by (auto simp: draft_on_disk_def)
  with step_change [OF assms(1) ok assms(3)] draft_change_on_disk
  have "draft_on_disk h (rg_drafts (sy_store y')) d" by blast
  then obtain f' d' where "rg_drafts (sy_store y') (dr_draft_id d) = Some f'" "rh_parse_draft h f' = Inr d'"
    "proposal_of d' = proposal_of d" by (auto simp: draft_on_disk_def)
  moreover have "registration_ok h y'" by (rule registration_step_ok [OF assms(1) ok assms(3)])
  ultimately show ?thesis using \<open>dr_draft_id d = i\<close> by (auto simp: registration_ok_def dest: drafts_okD)
qed

text \<open>A request identifier stands for one proposal: once a request was answered with a draft, the
  same request changes nothing, is answered with nothing but this draft, and is answered with it
  whenever the operating system and the lock allow.\<close>

lemma prepare_idempotent:
  assumes "drafts_read_back h" and "prepare h ra r s = (Ok d, s1)" and "files_are C (rg_drafts s1) s2"
  shows "files_are C (rg_drafts s1) (snd (prepare h ra r s2))
    \<and> (\<forall>d'. fst (prepare h ra r s2) = Ok d' \<longrightarrow> d' = d)
    \<and> (calm h \<and> not_later h limit \<and> \<not> rg_lock s2 \<longrightarrow> fst (prepare h ra r s2) = Ok d)"
proof -
  note first = prepare_Ok [OF assms(1,2)]
  obtain f where f: "rg_drafts s1 (draft_id_for_request h (pr_request_id r)) = Some f" "rh_parse_draft h f = Inr d"
    using first by blast
  obtain q s3 where again: "prepare h ra r s2 = (q, s3)" by fastforce
  have same: "files_are C (rg_drafts s1) s3"
    using prepare_effect [OF again assms(3)] f(1) by auto
  have "d' = d" if "q = Ok d'" for d'
  proof -
    from prepare_Ok [OF assms(1) again [unfolded that]] same f show ?thesis by (auto simp: files_are_def)
  qed
  moreover have "q = Ok d" if "calm h" "not_later h limit" "\<not> rg_lock s2"
    using sureD [OF prepare_again [of r h ra d "rg_drafts s1" f limit C]] first f that again assms(3) by fastforce
  ultimately show ?thesis unfolding again fst_conv snd_conv using same by blast
qed

text \<open>C7: A commit that was interrupted after it replaced the configuration, whatever failed then, is
  completed by the next one: when no call fails any more, the draft has not expired and no lock file is
  left, it succeeds, leaves the new configuration in place and marks the draft as committed. A commit that
  was killed leaves its lock file, which has to be removed by hand before.\<close>

theorem interrupted_commit_completes:
  assumes codec: "drafts_read_back h" "configs_read_back h" and "\<And>d. \<exists>f. rh_print_draft h d = Inr f"
    and first: "commit_with_actor h ra i actor s = (r, s1)" and replaced: "rg_config s1 \<noteq> rg_config s"
    and draft: "rg_drafts s i = Some f" "rh_parse_draft h f = Inr d" "dr_draft_id d = i"
    and later: "h' = h\<lparr>rh_io := io, rh_system_time := time\<rparr>" "calm h'" "not_later h' (dr_expires_at d)"
    and store: "files_are (rg_config s1) (rg_drafts s1) s2" "\<not> rg_lock s2"
  shows "\<exists>res s3 f d. commit_with_actor h' ra i actor' s2 = (Ok res, s3) \<and> rg_config s3 = rg_config s1
    \<and> rg_drafts s3 i = Some f \<and> rh_parse_draft h f = Inr d \<and> dr_status d = DraftCommitted"
proof -
  have h': "rh_parse_draft h' = rh_parse_draft h" "rh_print_draft h' = rh_print_draft h" "rh_config h' = rh_config h"
    "rh_paths h' = rh_paths h" "rg_fingerprint h' = rg_fingerprint h" "verify_draft h' ra = verify_draft h ra"
    by (simp_all add: later(1) fun_eq_iff rg_fingerprint_def verify_draft_def draft_id_for_request_def
        hash_value_def proposal_json_def split: sum.split)
  from commit_effect [OF first files_of] replaced draft
  have id: "validate_draft_id i = Inr ()" and v: "verify_draft h ra d = Inr ()"
    and e: "commit_end h ra d (rg_config s) (rg_drafts s) s1" by (auto simp: files_are_def)
  from e replaced obtain now content where a: "dr_status d = DraftApproved"
    and rep: "replaces h ra d (rg_config s) content" and c1: "rg_config s1 = Some content"
    and w: "files_are (Some content) (rg_drafts s) s1 \<or> draft_written h
      (d\<lparr>dr_status := DraftCommitted, dr_committed_at := Some now\<rparr>) (Some content) (rg_drafts s) s1"
    unfolding commit_end_def by (auto simp: files_are_def draft_written_def)
  from rep obtain current service proposed warnings input where cur: "parse_json (rh_config h) input = Inr current"
      "ensure_registration_safe_environment current = Inr ()"
    and val: "validate_registration_proposal (pl_env (rh_paths h)) current (dr_operation d) (dr_service_id d) service
         = Inr (proposed, [], warnings)"
    and fp: "rg_fingerprint h proposed = Inr (dr_proposed_revision d)"
    and pr: "rh_print_config h proposed = Inr content"
    unfolding replaces_def by blast
  note new = proposal_accepted [OF val parse_json_invar [OF cur(1)]]
  obtain f2 d2 where disk: "rg_drafts s1 i = Some f2" "rh_parse_draft h f2 = Inr d2"
    and d2: "d2 = d \<or> (\<exists>now. d2 = d\<lparr>dr_status := DraftCommitted, dr_committed_at := Some now\<rparr>)"
  proof -
    from w consider (old) "rg_drafts s1 = rg_drafts s"
      | (new) g where "rg_drafts s1 = (rg_drafts s)(i \<mapsto> g)"
          "rh_parse_draft h g = Inr (d\<lparr>dr_status := DraftCommitted, dr_committed_at := Some now\<rparr>)"
      using codec(1) draft(3) unfolding draft_written_def files_are_def drafts_read_back_def by auto
    then show thesis by cases (use that draft in \<open>auto\<close>)
  qed
  have "\<exists>a s3. commit_with_actor h' ra i actor' s2 = (Ok a, s3) \<and> rg_config s3 = Some content
      \<and> (\<exists>f d. rg_drafts s3 i = Some f \<and> rh_parse_draft h' f = Inr d \<and> dr_status d = DraftCommitted)"
  proof (rule sureD [OF retried_commit [where d = d2 and c = proposed and content = content and D = "rg_drafts s1" and f = f2]])
    show "calm h'" "validate_draft_id i = Inr ()" using later(2) id by blast+
    show "not_later h' (dr_expires_at d2)" "dr_draft_id d2 = i" using d2 later(3) draft(3) by auto
    show "verify_draft h' ra d2 = Inr ()" using d2 v unfolding h' by auto
    show "drafts_read_back h'" using codec(1) unfolding drafts_read_back_def h' .
    show "\<exists>f. rh_print_draft h' d = Inr f" for d unfolding h' by (rule assms(3))
    show "rg_drafts s1 i = Some f2" "rh_parse_draft h' f2 = Inr d2" using disk unfolding h' by blast+
    show "files_are (Some content) (rg_drafts s1) s2 \<and> \<not> rg_lock s2" using store c1 by simp
    show "dr_status d2 = DraftCommitted \<or> dr_status d2 = DraftApproved
      \<and> parse_json (rh_config h') content = Inr proposed \<and> validate_structure (pl_env (rh_paths h')) proposed = Inr ()
      \<and> ensure_registration_safe_environment proposed = Inr ()
      \<and> rg_fingerprint h' proposed = Inr (dr_proposed_revision d2)"
      using d2 a codec(2) pr new(4,7) cur(2) fp unfolding h' configs_read_back_def by auto
  qed
  then show ?thesis using c1 unfolding h' by auto
qed

theorem interrupted_commit_completes_witness:
  "\<exists>now res s3 f d. commit_with_actor example_host example_authority example_id ''human_cli''
       (example_store ''two'' (rg_drafts (snd (commit_with_actor failing_host example_authority example_id
          ''human_cli'' (approved_store now))))) = (Ok res, s3)
     \<and> rg_config s3 = Some ''two'' \<and> rg_drafts s3 example_id = Some f \<and> rh_parse_draft example_host f = Inr d
     \<and> dr_status d = DraftCommitted"
proof -
  fix now
  let ?c = "commit_with_actor failing_host example_authority example_id ''human_cli'' (approved_store now)"
  let ?s2 = "example_store ''two'' (rg_drafts (snd ?c))"
  have codec: "drafts_read_back failing_host" "configs_read_back failing_host" "\<exists>f. rh_print_draft failing_host d = Inr f" for d
    using example_configs_codec
    by (simp_all add: drafts_read_back_def configs_read_back_def failing_host_def)
  have h: "example_host = failing_host\<lparr>rh_io := rh_io example_host, rh_system_time := rh_system_time example_host\<rparr>"
    by (simp add: failing_host_def)
  have "\<exists>res s3 f d. commit_with_actor example_host example_authority example_id ''human_cli'' ?s2 = (Ok res, s3)
      \<and> rg_config s3 = rg_config (snd ?c) \<and> rg_drafts s3 example_id = Some f
      \<and> rh_parse_draft failing_host f = Inr d \<and> dr_status d = DraftCommitted"
    by (rule interrupted_commit_completes [where d = "approved_draft now" and f = "approved_draft now",
          OF codec prod.collapse [symmetric] _ _ _ _ h example_host_codec(2)])
      (simp_all add: failing_commit failing_host_fields approved_facts example_in_time)
  then show ?thesis by (auto simp: failing_commit failing_host_fields)
qed

text \<open>C12: An accepted proposal differs from the configuration it starts from in the target service
  alone: registering adds a service that was not there, updating and unregistering replace and remove
  one that was; the result is structurally valid, and free of likely secrets if the start was.\<close>

theorem accepted_proposal_exact:
  assumes "validate_registration_proposal env current oper sid service = Inr (proposed, [], warnings)"
    and "bt_invar (sup_services current)"
  shows "(\<forall>other. bt_get (sup_services proposed) other
        = (if other = sid then service else bt_get (sup_services current) other))
    \<and> proposed\<lparr>sup_services := sup_services current\<rparr> = current
    \<and> (service = None) = (oper = OpUnregister) \<and> (bt_get (sup_services current) sid = None) = (oper = OpRegister)
    \<and> validate_structure env proposed = Inr ()
    \<and> (unsafe_environment_paths current = [] \<longrightarrow> unsafe_environment_paths proposed = [])"
  using proposal_accepted [OF assms] by (simp add: ensure_safe_iff)

theorem accepted_proposal_exact_witness:
  "bt_get (sup_services (example_config example_pair)) ''db'' = bt_get one_service ''db''
    \<and> validate_structure example_env (example_config example_pair) = Inr ()"
proof -
  have "bt_invar (sup_services (example_config one_service))" by code_simp
  from accepted_proposal_exact [OF example_configs(6) this] show ?thesis
    by (simp add: example_config_def)
qed

text \<open>C21: A stale approval undoes the mark of a commit. A human who was shown the prepared draft and
  types the phrase after the draft was approved and committed elsewhere is told of an approval, and
  the committed draft on disk is merely approved again: the confirmation writes the draft it loaded
  before the prompt, without the lock and without looking at the file again.\<close>

theorem stale_approval_reverts_commit:
  assumes "calm h" and "not_later h (dr_expires_at shown)" and "types_phrase h shown"
    and codec: "drafts_read_back h" and "\<And>d. \<exists>f. rh_print_draft h d = Inr f"
    and "dr_status shown = DraftPrepared" and "validate_draft_id (dr_draft_id shown) = Inr ()"
    and "rg_drafts s (dr_draft_id shown) = Some f" and "rh_parse_draft h f = Inr d"
    and "dr_status d = DraftCommitted" and "proposal_of d = proposal_of shown"
  shows "\<exists>s' f' d'. fst (finish_approval h ra shown s) = Ok d' \<and> snd (finish_approval h ra shown s) = s'
    \<and> rg_drafts s' (dr_draft_id d) = Some f' \<and> rh_parse_draft h f' = Inr d'
    \<and> dr_status d' = DraftApproved \<and> dr_committed_at d' = dr_committed_at shown
    \<and> proposal_of d' = proposal_of d"
proof -
  from sureD [OF sure_finish_approval [where ra = ra, OF assms(1-3,6,7,5)] files_of [of s]]
  obtain d' s' now f' where run: "finish_approval h ra shown s = (Ok d', s')"
    and d': "d' = shown\<lparr>dr_status := DraftApproved, dr_approved_at := Some now\<rparr>"
    and p: "rh_print_draft h d' = Inr f'"
    and files: "files_are (rg_config s) ((rg_drafts s)(dr_draft_id shown \<mapsto> f')) s'"
    by blast
  have "rh_parse_draft h f' = Inr d'" using codec p by (simp add: drafts_read_back_def)
  moreover have "rg_drafts s' (dr_draft_id d) = Some f'"
    using files proposal_of_id [OF assms(11)] by (simp add: files_are_def)
  moreover have "dr_status d' = DraftApproved \<and> dr_committed_at d' = dr_committed_at shown
      \<and> proposal_of d' = proposal_of d"
    using assms(11) by (simp add: d')
  ultimately show ?thesis unfolding run fst_conv snd_conv by blast
qed

theorem stale_approval_reverts_commit_witness:
  "\<exists>d s' d'. dr_status d = DraftCommitted
     \<and> finish_approval example_host example_authority example_draft
         (example_store ''two'' (Map.empty(example_id \<mapsto> d))) = (Ok d', s')
     \<and> rg_drafts s' example_id = Some d' \<and> dr_status d' = DraftApproved"
proof -
  let ?d = "example_draft\<lparr>dr_status := DraftCommitted, dr_committed_at := Some 900\<rparr>"
  let ?s = "example_store ''two'' (Map.empty(example_id \<mapsto> ?d))"
  have "\<exists>s' f' d'. fst (finish_approval example_host example_authority example_draft ?s) = Ok d'
    \<and> snd (finish_approval example_host example_authority example_draft ?s) = s'
    \<and> rg_drafts s' (dr_draft_id ?d) = Some f' \<and> rh_parse_draft example_host f' = Inr d'
    \<and> dr_status d' = DraftApproved \<and> dr_committed_at d' = dr_committed_at example_draft
    \<and> proposal_of d' = proposal_of ?d"
    by (rule stale_approval_reverts_commit [OF example_host_codec(2) example_in_time example_types(1)
          example_host_codec(1,4) example_draft_facts(2), where f = ?d])
      (simp_all add: example_draft_facts)
  then show ?thesis by (intro exI [of _ ?d]) (auto simp: example_draft_facts prod_eq_iff)
qed

end
