(* ===== verification/Registration_Events.thy ===== *)
theory Registration_Events
  imports Registration
begin

text \<open>
  \<open>src/src/adapters/registration_events.rs\<close>: following the registration audit and showing its records
  on the console, with the loop body of the foreground monitor that prints them. The bytes of the
  file are the text; reading a record is a parameter, as is the calendar of \<open>format_unix_milliseconds\<close>.
\<close>

section \<open>Records\<close>

definition max_event_bytes :: nat where
  "max_event_bytes = 16 * 1024"

definition max_poll_bytes :: nat where
  "max_poll_bytes = 256 * 1024"

record audit_record =
  au_schema_version :: u32
  au_timestamp_unix_ms :: u64
  au_event :: string
  au_actor :: "string option"
  au_draft_id :: string
  au_request_id :: string
  au_operation :: string
  au_service_id :: string
  au_proposed_revision :: string

definition event_state_note :: "string \<Rightarrow> string" where
  "event_state_note event =
     (if event \<in> {''approved'', ''approval_recovered''} then
        ''; authorization recorded, configuration unchanged until commit''
      else if event \<in> {''committed'', ''commit_recovered''} then ''; transaction finalized''
      else '''')"

definition console_actor :: "string option \<Rightarrow> string" where
  "console_actor actor = (case actor of
      Some a \<Rightarrow> if a = ''human_cli'' then ''user/human_cli''
        else if a = ''registration_mcp'' then ''agent/registration_mcp'' else ''unknown/legacy''
    | None \<Rightarrow> ''unknown/legacy'')"

definition is_console_char :: "char \<Rightarrow> bool" where
  "is_console_char c = (is_ascii_alphanumeric c \<or> c \<in> {CHR ''-'', CHR ''_'', CHR ''.'', CHR '':'', CHR ''/''})"

text \<open>The characters of a string: its bytes cut before each start of a character.\<close>

function chars_of :: "string \<Rightarrow> string list" where
  "chars_of [] = []"
| "chars_of (b # bs) =
     (b # takeWhile is_continuation bs) # chars_of (dropWhile is_continuation bs)"
  by pat_completeness auto
termination
  by (relation "measure length") (auto simp: le_imp_less_Suc length_dropWhile_le)

definition console_token :: "string \<Rightarrow> string" where
  "console_token v = map (\<lambda>ch. case ch of [b] \<Rightarrow> if is_console_char b then b else CHR ''?'' | _ \<Rightarrow> CHR ''?'')
     (take 96 (chars_of v))"

text \<open>A slice that does not end between characters panics (\<open>None\<close>).\<close>

definition str_slice_to :: "string \<Rightarrow> nat \<Rightarrow> string option" where
  "str_slice_to s n =
     (if n = length s then Some s
      else if n < length s \<and> \<not> is_continuation (s ! n) then Some (take n s) else None)"

definition short_revision :: "string \<Rightarrow> string option" where
  "short_revision revision =
     (if length revision \<le> 19 then Some (console_token revision)
      else map_option (\<lambda>start. console_token start @ ''...'') (str_slice_to revision 19))"

definition console_line :: "'t chrono \<Rightarrow> display_timezone \<Rightarrow> audit_record \<Rightarrow> string option" where
  "console_line ch timezone e = map_option (\<lambda>revision.
     ''['' @ (case format_unix_milliseconds ch (unat (au_timestamp_unix_ms e)) timezone of
         None \<Rightarrow> ''timestamp-invalid'' | Some t \<Rightarrow> t)
     @ ''] [registration] '' @ console_token (au_event e) @ '' '' @ console_token (au_operation e)
     @ '' '' @ console_token (au_service_id e) @ '' by '' @ console_actor (au_actor e)
     @ '' (draft='' @ console_token (au_draft_id e) @ '', request='' @ console_token (au_request_id e)
     @ '', revision='' @ revision @ '')'' @ event_state_note (au_event e))
     (short_revision (au_proposed_revision e))"

section \<open>The tail\<close>

text \<open>The offset is a position in the file.\<close>

record audit_tail =
  at_path :: string
  at_offset :: nat

datatype 'io registration_event_error =
  ReIo string "'io io_result_error" | ReParse string | ReOversized | ReUnsupportedSchema u32

fun show_registration_event_error ::
  "('io io_result_error \<Rightarrow> string) \<Rightarrow> 'io registration_event_error \<Rightarrow> string" where
  "show_registration_event_error show_io (ReIo path source) = ''failed to read '' @ path @ '': '' @ show_io source"
| "show_registration_event_error show_io (ReParse message) = ''registration audit record is invalid: '' @ message"
| "show_registration_event_error show_io ReOversized = ''registration audit record exceeds 16 KiB''"
| "show_registration_event_error show_io (ReUnsupportedSchema version) =
     ''unsupported registration audit schema: '' @ decimal (unat version)"

definition tail_follow :: "string \<Rightarrow> 'io io_result_error + nat \<Rightarrow> audit_tail" where
  "tail_follow path metadata =
     \<lparr>at_path = path, at_offset = (case metadata of Inl _ \<Rightarrow> 0 | Inr len \<Rightarrow> len)\<rparr>"

fun parse_audit_lines ::
  "(string \<Rightarrow> string + audit_record) \<Rightarrow> string list \<Rightarrow> 'io registration_event_error + audit_record list" where
  "parse_audit_lines decode [] = Inr []"
| "parse_audit_lines decode (l # ls) =
     (if l = [] then parse_audit_lines decode ls
      else if length l > max_event_bytes then Inl ReOversized
      else (case decode l of
          Inl message \<Rightarrow> Inl (ReParse message)
        | Inr e \<Rightarrow>
            if au_schema_version e \<noteq> 1 then Inl (ReUnsupportedSchema (au_schema_version e))
            else (case parse_audit_lines decode ls of Inl x \<Rightarrow> Inl x | Inr es \<Rightarrow> Inr (e # es))))"

text \<open>The bytes up to and with the last newline.\<close>

definition complete_part :: "string \<Rightarrow> string" where
  "complete_part bytes = rev (dropWhile (\<lambda>c. c \<noteq> newline) (rev bytes))"

text \<open>One poll: \<open>metadata\<close> gives the length of the file, \<open>content\<close> what opening and reading it gives.\<close>

definition tail_poll ::
  "(string \<Rightarrow> string + audit_record) \<Rightarrow> 'io io_result_error + nat \<Rightarrow> 'io io_result_error + string
     \<Rightarrow> audit_tail \<Rightarrow> ('io registration_event_error + audit_record list) \<times> audit_tail" where
  "tail_poll decode metadata content tail' = (case metadata of
      Inl source \<Rightarrow>
        (if source = IoNotFound then Inr [] else Inl (ReIo (at_path tail') source), tail')
    | Inr len \<Rightarrow>
        (let tail1 = (if len < at_offset tail' then tail'\<lparr>at_offset := 0\<rparr> else tail') in
         if len = at_offset tail1 then (Inr [], tail1)
         else (case content of
             Inl source \<Rightarrow> (Inl (ReIo (at_path tail1) source), tail1)
           | Inr file \<Rightarrow>
               (let bytes = take (min (len - at_offset tail1) max_poll_bytes) (drop (at_offset tail1) file) in
                if newline \<notin> set bytes then
                  (if length bytes > max_event_bytes then Inl ReOversized else Inr [], tail1)
                else (case parse_audit_lines decode (split_on newline (complete_part bytes)) of
                    Inl e \<Rightarrow> (Inl e, tail1)
                  | Inr events \<Rightarrow>
                      (Inr events, tail1\<lparr>at_offset := at_offset tail1 + length (complete_part bytes)\<rparr>))))))"

text \<open>
  The loop body of the monitor: the lines it prints, the error it reports (a repeated one once), or
  the panic of rendering a record.
\<close>

fun print_events :: "'t chrono \<Rightarrow> display_timezone \<Rightarrow> audit_record list \<Rightarrow> string list \<times> bool" where
  "print_events ch timezone [] = ([], True)"
| "print_events ch timezone (e # es) = (case console_line ch timezone e of
      None \<Rightarrow> ([], False)
    | Some l \<Rightarrow> (case print_events ch timezone es of (ls, ok) \<Rightarrow> (l # ls, ok)))"

definition registration_tick ::
  "'t chrono \<Rightarrow> display_timezone \<Rightarrow> ('io io_result_error \<Rightarrow> string) \<Rightarrow> (string \<Rightarrow> string + audit_record)
     \<Rightarrow> 'io io_result_error + nat \<Rightarrow> 'io io_result_error + string \<Rightarrow> audit_tail \<times> string option
     \<Rightarrow> (string list \<times> string list) \<times> bool \<times> audit_tail \<times> string option" where
  "registration_tick ch timezone show_io decode metadata content = (\<lambda>(tail', last_error).
     case tail_poll decode metadata content tail' of
       (Inr events, tail1) \<Rightarrow> (case print_events ch timezone events of (ls, ok) \<Rightarrow> ((ls, []), ok, tail1, None))
     | (Inl e, tail1) \<Rightarrow>
         (let current = show_registration_event_error show_io e in
          ((([], if last_error = Some current then []
             else [''[registration] Audit visibility failed for '' @ at_path tail1 @ '': '' @ current])),
           True, tail1, Some current)))"

section \<open>Facts\<close>

lemma complete_part_ends: "newline \<in> set bytes \<Longrightarrow> \<exists>front. complete_part bytes = front @ [newline]"
proof -
  assume "newline \<in> set bytes"
  then have "dropWhile (\<lambda>c. c \<noteq> newline) (rev bytes) \<noteq> []" by (simp add: dropWhile_eq_Nil_conv)
  then obtain c cs where d: "dropWhile (\<lambda>c. c \<noteq> newline) (rev bytes) = c # cs" by (metis neq_Nil_conv)
  moreover have "c = newline" using hd_dropWhile [of "\<lambda>c. c \<noteq> newline" "rev bytes"] d by simp
  ultimately show ?thesis by (simp add: complete_part_def)
qed

lemma complete_part_prefix: "prefix (complete_part bytes) bytes"
proof -
  have "bytes = complete_part bytes @ rev (takeWhile (\<lambda>c. c \<noteq> newline) (rev bytes))"
    unfolding complete_part_def by (metis rev_append rev_rev_ident takeWhile_dropWhile_id)
  then show ?thesis by (metis prefixI)
qed

lemma parse_audit_lines_append:
  "parse_audit_lines decode (ls @ ls') = (case parse_audit_lines decode ls of
      Inl e \<Rightarrow> Inl e
    | Inr es \<Rightarrow> (case parse_audit_lines decode ls' of Inl e \<Rightarrow> Inl e | Inr es' \<Rightarrow> Inr (es @ es')))"
  by (induction ls) (auto split: sum.split)

text \<open>What a text of complete lines decodes to.\<close>

definition decode_text ::
  "(string \<Rightarrow> string + audit_record) \<Rightarrow> string \<Rightarrow> unit registration_event_error + audit_record list" where
  "decode_text decode s = parse_audit_lines decode (split_on newline s)"

lemma decode_text_Nil [simp]: "decode_text decode [] = Inr []"
  by (simp add: decode_text_def)

lemma decode_text_append:
  assumes "s = [] \<or> last s = newline"
  shows "decode_text decode (s @ t) = (case decode_text decode s of
      Inl e \<Rightarrow> Inl e
    | Inr es \<Rightarrow> (case decode_text decode t of Inl e \<Rightarrow> Inl e | Inr es' \<Rightarrow> Inr (es @ es')))"
proof (cases "s = []")
  case True
  then show ?thesis by (auto split: sum.split)
next
  case False
  with assms obtain front where s: "s = front @ [newline]" by (metis append_butlast_last_id)
  have "split_on newline (s @ t) = split_on newline front @ split_on newline t"
    using split_on_append [of newline front t] by (simp add: s)
  moreover have "split_on newline s = split_on newline front @ [[]]"
    using split_on_append [of newline front "[]"] by (simp add: s)
  ultimately show ?thesis
    by (simp add: decode_text_def parse_audit_lines_append split: sum.split)
qed


text \<open>The monitor polls again and again; what it shows in total, whatever failed in between.\<close>

fun tail_run ::
  "(string \<Rightarrow> string + audit_record) \<Rightarrow> string list \<Rightarrow> audit_tail \<Rightarrow> audit_record list \<times> audit_tail" where
  "tail_run decode [] t = ([], t)"
| "tail_run decode (doc # docs) t =
     (case tail_poll decode (Inr (length doc)) (Inr doc :: unit io_result_error + string) t of
        (r, t1) \<Rightarrow> (case tail_run decode docs t1 of
           (es, t2) \<Rightarrow> ((case r of Inl _ \<Rightarrow> [] | Inr new \<Rightarrow> new) @ es, t2)))"

lemma take_through: "length xs \<le> n \<Longrightarrow> take n (xs @ ys) = xs @ take (n - length xs) ys"
  by simp

lemma tail_poll_reads:
  assumes run: "tail_poll decode (Inr (length doc)) (Inr doc :: unit io_result_error + string) t = (r, t1)"
    and doc: "doc = old @ rest" and pos: "at_offset t = length old"
  shows "\<exists>seen later. rest = seen @ later \<and> at_offset t1 = length (old @ seen) \<and> at_path t1 = at_path t
    \<and> (seen = [] \<or> last seen = newline)
    \<and> (case r of Inl _ \<Rightarrow> seen = [] | Inr es \<Rightarrow> decode_text decode seen = Inr es)"
proof (cases "rest = []")
  case True
  then show ?thesis using run doc pos by (auto simp: tail_poll_def Let_def)
next
  case False
  let ?bytes = "take (min (length rest) max_poll_bytes) rest"
  have b: "prefix ?bytes rest" by (rule take_is_prefix)
  from run have *: "(r, t1) = (if newline \<notin> set ?bytes then
        (if length ?bytes > max_event_bytes then Inl ReOversized else Inr [], t)
      else (case parse_audit_lines decode (split_on newline (complete_part ?bytes)) of
          Inl e \<Rightarrow> (Inl e, t)
        | Inr events \<Rightarrow> (Inr events, t\<lparr>at_offset := at_offset t + length (complete_part ?bytes)\<rparr>)))"
    using False doc pos by (simp add: tail_poll_def Let_def)
  show ?thesis
  proof (cases "newline \<in> set ?bytes \<and> (\<exists>es. r = Inr es)")
    case True
    then obtain es where d: "decode_text decode (complete_part ?bytes) = Inr es" and r: "r = Inr es"
      and t1: "t1 = t\<lparr>at_offset := at_offset t + length (complete_part ?bytes)\<rparr>"
      using * unfolding decode_text_def by (auto split: sum.splits)
    obtain later where "rest = complete_part ?bytes @ later"
      using prefix_order.trans [OF complete_part_prefix b] by (auto simp: prefix_def)
    moreover obtain front where "complete_part ?bytes = front @ [newline]"
      using complete_part_ends True by blast
    ultimately show ?thesis
      using d r t1 pos by (intro exI [of _ "complete_part ?bytes"] exI [of _ later]) simp
  next
    case False
    then have "t1 = t \<and> (\<forall>es. r = Inr es \<longrightarrow> es = [])" using * by (auto split: sum.splits if_splits)
    then show ?thesis using pos by (cases r) auto
  qed
qed

lemma tail_run_reads:
  assumes "successively prefix (old # docs)" and "at_offset t = length old"
    and "tail_run decode docs t = (shown, t')"
  shows "\<exists>seen later. last (old # docs) = old @ seen @ later \<and> at_offset t' = length (old @ seen)
    \<and> (seen = [] \<or> last seen = newline) \<and> decode_text decode seen = Inr shown"
  using assms
proof (induction docs arbitrary: old t shown)
  case Nil
  then show ?case by simp
next
  case (Cons doc docs)
  obtain rest where doc: "doc = old @ rest" using Cons.prems(1) by (auto simp: prefix_def)
  obtain r t1 where p: "tail_poll decode (Inr (length doc)) (Inr doc :: unit io_result_error + string) t = (r, t1)"
    by fastforce
  obtain es where q: "tail_run decode docs t1 = (es, t')"
    and shown: "shown = (case r of Inl _ \<Rightarrow> [] | Inr new \<Rightarrow> new) @ es"
    using Cons.prems(3) p by (auto split: prod.splits)
  from tail_poll_reads [OF p doc Cons.prems(2)] obtain seen later where
    rest: "rest = seen @ later" and pos: "at_offset t1 = length (old @ seen)"
    and ends: "seen = [] \<or> last seen = newline"
    and got: "case r of Inl _ \<Rightarrow> seen = [] | Inr es \<Rightarrow> decode_text decode seen = Inr es" by blast
  have chain: "successively prefix ((old @ seen) # docs)"
    using Cons.prems(1) doc rest by (cases docs) (auto simp: prefix_def)
  from Cons.IH [OF chain pos q] obtain seen' later' where
    l: "last ((old @ seen) # docs) = (old @ seen) @ seen' @ later'" and pos': "at_offset t' = length ((old @ seen) @ seen')"
    and ends': "seen' = [] \<or> last seen' = newline"
    and got': "decode_text decode seen' = Inr es" by blast
  have "\<exists>later. last (old # doc # docs) = old @ (seen @ seen') @ later"
    using l doc rest by (cases docs) auto
  moreover have "decode_text decode (seen @ seen') = Inr shown"
    using decode_text_append [OF ends] got got' shown by (auto split: sum.splits)
  moreover have "seen @ seen' = [] \<or> last (seen @ seen') = newline" using ends ends' by (auto simp: last_append)
  ultimately show ?case using pos' by (metis append.assoc)
qed

text \<open>A poll within reach of the end shows everything that is complete.\<close>

lemma tail_poll_catches_up:
  assumes "at_offset t = length old" and "length later \<le> max_poll_bytes"
    and "decode_text decode (complete_part later) = Inr es"
  shows "case tail_poll decode (Inr (length (old @ later))) (Inr (old @ later) :: unit io_result_error + string) t of
      (r, t1) \<Rightarrow> (case r of Inl _ \<Rightarrow> [] | Inr new \<Rightarrow> new) = es
        \<and> at_offset t1 = length (old @ complete_part later)"
proof (cases "newline \<in> set later")
  case True
  then show ?thesis using assms by (auto simp: tail_poll_def Let_def decode_text_def split: sum.splits)
next
  case False
  then have "complete_part later = []" by (auto simp: complete_part_def dropWhile_eq_Nil_conv)
  then show ?thesis using assms False by (auto simp: tail_poll_def Let_def decode_text_Nil)
qed

text \<open>C25: The console follows the audit exactly: over any sequence of polls of a growing file, whatever
  failed in between, the records shown in total are those of the lines that were completed since the
  start and lie before the reached position, once each and in order. What is behind the position is shown
  in full by the next poll, up to the last complete line, when it is within reach of one poll and every
  complete line in it is a record.\<close>

theorem registration_tail_exact:
  assumes "successively prefix (old # docs)" and "at_offset t = length old"
    and "tail_run decode docs t = (shown, t')"
  shows "\<exists>seen later. last (old # docs) = old @ seen @ later \<and> at_offset t' = length (old @ seen)
    \<and> (seen = [] \<or> last seen = newline) \<and> decode_text decode seen = Inr shown
    \<and> (\<forall>es. length later \<le> max_poll_bytes \<and> decode_text decode (complete_part later) = Inr es \<longrightarrow>
        (case tail_run decode [last (old # docs)] t' of (new, t'') \<Rightarrow>
          new = es \<and> at_offset t'' = length (old @ seen @ complete_part later)))"
proof -
  from tail_run_reads [OF assms] obtain seen later where
    doc: "last (old # docs) = (old @ seen) @ later" and pos: "at_offset t' = length (old @ seen)"
    and rest: "seen = [] \<or> last seen = newline" "decode_text decode seen = Inr shown" by auto
  have "case tail_run decode [last (old # docs)] t' of (new, t'') \<Rightarrow>
      new = es \<and> at_offset t'' = length (old @ seen @ complete_part later)"
    if "length later \<le> max_poll_bytes" "decode_text decode (complete_part later) = Inr es" for es
    using tail_poll_catches_up [OF pos that] unfolding doc by (simp split: prod.splits)
  then show ?thesis
    using doc pos rest by (intro exI [of _ seen] exI [of _ later]) simp
qed

text \<open>A reader for the examples: a line that starts with a letter is a record, any other is not.\<close>

definition example_record :: audit_record where
  "example_record = \<lparr>au_schema_version = 1, au_timestamp_unix_ms = 0, au_event = ''prepared'', au_actor = None,
     au_draft_id = ''d'', au_request_id = ''r'', au_operation = ''register'', au_service_id = ''web'',
     au_proposed_revision = ''sha256:2''\<rparr>"

definition example_decode :: "string \<Rightarrow> string + audit_record" where
  "example_decode l = (if hd l = CHR ''a'' then Inr example_record else Inl ''expected value'')"

lemmas example_poll_defs = tail_poll_def Let_def max_poll_bytes_def max_event_bytes_def complete_part_def
  example_decode_def example_record_def

theorem registration_tail_exact_witness:
  "\<exists>seen later. ''a'' @ [newline] @ ''ab'' @ [newline] = seen @ later
     \<and> snd (tail_run example_decode [''a'' @ [newline] @ ''a'', ''a'' @ [newline] @ ''ab'' @ [newline]]
         \<lparr>at_path = ''audit'', at_offset = 0\<rparr>) = \<lparr>at_path = ''audit'', at_offset = length seen\<rparr>
     \<and> decode_text example_decode seen = Inr [example_record, example_record]"
proof -
  let ?docs = "[''a'' @ [newline] @ ''a'', ''a'' @ [newline] @ ''ab'' @ [newline]]"
  let ?t = "\<lparr>at_path = ''audit'', at_offset = 0\<rparr>"
  have run: "tail_run example_decode ?docs ?t
      = ([example_record, example_record], \<lparr>at_path = ''audit'', at_offset = 5\<rparr>)"
    by (simp add: example_poll_defs)
  have "successively prefix ([] # ?docs)" by (simp add: prefix_def)
  from registration_tail_exact [OF this _ run] run show ?thesis by auto
qed

text \<open>C26: A line that is no record hides everything after it: once such a line is complete and within
  reach of the tail, no poll shows anything any more and the position never moves, however the file
  grows. A record whose write failed before its newline makes the next record part of such a line.\<close>

theorem bad_record_blocks_tail:
  assumes "at_offset t = length old" and "good = [] \<or> last good = newline"
    and "bad \<noteq> []" and "newline \<notin> set bad" and "decode bad = Inl message"
    and "length good + length bad < max_poll_bytes"
    and "\<And>doc. doc \<in> set docs \<Longrightarrow> prefix (old @ good @ bad @ [newline]) doc"
  shows "tail_run decode docs t = ([], t)"
  using assms(7)
proof (induction docs)
  case (Cons doc docs)
  obtain more where doc: "doc = old @ (good @ bad @ [newline]) @ more"
    using Cons.prems [of doc] by (auto simp: prefix_def)
  let ?rest = "(good @ bad @ [newline]) @ more"
  let ?bytes = "take (min (length ?rest) max_poll_bytes) ?rest"
  obtain tl where bytes: "?bytes = good @ bad @ [newline] @ tl"
  proof -
    have "length (good @ bad @ [newline]) \<le> min (length ?rest) max_poll_bytes" using assms(6) by simp
    then have "?bytes = (good @ bad @ [newline]) @ take (min (length ?rest) max_poll_bytes - length (good @ bad @ [newline])) more"
      by (rule take_through)
    with that show thesis by simp
  qed
  have nl: "newline \<in> set ?bytes" unfolding bytes by simp
  have "prefix (good @ bad @ [newline]) (complete_part ?bytes)"
  proof (cases "newline \<in> set tl")
    case True
    then have "complete_part ?bytes = good @ bad @ [newline] @ complete_part tl"
      unfolding bytes by (simp add: complete_part_def dropWhile_append)
    then show ?thesis by simp
  next
    case False
    then have "complete_part ?bytes = good @ bad @ [newline]"
      unfolding bytes by (simp add: complete_part_def dropWhile_append)
    then show ?thesis by simp
  qed
  then obtain more' where c: "complete_part ?bytes = good @ bad @ [newline] @ more'" by (auto simp: prefix_def)
  have line: "split_on newline (bad @ [newline] @ more') = [bad] @ split_on newline more'"
    using split_on_append [of newline bad more'] split_on_line [OF assms(4)] by simp
  have "\<exists>e :: unit registration_event_error. parse_audit_lines decode (split_on newline (complete_part ?bytes)) = Inl e"
    using decode_text_append [OF assms(2), of decode "bad @ [newline] @ more'"] assms(3,5) line
    unfolding decode_text_def c by (auto split: sum.splits)
  then obtain e :: "unit registration_event_error" where e: "parse_audit_lines decode (split_on newline (complete_part ?bytes)) = Inl e" by blast
  have "tail_poll decode (Inr (length doc)) (Inr doc :: unit io_result_error + string) t = (Inl e, t)"
    using assms(1) nl e unfolding tail_poll_def Let_def doc by (simp del: take_append)
  then show ?case using Cons by simp
qed simp

theorem bad_record_blocks_tail_witness:
  "tail_run example_decode [''aa1'' @ [newline], ''aa1'' @ [newline] @ ''a'' @ [newline]]
     \<lparr>at_path = ''audit'', at_offset = 0\<rparr> \<noteq> ([], \<lparr>at_path = ''audit'', at_offset = 0\<rparr>)
   \<and> tail_run example_decode [''1aa'' @ [newline], ''1aa'' @ [newline] @ ''a'' @ [newline]]
     \<lparr>at_path = ''audit'', at_offset = 0\<rparr> = ([], \<lparr>at_path = ''audit'', at_offset = 0\<rparr>)"
proof
  show "tail_run example_decode [''aa1'' @ [newline], ''aa1'' @ [newline] @ ''a'' @ [newline]]
     \<lparr>at_path = ''audit'', at_offset = 0\<rparr> \<noteq> ([], \<lparr>at_path = ''audit'', at_offset = 0\<rparr>)"
    by (simp add: example_poll_defs)
  show "tail_run example_decode [''1aa'' @ [newline], ''1aa'' @ [newline] @ ''a'' @ [newline]]
     \<lparr>at_path = ''audit'', at_offset = 0\<rparr> = ([], \<lparr>at_path = ''audit'', at_offset = 0\<rparr>)"
    by (rule bad_record_blocks_tail [where old = "[]" and good = "[]" and bad = "''1aa''"])
      (auto simp: example_decode_def max_poll_bytes_def)
qed

end
