(* ===== verification/Extension_Validation.thy ===== *)
theory Extension_Validation
  imports Json_Values
begin

text \<open>
  \<open>src/src/application/extension_validation.rs\<close>: the report on a cooperative extension reload, from
  the operation's state, the active operation and the audit records, all as JSON values. It is pure.
\<close>

definition required_audit_stages :: "string list" where
  "required_audit_stages =
     [''requested'', ''relay_created'', ''delivered'', ''accepted'', ''heartbeat_observed'', ''completed'']"

record extension_validation_check =
  ev_id :: string
  ev_passed :: bool
  ev_expected :: json
  ev_actual :: json

record extension_validation_report =
  vx_schema_version :: u32
  vx_command :: string
  vx_status :: string
  vx_exit_code :: "8 word"
  vx_request_id :: string
  vx_actor :: json
  vx_checks :: "extension_validation_check list"
  vx_operation :: json

definition report_passed :: "extension_validation_report \<Rightarrow> bool" where
  "report_passed r = (vx_exit_code r = 0)"

definition audit_stages :: "json list \<Rightarrow> string list" where
  "audit_stages records = List.map_filter (\<lambda>record. json_text record ''status'') records"

definition audit_identity_matches :: "string \<Rightarrow> json \<Rightarrow> json list \<Rightarrow> bool" where
  "audit_identity_matches request_id actor records = list_all (\<lambda>record.
     json_text record ''requestId'' = Some request_id \<and> json_get record ''actor'' = Some actor) records"

definition completion_check :: "json \<Rightarrow> extension_validation_check" where
  "completion_check operation =
     \<lparr>ev_id = ''cooperative_reload_completed'',
      ev_passed = (json_text operation ''status'' = Some ''completed''
        \<and> json_text operation ''stage'' = Some ''completed''),
      ev_expected = json_object [(''status'', JString ''completed''), (''stage'', JString ''completed'')],
      ev_actual = json_object [(''status'', json_or_null (json_get operation ''status'')),
        (''stage'', json_or_null (json_get operation ''stage''))]\<rparr>"

definition stages_check :: "json list \<Rightarrow> extension_validation_check" where
  "stages_check records =
     \<lparr>ev_id = ''six_stage_audit'',
      ev_passed = (audit_stages records = required_audit_stages),
      ev_expected = JArray (map JString required_audit_stages),
      ev_actual = JArray (map JString (audit_stages records))\<rparr>"

definition identity_check :: "string \<Rightarrow> json \<Rightarrow> json \<Rightarrow> json list \<Rightarrow> extension_validation_check" where
  "identity_check request_id actor operation records =
     \<lparr>ev_id = ''actor_and_request_identity'',
      ev_passed = (json_text operation ''requestId'' = Some request_id
        \<and> json_get operation ''actor'' = Some actor
        \<and> length records = length required_audit_stages
        \<and> audit_identity_matches request_id actor records),
      ev_expected = json_object [(''requestId'', JString request_id), (''actor'', actor)],
      ev_actual = json_object [(''operationRequestId'', json_or_null (json_get operation ''requestId'')),
        (''operationActor'', json_or_null (json_get operation ''actor'')),
        (''auditRecordCount'', json_size (length records)),
        (''auditIdentityMatches'', JBool (audit_identity_matches request_id actor records))]\<rparr>"

definition heartbeat_check :: "json \<Rightarrow> extension_validation_check" where
  "heartbeat_check operation =
     (let expected_build = json_or_null (json_get operation ''expectedBuildId'');
          observed_build = json_or_null (json_get operation ''observedBuildId'') in
      \<lparr>ev_id = ''expected_observed_heartbeat'',
       ev_passed = (expected_build \<noteq> JNull \<and> expected_build = observed_build),
       ev_expected = expected_build, ev_actual = observed_build\<rparr>)"

definition zombie_check :: "json \<Rightarrow> extension_validation_check" where
  "zombie_check active_operation =
     \<lparr>ev_id = ''no_zombie_action'', ev_passed = (active_operation = JNull),
      ev_expected = JNull, ev_actual = active_operation\<rparr>"

definition validate_extension_release ::
  "string \<Rightarrow> json \<Rightarrow> json \<Rightarrow> json \<Rightarrow> json list \<Rightarrow> extension_validation_report" where
  "validate_extension_release request_id actor operation active_operation records =
     (let checks = [completion_check operation, stages_check records,
          identity_check request_id actor operation records, heartbeat_check operation,
          zombie_check active_operation];
          passed = list_all ev_passed checks in
      \<lparr>vx_schema_version = 1, vx_command = ''extension_validate'',
       vx_status = (if passed then ''passed'' else ''failed''),
       vx_exit_code = (if passed then 0 else 1),
       vx_request_id = request_id, vx_actor = actor, vx_checks = checks, vx_operation = operation\<rparr>)"

section \<open>What a passed report proves\<close>

text \<open>One record of the audit trail of a request, at a stage.\<close>

definition is_stage_record :: "string \<Rightarrow> json \<Rightarrow> json \<Rightarrow> string \<Rightarrow> bool" where
  "is_stage_record request_id actor record stage \<longleftrightarrow>
     json_text record ''status'' = Some stage \<and> json_text record ''requestId'' = Some request_id
     \<and> json_get record ''actor'' = Some actor"

lemma map_filter_full:
  "List.map_filter f xs = ys \<Longrightarrow> length xs = length ys \<Longrightarrow> list_all2 (\<lambda>x y. f x = Some y) xs ys"
proof (induction xs arbitrary: ys)
  case (Cons x xs)
  have short: "length (List.map_filter f zs) \<le> length zs" for zs
    by (simp add: List.map_filter_def)
  show ?case
  proof (cases "f x")
    case None
    then have "length ys \<le> length xs" using Cons.prems(1) short [of xs] by (auto simp: List.map_filter_def)
    then show ?thesis using Cons.prems(2) by simp
  next
    case (Some y)
    with Cons show ?thesis by (auto simp: List.map_filter_def)
  qed
qed (simp add: List.map_filter_def)

lemma map_filter_all2: "list_all2 (\<lambda>x y. f x = Some y) xs ys \<Longrightarrow> List.map_filter f xs = ys"
  by (induction rule: list_all2_induct) (simp_all add: List.map_filter_def)

text \<open>A release passes exactly when the operation completed for this request and actor, its audit
  consists of the six stages in order, one record each, all of this request and actor, the build
  observed in the browser is the expected one, and no operation is active.\<close>

lemma release_passes_exactly:
  "report_passed (validate_extension_release request_id actor operation active records) \<longleftrightarrow>
     json_text operation ''status'' = Some ''completed'' \<and> json_text operation ''stage'' = Some ''completed''
     \<and> json_text operation ''requestId'' = Some request_id \<and> json_get operation ''actor'' = Some actor
     \<and> list_all2 (is_stage_record request_id actor) records required_audit_stages
     \<and> json_get operation ''expectedBuildId'' \<notin> {None, Some JNull}
     \<and> json_get operation ''observedBuildId'' = json_get operation ''expectedBuildId''
     \<and> active = JNull"
proof -
  have trail: "audit_stages records = required_audit_stages \<and> length records = length required_audit_stages
      \<and> audit_identity_matches request_id actor records
    \<longleftrightarrow> list_all2 (is_stage_record request_id actor) records required_audit_stages"
    (is "?a \<and> ?b \<and> ?c \<longleftrightarrow> ?d")
  proof
    assume *: "?a \<and> ?b \<and> ?c"
    then have "list_all2 (\<lambda>r stage. json_text r ''status'' = Some stage) records required_audit_stages"
      unfolding audit_stages_def by (elim conjE) (rule map_filter_full)
    then show ?d using * unfolding audit_identity_matches_def is_stage_record_def
      by (auto simp: list_all2_conv_all_nth list_all_length)
  next
    assume ?d
    then have "list_all2 (\<lambda>r stage. json_text r ''status'' = Some stage) records required_audit_stages"
      by (rule list_all2_mono) (simp add: is_stage_record_def)
    then have ?a unfolding audit_stages_def by (rule map_filter_all2)
    with \<open>?d\<close> show "?a \<and> ?b \<and> ?c"
      unfolding audit_identity_matches_def
      by (auto simp: list_all2_conv_all_nth list_all_length is_stage_record_def)
  qed
  have build: "json_or_null e \<noteq> JNull \<and> json_or_null e = json_or_null b \<longleftrightarrow> e \<notin> {None, Some JNull} \<and> b = e" for e b
    by (cases e; cases b) auto
  have "report_passed (validate_extension_release request_id actor operation active records) \<longleftrightarrow>
      ev_passed (completion_check operation) \<and> ev_passed (stages_check records)
      \<and> ev_passed (identity_check request_id actor operation records) \<and> ev_passed (heartbeat_check operation)
      \<and> ev_passed (zombie_check active)"
    by (simp add: report_passed_def validate_extension_release_def Let_def)
  then show ?thesis
    unfolding completion_check_def stages_check_def identity_check_def heartbeat_check_def zombie_check_def Let_def
      extension_validation_check.select_convs build trail [symmetric] by blast
qed

end
