(* ===== verification/Http_Response.thy ===== *)
theory Http_Response
  imports Wire_Text
begin

text \<open>
  \<open>src/src/adapters/http_response.rs\<close>: the response of an HTTP/1.1 server and its chunked body. The
  round trip at the end goes through an encoder of chunks that is written down here as the
  specification of the format.
\<close>

abbreviation crlf :: string where
  "crlf \<equiv> [CHR 0x0D, CHR 0x0A]"

record http_response =
  hr_status :: u16
  hr_body :: string

text \<open>The slices of the code stay within the bytes: the cursor is never behind their end.\<close>

function decode_chunks :: "string \<Rightarrow> nat \<Rightarrow> string \<Rightarrow> string + string" where
  "decode_chunks encoded cursor decoded =
     (case find_bytes (drop cursor encoded) crlf of
        None \<Rightarrow> Inl ''HTTP chunk size line was incomplete''
      | Some offset \<Rightarrow>
          (let line_end = cursor + offset;
               size_line = take offset (drop cursor encoded) in
           if \<not> utf8_valid size_line then Inl ''HTTP chunk size was not ASCII''
           else (let size_token = (case split_once size_line '';'' of None \<Rightarrow> size_line | Some (token, _) \<Rightarrow> token) in
             case parse_usize 16 (trim size_token) of
               None \<Rightarrow> Inl ''HTTP chunk size was invalid''
             | Some n \<Rightarrow>
                 (let start = line_end + 2 in
                  if n = 0 then
                    (let trailers = drop start encoded in
                     if trailers = crlf \<or> suffix (crlf @ crlf) trailers then Inr decoded
                     else Inl ''HTTP chunk trailers were incomplete'')
                  else if usize_bound \<le> start + n then Inl ''HTTP chunk size exceeded the response bound''
                  else if usize_bound \<le> start + n + 2 then Inl ''HTTP chunk framing exceeded the response bound''
                  else if length encoded < start + n + 2 \<or> take 2 (drop (start + n) encoded) \<noteq> crlf
                  then Inl ''HTTP chunk data was incomplete''
                  else decode_chunks encoded (start + n + 2) (decoded @ take n (drop start encoded))))))"
  by pat_completeness auto
termination
  by (relation "measure (\<lambda>(encoded, cursor, decoded). length encoded - cursor)") auto

declare decode_chunks.simps [simp del]

definition decode_chunked_body :: "string \<Rightarrow> string + string" where
  "decode_chunked_body encoded = decode_chunks encoded 0 []"

definition is_chunked_header :: "string \<Rightarrow> bool" where
  "is_chunked_header line = (case split_once line '':'' of
      None \<Rightarrow> False
    | Some (name, v) \<Rightarrow> eq_ignore_ascii_case name ''transfer-encoding''
        \<and> list_ex (\<lambda>coding. eq_ignore_ascii_case (trim coding) ''chunked'') (split_on (CHR '','') v))"

text \<open>The second word of a status line, as a number.\<close>

definition status_of_line :: "string \<Rightarrow> u16 option" where
  "status_of_line line = (case split_whitespace line of
      _ # status # _ \<Rightarrow> parse_u16 status | _ \<Rightarrow> None)"

definition parse_response :: "string \<Rightarrow> string + http_response" where
  "parse_response bytes = (case find_bytes bytes (crlf @ crlf) of
      None \<Rightarrow> Inl ''HTTP response headers were incomplete''
    | Some header_end \<Rightarrow>
        (let header = take header_end bytes in
         if \<not> utf8_valid header then Inl ''HTTP response headers were not UTF-8''
         else (case (case file_lines [] header of [] \<Rightarrow> None | line # _ \<Rightarrow> status_of_line line) of
             None \<Rightarrow> Inl ''HTTP response status was invalid''
           | Some status \<Rightarrow>
               (let encoded_body = drop (header_end + 4) bytes in
                if list_ex is_chunked_header (drop 1 (file_lines [] header)) then
                  (case decode_chunked_body encoded_body of
                     Inl e \<Rightarrow> Inl e | Inr body \<Rightarrow> Inr \<lparr>hr_status = status, hr_body = body\<rparr>)
                else Inr \<lparr>hr_status = status, hr_body = encoded_body\<rparr>))))"

section \<open>The chunked format\<close>

definition hex_char :: "nat \<Rightarrow> char" where
  "hex_char d = char_of (if d < 10 then 48 + d else 87 + d)"

fun hexadecimal :: "nat \<Rightarrow> string" where
  "hexadecimal n = (if n < 16 then [hex_char n] else hexadecimal (n div 16) @ [hex_char (n mod 16)])"

declare hexadecimal.simps [simp del]

fun encode_chunk :: "string \<times> string \<Rightarrow> string" where
  "encode_chunk (extension, data) = hexadecimal (length data) @ extension @ crlf @ data @ crlf"

definition encode_chunked :: "(string \<times> string) list \<Rightarrow> string \<Rightarrow> string" where
  "encode_chunked chunks trailers = concat (map encode_chunk chunks) @ ''0'' @ crlf @ trailers @ crlf"

text \<open>A chunk is not empty; its extension starts with a semicolon and is ASCII without a carriage return.\<close>

fun chunk_ok :: "string \<times> string \<Rightarrow> bool" where
  "chunk_ok (extension, data) \<longleftrightarrow> data \<noteq> [] \<and> (extension = [] \<or> hd extension = CHR '';'')
     \<and> list_all (\<lambda>c. is_ascii c \<and> c \<noteq> CHR 0x0D) extension"

definition is_hex :: "char \<Rightarrow> bool" where
  "is_hex c \<longleftrightarrow> 48 \<le> (of_char c :: nat) \<and> (of_char c :: nat) \<le> 57 \<or> 97 \<le> (of_char c :: nat) \<and> (of_char c :: nat) \<le> 102"

lemma hex_char_is_hex: "d < 16 \<Longrightarrow> is_hex (hex_char d) \<and> radix_digit 16 (hex_char d) = Some d"
  by (auto simp: is_hex_def hex_char_def radix_digit_def Let_def)

lemma hexadecimal_hex: "list_all is_hex (hexadecimal n) \<and> hexadecimal n \<noteq> []"
proof (induction n rule: hexadecimal.induct)
  case (1 n)
  then show ?case by (subst hexadecimal.simps) (simp add: hex_char_is_hex, subst hexadecimal.simps, simp)
qed

lemma hexadecimal_value: "radix_value 16 (hexadecimal n) = n"
proof (induction n rule: hexadecimal.induct)
  case (1 n)
  then show ?case
    by (subst hexadecimal.simps) (auto simp: radix_value_def hex_char_is_hex)
qed

lemma is_hex_digit: "is_hex c \<Longrightarrow> radix_digit 16 c \<noteq> None \<and> is_ascii c \<and> c \<notin> {CHR ''+'', CHR '';'', CHR 0x0D}"
  by (auto simp: is_hex_def radix_digit_def Let_def is_ascii_def)

lemma hex_not_white: "is_hex c \<Longrightarrow> w \<in> set ws_encodings \<Longrightarrow> hd w \<noteq> c \<and> last w \<noteq> c"
  by (auto simp: ws_encodings_def is_hex_def)

lemma hex_trim:
  assumes "list_all is_hex s" and "s \<noteq> []"
  shows "trim s = s"
proof (rule trim_idem)
  have "is_hex (hd s)" "is_hex (last s)" using assms by (simp_all add: list_all_iff)
  then have ends: "hd w \<noteq> hd s" "last w \<noteq> last s" "w \<noteq> []" if "w \<in> set ws_encodings" for w
    using that hex_not_white ws_encodings_nonempty by blast+
  have "\<not> prefix w s" "\<not> suffix w s" if "w \<in> set ws_encodings" for w
    using ends [OF that] by (auto simp: prefix_def suffix_def)
  then show "ws_len s = 0" "ws_end_len s = 0" by (simp_all add: ws_len_0_iff ws_end_len_0_iff)
qed

lemma parse_hexadecimal: "n < usize_bound \<Longrightarrow> parse_usize 16 (trim (hexadecimal n)) = Some n"
proof -
  assume n: "n < usize_bound"
  have hex: "list_all is_hex (hexadecimal n)" "hexadecimal n \<noteq> []" using hexadecimal_hex by auto
  then have "hd (hexadecimal n) \<noteq> CHR ''+''"
    using is_hex_digit by (metis hd_in_set insertI1 list_all_iff)
  moreover have "\<not> list_ex (\<lambda>c. radix_digit 16 c = None) (hexadecimal n)"
    using hex is_hex_digit by (auto simp: list_all_iff list_ex_iff)
  ultimately show ?thesis
    using hex n by (simp add: hex_trim parse_usize_def parse_unsigned_def hexadecimal_value)
qed

text \<open>One chunk is read off the front of the rest of the body.\<close>

lemma decode_chunk:
  assumes ok: "chunk_ok (extension, data)" and small: "length data < usize_bound"
    and encoded: "drop cursor encoded = encode_chunk (extension, data) @ rest"
    and room: "length encoded < usize_bound" and cursor: "cursor \<le> length encoded"
  shows "\<exists>next_cursor \<le> length encoded. drop next_cursor encoded = rest
    \<and> decode_chunks encoded cursor decoded = decode_chunks encoded next_cursor (decoded @ data)"
proof -
  let ?line = "hexadecimal (length data) @ extension"
  have hex: "list_all is_hex (hexadecimal (length data))" using hexadecimal_hex by auto
  have plain: "CHR 0x0D \<notin> set ?line"
    using hex ok is_hex_digit by (auto simp: list_all_iff)
  have ascii: "list_all is_ascii ?line" using hex ok is_hex_digit by (auto simp: list_all_iff)
  have at: "drop cursor encoded = ?line @ crlf @ data @ crlf @ rest" using encoded by simp
  have find: "find_bytes (drop cursor encoded) crlf = Some (length ?line)"
    using find_bytes_line [OF plain, of "[CHR 0x0A]" "data @ crlf @ rest"] at by simp
  have line: "take (length ?line) (drop cursor encoded) = ?line" using at by simp
  have "CHR '';'' \<notin> set (hexadecimal (length data))" using hex is_hex_digit by (auto simp: list_all_iff)
  then have token: "(case split_once ?line '';'' of None \<Rightarrow> ?line | Some (token, _) \<Rightarrow> token) = hexadecimal (length data)"
    using ok split_once_line [of "CHR '';''" "hexadecimal (length data)" "[]" "tl extension"]
      split_once_absent [of "CHR '';''" "hexadecimal (length data)" "[]"]
    by (cases extension) auto
  let ?start = "cursor + length ?line + 2"
  have start: "drop ?start encoded = data @ crlf @ rest"
  proof -
    have "drop ?start encoded = drop (length ?line + 2) (drop cursor encoded)"
      by (simp add: add_ac)
    then show ?thesis unfolding at by simp
  qed
  have tail: "drop (?start + length data) encoded = crlf @ rest"
  proof -
    have "drop (?start + length data) encoded = drop (length data) (drop ?start encoded)"
      by (simp add: add_ac)
    then show ?thesis unfolding start by simp
  qed
  have last: "drop (?start + length data + 2) encoded = rest"
  proof -
    have "drop (?start + length data + 2) encoded = drop 2 (drop (?start + length data) encoded)"
      by (simp add: add_ac)
    then show ?thesis unfolding tail by simp
  qed
  have len: "length encoded = cursor + length (drop cursor encoded)" using cursor by simp
  then have bound: "?start + length data + 2 \<le> length encoded" unfolding at by simp
  have "decode_chunks encoded cursor decoded = decode_chunks encoded (?start + length data + 2) (decoded @ data)"
    using ok bound room start tail
    by (subst decode_chunks.simps)
       (simp only: find option.case line Let_def utf8_valid_ascii [OF ascii] token parse_hexadecimal [OF small], simp)
  then show ?thesis using last bound by blast
qed

lemma decode_chunks_encoded:
  assumes "list_all chunk_ok chunks" and "trailers = [] \<or> suffix crlf trailers"
    and "drop cursor encoded = encode_chunked chunks trailers"
    and "length encoded < usize_bound" and "cursor \<le> length encoded"
  shows "decode_chunks encoded cursor decoded = Inr (decoded @ concat (map snd chunks))"
  using assms
proof (induction chunks arbitrary: cursor decoded)
  case Nil
  have at: "drop cursor encoded = ''0'' @ crlf @ trailers @ crlf" using Nil.prems(3) by (simp add: encode_chunked_def)
  have find: "find_bytes (drop cursor encoded) crlf = Some 1"
    using find_bytes_line [of "CHR 0x0D" "''0''" "[CHR 0x0A]" "trailers @ crlf"] at by simp
  have line: "take 1 (drop cursor encoded) = ''0''" using at by simp
  have "drop (cursor + 1 + 2) encoded = drop 3 (drop cursor encoded)" by (simp add: numeral_3_eq_3)
  then have rest: "drop (cursor + 1 + 2) encoded = trailers @ crlf" unfolding at by simp
  have ends: "trailers @ crlf = crlf \<or> suffix (crlf @ crlf) (trailers @ crlf)"
    using Nil.prems(2) by (auto simp: suffix_def)
  have zero: "parse_usize 16 (trim ''0'') = Some 0"
  proof -
    have "hexadecimal 0 = ''0''" by code_simp
    then show ?thesis using parse_hexadecimal [of 0] by simp
  qed
  have token: "split_once ''0'' '';'' = None" by (simp add: split_once_def)
  have ascii: "utf8_valid ''0''" by (rule utf8_valid_ascii) (simp add: is_ascii_def)
  show ?case
    by (subst decode_chunks.simps)
       (simp only: find option.case line Let_def ascii token zero rest ends, simp)
next
  case (Cons chunk chunks)
  obtain extension data where chunk: "chunk = (extension, data)" by (cases chunk)
  have split: "drop cursor encoded = encode_chunk (extension, data) @ encode_chunked chunks trailers"
    using Cons.prems(3) chunk by (simp add: encode_chunked_def)
  then have "length data \<le> length (drop cursor encoded)" by simp
  then have "length data < usize_bound" using Cons.prems(4) by simp
  then obtain cursor' where "cursor' \<le> length encoded" "drop cursor' encoded = encode_chunked chunks trailers"
      "decode_chunks encoded cursor decoded = decode_chunks encoded cursor' (decoded @ data)"
    using decode_chunk [OF _ _ split Cons.prems(4,5), of decoded] Cons.prems(1) chunk by auto
  then show ?case using Cons.IH [of cursor' "decoded @ data"] Cons.prems chunk by simp
qed

text \<open>C23: A body that a server cuts into chunks, with extensions and trailers, is decoded to the
  concatenation of the chunks.\<close>

theorem chunked_body_round_trip:
  assumes "list_all chunk_ok chunks" and "trailers = [] \<or> suffix crlf trailers"
    and "length (encode_chunked chunks trailers) < usize_bound"
  shows "decode_chunked_body (encode_chunked chunks trailers) = Inr (concat (map snd chunks))"
  using decode_chunks_encoded [OF assms(1,2) _ assms(3), of 0 "[]"] by (simp add: decode_chunked_body_def)

theorem chunked_body_round_trip_witness:
  "decode_chunked_body (encode_chunked [('';a=1'', ''hello ''), ('''', ''world'')] (''X: 1'' @ crlf)) = Inr ''hello world''"
proof -
  have "list_all chunk_ok [('';a=1'', ''hello ''), ('''', ''world'')]" by (simp add: is_ascii_def)
  moreover have "length (encode_chunked [('';a=1'', ''hello ''), ('''', ''world'')] (''X: 1'' @ crlf)) < usize_bound"
    by (simp add: encode_chunked_def hexadecimal.simps)
  ultimately show ?thesis
    using chunked_body_round_trip [of "[('';a=1'', ''hello ''), ('''', ''world'')]" "''X: 1'' @ crlf"]
    by (simp add: suffix_def)
qed

end
