(* ===== verification/Http_Health.thy ===== *)
theory Http_Health
  imports Http_Response Json_Values
begin

text \<open>
  \<open>src/src/adapters/http_health.rs\<close>: the probe of a loopback TCP port or HTTP endpoint. The socket
  layer and the JSON library are the record \<open>http_host\<close>; the world \<open>'w\<close> holds the clock and the
  open connections. The probe panics nowhere.
\<close>

section \<open>The host\<close>

text \<open>
  An address keeps what a parsed IPv6 address may carry besides the IP and the port. \<open>hk_read c n\<close> is
  one \<open>read\<close> into a buffer of \<open>n\<close> bytes: the bytes read, none at the end of the stream.
\<close>

record 'ip socket_addr =
  sa_ip :: 'ip
  sa_port :: u16
  sa_scope :: nat

record ('w, 'ip, 'c) http_host =
  hk_ip :: "string \<Rightarrow> 'ip option"
  hk_socket_addr :: "string \<Rightarrow> 'ip socket_addr option"
  hk_is_loopback :: "'ip \<Rightarrow> bool"
  hk_now :: "'w \<Rightarrow> nat \<times> 'w"
  hk_connect :: "'ip socket_addr \<Rightarrow> nat \<Rightarrow> 'w \<Rightarrow> (string + 'c) \<times> 'w"
  hk_set_write_timeout :: "'c \<Rightarrow> nat \<Rightarrow> 'w \<Rightarrow> string option \<times> 'w"
  hk_write_and_flush :: "'c \<Rightarrow> string \<Rightarrow> 'w \<Rightarrow> string option \<times> 'w"
  hk_set_read_timeout :: "'c \<Rightarrow> nat \<Rightarrow> 'w \<Rightarrow> string option \<times> 'w"
  hk_read :: "'c \<Rightarrow> nat \<Rightarrow> 'w \<Rightarrow> (string + string) \<times> 'w"
  hk_json :: "string \<Rightarrow> string + json"
  hk_pointer :: "json \<Rightarrow> string \<Rightarrow> json option"

definition max_response_bytes :: nat where
  "max_response_bytes = 1024 * 1024"

section \<open>JSON expectations\<close>

text \<open>Equality of \<open>Value\<close>: floats are compared as floats, so the two zeros are equal.\<close>

definition same_number :: "json_number \<Rightarrow> json_number \<Rightarrow> bool" where
  "same_number m n \<longleftrightarrow> m = n \<or> {m, n} = {Float 0, Float 0x8000000000000000}"

fun json_same :: "json \<Rightarrow> json \<Rightarrow> bool"
  and json_same_list :: "json list \<Rightarrow> json list \<Rightarrow> bool"
  and json_same_fields :: "(string \<times> json) list \<Rightarrow> (string \<times> json) list \<Rightarrow> bool" where
  "json_same JNull w = (w = JNull)"
| "json_same (JBool a) w = (w = JBool a)"
| "json_same (JNumber m) w = (case w of JNumber n \<Rightarrow> same_number m n | _ \<Rightarrow> False)"
| "json_same (JString s) w = (w = JString s)"
| "json_same (JArray vs) w = (case w of JArray ws \<Rightarrow> json_same_list vs ws | _ \<Rightarrow> False)"
| "json_same (JObject fs) w = (case w of JObject gs \<Rightarrow> json_same_fields fs gs | _ \<Rightarrow> False)"
| "json_same_list [] ws = (ws = [])"
| "json_same_list (v # vs) ws = (case ws of w # ws \<Rightarrow> json_same v w \<and> json_same_list vs ws | [] \<Rightarrow> False)"
| "json_same_fields [] gs = (gs = [])"
| "json_same_fields ((k, v) # fs) gs =
     (case gs of (k', w) # gs \<Rightarrow> k = k' \<and> json_same v w \<and> json_same_fields fs gs | [] \<Rightarrow> False)"

definition json_at :: "('w, 'ip, 'c) http_host \<Rightarrow> json_path_mode \<Rightarrow> json \<Rightarrow> string \<Rightarrow> json option" where
  "json_at k mode body field = (case mode of Shallow \<Rightarrow> json_get body field | JsonPointer \<Rightarrow> hk_pointer k body field)"

definition observed_values ::
  "('w, 'ip, 'c) http_host \<Rightarrow> json \<Rightarrow> json_path_mode \<Rightarrow> string list \<Rightarrow> (string, json) btree" where
  "observed_values k body mode wanted =
     bt_collect (List.map_filter (\<lambda>field. map_option (\<lambda>v. (field, v)) (json_at k mode body field)) wanted)"

definition json_mismatches ::
  "('w, 'ip, 'c) http_host \<Rightarrow> json \<Rightarrow> json_path_mode \<Rightarrow> (string, json) btree \<Rightarrow> string list" where
  "json_mismatches k body mode expectations = List.map_filter (\<lambda>(key, expected).
     case json_at k mode body key of
       Some found \<Rightarrow> if json_same found expected then None else Some (key @ '': value did not match'')
     | None \<Rightarrow> Some (key @ '': field was missing'')) expectations"

definition evaluate_json_body ::
  "('w, 'ip, 'c) http_host \<Rightarrow> json \<Rightarrow> json_path_mode \<Rightarrow> (string, json) btree \<Rightarrow> string list \<Rightarrow> transport_health" where
  "evaluate_json_body k body mode expect observe =
     (let mismatches = json_mismatches k body mode expect in
      \<lparr>th_transport_ready = True, th_healthy = (mismatches = []),
       th_detail = (if mismatches = [] then ''HTTP JSON matched '' @ decimal (length expect) @ '' expected field(s)''
         else ''HTTP JSON required mismatch: '' @ join ''; '' mismatches),
       th_observed = observed_values k body mode observe\<rparr>)"

section \<open>Connections\<close>

definition failed_transport :: "string \<Rightarrow> transport_health" where
  "failed_transport detail =
     \<lparr>th_transport_ready = False, th_healthy = False, th_detail = detail, th_observed = bt_empty\<rparr>"

definition connect_tcp ::
  "('w, 'ip, 'c) http_host \<Rightarrow> string \<Rightarrow> u16 \<Rightarrow> nat \<Rightarrow> ('w, unit, string) op" where
  "connect_tcp k host port timeout w =
     (if timeout = 0 then (Err ''TCP health deadline was exhausted'', w)
      else (case hk_ip k host of
          None \<Rightarrow> (Err ''TCP health host must be an explicit loopback IP'', w)
        | Some ip \<Rightarrow>
            if \<not> hk_is_loopback k ip then (Err ''TCP health host must target loopback'', w)
            else (case hk_connect k \<lparr>sa_ip = ip, sa_port = port, sa_scope = 0\<rparr> timeout w of
                (Inr c, w1) \<Rightarrow> (Ok (), w1)
              | (Inl e, w1) \<Rightarrow> (Err (''TCP connection failed: '' @ e), w1))))"

definition parse_loopback_url ::
  "('w, 'ip, 'c) http_host \<Rightarrow> string \<Rightarrow> string + 'ip socket_addr \<times> string \<times> string" where
  "parse_loopback_url k url =
     (if \<not> prefix ''http://'' url then Inl ''health URL must use loopback HTTP''
      else (let remainder = drop 7 url;
                (authority, path) = (case split_once remainder ''/'' of
                    None \<Rightarrow> (remainder, ''/'')
                  | Some (authority, path) \<Rightarrow> (authority, drop (length url - length path - 1) url)) in
        case hk_socket_addr k authority of
          None \<Rightarrow> Inl ''health URL requires an explicit loopback IP and port''
        | Some address \<Rightarrow>
            if \<not> hk_is_loopback k (sa_ip address) then Inl ''health URL must target loopback''
            else Inr (address, authority, path)))"

text \<open>
  The reading loop: every read is given what is left of the deadline, and the response has at most
  1 MiB. Every round but the last adds a byte, so the bound ends the loop.
\<close>

function read_response ::
  "('w, 'ip, 'c) http_host \<Rightarrow> 'c \<Rightarrow> nat \<Rightarrow> nat \<Rightarrow> string \<Rightarrow> ('w, string, string) op" where
  "read_response k c timeout started bytes w =
     (case hk_now k w of (now, w1) \<Rightarrow>
        (let remaining = timeout - (now - started) in
         if remaining = 0 then (Err ''HTTP health deadline was exhausted while reading response'', w1)
         else (case hk_set_read_timeout k c remaining w1 of
             (Some e, w2) \<Rightarrow> (Err (''failed to set HTTP read timeout: '' @ e), w2)
           | (None, w2) \<Rightarrow>
               (case hk_read k c 8192 w2 of
                  (Inl e, w3) \<Rightarrow> (Err (''HTTP response read failed: '' @ e), w3)
                | (Inr chunk, w3) \<Rightarrow>
                    if chunk = [] then (Ok bytes, w3)
                    else if max_response_bytes < length (bytes @ chunk)
                    then (Err ''HTTP health response exceeded 1 MiB'', w3)
                    else read_response k c timeout started (bytes @ chunk) w3))))"
  by pat_completeness auto
termination
  by (relation "measure (\<lambda>(k, c, timeout, started, bytes, w). max_response_bytes - length bytes)")
     (auto simp: not_less length_greater_0_conv [symmetric] simp del: length_greater_0_conv)

declare read_response.simps [simp del]

definition request_text :: "string \<Rightarrow> string \<Rightarrow> string \<Rightarrow> string" where
  "request_text path authority accept =
     ''GET '' @ path @ '' HTTP/1.1'' @ crlf @ ''Host: '' @ authority @ crlf @ ''Accept: '' @ accept @ crlf
     @ ''Connection: close'' @ crlf @ crlf"

definition health_request ::
  "('w, 'ip, 'c) http_host \<Rightarrow> string \<Rightarrow> nat \<Rightarrow> string \<Rightarrow> ('w, http_response, string) op" where
  "health_request k url timeout accept w =
     (if timeout = 0 then (Err ''HTTP health deadline was exhausted'', w)
      else (case hk_now k w of (started, w1) \<Rightarrow>
        (case parse_loopback_url k url of
           Inl e \<Rightarrow> (Err e, w1)
         | Inr (address, authority, path) \<Rightarrow>
             (case hk_connect k address timeout w1 of
                (Inl e, w2) \<Rightarrow> (Err (''HTTP connection failed: '' @ e), w2)
              | (Inr c, w2) \<Rightarrow>
                  (case hk_now k w2 of (now, w3) \<Rightarrow>
                    (let write_timeout = timeout - (now - started) in
                     if write_timeout = 0 then (Err ''HTTP health deadline was exhausted before write'', w3)
                     else (case hk_set_write_timeout k c write_timeout w3 of
                         (Some e, w4) \<Rightarrow> (Err (''failed to set HTTP write timeout: '' @ e), w4)
                       | (None, w4) \<Rightarrow>
                           (case hk_write_and_flush k c (request_text path authority accept) w4 of
                              (Some e, w5) \<Rightarrow> (Err (''HTTP request failed: '' @ e), w5)
                            | (None, w5) \<Rightarrow>
                                bind_op (read_response k c timeout started [])
                                  (\<lambda>bytes. lift_sum (parse_response bytes)) w5))))))))"

definition plain_health :: "bool \<Rightarrow> string \<Rightarrow> transport_health" where
  "plain_health healthy detail =
     \<lparr>th_transport_ready = True, th_healthy = healthy, th_detail = detail, th_observed = bt_empty\<rparr>"

definition json_health ::
  "('w, 'ip, 'c) http_host \<Rightarrow> json_path_mode \<Rightarrow> (string, json) btree \<Rightarrow> string list \<Rightarrow> http_response \<Rightarrow>
     transport_health" where
  "json_health k mode expect observe response =
     (if \<not> (200 \<le> hr_status response \<and> hr_status response < 300)
      then plain_health False (''HTTP JSON endpoint returned status '' @ decimal (unat (hr_status response)))
      else (case hk_json k (hr_body response) of
          Inr body \<Rightarrow> evaluate_json_body k body mode expect observe
        | Inl e \<Rightarrow> plain_health False (''HTTP response was not valid JSON: '' @ e)))"

definition status_health :: "u16 \<Rightarrow> http_response \<Rightarrow> transport_health" where
  "status_health expected response =
     plain_health (hr_status response = expected)
       (if hr_status response = expected then ''HTTP status '' @ decimal (unat (hr_status response)) @ '' matched''
        else ''HTTP status mismatch: expected '' @ decimal (unat expected) @ '', observed ''
          @ decimal (unat (hr_status response)))"

definition transport_result :: "('a \<Rightarrow> transport_health) \<Rightarrow> ('a, string) outcome \<times> 'w \<Rightarrow> transport_health \<times> 'w" where
  "transport_result f r = (case r of
      (Ok a, w) \<Rightarrow> (f a, w) | (Err e, w) \<Rightarrow> (failed_transport e, w)
    | (Panic, w) \<Rightarrow> (failed_transport '''', w))"

definition loopback_probe ::
  "('w, 'ip, 'c) http_host \<Rightarrow> health_check_spec \<Rightarrow> nat \<Rightarrow> 'w \<Rightarrow> transport_health \<times> 'w" where
  "loopback_probe k check timeout w = (case check of
      HealthProcess \<Rightarrow> (plain_health True ''owned process tree is ready'', w)
    | TcpConnect host port _ _ \<Rightarrow> transport_result
        (\<lambda>_. plain_health True (''TCP connect to '' @ host @ '':'' @ decimal (unat port) @ '' succeeded''))
        (connect_tcp k host port timeout w)
    | HttpStatus url expected _ _ \<Rightarrow> transport_result (status_health expected) (health_request k url timeout ''*/*'' w)
    | HttpJson url _ _ mode expect observe \<Rightarrow>
        transport_result (json_health k mode expect observe) (health_request k url timeout ''application/json'' w))"

section \<open>Facts\<close>

lemma read_response_no_panic: "fst (read_response k c timeout started bytes w) \<noteq> Panic"
  by (induction k c timeout started bytes w rule: read_response.induct, subst read_response.simps)
     (auto simp: Let_def split: prod.splits option.splits sum.splits)

lemma health_request_no_panic: "fst (health_request k url timeout accept w) \<noteq> Panic"
proof -
  have "fst (bind_op (read_response k c timeout started []) (\<lambda>bytes. lift_sum (parse_response bytes)) w') \<noteq> Panic"
    for c started w'
    using read_response_no_panic [of k c timeout started "[]" w']
    by (auto simp: bind_op_def lift_sum_def fail_op_def return_op_def split: prod.splits outcome.splits sum.splits)
  then show ?thesis
    by (simp add: health_request_def Let_def split: prod.split option.split sum.split)
qed

lemma read_response_bound:
  "fst (read_response k c timeout started bytes w) = Ok content \<Longrightarrow> length bytes \<le> max_response_bytes \<Longrightarrow>
     length content \<le> max_response_bytes"
proof (induction k c timeout started bytes w rule: read_response.induct)
  case (1 k c timeout started bytes w)
  show ?case
    using 1(2,3) by (subst (asm) read_response.simps)
      (auto simp: Let_def split: prod.splits option.splits sum.splits if_splits intro: 1(1))
qed

lemma transport_healthy:
  assumes "fst r \<noteq> Panic"
  shows "th_healthy (fst (transport_result f r)) \<longleftrightarrow> (\<exists>a. fst r = Ok a \<and> th_healthy (f a))"
  using assms by (cases r; cases "fst r") (auto simp: transport_result_def failed_transport_def)

lemma mismatches_Nil:
  "json_mismatches k body mode expect = [] \<longleftrightarrow>
     list_all (\<lambda>(key, expected). \<exists>found. json_at k mode body key = Some found \<and> json_same found expected) expect"
proof -
  have "List.map_filter f xs = [] \<longleftrightarrow> list_all (\<lambda>x. f x = None) xs" for f :: "string \<times> json \<Rightarrow> string option" and xs
    by (induction xs) (auto simp: List.map_filter_def)
  then show ?thesis
    unfolding json_mismatches_def
    by (auto simp: list_all_iff split: option.splits if_splits)
qed

text \<open>C24: A JSON probe reports a healthy service exactly when the whole exchange succeeded, the status is a
  success, the body is JSON and every expected field is there with the expected value; otherwise the
  service is unhealthy, whatever failed.\<close>

theorem json_probe_healthy_exactly:
  "th_healthy (fst (loopback_probe k (HttpJson url t d mode expect observe) timeout w)) \<longleftrightarrow>
     (\<exists>response body. fst (health_request k url timeout ''application/json'' w) = Ok response
        \<and> 200 \<le> hr_status response \<and> hr_status response < 300 \<and> hk_json k (hr_body response) = Inr body
        \<and> list_all (\<lambda>(key, expected). \<exists>found. json_at k mode body key = Some found \<and> json_same found expected) expect)"
proof -
  have "th_healthy (json_health k mode expect observe response) \<longleftrightarrow>
      200 \<le> hr_status response \<and> hr_status response < 300
      \<and> (\<exists>body. hk_json k (hr_body response) = Inr body \<and> json_mismatches k body mode expect = [])" for response
    by (auto simp: json_health_def plain_health_def evaluate_json_body_def Let_def split: sum.split)
  then show ?thesis
    by (auto simp: loopback_probe_def transport_healthy health_request_no_panic mismatches_Nil)
qed

lemma read_response_connect:
  "read_response (k\<lparr>hk_connect := other\<rparr>) c timeout started bytes w = read_response k c timeout started bytes w"
proof (induction k c timeout started bytes w rule: read_response.induct)
  case (1 k c timeout started bytes w)
  show ?case
    by (subst (1 2) read_response.simps)
       (auto simp: Let_def intro!: 1 split: prod.splits option.splits sum.splits)
qed

lemmas read_response_connect_op = read_response_connect [THEN ext]

lemma json_health_connect:
  "json_health (k\<lparr>hk_connect := other\<rparr>) mode expect observe response = json_health k mode expect observe response"
proof -
  have "json_at (k\<lparr>hk_connect := other\<rparr>) mode = json_at k mode"
    by (simp add: json_at_def fun_eq_iff split: json_path_mode.split)
  then show ?thesis
    by (simp add: json_health_def evaluate_json_body_def json_mismatches_def observed_values_def split: sum.split)
qed

lemma parse_loopback_url_connect:
  "parse_loopback_url (k\<lparr>hk_connect := other\<rparr>) url = parse_loopback_url k url"
  by (simp add: parse_loopback_url_def Let_def split: prod.split option.split)

lemma parse_loopback_url_loopback:
  "parse_loopback_url k url = Inr (address, authority, path) \<Longrightarrow> hk_is_loopback k (sa_ip address)"
  by (auto simp: parse_loopback_url_def Let_def split: if_splits option.splits prod.splits)

text \<open>A probe never connects to an address that is not loopback, whatever host, URL or response it is
  given: its result does not depend on what connecting to any other address would do.\<close>

lemma probe_stays_on_loopback:
  assumes "\<And>address. hk_is_loopback k (sa_ip address) \<Longrightarrow> other address = hk_connect k address"
  shows "loopback_probe (k\<lparr>hk_connect := other\<rparr>) check timeout w = loopback_probe k check timeout w"
proof -
  have "health_request (k\<lparr>hk_connect := other\<rparr>) url timeout accept w' = health_request k url timeout accept w'"
    for url accept w'
    by (cases "parse_loopback_url k url")
       (auto simp: health_request_def parse_loopback_url_connect read_response_connect_op assms Let_def
          dest!: parse_loopback_url_loopback split: prod.split option.split sum.split)
  moreover have "connect_tcp (k\<lparr>hk_connect := other\<rparr>) host port timeout w' = connect_tcp k host port timeout w'"
    for host port w'
    by (cases "hk_ip k host") (auto simp: connect_tcp_def assms)
  ultimately show ?thesis
    by (simp add: loopback_probe_def json_health_connect [abs_def] split: health_check_spec.split)
qed

text \<open>A host whose only loopback address is 1; connecting to another address would succeed as well.\<close>

definition example_http_host :: "(nat, nat, unit) http_host" where
  "example_http_host = \<lparr>hk_ip = (\<lambda>s. if s = ''10.0.0.7'' then Some 7 else Some 1),
     hk_socket_addr = (\<lambda>s. None), hk_is_loopback = (\<lambda>ip. ip = 1), hk_now = (\<lambda>w. (w, w)),
     hk_connect = (\<lambda>address t w. (Inr (), w + 1)), hk_set_write_timeout = (\<lambda>c t w. (None, w)),
     hk_write_and_flush = (\<lambda>c s w. (None, w)), hk_set_read_timeout = (\<lambda>c t w. (None, w)),
     hk_read = (\<lambda>c n w. (Inr '''', w)), hk_json = (\<lambda>s. Inr JNull), hk_pointer = (\<lambda>v s. None)\<rparr>"

end
