(* ===== verification/Http_Request.thy ===== *)
theory Http_Request
  imports Http_Response Platform
begin

text \<open>
  The wire side of \<open>src/src/adapters/control_http.rs\<close>: reading a request off a connection, bounded in
  size and time, and writing a response. A connection is a record of operations on a world with a
  clock; sleeping lasts at least as long as asked.
\<close>

section \<open>Bounds and data\<close>

definition max_header_bytes :: nat where "max_header_bytes = 16 * 1024"
definition max_body_bytes :: nat where "max_body_bytes = 4 * 1024"
definition io_timeout :: nat where "io_timeout = 5 * 1000000000"

record http_request =
  rq_method :: string
  rq_target :: string
  rq_host :: "string option"
  rq_authorization :: "string option"
  rq_accept :: "string option"
  rq_content_type :: "string option"
  rq_origin :: "string option"
  rq_dashboard_request :: "string option"
  rq_dashboard_token :: "string option"
  rq_mcp_protocol_version :: "string option"
  rq_body :: string

datatype request_error =
  RqRead string | RqWrite string | RqUnexpectedEnd | RqHeaderTooLarge | RqBodyTooLarge
| RqMalformed string | RqIdempotencyPoisoned

fun show_request_error :: "request_error \<Rightarrow> string" where
  "show_request_error (RqRead e) = ''request read failed: '' @ e"
| "show_request_error (RqWrite e) = ''response write failed: '' @ e"
| "show_request_error RqUnexpectedEnd = ''request ended unexpectedly''"
| "show_request_error RqHeaderTooLarge = ''request headers exceed limit''"
| "show_request_error RqBodyTooLarge = ''request body exceeds limit''"
| "show_request_error (RqMalformed message) = message"
| "show_request_error RqIdempotencyPoisoned = ''control request idempotency store is unavailable''"

text \<open>One \<open>read\<close>: bytes (none at the end of the stream), nothing yet, or a failure.\<close>

datatype read_answer = RdBytes string | RdWouldBlock | RdFailed string

record 'w stream =
  sk_read :: "nat \<Rightarrow> 'w \<Rightarrow> read_answer \<times> 'w"
  sk_write :: "string \<Rightarrow> 'w \<Rightarrow> string option \<times> 'w"
  sk_flush :: "'w \<Rightarrow> string option \<times> 'w"
  sk_shutdown_write :: "'w \<Rightarrow> string option \<times> 'w"
  sk_elapse :: "'w \<Rightarrow> nat \<times> 'w"
  sk_sleep :: "nat \<Rightarrow> 'w \<Rightarrow> 'w"

definition stream_now :: "'w stream \<Rightarrow> 'w world \<Rightarrow> nat \<times> 'w world" where
  "stream_now k w = (case sk_elapse k (wd_os w) of
      (d, os) \<Rightarrow> (wd_clock w + d, \<lparr>wd_clock = wd_clock w + d, wd_os = os\<rparr>))"

definition stream_sleep :: "'w stream \<Rightarrow> nat \<Rightarrow> 'w world \<Rightarrow> 'w world" where
  "stream_sleep k d w = \<lparr>wd_clock = wd_clock w + d, wd_os = sk_sleep k d (wd_os w)\<rparr>"

definition stream_read :: "'w stream \<Rightarrow> nat \<Rightarrow> 'w world \<Rightarrow> read_answer \<times> 'w world" where
  "stream_read k n w = (case sk_read k n (wd_os w) of (r, os) \<Rightarrow> (r, w\<lparr>wd_os := os\<rparr>))"

section \<open>Reading\<close>

text \<open>A read that would block is tried again every millisecond until the deadline.\<close>

function read_with_deadline ::
  "'w stream \<Rightarrow> nat \<Rightarrow> nat \<Rightarrow> ('w world, string, request_error) op" where
  "read_with_deadline k n deadline w = (case stream_read k n w of
      (RdBytes bytes, w1) \<Rightarrow> (Ok bytes, w1)
    | (RdFailed e, w1) \<Rightarrow> (Err (RqRead e), w1)
    | (RdWouldBlock, w1) \<Rightarrow>
        (case stream_now k w1 of (now, w2) \<Rightarrow>
           if deadline \<le> now then (Err (RqRead ''request read deadline elapsed''), w2)
           else read_with_deadline k n deadline (stream_sleep k 1000000 w2)))"
  by pat_completeness auto
termination
  by (relation "measure (\<lambda>(k, n, deadline, w). deadline - wd_clock w)")
     (auto simp: stream_read_def stream_now_def stream_sleep_def split: prod.splits)

declare read_with_deadline.simps [simp del]

text \<open>Reading up to the end of the headers: the bytes so far and the offset of the body.\<close>

function read_head ::
  "'w stream \<Rightarrow> nat \<Rightarrow> string \<Rightarrow> ('w world, string \<times> nat, request_error) op" where
  "read_head k deadline bytes w =
     (if max_header_bytes \<le> length bytes then (Err RqHeaderTooLarge, w)
      else (case read_with_deadline k 1024 deadline w of
          (Panic, w1) \<Rightarrow> (Panic, w1)
        | (Err e, w1) \<Rightarrow> (Err e, w1)
        | (Ok chunk, w1) \<Rightarrow>
            if chunk = [] then (Err RqUnexpectedEnd, w1)
            else (case find_bytes (bytes @ chunk) (crlf @ crlf) of
                Some position \<Rightarrow> (Ok (bytes @ chunk, position + 4), w1)
              | None \<Rightarrow> read_head k deadline (bytes @ chunk) w1)))"
  by pat_completeness auto
termination
  by (relation "measure (\<lambda>(k, deadline, bytes, w). max_header_bytes - length bytes)")
     (auto simp: not_le length_greater_0_conv [symmetric] simp del: length_greater_0_conv)

declare read_head.simps [simp del]

function read_body ::
  "'w stream \<Rightarrow> nat \<Rightarrow> nat \<Rightarrow> nat \<Rightarrow> string \<Rightarrow> ('w world, string, request_error) op" where
  "read_body k deadline header_end content_length bytes w =
     (if content_length \<le> length bytes - header_end then (Ok bytes, w)
      else (case read_with_deadline k 1024 deadline w of
          (Panic, w1) \<Rightarrow> (Panic, w1)
        | (Err e, w1) \<Rightarrow> (Err e, w1)
        | (Ok chunk, w1) \<Rightarrow>
            if chunk = [] then (Err RqUnexpectedEnd, w1)
            else if max_body_bytes < length (bytes @ chunk) - header_end then (Err RqBodyTooLarge, w1)
            else read_body k deadline header_end content_length (bytes @ chunk) w1))"
  by pat_completeness auto
termination
  by (relation "measure (\<lambda>(k, deadline, header_end, content_length, bytes, w). header_end + content_length - length bytes)")
     (auto simp: not_le length_greater_0_conv [symmetric] simp del: length_greater_0_conv)

declare read_body.simps [simp del]

section \<open>Headers\<close>

record header_set =
  hd_host :: "string option"
  hd_authorization :: "string option"
  hd_accept :: "string option"
  hd_content_type :: "string option"
  hd_origin :: "string option"
  hd_dashboard_request :: "string option"
  hd_dashboard_token :: "string option"
  hd_mcp_protocol_version :: "string option"
  hd_content_length :: "nat option"

definition no_headers :: header_set where
  "no_headers = \<lparr>hd_host = None, hd_authorization = None, hd_accept = None, hd_content_type = None,
     hd_origin = None, hd_dashboard_request = None, hd_dashboard_token = None,
     hd_mcp_protocol_version = None, hd_content_length = None\<rparr>"

text \<open>A second \<open>Host\<close> header leaves a host that no check accepts.\<close>

definition set_host_header :: "string option \<Rightarrow> string \<Rightarrow> string option" where
  "set_host_header host v = (if host \<noteq> None then Some '''' else Some (trim v))"

definition duplicate_header :: "string \<Rightarrow> string" where
  "duplicate_header name =
     (if name = ''accept'' then ''duplicate accept header''
      else if name = ''content-type'' then ''duplicate content-type header''
      else if name = ''origin'' then ''duplicate origin header''
      else if name = ''mcp-protocol-version'' then ''duplicate mcp-protocol-version header''
      else ''duplicate header'')"

definition set_single_header :: "string option \<Rightarrow> string \<Rightarrow> string \<Rightarrow> request_error + string option" where
  "set_single_header slot v name =
     (if slot \<noteq> None then Inl (RqMalformed (duplicate_header name)) else Inr (Some (trim v)))"

definition add_header :: "string \<Rightarrow> header_set \<Rightarrow> request_error + header_set" where
  "add_header line hs = (case split_once line '':'' of
      None \<Rightarrow> Inl (RqMalformed ''invalid header'')
    | Some (raw_name, v) \<Rightarrow>
        (let name = to_ascii_lowercase (trim raw_name) in
         if name = ''host'' then Inr (hs\<lparr>hd_host := set_host_header (hd_host hs) v\<rparr>)
         else if name = ''authorization'' then
           (if hd_authorization hs \<noteq> None then Inl (RqMalformed ''duplicate authorization header'')
            else Inr (hs\<lparr>hd_authorization := Some (trim v)\<rparr>))
         else if name = ''accept'' then
           map_sum id (\<lambda>s. hs\<lparr>hd_accept := s\<rparr>) (set_single_header (hd_accept hs) v ''accept'')
         else if name = ''content-type'' then
           map_sum id (\<lambda>s. hs\<lparr>hd_content_type := s\<rparr>)
             (set_single_header (hd_content_type hs) (trim (hd (split_on (CHR '';'') (trim v)))) ''content-type'')
         else if name = ''origin'' then
           map_sum id (\<lambda>s. hs\<lparr>hd_origin := s\<rparr>) (set_single_header (hd_origin hs) v ''origin'')
         else if name = ''x-dashboard-request'' then
           map_sum id (\<lambda>s. hs\<lparr>hd_dashboard_request := s\<rparr>)
             (set_single_header (hd_dashboard_request hs) v ''x-dashboard-request'')
         else if name = ''x-dashboard-token'' then
           map_sum id (\<lambda>s. hs\<lparr>hd_dashboard_token := s\<rparr>)
             (set_single_header (hd_dashboard_token hs) v ''x-dashboard-token'')
         else if name = ''mcp-protocol-version'' then
           map_sum id (\<lambda>s. hs\<lparr>hd_mcp_protocol_version := s\<rparr>)
             (set_single_header (hd_mcp_protocol_version hs) v ''mcp-protocol-version'')
         else if name = ''content-length'' then
           (if hd_content_length hs \<noteq> None then Inl (RqMalformed ''duplicate content-length header'')
            else (case parse_usize 10 (trim v) of
                None \<Rightarrow> Inl (RqMalformed ''invalid content-length'')
              | Some n \<Rightarrow> if max_body_bytes < n then Inl RqBodyTooLarge
                  else Inr (hs\<lparr>hd_content_length := Some n\<rparr>)))
         else if name = ''transfer-encoding'' then Inl (RqMalformed ''transfer-encoding is unsupported'')
         else Inr hs))"

fun add_headers :: "string list \<Rightarrow> header_set \<Rightarrow> request_error + header_set" where
  "add_headers [] hs = Inr hs"
| "add_headers (l # ls) hs = (case add_header l hs of Inl e \<Rightarrow> Inl e | Inr hs' \<Rightarrow> add_headers ls hs')"

text \<open>The request line and the headers; the text ends in an empty line.\<close>

definition parse_head :: "string \<Rightarrow> request_error + string \<times> string \<times> header_set" where
  "parse_head headers =
     (if \<not> utf8_valid headers then Inl (RqMalformed ''headers must be UTF-8'')
      else (case split_at crlf (take (length headers - 4) headers) of
          [] \<Rightarrow> Inl (RqMalformed ''request line is missing'')
        | request_line # lines \<Rightarrow>
            (case split_whitespace request_line of
               [request_method, target, version] \<Rightarrow>
                 if version \<in> {''HTTP/1.1'', ''HTTP/1.0''} then
                   map_sum id (\<lambda>hs. (request_method, target, hs)) (add_headers lines no_headers)
                 else Inl (RqMalformed ''invalid request line'')
             | _ \<Rightarrow> Inl (RqMalformed ''invalid request line''))))"

definition request_of :: "string \<Rightarrow> string \<Rightarrow> header_set \<Rightarrow> string \<Rightarrow> http_request" where
  "request_of request_method target hs body =
     \<lparr>rq_method = request_method, rq_target = target, rq_host = hd_host hs,
      rq_authorization = hd_authorization hs, rq_accept = hd_accept hs, rq_content_type = hd_content_type hs,
      rq_origin = hd_origin hs, rq_dashboard_request = hd_dashboard_request hs,
      rq_dashboard_token = hd_dashboard_token hs, rq_mcp_protocol_version = hd_mcp_protocol_version hs,
      rq_body = body\<rparr>"

definition read_request :: "'w stream \<Rightarrow> ('w world, http_request, request_error) op" where
  "read_request k w = (case stream_now k w of (now, w0) \<Rightarrow>
     (let deadline = now + io_timeout in
      case read_head k deadline [] w0 of
        (Panic, w1) \<Rightarrow> (Panic, w1)
      | (Err e, w1) \<Rightarrow> (Err e, w1)
      | (Ok (bytes, header_end), w1) \<Rightarrow>
          (case parse_head (take header_end bytes) of
             Inl e \<Rightarrow> (Err e, w1)
           | Inr (request_method, target, hs) \<Rightarrow>
               (let content_length = (case hd_content_length hs of None \<Rightarrow> 0 | Some n \<Rightarrow> n) in
                case read_body k deadline header_end content_length bytes w1 of
                  (Panic, w2) \<Rightarrow> (Panic, w2)
                | (Err e, w2) \<Rightarrow> (Err e, w2)
                | (Ok content, w2) \<Rightarrow>
                    (Ok (request_of request_method target hs (take content_length (drop header_end content))), w2)))))"

section \<open>Responses\<close>

record response =
  rs_status :: u16
  rs_body :: string
  rs_content_type :: "string option"
  rs_dashboard_security_headers :: bool

definition status_reason :: "u16 \<Rightarrow> string" where
  "status_reason status =
     (if status = 200 then ''OK'' else if status = 202 then ''Accepted''
      else if status = 400 then ''Bad Request'' else if status = 401 then ''Unauthorized''
      else if status = 403 then ''Forbidden'' else if status = 404 then ''Not Found''
      else if status = 409 then ''Conflict'' else if status = 405 then ''Method Not Allowed''
      else if status = 415 then ''Unsupported Media Type'' else if status = 500 then ''Internal Server Error''
      else ''Unknown'')"

definition dashboard_headers :: string where
  "dashboard_headers = ''Cache-Control: no-store'' @ crlf @ ''X-Content-Type-Options: nosniff'' @ crlf
     @ ''Referrer-Policy: no-referrer'' @ crlf
     @ ''Content-Security-Policy: default-src '' @ [CHR 0x27] @ ''none'' @ [CHR 0x27]
     @ ''; script-src '' @ [CHR 0x27] @ ''self'' @ [CHR 0x27] @ ''; style-src '' @ [CHR 0x27] @ ''self'' @ [CHR 0x27]
     @ ''; connect-src '' @ [CHR 0x27] @ ''self'' @ [CHR 0x27] @ ''; base-uri '' @ [CHR 0x27] @ ''none'' @ [CHR 0x27]
     @ ''; form-action '' @ [CHR 0x27] @ ''none'' @ [CHR 0x27]
     @ ''; frame-ancestors '' @ [CHR 0x27] @ ''none'' @ [CHR 0x27] @ crlf"

text \<open>The pieces \<open>write_response\<close> writes one after the other.\<close>

definition response_pieces :: "response \<Rightarrow> string list" where
  "response_pieces r =
     [''HTTP/1.1 '' @ decimal (unat (rs_status r)) @ '' '' @ status_reason (rs_status r) @ crlf]
     @ (case rs_content_type r of None \<Rightarrow> [] | Some content_type \<Rightarrow> [''Content-Type: '' @ content_type @ crlf])
     @ (if rs_dashboard_security_headers r then [dashboard_headers] else [])
     @ [''Content-Length: '' @ decimal (length (rs_body r)) @ crlf @ ''Connection: close'' @ crlf @ crlf,
        rs_body r]"

definition on_stream :: "('w \<Rightarrow> string option \<times> 'w) \<Rightarrow> ('w world, unit, string) op" where
  "on_stream f w = (case f (wd_os w) of
      (None, os) \<Rightarrow> (Ok (), w\<lparr>wd_os := os\<rparr>) | (Some e, os) \<Rightarrow> (Err e, w\<lparr>wd_os := os\<rparr>))"

definition write_response :: "'w stream \<Rightarrow> response \<Rightarrow> ('w world, unit, string) op" where
  "write_response k r =
     seq_op (each_op (\<lambda>piece. on_stream (sk_write k piece)) (response_pieces r))
       (seq_op (on_stream (sk_flush k)) (on_stream (sk_shutdown_write k)))"

end
