(* ===== verification/Mcp.thy ===== *)
theory Mcp
  imports Json_Values Live_Logs Journal
begin

text \<open>
  \<open>src/src/adapters/mcp.rs\<close>: the stateless, read-only MCP endpoint. What it reads is the record
  \<open>query_env\<close>: the control, the journal and the log files as projections of the control's state,
  and the JSON library with the derived encoders.
\<close>

section \<open>What is read\<close>

record ('s, 'io, 'je) query_env =
  qe_control :: "'s control"
  qe_journal_host :: "('io, 'je) journal_host"
  qe_journal :: "'s \<Rightarrow> 'io journal_state"
  qe_journal_fault :: "'s \<Rightarrow> 'io option"
  qe_log_files :: "'s \<Rightarrow> string \<Rightarrow> log_stream \<Rightarrow> 'io log_file"
  qe_log_path :: "string \<Rightarrow> log_stream \<Rightarrow> string"
  qe_show_io :: "'io \<Rightarrow> string"
  qe_version :: string
  qe_text :: "json \<Rightarrow> string"
  qe_value :: "string \<Rightarrow> json option"
  qe_snapshot :: "service_snapshot \<Rightarrow> json"
  qe_record :: "journal_record \<Rightarrow> json"
  qe_tail :: "service_log_tail \<Rightarrow> json"

definition qe_events :: "('s, 'io, 'je) query_env \<Rightarrow> u64 \<Rightarrow> nat \<Rightarrow> 's \<Rightarrow> string + json" where
  "qe_events q after limit s =
     (case journal_events (qe_journal_host q) (qe_journal_fault q s) after limit (qe_journal q s) of
        Inl e \<Rightarrow> Inl (show_file_journal_error (qe_journal_host q) e)
      | Inr records \<Rightarrow> Inr (json_object [(''events'', JArray (map (qe_record q) records))]))"

section \<open>Protocol\<close>

definition mcp_protocol_version :: string where "mcp_protocol_version = ''2025-11-25''"
definition mcp_endpoint :: string where "mcp_endpoint = ''/mcp''"
definition max_tool_result_bytes :: nat where "max_tool_result_bytes = 64 * 1024"

definition supported_protocol_versions :: "string list" where
  "supported_protocol_versions = [''2025-03-26'', ''2025-06-18'', mcp_protocol_version]"

definition supports_protocol_version :: "string \<Rightarrow> bool" where
  "supports_protocol_version version = (version \<in> set supported_protocol_versions)"

datatype mcp_response = McpJson json | McpAccepted

datatype mcp_failure = InvalidParams string | MethodNotFound

definition mcp_success :: "json \<Rightarrow> json \<Rightarrow> json" where
  "mcp_success ident result' =
     json_object [(''jsonrpc'', JString ''2.0''), (''id'', ident), (''result'', result')]"

definition mcp_error :: "json \<Rightarrow> int \<Rightarrow> string \<Rightarrow> json" where
  "mcp_error ident code message = json_object [(''jsonrpc'', JString ''2.0''), (''id'', ident),
     (''error'', json_object [(''code'', json_int code), (''message'', JString message)])]"

definition mcp_request_id :: "(string \<times> json) list \<Rightarrow> json" where
  "mcp_request_id members = (case map_of members ''id'' of
      Some ident \<Rightarrow> if is_string_or_number ident then ident else JNull | None \<Rightarrow> JNull)"

definition require_exact_keys :: "(string \<times> json) list \<Rightarrow> string list \<Rightarrow> mcp_failure + unit" where
  "require_exact_keys members allowed = (case unknown_key members allowed of
      Some key \<Rightarrow> Inl (InvalidParams (''unknown field: '' @ key)) | None \<Rightarrow> Inr ())"

definition exact_object :: "json \<Rightarrow> string list \<Rightarrow> mcp_failure + (string \<times> json) list" where
  "exact_object v allowed = (case json_as_object v of
      None \<Rightarrow> Inl (InvalidParams ''params must be an object'')
    | Some members \<Rightarrow> map_sum id (\<lambda>_. members) (require_exact_keys members allowed))"

definition require_empty_object :: "json \<Rightarrow> mcp_failure + unit" where
  "require_empty_object v = (case json_as_object v of
      None \<Rightarrow> Inl (InvalidParams ''params must be an object'')
    | Some members \<Rightarrow> require_exact_keys members [])"

definition required_string :: "(string \<times> json) list \<Rightarrow> string \<Rightarrow> mcp_failure + string" where
  "required_string members name = (case string_at members name of
      Some v \<Rightarrow> Inr v | None \<Rightarrow> Inl (InvalidParams (name @ '' must be a non-empty string'')))"

definition optional_string :: "(string \<times> json) list \<Rightarrow> string \<Rightarrow> mcp_failure + string option" where
  "optional_string members name = (case map_of members name of
      None \<Rightarrow> Inr None
    | Some v \<Rightarrow> (case json_as_str v of
          Some s \<Rightarrow> Inr (Some s) | None \<Rightarrow> Inl (InvalidParams (name @ '' must be a string''))))"

definition optional_u64 :: "(string \<times> json) list \<Rightarrow> string \<Rightarrow> mcp_failure + u64 option" where
  "optional_u64 members name = (case map_of members name of
      None \<Rightarrow> Inr None
    | Some v \<Rightarrow> (case json_as_u64 v of
          Some n \<Rightarrow> Inr (Some n)
        | None \<Rightarrow> Inl (InvalidParams (name @ '' must be a non-negative integer''))))"

text \<open>\<open>usize\<close> has the range of \<open>u64\<close>.\<close>

definition optional_usize :: "(string \<times> json) list \<Rightarrow> string \<Rightarrow> mcp_failure + nat option" where
  "optional_usize members name = map_sum id (map_option unat) (optional_u64 members name)"

fun tool_arguments :: "mcp_failure + 'a \<Rightarrow> string + 'a" where
  "tool_arguments (Inr v) = Inr v"
| "tool_arguments (Inl (InvalidParams message)) = Inl message"
| "tool_arguments (Inl MethodNotFound) = Inl ''invalid tool arguments''"

definition mcp_tool_failure :: "string \<Rightarrow> json" where
  "mcp_tool_failure message = json_object
     [(''content'', JArray [json_object [(''type'', JString ''text''), (''text'', JString message)]]),
      (''isError'', JBool True)]"

definition bounded_tool_success :: "('s, 'io, 'je) query_env \<Rightarrow> json \<Rightarrow> json" where
  "bounded_tool_success q v =
     (let text' = qe_text q v in
      if max_tool_result_bytes < length text'
      then mcp_tool_failure ''result exceeded the bounded MCP response size''
      else json_object
        [(''content'', JArray [json_object [(''type'', JString ''text''), (''text'', JString text')]]),
         (''structuredContent'', v), (''isError'', JBool False)])"

section \<open>Advertised tools\<close>

definition mcp_initialize :: "string \<Rightarrow> json \<Rightarrow> mcp_failure + json" where
  "mcp_initialize version params = (case json_as_object params of
      None \<Rightarrow> Inl (InvalidParams ''initialize params must be an object'')
    | Some members \<Rightarrow>
        (case Option.bind (map_of members ''protocolVersion'') json_as_str of
           None \<Rightarrow> Inl (InvalidParams ''protocolVersion is required'')
         | Some requested \<Rightarrow> Inr (json_object
             [(''protocolVersion'', JString (if requested \<in> set supported_protocol_versions then requested
                 else mcp_protocol_version)),
              (''capabilities'', json_object [(''tools'', empty_object)]),
              (''serverInfo'', json_object
                 [(''name'', JString ''aku-supervisor''), (''title'', JString ''AkuSupervisor (read-only)''),
                  (''version'', JString version),
                  (''description'', JString ''Read-only visibility into an already-running AkuSupervisor'')]),
              (''instructions'', JString ''Inspect registered services, recent lifecycle events, and bounded logs. This MCP endpoint cannot start, stop, restart, reload, or bootstrap processes.'')])))"

definition mcp_tool :: "string \<Rightarrow> string \<Rightarrow> string \<Rightarrow> json \<Rightarrow> json" where
  "mcp_tool name title description input_schema = json_object
     [(''name'', JString name), (''title'', JString title), (''description'', JString description),
      (''inputSchema'', input_schema),
      (''execution'', json_object [(''taskSupport'', JString ''forbidden'')]),
      (''annotations'', json_object
         [(''title'', JString title), (''readOnlyHint'', JBool True), (''destructiveHint'', JBool False),
          (''idempotentHint'', JBool True), (''openWorldHint'', JBool False)])]"

definition closed_object :: "(string \<times> json) list \<Rightarrow> json" where
  "closed_object properties = json_object
     [(''type'', JString ''object''), (''properties'', json_object properties),
      (''additionalProperties'', JBool False)]"

definition required_object :: "(string \<times> json) list \<Rightarrow> string list \<Rightarrow> json" where
  "required_object properties required = json_object
     [(''type'', JString ''object''), (''properties'', json_object properties),
      (''required'', json_strings required), (''additionalProperties'', JBool False)]"

definition service_id_schema :: json where
  "service_id_schema = json_object [(''type'', JString ''string''), (''minLength'', json_int 1)]"

definition range_schema :: "json" where
  "range_schema = json_object [(''type'', JString ''integer''), (''minimum'', json_int 1), (''maximum'', json_int 200)]"

definition mcp_tools :: json where
  "mcp_tools = json_object [(''tools'', JArray
     [mcp_tool ''supervisor_list_services'' ''List services''
        ''List bounded runtime snapshots for every registered service.'' (closed_object []),
      mcp_tool ''supervisor_get_service'' ''Get service'' ''Inspect one registered service by its configured ID.''
        (required_object [(''serviceId'', service_id_schema)] [''serviceId'']),
      mcp_tool ''supervisor_get_recent_events'' ''Get recent events''
        ''Read a bounded page of canonical lifecycle journal events.''
        (closed_object
          [(''after'', json_object [(''type'', JString ''integer''), (''minimum'', json_int 0)]),
           (''limit'', range_schema)]),
      mcp_tool ''supervisor_read_logs'' ''Read service logs''
        ''Read a bounded tail from one registered service stdout or stderr log.''
        (required_object
          [(''serviceId'', service_id_schema),
           (''stream'', json_object [(''type'', JString ''string''), (''enum'', json_strings [''stdout'', ''stderr''])]),
           (''lines'', range_schema)] [''serviceId''])])]"

definition mcp_list_tools :: "json \<Rightarrow> mcp_failure + json" where
  "mcp_list_tools params = (case json_as_object params of
      None \<Rightarrow> Inl (InvalidParams ''tools/list params must be an object'')
    | Some members \<Rightarrow>
        if list_ex (\<lambda>key. key \<noteq> ''_meta'') (map fst members)
        then Inl (InvalidParams ''pagination is not required for the bounded tool list'')
        else Inr mcp_tools)"

text \<open>The contract: what a client is told, without the version. An \<open>expect\<close> that fails is \<open>None\<close>.\<close>

fun json_remove :: "string \<Rightarrow> json \<Rightarrow> json" where
  "json_remove key (JObject members) = JObject (filter (\<lambda>(k, v). k \<noteq> key) members)"
| "json_remove key v = v"

definition without_version :: "json \<Rightarrow> json option" where
  "without_version initialized = (case json_as_object initialized of
      None \<Rightarrow> None
    | Some members \<Rightarrow>
        (case map_of members ''serverInfo'' of
           Some (JObject info) \<Rightarrow>
             Some (JObject (bt_insert ''serverInfo'' (json_remove ''version'' (JObject info)) members))
         | _ \<Rightarrow> None))"

definition mcp_contract_surface :: "string \<Rightarrow> json option" where
  "mcp_contract_surface version =
     (case mcp_initialize version (json_object [(''protocolVersion'', JString mcp_protocol_version)]) of
        Inl e \<Rightarrow> None
      | Inr initialize \<Rightarrow>
          (case (without_version initialize, mcp_list_tools empty_object) of
             (Some initialized, Inr tools) \<Rightarrow> Some (json_object
               [(''initialize'', initialized),
                (''methods'', json_strings [''initialize'', ''ping'', ''tools/list'', ''tools/call'']),
                (''supportedProtocolVersions'', json_strings supported_protocol_versions),
                (''tools'', json_or_null (json_get tools ''tools''))])
           | _ \<Rightarrow> None))"

section \<open>Tools\<close>

text \<open>A tool's result: a message, or a value; only the control's snapshots have an effect or can panic.\<close>

definition with_snapshots ::
  "('s, 'io, 'je) query_env \<Rightarrow> (service_snapshot list \<Rightarrow> string + json) \<Rightarrow> ('s, string + json, control_error) op" where
  "with_snapshots q f = map_op (\<lambda>r. case r of Inl e \<Rightarrow> Inl (ce_message e) | Inr services \<Rightarrow> f services)
     (attempt_op (ctl_snapshots (qe_control q)))"

definition tool_service :: "('s, 'io, 'je) query_env \<Rightarrow> string \<Rightarrow> service_snapshot list \<Rightarrow> string + json" where
  "tool_service q sid services = (case find (\<lambda>service. ss_id service = sid) services of
      Some service \<Rightarrow> Inr (json_object [(''service'', qe_snapshot q service)])
    | None \<Rightarrow> Inl ''unknown service'')"

definition tool_read_logs ::
  "('s, 'io, 'je) query_env \<Rightarrow> log_store \<Rightarrow> string \<Rightarrow> string \<Rightarrow> nat \<Rightarrow> 's \<Rightarrow> string + json" where
  "tool_read_logs q logs sid stream_name n s = (case log_stream_parse stream_name of
      None \<Rightarrow> Inl ''stream must be stdout or stderr''
    | Some stream \<Rightarrow>
        (case store_tail (qe_log_files q s) sid stream n logs of
           Inr log \<Rightarrow> Inr (json_object [(''log'', qe_tail q log)])
         | Inl (SlServiceNotFound _) \<Rightarrow> Inl ''unknown service''
         | Inl other \<Rightarrow> Inl (show_service_log_error (qe_show_io q) (qe_log_path q sid stream) other)))"

definition bind_arg :: "string + 'a \<Rightarrow> ('a \<Rightarrow> ('s, string + json, control_error) op) \<Rightarrow> ('s, string + json, control_error) op" where
  "bind_arg r f = (case r of Inl message \<Rightarrow> return_op (Inl message) | Inr v \<Rightarrow> f v)"

definition execute_tool ::
  "('s, 'io, 'je) query_env \<Rightarrow> log_store \<Rightarrow> string \<Rightarrow> (string \<times> json) list \<Rightarrow> ('s, string + json, control_error) op" where
  "execute_tool q logs name args =
     (if name = ''supervisor_list_services'' then
        bind_arg (tool_arguments (require_exact_keys args [])) (\<lambda>_.
          with_snapshots q (\<lambda>services.
            Inr (json_object [(''services'', JArray (map (qe_snapshot q) services))])))
      else if name = ''supervisor_get_service'' then
        bind_arg (tool_arguments (require_exact_keys args [''serviceId''])) (\<lambda>_.
        bind_arg (tool_arguments (required_string args ''serviceId'')) (\<lambda>sid.
          with_snapshots q (tool_service q sid)))
      else if name = ''supervisor_get_recent_events'' then
        bind_arg (tool_arguments (require_exact_keys args [''after'', ''limit''])) (\<lambda>_.
        bind_arg (tool_arguments (optional_u64 args ''after'')) (\<lambda>after.
        bind_arg (tool_arguments (optional_usize args ''limit'')) (\<lambda>limit.
          get_op (qe_events q (case after of None \<Rightarrow> 0 | Some n \<Rightarrow> n)
            (clamp 1 200 (case limit of None \<Rightarrow> 50 | Some n \<Rightarrow> n))))))
      else
        bind_arg (tool_arguments (require_exact_keys args [''serviceId'', ''stream'', ''lines''])) (\<lambda>_.
        bind_arg (tool_arguments (required_string args ''serviceId'')) (\<lambda>sid.
        bind_arg (tool_arguments (optional_string args ''stream'')) (\<lambda>stream.
        bind_arg (tool_arguments (optional_usize args ''lines'')) (\<lambda>lines.
          get_op (tool_read_logs q logs sid (case stream of None \<Rightarrow> ''stdout'' | Some v \<Rightarrow> v)
            (clamp 1 200 (case lines of None \<Rightarrow> 100 | Some n \<Rightarrow> n))))))))"

definition tool_names :: "string list" where
  "tool_names = [''supervisor_list_services'', ''supervisor_get_service'', ''supervisor_get_recent_events'',
     ''supervisor_read_logs'']"

definition mcp_call_tool ::
  "('s, 'io, 'je) query_env \<Rightarrow> log_store \<Rightarrow> json \<Rightarrow> ('s, mcp_failure + json, control_error) op" where
  "mcp_call_tool q logs params = (case exact_object params [''name'', ''arguments'', ''_meta''] of
      Inl e \<Rightarrow> return_op (Inl e)
    | Inr members \<Rightarrow>
        (case required_string members ''name'' of
           Inl e \<Rightarrow> return_op (Inl e)
         | Inr name \<Rightarrow>
             (case json_as_object (case map_of members ''arguments'' of None \<Rightarrow> empty_object | Some a \<Rightarrow> a) of
                None \<Rightarrow> return_op (Inr (mcp_tool_failure ''arguments must be an object''))
              | Some args \<Rightarrow>
                  if name \<notin> set tool_names then return_op (Inl MethodNotFound)
                  else map_op (\<lambda>r. case r of
                      Inr v \<Rightarrow> Inr (bounded_tool_success q v) | Inl message \<Rightarrow> Inr (mcp_tool_failure message))
                    (execute_tool q logs name args))))"

section \<open>Messages\<close>

definition mcp_answer :: "json \<Rightarrow> mcp_failure + json \<Rightarrow> mcp_response" where
  "mcp_answer ident r = (case r of
      Inr result' \<Rightarrow> McpJson (mcp_success ident result')
    | Inl (InvalidParams message) \<Rightarrow> McpJson (mcp_error ident (- 32602) message)
    | Inl MethodNotFound \<Rightarrow> McpJson (mcp_error ident (- 32601) ''Method not found''))"

definition mcp_dispatch ::
  "('s, 'io, 'je) query_env \<Rightarrow> log_store \<Rightarrow> string \<Rightarrow> json \<Rightarrow> json \<Rightarrow> ('s, mcp_response, control_error) op" where
  "mcp_dispatch q logs method_name ident params =
     (if method_name = ''initialize'' then return_op (mcp_answer ident (mcp_initialize (qe_version q) params))
      else if method_name = ''ping'' then
        return_op (mcp_answer ident (map_sum id (\<lambda>_. empty_object) (require_empty_object params)))
      else if method_name = ''tools/list'' then return_op (mcp_answer ident (mcp_list_tools params))
      else if method_name = ''tools/call'' then map_op (mcp_answer ident) (mcp_call_tool q logs params)
      else return_op (McpJson (mcp_error ident (- 32601) ''Method not found'')))"

definition mcp_handle_message ::
  "('s, 'io, 'je) query_env \<Rightarrow> log_store \<Rightarrow> string \<Rightarrow> ('s, mcp_response, control_error) op" where
  "mcp_handle_message q logs body = (case qe_value q body of
      None \<Rightarrow> return_op (McpJson (mcp_error JNull (- 32700) ''Parse error''))
    | Some message \<Rightarrow>
        (case json_as_object message of
           None \<Rightarrow> return_op (McpJson (mcp_error JNull (- 32600) ''Invalid Request''))
         | Some members \<Rightarrow>
             if Option.bind (map_of members ''jsonrpc'') json_as_str \<noteq> Some ''2.0''
             then return_op (McpJson (mcp_error (mcp_request_id members) (- 32600) ''Invalid Request''))
             else (case Option.bind (map_of members ''method'') json_as_str of
                 None \<Rightarrow> return_op McpAccepted
               | Some method_name \<Rightarrow>
                   (case map_of members ''id'' of
                      None \<Rightarrow> return_op McpAccepted
                    | Some ident \<Rightarrow>
                        if \<not> is_string_or_number ident
                        then return_op (McpJson (mcp_error JNull (- 32600) ''Invalid Request''))
                        else mcp_dispatch q logs method_name ident
                          (case map_of members ''params'' of None \<Rightarrow> empty_object | Some p \<Rightarrow> p)))))"

end
