(* ===== verification/Control_Http.thy ===== *)
theory Control_Http
  imports Http_Request Mcp Cooperative Foreground Config_Path
begin

text \<open>
  \<open>src/src/adapters/control_http.rs\<close> and \<open>control_http/dashboard.rs\<close>: targets, the idempotency store,
  the routes with their authorization, and the handling of one connection. The server's state holds
  the control's state and what the adapters share with it. The locks of the adapters are those of
  their own theories; the idempotency lock is held during a mutation, so a panic of the control
  poisons it.
\<close>

section \<open>Environment and state\<close>

datatype api_actor = ApiUser | ApiCodex

fun domain_actor :: "api_actor \<Rightarrow> actor" where
  "domain_actor ApiUser = UserCli"
| "domain_actor ApiCodex = Codex"

record mutation_request =
  mt_actor :: api_actor
  mt_reason :: string
  mt_request_id :: "string option"

text \<open>
  Besides the queries: the token with its hash, the identity of the process, the derived encoders and
  decoders, the address grammar, and what starting a thread or cloning a connection gives.
\<close>

record ('s, 'io, 'je, 'a) server_env =
  sv_query :: "('s, 'io, 'je) query_env"
  sv_token :: string
  sv_digest :: "string \<Rightarrow> string"
  sv_mcp :: mcp_config
  sv_instance :: json
  sv_instance_id :: string
  sv_mutation :: "string \<Rightarrow> mutation_request option"
  sv_dashboard_mutation :: "string \<Rightarrow> string option"
  sv_registry :: "reconciliation_snapshot \<Rightarrow> json"
  sv_operation :: "coop_operation \<Rightarrow> json"
  sv_outcome :: "mutation_outcome \<Rightarrow> json"
  sv_stop_report :: "tree_stop_report \<Rightarrow> json"
  sv_live_event :: "live_event \<Rightarrow> string"
  sv_include :: "string \<Rightarrow> string"
  sv_peer_loopback :: "'a \<Rightarrow> bool"
  sv_port :: "'a \<Rightarrow> u16"
  sv_show_address :: "'a \<Rightarrow> string"
  sv_loopback_ip :: "string \<Rightarrow> bool"
  sv_coop_target :: "string option"
  sv_coop_spawn :: "string option"
  sv_coop_worker :: "string \<Rightarrow> operation_state \<Rightarrow> operation_state"
  sv_clone_stream :: "string option"
  sv_live_spawn :: "string option"
  sv_now :: "u64 \<Rightarrow> u64"

section \<open>The idempotency store\<close>

record cached_mutation =
  cm_target :: string
  cm_body :: string
  cm_response :: response

record idempotency_store =
  id_entries :: "(string, cached_mutation) btree"
  id_order :: "string list"

definition idempotency_new :: idempotency_store where
  "idempotency_new = \<lparr>id_entries = bt_empty, id_order = []\<rparr>"

definition idempotency_capacity :: nat where
  "idempotency_capacity = 1024"

datatype idempotency_lookup = LookupReplay response | LookupConflict | LookupMiss

definition idempotency_lookup :: "string \<Rightarrow> string \<Rightarrow> string \<Rightarrow> idempotency_store \<Rightarrow> idempotency_lookup" where
  "idempotency_lookup request_id target body st = (case bt_get (id_entries st) request_id of
      Some cached \<Rightarrow>
        if cm_target cached = target \<and> cm_body cached = body then LookupReplay (cm_response cached)
        else LookupConflict
    | None \<Rightarrow> LookupMiss)"

text \<open>The eviction loop. With no identifier left in the queue it would never end, which is \<open>None\<close>.\<close>

partial_function (option) idempotency_evict :: "idempotency_store \<Rightarrow> idempotency_store option" where
  "idempotency_evict st =
     (if idempotency_capacity \<le> length (id_entries st)
      then (case id_order st of
          [] \<Rightarrow> idempotency_evict st
        | oldest # rest \<Rightarrow>
            idempotency_evict (st\<lparr>id_order := rest, id_entries := bt_remove oldest (id_entries st)\<rparr>))
      else Some st)"

declare idempotency_evict.simps [code]

definition idempotency_insert ::
  "string \<Rightarrow> string \<Rightarrow> string \<Rightarrow> response \<Rightarrow> idempotency_store \<Rightarrow> idempotency_store option" where
  "idempotency_insert request_id target body response' st =
     (if bt_contains (id_entries st) request_id then Some st
      else (case idempotency_evict st of
          None \<Rightarrow> None
        | Some st' \<Rightarrow> Some (st'\<lparr>id_order := id_order st' @ [request_id],
            id_entries := bt_insert request_id
              \<lparr>cm_target = target, cm_body = body, cm_response = response'\<rparr> (id_entries st')\<rparr>)))"

record 's server_state =
  hv_control :: 's
  hv_coop :: operation_state
  hv_logs :: log_store
  hv_status :: reconciliation_snapshot
  hv_shutdown :: "shutdown_request option"
  hv_idempotency :: idempotency_store
  hv_poisoned :: bool
  hv_stop :: bool

definition on_supervised :: "('s, 'x, 'e) op \<Rightarrow> ('s server_state, 'x, 'e) op" where
  "on_supervised m = (\<lambda>st. case m (hv_control st) of (r, s) \<Rightarrow> (r, st\<lparr>hv_control := s\<rparr>))"

section \<open>Responses\<close>

definition json_response :: "('s, 'io, 'je, 'a) server_env \<Rightarrow> u16 \<Rightarrow> json \<Rightarrow> response" where
  "json_response sv status v = \<lparr>rs_status = status, rs_body = qe_text (sv_query sv) v,
     rs_content_type = Some ''application/json'', rs_dashboard_security_headers = False\<rparr>"

definition empty_response :: "u16 \<Rightarrow> response" where
  "empty_response status =
     \<lparr>rs_status = status, rs_body = '''', rs_content_type = None, rs_dashboard_security_headers = False\<rparr>"

definition error_response :: "('s, 'io, 'je, 'a) server_env \<Rightarrow> u16 \<Rightarrow> string \<Rightarrow> string \<Rightarrow> response" where
  "error_response sv status code message = json_response sv status
     (json_object [(''error'', json_object [(''code'', JString code), (''message'', JString message)])])"

definition dashboard_response :: "u16 \<Rightarrow> string \<Rightarrow> string \<Rightarrow> response" where
  "dashboard_response status body content_type = \<lparr>rs_status = status, rs_body = body,
     rs_content_type = Some content_type, rs_dashboard_security_headers = True\<rparr>"

text \<open>The embedded assets: the bytes of the included files are a parameter.\<close>

definition dashboard_asset :: "('s, 'io, 'je, 'a) server_env \<Rightarrow> string \<Rightarrow> (string \<times> string) option" where
  "dashboard_asset sv target =
     (if target = ''/'' then Some (sv_include sv ''index.html'', ''text/html; charset=utf-8'')
      else if target = ''/app.css'' then Some (sv_include sv ''app.css'', ''text/css; charset=utf-8'')
      else if target = ''/app.js'' then Some (sv_include sv ''app.js'', ''text/javascript; charset=utf-8'')
      else if target = ''/model.js'' then Some (sv_include sv ''model.js'', ''text/javascript; charset=utf-8'')
      else if target = ''/view.js'' then Some (sv_include sv ''view.js'', ''text/javascript; charset=utf-8'')
      else if target = ''/api.js'' then Some (sv_include sv ''api.js'', ''text/javascript; charset=utf-8'')
      else None)"

section \<open>Targets\<close>

text \<open>The fields of a query, each \<open>name=value\<close>, from left to right.\<close>

fun query_fields :: "(string \<Rightarrow> string \<Rightarrow> 'x \<Rightarrow> 'x option) \<Rightarrow> string list \<Rightarrow> 'x \<Rightarrow> 'x option" where
  "query_fields f [] acc = Some acc"
| "query_fields f (field # rest) acc = (case split_once field ''='' of
      None \<Rightarrow> None
    | Some (name, v) \<Rightarrow> (case f name v acc of None \<Rightarrow> None | Some acc' \<Rightarrow> query_fields f rest acc'))"

definition service_query :: "string \<Rightarrow> string \<Rightarrow> (string \<times> string) option" where
  "service_query marker target =
     (case Option.bind (strip_prefix ''/v1/services/'' target) (\<lambda>rest. split_once rest marker) of
        None \<Rightarrow> None
      | Some (sid, query) \<Rightarrow> if sid = [] \<or> CHR ''/'' \<in> set sid then None else Some (sid, query))"

definition parse_logs_target :: "string \<Rightarrow> (string \<times> log_stream \<times> nat) option" where
  "parse_logs_target target = (case service_query ''/logs?'' target of
      None \<Rightarrow> None
    | Some (sid, query) \<Rightarrow> map_option (\<lambda>(stream, tail). (sid, stream, tail))
        (query_fields (\<lambda>name v (stream, tail).
           if name = ''stream'' then map_option (\<lambda>s. (s, tail)) (log_stream_parse v)
           else if name = ''tail'' then map_option (\<lambda>n. (stream, clamp 1 1000 n)) (parse_usize 10 v)
           else None) (split_on (CHR ''&'') query) (LogStdout, 100)))"

definition valid_hub_instance_id :: "string \<Rightarrow> bool" where
  "valid_hub_instance_id v = (v \<noteq> [] \<and> length v \<le> 128
     \<and> list_all (\<lambda>c. is_ascii_alphanumeric c \<or> c \<in> {CHR ''-'', CHR ''_'', CHR ''.''}) v)"

definition parse_live_logs_target ::
  "string \<Rightarrow> (string \<times> live_selection \<times> nat \<times> live_cursor option) option" where
  "parse_live_logs_target target = (case service_query ''/logs/live?'' target of
      None \<Rightarrow> None
    | Some (sid, query) \<Rightarrow>
        (case query_fields (\<lambda>name v (selection, tail, after, after_hub).
             if name = ''stream'' then map_option (\<lambda>s. (s, tail, after, after_hub)) (live_selection_parse v)
             else if name = ''tail'' then
               map_option (\<lambda>n. (selection, clamp 0 1000 n, after, after_hub)) (parse_usize 10 v)
             else if name = ''after'' then map_option (\<lambda>n. (selection, tail, Some n, after_hub)) (parse_u64 v)
             else if name = ''afterHub'' \<and> valid_hub_instance_id v then Some (selection, tail, after, Some v)
             else None) (split_on (CHR ''&'') query) (SelBoth, 50, None, None) of
           None \<Rightarrow> None
         | Some (selection, tail, after, after_hub) \<Rightarrow>
             (case (after_hub, after) of
                (Some hub, Some n) \<Rightarrow>
                  Some (sid, selection, tail, Some \<lparr>lc_hub_instance_id = hub, lc_sequence = n\<rparr>)
              | (None, None) \<Rightarrow> Some (sid, selection, tail, None)
              | _ \<Rightarrow> None)))"

definition parse_events_target :: "string \<Rightarrow> (u64 \<times> nat) option" where
  "parse_events_target target = (case strip_prefix ''/v1/events'' target of
      None \<Rightarrow> None
    | Some query \<Rightarrow>
        if query = [] then Some (0, 50)
        else (case strip_prefix ''?'' query of
            None \<Rightarrow> None
          | Some fields' \<Rightarrow> query_fields (\<lambda>name v (after, limit).
              if name = ''after'' then map_option (\<lambda>n. (n, limit)) (parse_u64 v)
              else if name = ''limit'' then map_option (\<lambda>n. (after, clamp 1 200 n)) (parse_usize 10 v)
              else None) (split_on (CHR ''&'') fields') (0, 50)))"

definition valid_request_id :: "string \<Rightarrow> bool" where
  "valid_request_id v = (v \<noteq> [] \<and> length v \<le> 128
     \<and> list_all (\<lambda>c. is_ascii_alphanumeric c \<or> c \<in> {CHR ''-'', CHR ''_'', CHR ''.'', CHR '':''}) v)"

definition parse_cooperative_operation_target :: "string \<Rightarrow> string option" where
  "parse_cooperative_operation_target target =
     (case strip_prefix ''/v1/cooperative-actions/chrome-extension/requests/'' target of
        None \<Rightarrow> None
      | Some request_id \<Rightarrow> if valid_request_id request_id then Some request_id else None)"

definition parse_mutation_target :: "string \<Rightarrow> (string \<times> control_action) option" where
  "parse_mutation_target target = (case strip_prefix ''/v1/services/'' target of
      None \<Rightarrow> None
    | Some suff \<Rightarrow>
        (case split_on (CHR ''/'') suff of
           sid # verb # rest \<Rightarrow>
             (case (if verb = ''start'' then Some CtlStart else if verb = ''stop'' then Some CtlStop
                    else if verb = ''restart'' then Some CtlRestart else None) of
                None \<Rightarrow> None
              | Some action \<Rightarrow> if sid = [] \<or> rest \<noteq> [] then None else Some (sid, action))
         | _ \<Rightarrow> None))"

section \<open>Authorization\<close>

definition bearer_candidate :: "http_request \<Rightarrow> string option" where
  "bearer_candidate rq = Option.bind (rq_authorization rq) (strip_prefix ''Bearer '')"

definition request_is_authorized :: "http_request \<Rightarrow> string \<Rightarrow> bool" where
  "request_is_authorized rq token = (case bearer_candidate rq of
      None \<Rightarrow> False | Some candidate \<Rightarrow> bearer_matches token candidate)"

definition unauthorized_response :: "('s, 'io, 'je, 'a) server_env \<Rightarrow> response" where
  "unauthorized_response sv = error_response sv 401 ''unauthorized'' ''valid bearer token required''"

section \<open>Mutations\<close>

text \<open>\<open>begin\<close>: the first section, the thread, and the answer read after what the worker has done by then.\<close>

definition coop_begin ::
  "('s, 'io, 'je, 'a) server_env \<Rightarrow> string \<Rightarrow> actor \<Rightarrow> reason \<Rightarrow> string \<Rightarrow>
     operation_state \<Rightarrow> ((coop_error + coop_operation) \<times> operation_state) option" where
  "coop_begin sv target a r rid st = (case begin_accept target a r rid st of
      None \<Rightarrow> None
    | Some (BeginReply ans, st') \<Rightarrow> Some (ans, st')
    | Some (BeginSpawn, st') \<Rightarrow>
        (case sv_coop_spawn sv of
           Some message \<Rightarrow> (case begin_cancel message rid st' of (e, st'') \<Rightarrow> Some (Inl e, st''))
         | None \<Rightarrow> (let st'' = sv_coop_worker sv rid st' in Some (coop_get rid st'', st''))))"

definition coop_answer :: "('s, 'io, 'je, 'a) server_env \<Rightarrow> coop_error + coop_operation \<Rightarrow> response" where
  "coop_answer sv ans = (case ans of
      Inr operation \<Rightarrow> json_response sv (if co_status operation = OpRunning then 202 else 200)
        (json_object [(''operation'', sv_operation sv operation)])
    | Inl CoopIdempotencyConflict \<Rightarrow> error_response sv 409 ''idempotency_conflict''
        ''requestId was already used for different cooperative-action input''
    | Inl (CoopActionInProgress _) \<Rightarrow> error_response sv 409 ''action_in_progress''
        ''another Chrome extension cooperative action is active''
    | Inl e \<Rightarrow> error_response sv 500 ''operation_registry_unavailable'' (show_coop_error e))"

text \<open>An endless loop of the eviction never answers; it is counted as a panic here.\<close>

definition route_cooperative_reload ::
  "('s, 'io, 'je, 'a) server_env \<Rightarrow> bool \<Rightarrow> api_actor \<Rightarrow> reason \<Rightarrow> string option \<Rightarrow>
     ('s server_state, response, control_error) op" where
  "route_cooperative_reload sv cooperative who r request_id st = (case request_id of
      None \<Rightarrow> (Ok (error_response sv 400 ''request_id_required''
        ''reload_self requires requestId for relay idempotency and audit''), st)
    | Some rid \<Rightarrow>
        (case (if cooperative then sv_coop_target sv else None) of
           None \<Rightarrow> (Ok (error_response sv 404 ''cooperative_action_disabled''
             ''Chrome extension reload is not configured''), st)
         | Some target \<Rightarrow>
             (case coop_begin sv target (domain_actor who) r rid (hv_coop st) of
                None \<Rightarrow> (Panic, st)
              | Some (ans, coop) \<Rightarrow> (Ok (coop_answer sv ans), st\<lparr>hv_coop := coop\<rparr>))))"

definition shutdown_answer ::
  "('s, 'io, 'je, 'a) server_env \<Rightarrow> string \<Rightarrow> shutdown_error + shutdown_outcome \<Rightarrow> response" where
  "shutdown_answer sv rid ans = (case ans of
      Inr outcome \<Rightarrow> json_response sv 202 (json_object
        [(''status'', JString (case outcome of ShutdownAccepted \<Rightarrow> ''accepted''
            | ShutdownAlreadyAccepted \<Rightarrow> ''already_accepted'')),
         (''requestId'', JString rid), (''instance'', sv_instance sv)])
    | Inl ShutdownAlreadyInProgress \<Rightarrow> error_response sv 409 ''shutdown_in_progress''
        ''a different Supervisor shutdown request is already active''
    | Inl ShutdownLockPoisoned \<Rightarrow> error_response sv 500 ''shutdown_registry_unavailable''
        ''Supervisor shutdown registry is unavailable'')"

definition route_shutdown ::
  "('s, 'io, 'je, 'a) server_env \<Rightarrow> mutation_request \<Rightarrow> reason \<Rightarrow> ('s server_state, response, control_error) op" where
  "route_shutdown sv mutation r st = (case mt_request_id mutation of
      None \<Rightarrow> (Ok (error_response sv 400 ''request_id_required''
        ''Supervisor shutdown requires requestId for idempotency and audit''), st)
    | Some rid \<Rightarrow>
        (case request_shutdown \<lparr>sr_actor = domain_actor (mt_actor mutation), sr_reason = r, sr_request_id = rid\<rparr>
            (hv_shutdown st) of
           (ans, current) \<Rightarrow> (Ok (shutdown_answer sv rid ans), st\<lparr>hv_shutdown := current\<rparr>)))"

definition control_error_response :: "('s, 'io, 'je, 'a) server_env \<Rightarrow> control_error \<Rightarrow> response" where
  "control_error_response sv e = (case ce_kind e of
      KindServiceNotFound \<Rightarrow> error_response sv 404 ''service_not_found'' (ce_message e)
    | KindUnauthorized \<Rightarrow> error_response sv 403 ''operation_forbidden'' (ce_message e)
    | KindPortConflictExternal \<Rightarrow> error_response sv 409 ''port_conflict_external'' (ce_message e)
    | KindSpawnFailed \<Rightarrow> error_response sv 500 ''spawn_failed'' (ce_message e)
    | KindHealthFailed \<Rightarrow> error_response sv 503 ''health_failed'' (ce_message e)
    | KindShutdownTimeout \<Rightarrow> error_response sv 500 ''shutdown_timeout'' (ce_message e)
    | KindOwnershipLost \<Rightarrow> error_response sv 500 ''ownership_lost'' (ce_message e)
    | KindInternal \<Rightarrow> error_response sv 500 ''internal'' (ce_message e))"

definition mutation_response ::
  "('s, 'io, 'je, 'a) server_env \<Rightarrow> string \<Rightarrow> control_error + mutation_result \<Rightarrow> response" where
  "mutation_response sv sid res = (case res of
      Inl e \<Rightarrow> control_error_response sv e
    | Inr result' \<Rightarrow> json_response sv 200 (json_object
        ([(''serviceId'', JString sid), (''outcome'', sv_outcome sv (mr_outcome result'))]
         @ (case mr_shutdown result' of None \<Rightarrow> [] | Some report \<Rightarrow> [(''shutdown'', sv_stop_report sv report)]))))"

definition remember_response ::
  "http_request \<Rightarrow> string option \<Rightarrow> response \<Rightarrow> ('s server_state, response, control_error) op" where
  "remember_response rq request_id response' st = (case request_id of
      None \<Rightarrow> (Ok response', st)
    | Some rid \<Rightarrow>
        (case idempotency_insert rid (rq_target rq) (rq_body rq) response' (hv_idempotency st) of
           None \<Rightarrow> (Panic, st)
         | Some ids \<Rightarrow> (Ok response', st\<lparr>hv_idempotency := ids\<rparr>)))"

definition route_service_mutation ::
  "('s, 'io, 'je, 'a) server_env \<Rightarrow> http_request \<Rightarrow> mutation_request \<Rightarrow> reason \<Rightarrow> actor option \<Rightarrow>
     ('s server_state, response, control_error) op" where
  "route_service_mutation sv rq mutation r service_actor st =
     (case (case mt_request_id mutation of
          None \<Rightarrow> LookupMiss
        | Some rid \<Rightarrow> idempotency_lookup rid (rq_target rq) (rq_body rq) (hv_idempotency st)) of
        LookupReplay response' \<Rightarrow> (Ok response', st)
      | LookupConflict \<Rightarrow> (Ok (error_response sv 409 ''idempotency_conflict''
          ''requestId was already used for a different mutation''), st)
      | LookupMiss \<Rightarrow>
          (case parse_mutation_target (rq_target rq) of
             None \<Rightarrow> (Ok (error_response sv 404 ''not_found'' ''route not found''), st)
           | Some (sid, action) \<Rightarrow>
               bind_op (attempt_op (on_supervised (ctl_mutate (qe_control (sv_query sv)) action sid
                   (case service_actor of None \<Rightarrow> domain_actor (mt_actor mutation) | Some a \<Rightarrow> a) r)))
                 (\<lambda>res. remember_response rq (mt_request_id mutation) (mutation_response sv sid res)) st))"

definition route_mutation_with_service_actor ::
  "('s, 'io, 'je, 'a) server_env \<Rightarrow> bool \<Rightarrow> http_request \<Rightarrow> actor option \<Rightarrow>
     ('s server_state, response, control_error) op" where
  "route_mutation_with_service_actor sv cooperative rq service_actor st = (case bearer_candidate rq of
      None \<Rightarrow> (Ok (error_response sv 401 ''unauthorized'' ''bearer token required''), st)
    | Some candidate \<Rightarrow>
        if \<not> bearer_matches (sv_token sv) candidate
        then (Ok (error_response sv 401 ''unauthorized'' ''invalid bearer token''), st)
        else (case sv_mutation sv (rq_body rq) of
            None \<Rightarrow> (Ok (error_response sv 400 ''invalid_request'' ''invalid mutation body''), st)
          | Some mutation \<Rightarrow>
              if (case mt_request_id mutation of None \<Rightarrow> False | Some rid \<Rightarrow> \<not> valid_request_id rid)
              then (Ok (error_response sv 400 ''invalid_request_id''
                ''requestId must be 1-128 URL-safe ASCII characters''), st)
              else (case reason_new (mt_reason mutation) of
                  Inl e \<Rightarrow> (Ok (error_response sv 400 ''invalid_reason'' (show_reason_error e)), st)
                | Inr r \<Rightarrow>
                    if rq_target rq = ''/v1/cooperative-actions/chrome-extension/reload-self''
                    then route_cooperative_reload sv cooperative (mt_actor mutation) r (mt_request_id mutation) st
                    else if rq_target rq = ''/v1/supervisor/shutdown'' then route_shutdown sv mutation r st
                    else route_service_mutation sv rq mutation r service_actor st)))"

definition route_mutation ::
  "('s, 'io, 'je, 'a) server_env \<Rightarrow> http_request \<Rightarrow> ('s server_state, response, control_error) op" where
  "route_mutation sv rq = route_mutation_with_service_actor sv True rq None"

section \<open>Routes\<close>

definition accepts_media :: "string \<Rightarrow> string \<Rightarrow> bool" where
  "accepts_media accepts media = list_ex (\<lambda>v. trim v = media) (split_on (CHR '','') accepts)"

definition route_mcp ::
  "('s, 'io, 'je, 'a) server_env \<Rightarrow> http_request \<Rightarrow> ('s server_state, response, control_error) op" where
  "route_mcp sv rq st =
     (if \<not> mcp_enabled (sv_mcp sv) then (Ok (error_response sv 404 ''not_found'' ''route not found''), st)
      else if \<not> request_is_authorized rq (sv_token sv) then (Ok (unauthorized_response sv), st)
      else if (case rq_origin rq of None \<Rightarrow> False | Some origin \<Rightarrow> origin \<notin> set (mcp_allowed_origins (sv_mcp sv)))
      then (Ok (json_response sv 403 (json_object
        [(''jsonrpc'', JString ''2.0''), (''id'', JNull),
         (''error'', json_object [(''code'', json_int (- 32000)), (''message'', JString ''Origin is not allowed'')])])), st)
      else if rq_method rq \<noteq> ''POST'' then (Ok (empty_response 405), st)
      else if rq_content_type rq \<noteq> Some ''application/json''
      then (Ok (error_response sv 400 ''invalid_content_type'' ''application/json required''), st)
      else (let accepts = (case rq_accept rq of None \<Rightarrow> '''' | Some a \<Rightarrow> a) in
        if \<not> accepts_media accepts ''application/json'' \<or> \<not> accepts_media accepts ''text/event-stream''
        then (Ok (error_response sv 400 ''invalid_accept''
          ''Accept must include application/json and text/event-stream''), st)
        else if (case rq_mcp_protocol_version rq of None \<Rightarrow> False | Some v \<Rightarrow> \<not> supports_protocol_version v)
        then (Ok (error_response sv 400 ''unsupported_protocol_version'' ''unsupported MCP version''), st)
        else map_op (\<lambda>r. case r of McpJson v \<Rightarrow> json_response sv 200 v | McpAccepted \<Rightarrow> empty_response 202)
          (on_supervised (mcp_handle_message (sv_query sv) (hv_logs st) (rq_body rq))) st))"

definition snapshot_response ::
  "('s, 'io, 'je, 'a) server_env \<Rightarrow> (service_snapshot list \<Rightarrow> response) \<Rightarrow> ('s server_state, response, control_error) op" where
  "snapshot_response sv f = map_op
     (\<lambda>r. case r of Inr services \<Rightarrow> f services | Inl e \<Rightarrow> error_response sv 500 ''internal'' (ce_message e))
     (attempt_op (on_supervised (ctl_snapshots (qe_control (sv_query sv)))))"

definition service_response :: "('s, 'io, 'je, 'a) server_env \<Rightarrow> string \<Rightarrow> service_snapshot list \<Rightarrow> response" where
  "service_response sv sid services = (case find (\<lambda>service. ss_id service = sid) services of
      None \<Rightarrow> error_response sv 404 ''service_not_found'' ''unknown service''
    | Some service \<Rightarrow> json_response sv 200 (json_object [(''service'', qe_snapshot (sv_query sv) service)]))"

definition logs_response ::
  "('s, 'io, 'je, 'a) server_env \<Rightarrow> string \<Rightarrow> log_stream \<Rightarrow> nat \<Rightarrow> 's server_state \<Rightarrow> response" where
  "logs_response sv sid stream tail st =
     (case store_tail (qe_log_files (sv_query sv) (hv_control st)) sid stream tail (hv_logs st) of
        Inr log \<Rightarrow> json_response sv 200 (json_object [(''log'', qe_tail (sv_query sv) log)])
      | Inl (SlServiceNotFound _) \<Rightarrow> error_response sv 404 ''service_not_found'' ''unknown service''
      | Inl e \<Rightarrow> error_response sv 500 ''log_unavailable''
          (show_service_log_error (qe_show_io (sv_query sv)) (qe_log_path (sv_query sv) sid stream) e))"

text \<open>What an authenticated query answers with the cooperative manager.\<close>

definition cooperative_response ::
  "('s, 'io, 'je, 'a) server_env \<Rightarrow> (operation_state \<Rightarrow> coop_error + json) \<Rightarrow> 's server_state \<Rightarrow> response" where
  "cooperative_response sv f st =
     (if sv_coop_target sv = None
      then error_response sv 404 ''cooperative_action_disabled'' ''Chrome extension reload is not configured''
      else (case f (hv_coop st) of
          Inr v \<Rightarrow> json_response sv 200 (json_object [(''operation'', v)])
        | Inl CoopNotFound \<Rightarrow> error_response sv 404 ''operation_not_found'' ''cooperative operation was not found''
        | Inl e \<Rightarrow> error_response sv 500 ''operation_registry_unavailable'' (show_coop_error e)))"

definition authorized_query ::
  "('s, 'io, 'je, 'a) server_env \<Rightarrow> http_request \<Rightarrow> ('s server_state \<Rightarrow> response) \<Rightarrow>
     ('s server_state, response, control_error) op" where
  "authorized_query sv rq f st =
     (if request_is_authorized rq (sv_token sv) then (Ok (f st), st) else (Ok (unauthorized_response sv), st))"

definition route ::
  "('s, 'io, 'je, 'a) server_env \<Rightarrow> http_request \<Rightarrow> ('s server_state, response, control_error) op" where
  "route sv rq st =
     (let target = rq_target rq; get = (rq_method rq = ''GET'') in
      case dashboard_asset sv target of
        Some (body, content_type) \<Rightarrow>
          (Ok (if get then dashboard_response 200 body content_type
               else dashboard_response 405 ''method not allowed'' ''text/plain; charset=utf-8''), st)
      | None \<Rightarrow>
          if target = mcp_endpoint then route_mcp sv rq st
          else if get \<and> target = ''/v1/health'' then
            (Ok (json_response sv 200 (json_object
               [(''status'', JString ''ok''), (''version'', JString (qe_version (sv_query sv)))])), st)
          else if get \<and> target = ''/v1/services'' then
            snapshot_response sv (\<lambda>services. json_response sv 200 (json_object
              [(''services'', JArray (map (qe_snapshot (sv_query sv)) services))])) st
          else if get \<and> target = ''/v1/instance'' then
            authorized_query sv rq (\<lambda>_. json_response sv 200 (json_object [(''instance'', sv_instance sv)])) st
          else if get \<and> target = ''/v1/registry'' then
            authorized_query sv rq (\<lambda>st. json_response sv 200 (json_object
              [(''registry'', sv_registry sv (hv_status st))])) st
          else if get \<and> target = ''/v1/cooperative-actions/chrome-extension/active'' then
            authorized_query sv rq (cooperative_response sv (\<lambda>coop. Inr (case coop_active coop of
              None \<Rightarrow> JNull | Some operation \<Rightarrow> sv_operation sv operation))) st
          else if get \<and> parse_cooperative_operation_target target \<noteq> None then
            authorized_query sv rq (cooperative_response sv (\<lambda>coop. map_sum id (sv_operation sv)
              (coop_get (the (parse_cooperative_operation_target target)) coop))) st
          else if get \<and> parse_events_target target \<noteq> None then
            authorized_query sv rq (\<lambda>st. case parse_events_target target of
                None \<Rightarrow> empty_response 404
              | Some (after, limit) \<Rightarrow>
                  (case qe_events (sv_query sv) after limit (hv_control st) of
                     Inr events \<Rightarrow> json_response sv 200 events
                   | Inl e \<Rightarrow> error_response sv 500 ''journal_unavailable'' e)) st
          else if get \<and> parse_logs_target target \<noteq> None then
            authorized_query sv rq (\<lambda>st. case parse_logs_target target of
                None \<Rightarrow> empty_response 404
              | Some (sid, stream, tail) \<Rightarrow> logs_response sv sid stream tail st) st
          else if get \<and> prefix ''/v1/services/'' target then
            (let sid = drop (length ''/v1/services/'') target in
             if sid = [] \<or> CHR ''/'' \<in> set sid
             then (Ok (error_response sv 404 ''not_found'' ''route not found''), st)
             else snapshot_response sv (service_response sv sid) st)
          else if rq_method rq = ''POST'' then route_mutation sv rq st
          else (Ok (error_response sv 404 ''not_found'' ''route not found''), st))"

end
