(* ===== verification/Control_Server.thy ===== *)
theory Control_Server
  imports Control_Http
begin

text \<open>
  \<open>control_http/dashboard.rs\<close>, and of \<open>control_http.rs\<close> the handling of a connection, the live-log
  stream and the admission of connections. The dashboard gives a browser on this host a capability
  that is derived from the token, and no other part of the control API.
\<close>

section \<open>The dashboard\<close>

definition dashboard_hosts :: "('s, 'io, 'je, 'a) server_env \<Rightarrow> 'a \<Rightarrow> string list" where
  "dashboard_hosts sv address =
     map (\<lambda>name. name @ '':'' @ decimal (unat (sv_port sv address))) [''127.0.0.1'', ''localhost'', ''[::1]'']"

definition dashboard_token :: "('s, 'io, 'je, 'a) server_env \<Rightarrow> 'a \<Rightarrow> string" where
  "dashboard_token sv address = derive_scoped (sv_digest sv) (sv_token sv)
     (''dashboard-v1:'' @ sv_instance_id sv @ '':'' @ sv_show_address sv address)"

definition forwarded_body :: "('s, 'io, 'je, 'a) server_env \<Rightarrow> string \<Rightarrow> string" where
  "forwarded_body sv request_id = qe_text (sv_query sv) (json_object
     [(''actor'', JString ''user''), (''reason'', JString ''Dashboard service control''),
      (''requestId'', JString (''dashboard-'' @ request_id))])"

definition forwarded_request ::
  "('s, 'io, 'je, 'a) server_env \<Rightarrow> http_request \<Rightarrow> string \<Rightarrow> string \<Rightarrow> http_request" where
  "forwarded_request sv rq target request_id = rq\<lparr>rq_method := ''POST'', rq_target := target,
     rq_authorization := Some (''Bearer '' @ sv_token sv), rq_body := forwarded_body sv request_id\<rparr>"

definition dashboard_control_response ::
  "('s, 'io, 'je, 'a) server_env \<Rightarrow> 'a \<Rightarrow> 'a \<Rightarrow> http_request \<Rightarrow> ('s server_state, response, control_error) op" where
  "dashboard_control_response sv peer address rq st =
     (let not_found = (Ok (error_response sv 404 ''not_found'' ''route not found''), st) in
      case rq_host rq of
        None \<Rightarrow> not_found
      | Some host \<Rightarrow>
          if \<not> sv_peer_loopback sv peer \<or> \<not> sv_peer_loopback sv address \<or> host \<notin> set (dashboard_hosts sv address)
          then not_found
          else (let same_origin = ''http://'' @ host in
            if (case rq_origin rq of None \<Rightarrow> False | Some origin \<Rightarrow> origin \<noteq> same_origin)
            then (Ok (error_response sv 403 ''origin_forbidden'' ''same-origin dashboard request required''), st)
            else if rq_target rq = ''/dashboard/v1/session'' then
              (if rq_method rq \<noteq> ''GET'' then (Ok (error_response sv 405 ''method_not_allowed'' ''GET required''), st)
               else if rq_dashboard_request rq \<noteq> Some ''1''
               then (Ok (error_response sv 403 ''dashboard_header_required'' ''dashboard request header required''), st)
               else (Ok (json_response sv 200 (json_object
                 [(''token'', JString (dashboard_token sv address)), (''instanceId'', JString (sv_instance_id sv))])), st))
            else (case strip_prefix ''/dashboard'' (rq_target rq) of
                None \<Rightarrow> not_found
              | Some target \<Rightarrow>
                  if parse_mutation_target target = None then not_found
                  else if rq_method rq \<noteq> ''POST''
                  then (Ok (error_response sv 405 ''method_not_allowed'' ''POST required''), st)
                  else if rq_origin rq \<noteq> Some same_origin
                  then (Ok (error_response sv 403 ''origin_required'' ''same-origin dashboard request required''), st)
                  else if rq_content_type rq \<noteq> Some ''application/json''
                  then (Ok (error_response sv 415 ''json_required'' ''application/json required''), st)
                  else if \<not> (case rq_dashboard_token rq of None \<Rightarrow> False
                      | Some candidate \<Rightarrow> bearer_matches (dashboard_token sv address) candidate)
                  then (Ok (error_response sv 401 ''unauthorized'' ''valid dashboard token required''), st)
                  else (case sv_dashboard_mutation sv (rq_body rq) of
                      None \<Rightarrow> (Ok (error_response sv 400 ''invalid_request''
                        ''requestId is required; no other fields are accepted''), st)
                    | Some request_id \<Rightarrow>
                        if \<not> valid_request_id request_id \<or> 118 < length request_id
                        then (Ok (error_response sv 400 ''invalid_request_id''
                          ''requestId must be 1-118 URL-safe ASCII characters''), st)
                        else route_mutation_with_service_actor sv False
                          (forwarded_request sv rq target request_id) (Some UserUi) st))))"

definition route_dashboard_control ::
  "('s, 'io, 'je, 'a) server_env \<Rightarrow> 'a \<Rightarrow> 'a \<Rightarrow> http_request \<Rightarrow> ('s server_state, response, control_error) op" where
  "route_dashboard_control sv peer address rq =
     map_op (\<lambda>r. r\<lparr>rs_dashboard_security_headers := True\<rparr>) (dashboard_control_response sv peer address rq)"

definition is_port_text :: "string \<Rightarrow> bool" where
  "is_port_text port = (port \<noteq> [] \<and> list_all is_ascii_digit port)"

definition is_loopback_host :: "('s, 'io, 'je, 'a) server_env \<Rightarrow> string \<Rightarrow> bool" where
  "is_loopback_host sv authority =
     (let authority = trim authority in
      case strip_prefix ''['' authority of
        Some bracketed \<Rightarrow>
          (case split_once bracketed '']'' of
             None \<Rightarrow> False
           | Some (address, suff) \<Rightarrow>
               if suff \<noteq> [] \<and> \<not> (case strip_prefix '':'' suff of None \<Rightarrow> False | Some port \<Rightarrow> is_port_text port)
               then False else sv_loopback_ip sv address)
      | None \<Rightarrow>
          (let host = (case split_once authority '':'' of
              None \<Rightarrow> authority | Some (host, port) \<Rightarrow> if is_port_text port then host else '''') in
           eq_ignore_ascii_case host ''localhost'' \<or> sv_loopback_ip sv host))"

definition dashboard_request_is_loopback :: "('s, 'io, 'je, 'a) server_env \<Rightarrow> 'a \<Rightarrow> string option \<Rightarrow> bool" where
  "dashboard_request_is_loopback sv peer host =
     (sv_peer_loopback sv peer \<and> (case host of None \<Rightarrow> False | Some h \<Rightarrow> is_loopback_host sv h))"

section \<open>One connection\<close>

text \<open>
  What becomes of a request: a response, a live-log stream that a thread goes on writing, or a
  failure of the connection. \<open>local_address\<close> is what asking the socket for its address gives.
\<close>

datatype handled = Respond response | StreamLogs string "u64 \<times> live_event list"

definition poison_on_panic ::
  "('s server_state, 'x, 'e) op \<Rightarrow> ('s server_state, 'x, 'e) op" where
  "poison_on_panic m st = (case m st of (Panic, st') \<Rightarrow> (Panic, st'\<lparr>hv_poisoned := True\<rparr>) | r \<Rightarrow> r)"

definition with_idempotency_lock ::
  "('s server_state, response, control_error) op \<Rightarrow> ('s server_state, handled, request_error) op" where
  "with_idempotency_lock m st =
     (if hv_poisoned st then (Err RqIdempotencyPoisoned, st)
      else (case poison_on_panic m st of
          (Ok r, st') \<Rightarrow> (Ok (Respond r), st')
        | (Err e, st') \<Rightarrow> (Panic, st')
        | (Panic, st') \<Rightarrow> (Panic, st')))"

text \<open>A request with a store of its own, which is dropped afterwards.\<close>

definition with_scratch_store ::
  "('s server_state, response, control_error) op \<Rightarrow> ('s server_state, handled, request_error) op" where
  "with_scratch_store m st =
     (case m (st\<lparr>hv_idempotency := idempotency_new\<rparr>) of
        (Ok r, st') \<Rightarrow> (Ok (Respond r), st'\<lparr>hv_idempotency := hv_idempotency st\<rparr>)
      | (Err e, st') \<Rightarrow> (Panic, st'\<lparr>hv_idempotency := hv_idempotency st\<rparr>)
      | (Panic, st') \<Rightarrow> (Panic, st'\<lparr>hv_idempotency := hv_idempotency st\<rparr>))"

definition handle_live_logs ::
  "('s, 'io, 'je, 'a) server_env \<Rightarrow> http_request \<Rightarrow> string \<Rightarrow> live_selection \<Rightarrow> nat \<Rightarrow> live_cursor option \<Rightarrow>
     ('s server_state, handled, request_error) op" where
  "handle_live_logs sv rq sid selection tail cursor st =
     (if \<not> request_is_authorized rq (sv_token sv) then (Ok (Respond (unauthorized_response sv)), st)
      else (case store_subscribe (sv_now sv) sid selection tail cursor (hv_logs st)
          :: ('io service_log_error + u64 \<times> live_event list) \<times> log_store of
          (Inl (SlServiceNotFound _), _) \<Rightarrow>
            (Ok (Respond (error_response sv 404 ''service_not_found'' ''unknown service'')), st)
        | (Inl (SlTooManySubscribers _), _) \<Rightarrow>
            (Ok (Respond (error_response sv 409 ''live_log_subscriber_limit''
              ''too many live-log subscribers for service'')), st)
        | (Inl e, _) \<Rightarrow> (Ok (Respond (error_response sv 500 ''log_unavailable''
            (show_service_log_error (qe_show_io (sv_query sv)) (qe_log_path (sv_query sv) sid LogStdout) e))), st)
        | (Inr (k, initial), logs) \<Rightarrow>
            (case (sv_clone_stream sv, sv_live_spawn sv) of
               (None, None) \<Rightarrow> (Ok (StreamLogs sid (k, initial)), st\<lparr>hv_logs := logs\<rparr>)
             | (Some e, _) \<Rightarrow>
                 (Err (RqWrite e), st\<lparr>hv_logs := logs\<lparr>lst_live := hub_unsubscribe sid k (lst_live logs)\<rparr>\<rparr>)
             | (None, Some e) \<Rightarrow>
                 (Err (RqWrite e), st\<lparr>hv_logs := logs\<lparr>lst_live := hub_unsubscribe sid k (lst_live logs)\<rparr>\<rparr>))))"

definition handle_request ::
  "('s, 'io, 'je, 'a) server_env \<Rightarrow> 'a \<Rightarrow> string + 'a \<Rightarrow> http_request \<Rightarrow>
     ('s server_state, handled, request_error) op" where
  "handle_request sv peer local_address rq st =
     (if hv_stop st then (Ok (Respond (error_response sv 503 ''shutdown_in_progress''
        ''AkuSupervisor is draining; retry after a new instance is ready'')), st)
      else if prefix ''/dashboard/'' (rq_target rq) then
        (case local_address of
           Inl e \<Rightarrow> (Err (RqRead e), st)
         | Inr address \<Rightarrow> with_idempotency_lock (route_dashboard_control sv peer address rq) st)
      else (case (if rq_method rq = ''GET'' then parse_live_logs_target (rq_target rq) else None) of
          Some (sid, selection, tail, cursor) \<Rightarrow> handle_live_logs sv rq sid selection tail cursor st
        | None \<Rightarrow>
            if dashboard_asset sv (rq_target rq) \<noteq> None \<and> \<not> dashboard_request_is_loopback sv peer (rq_host rq)
            then (Ok (Respond (dashboard_response 404 ''not found'' ''text/plain; charset=utf-8'')), st)
            else if rq_method rq = ''POST'' \<and> prefix ''/v1/services/'' (rq_target rq)
            then with_idempotency_lock (route sv rq) st
            else with_scratch_store (route sv rq) st))"

text \<open>
  A whole connection, as a worker thread handles it: a failure is answered as a bad request, and a
  write that fails is given up. The result is a stream to go on with, if any.
\<close>

definition handle_connection ::
  "('s, 'io, 'je, 'a) server_env \<Rightarrow> 'w stream \<Rightarrow> 'a \<Rightarrow> string + 'a \<Rightarrow>
     ('w world \<times> 's server_state, (string \<times> u64 \<times> live_event list) option, request_error) op" where
  "handle_connection sv k peer local_address = (\<lambda>(w, st). case read_request k w of
      (Panic, w1) \<Rightarrow> (Panic, (w1, st))
    | (Err e, w1) \<Rightarrow> (Err e, (w1, st))
    | (Ok rq, w1) \<Rightarrow>
        (case handle_request sv peer local_address rq st of
           (Panic, st1) \<Rightarrow> (Panic, (w1, st1))
         | (Err e, st1) \<Rightarrow> (Err e, (w1, st1))
         | (Ok (StreamLogs sid sub), st1) \<Rightarrow> (Ok (Some (sid, sub)), (w1, st1))
         | (Ok (Respond r), st1) \<Rightarrow>
             (case write_response k r w1 of
                (Ok _, w2) \<Rightarrow> (Ok None, (w2, st1))
              | (Err e, w2) \<Rightarrow> (Err (RqWrite e), (w2, st1))
              | (Panic, w2) \<Rightarrow> (Panic, (w2, st1)))))"

definition connection_worker ::
  "('s, 'io, 'je, 'a) server_env \<Rightarrow> 'w stream \<Rightarrow> 'a \<Rightarrow> string + 'a \<Rightarrow>
     ('w world \<times> 's server_state, (string \<times> u64 \<times> live_event list) option, request_error) op" where
  "connection_worker sv k peer local_address = (\<lambda>s. case handle_connection sv k peer local_address s of
      (Err e, (w, st)) \<Rightarrow>
        (case write_response k (error_response sv 400 ''bad_request'' (show_request_error e)) w of
           (_, w1) \<Rightarrow> (Ok None, (w1, st)))
    | r \<Rightarrow> r)"

section \<open>The live-log stream\<close>

text \<open>
  The rounds of the loop: whether the server is stopping, what the channel gives within a second, and
  the time then. The text written is what the loop gives; a write that fails ends it.
\<close>

datatype live_round = RoundEvent live_event nat | RoundTimeout nat | RoundDisconnected

definition heartbeat_interval :: nat where
  "heartbeat_interval = 15 * 1000000000"

fun live_rounds ::
  "(live_event \<Rightarrow> string) \<Rightarrow> (nat \<Rightarrow> live_event) \<Rightarrow> nat \<Rightarrow> (bool \<times> live_round) list \<Rightarrow> string list" where
  "live_rounds show_event beat last_write [] = []"
| "live_rounds show_event beat last_write ((stop, round) # rounds) =
     (if stop then []
      else (case round of
          RoundEvent e now \<Rightarrow> (show_event e @ [newline]) # live_rounds show_event beat now rounds
        | RoundTimeout now \<Rightarrow>
            if heartbeat_interval \<le> now - last_write
            then (show_event (beat now) @ [newline]) # live_rounds show_event beat now rounds
            else live_rounds show_event beat last_write rounds
        | RoundDisconnected \<Rightarrow> []))"

definition live_log_head :: string where
  "live_log_head = ''HTTP/1.1 200 OK'' @ crlf @ ''Content-Type: application/x-ndjson'' @ crlf
     @ ''Cache-Control: no-store'' @ crlf @ ''Connection: close'' @ crlf @ crlf"

definition stream_live_logs ::
  "('s, 'io, 'je, 'a) server_env \<Rightarrow> 'w stream \<Rightarrow> live_event list \<Rightarrow> (nat \<Rightarrow> live_event) \<Rightarrow> nat \<Rightarrow>
     (bool \<times> live_round) list \<Rightarrow> ('w world, unit, string) op" where
  "stream_live_logs sv k initial beat started rounds =
     seq_op (on_stream (sk_write k live_log_head))
       (seq_op (each_op (\<lambda>piece. seq_op (on_stream (sk_write k piece)) (on_stream (sk_flush k)))
            (map (\<lambda>e. sv_live_event sv e @ [newline]) initial @ live_rounds (sv_live_event sv) beat started rounds))
          (on_stream (sk_shutdown_write k)))"

section \<open>Admission\<close>

definition max_control_connections :: nat where
  "max_control_connections = 64"

text \<open>The counter of active connections, and the workers it counts.\<close>

record connection_count =
  cn_active :: nat
  cn_workers :: "nat set"
  cn_refused :: nat

definition admit_connection :: "nat \<Rightarrow> nat option" where
  "admit_connection active = (if active < max_control_connections then Some (active + 1) else None)"

inductive connection_step :: "connection_count \<Rightarrow> connection_count \<Rightarrow> bool" where
  admit: "admit_connection (cn_active c) = Some n \<Longrightarrow> worker \<notin> cn_workers c \<Longrightarrow>
    connection_step c (c\<lparr>cn_active := n, cn_workers := insert worker (cn_workers c)\<rparr>)"
| refuse: "admit_connection (cn_active c) = None \<Longrightarrow>
    connection_step c (c\<lparr>cn_refused := cn_refused c + 1\<rparr>)"
| spawn_failed: "admit_connection (cn_active c) = Some n \<Longrightarrow> connection_step c (c\<lparr>cn_active := n - 1\<rparr>)"
| worker_done: "worker \<in> cn_workers c \<Longrightarrow>
    connection_step c (c\<lparr>cn_active := cn_active c - 1, cn_workers := cn_workers c - {worker}\<rparr>)"

inductive connection_reach :: "connection_count \<Rightarrow> bool" where
  start: "connection_reach \<lparr>cn_active = 0, cn_workers = {}, cn_refused = 0\<rparr>"
| step: "connection_reach c \<Longrightarrow> connection_step c c' \<Longrightarrow> connection_reach c'"

text \<open>The end of \<open>shutdown\<close>: the readings of the counter and of the time until it is zero or too late.\<close>

fun drain_connections :: "nat \<Rightarrow> (nat \<times> nat) list \<Rightarrow> (nat + unit) option" where
  "drain_connections deadline [] = None"
| "drain_connections deadline ((active, now) # rest) =
     (if active = 0 then Some (Inr ()) else if deadline \<le> now then Some (Inl active)
      else drain_connections deadline rest)"

datatype http_error =
  HeBind string | HeConfigure string | HeSpawnThread string | HeAccept string
| HeThreadPanicked | HeConnectionsStillActive nat

fun show_http_error :: "http_error \<Rightarrow> string" where
  "show_http_error (HeBind e) = ''failed to bind control API: '' @ e"
| "show_http_error (HeConfigure e) = ''failed to configure control API: '' @ e"
| "show_http_error (HeSpawnThread e) = ''failed to start control API: '' @ e"
| "show_http_error (HeAccept e) = ''control API accept failed: '' @ e"
| "show_http_error HeThreadPanicked = ''control API thread panicked''"
| "show_http_error (HeConnectionsStillActive n) = ''control API stopped accepting requests but ''
     @ decimal n @ '' request handler(s) did not drain within the shutdown deadline''"

end
