(* ===== verification/Control_Server_Facts.thy ===== *)
theory Control_Server_Facts
  imports Control_Server
begin

text \<open>
  The library for the control server: operations that leave their state in a relation, the requests
  that can change anything, the idempotency store, and the admission of connections.
\<close>

section \<open>Operations that stay in a relation\<close>

named_theorems stays_intro

definition stays :: "('s \<Rightarrow> bool) \<Rightarrow> ('s \<Rightarrow> 's \<Rightarrow> bool) \<Rightarrow> ('s, 'x, 'e) op \<Rightarrow> bool" where
  "stays I R m \<longleftrightarrow> (\<forall>s out s'. I s \<longrightarrow> m s = (out, s') \<longrightarrow> out \<noteq> Panic \<longrightarrow> R s s')"

lemma staysD: "stays I R m \<Longrightarrow> I s \<Longrightarrow> m s = (out, s') \<Longrightarrow> out \<noteq> Panic \<Longrightarrow> R s s'"
  by (simp add: stays_def)

lemma stays_return [stays_intro]: "reflp R \<Longrightarrow> stays I R (return_op a)"
  by (simp add: stays_def return_op_def reflp_def)

lemma stays_get [stays_intro]: "reflp R \<Longrightarrow> stays I R (get_op f)"
  by (simp add: stays_def get_op_def reflp_def)

lemma stays_Ok [stays_intro]: "reflp R \<Longrightarrow> stays I R (\<lambda>s. (Ok (f s), s))"
  by (simp add: stays_def reflp_def)

lemma stays_map [stays_intro]: "stays I R m \<Longrightarrow> stays I R (map_op f m)"
  by (fastforce simp: stays_def map_op_def map_outcome_def split: prod.splits outcome.splits)

lemma stays_attempt [stays_intro]: "stays I R m \<Longrightarrow> stays I R (attempt_op m)"
  by (fastforce simp: stays_def attempt_op_def split: prod.splits outcome.splits)

lemma stays_if [stays_intro]:
  "(b \<Longrightarrow> stays I R m) \<Longrightarrow> (\<not> b \<Longrightarrow> stays I R n) \<Longrightarrow> stays I R (if b then m else n)"
  by simp

lemma stays_eta: "stays I R (\<lambda>s. m s) \<Longrightarrow> stays I R m"
  by simp

text \<open>Only the control's state may differ, and a client sees no difference.\<close>

definition same_view :: "('s \<Rightarrow> 'v) \<Rightarrow> 's \<Rightarrow> 's \<Rightarrow> bool" where
  "same_view view s s' \<longleftrightarrow> view s' = view s"

definition same_server :: "('s \<Rightarrow> 'v) \<Rightarrow> 's server_state \<Rightarrow> 's server_state \<Rightarrow> bool" where
  "same_server view st st' \<longleftrightarrow>
     st' = st\<lparr>hv_control := hv_control st'\<rparr> \<and> view (hv_control st') = view (hv_control st)"

lemma same_refl [simp]: "reflp (same_view view)" "reflp (same_server view)"
  by (simp_all add: reflp_def same_view_def same_server_def)

lemma same_server_self [simp]: "same_server view st st"
  by (simp add: same_server_def)

lemma stays_on_supervised [stays_intro]:
  "stays I (same_view view) m \<Longrightarrow> stays (\<lambda>st. I (hv_control st)) (same_server view) (on_supervised m)"
  by (auto simp: stays_def on_supervised_def same_view_def same_server_def split: prod.splits)

lemma stays_bind_arg [stays_intro]:
  "reflp R \<Longrightarrow> (\<And>v. stays I R (f v)) \<Longrightarrow> stays I R (bind_arg r f)"
  by (auto simp: bind_arg_def intro: stays_return split: sum.split)

section \<open>Queries\<close>

context supervisor_control
begin

lemma stays_snapshots [stays_intro]: "stays inv (same_view view) (ctl_snapshots ctl)"
  by (simp add: stays_def same_view_def view_snapshots)

lemma stays_with_snapshots: "qe_control q = ctl \<Longrightarrow> stays inv (same_view view) (with_snapshots q f)"
  by (simp add: with_snapshots_def stays_map stays_attempt stays_snapshots)

lemma stays_mcp:
  assumes "qe_control q = ctl"
  shows "stays inv (same_view view) (mcp_handle_message q logs body)"
proof -
  have "stays inv (same_view view) (execute_tool q logs name args)" for name args
    unfolding execute_tool_def
    by (intro stays_intro same_refl stays_with_snapshots assms)
  then have "stays inv (same_view view) (mcp_call_tool q logs params)" for params
    by (auto simp: mcp_call_tool_def intro!: stays_return stays_map split: sum.split option.split)
  then have "stays inv (same_view view) (mcp_dispatch q logs method_name ident params)" for method_name ident params
    unfolding mcp_dispatch_def by (intro stays_intro same_refl)
  then show ?thesis
    by (auto simp: mcp_handle_message_def intro!: stays_return split: option.split)
qed

lemma stays_snapshot_response:
  "qe_control (sv_query sv) = ctl \<Longrightarrow>
     stays (\<lambda>st. inv (hv_control st)) (same_server view) (snapshot_response sv f)"
  unfolding snapshot_response_def by (intro stays_map stays_attempt stays_on_supervised) (simp add: stays_snapshots)

lemma stays_route_mcp:
  assumes "qe_control (sv_query sv) = ctl"
  shows "stays (\<lambda>st. inv (hv_control st)) (same_server view) (route_mcp sv rq)"
proof -
  have "stays (\<lambda>st. inv (hv_control st)) (same_server view)
      (map_op f (on_supervised (mcp_handle_message (sv_query sv) logs body)))" for f :: "mcp_response \<Rightarrow> response" and logs body
    by (intro stays_intro stays_mcp assms)
  then show ?thesis
    unfolding stays_def route_mcp_def
    by (auto simp: Let_def same_server_def split: if_splits)
qed

text \<open>Whatever is not an authorized \<open>POST\<close> to another endpoint is a query.\<close>

lemma stays_authorized_query:
  "stays I (same_server view) (authorized_query sv rq f)"
  by (simp add: stays_def authorized_query_def same_server_def)

lemma stays_route:
  assumes ctl: "qe_control (sv_query sv) = ctl"
    and query: "rq_method rq = ''POST'' \<Longrightarrow> rq_target rq \<noteq> mcp_endpoint \<Longrightarrow> \<not> request_is_authorized rq (sv_token sv)"
  shows "stays (\<lambda>st. inv (hv_control st)) (same_server view) (route sv rq)"
proof -
  have mutation: "stays (\<lambda>st. inv (hv_control st)) (same_server view) (route_mutation sv rq)"
    if "rq_method rq = ''POST''" "rq_target rq \<noteq> mcp_endpoint"
    using query [OF that]
    by (auto simp: stays_def route_mutation_def route_mutation_with_service_actor_def request_is_authorized_def
        same_server_def split: option.splits)
  show ?thesis
    unfolding stays_def
  proof (intro allI impI)
    fix st out st' assume st: "inv (hv_control st)" and run: "route sv rq st = (out, st')" and ok: "out \<noteq> Panic"
    show "same_server view st st'"
    proof (cases "dashboard_asset sv (rq_target rq)")
      case (Some asset)
      then show ?thesis using run by (auto simp: route_def same_server_def split: prod.splits)
    next
      case None
      note facts = staysD [OF stays_route_mcp [OF ctl] st _ ok] staysD [OF mutation st _ ok]
        staysD [OF stays_snapshot_response [OF ctl] st _ ok] staysD [OF stays_authorized_query _ _ ok, of "\<lambda>_. True"]
      show ?thesis
        using run unfolding route_def Let_def None option.case
        by (auto split: if_splits intro: facts)
    qed
  qed
qed

end

section \<open>The dashboard's capability\<close>

text \<open>What a dashboard request needs to be carried out.\<close>

definition dashboard_granted :: "('s, 'io, 'je, 'a) server_env \<Rightarrow> 'a \<Rightarrow> 'a \<Rightarrow> http_request \<Rightarrow> bool" where
  "dashboard_granted sv peer address rq \<longleftrightarrow>
     sv_peer_loopback sv peer \<and> sv_peer_loopback sv address \<and> rq_method rq = ''POST''
     \<and> (\<exists>host \<in> set (dashboard_hosts sv address).
          rq_host rq = Some host \<and> rq_origin rq = Some (''http://'' @ host))
     \<and> rq_content_type rq = Some ''application/json''
     \<and> (\<exists>candidate. rq_dashboard_token rq = Some candidate \<and> bearer_matches (dashboard_token sv address) candidate)"

lemma dashboard_refused:
  assumes "\<not> dashboard_granted sv peer address rq"
  shows "\<exists>r. dashboard_control_response sv peer address rq st = (Ok r, st)"
proof (cases "rq_host rq")
  case None
  then show ?thesis by (simp add: dashboard_control_response_def)
next
  case (Some host)
  show ?thesis
  proof (cases "strip_prefix ''/dashboard'' (rq_target rq)")
    case None
    then show ?thesis unfolding dashboard_control_response_def Let_def Some option.case by simp
  next
    case target: (Some target)
    show ?thesis
      using assms unfolding dashboard_granted_def dashboard_control_response_def Let_def Some target option.case
      by (cases "rq_dashboard_token rq") auto
  qed
qed

text \<open>A forwarded mutation reaches only the services: the control and the idempotency store.\<close>

definition only_services :: "'s server_state \<Rightarrow> 's server_state \<Rightarrow> bool" where
  "only_services st st' \<longleftrightarrow> st' = st\<lparr>hv_control := hv_control st', hv_idempotency := hv_idempotency st'\<rparr>"

lemma only_services_self [simp]: "only_services st st"
  by (simp add: only_services_def)

lemma remember_only_services:
  "only_services st st' \<Longrightarrow> remember_response rq rid r st' = (out, st'') \<Longrightarrow> only_services st st''"
  by (cases st; cases st'; cases st'') (auto simp: remember_response_def only_services_def split: option.splits)

lemma service_mutation_only_services:
  assumes "route_service_mutation sv rq mutation r a st = (out, st')"
  shows "only_services st st'"
proof -
  have control: "only_services st (st\<lparr>hv_control := c\<rparr>)" for c by (simp add: only_services_def)
  show ?thesis
    using assms
    by (auto simp: route_service_mutation_def bind_op_def attempt_op_def on_supervised_def control
        intro: remember_only_services [OF control]
        split: idempotency_lookup.splits option.splits prod.splits outcome.splits)
qed

lemma mutation_only_services:
  assumes "route_mutation_with_service_actor sv c rq a st = (out, st')"
    and "parse_mutation_target (rq_target rq) \<noteq> None"
  shows "only_services st st'"
proof -
  have "prefix ''/v1/services/'' (rq_target rq)"
    using assms(2) by (auto simp: parse_mutation_target_def strip_prefix_def split: if_splits)
  then have "rq_target rq \<noteq> ''/v1/cooperative-actions/chrome-extension/reload-self''"
      "rq_target rq \<noteq> ''/v1/supervisor/shutdown''"
    by (auto simp: prefix_def)
  then show ?thesis
    using assms(1)
    by (auto simp: route_mutation_with_service_actor_def service_mutation_only_services
        split: option.splits sum.splits if_splits)
qed

lemma dashboard_only_services:
  assumes "route_dashboard_control sv peer address rq st = (out, st')"
  shows "only_services st st'"
proof -
  obtain out' where run: "dashboard_control_response sv peer address rq st = (out', st')"
    using assms by (auto simp: route_dashboard_control_def map_op_def split: prod.splits)
  have "only_services st st'" if "rq_host rq = Some host" "strip_prefix ''/dashboard'' (rq_target rq) = Some target" for host target
    using run that unfolding dashboard_control_response_def Let_def that option.case
    by (auto split: if_splits option.splits intro!: mutation_only_services simp: forwarded_request_def)
  then show ?thesis
    using run
    by (cases "rq_host rq"; cases "strip_prefix ''/dashboard'' (rq_target rq)")
       (auto simp: dashboard_control_response_def Let_def split: if_splits)
qed

section \<open>Who changes what\<close>

definition authorized_mutation ::
  "('s, 'io, 'je, 'a) server_env \<Rightarrow> 'a \<Rightarrow> string + 'a \<Rightarrow> http_request \<Rightarrow> bool" where
  "authorized_mutation sv peer local_address rq \<longleftrightarrow>
     rq_method rq = ''POST'' \<and> rq_target rq \<noteq> mcp_endpoint \<and> request_is_authorized rq (sv_token sv)
     \<or> (\<exists>address. local_address = Inr address \<and> prefix ''/dashboard/'' (rq_target rq)
          \<and> dashboard_granted sv peer address rq)"

text \<open>All but the control's state and the log subscriptions stays, and a client of the control sees no difference.\<close>

definition same_but_logs :: "('s \<Rightarrow> 'v) \<Rightarrow> 's server_state \<Rightarrow> 's server_state \<Rightarrow> bool" where
  "same_but_logs view st st' \<longleftrightarrow> view (hv_control st') = view (hv_control st)
     \<and> st' = st\<lparr>hv_control := hv_control st', hv_logs := hv_logs st'\<rparr>"

lemma same_but_logs_self [simp]: "same_but_logs view st st"
  by (simp add: same_but_logs_def)

lemma same_server_but_logs: "same_server view st st' \<Longrightarrow> same_but_logs view st st' \<and> hv_logs st' = hv_logs st"
  by (cases st; cases st') (simp add: same_server_def same_but_logs_def)

lemma live_logs_same:
  assumes "handle_live_logs sv rq sid selection tail cursor st = (out, st')"
  shows "same_but_logs view st st' \<and> (request_is_authorized rq (sv_token sv) \<or> hv_logs st' = hv_logs st)"
  using assms
  by (auto simp: handle_live_logs_def same_but_logs_def
      split: if_splits prod.splits sum.splits option.splits service_log_error.splits)

context supervisor_control
begin

lemma scratch_same:
  assumes m: "stays (\<lambda>st. inv (hv_control st)) (same_server view) m" and st: "inv (hv_control st)"
    and run: "with_scratch_store m st = (out, st')" and ok: "out \<noteq> Panic"
  shows "same_server view st st'"
proof -
  let ?st = "st\<lparr>hv_idempotency := idempotency_new\<rparr>"
  obtain r st1 where r: "m ?st = (r, st1)" by (metis prod.exhaust)
  have "r \<noteq> Panic" using run ok by (auto simp: with_scratch_store_def r split: outcome.splits)
  with st have "same_server view ?st st1" by (intro staysD [OF m _ r]) simp_all
  then show ?thesis
    using run r by (cases st; cases st1) (auto simp: with_scratch_store_def same_server_def split: outcome.splits)
qed

lemma locked_same:
  assumes m: "stays (\<lambda>st. inv (hv_control st)) (same_server view) m" and st: "inv (hv_control st)"
    and run: "with_idempotency_lock m st = (out, st')" and ok: "out \<noteq> Panic"
  shows "same_server view st st'"
proof -
  obtain r st1 where r: "m st = (r, st1)" by (metis prod.exhaust)
  show ?thesis
    using run ok staysD [OF m st r]
    by (auto simp: with_idempotency_lock_def poison_on_panic_def r split: if_splits outcome.splits)
qed

lemma unauthorized_changes_nothing:
  assumes ctl: "qe_control (sv_query sv) = ctl" and st: "inv (hv_control st)"
    and run: "handle_request sv peer local_address rq st = (out, st')" and ok: "out \<noteq> Panic"
    and denied: "\<not> authorized_mutation sv peer local_address rq"
  shows "same_but_logs view st st' \<and> (request_is_authorized rq (sv_token sv) \<or> hv_logs st' = hv_logs st)"
proof (cases "hv_stop st")
  case True
  then show ?thesis using run by (simp add: handle_request_def)
next
  case running: False
  have routed: "stays (\<lambda>st. inv (hv_control st)) (same_server view) (route sv rq)"
    using denied by (intro stays_route ctl) (auto simp: authorized_mutation_def)
  show ?thesis
  proof (cases "prefix ''/dashboard/'' (rq_target rq)")
    case True
    show ?thesis
    proof (cases local_address)
      case (Inl e)
      then show ?thesis using run running True by (auto simp: handle_request_def)
    next
      case (Inr address)
      have "\<not> dashboard_granted sv peer address rq" using denied True Inr by (auto simp: authorized_mutation_def)
      then have "stays (\<lambda>st. inv (hv_control st)) (same_server view) (route_dashboard_control sv peer address rq)"
        using dashboard_refused [of sv peer address rq]
        unfolding stays_def route_dashboard_control_def map_op_def by (metis (no_types, lifting) case_prod_conv snd_conv same_server_self)
      then have "same_server view st st'"
        using run running True Inr by (intro locked_same [OF _ st _ ok]) (auto simp: handle_request_def)
      then show ?thesis using same_server_but_logs by blast
    qed
  next
    case other: False
    show ?thesis
    proof (cases "if rq_method rq = ''GET'' then parse_live_logs_target (rq_target rq) else None")
      case (Some live)
      obtain sid selection tail cursor where live: "live = (sid, selection, tail, cursor)" by (cases live)
      have "handle_live_logs sv rq sid selection tail cursor st = (out, st')"
        using run running other Some live by (simp add: handle_request_def)
      then show ?thesis by (rule live_logs_same)
    next
      case None
      have "same_server view st st'"
        using run running other None ok
        by (auto simp: handle_request_def intro: locked_same [OF routed st] scratch_same [OF routed st] split: if_splits)
      then show ?thesis using same_server_but_logs by blast
    qed
  qed
qed

end

end
