(* ===== verification/Control_Server_Properties.thy ===== *)
theory Control_Server_Properties
  imports Control_Server_Facts Foreground_Properties
begin

text \<open>
  What the control server guarantees: who can change something, what a retry does, how long an answer
  can be replayed, what the dashboard reaches, and how many connections are served.
\<close>

section \<open>The idempotency store\<close>

definition id_ok :: "idempotency_store \<Rightarrow> bool" where
  "id_ok st \<longleftrightarrow> bt_invar (id_entries st) \<and> distinct (id_order st)
     \<and> set (id_order st) = set (bt_keys (id_entries st)) \<and> length (id_entries st) \<le> idempotency_capacity"

lemma id_ok_length: "id_ok st \<Longrightarrow> length (id_order st) = length (id_entries st)"
  by (metis bt_keys_def bt_keys_distinct distinct_card id_ok_def length_map)

lemma id_ok_iff_get: "id_ok st \<Longrightarrow> bt_get (id_entries st) k \<noteq> None \<longleftrightarrow> k \<in> set (id_order st)"
  by (auto simp: id_ok_def bt_keys_set dom_def)

lemma id_ok_new: "id_ok idempotency_new"
  by (simp add: id_ok_def idempotency_new_def bt_keys_def bt_empty_def bt_invar_def)

definition id_full :: "idempotency_store \<Rightarrow> bool" where
  "id_full st \<longleftrightarrow> length (id_entries st) = idempotency_capacity"

definition id_drop_oldest :: "idempotency_store \<Rightarrow> idempotency_store" where
  "id_drop_oldest st = (if id_full st
     then st\<lparr>id_order := tl (id_order st), id_entries := bt_remove (hd (id_order st)) (id_entries st)\<rparr> else st)"

lemma id_drop_oldest_ok:
  assumes "id_ok st"
  shows "id_ok (id_drop_oldest st) \<and> length (id_entries (id_drop_oldest st)) < idempotency_capacity"
proof (cases "id_full st")
  case True
  then obtain oldest rest where order: "id_order st = oldest # rest"
    using id_ok_length [OF assms] by (cases "id_order st") (auto simp: id_full_def idempotency_capacity_def)
  let ?st = "id_drop_oldest st"
  have st: "id_order ?st = rest" "id_entries ?st = bt_remove oldest (id_entries st)"
    using True order by (simp_all add: id_drop_oldest_def)
  have inv: "bt_invar (id_entries ?st)" using assms st by (simp add: id_ok_def bt.invar_remove)
  have keys: "set (bt_keys (id_entries ?st)) = set rest"
    using assms order inv st by (auto simp: id_ok_def bt_keys_set dom_def)
  moreover have "length (id_entries ?st) = length rest"
    using inv keys assms order
    by (metis bt_keys_def bt_keys_distinct distinct.simps(2) distinct_card id_ok_def length_map)
  ultimately show ?thesis
    using assms order st inv id_ok_length [OF assms] by (auto simp: id_ok_def)
next
  case False
  then show ?thesis using assms by (auto simp: id_drop_oldest_def id_ok_def id_full_def)
qed

lemma idempotency_evict_ok: "id_ok st \<Longrightarrow> idempotency_evict st = Some (id_drop_oldest st)"
proof -
  assume ok: "id_ok st"
  have small: "length (id_entries st') < idempotency_capacity \<Longrightarrow> idempotency_evict st' = Some st'" for st'
    by (subst idempotency_evict.simps) simp
  show ?thesis
  proof (cases "id_full st")
    case True
    then obtain oldest rest where order: "id_order st = oldest # rest"
      using id_ok_length [OF ok] by (cases "id_order st") (auto simp: id_full_def idempotency_capacity_def)
    then show ?thesis
      using small [of "id_drop_oldest st"] id_drop_oldest_ok [OF ok] True
      by (subst idempotency_evict.simps) (simp add: id_full_def id_drop_oldest_def)
  next
    case False
    then show ?thesis using small [of st] ok by (auto simp: id_full_def id_ok_def id_drop_oldest_def)
  qed
qed

lemma idempotency_insert_ok:
  assumes ok: "id_ok st"
  shows "\<exists>st'. idempotency_insert rid target body r st = Some st' \<and> id_ok st'
    \<and> (if rid \<in> set (id_order st) then st' = st
       else id_order st' = id_order (id_drop_oldest st) @ [rid]
         \<and> (\<forall>k. bt_get (id_entries st') k = (if k = rid then Some \<lparr>cm_target = target, cm_body = body, cm_response = r\<rparr>
              else bt_get (id_entries (id_drop_oldest st)) k)))"
proof (cases "rid \<in> set (id_order st)")
  case True
  then show ?thesis using ok by (auto simp: idempotency_insert_def bt_contains_iff id_ok_def)
next
  case False
  let ?d = "id_drop_oldest st"
  let ?c = "\<lparr>cm_target = target, cm_body = body, cm_response = r\<rparr>"
  let ?st = "?d\<lparr>id_order := id_order ?d @ [rid], id_entries := bt_insert rid ?c (id_entries ?d)\<rparr>"
  have d: "id_ok ?d" "length (id_entries ?d) < idempotency_capacity" using id_drop_oldest_ok [OF ok] by auto
  have sub: "set (id_order ?d) \<subseteq> set (id_order st)"
    by (cases "id_order st") (auto simp: id_drop_oldest_def)
  then have new: "rid \<notin> set (id_order ?d)" using False by blast
  have run: "idempotency_insert rid target body r st = Some ?st"
    using False ok by (simp add: idempotency_insert_def bt_contains_iff id_ok_def idempotency_evict_ok [OF ok])
  have "bt_get (id_entries ?d) rid = None" using id_ok_iff_get [OF d(1), of rid] new by blast
  then have len: "length (bt_insert rid ?c (id_entries ?d)) = Suc (length (id_entries ?d))"
    using d by (intro bt.insert_new_length) (simp_all add: id_ok_def)
  have "set (bt_keys (bt_insert rid ?c (id_entries ?d))) = insert rid (set (bt_keys (id_entries ?d)))"
    by (simp add: bt_keys_def bt_insert_keys)
  then have "id_ok ?st" using d new len by (auto simp: id_ok_def bt_insert_invar)
  moreover have "\<forall>k. bt_get (id_entries ?st) k = (if k = rid then Some ?c else bt_get (id_entries ?d) k)"
    using d by (simp add: id_ok_def)
  ultimately show ?thesis using run False by fastforce
qed

text \<open>Responses that are recorded one after the other.\<close>

fun idempotency_inserts :: "(string \<times> string \<times> string \<times> response) list \<Rightarrow> idempotency_store \<Rightarrow> idempotency_store option" where
  "idempotency_inserts [] st = Some st"
| "idempotency_inserts ((rid, target, body, r) # rest) st =
     Option.bind (idempotency_insert rid target body r st) (idempotency_inserts rest)"

lemma inserts_keep:
  assumes "id_ok st" and "id_order st = us @ rid # vs" and "length vs + length xs < idempotency_capacity"
    and "bt_get (id_entries st) rid = Some c"
  shows "\<exists>st'. idempotency_inserts xs st = Some st' \<and> id_ok st' \<and> bt_get (id_entries st') rid = Some c"
  using assms
proof (induction xs arbitrary: st us vs)
  case (Cons x xs)
  obtain k target body r where x: "x = (k, target, body, r)" by (cases x)
  obtain st1 where st1: "idempotency_insert k target body r st = Some st1" "id_ok st1"
      "if k \<in> set (id_order st) then st1 = st
       else id_order st1 = id_order (id_drop_oldest st) @ [k]
         \<and> (\<forall>i. bt_get (id_entries st1) i = (if i = k then Some \<lparr>cm_target = target, cm_body = body, cm_response = r\<rparr>
              else bt_get (id_entries (id_drop_oldest st)) i))"
    using idempotency_insert_ok [OF Cons.prems(1), of k target body r] by blast
  have "\<exists>us' vs'. id_order st1 = us' @ rid # vs' \<and> length vs' + length xs < idempotency_capacity
      \<and> bt_get (id_entries st1) rid = Some c"
  proof (cases "k \<in> set (id_order st)")
    case True
    then have "st1 = st" using st1(3) by simp
    then show ?thesis
      using Cons.prems(2,3,4) by (intro exI [of _ us] exI [of _ vs]) simp
  next
    case False
    have front: "us \<noteq> []" if "id_full st"
      using that Cons.prems(2,3) id_ok_length [OF Cons.prems(1)] by (auto simp: id_full_def)
    have "hd us \<noteq> rid" if "us \<noteq> []"
      using Cons.prems(1,2) that by (cases us) (auto simp: id_ok_def)
    then have d: "id_order (id_drop_oldest st) = (if id_full st then tl us else us) @ rid # vs
        \<and> bt_get (id_entries (id_drop_oldest st)) rid = Some c"
      using front Cons.prems(1,2,4) by (auto simp: id_drop_oldest_def id_ok_def)
    have "k \<noteq> rid" using False Cons.prems(2) by auto
    moreover have "id_order st1 = (if id_full st then tl us else us) @ rid # (vs @ [k])"
      using st1(3) False d by simp
    moreover have "length (vs @ [k]) + length xs < idempotency_capacity" using Cons.prems(3) by simp
    moreover have "bt_get (id_entries st1) rid = Some c" using st1(3) False d \<open>k \<noteq> rid\<close> by auto
    ultimately show ?thesis by blast
  qed
  then obtain us' vs' where "id_order st1 = us' @ rid # vs'" "length vs' + length xs < idempotency_capacity"
      "bt_get (id_entries st1) rid = Some c" by blast
  then show ?case using Cons.IH [OF st1(2)] st1(1) x by auto
qed simp

text \<open>C18: The answer to a mutation can be replayed after any 1023 other mutations have been recorded, and
  the store never runs into its endless eviction loop.\<close>

theorem replay_window:
  assumes "id_ok st" and "bt_get (id_entries st) rid = None" and "length xs < idempotency_capacity"
  shows "\<exists>st'. idempotency_inserts ((rid, target, body, r) # xs) st = Some st'
    \<and> idempotency_lookup rid target body st' = LookupReplay r \<and> length (id_entries st') \<le> idempotency_capacity"
proof -
  have new: "rid \<notin> set (id_order st)" using id_ok_iff_get [OF assms(1)] assms(2) by blast
  obtain st1 where st1: "idempotency_insert rid target body r st = Some st1" "id_ok st1"
      "id_order st1 = id_order (id_drop_oldest st) @ [rid]"
      "bt_get (id_entries st1) rid = Some \<lparr>cm_target = target, cm_body = body, cm_response = r\<rparr>"
    using idempotency_insert_ok [OF assms(1), of rid target body r] new by auto
  then obtain st' where "idempotency_inserts xs st1 = Some st'" "id_ok st'"
      "bt_get (id_entries st') rid = Some \<lparr>cm_target = target, cm_body = body, cm_response = r\<rparr>"
    using inserts_keep [of st1 "id_order (id_drop_oldest st)" rid "[]" xs] assms(3) by auto
  then show ?thesis using st1(1) by (auto simp: idempotency_lookup_def id_ok_def)
qed

theorem replay_window_witness:
  "\<exists>st'. idempotency_inserts [(''a'', ''t'', ''b'', empty_response 200), (''c'', ''u'', ''d'', empty_response 202)]
      idempotency_new = Some st' \<and> idempotency_lookup ''a'' ''t'' ''b'' st' = LookupReplay (empty_response 200)"
  using replay_window [OF id_ok_new, of "''a''" "[(''c'', ''u'', ''d'', empty_response 202)]" "''t''" "''b''" "empty_response 200"]
  by (auto simp: idempotency_new_def bt_get_def bt_empty_def idempotency_capacity_def)

section \<open>Retries\<close>

text \<open>Running an operation again from the state it left gives the same answer and changes nothing.\<close>

definition retries :: "('s server_state, 'x, 'e) op \<Rightarrow> 's server_state \<Rightarrow> bool" where
  "retries m st \<longleftrightarrow> (\<forall>r st'. m st = (Ok r, st') \<longrightarrow> m st' = (Ok r, st') \<and> id_ok (hv_idempotency st'))"

lemma remember_retries:
  assumes ok: "id_ok (hv_idempotency st)" and run: "remember_response rq (Some rid) r st = (Ok r', st')"
    and miss: "idempotency_lookup rid (rq_target rq) (rq_body rq) (hv_idempotency st) = LookupMiss"
  shows "id_ok (hv_idempotency st')
    \<and> idempotency_lookup rid (rq_target rq) (rq_body rq) (hv_idempotency st') = LookupReplay r'"
proof -
  have "rid \<notin> set (id_order (hv_idempotency st))"
    using miss id_ok_iff_get [OF ok, of rid] by (auto simp: idempotency_lookup_def split: option.splits if_splits)
  then show ?thesis
    using run idempotency_insert_ok [OF ok, of rid "rq_target rq" "rq_body rq" r]
    by (auto simp: remember_response_def idempotency_lookup_def)
qed

lemma service_mutation_retries:
  assumes ok: "id_ok (hv_idempotency st)" and rid: "mt_request_id mutation = Some rid"
  shows "retries (route_service_mutation sv rq mutation r a) st"
  unfolding retries_def
proof (intro allI impI)
  fix res st' assume run: "route_service_mutation sv rq mutation r a st = (Ok res, st')"
  show "route_service_mutation sv rq mutation r a st' = (Ok res, st') \<and> id_ok (hv_idempotency st')"
  proof (cases "idempotency_lookup rid (rq_target rq) (rq_body rq) (hv_idempotency st)")
    case LookupMiss
    show ?thesis
    proof (cases "parse_mutation_target (rq_target rq)")
      case None
      then show ?thesis using run LookupMiss rid ok by (auto simp: route_service_mutation_def)
    next
      case (Some target)
      obtain sid action where target: "target = (sid, action)" by (cases target)
      let ?act = "case a of None \<Rightarrow> domain_actor (mt_actor mutation) | Some a \<Rightarrow> a"
      obtain x c where m: "ctl_mutate (qe_control (sv_query sv)) action sid ?act r (hv_control st) = (x, c)"
        by (metis prod.exhaust)
      have "\<exists>y. remember_response rq (Some rid) y (st\<lparr>hv_control := c\<rparr>) = (Ok res, st')"
        using run LookupMiss Some rid m target
        by (auto simp: route_service_mutation_def bind_op_def attempt_op_def on_supervised_def split: outcome.splits)
      then have "id_ok (hv_idempotency st')"
          "idempotency_lookup rid (rq_target rq) (rq_body rq) (hv_idempotency st') = LookupReplay res"
        using remember_retries [of "st\<lparr>hv_control := c\<rparr>"] ok LookupMiss by fastforce+
      then show ?thesis using rid by (simp add: route_service_mutation_def)
    qed
  qed (use run ok rid in \<open>auto simp: route_service_mutation_def\<close>)
qed

lemma mutation_retries:
  assumes "id_ok (hv_idempotency st)" and "sv_mutation sv (rq_body rq) = Some mutation"
    and "mt_request_id mutation = Some rid" and "prefix ''/v1/services/'' (rq_target rq)"
  shows "retries (route_mutation_with_service_actor sv c rq a) st"
proof -
  have "rq_target rq \<noteq> ''/v1/cooperative-actions/chrome-extension/reload-self''"
      "rq_target rq \<noteq> ''/v1/supervisor/shutdown''"
    using assms(4) by (auto simp: prefix_def)
  note plain = this
  have answer: "retries (\<lambda>st. (Ok r, st)) st" for r
    using assms(1) by (simp add: retries_def)
  have service: "retries (route_service_mutation sv rq mutation r a) st" for r
    by (rule service_mutation_retries [OF assms(1,3)])
  show ?thesis
  proof (cases "bearer_candidate rq")
    case None
    then show ?thesis unfolding route_mutation_with_service_actor_def by (simp add: answer)
  next
    case (Some candidate)
    then show ?thesis
      unfolding route_mutation_with_service_actor_def
      by (cases "reason_new (mt_reason mutation)"; cases "bearer_matches (sv_token sv) candidate"; cases "valid_request_id rid")
        (simp_all add: assms(2,3) plain answer service)
  qed
qed

lemma services_target_plain:
  assumes "prefix ''/v1/services/'' target"
  shows "dashboard_asset sv target = None" and "\<not> prefix ''/dashboard/'' target" and "target \<noteq> mcp_endpoint"
  using assms by (auto simp: prefix_def dashboard_asset_def mcp_endpoint_def)

lemma post_routes_mutation:
  assumes "rq_method rq = ''POST''" and "prefix ''/v1/services/'' (rq_target rq)"
  shows "route sv rq = route_mutation sv rq"
  using assms(1) by (simp add: fun_eq_iff route_def Let_def services_target_plain [OF assms(2)])

lemma post_handled:
  assumes "rq_method rq = ''POST''" and "prefix ''/v1/services/'' (rq_target rq)"
  shows "handle_request sv peer local_address rq st =
    (if hv_stop st then (Ok (Respond (error_response sv 503 ''shutdown_in_progress''
        ''AkuSupervisor is draining; retry after a new instance is ready'')), st)
     else with_idempotency_lock (route_mutation sv rq) st)"
  using assms by (simp add: handle_request_def services_target_plain [OF assms(2)] post_routes_mutation [OF assms])

lemma locked_retries:
  assumes "retries m st" and "\<And>out st'. m st = (out, st') \<Longrightarrow> only_services st st'"
    and "with_idempotency_lock m st = (Ok h, st')"
  shows "with_idempotency_lock m st' = (Ok h, st') \<and> id_ok (hv_idempotency st') \<and> hv_stop st' = hv_stop st"
proof -
  obtain r st1 where m: "m st = (r, st1)" by (metis prod.exhaust)
  have "only_services st st1" using assms(2) m by blast
  then have "hv_poisoned st1 = hv_poisoned st" "hv_stop st1 = hv_stop st"
    by (cases st; cases st1; simp add: only_services_def)+
  then show ?thesis
    using assms(1,3) m
    by (auto simp: with_idempotency_lock_def poison_on_panic_def retries_def split: if_splits outcome.splits)
qed

lemma post_only_services:
  assumes "prefix ''/v1/services/'' (rq_target rq)"
    and "route_mutation_with_service_actor sv c rq a st = (out, st')"
  shows "only_services st st'"
proof -
  have "rq_target rq \<noteq> ''/v1/cooperative-actions/chrome-extension/reload-self''"
      "rq_target rq \<noteq> ''/v1/supervisor/shutdown''"
    using assms(1) by (auto simp: prefix_def)
  then show ?thesis
    using assms(2)
    by (auto simp: route_mutation_with_service_actor_def service_mutation_only_services
        split: option.splits sum.splits if_splits)
qed

lemma mutation_retried:
  assumes "id_ok (hv_idempotency st)" and "rq_method rq = ''POST''" and "prefix ''/v1/services/'' (rq_target rq)"
    and "sv_mutation sv (rq_body rq) = Some mutation" and "mt_request_id mutation = Some rid"
    and "handle_request sv peer local_address rq st = (Ok h, st')"
  shows "handle_request sv peer' local_address' rq st' = (Ok h, st') \<and> id_ok (hv_idempotency st')"
proof (cases "hv_stop st")
  case True
  then show ?thesis using assms by (auto simp: post_handled)
next
  case False
  have run: "with_idempotency_lock (route_mutation sv rq) st = (Ok h, st')"
    using assms(6) False by (simp add: post_handled [OF assms(2,3)])
  have retry: "retries (route_mutation sv rq) st"
    unfolding route_mutation_def by (rule mutation_retries [OF assms(1,4,5,3)])
  have "only_services st st1" if "route_mutation sv rq st = (out, st1)" for out st1
    using that unfolding route_mutation_def by (rule post_only_services [OF assms(3)])
  then show ?thesis
    using locked_retries [OF retry _ run] False by (simp add: post_handled [OF assms(2,3)])
qed

text \<open>C6: A client that sends the same mutation with its request identifier once more, because it did not
  get the answer, gets the same answer, and the second delivery changes nothing: no service is started
  or stopped twice.\<close>

theorem mutation_retry_is_harmless:
  assumes "id_ok (hv_idempotency st)" and "rq_method rq = ''POST''" and "prefix ''/v1/services/'' (rq_target rq)"
    and "sv_mutation sv (rq_body rq) = Some mutation" and "mt_request_id mutation = Some rid"
    and "handle_request sv peer local_address rq st = (Ok h, st')"
  shows "handle_request sv peer' local_address' rq st' = (Ok h, st') \<and> id_ok (hv_idempotency st')"
  using mutation_retried [OF assms] .

section \<open>An example server\<close>

text \<open>The stack of the running process around the demonstration services; an address is its text.\<close>

definition example_control :: "((u32, demo_os) registry_state \<times> unit audit_state) control" where
  "example_control = host_control (me_audit example_monitor) (\<lambda>_. ''e'') (\<lambda>_. ''n'') (demo []) False"

definition example_query :: "((u32, demo_os) registry_state \<times> unit audit_state, unit, unit) query_env" where
  "example_query = \<lparr>qe_control = example_control, qe_journal_host = demo_host,
     qe_journal = (\<lambda>s. as_journal (snd s)), qe_journal_fault = (\<lambda>_. None),
     qe_log_files = (\<lambda>_ _ _. \<lparr>lf_meta = MetaMissing, lf_read = Inr [], lf_modified = None\<rparr>),
     qe_log_path = (\<lambda>_ _. ''log''), qe_show_io = (\<lambda>_. ''io''), qe_version = ''1'', qe_text = (\<lambda>_. ''{}''),
     qe_value = (\<lambda>_. None), qe_snapshot = (\<lambda>_. JNull), qe_record = (\<lambda>_. JNull), qe_tail = (\<lambda>_. JNull)\<rparr>"

definition example_server ::
  "((u32, demo_os) registry_state \<times> unit audit_state, unit, unit, string) server_env" where
  "example_server = \<lparr>sv_query = example_query, sv_token = ''key'', sv_digest = (\<lambda>s. ''scoped''),
     sv_mcp = \<lparr>mcp_enabled = True, mcp_allowed_origins = []\<rparr>, sv_instance = JNull, sv_instance_id = ''i'',
     sv_mutation = (\<lambda>_. Some \<lparr>mt_actor = ApiUser, mt_reason = ''go'', mt_request_id = Some ''r1''\<rparr>),
     sv_dashboard_mutation = (\<lambda>_. Some ''r2''), sv_registry = (\<lambda>_. JNull), sv_operation = (\<lambda>_. JNull),
     sv_outcome = (\<lambda>_. JNull), sv_stop_report = (\<lambda>_. JNull), sv_live_event = (\<lambda>_. ''{}''),
     sv_include = id, sv_peer_loopback = (\<lambda>a. a = ''127.0.0.1''), sv_port = (\<lambda>_. 80), sv_show_address = id,
     sv_loopback_ip = (\<lambda>a. a = ''127.0.0.1''), sv_coop_target = None, sv_coop_spawn = None,
     sv_coop_worker = (\<lambda>_ st. st), sv_clone_stream = None, sv_live_spawn = None, sv_now = id\<rparr>"

definition example_server_state :: "((u32, demo_os) registry_state \<times> unit audit_state) server_state" where
  "example_server_state = \<lparr>hv_control = ((demo_services, demo_world),
       \<lparr>as_journal = demo_journal [], as_fingerprint = ''f'', as_console = []\<rparr>),
     hv_coop = operation_state_new, hv_logs = \<lparr>lst_services = [], lst_live = live_hub_new ''hub''\<rparr>,
     hv_status = reconciliation_new 0 ''f'', hv_shutdown = None, hv_idempotency = idempotency_new,
     hv_poisoned = False, hv_stop = False\<rparr>"

definition example_post :: "string option \<Rightarrow> http_request" where
  "example_post authorization = \<lparr>rq_method = ''POST'', rq_target = ''/v1/services/mail/stop'', rq_host = None,
     rq_authorization = authorization, rq_accept = None, rq_content_type = None, rq_origin = None,
     rq_dashboard_request = None, rq_dashboard_token = None, rq_mcp_protocol_version = None, rq_body = ''{}''\<rparr>"

lemma example_stack: "stack_of (registrations demo_services) ''f'' (hv_control example_server_state)"
  using demo_services_ok by (simp add: stack_of_def example_server_state_def)

theorem mutation_retry_is_harmless_witness:
  "\<exists>h st'. handle_request example_server ''127.0.0.1'' (Inr ''127.0.0.1'') (example_post (Some ''Bearer key''))
      example_server_state = (Ok h, st')
    \<and> handle_request example_server ''127.0.0.1'' (Inr ''127.0.0.1'') (example_post (Some ''Bearer key'')) st' = (Ok h, st')
    \<and> bt_get (id_entries (hv_idempotency st')) ''r1'' \<noteq> None"
proof -
  let ?run = "handle_request example_server ''127.0.0.1'' (Inr ''127.0.0.1'') (example_post (Some ''Bearer key'')) example_server_state"
  have "case ?run of (Ok h, st') \<Rightarrow> bt_get (id_entries (hv_idempotency st')) ''r1'' \<noteq> None | _ \<Rightarrow> False"
    by code_simp
  then obtain h st' where run: "?run = (Ok h, st')" "bt_get (id_entries (hv_idempotency st')) ''r1'' \<noteq> None"
    by (auto split: prod.splits outcome.splits)
  have "id_ok (hv_idempotency example_server_state)" by (simp add: example_server_state_def id_ok_new)
  from mutation_retry_is_harmless [OF this _ _ _ _ run(1)] run show ?thesis
    by (auto simp: example_post_def example_server_def)
qed

section \<open>Authority\<close>

interpretation served: supervisor_control "host_control config se sn bk enabled" "stack_of R fingerprint" "fst \<circ> fst"
  for se sn bk R config fingerprint enabled
  unfolding host_control_def by (rule full.dep.supervisor_control_axioms)

text \<open>C3: Of all requests a client can send, only a \<open>POST\<close> with the token, to another endpoint than MCP, and
  a dashboard request from this host with the derived token and its own origin can change a service, a
  cooperative operation, the shutdown request or the recorded answers; any other request leaves them
  all, and without the token it does not even subscribe to a log.\<close>

theorem only_authority_changes_services:
  assumes "stack_of R fingerprint (hv_control st)"
    and "qe_control (sv_query sv) = host_control cfg se sn bk enabled"
    and "handle_request sv peer local_address rq st = (out, st')" and "out \<noteq> Panic"
    and "\<not> authorized_mutation sv peer local_address rq"
  shows "fst (fst (hv_control st')) = fst (fst (hv_control st))
    \<and> st' = st\<lparr>hv_control := hv_control st', hv_logs := hv_logs st'\<rparr>
    \<and> (request_is_authorized rq (sv_token sv) \<or> hv_logs st' = hv_logs st)"
  using served.unauthorized_changes_nothing [OF assms(2,1,3,4,5)] by (auto simp: same_but_logs_def)

theorem only_authority_changes_services_witness:
  "\<exists>out st'. handle_request example_server ''10.0.0.7'' (Inr ''127.0.0.1'') (example_post (Some ''Bearer guess''))
      example_server_state = (out, st') \<and> fst (fst (hv_control st')) = demo_services \<and> hv_shutdown st' = None"
proof -
  let ?rq = "example_post (Some ''Bearer guess'')"
  obtain out st' where run: "handle_request example_server ''10.0.0.7'' (Inr ''127.0.0.1'') ?rq example_server_state = (out, st')"
    by (metis prod.exhaust)
  have denied: "\<not> bearer_matches ''key'' ''guess''" by code_simp
  have "out \<noteq> Panic"
  proof -
    have "handle_request example_server ''10.0.0.7'' (Inr ''127.0.0.1'') ?rq example_server_state
        = (Ok (Respond (error_response example_server 401 ''unauthorized'' ''invalid bearer token'')), example_server_state)"
      by code_simp
    then show ?thesis using run by auto
  qed
  moreover have "\<not> authorized_mutation example_server ''10.0.0.7'' (Inr ''127.0.0.1'') ?rq"
    using denied by (simp add: authorized_mutation_def dashboard_granted_def request_is_authorized_def
        bearer_candidate_def strip_prefix_def example_server_def example_post_def)
  moreover have "qe_control (sv_query example_server)
      = host_control (me_audit example_monitor) (\<lambda>_. ''e'') (\<lambda>_. ''n'') (demo []) False"
    by (simp add: example_server_def example_query_def example_control_def)
  ultimately have "fst (fst (hv_control st')) = fst (fst (hv_control example_server_state))"
      "st' = example_server_state\<lparr>hv_control := hv_control st', hv_logs := hv_logs st'\<rparr>"
    using only_authority_changes_services [OF example_stack _ run] by blast+
  note same = this
  have "hv_shutdown st' = hv_shutdown example_server_state"
    using arg_cong [OF same(2), of hv_shutdown] by simp
  then have "hv_shutdown st' = None" by (simp add: example_server_state_def)
  moreover have "fst (fst (hv_control st')) = demo_services" using same(1) by (simp add: example_server_state_def)
  ultimately show ?thesis using run by blast
qed

text \<open>C19: The dashboard reaches only the services: whatever a browser sends, the cooperative operations,
  the shutdown request, the log subscriptions and the registry report stay, and without the derived
  token nothing at all changes.\<close>

theorem dashboard_is_confined:
  "case route_dashboard_control sv peer address rq st of (out, st') \<Rightarrow>
     st' = st\<lparr>hv_control := hv_control st', hv_idempotency := hv_idempotency st'\<rparr>
     \<and> (dashboard_granted sv peer address rq \<or> st' = st)"
proof -
  obtain out st' where run: "route_dashboard_control sv peer address rq st = (out, st')" by (metis prod.exhaust)
  have "st' = st" if "\<not> dashboard_granted sv peer address rq"
    using dashboard_refused [OF that, of st] run by (auto simp: route_dashboard_control_def map_op_def)
  then show ?thesis using dashboard_only_services [OF run] by (auto simp: run only_services_def)
qed

section \<open>Connections\<close>

definition connections_ok :: "connection_count \<Rightarrow> bool" where
  "connections_ok c \<longleftrightarrow> finite (cn_workers c) \<and> cn_active c = card (cn_workers c) \<and> cn_active c \<le> max_control_connections"

lemma connection_reach_ok: "connection_reach c \<Longrightarrow> connections_ok c"
proof (induction rule: connection_reach.induct)
  case start
  then show ?case by (simp add: connections_ok_def)
next
  case (step c c')
  from step.hyps(2) step.IH show ?case
    by (cases rule: connection_step.cases)
       (auto simp: connections_ok_def admit_connection_def split: if_splits)
qed

text \<open>C22: The counter of the server is the number of its workers and never exceeds 64, and a connection
  is refused exactly when 64 workers are running.\<close>

theorem connections_bounded:
  assumes "connection_reach c"
  shows "cn_active c = card (cn_workers c) \<and> card (cn_workers c) \<le> 64
    \<and> (admit_connection (cn_active c) = None \<longleftrightarrow> card (cn_workers c) = 64)
    \<and> (cn_active c = 0 \<longleftrightarrow> cn_workers c = {})"
  using connection_reach_ok [OF assms]
  by (auto simp: connections_ok_def admit_connection_def max_control_connections_def)

theorem connections_bounded_witness:
  "\<exists>c. connection_reach c \<and> cn_workers c = {7} \<and> cn_active c = 1"
proof -
  let ?c = "\<lparr>cn_active = 1, cn_workers = {7}, cn_refused = 0\<rparr>"
  have "connection_step \<lparr>cn_active = 0, cn_workers = {}, cn_refused = 0\<rparr> ?c"
    using connection_step.admit [of "\<lparr>cn_active = 0, cn_workers = {}, cn_refused = 0\<rparr>" 1 7]
    by (simp add: admit_connection_def max_control_connections_def)
  then have "connection_reach ?c" by (rule connection_reach.step [OF connection_reach.start])
  from connections_bounded [OF this] this show ?thesis by (intro exI [of _ ?c]) simp
qed

end
