(* ===== verification/Control_Client.thy ===== *)
theory Control_Client
  imports Http_Request Json_Values Live_Logs Mcp
begin

text \<open>
  \<open>src/src/adapters/control_http/client.rs\<close>: the clients of the control server that the command line, the
  registration and the MCP proxy use, and \<open>src/src/adapters/mcp_proxy.rs\<close>. The socket layer and the
  JSON library are the record \<open>client_host\<close>; setting a timeout or shutting down a half may fail
  without consequence and is part of the operation it precedes.
\<close>

section \<open>Host and errors\<close>

datatype control_client_error =
  CcConnect string | CcWrite string | CcRead string | CcSerialize string | CcDeserialize string
| CcMessageTooLarge | CcMalformedResponse | CcDeadlineExceeded | CcRejected u16 json

fun is_transient :: "control_client_error \<Rightarrow> bool" where
  "is_transient (CcSerialize _) = False"
| "is_transient CcMessageTooLarge = False"
| "is_transient (CcRejected _ _) = False"
| "is_transient _ = True"

fun show_client_error :: "(json \<Rightarrow> string) \<Rightarrow> control_client_error \<Rightarrow> string" where
  "show_client_error show_json (CcConnect e) = ''cannot connect to AkuSupervisor: '' @ e"
| "show_client_error show_json (CcWrite e) = ''failed to send control request: '' @ e"
| "show_client_error show_json (CcRead e) = ''failed to read control response: '' @ e"
| "show_client_error show_json (CcSerialize e) = ''failed to serialize request: '' @ e"
| "show_client_error show_json (CcDeserialize e) = ''invalid JSON response: '' @ e"
| "show_client_error show_json CcMessageTooLarge = ''MCP message exceeds bounded body size''"
| "show_client_error show_json CcMalformedResponse = ''malformed HTTP response''"
| "show_client_error show_json CcDeadlineExceeded = ''control request exceeded its total deadline''"
| "show_client_error show_json (CcRejected status body) =
     ''control request rejected with HTTP '' @ decimal (unat status) @ '': '' @ show_json body"

text \<open>
  \<open>ck_read_to_end n t\<close> reads at most \<open>n\<close> bytes, each read within the timeout; \<open>ck_read_line\<close> reads up to and
  with the next newline. The timeout of a write or a read is an argument of the operation.
\<close>

record ('w, 'a, 'c) client_host =
  ck_connect :: "'a \<Rightarrow> nat \<Rightarrow> 'w \<Rightarrow> (string + 'c) \<times> 'w"
  ck_write :: "'c \<Rightarrow> nat \<Rightarrow> string \<Rightarrow> 'w \<Rightarrow> string option \<times> 'w"
  ck_shutdown_write :: "'c \<Rightarrow> 'w \<Rightarrow> 'w"
  ck_read_to_end :: "'c \<Rightarrow> nat \<Rightarrow> nat \<Rightarrow> 'w \<Rightarrow> (string + string) \<times> 'w"
  ck_read_line :: "'c \<Rightarrow> nat option \<Rightarrow> 'w \<Rightarrow> (string + string) \<times> 'w"
  ck_now :: "'w \<Rightarrow> nat \<times> 'w"
  ck_show_address :: "'a \<Rightarrow> string"
  ck_encode :: "json \<Rightarrow> string + string"
  ck_decode :: "string \<Rightarrow> string + json"
  ck_decode_event :: "string \<Rightarrow> string + live_event"

section \<open>Responses\<close>

definition client_response_bytes :: nat where
  "client_response_bytes = 1024 * 1024"

definition response_parts :: "string \<Rightarrow> control_client_error + u16 \<times> string" where
  "response_parts bytes = (case find_bytes bytes (crlf @ crlf) of
      None \<Rightarrow> Inl CcMalformedResponse
    | Some position \<Rightarrow>
        (let headers = take (position + 4) bytes in
         if \<not> utf8_valid headers then Inl CcMalformedResponse
         else (case (case file_lines [] headers of [] \<Rightarrow> None | line # _ \<Rightarrow> status_of_line line) of
             None \<Rightarrow> Inl CcMalformedResponse
           | Some status \<Rightarrow> Inr (status, drop (position + 4) bytes))))"

definition decode_json_response ::
  "('w, 'a, 'c) client_host \<Rightarrow> u16 \<Rightarrow> string \<Rightarrow> control_client_error + json" where
  "decode_json_response k status body = (case ck_decode k body of
      Inl e \<Rightarrow> Inl (CcDeserialize e)
    | Inr v \<Rightarrow> if 200 \<le> status \<and> status < 300 then Inr v else Inl (CcRejected status v))"

definition parse_json_client_response :: "('w, 'a, 'c) client_host \<Rightarrow> string \<Rightarrow> control_client_error + json" where
  "parse_json_client_response k bytes = (case response_parts bytes of
      Inl e \<Rightarrow> Inl e | Inr (status, body) \<Rightarrow> decode_json_response k status body)"

section \<open>Requests\<close>

definition encode_body :: "('w, 'a, 'c) client_host \<Rightarrow> json option \<Rightarrow> control_client_error + string" where
  "encode_body k body = (case body of
      None \<Rightarrow> Inr '''' | Some v \<Rightarrow> (case ck_encode k v of Inl e \<Rightarrow> Inl (CcSerialize e) | Inr text' \<Rightarrow> Inr text'))"

definition client_head :: "string \<Rightarrow> string \<Rightarrow> string \<Rightarrow> string \<Rightarrow> nat \<Rightarrow> string" where
  "client_head request_method target address token content_length =
     request_method @ '' '' @ target @ '' HTTP/1.1'' @ crlf @ ''Host: '' @ address @ crlf
     @ ''Authorization: Bearer '' @ token @ crlf @ ''Content-Type: application/json'' @ crlf
     @ ''Content-Length: '' @ decimal content_length @ crlf @ ''Connection: close'' @ crlf @ crlf"

text \<open>Sending a text and reading the answer on a connection.\<close>

definition exchange ::
  "('w, 'a, 'c) client_host \<Rightarrow> 'c \<Rightarrow> nat \<Rightarrow> nat \<Rightarrow> string \<Rightarrow> ('w, string, control_client_error) op" where
  "exchange k c write_timeout read_timeout text' w = (case ck_write k c write_timeout text' w of
      (Some e, w1) \<Rightarrow> (Err (CcWrite e), w1)
    | (None, w1) \<Rightarrow>
        (case ck_read_to_end k c client_response_bytes read_timeout (ck_shutdown_write k c w1) of
           (Inl e, w2) \<Rightarrow> (Err (CcRead e), w2) | (Inr bytes, w2) \<Rightarrow> (Ok bytes, w2)))"

definition client_connect ::
  "('w, 'a, 'c) client_host \<Rightarrow> 'a \<Rightarrow> nat \<Rightarrow> ('w, 'c, control_client_error) op" where
  "client_connect k address timeout w = (case ck_connect k address timeout w of
      (Inl e, w1) \<Rightarrow> (Err (CcConnect e), w1) | (Inr c, w1) \<Rightarrow> (Ok c, w1))"

definition client_request_with_response_timeout ::
  "('w, 'a, 'c) client_host \<Rightarrow> 'a \<Rightarrow> string \<Rightarrow> string \<Rightarrow> string \<Rightarrow> json option \<Rightarrow> nat \<Rightarrow>
     ('w, json, control_client_error) op" where
  "client_request_with_response_timeout k address token request_method target body response_timeout =
     bind_op (lift_sum (encode_body k body)) (\<lambda>body'.
     bind_op (client_connect k address io_timeout) (\<lambda>c.
     bind_op (exchange k c io_timeout response_timeout
         (client_head request_method target (ck_show_address k address) token (length body') @ body'))
       (\<lambda>bytes. lift_sum (parse_json_client_response k bytes))))"

definition client_request ::
  "('w, 'a, 'c) client_host \<Rightarrow> 'a \<Rightarrow> string \<Rightarrow> string \<Rightarrow> string \<Rightarrow> json option \<Rightarrow> ('w, json, control_client_error) op" where
  "client_request k address token request_method target body =
     client_request_with_response_timeout k address token request_method target body io_timeout"

definition remaining_budget :: "('w, 'a, 'c) client_host \<Rightarrow> nat \<Rightarrow> ('w, nat, control_client_error) op" where
  "remaining_budget k deadline w = (case ck_now k w of
      (now, w1) \<Rightarrow> if deadline \<le> now then (Err CcDeadlineExceeded, w1) else (Ok (deadline - now), w1))"

definition client_request_until ::
  "('w, 'a, 'c) client_host \<Rightarrow> 'a \<Rightarrow> string \<Rightarrow> string \<Rightarrow> string \<Rightarrow> json option \<Rightarrow> nat \<Rightarrow>
     ('w, json, control_client_error) op" where
  "client_request_until k address token request_method target body deadline =
     bind_op (lift_sum (encode_body k body)) (\<lambda>body'.
     bind_op (remaining_budget k deadline) (\<lambda>connect_budget.
     bind_op (client_connect k address (min connect_budget io_timeout)) (\<lambda>c.
     bind_op (remaining_budget k deadline) (\<lambda>write_budget.
     bind_op (\<lambda>w. case ck_write k c write_budget
           (client_head request_method target (ck_show_address k address) token (length body') @ body') w of
         (Some e, w1) \<Rightarrow> (Err (CcWrite e), w1) | (None, w1) \<Rightarrow> (Ok (), ck_shutdown_write k c w1)) (\<lambda>_.
     bind_op (remaining_budget k deadline) (\<lambda>read_budget.
     bind_op (\<lambda>w. case ck_read_to_end k c client_response_bytes read_budget w of
         (Inl e, w1) \<Rightarrow> (Err (CcRead e), w1) | (Inr bytes, w1) \<Rightarrow> (Ok bytes, w1)) (\<lambda>bytes.
     bind_op (remaining_budget k deadline) (\<lambda>_.
       lift_sum (parse_json_client_response k bytes)))))))))"

definition mcp_head :: "string \<Rightarrow> string \<Rightarrow> nat \<Rightarrow> string" where
  "mcp_head address token content_length =
     ''POST '' @ mcp_endpoint @ '' HTTP/1.1'' @ crlf @ ''Host: '' @ address @ crlf
     @ ''Authorization: Bearer '' @ token @ crlf @ ''Accept: application/json, text/event-stream'' @ crlf
     @ ''Content-Type: application/json'' @ crlf @ ''MCP-Protocol-Version: '' @ mcp_protocol_version @ crlf
     @ ''Content-Length: '' @ decimal content_length @ crlf @ ''Connection: close'' @ crlf @ crlf"

definition mcp_client_request ::
  "('w, 'a, 'c) client_host \<Rightarrow> 'a \<Rightarrow> string \<Rightarrow> json \<Rightarrow> ('w, json option, control_client_error) op" where
  "mcp_client_request k address token message =
     bind_op (lift_sum (encode_body k (Some message))) (\<lambda>body.
       if max_body_bytes < length body then fail_op CcMessageTooLarge
       else bind_op (client_connect k address io_timeout) (\<lambda>c.
         bind_op (exchange k c io_timeout io_timeout
             (mcp_head (ck_show_address k address) token (length body) @ body))
           (\<lambda>bytes. lift_sum (case response_parts bytes of
               Inl e \<Rightarrow> Inl e
             | Inr (status, answer) \<Rightarrow>
                 if status = 202 \<and> answer = [] then Inr None
                 else map_sum id Some (decode_json_response k status answer)))))"

section \<open>Live logs\<close>

definition live_head :: "string \<Rightarrow> string \<Rightarrow> string \<Rightarrow> string" where
  "live_head target address token =
     ''GET '' @ target @ '' HTTP/1.1'' @ crlf @ ''Host: '' @ address @ crlf @ ''Authorization: Bearer '' @ token @ crlf
     @ ''Accept: application/x-ndjson'' @ crlf @ ''Connection: close'' @ crlf @ crlf"

definition read_line_op ::
  "('w, 'a, 'c) client_host \<Rightarrow> 'c \<Rightarrow> nat option \<Rightarrow> ('w, string, control_client_error) op" where
  "read_line_op k c timeout w = (case ck_read_line k c timeout w of
      (Inl e, w1) \<Rightarrow> (Err (CcRead e), w1) | (Inr line, w1) \<Rightarrow> (Ok line, w1))"

text \<open>Skipping the headers has no bound in the code; \<open>None\<close> is a loop that did not end.\<close>

partial_function (option) skip_headers ::
  "('w, 'a, 'c) client_host \<Rightarrow> 'c \<Rightarrow> 'w \<Rightarrow> ((unit, control_client_error) outcome \<times> 'w) option" where
  "skip_headers k c w = (case read_line_op k c (Some io_timeout) w of
      (Ok line, w1) \<Rightarrow>
        if line = [] then Some (Err CcMalformedResponse, w1)
        else if line = crlf then Some (Ok (), w1) else skip_headers k c w1
    | (Err e, w1) \<Rightarrow> Some (Err e, w1)
    | (Panic, w1) \<Rightarrow> Some (Panic, w1))"

declare skip_headers.simps [code]

definition rejected_body :: "('w, 'a, 'c) client_host \<Rightarrow> string \<Rightarrow> json" where
  "rejected_body k body = (case ck_decode k body of Inr v \<Rightarrow> v | Inl _ \<Rightarrow> JString body)"

text \<open>Reading the rest as text fails when it is not UTF-8; the operation's own failures come first.\<close>

definition client_live_logs ::
  "('w, 'a, 'c) client_host \<Rightarrow> 'a \<Rightarrow> string \<Rightarrow> string \<Rightarrow> 'w \<Rightarrow> (('c, control_client_error) outcome \<times> 'w) option" where
  "client_live_logs k address token target w =
     (case bind_op (client_connect k address io_timeout) (\<lambda>c w1.
          case ck_write k c io_timeout (live_head target (ck_show_address k address) token) w1 of
            (Some e, w2) \<Rightarrow> (Err (CcWrite e), w2)
          | (None, w2) \<Rightarrow> bind_op (read_line_op k c (Some io_timeout)) (\<lambda>line.
              lift_sum (case status_of_line line of None \<Rightarrow> Inl CcMalformedResponse | Some status \<Rightarrow> Inr (c, status))) w2) w of
        (Err e, w1) \<Rightarrow> Some (Err e, w1)
      | (Panic, w1) \<Rightarrow> Some (Panic, w1)
      | (Ok (c, status), w1) \<Rightarrow>
          (case skip_headers k c w1 of
             None \<Rightarrow> None
           | Some (Err e, w2) \<Rightarrow> Some (Err e, w2)
           | Some (Panic, w2) \<Rightarrow> Some (Panic, w2)
           | Some (Ok _, w2) \<Rightarrow>
               if status = 200 then Some (Ok c, w2)
               else (case ck_read_to_end k c client_response_bytes io_timeout w2 of
                   (Inl e, w3) \<Rightarrow> Some (Err (CcRead e), w3)
                 | (Inr body, w3) \<Rightarrow>
                     if utf8_valid body then Some (Err (CcRejected status (rejected_body k body)), w3)
                     else Some (Err (CcRead ''stream did not contain valid UTF-8''), w3))))"

definition next_event ::
  "('w, 'a, 'c) client_host \<Rightarrow> 'c \<Rightarrow> ('w, live_event option, control_client_error) op" where
  "next_event k c = bind_op (read_line_op k c None) (\<lambda>line.
     lift_sum (if line = [] then Inr None
       else if client_response_bytes < length line then Inl CcMessageTooLarge
       else (case ck_decode_event k (trim_end line) of Inl e \<Rightarrow> Inl (CcDeserialize e) | Inr e \<Rightarrow> Inr (Some e))))"

section \<open>The MCP proxy\<close>

record mcp_proxy_profile =
  mp_host :: string
  mp_port :: u16
  mp_token_file :: string
  mp_enabled :: bool

datatype proxy_error =
  PxConfigPath string | PxReadConfig string string | PxConfig string | PxDisabled | PxToken string
| PxAddress string | PxReadStdin string | PxWriteStdout string | PxSerialize string
| PxTransport control_client_error

fun show_proxy_error :: "(json \<Rightarrow> string) \<Rightarrow> proxy_error \<Rightarrow> string" where
  "show_proxy_error show_json (PxConfigPath e) = e"
| "show_proxy_error show_json (PxReadConfig path source) = ''failed to read '' @ path @ '': '' @ source"
| "show_proxy_error show_json (PxConfig e) = ''MCP proxy configuration is invalid: '' @ e"
| "show_proxy_error show_json PxDisabled = ''read-only MCP is disabled in configuration''"
| "show_proxy_error show_json (PxToken e) = e"
| "show_proxy_error show_json (PxAddress e) = ''invalid control address: '' @ e"
| "show_proxy_error show_json (PxReadStdin e) = ''failed to read MCP stdin: '' @ e"
| "show_proxy_error show_json (PxWriteStdout e) = ''failed to write MCP stdout: '' @ e"
| "show_proxy_error show_json (PxSerialize e) = ''failed to serialize MCP response: '' @ e"
| "show_proxy_error show_json (PxTransport e) = ''MCP loopback transport failed: '' @ show_client_error show_json e"

text \<open>The derived decoder of the profile is the parameter \<open>decoded\<close>.\<close>

definition parse_proxy_profile ::
  "(string \<Rightarrow> bool) \<Rightarrow> string + mcp_proxy_profile \<Rightarrow> string + mcp_proxy_profile" where
  "parse_proxy_profile is_token_path decoded = (case decoded of
      Inl e \<Rightarrow> Inl (''invalid JSON: '' @ e)
    | Inr profile \<Rightarrow>
        if mp_host profile \<noteq> ''127.0.0.1'' then Inl ''control.host must be exactly 127.0.0.1''
        else if mp_port profile = 0 then Inl ''control.port must be non-zero''
        else if \<not> is_token_path (mp_token_file profile)
        then Inl ''control.tokenFile must be a relative path beneath .runtime''
        else Inr profile)"

definition max_stdio_message_bytes :: nat where
  "max_stdio_message_bytes = 4 * 1024"

definition trim_line_end :: "string \<Rightarrow> string" where
  "trim_line_end line = rev (dropWhile (\<lambda>c. c \<in> {CHR 0x0D, CHR 0x0A}) (rev line))"

definition proxy_error_reply :: "int \<Rightarrow> string \<Rightarrow> json" where
  "proxy_error_reply code message = json_object [(''jsonrpc'', JString ''2.0''), (''id'', JNull),
     (''error'', json_object [(''code'', json_int code), (''message'', JString message)])]"

text \<open>What the proxy writes for one line of its input; \<open>forward\<close> is the client's request.\<close>

definition proxy_message ::
  "(string \<Rightarrow> string + json) \<Rightarrow> (json \<Rightarrow> ('w, json option, control_client_error) op) \<Rightarrow> string \<Rightarrow>
     ('w, json option, proxy_error) op" where
  "proxy_message decode forward line =
     (let message = trim_line_end line in
      if max_stdio_message_bytes < length message
      then return_op (Some (proxy_error_reply (- 32600) ''MCP message exceeds bounded body size''))
      else (case decode message of
          Inl e \<Rightarrow> return_op (Some (proxy_error_reply (- 32700) ''Parse error''))
        | Inr v \<Rightarrow> map_err_op PxTransport (forward v)))"

text \<open>The loop over the lines of the input, ending with the input or the first failure.\<close>

fun proxy_lines ::
  "(string \<Rightarrow> string + json) \<Rightarrow> (json \<Rightarrow> ('w, json option, control_client_error) op) \<Rightarrow>
     (json \<Rightarrow> ('w, unit, proxy_error) op) \<Rightarrow> (string + string) list \<Rightarrow> ('w, unit, proxy_error) op" where
  "proxy_lines decode forward write_line [] = return_op ()"
| "proxy_lines decode forward write_line (Inl e # rest) = fail_op (PxReadStdin e)"
| "proxy_lines decode forward write_line (Inr line # rest) =
     bind_op (proxy_message decode forward line) (\<lambda>reply.
     seq_op (case reply of None \<Rightarrow> return_op () | Some v \<Rightarrow> write_line v)
       (proxy_lines decode forward write_line rest))"

end
