(* ===== verification/Registration_Mcp.thy ===== *)
theory Registration_Mcp
  imports Registration_Protocol Mcp Control_Client
begin

text \<open>
  \<open>src/src/adapters/registration_mcp.rs\<close> and \<open>mcp_contract.rs\<close>: the MCP server through which an agent
  prepares and commits registrations, and the contract of both MCP servers. Every call opens the
  registration anew. The store is the one of \<open>Registration\<close>; what the server writes is written by the
  operating system of that store. \<open>rm_service\<close> and the encoders are the derived code of \<open>serde\<close>.
\<close>

section \<open>The schema of a service\<close>

definition schema_health :: json where
  "schema_health = json_object [
    (''oneOf'', JArray [
      json_object [
        (''type'', JString ''object''),
        (''additionalProperties'', JBool False),
        (''required'', json_strings [''type'']),
        (''properties'', json_object [(''type'', json_object [(''const'', JString ''process'')])])],
      json_object [
        (''type'', JString ''object''),
        (''additionalProperties'', JBool False),
        (''required'', json_strings [''type'', ''host'', ''port'', ''timeoutMs'', ''startupDeadlineMs'']),
        (''properties'', json_object [
          (''type'', json_object [(''const'', JString ''tcp-connect'')]),
          (''host'', json_object [
            (''type'', JString ''string''),
            (''description'', JString ''Explicit loopback IP.'')]),
          (''port'', json_object [
            (''type'', JString ''integer''),
            (''minimum'', json_int 1),
            (''maximum'', json_int 65535)]),
          (''timeoutMs'', json_object [(''type'', JString ''integer''), (''minimum'', json_int 1)]),
          (''startupDeadlineMs'', json_object [(''type'', JString ''integer''), (''minimum'', json_int 1)])])],
      json_object [
        (''type'', JString ''object''),
        (''additionalProperties'', JBool False),
        (''required'', json_strings [''type'', ''url'', ''expectedStatus'', ''timeoutMs'', ''startupDeadlineMs'']),
        (''properties'', json_object [
          (''type'', json_object [(''const'', JString ''http-status'')]),
          (''url'', json_object [
            (''type'', JString ''string''),
            (''description'', JString ''Loopback http:// URL.'')]),
          (''expectedStatus'', json_object [
            (''type'', JString ''integer''),
            (''minimum'', json_int 100),
            (''maximum'', json_int 599)]),
          (''timeoutMs'', json_object [(''type'', JString ''integer''), (''minimum'', json_int 1)]),
          (''startupDeadlineMs'', json_object [(''type'', JString ''integer''), (''minimum'', json_int 1)])])],
      json_object [
        (''type'', JString ''object''),
        (''additionalProperties'', JBool False),
        (''required'', json_strings [''type'', ''url'', ''timeoutMs'', ''startupDeadlineMs'', ''expect'']),
        (''properties'', json_object [
          (''type'', json_object [(''const'', JString ''http-json'')]),
          (''url'', json_object [
            (''type'', JString ''string''),
            (''description'', JString ''Loopback http:// URL.'')]),
          (''timeoutMs'', json_object [(''type'', JString ''integer''), (''minimum'', json_int 1)]),
          (''startupDeadlineMs'', json_object [(''type'', JString ''integer''), (''minimum'', json_int 1)]),
          (''pathMode'', json_object [
            (''type'', JString ''string''),
            (''enum'', json_strings [''shallow'', ''json-pointer'']),
            (''default'', JString ''shallow''),
            (''description'', JString ''Omit for top-level scalar fields, or use json-pointer for RFC 6901 nested lookup.'')]),
          (''expect'', json_object [
            (''type'', JString ''object''),
            (''minProperties'', json_int 1),
            (''description'', JString ''Stable readiness entries; any mismatch fails health. Values must be scalar in shallow mode and may be any JSON value in json-pointer mode.'')]),
          (''observe'', json_object [
            (''type'', JString ''array''),
            (''uniqueItems'', JBool True),
            (''items'', json_object [(''type'', JString ''string'')]),
            (''description'', JString ''Optional JSON fields exposed as observed metadata. They never affect health.'')])])]])]"

definition schema_prerequisites :: json where
  "schema_prerequisites = json_object [
    (''type'', JString ''array''),
    (''maxItems'', json_int 8),
    (''default'', JArray []),
    (''description'', JString ''Bounded external loopback readiness checks evaluated before spawning. These checks do not start or manage the dependency.''),
    (''items'', json_object [
      (''oneOf'', JArray [
        json_object [
          (''type'', JString ''object''),
          (''additionalProperties'', JBool False),
          (''required'', json_strings [''type'', ''host'', ''port'', ''timeoutMs'', ''startupDeadlineMs'']),
          (''properties'', json_object [
            (''type'', json_object [(''const'', JString ''tcp-connect'')]),
            (''host'', json_object [
              (''type'', JString ''string''),
              (''description'', JString ''Explicit loopback IP.'')]),
            (''port'', json_object [
              (''type'', JString ''integer''),
              (''minimum'', json_int 1),
              (''maximum'', json_int 65535)]),
            (''timeoutMs'', json_object [(''type'', JString ''integer''), (''minimum'', json_int 1)]),
            (''startupDeadlineMs'', json_object [(''type'', JString ''integer''), (''minimum'', json_int 1)])])]])])]"

definition service_schema :: json where
  "service_schema = json_object [
    (''$schema'', JString ''https://json-schema.org/draft/2020-12/schema''),
    (''title'', JString ''AkuSupervisor service registration''),
    (''type'', JString ''object''),
    (''additionalProperties'', JBool False),
    (''required'', json_strings [''label'', ''cwd'', ''command'', ''health'', ''restartPolicy'', ''shutdownGraceMs'']),
    (''properties'', json_object [
      (''label'', json_object [
        (''type'', JString ''string''),
        (''minLength'', json_int 1),
        (''description'', JString ''Human-readable label.'')]),
      (''cwd'', json_object [
        (''type'', JString ''string''),
        (''description'', JString ''Absolute working-directory path. It must currently exist when this service is registered or updated; unrelated service paths are not checked during registration.'')]),
      (''command'', json_object [
        (''type'', JString ''string''),
        (''description'', JString ''Absolute executable or command-wrapper path; never a shell expression. It must currently exist when this service is registered or updated. Start preflight checks services selected by the runtime launch plan.'')]),
      (''args'', json_object [
        (''type'', JString ''array''),
        (''items'', json_object [(''type'', JString ''string'')]),
        (''default'', JArray []),
        (''description'', JString ''Fixed argv entries, kept separate from command.'')]),
      (''environment'', json_object [
        (''type'', JString ''object''),
        (''additionalProperties'', json_object [(''type'', JString ''string'')]),
        (''default'', json_object []),
        (''description'', JString ''Non-sensitive fixed overrides only. Likely secret keys are rejected.'')]),
      (''dependsOn'', json_object [
        (''type'', JString ''array''),
        (''items'', json_object [(''type'', JString ''string''), (''pattern'', JString ''^[a-z0-9-]+$'')]),
        (''uniqueItems'', JBool True),
        (''default'', JArray []),
        (''description'', JString ''Managed service IDs that AkuSupervisor starts first. References, duplicates, self-dependencies, and cycles are rejected.'')]),
      (''startupPrerequisites'', schema_prerequisites),
      (''health'', schema_health),
      (''ports'', json_object [
        (''type'', JString ''array''),
        (''items'', json_object [
          (''type'', JString ''integer''),
          (''minimum'', json_int 1),
          (''maximum'', json_int 65535)]),
        (''uniqueItems'', JBool True),
        (''default'', JArray [])]),
      (''restartPolicy'', json_object [
        (''type'', JString ''string''),
        (''enum'', json_strings [''manual'', ''on-failure''])]),
      (''shutdownGraceMs'', json_object [(''type'', JString ''integer''), (''minimum'', json_int 1)])]),
    (''examples'', JArray [
      json_object [
        (''label'', JString ''Example API''),
        (''cwd'', JString (''C:'' @ [CHR 0x5C] @ ''absolute'' @ [CHR 0x5C] @ ''project'')),
        (''command'', JString (''C:'' @ [CHR 0x5C] @ ''absolute'' @ [CHR 0x5C] @ ''runtime'' @ [CHR 0x5C] @ ''server.exe'')),
        (''args'', json_strings [''--port'', ''8090'']),
        (''environment'', json_object []),
        (''dependsOn'', JArray []),
        (''startupPrerequisites'', JArray [
          json_object [
            (''type'', JString ''tcp-connect''),
            (''host'', JString ''127.0.0.1''),
            (''port'', json_int 5432),
            (''timeoutMs'', json_int 1000),
            (''startupDeadlineMs'', json_int 30000)]]),
        (''health'', json_object [
          (''type'', JString ''http-status''),
          (''url'', JString ''http://127.0.0.1:8090/health''),
          (''expectedStatus'', json_int 200),
          (''timeoutMs'', json_int 3000),
          (''startupDeadlineMs'', json_int 20000)]),
        (''ports'', JArray [json_int 8090]),
        (''restartPolicy'', JString ''manual''),
        (''shutdownGraceMs'', json_int 5000)]])]"

section \<open>Protocol\<close>

record ('w, 'f, 'a) registration_mcp =
  rm_host :: "('w, 'f, 'a) registration_host"
  rm_target :: build_target
  rm_var :: "string \<Rightarrow> string option"
  rm_explicit :: "string option"
  rm_version :: string
  rm_value :: "string \<Rightarrow> json option"
  rm_text :: "json \<Rightarrow> string"
  rm_service :: "json \<Rightarrow> string + service_config"
  rm_draft_json :: "registration_draft \<Rightarrow> json"
  rm_commit_json :: "commit_report \<Rightarrow> json"
  rm_validation_json :: "validation_result \<Rightarrow> json"
  rm_write_value :: "json \<Rightarrow> 'w \<Rightarrow> string option \<times> 'w"
  rm_write_newline :: "'w \<Rightarrow> string option \<times> 'w"

definition max_registration_message_bytes :: nat where
  "max_registration_message_bytes = 256 * 1024"

definition max_result_bytes :: nat where
  "max_result_bytes = 512 * 1024"

definition rpc_error :: "json \<Rightarrow> int \<Rightarrow> string \<Rightarrow> json" where
  "rpc_error ident code message = json_object [(''jsonrpc'', JString ''2.0''), (''id'', ident),
     (''error'', json_object [(''code'', json_int code), (''message'', JString message)])]"

definition rm_request_id :: "(string \<times> json) list \<Rightarrow> json" where
  "rm_request_id members = (case map_of members ''id'' of
      Some ident \<Rightarrow> if is_string_or_number ident then ident else JNull | None \<Rightarrow> JNull)"

definition rm_object :: "json \<Rightarrow> string \<Rightarrow> string + (string \<times> json) list" where
  "rm_object v label = (case json_as_object v of
      None \<Rightarrow> Inl (label @ '' must be an object'') | Some members \<Rightarrow> Inr members)"

definition rm_required_string :: "(string \<times> json) list \<Rightarrow> string \<Rightarrow> string + string" where
  "rm_required_string members name = (case string_at members name of
      None \<Rightarrow> Inl (name @ '' must be a non-empty string'') | Some v \<Rightarrow> Inr v)"

definition reject_unknown :: "(string \<times> json) list \<Rightarrow> string list \<Rightarrow> string + unit" where
  "reject_unknown members allowed = (case unknown_key members allowed of
      Some key \<Rightarrow> Inl (''unknown field: '' @ key) | None \<Rightarrow> Inr ())"

definition empty_params :: "json \<Rightarrow> string + unit" where
  "empty_params v = (case rm_object v ''params'' of
      Inl e \<Rightarrow> Inl e | Inr members \<Rightarrow> reject_unknown members [])"

definition rm_initialize :: "string \<Rightarrow> json \<Rightarrow> string + json" where
  "rm_initialize version params = (case rm_object params ''initialize params'' of
      Inl e \<Rightarrow> Inl e
    | Inr members \<Rightarrow>
        (case rm_required_string members ''protocolVersion'' of
           Inl e \<Rightarrow> Inl e
         | Inr requested \<Rightarrow> Inr (json_object
             [(''protocolVersion'', JString (if supports_protocol_version requested then requested
                 else mcp_protocol_version)),
              (''capabilities'', json_object [(''tools'', empty_object)]),
              (''serverInfo'', json_object
                 [(''name'', JString ''aku-supervisor-registration''),
                  (''title'', JString ''AkuSupervisor Registration (human-gated)''),
                  (''version'', JString version),
                  (''description'', JString ''Prepare and commit revision-bound service registration drafts. Human approval is intentionally unavailable through MCP.'')]),
              (''instructions'', JString ''No external documentation is required. Begin with get_capabilities and get_schema, validate a complete service definition, then prepare a draft. Ask the user to run the exact approvalCommand in an interactive terminal; its --commit flag approves and completes the mutation, so agent follow-up is not required for correctness. After the user responds, call supervisor_registration_commit_change idempotently to retrieve or confirm the final result. Registration never auto-starts a service. Update and unregister fail unless the running Supervisor proves the target is stopped.'')])))"

section \<open>Advertised tools\<close>

definition rm_tool :: "string \<Rightarrow> string \<Rightarrow> string \<Rightarrow> json \<Rightarrow> bool \<Rightarrow> bool \<Rightarrow> bool \<Rightarrow> json" where
  "rm_tool name title description input_schema read_only destructive idempotent = json_object
     [(''name'', JString name), (''title'', JString title), (''description'', JString description),
      (''inputSchema'', input_schema),
      (''execution'', json_object [(''taskSupport'', JString ''forbidden'')]),
      (''annotations'', json_object
         [(''title'', JString title), (''readOnlyHint'', JBool read_only),
          (''destructiveHint'', JBool destructive), (''idempotentHint'', JBool idempotent),
          (''openWorldHint'', JBool False)])]"

definition change_input_schema :: "bool \<Rightarrow> json" where
  "change_input_schema preparing = json_object
     [(''type'', JString ''object''),
      (''properties'', json_object
        ([(''operation'', json_object [(''type'', JString ''string''),
             (''enum'', json_strings [''register'', ''update'', ''unregister''])]),
          (''serviceId'', json_object [(''type'', JString ''string''), (''pattern'', JString ''^[a-z0-9-]+$'')]),
          (''service'', service_schema)]
         @ (if preparing then
             [(''requestId'', json_object [(''type'', JString ''string''), (''minLength'', json_int 1),
                 (''maxLength'', json_int 128), (''pattern'', JString ''^[A-Za-z0-9_.:-]+$'')]),
              (''baseRevision'', json_object [(''type'', JString ''string''),
                 (''pattern'', JString ''^sha256:[a-f0-9]{64}$'')])]
            else []))),
      (''required'', json_strings ([''operation'', ''serviceId''] @
         (if preparing then [''requestId'', ''baseRevision''] else []))),
      (''additionalProperties'', JBool False)]"

definition draft_input_schema :: json where
  "draft_input_schema = json_object
     [(''type'', JString ''object''),
      (''properties'', json_object [(''draftId'', json_object
         [(''type'', JString ''string''), (''pattern'', JString ''^registration-[a-f0-9]{20}$'')])]),
      (''required'', json_strings [''draftId'']),
      (''additionalProperties'', JBool False)]"

definition registration_tools :: "json list" where
  "registration_tools =
     [rm_tool ''supervisor_registration_get_capabilities'' ''Get registration capabilities''
        ''Get the complete workflow, current configuration revision, safety policy, commands, and available tools.''
        (json_object [(''type'', JString ''object''), (''properties'', empty_object),
           (''additionalProperties'', JBool False)]) True False True,
      rm_tool ''supervisor_registration_get_schema'' ''Get service schema''
        ''Get the complete JSON Schema and example for a service definition without reading external documentation.''
        (json_object [(''type'', JString ''object''), (''properties'', empty_object),
           (''additionalProperties'', JBool False)]) True False True,
      rm_tool ''supervisor_registration_validate_service'' ''Validate service change''
        ''Validate a register, update, or unregister proposal against the current complete configuration without creating a draft.''
        (change_input_schema False) True False True,
      rm_tool ''supervisor_registration_prepare_change'' ''Prepare registration draft''
        ''Create an expiring, revision-bound, hash-bound draft. This does not change the configuration and cannot approve itself.''
        (change_input_schema True) False False False,
      rm_tool ''supervisor_registration_get_draft'' ''Get registration draft''
        ''Inspect the complete persisted draft, full before/after configuration, warnings, status, confirmation phrase, and approval command.''
        draft_input_schema True False True,
      rm_tool ''supervisor_registration_commit_change'' ''Commit or confirm approved registration''
        ''Idempotently commit an approval-only draft, recover an interrupted commit, or retrieve the final result after the human approvalCommand already committed it. Exact revision and stopped-state checks remain mandatory. Never auto-starts the service.''
        draft_input_schema False True True]"

definition rm_list_tools :: "json \<Rightarrow> string + json" where
  "rm_list_tools params = (case rm_object params ''tools/list params'' of
      Inl e \<Rightarrow> Inl e
    | Inr members \<Rightarrow>
        if list_ex (\<lambda>key. key \<noteq> ''_meta'') (map fst members)
        then Inl ''pagination is not required for the bounded tool list''
        else Inr (json_object [(''tools'', JArray registration_tools)]))"

definition rm_contract_surface :: "string \<Rightarrow> json option" where
  "rm_contract_surface version =
     (case rm_initialize version (json_object [(''protocolVersion'', JString mcp_protocol_version)]) of
        Inl e \<Rightarrow> None
      | Inr initialize \<Rightarrow>
          (case (without_version initialize, rm_list_tools empty_object) of
             (Some initialized, Inr tools) \<Rightarrow> Some (json_object
               [(''initialize'', initialized),
                (''methods'', json_strings [''initialize'', ''ping'', ''tools/list'', ''tools/call'']),
                (''tools'', json_or_null (json_get tools ''tools'')),
                (''capabilities'', capability_contract),
                (''serviceSchema'', service_schema)])
           | _ \<Rightarrow> None))"

section \<open>Tools\<close>

definition with_authority ::
  "('w, 'f, 'a) registration_mcp
     \<Rightarrow> (registration_authority \<Rightarrow> (('w, 'f) registration_store, 'b, registration_error) op)
     \<Rightarrow> (('w, 'f) registration_store, 'b, registration_error) op" where
  "with_authority q oper = bind_op (registration_open (rm_host q) (rm_target q) (rm_var q) (rm_explicit q)) oper"

definition registration_input_error :: "string \<Rightarrow> registration_error" where
  "registration_input_error message = rx_new ''invalid_tool_arguments'' message"

definition registration_string :: "(string \<times> json) list \<Rightarrow> string \<Rightarrow> registration_error + string" where
  "registration_string args name = (case string_at args name of
      None \<Rightarrow> Inl (registration_input_error (name @ '' must be a non-empty string'')) | Some v \<Rightarrow> Inr v)"

definition reject_registration_unknown :: "(string \<times> json) list \<Rightarrow> string list \<Rightarrow> registration_error + unit" where
  "reject_registration_unknown args allowed = (case unknown_key args allowed of
      Some key \<Rightarrow> Inl (registration_input_error (''unknown field: '' @ key)) | None \<Rightarrow> Inr ())"

definition parse_registration_operation :: "(string \<times> json) list \<Rightarrow> registration_error + registration_operation" where
  "parse_registration_operation args = (case registration_string args ''operation'' of
      Inl e \<Rightarrow> Inl e
    | Inr name \<Rightarrow>
        if name = ''register'' then Inr OpRegister
        else if name = ''update'' then Inr OpUpdate
        else if name = ''unregister'' then Inr OpUnregister
        else Inl (registration_input_error ''operation must be register, update, or unregister''))"

definition service_definition ::
  "('w, 'f, 'a) registration_mcp \<Rightarrow> (string \<times> json) list \<Rightarrow> registration_error + service_config option" where
  "service_definition q args = (case map_of args ''service'' of
      None \<Rightarrow> Inr None
    | Some v \<Rightarrow> (case rm_service q v of
        Inl e \<Rightarrow> Inl (registration_input_error (''service does not match the strict schema: '' @ e))
      | Inr service \<Rightarrow> Inr (Some service)))"

definition validate_tool ::
  "('w, 'f, 'a) registration_mcp \<Rightarrow> (string \<times> json) list \<Rightarrow> registration_authority
     \<Rightarrow> (('w, 'f) registration_store, json, registration_error) op" where
  "validate_tool q args ra =
     seq_op (lift_sum (reject_registration_unknown args [''operation'', ''serviceId'', ''service'']))
       (bind_op (lift_sum (parse_registration_operation args)) (\<lambda>oper.
         bind_op (lift_sum (service_definition q args)) (\<lambda>service.
           bind_op (lift_sum (registration_string args ''serviceId'')) (\<lambda>sid.
             map_op (\<lambda>validation. json_object [(''validation'', rm_validation_json q validation)])
               (rg_validate_service (rm_host q) ra oper sid service)))))"

definition approval_command :: "string \<Rightarrow> string" where
  "approval_command draft_id = ''aku-supervisor registration approve '' @ draft_id @ '' --commit''"

definition completion_check_json :: json where
  "completion_check_json = json_object
     [(''tool'', JString ''supervisor_registration_commit_change''), (''idempotent'', JBool True),
      (''requiredForMutation'', JBool False),
      (''purpose'', JString ''Retrieve or confirm the final reconciliation result after the human command returns.'')]"

definition prepared_json :: "('w, 'f, 'a) registration_mcp \<Rightarrow> registration_draft \<Rightarrow> json" where
  "prepared_json q d = json_object
     [(''draft'', rm_draft_json q d), (''approvalCommand'', JString (approval_command (dr_draft_id d))),
      (''approvalCommandCommits'', JBool True), (''agentCommitRequired'', JBool False),
      (''approvalAvailableThroughMcp'', JBool False), (''completionCheck'', completion_check_json),
      (''nextStep'', JString ''Ask the user to run approvalCommand in a real interactive terminal after reviewing the complete configuration. That command approves and commits. After the user responds, call completionCheck.tool idempotently to retrieve or confirm the result; the configuration change does not depend on that follow-up.'')]"

definition prepare_request :: "('w, 'f, 'a) registration_mcp \<Rightarrow> (string \<times> json) list \<Rightarrow> registration_error + prepare_registration" where
  "prepare_request q args = (case registration_string args ''requestId'' of
      Inl e \<Rightarrow> Inl e
    | Inr request_id \<Rightarrow> (case parse_registration_operation args of
      Inl e \<Rightarrow> Inl e
    | Inr oper \<Rightarrow> (case registration_string args ''serviceId'' of
      Inl e \<Rightarrow> Inl e
    | Inr sid \<Rightarrow> (case registration_string args ''baseRevision'' of
      Inl e \<Rightarrow> Inl e
    | Inr base \<Rightarrow> (case service_definition q args of
      Inl e \<Rightarrow> Inl e
    | Inr service \<Rightarrow> Inr \<lparr>pr_request_id = request_id, pr_operation = oper, pr_service_id = sid,
        pr_base_revision = base, pr_service = service\<rparr>)))))"

definition prepare_tool ::
  "('w, 'f, 'a) registration_mcp \<Rightarrow> (string \<times> json) list \<Rightarrow> registration_authority
     \<Rightarrow> (('w, 'f) registration_store, json, registration_error) op" where
  "prepare_tool q args ra =
     seq_op (lift_sum (reject_registration_unknown args
         [''requestId'', ''operation'', ''serviceId'', ''baseRevision'', ''service'']))
       (bind_op (lift_sum (prepare_request q args)) (\<lambda>request.
         map_op (prepared_json q) (prepare (rm_host q) ra request)))"

definition draft_json :: "('w, 'f, 'a) registration_mcp \<Rightarrow> string \<Rightarrow> registration_draft \<Rightarrow> json" where
  "draft_json q draft_id d = json_object
     [(''draft'', rm_draft_json q d), (''approvalCommand'', JString (approval_command draft_id)),
      (''approvalCommandCommits'', JBool True), (''agentCommitRequired'', JBool False),
      (''approvalAvailableThroughMcp'', JBool False), (''completionCheck'', completion_check_json)]"

definition rm_tool_success :: "('w, 'f, 'a) registration_mcp \<Rightarrow> json \<Rightarrow> json" where
  "rm_tool_success q v =
     (let content = rm_text q v in
      if max_result_bytes < length content then json_object
        [(''content'', JArray [json_object [(''type'', JString ''text''),
            (''text'', JString ''result exceeded the bounded registration MCP response size'')]]),
         (''isError'', JBool True)]
      else json_object
        [(''content'', JArray [json_object [(''type'', JString ''text''), (''text'', JString content)]]),
         (''structuredContent'', v), (''isError'', JBool False)])"

definition rm_tool_failure :: "registration_error \<Rightarrow> json" where
  "rm_tool_failure e = json_object
     [(''content'', JArray [json_object [(''type'', JString ''text''), (''text'', JString (show_registration_error e))]]),
      (''structuredContent'', json_object [(''error'', rx_structured e)]),
      (''isError'', JBool True)]"

text \<open>A tool that ran: its error is an answer, so only a panic ends the server.\<close>

definition tool_result ::
  "('w, 'f, 'a) registration_mcp \<Rightarrow> (('w, 'f) registration_store, json, registration_error) op
     \<Rightarrow> (('w, 'f) registration_store, string + json, registration_error) op" where
  "tool_result q m = map_op (\<lambda>r. Inr (case r of Inr v \<Rightarrow> rm_tool_success q v | Inl e \<Rightarrow> rm_tool_failure e))
     (attempt_op m)"

definition checked ::
  "string + 'b \<Rightarrow> ('b \<Rightarrow> ('s, string + json, 'e) op) \<Rightarrow> ('s, string + json, 'e) op" where
  "checked r f = (case r of Inl message \<Rightarrow> return_op (Inl message) | Inr v \<Rightarrow> f v)"

definition run_tool ::
  "('w, 'f, 'a) registration_mcp \<Rightarrow> string \<Rightarrow> (string \<times> json) list
     \<Rightarrow> (('w, 'f) registration_store, string + json, registration_error) op" where
  "run_tool q name args =
     (if name = ''supervisor_registration_get_capabilities'' then
        checked (reject_unknown args []) (\<lambda>_. tool_result q (with_authority q (capabilities (rm_host q))))
      else if name = ''supervisor_registration_get_schema'' then
        checked (reject_unknown args []) (\<lambda>_.
          tool_result q (return_op (json_object [(''serviceSchema'', service_schema)])))
      else if name = ''supervisor_registration_validate_service'' then
        tool_result q (with_authority q (validate_tool q args))
      else if name = ''supervisor_registration_prepare_change'' then
        tool_result q (with_authority q (prepare_tool q args))
      else if name = ''supervisor_registration_get_draft'' then
        checked (reject_unknown args [''draftId'']) (\<lambda>_.
        checked (rm_required_string args ''draftId'') (\<lambda>draft_id.
          tool_result q (with_authority q (\<lambda>ra.
            map_op (draft_json q draft_id) (get_draft (rm_host q) ra draft_id)))))
      else if name = ''supervisor_registration_commit_change'' then
        checked (reject_unknown args [''draftId'']) (\<lambda>_.
        checked (rm_required_string args ''draftId'') (\<lambda>draft_id.
          tool_result q (with_authority q (\<lambda>ra.
            map_op (\<lambda>done'. json_object [(''commit'', rm_commit_json q done')])
              (commit (rm_host q) ra draft_id)))))
      else return_op (Inl ''unknown registration tool''))"

definition rm_call_tool ::
  "('w, 'f, 'a) registration_mcp \<Rightarrow> json
     \<Rightarrow> (('w, 'f) registration_store, string + json, registration_error) op" where
  "rm_call_tool q params =
     checked (rm_object params ''tools/call params'') (\<lambda>members.
     checked (reject_unknown members [''name'', ''arguments'', ''_meta'']) (\<lambda>_.
     checked (rm_required_string members ''name'') (\<lambda>name.
     checked (rm_object (case map_of members ''arguments'' of None \<Rightarrow> empty_object | Some a \<Rightarrow> a) ''arguments'')
       (run_tool q name))))"

section \<open>Messages\<close>

definition rm_answer :: "json \<Rightarrow> string + json \<Rightarrow> mcp_response" where
  "rm_answer ident r = McpJson (case r of
      Inr v \<Rightarrow> json_object [(''jsonrpc'', JString ''2.0''), (''id'', ident), (''result'', v)]
    | Inl message \<Rightarrow> rpc_error ident (- 32602) message)"

definition rm_dispatch ::
  "('w, 'f, 'a) registration_mcp \<Rightarrow> string \<Rightarrow> json \<Rightarrow> json
     \<Rightarrow> (('w, 'f) registration_store, mcp_response, registration_error) op" where
  "rm_dispatch q method_name ident params =
     (if method_name = ''initialize'' then return_op (rm_answer ident (rm_initialize (rm_version q) params))
      else if method_name = ''ping'' then
        return_op (rm_answer ident (map_sum id (\<lambda>_. empty_object) (empty_params params)))
      else if method_name = ''tools/list'' then return_op (rm_answer ident (rm_list_tools params))
      else if method_name = ''tools/call'' then map_op (rm_answer ident) (rm_call_tool q params)
      else return_op (McpJson (rpc_error ident (- 32601) ''Method not found'')))"

definition rm_handle_message ::
  "('w, 'f, 'a) registration_mcp \<Rightarrow> string
     \<Rightarrow> (('w, 'f) registration_store, mcp_response, registration_error) op" where
  "rm_handle_message q body = (case rm_value q body of
      None \<Rightarrow> return_op (McpJson (rpc_error JNull (- 32700) ''Parse error''))
    | Some message \<Rightarrow>
        (case json_as_object message of
           None \<Rightarrow> return_op (McpJson (rpc_error JNull (- 32600) ''Invalid Request''))
         | Some members \<Rightarrow>
             if Option.bind (map_of members ''jsonrpc'') json_as_str \<noteq> Some ''2.0''
             then return_op (McpJson (rpc_error (rm_request_id members) (- 32600) ''Invalid Request''))
             else (case Option.bind (map_of members ''method'') json_as_str of
                 None \<Rightarrow> return_op McpAccepted
               | Some method_name \<Rightarrow>
                   (case map_of members ''id'' of
                      None \<Rightarrow> return_op McpAccepted
                    | Some ident \<Rightarrow>
                        if \<not> is_string_or_number ident
                        then return_op (McpJson (rpc_error JNull (- 32600) ''Invalid Request''))
                        else rm_dispatch q method_name ident
                          (case map_of members ''params'' of None \<Rightarrow> empty_object | Some p \<Rightarrow> p)))))"

datatype registration_mcp_error = RmReadStdin string | RmWriteStdout string | RmSerialize string

fun show_registration_mcp_error :: "registration_mcp_error \<Rightarrow> string" where
  "show_registration_mcp_error (RmReadStdin e) = ''failed to read registration MCP stdin: '' @ e"
| "show_registration_mcp_error (RmWriteStdout e) = ''failed to write registration MCP stdout: '' @ e"
| "show_registration_mcp_error (RmSerialize e) = ''failed to serialize registration MCP response: '' @ e"

definition rm_write ::
  "('w, 'f, 'a) registration_mcp \<Rightarrow> json \<Rightarrow> (('w, 'f) registration_store, unit, registration_mcp_error) op" where
  "rm_write q v =
     bind_op (ask_os (rm_write_value q v)) (\<lambda>r. case r of
       Some e \<Rightarrow> fail_op (RmSerialize e)
     | None \<Rightarrow> bind_op (ask_os (rm_write_newline q)) (\<lambda>r. case r of
         Some e \<Rightarrow> fail_op (RmWriteStdout e) | None \<Rightarrow> return_op ()))"

text \<open>
  The errors of the registration are answers already (\<open>tool_result\<close>), so the error a message could
  still end with is not reached.
\<close>

definition rm_respond ::
  "('w, 'f, 'a) registration_mcp \<Rightarrow> string \<Rightarrow> (('w, 'f) registration_store, mcp_response, registration_mcp_error) op" where
  "rm_respond q line =
     (let body = trim_line_end line in
      if max_registration_message_bytes < length body
      then return_op (McpJson (rpc_error JNull (- 32600) ''MCP message exceeds bounded body size''))
      else map_err_op (RmReadStdin \<circ> show_registration_error) (rm_handle_message q body))"

text \<open>The loop over what reading a line returns, until the end of the input or the first failure.\<close>

fun rm_serve ::
  "('w, 'f, 'a) registration_mcp \<Rightarrow> (string + string) list
     \<Rightarrow> (('w, 'f) registration_store, unit, registration_mcp_error) op" where
  "rm_serve q [] = return_op ()"
| "rm_serve q (Inl e # rest) = fail_op (RmReadStdin e)"
| "rm_serve q (Inr line # rest) =
     bind_op (rm_respond q line) (\<lambda>response.
     seq_op (case response of McpAccepted \<Rightarrow> return_op () | McpJson v \<Rightarrow> rm_write q v)
       (rm_serve q rest))"

section \<open>The contract of both servers\<close>

definition mcp_contract_revision :: u32 where
  "mcp_contract_revision = 1"

definition contract_document :: "string \<Rightarrow> json option" where
  "contract_document version = (case (mcp_contract_surface version, rm_contract_surface version) of
      (Some read_only, Some registration) \<Rightarrow> Some (json_object
        [(''schemaVersion'', json_int 1), (''contractRevision'', json_int (uint mcp_contract_revision)),
         (''readOnly'', read_only), (''registration'', registration)])
    | _ \<Rightarrow> None)"

definition contract_fingerprint ::
  "(json \<Rightarrow> string + string) \<Rightarrow> (string \<Rightarrow> string) \<Rightarrow> json \<Rightarrow> string + string" where
  "contract_fingerprint to_vec digest document = (case to_vec document of
      Inl e \<Rightarrow> Inl e | Inr encoded \<Rightarrow> Inr (''sha256:'' @ digest encoded))"

definition contract_report ::
  "(json \<Rightarrow> string + string) \<Rightarrow> (string \<Rightarrow> string) \<Rightarrow> json \<Rightarrow> string + json" where
  "contract_report to_vec digest document = map_sum id (\<lambda>fingerprint. json_object
     [(''schemaVersion'', json_int 1), (''fingerprint'', JString fingerprint), (''contract'', document)])
     (contract_fingerprint to_vec digest document)"

end
