(* ===== verification/Registration_Mcp_Properties.thy ===== *)
theory Registration_Mcp_Properties
  imports Registration_Mcp Registration_Properties Journal_Laws
begin

text \<open>
  What an agent can do through the registration server: it can propose, and commit what a human has
  approved, but no sequence of messages approves anything. The contract of the servers does not
  depend on the version of the binary.
\<close>

section \<open>Nothing is approved\<close>

definition approved_drafts :: "('w, 'f, 'a) registration_host \<Rightarrow> (string \<Rightarrow> 'f option) \<Rightarrow> string set" where
  "approved_drafts h D = {i. \<exists>f d. D i = Some f \<and> rh_parse_draft h f = Inr d \<and> dr_status d = DraftApproved}"

text \<open>At most the drafts of \<open>A\<close> are approved, and without one the configuration is the given one.\<close>

definition unapproved ::
  "('w, 'f, 'a) registration_host \<Rightarrow> string set \<Rightarrow> string option \<Rightarrow> ('w, 'f) registration_store \<Rightarrow> bool" where
  "unapproved h A C s \<longleftrightarrow> approved_drafts h (rg_drafts s) \<subseteq> A \<and> (A = {} \<longrightarrow> rg_config s = C)"

lemma unapproved_files:
  "unapproved h A C s \<longleftrightarrow> (\<exists>C' D. files_are C' D s \<and> approved_drafts h D \<subseteq> A \<and> (A = {} \<longrightarrow> C' = C))"
  by (auto simp: unapproved_def files_are_def)

lemma quiet_unapproved:
  assumes "\<And>C D. keeps (files_are C D) m"
  shows "keeps (unapproved h A C) m"
proof (rule keepsI)
  fix s assume "unapproved h A C s"
  then obtain C' D where D: "files_are C' D s" "approved_drafts h D \<subseteq> A" "A = {} \<longrightarrow> C' = C"
    unfolding unapproved_files by blast
  from keepsD [OF assms D(1)] D(2,3) show "unapproved h A C (snd (m s))" unfolding unapproved_files by blast
qed

text \<open>A draft that is written with another status is not approved.\<close>

lemma written_unapproved:
  assumes "drafts_read_back h" and "draft_written h d C' D s" and "dr_status d \<noteq> DraftApproved"
    and "approved_drafts h D \<subseteq> A" and "A = {} \<longrightarrow> C' = C"
  shows "unapproved h A C s"
proof -
  from assms(1,2) obtain f where "rh_parse_draft h f = Inr d" "files_are C' (D(dr_draft_id d \<mapsto> f)) s"
    unfolding draft_written_def drafts_read_back_def by blast
  with assms(3-5) show ?thesis by (auto simp: unapproved_def files_are_def approved_drafts_def split: if_splits)
qed

lemma quiet_open [quiet]: "keeps (files_are C D) (registration_open h target var explicit)"
  unfolding registration_open_def by (intro keeps_intro quiet)

lemma quiet_validate [quiet]: "keeps (files_are C D) (rg_validate_service h ra oper sid service)"
  unfolding rg_validate_service_def by (intro keeps_intro quiet)

lemma quiet_capabilities [quiet]: "keeps (files_are C D) (capabilities h ra)"
  unfolding capabilities_def by (intro keeps_intro quiet) (auto intro: keeps_intro split: json.split)

lemma prepare_unapproved:
  assumes "drafts_read_back h"
  shows "keeps (unapproved h A C) (prepare h ra r)"
proof (rule keepsI)
  fix s assume s: "unapproved h A C s"
  obtain q s' where run: "prepare h ra r s = (q, s')" by fastforce
  from s have D: "approved_drafts h (rg_drafts s) \<subseteq> A" "A = {} \<longrightarrow> rg_config s = C" by (simp_all add: unapproved_def)
  from prepare_effect [OF run files_of] have "unapproved h A C s'"
  proof (elim disjE exE conjE)
    fix d assume "dr_status d = DraftPrepared" "draft_written h d (rg_config s) (rg_drafts s) s'"
    then show ?thesis using written_unapproved [OF assms _ _ D] by simp
  qed (use D in \<open>unfold unapproved_files, blast\<close>)
  with run show "unapproved h A C (snd (prepare h ra r s))" by simp
qed

lemma commit_unapproved:
  assumes "drafts_read_back h"
  shows "keeps (unapproved h A C) (commit_with_actor h ra draft_id actor)"
proof (rule keepsI)
  fix s assume s: "unapproved h A C s"
  obtain q s' where run: "commit_with_actor h ra draft_id actor s = (q, s')" by fastforce
  from s have D: "approved_drafts h (rg_drafts s) \<subseteq> A" "A = {} \<longrightarrow> rg_config s = C" by (simp_all add: unapproved_def)
  have "unapproved h A C s'" if "files_are (rg_config s) (rg_drafts s) s'"
    using D that unfolding unapproved_files by blast
  moreover have "unapproved h A C s'" if f: "rg_drafts s draft_id = Some f" "rh_parse_draft h f = Inr d"
    and e: "commit_end h ra d (rg_config s) (rg_drafts s) s'" for d f
  proof (cases "files_are (rg_config s) (rg_drafts s) s'")
    case False
    then obtain now C' where approved: "dr_status d = DraftApproved" and w: "files_are C' (rg_drafts s) s'
        \<or> draft_written h (d\<lparr>dr_status := DraftCommitted, dr_committed_at := Some now\<rparr>) C' (rg_drafts s) s'"
      using e by (auto simp: commit_end_def)
    have "A \<noteq> {}" using f approved D(1) by (auto simp: approved_drafts_def)
    then have C': "A = {} \<longrightarrow> C' = C" by simp
    from w show ?thesis
    proof
      assume "files_are C' (rg_drafts s) s'"
      then show ?thesis using D(1) C' unfolding unapproved_files by blast
    qed (use written_unapproved [OF assms _ _ D(1) C'] in simp)
  qed (rule calculation)
  ultimately show "unapproved h A C (snd (commit_with_actor h ra draft_id actor s))"
    using commit_effect [OF run files_of] run by auto
qed

lemma checked_unapproved [keeps_intro]:
  "(\<And>v. r = Inr v \<Longrightarrow> keeps I (f v)) \<Longrightarrow> keeps I (checked r f)"
  by (auto simp: checked_def intro: keeps_return split: sum.split)

lemma tool_result_keeps [keeps_intro]: "keeps I m \<Longrightarrow> keeps I (tool_result q m)"
  unfolding tool_result_def by (intro keeps_intro)

lemma with_authority_unapproved:
  "(\<And>ra. keeps (unapproved h A C) (m ra)) \<Longrightarrow> keeps (unapproved h A C) (with_authority q m)"
  unfolding with_authority_def by (rule keeps_bind [OF quiet_unapproved [OF quiet_open]])

lemma run_tool_unapproved:
  assumes "drafts_read_back (rm_host q)"
  shows "keeps (unapproved (rm_host q) A C) (run_tool q name args)"
  unfolding run_tool_def validate_tool_def prepare_tool_def commit_def
  by (intro keeps_intro with_authority_unapproved prepare_unapproved commit_unapproved assms
      quiet_unapproved quiet_capabilities quiet_validate quiet_get_draft)

lemma handle_message_unapproved:
  assumes "drafts_read_back (rm_host q)"
  shows "keeps (unapproved (rm_host q) A C) (rm_handle_message q body)"
  unfolding rm_handle_message_def rm_dispatch_def rm_call_tool_def
  by (intro keeps_intro run_tool_unapproved assms)

lemma write_unapproved: "keeps (unapproved h A C) (rm_write q v)"
  unfolding rm_write_def by (intro keeps_intro quiet_unapproved quiet_ask)

lemma serve_unapproved:
  assumes "drafts_read_back (rm_host q)"
  shows "keeps (unapproved (rm_host q) A C) (rm_serve q input)"
proof (induction input)
  case (Cons line rest)
  have "keeps (unapproved (rm_host q) A C) (case response of McpAccepted \<Rightarrow> return_op () | McpJson v \<Rightarrow> rm_write q v)"
    for response by (cases response) (simp_all add: write_unapproved keeps_return)
  then show ?case using Cons
    by (cases line)
      (auto simp: rm_respond_def Let_def intro!: keeps_intro handle_message_unapproved assms)
qed (simp add: keeps_return)

text \<open>The errors of the registration are answers, so a message ends in an answer or a panic.\<close>

definition answers :: "('s, 'b, 'e) op \<Rightarrow> bool" where
  "answers m \<longleftrightarrow> (\<forall>s e. fst (m s) \<noteq> Err e)"

lemma answers_intro:
  "answers (return_op v)"
  "answers (tool_result q m)"
  "(\<And>v. answers (f v)) \<Longrightarrow> answers (checked r f)"
  "(b \<Longrightarrow> answers m1) \<Longrightarrow> (\<not> b \<Longrightarrow> answers m2) \<Longrightarrow> answers (if b then m1 else m2)"
  "answers m1 \<Longrightarrow> (\<And>x. answers (k x)) \<Longrightarrow> answers (case w of None \<Rightarrow> m1 | Some x \<Rightarrow> k x)"
  by (auto simp: answers_def return_op_def tool_result_def map_op_def attempt_op_def checked_def
      split: prod.splits outcome.splits sum.splits option.splits)

lemma answers_map [simp]: "answers m \<Longrightarrow> answers (map_op g m)"
  unfolding answers_def map_op_def map_outcome_def
  by (auto split: prod.splits outcome.splits) (metis fst_conv)

lemma handle_message_answers: "answers (rm_handle_message q body)"
  unfolding rm_handle_message_def rm_dispatch_def rm_call_tool_def run_tool_def
  by (intro answers_intro answers_map)

section \<open>The contract\<close>

lemma surface_version: "rm_contract_surface version = rm_contract_surface []"
  by code_simp

lemma read_only_surface_version: "mcp_contract_surface version = mcp_contract_surface []"
  by code_simp

lemma surfaces_exist:
  "case rm_contract_surface [] of None \<Rightarrow> False | Some _ \<Rightarrow> True"
  "case mcp_contract_surface [] of None \<Rightarrow> False | Some _ \<Rightarrow> True"
  by code_simp+

section \<open>Properties\<close>

text \<open>C14: No sequence of messages to the registration server approves a draft: in any store, whatever lines
  are read and whether the session ends normally or not, a draft that is approved afterwards was approved
  before; and in a store without an approved draft the configuration stays what it is. The JSON
  library is relied on to read back the draft files it wrote.\<close>

theorem agent_cannot_approve:
  assumes "drafts_read_back (rm_host q)" and "rm_serve q input s = (r, s')"
  shows "approved_drafts (rm_host q) (rg_drafts s') \<subseteq> approved_drafts (rm_host q) (rg_drafts s)
    \<and> (approved_drafts (rm_host q) (rg_drafts s) = {} \<longrightarrow> rg_config s' = rg_config s)"
proof -
  let ?A = "approved_drafts (rm_host q) (rg_drafts s)"
  have "unapproved (rm_host q) ?A (rg_config s) s" by (simp add: unapproved_def)
  from keeps_run [OF serve_unapproved [OF assms(1)] this assms(2)] show ?thesis by (simp add: unapproved_def)
qed

text \<open>The contract of the MCP servers exists and is the same for every version of the binary.\<close>

lemma contract_ignores_version:
  "contract_document version = contract_document version' \<and> contract_document version \<noteq> None"
  by (simp add: contract_document_def surface_version [of version] surface_version [of version']
      read_only_surface_version [of version] read_only_surface_version [of version'])
    (use surfaces_exist in \<open>simp split: option.splits\<close>)

section \<open>A session of an agent\<close>

definition member_json :: "(string \<times> json) list \<Rightarrow> json" where
  "member_json members = json_object ([(''jsonrpc'', JString ''2.0''), (''id'', json_int 1)] @ members)"

definition tool_call :: "string \<Rightarrow> (string \<times> json) list \<Rightarrow> json" where
  "tool_call name args = member_json [(''method'', JString ''tools/call''),
     (''params'', json_object [(''name'', JString name), (''arguments'', json_object args)])]"

definition example_mcp :: "(unit, registration_draft, unit) registration_mcp" where
  "example_mcp = \<lparr>rm_host = example_host, rm_target = TargetLinux, rm_var = (\<lambda>_. Some ''/home''),
     rm_explicit = Some ''/bin/app'', rm_version = ''1'',
     rm_value = (\<lambda>line.
       if line = ''prepare'' then Some (tool_call ''supervisor_registration_prepare_change''
         [(''requestId'', JString ''r1''), (''operation'', JString ''register''), (''serviceId'', JString ''web''),
          (''baseRevision'', JString ''sha256:1''), (''service'', empty_object)])
       else if line = ''commit'' then Some (tool_call ''supervisor_registration_commit_change''
         [(''draftId'', JString example_id)])
       else None),
     rm_text = (\<lambda>_. ''{}''), rm_service = (\<lambda>_. Inr (example_service [''db''] [8080, 8081])),
     rm_draft_json = (\<lambda>_. JNull), rm_commit_json = (\<lambda>_. JNull), rm_validation_json = (\<lambda>_. JNull),
     rm_write_value = (\<lambda>_ w. (None, w)), rm_write_newline = (\<lambda>w. (None, w))\<rparr>"

text \<open>The agent prepares a draft, and the commit of it is refused.\<close>

lemma example_session_drafts:
  "rg_drafts (snd (rm_serve example_mcp [Inr ''prepare'', Inr ''commit'', Inr ''approve''] (example_store ''one'' Map.empty)))
     example_id \<noteq> None"
  by code_simp

theorem agent_cannot_approve_witness:
  "case rm_serve example_mcp [Inr ''prepare'', Inr ''commit'', Inr ''approve''] (example_store ''one'' Map.empty) of
     (r, s') \<Rightarrow> rg_config s' = Some ''one'' \<and> approved_drafts example_host (rg_drafts s') = {}
       \<and> rg_drafts s' example_id \<noteq> None"
proof -
  obtain r s' where run: "rm_serve example_mcp [Inr ''prepare'', Inr ''commit'', Inr ''approve'']
      (example_store ''one'' Map.empty) = (r, s')" by fastforce
  have host: "rm_host example_mcp = example_host" by (simp add: example_mcp_def)
  have "approved_drafts example_host (rg_drafts (example_store ''one'' Map.empty)) = {}"
    by (simp add: approved_drafts_def example_store_def)
  with agent_cannot_approve [of example_mcp, unfolded host, OF example_host_codec(1) run]
  have "rg_config s' = Some ''one'' \<and> approved_drafts example_host (rg_drafts s') = {}"
    by (simp add: example_store_def)
  with example_session_drafts show ?thesis unfolding run by simp
qed

end
