(* ===== verification/Cli_Parse.thy ===== *)
theory Cli_Parse
  imports Control_Http
begin

text \<open>
  \<open>src/src/cli.rs\<close>: the commands of the program and how its arguments are read. An argument is a list of
  bytes that need not be UTF-8 (\<open>OsString\<close>); the loops over an index are recursions over the arguments
  that are left, and an option with its value takes two of them.
\<close>

section \<open>Commands\<close>

definition cli_help :: string where
  "cli_help = join [newline]
    [''AkuSupervisor - local development service supervisor'',
     [],
     ''Usage:'',
     ''  aku-supervisor [--timezone <local|utc>]'',
     ''  aku-supervisor --config <path> [--timezone <local|utc>]'',
     ''  aku-supervisor run [--timezone <local|utc>]'',
     ''  aku-supervisor run --config <path> [--timezone <local|utc>]'',
     ''  aku-supervisor validate-startup --json [--service <id> ...] [--config <path>]'',
     ''  aku-supervisor status [--json] [--config <path>]'',
     ''  aku-supervisor simple-status [--pids] [--config <path>]'',
     ''  aku-supervisor instance-status [--json] [--config <path>]'',
     ''  aku-supervisor registry-status [--json] [--config <path>]'',
     ''  aku-supervisor events [--after <sequence>] [--limit <n>] [--json] [--config <path>]'',
     ''  aku-supervisor logs <service> [--stream <stdout|stderr>] [--tail <n>] [--json] [--config <path>]'',
     ''  aku-supervisor live-logs <service> [--stream <both|stdout|stderr>] [--tail <n>] [--timezone <local|utc>] [--json] [--config <path>]'',
     ''  aku-supervisor <start|stop|restart> <service...> [--reason <text>] [--actor <user|codex>] [--request-id <id>] [--json] [--config <path>]'',
     ''  aku-supervisor supervisor shutdown --reason <text> --request-id <id> [--actor <user|codex>] [--json] [--config <path>]'',
     ''  aku-supervisor extension reload --reason <text> --request-id <id> [--actor <user|codex>] [--wait|--no-wait] [--json] [--config <path>]'',
     ''  aku-supervisor extension status --request-id <id> [--json] [--config <path>]'',
     ''  aku-supervisor extension validate --request-id <id> [--actor <user|codex>] [--config <path>]'',
     ''  aku-supervisor mcp-proxy [--config <path>]'',
     ''  aku-supervisor registration-mcp [--config <path>]'',
     ''  aku-supervisor mcp-contract [--json]'',
     ''  aku-supervisor registration capabilities [--json] [--config <path>]'',
     ''  aku-supervisor registration show <draft-id> [--json] [--config <path>]'',
     ''  aku-supervisor registration approve <draft-id> [--commit] [--config <path>]'',
     ''  aku-supervisor --help'',
     ''  aku-supervisor --version'',
     [],
     ''Without --config, AkuSupervisor checks AKU_SUPERVISOR_CONFIG and then the default user configuration.'']"

datatype remote_command =
  RemStatus "string option" bool
| RemSimpleStatus "string option" bool
| RemInstanceStatus "string option" bool
| RemRegistryStatus "string option" bool
| RemEvents u64 nat "string option" bool
| RemLogs string log_stream nat "string option" bool
| RemMutate control_action "string list" string api_actor "string option" "string option" bool
| RemExtensionReload string api_actor string "string option" bool bool
| RemExtensionStatus string "string option" bool
| RemSupervisorShutdown string api_actor string "string option" bool

datatype cli_command =
  CmdHelp
| CmdVersion
| CmdMcpContract bool
| CmdRun "string option" display_timezone
| CmdValidateStartup "string option" "string list"
| CmdExtensionValidate api_actor string "string option"
| CmdMcpProxy "string option"
| CmdRegistrationMcp "string option"
| CmdRegistrationCapabilities "string option" bool
| CmdRegistrationShow string "string option" bool
| CmdRegistrationApprove string "string option" bool
| CmdLiveLogs string live_selection nat "string option" bool display_timezone
| CmdRemote remote_command

section \<open>Arguments\<close>

text \<open>\<open>OsStr::to_str\<close>; \<open>to_string_lossy\<close> is \<open>utf8_lossy\<close>.\<close>

definition os_str :: "string \<Rightarrow> string option" where
  "os_str a = (if utf8_valid a then Some a else None)"

definition duplicate_option :: "string \<Rightarrow> string" where
  "duplicate_option flag = ''duplicate option: '' @ utf8_lossy flag"

definition unsupported_option :: "string \<Rightarrow> string" where
  "unsupported_option flag = ''unsupported option: '' @ utf8_lossy flag"

definition option_value :: "string \<Rightarrow> string list \<Rightarrow> string + string" where
  "option_value flag rest = (case rest of
      [] \<Rightarrow> Inl (utf8_lossy flag @ '' requires a value'') | v # _ \<Rightarrow> Inr v)"

definition parse_display_timezone :: "string \<Rightarrow> string + display_timezone" where
  "parse_display_timezone v = (case Option.bind (os_str v) timezone_parse of
      None \<Rightarrow> Inl ''--timezone must be local or utc'' | Some timezone \<Rightarrow> Inr timezone)"

definition parse_actor :: "string \<Rightarrow> string + api_actor" where
  "parse_actor v =
     (if v = ''user'' then Inr ApiUser else if v = ''codex'' then Inr ApiCodex
      else Inl ''actor must be user or codex'')"

definition parse_request_id :: "string \<Rightarrow> string + string" where
  "parse_request_id v = (case os_str v of
      None \<Rightarrow> Inl ''request ID must be UTF-8''
    | Some v \<Rightarrow>
        if v = [] \<or> 128 < length v
          \<or> \<not> list_all (\<lambda>c. is_ascii_alphanumeric c \<or> c \<in> {CHR ''-'', CHR ''_'', CHR ''.'', CHR '':''}) v
        then Inl ''request ID must be 1-128 URL-safe ASCII characters''
        else Inr v)"

definition is_service_id :: "string \<Rightarrow> bool" where
  "is_service_id v = (v \<noteq> [] \<and> list_all (\<lambda>c. is_ascii_lowercase c \<or> is_ascii_digit c \<or> c = CHR ''-'') v)"

text \<open>The options \<open>--config\<close> and \<open>--json\<close>.\<close>

fun output_options :: "string option \<Rightarrow> bool \<Rightarrow> string list \<Rightarrow> string + string option \<times> bool" where
  "output_options config json [] = Inr (config, json)"
| "output_options config json (flag # rest) =
     (if flag = ''--json'' \<and> \<not> json then output_options config True rest
      else if flag = ''--config'' \<and> config = None then
        (case option_value flag rest of Inl e \<Rightarrow> Inl e | Inr v \<Rightarrow> output_options (Some v) json (tl rest))
      else if flag \<in> {''--json'', ''--config''} then Inl (duplicate_option flag)
      else Inl (unsupported_option flag))"

definition parse_output_options :: "string list \<Rightarrow> string + string option \<times> bool" where
  "parse_output_options = output_options None False"

section \<open>Local commands\<close>

fun run_options :: "string option \<Rightarrow> display_timezone \<Rightarrow> bool \<Rightarrow> string list \<Rightarrow> string + cli_command" where
  "run_options config timezone timezone_set [] = Inr (CmdRun config timezone)"
| "run_options config timezone timezone_set (flag # rest) =
     (if flag = ''--config'' \<and> config = None then
        (case option_value flag rest of
           Inl e \<Rightarrow> Inl e | Inr v \<Rightarrow> run_options (Some v) timezone timezone_set (tl rest))
      else if flag = ''--timezone'' \<and> \<not> timezone_set then
        (case option_value flag rest of
           Inl e \<Rightarrow> Inl e
         | Inr v \<Rightarrow> (case parse_display_timezone v of
             Inl e \<Rightarrow> Inl e | Inr tz \<Rightarrow> run_options config tz True (tl rest)))
      else if flag \<in> {''--config'', ''--timezone''} then Inl (duplicate_option flag)
      else Inl (unsupported_option flag))"

definition parse_run :: "string list \<Rightarrow> string + cli_command" where
  "parse_run = run_options None TzLocal False"

fun validate_startup_options ::
  "string option \<Rightarrow> string list \<Rightarrow> bool \<Rightarrow> string list \<Rightarrow> string + cli_command" where
  "validate_startup_options config sids json [] =
     (if json then Inr (CmdValidateStartup config sids) else Inl ''validate-startup requires --json'')"
| "validate_startup_options config sids json (flag # rest) =
     (if flag = ''--config'' \<and> config = None then
        (case option_value flag rest of
           Inl e \<Rightarrow> Inl e | Inr v \<Rightarrow> validate_startup_options (Some v) sids json (tl rest))
      else if flag = ''--service'' then
        (case option_value flag rest of
           Inl e \<Rightarrow> Inl e
         | Inr v \<Rightarrow> (case os_str v of
             None \<Rightarrow> Inl ''--service must be valid UTF-8''
           | Some v \<Rightarrow>
               if v = [] then Inl ''--service requires a non-empty service ID''
               else validate_startup_options config (sids @ [v]) json (tl rest)))
      else if flag = ''--json'' \<and> \<not> json then validate_startup_options config sids True rest
      else if flag = ''--config'' then Inl ''duplicate option: --config''
      else if flag = ''--json'' then Inl ''duplicate option: --json''
      else Inl (''unsupported validate-startup option: '' @ utf8_lossy flag))"

definition parse_validate_startup :: "string list \<Rightarrow> string + cli_command" where
  "parse_validate_startup = validate_startup_options None [] False"

fun approve_options :: "string option \<Rightarrow> bool \<Rightarrow> string list \<Rightarrow> string + string option \<times> bool" where
  "approve_options config commits [] = Inr (config, commits)"
| "approve_options config commits (flag # rest) =
     (if flag = ''--commit'' \<and> \<not> commits then approve_options config True rest
      else if flag = ''--config'' \<and> config = None then
        (case option_value flag rest of Inl e \<Rightarrow> Inl e | Inr v \<Rightarrow> approve_options (Some v) commits (tl rest))
      else if flag = ''--json'' then Inl ''interactive approval does not support --json''
      else if flag \<in> {''--commit'', ''--config''} then Inl (duplicate_option flag)
      else Inl (unsupported_option flag))"

definition parse_registration_approve_options :: "string list \<Rightarrow> string + string option \<times> bool" where
  "parse_registration_approve_options = approve_options None False"

definition text_at :: "string list \<Rightarrow> nat \<Rightarrow> string option" where
  "text_at arguments i = (if i < length arguments then os_str (arguments ! i) else None)"

definition parse_registration :: "string list \<Rightarrow> string + cli_command" where
  "parse_registration arguments = (case text_at arguments 0 of
      None \<Rightarrow> Inl ''registration requires capabilities, show, or approve''
    | Some action \<Rightarrow>
        if action = ''capabilities'' then
          map_sum id (\<lambda>(config, json). CmdRegistrationCapabilities config json)
            (parse_output_options (drop 1 arguments))
        else if action = ''show'' then
          (case text_at arguments 1 of
             None \<Rightarrow> Inl ''registration show requires a draft ID''
           | Some draft_id \<Rightarrow> map_sum id (\<lambda>(config, json). CmdRegistrationShow draft_id config json)
               (parse_output_options (drop 2 arguments)))
        else if action = ''approve'' then
          (case text_at arguments 1 of
             None \<Rightarrow> Inl ''registration approve requires a draft ID''
           | Some draft_id \<Rightarrow> map_sum id (\<lambda>(config, commits). CmdRegistrationApprove draft_id config commits)
               (parse_registration_approve_options (drop 2 arguments)))
        else Inl ''registration requires capabilities, show, or approve'')"

fun extension_validate_options ::
  "api_actor \<Rightarrow> bool \<Rightarrow> string option \<Rightarrow> string option \<Rightarrow> string list \<Rightarrow> string + cli_command" where
  "extension_validate_options actor actor_seen request_id config [] = (case request_id of
      None \<Rightarrow> Inl ''extension validate requires --request-id''
    | Some rid \<Rightarrow> Inr (CmdExtensionValidate actor rid config))"
| "extension_validate_options actor actor_seen request_id config (flag # rest) =
     (if flag = ''--actor'' \<and> \<not> actor_seen then
        (case option_value flag rest of
           Inl e \<Rightarrow> Inl e
         | Inr v \<Rightarrow> (case parse_actor v of
             Inl e \<Rightarrow> Inl e | Inr a \<Rightarrow> extension_validate_options a True request_id config (tl rest)))
      else if flag = ''--request-id'' \<and> request_id = None then
        (case option_value flag rest of
           Inl e \<Rightarrow> Inl e
         | Inr v \<Rightarrow> (case parse_request_id v of
             Inl e \<Rightarrow> Inl e | Inr rid \<Rightarrow> extension_validate_options actor actor_seen (Some rid) config (tl rest)))
      else if flag = ''--config'' \<and> config = None then
        (case option_value flag rest of
           Inl e \<Rightarrow> Inl e | Inr v \<Rightarrow> extension_validate_options actor actor_seen request_id (Some v) (tl rest))
      else if flag \<in> {''--actor'', ''--request-id'', ''--config''} then Inl (duplicate_option flag)
      else Inl (unsupported_option flag))"

definition parse_extension_validate :: "string list \<Rightarrow> string + cli_command" where
  "parse_extension_validate = extension_validate_options ApiUser False None None"

fun live_logs_options ::
  "string \<Rightarrow> live_selection \<Rightarrow> nat \<Rightarrow> string option \<Rightarrow> bool \<Rightarrow> display_timezone \<Rightarrow> bool \<Rightarrow> string list
     \<Rightarrow> string + cli_command" where
  "live_logs_options sid stream n config json timezone timezone_set [] =
     Inr (CmdLiveLogs sid stream n config json timezone)"
| "live_logs_options sid stream n config json timezone timezone_set (flag # rest) =
     (if flag = ''--json'' \<and> \<not> json then live_logs_options sid stream n config True timezone timezone_set rest
      else if flag = ''--stream'' then
        (case option_value flag rest of
           Inl e \<Rightarrow> Inl e
         | Inr v \<Rightarrow> (case Option.bind (os_str v) live_selection_parse of
             None \<Rightarrow> Inl ''--stream must be both, stdout, or stderr''
           | Some sel \<Rightarrow> live_logs_options sid sel n config json timezone timezone_set (tl rest)))
      else if flag = ''--tail'' then
        (case option_value flag rest of
           Inl e \<Rightarrow> Inl e
         | Inr v \<Rightarrow> (case Option.bind (os_str v) (parse_usize 10) of
             None \<Rightarrow> Inl ''--tail must be between 0 and 1000''
           | Some m \<Rightarrow>
               if m \<le> 1000 then live_logs_options sid stream m config json timezone timezone_set (tl rest)
               else Inl ''--tail must be between 0 and 1000''))
      else if flag = ''--config'' \<and> config = None then
        (case option_value flag rest of
           Inl e \<Rightarrow> Inl e
         | Inr v \<Rightarrow> live_logs_options sid stream n (Some v) json timezone timezone_set (tl rest))
      else if flag = ''--timezone'' \<and> \<not> timezone_set then
        (case option_value flag rest of
           Inl e \<Rightarrow> Inl e
         | Inr v \<Rightarrow> (case parse_display_timezone v of
             Inl e \<Rightarrow> Inl e | Inr tz \<Rightarrow> live_logs_options sid stream n config json tz True (tl rest)))
      else if flag \<in> {''--config'', ''--json'', ''--timezone''} then Inl (duplicate_option flag)
      else Inl (unsupported_option flag))"

definition first_service_id :: "string list \<Rightarrow> string + string" where
  "first_service_id arguments = (case text_at arguments 0 of
      Some v \<Rightarrow> if is_service_id v then Inr v else Inl ''valid service ID is required''
    | None \<Rightarrow> Inl ''valid service ID is required'')"

definition parse_live_logs :: "string list \<Rightarrow> string + cli_command" where
  "parse_live_logs arguments = (case first_service_id arguments of
      Inl e \<Rightarrow> Inl e
    | Inr sid \<Rightarrow> live_logs_options sid SelBoth 50 None False TzLocal False (drop 1 arguments))"

section \<open>Commands to a running supervisor\<close>

definition parse_remote_status :: "string list \<Rightarrow> string + cli_command" where
  "parse_remote_status arguments =
     map_sum id (\<lambda>(config, json). CmdRemote (RemStatus config json)) (parse_output_options arguments)"

definition parse_instance_status :: "string list \<Rightarrow> string + cli_command" where
  "parse_instance_status arguments =
     map_sum id (\<lambda>(config, json). CmdRemote (RemInstanceStatus config json)) (parse_output_options arguments)"

definition parse_registry_status :: "string list \<Rightarrow> string + cli_command" where
  "parse_registry_status arguments =
     map_sum id (\<lambda>(config, json). CmdRemote (RemRegistryStatus config json)) (parse_output_options arguments)"

fun simple_status_options :: "string option \<Rightarrow> bool \<Rightarrow> string list \<Rightarrow> string + cli_command" where
  "simple_status_options config show_pids [] = Inr (CmdRemote (RemSimpleStatus config show_pids))"
| "simple_status_options config show_pids (flag # rest) =
     (if flag = ''--pids'' \<and> \<not> show_pids then simple_status_options config True rest
      else if flag = ''--config'' \<and> config = None then
        (case option_value flag rest of Inl e \<Rightarrow> Inl e | Inr v \<Rightarrow> simple_status_options (Some v) show_pids (tl rest))
      else if flag \<in> {''--pids'', ''--config''} then Inl (duplicate_option flag)
      else if flag = ''--json'' then Inl ''simple-status always uses the human-readable table; use status --json for machine output''
      else Inl (unsupported_option flag))"

definition parse_simple_status :: "string list \<Rightarrow> string + cli_command" where
  "parse_simple_status = simple_status_options None False"

fun extension_status_options :: "string option \<Rightarrow> string option \<Rightarrow> bool \<Rightarrow> string list \<Rightarrow> string + cli_command" where
  "extension_status_options request_id config json [] = (case request_id of
      None \<Rightarrow> Inl ''extension status requires --request-id''
    | Some rid \<Rightarrow> Inr (CmdRemote (RemExtensionStatus rid config json)))"
| "extension_status_options request_id config json (flag # rest) =
     (if flag = ''--json'' \<and> \<not> json then extension_status_options request_id config True rest
      else if flag = ''--request-id'' \<and> request_id = None then
        (case option_value flag rest of
           Inl e \<Rightarrow> Inl e
         | Inr v \<Rightarrow> (case parse_request_id v of
             Inl e \<Rightarrow> Inl e | Inr rid \<Rightarrow> extension_status_options (Some rid) config json (tl rest)))
      else if flag = ''--config'' \<and> config = None then
        (case option_value flag rest of
           Inl e \<Rightarrow> Inl e | Inr v \<Rightarrow> extension_status_options request_id (Some v) json (tl rest))
      else if flag \<in> {''--json'', ''--request-id'', ''--config''} then Inl (duplicate_option flag)
      else Inl (unsupported_option flag))"

definition parse_extension_status :: "string list \<Rightarrow> string + cli_command" where
  "parse_extension_status = extension_status_options None None False"

fun events_options :: "u64 \<Rightarrow> nat \<Rightarrow> string option \<Rightarrow> bool \<Rightarrow> string list \<Rightarrow> string + cli_command" where
  "events_options after limit config json [] = Inr (CmdRemote (RemEvents after limit config json))"
| "events_options after limit config json (flag # rest) =
     (if flag = ''--json'' \<and> \<not> json then events_options after limit config True rest
      else if flag = ''--after'' then
        (case option_value flag rest of
           Inl e \<Rightarrow> Inl e
         | Inr v \<Rightarrow> (case Option.bind (os_str v) parse_u64 of
             None \<Rightarrow> Inl ''--after must be a non-negative integer''
           | Some n \<Rightarrow> events_options n limit config json (tl rest)))
      else if flag = ''--limit'' then
        (case option_value flag rest of
           Inl e \<Rightarrow> Inl e
         | Inr v \<Rightarrow> (case Option.bind (os_str v) (parse_usize 10) of
             None \<Rightarrow> Inl ''--limit must be between 1 and 200''
           | Some n \<Rightarrow>
               if 1 \<le> n \<and> n \<le> 200 then events_options after n config json (tl rest)
               else Inl ''--limit must be between 1 and 200''))
      else if flag = ''--config'' \<and> config = None then
        (case option_value flag rest of Inl e \<Rightarrow> Inl e | Inr v \<Rightarrow> events_options after limit (Some v) json (tl rest))
      else if flag \<in> {''--config'', ''--json''} then Inl (duplicate_option flag)
      else Inl (unsupported_option flag))"

definition parse_remote_events :: "string list \<Rightarrow> string + cli_command" where
  "parse_remote_events = events_options 0 50 None False"

fun logs_options ::
  "string \<Rightarrow> log_stream \<Rightarrow> nat \<Rightarrow> string option \<Rightarrow> bool \<Rightarrow> string list \<Rightarrow> string + cli_command" where
  "logs_options sid stream n config json [] = Inr (CmdRemote (RemLogs sid stream n config json))"
| "logs_options sid stream n config json (flag # rest) =
     (if flag = ''--json'' \<and> \<not> json then logs_options sid stream n config True rest
      else if flag = ''--stream'' then
        (case option_value flag rest of
           Inl e \<Rightarrow> Inl e
         | Inr v \<Rightarrow> (case Option.bind (os_str v) log_stream_parse of
             None \<Rightarrow> Inl ''--stream must be stdout or stderr''
           | Some stream' \<Rightarrow> logs_options sid stream' n config json (tl rest)))
      else if flag = ''--tail'' then
        (case option_value flag rest of
           Inl e \<Rightarrow> Inl e
         | Inr v \<Rightarrow> (case Option.bind (os_str v) (parse_usize 10) of
             None \<Rightarrow> Inl ''--tail must be between 1 and 1000''
           | Some m \<Rightarrow>
               if 1 \<le> m \<and> m \<le> 1000 then logs_options sid stream m config json (tl rest)
               else Inl ''--tail must be between 1 and 1000''))
      else if flag = ''--config'' \<and> config = None then
        (case option_value flag rest of Inl e \<Rightarrow> Inl e | Inr v \<Rightarrow> logs_options sid stream n (Some v) json (tl rest))
      else if flag \<in> {''--config'', ''--json''} then Inl (duplicate_option flag)
      else Inl (unsupported_option flag))"

definition parse_remote_logs :: "string list \<Rightarrow> string + cli_command" where
  "parse_remote_logs arguments = (case first_service_id arguments of
      Inl e \<Rightarrow> Inl e
    | Inr sid \<Rightarrow> logs_options sid LogStdout 100 None False (drop 1 arguments))"

subsection \<open>Mutations\<close>

text \<open>The service IDs up to the first option.\<close>

fun mutation_targets :: "string list \<Rightarrow> string list \<Rightarrow> string + string list \<times> string list" where
  "mutation_targets sids [] = Inr (sids, [])"
| "mutation_targets sids (argument # rest) = (case os_str argument of
      None \<Rightarrow> Inl ''service ID must be UTF-8''
    | Some a \<Rightarrow>
        if prefix ''--'' a then Inr (sids, argument # rest)
        else if is_service_id a then mutation_targets (sids @ [a]) rest
        else Inl ''service ID must contain lowercase ASCII letters, digits, or hyphens'')"

record mutation_options =
  mo_reason :: "string option"
  mo_actor :: api_actor
  mo_request_id :: "string option"
  mo_config :: "string option"
  mo_json :: bool

fun mutation_option_loop :: "mutation_options \<Rightarrow> string list \<Rightarrow> string + mutation_options" where
  "mutation_option_loop o' [] = Inr o'"
| "mutation_option_loop o' (flag # rest) =
     (if flag = ''--json'' \<and> \<not> mo_json o' then mutation_option_loop (o'\<lparr>mo_json := True\<rparr>) rest
      else if flag = ''--reason'' \<and> mo_reason o' = None then
        (case option_value flag rest of
           Inl e \<Rightarrow> Inl e
         | Inr v \<Rightarrow> (case os_str v of
             None \<Rightarrow> Inl ''reason must be UTF-8''
           | Some text' \<Rightarrow> mutation_option_loop (o'\<lparr>mo_reason := Some text'\<rparr>) (tl rest)))
      else if flag = ''--actor'' then
        (case option_value flag rest of
           Inl e \<Rightarrow> Inl e
         | Inr v \<Rightarrow> (case parse_actor v of
             Inl e \<Rightarrow> Inl e | Inr a \<Rightarrow> mutation_option_loop (o'\<lparr>mo_actor := a\<rparr>) (tl rest)))
      else if flag = ''--request-id'' \<and> mo_request_id o' = None then
        (case option_value flag rest of
           Inl e \<Rightarrow> Inl e
         | Inr v \<Rightarrow> (case parse_request_id v of
             Inl e \<Rightarrow> Inl e | Inr rid \<Rightarrow> mutation_option_loop (o'\<lparr>mo_request_id := Some rid\<rparr>) (tl rest)))
      else if flag = ''--config'' \<and> mo_config o' = None then
        (case option_value flag rest of
           Inl e \<Rightarrow> Inl e | Inr v \<Rightarrow> mutation_option_loop (o'\<lparr>mo_config := Some v\<rparr>) (tl rest))
      else if flag \<in> {''--reason'', ''--request-id'', ''--config'', ''--json''} then Inl (duplicate_option flag)
      else Inl (unsupported_option flag))"

fun action_name :: "control_action \<Rightarrow> string" where
  "action_name CtlStart = ''start''"
| "action_name CtlStop = ''stop''"
| "action_name CtlRestart = ''restart''"

definition mutation_reason :: "bool \<Rightarrow> control_action \<Rightarrow> mutation_options \<Rightarrow> string + string" where
  "mutation_reason allow_default_user_reason action o' = (case mo_reason o' of
      Some text' \<Rightarrow> Inr text'
    | None \<Rightarrow>
        if allow_default_user_reason \<and> mo_actor o' = ApiUser
        then Inr (''user CLI '' @ action_name action @ '' request'')
        else Inl ''--reason <text> is required'')"

text \<open>The action is one of the three the caller selected.\<close>

definition parse_remote_mutation ::
  "control_action \<Rightarrow> string list \<Rightarrow> bool
     \<Rightarrow> string + control_action \<times> string list \<times> string \<times> mutation_options" where
  "parse_remote_mutation action arguments allow_default_user_reason =
     (case mutation_targets [] arguments of
        Inl e \<Rightarrow> Inl e
      | Inr (sids, rest) \<Rightarrow>
          if sids = [] then Inl ''at least one service ID is required''
          else (case mutation_option_loop \<lparr>mo_reason = None, mo_actor = ApiUser, mo_request_id = None,
                 mo_config = None, mo_json = False\<rparr> rest of
              Inl e \<Rightarrow> Inl e
            | Inr o' \<Rightarrow> map_sum id (\<lambda>text'. (action, sids, text', o'))
                (mutation_reason allow_default_user_reason action o')))"

definition remote_mutation :: "control_action \<times> string list \<times> string \<times> mutation_options \<Rightarrow> cli_command" where
  "remote_mutation = (\<lambda>(action, sids, text', o').
     CmdRemote (RemMutate action sids text' (mo_actor o') (mo_request_id o') (mo_config o') (mo_json o')))"

text \<open>The waiting options of a reload, and the other arguments in their order.\<close>

fun wait_options :: "bool \<Rightarrow> bool \<Rightarrow> string list \<Rightarrow> string list \<Rightarrow> string + bool \<times> string list" where
  "wait_options waits seen others [] = Inr (waits, others)"
| "wait_options waits seen others (a # rest) =
     (if a \<in> {''--wait'', ''--no-wait''} \<and> seen then Inl ''duplicate option: --wait/--no-wait''
      else if a = ''--wait'' then wait_options True True others rest
      else if a = ''--no-wait'' then wait_options False True others rest
      else wait_options waits seen (others @ [a]) rest)"

definition parse_extension_reload :: "string list \<Rightarrow> string + cli_command" where
  "parse_extension_reload arguments = (case wait_options True False [] arguments of
      Inl e \<Rightarrow> Inl e
    | Inr (waits, others) \<Rightarrow>
        (case parse_remote_mutation CtlRestart (''chrome-extension'' # others) False of
           Inl e \<Rightarrow> Inl e
         | Inr (action, sids, text', o') \<Rightarrow>
             (case mo_request_id o' of
                None \<Rightarrow> Inl ''extension reload requires --request-id for relay idempotency and audit''
              | Some rid \<Rightarrow> Inr (CmdRemote
                  (RemExtensionReload text' (mo_actor o') rid (mo_config o') waits (mo_json o'))))))"

definition parse_supervisor_shutdown :: "string list \<Rightarrow> string + cli_command" where
  "parse_supervisor_shutdown arguments =
     (case parse_remote_mutation CtlStop (''supervisor'' # arguments) False of
        Inl e \<Rightarrow> Inl e
      | Inr (action, sids, text', o') \<Rightarrow>
          (case mo_request_id o' of
             None \<Rightarrow> Inl ''supervisor shutdown requires --request-id for idempotency and audit''
           | Some rid \<Rightarrow> Inr (CmdRemote
               (RemSupervisorShutdown text' (mo_actor o') rid (mo_config o') (mo_json o')))))"

definition cli_lifecycle_action :: "string \<Rightarrow> control_action option" where
  "cli_lifecycle_action name =
     (if name = ''start'' then Some CtlStart else if name = ''stop'' then Some CtlStop
      else if name = ''restart'' then Some CtlRestart else None)"

section \<open>The command line\<close>

definition parse_other :: "string list \<Rightarrow> string + cli_command" where
  "parse_other arguments = (case arguments of
      [argument] \<Rightarrow> Inl (''unsupported argument: '' @ utf8_lossy argument)
    | _ \<Rightarrow> Inl ''expected run, a lifecycle client command, --help, or --version'')"

text \<open>The commands of two words, and then the actions.\<close>

definition parse_nested :: "string list \<Rightarrow> string + cli_command" where
  "parse_nested arguments = (case arguments of
      [] \<Rightarrow> parse_other arguments
    | first # rest \<Rightarrow>
        if first = ''extension'' \<and> rest \<noteq> [] \<and> hd rest = ''reload'' then parse_extension_reload (tl rest)
        else if first = ''extension'' \<and> rest \<noteq> [] \<and> hd rest = ''status'' then parse_extension_status (tl rest)
        else if first = ''extension'' \<and> rest \<noteq> [] \<and> hd rest = ''validate'' then parse_extension_validate (tl rest)
        else if first = ''supervisor'' \<and> rest \<noteq> [] \<and> hd rest = ''shutdown'' then parse_supervisor_shutdown (tl rest)
        else (case cli_lifecycle_action first of
            Some action \<Rightarrow> map_sum id remote_mutation (parse_remote_mutation action rest True)
          | None \<Rightarrow> parse_other arguments))"

definition cli_parse :: "string list \<Rightarrow> string + cli_command" where
  "cli_parse arguments = (case arguments of
      [] \<Rightarrow> Inr (CmdRun None TzLocal)
    | first # rest \<Rightarrow>
        if rest = [] \<and> first \<in> {''--help'', ''-h''} then Inr CmdHelp
        else if rest = [] \<and> first \<in> {''--version'', ''-V''} then Inr CmdVersion
        else if rest = [] \<and> first = ''mcp-contract'' then Inr (CmdMcpContract False)
        else if rest = [''--json''] \<and> first = ''mcp-contract'' then Inr (CmdMcpContract True)
        else if first = ''run'' then parse_run rest
        else if first = ''validate-startup'' then parse_validate_startup rest
        else if first \<in> {''--config'', ''--timezone''} then parse_run arguments
        else if rest = [] \<and> first = ''mcp-proxy'' then Inr (CmdMcpProxy None)
        else if length rest = 2 \<and> first = ''mcp-proxy'' \<and> hd rest = ''--config''
          then Inr (CmdMcpProxy (Some (rest ! 1)))
        else if rest = [] \<and> first = ''registration-mcp'' then Inr (CmdRegistrationMcp None)
        else if length rest = 2 \<and> first = ''registration-mcp'' \<and> hd rest = ''--config''
          then Inr (CmdRegistrationMcp (Some (rest ! 1)))
        else if first = ''registration'' then parse_registration rest
        else if first = ''status'' then parse_remote_status rest
        else if first = ''simple-status'' then parse_simple_status rest
        else if first = ''instance-status'' then parse_instance_status rest
        else if first = ''registry-status'' then parse_registry_status rest
        else if first = ''events'' then parse_remote_events rest
        else if first = ''logs'' then parse_remote_logs rest
        else if first = ''live-logs'' then parse_live_logs rest
        else parse_nested arguments)"

end
