(* ===== verification/Cli_Order.thy ===== *)
theory Cli_Order
  imports Cli_Parse Shutdown_Order
begin

text \<open>
  \<open>src/src/cli.rs\<close>: the requests a command is turned into. A mutation of several services becomes one
  request for each, in the order of their dependencies, each with a request identifier and a timeout of
  its own. An \<open>expect\<close> that fails is a panic.
\<close>

section \<open>The order of a batch\<close>

text \<open>The requested services without repetition; a set of the code is the set of this list.\<close>

fun unique_requested :: "(string, service_config) btree \<Rightarrow> string list \<Rightarrow> string list \<Rightarrow> string + string list" where
  "unique_requested services unique [] = Inr unique"
| "unique_requested services unique (sid # rest) =
     (if bt_get services sid = None then Inl (''service not found in configuration: '' @ sid)
      else unique_requested services (if sid \<in> set unique then unique else unique @ [sid]) rest)"

text \<open>
  The search of \<open>visit_requested_start\<close>; as in \<open>visit_start\<close> the path \<open>visiting\<close> is passed down, and the
  loop over the services is the function over their list.
\<close>

function visit_requested_start ::
  "(string, service_config) btree \<Rightarrow> string set \<Rightarrow> string set \<Rightarrow> string \<Rightarrow> visit_state \<Rightarrow> (visit_state, string) outcome"
and visit_requested ::
  "(string, service_config) btree \<Rightarrow> string set \<Rightarrow> string set \<Rightarrow> string list \<Rightarrow> visit_state \<Rightarrow> (visit_state, string) outcome"
where
  "visit_requested_start services requested visiting sid (visited, ordered) =
     (if sid \<in> visited then Ok (visited, ordered)
      else if sid \<in> visiting then Err (''service dependency cycle reached at '' @ sid)
      else case bt_get services sid of
        None \<Rightarrow> Panic
      | Some service \<Rightarrow>
          (case visit_requested services requested (insert sid visiting) (sc_depends_on service) (visited, ordered) of
             Ok (visited, ordered) \<Rightarrow> Ok (insert sid visited, ordered @ [sid])
           | Err e \<Rightarrow> Err e
           | Panic \<Rightarrow> Panic))"
| "visit_requested services requested visiting [] st = Ok st"
| "visit_requested services requested visiting (d # ds) st =
     (if d \<in> requested then
        (case visit_requested_start services requested visiting d st of
           Ok st' \<Rightarrow> visit_requested services requested visiting ds st'
         | Err e \<Rightarrow> Err e
         | Panic \<Rightarrow> Panic)
      else visit_requested services requested visiting ds st)"
  by pat_completeness auto

termination
proof (relation "measures
    [\<lambda>x. case x of Inl (services, requested, visiting, _) \<Rightarrow> card (set (bt_keys services) - visiting)
       | Inr (services, requested, visiting, _) \<Rightarrow> card (set (bt_keys services) - visiting),
     \<lambda>x. case x of Inl _ \<Rightarrow> 0 | Inr (_, _, _, ds, _) \<Rightarrow> length ds]", simp, goal_cases)
  case (1 services requested visiting sid visited ordered service)
  have "sid \<in> set (bt_keys services)" using 1(3) by (rule bt_get_keys)
  then have "card (set (bt_keys services) - insert sid visiting) < card (set (bt_keys services) - visiting)"
    using 1(2) by (intro psubset_card_mono) auto
  then show ?case by simp
qed auto

declare visit_requested_start.simps [simp del] visit_requested.simps [simp del]

text \<open>The counts of the requested dependents, and the requested dependencies of each service.\<close>

fun count_requested_service :: "string set \<Rightarrow> string \<Rightarrow> string list \<Rightarrow> plan_counts \<Rightarrow> plan_counts option" where
  "count_requested_service requested sid [] counts = Some counts"
| "count_requested_service requested sid (d # ds) (remaining, dependencies) =
     (if d \<notin> requested then count_requested_service requested sid ds (remaining, dependencies)
      else case (bt_get remaining d, bt_get dependencies sid) of
        (Some n, Some l) \<Rightarrow> count_requested_service requested sid ds
          (bt_insert d (n + 1) remaining, bt_insert sid (l @ [d]) dependencies)
      | _ \<Rightarrow> None)"

fun count_requested ::
  "(string, service_config) btree \<Rightarrow> string set \<Rightarrow> string list \<Rightarrow> plan_counts \<Rightarrow> plan_counts option" where
  "count_requested services requested [] counts = Some counts"
| "count_requested services requested (sid # sids) counts = (case bt_get services sid of
      None \<Rightarrow> None
    | Some service \<Rightarrow>
        (case count_requested_service requested sid (sc_depends_on service) counts of
           None \<Rightarrow> None
         | Some counts' \<Rightarrow> count_requested services requested sids counts'))"

fun release_requested ::
  "string list \<Rightarrow> (string, nat) btree \<times> string list \<Rightarrow> ((string, nat) btree \<times> string list) option" where
  "release_requested [] (remaining, ready) = Some (remaining, ready)"
| "release_requested (d # ds) (remaining, ready) = (case bt_get remaining d of
      None \<Rightarrow> None
    | Some n \<Rightarrow>
        if n = 0 then None
        else release_requested ds (bt_insert d (n - 1) remaining, if n - 1 = 0 then ready @ [d] else ready))"

lemma release_requested_release: "release_requested ds st = Some st' \<longleftrightarrow> release ds st = Ok st'"
  by (induction ds st rule: release_requested.induct) (auto split: option.splits)

function batch_loop ::
  "(string, nat) btree \<Rightarrow> (string, string list) btree \<Rightarrow> (string, nat) btree \<Rightarrow> string list \<Rightarrow> string list
     \<Rightarrow> string list option" where
  "batch_loop positions dependencies remaining ready ordered =
     (case sort_key (position_of positions) ready of
        [] \<Rightarrow> Some ordered
      | sid # ready \<Rightarrow>
          (case bt_get dependencies sid of
             None \<Rightarrow> None
           | Some ds \<Rightarrow>
               (case release_requested ds (remaining, ready) of
                  None \<Rightarrow> None
                | Some (remaining, ready) \<Rightarrow> batch_loop positions dependencies remaining ready (ordered @ [sid]))))"
  by pat_completeness auto
termination
proof (relation "measure (\<lambda>(_, _, remaining, ready, _). length ready + card (needed remaining))", simp, goal_cases)
  case (1 positions dependencies remaining ready ordered sid rest ds x r q)
  then show ?case
    using release_measure [of ds remaining rest r q] sort_key_Cons_length [of "position_of positions" ready sid rest]
    by (simp add: release_requested_release)
qed

declare batch_loop.simps [simp del]

definition stop_order :: "(string, service_config) btree \<Rightarrow> string list \<Rightarrow> (string list, string) outcome" where
  "stop_order services unique =
     (let positions = bt_collect (zip unique [0..<length unique]);
          remaining = bt_collect (map (\<lambda>sid. (sid, 0)) unique);
          dependencies = bt_collect (map (\<lambda>sid. (sid, [])) unique) in
      case count_requested services (set unique) unique (remaining, dependencies) of
        None \<Rightarrow> Panic
      | Some (remaining, dependencies) \<Rightarrow>
          (case batch_loop positions dependencies remaining
              (filter (\<lambda>sid. bt_get remaining sid = Some 0) unique) [] of
             None \<Rightarrow> Panic
           | Some ordered \<Rightarrow>
               if length ordered \<noteq> length unique
               then Err ''service dependency cycle reached while ordering batch mutation''
               else Ok ordered))"

definition order_mutation_service_ids ::
  "supervisor_config \<Rightarrow> string list \<Rightarrow> control_action \<Rightarrow> (string list, string) outcome" where
  "order_mutation_service_ids c requested action = (case unique_requested (sup_services c) [] requested of
      Inl e \<Rightarrow> Err e
    | Inr unique \<Rightarrow>
        if unique = [] then Err ''at least one service ID is required''
        else if action \<noteq> CtlStop then
          (case visit_requested (sup_services c) (set unique) {} unique ({}, []) of
             Ok (visited, ordered) \<Rightarrow> Ok ordered | Err e \<Rightarrow> Err e | Panic \<Rightarrow> Panic)
        else stop_order (sup_services c) unique)"

section \<open>One request for each service\<close>

definition mutation_request_id :: "string \<Rightarrow> nat \<Rightarrow> nat \<Rightarrow> string + string" where
  "mutation_request_id base index amount =
     (if amount \<le> 1 then Inr base else parse_request_id (base @ ''-'' @ decimal (index + 1)))"

fun expand_each ::
  "(string \<Rightarrow> string option \<Rightarrow> remote_command) \<Rightarrow> string option \<Rightarrow> nat \<Rightarrow> nat \<Rightarrow> string list
     \<Rightarrow> string + remote_command list" where
  "expand_each command_of request_id amount index [] = Inr []"
| "expand_each command_of request_id amount index (sid # sids) =
     (case (case request_id of
          None \<Rightarrow> Inr None | Some base \<Rightarrow> map_sum id Some (mutation_request_id base index amount)) of
        Inl e \<Rightarrow> Inl e
      | Inr rid \<Rightarrow> map_sum id (\<lambda>rest. command_of sid rid # rest) (expand_each command_of request_id amount (index + 1) sids))"

definition expand_remote_mutations ::
  "remote_command \<Rightarrow> supervisor_config \<Rightarrow> (remote_command list, string) outcome" where
  "expand_remote_mutations command c = (case command of
      RemMutate action sids reason' actor request_id config json \<Rightarrow>
        (case order_mutation_service_ids c sids action of
           Err e \<Rightarrow> Err e
         | Panic \<Rightarrow> Panic
         | Ok ordered \<Rightarrow>
             (case expand_each (\<lambda>sid rid. RemMutate action [sid] reason' actor rid config json)
                 request_id (length ordered) 0 ordered of
                Inl e \<Rightarrow> Err e | Inr commands \<Rightarrow> Ok commands))
    | _ \<Rightarrow> Ok [command])"

section \<open>How long an answer may take\<close>

text \<open>
  The time the start of a service may take with its dependencies, each counted once: the visited set
  goes through the search.
\<close>

definition startup_budget :: "service_config \<Rightarrow> u64 \<Rightarrow> u64" where
  "startup_budget service budget = saturating_add
     (foldl (\<lambda>b p. saturating_add b (sp_startup_deadline_ms p)) budget (sc_startup_prerequisites service))
     (health_startup_deadline_ms (sc_health service))"

function budget_visit ::
  "(string, service_config) btree \<Rightarrow> string \<Rightarrow> string set \<Rightarrow> (u64 \<times> string set) option"
and budget_visits ::
  "(string, service_config) btree \<Rightarrow> string list \<Rightarrow> u64 \<Rightarrow> string set \<Rightarrow> (u64 \<times> string set) option"
where
  "budget_visit services sid visited =
     (if sid \<in> visited then Some (0, visited)
      else case bt_get services sid of
        None \<Rightarrow> None
      | Some service \<Rightarrow>
          (case budget_visits services (sc_depends_on service) 0 (insert sid visited) of
             None \<Rightarrow> None
           | Some (budget, visited') \<Rightarrow> Some (startup_budget service budget, visited')))"
| "budget_visits services [] budget visited = Some (budget, visited)"
| "budget_visits services (d # ds) budget visited = (case budget_visit services d visited of
      None \<Rightarrow> None
    | Some (b, visited') \<Rightarrow> budget_visits services ds (saturating_add budget b) visited')"
  by pat_completeness auto

termination
proof -
  have mono: "budget_visit_budget_visits_dom (Inl (services, sid, visited)) \<Longrightarrow>
       \<forall>b v. budget_visit services sid visited = Some (b, v) \<longrightarrow> visited \<subseteq> v"
    "budget_visit_budget_visits_dom (Inr (services, ds, budget, visited)) \<Longrightarrow>
       \<forall>b v. budget_visits services ds budget visited = Some (b, v) \<longrightarrow> visited \<subseteq> v"
    for services sid visited ds budget
  proof (induction rule: budget_visit_budget_visits.pinduct)
    case (1 services sid visited)
    then show ?case by (auto simp: budget_visit.psimps split: if_splits option.splits)
  next
    case (2 services budget visited)
    then show ?case by (simp add: budget_visits.psimps)
  next
    case (3 services d ds budget visited)
    then show ?case by (fastforce simp: budget_visits.psimps split: option.splits)
  qed
  show ?thesis
  proof (relation "measures
      [\<lambda>x. case x of Inl (services, _, visited) \<Rightarrow> card (set (bt_keys services) - visited)
         | Inr (services, _, _, visited) \<Rightarrow> card (set (bt_keys services) - visited),
       \<lambda>x. case x of Inl _ \<Rightarrow> 0 | Inr (_, ds, _, _) \<Rightarrow> length ds]", simp, goal_cases)
    case (1 services sid visited service)
    have "sid \<in> set (bt_keys services)" using 1(2) by (rule bt_get_keys)
    then have "card (set (bt_keys services) - insert sid visited) < card (set (bt_keys services) - visited)"
      using 1(1) by (intro psubset_card_mono) auto
    then show ?case by simp
  next
    case (3 services d ds budget visited x b v)
    then have "visited \<subseteq> v" using mono(1) by blast
    then have "card (set (bt_keys services) - v) \<le> card (set (bt_keys services) - visited)"
      by (intro card_mono) auto
    then show ?case by auto
  qed auto
qed

declare budget_visit.simps [simp del] budget_visits.simps [simp del]

definition dependency_startup_budget_ms :: "supervisor_config \<Rightarrow> string \<Rightarrow> u64 option" where
  "dependency_startup_budget_ms c sid = map_option fst (budget_visit (sup_services c) sid {})"

definition operation_margin_ms :: u64 where
  "operation_margin_ms = 10000"

fun action_budget :: "control_action \<Rightarrow> u64 \<Rightarrow> u64 \<Rightarrow> u64" where
  "action_budget CtlStart startup_ms grace_ms = startup_ms"
| "action_budget CtlStop startup_ms grace_ms = grace_ms"
| "action_budget CtlRestart startup_ms grace_ms = saturating_add grace_ms startup_ms"

fun operation_budget :: "supervisor_config \<Rightarrow> control_action \<Rightarrow> u64 \<Rightarrow> string list \<Rightarrow> u64 option" where
  "operation_budget c action amount [] = Some amount"
| "operation_budget c action amount (sid # sids) = (case bt_get (sup_services c) sid of
      None \<Rightarrow> None
    | Some service \<Rightarrow> (case dependency_startup_budget_ms c sid of
        None \<Rightarrow> None
      | Some startup_ms \<Rightarrow> operation_budget c action
          (saturating_add amount (action_budget action startup_ms (sc_shutdown_grace_ms service))) sids))"

text \<open>In nanoseconds.\<close>

definition lifecycle_response_timeout :: "supervisor_config \<Rightarrow> remote_command \<Rightarrow> nat option" where
  "lifecycle_response_timeout c command = (case command of
      RemMutate action sids reason' actor request_id config json \<Rightarrow>
        map_option (\<lambda>ms. from_millis (saturating_add ms operation_margin_ms)) (operation_budget c action 0 sids)
    | _ \<Rightarrow> None)"

section \<open>The request\<close>

record remote_request =
  rr_method :: string
  rr_target :: string
  rr_body :: "json option"
  rr_wait_request_id :: "string option"
  rr_retry_safe :: bool

fun api_actor_name :: "api_actor \<Rightarrow> string" where
  "api_actor_name ApiUser = ''user''"
| "api_actor_name ApiCodex = ''codex''"

fun stream_name :: "log_stream \<Rightarrow> string" where
  "stream_name LogStdout = ''stdout''"
| "stream_name LogStderr = ''stderr''"

definition mutation_body :: "api_actor \<Rightarrow> string \<Rightarrow> string option \<Rightarrow> json" where
  "mutation_body actor reason' request_id = json_object
     [(''actor'', JString (api_actor_name actor)), (''reason'', JString reason'),
      (''requestId'', case request_id of None \<Rightarrow> JNull | Some rid \<Rightarrow> JString rid)]"

definition query_request :: "string \<Rightarrow> remote_request" where
  "query_request target = \<lparr>rr_method = ''GET'', rr_target = target, rr_body = None,
     rr_wait_request_id = None, rr_retry_safe = True\<rparr>"

definition cooperative_request_target :: "string \<Rightarrow> string" where
  "cooperative_request_target rid = ''/v1/cooperative-actions/chrome-extension/requests/'' @ rid"

text \<open>\<open>None\<close> is the failed expectation of a service.\<close>

fun prepare_remote_request :: "remote_command \<Rightarrow> remote_request option" where
  "prepare_remote_request (RemStatus _ _) = Some (query_request ''/v1/services'')"
| "prepare_remote_request (RemSimpleStatus _ _) = Some (query_request ''/v1/services'')"
| "prepare_remote_request (RemInstanceStatus _ _) = Some (query_request ''/v1/instance'')"
| "prepare_remote_request (RemRegistryStatus _ _) = Some (query_request ''/v1/registry'')"
| "prepare_remote_request (RemEvents after limit _ _) = Some (query_request
     (''/v1/events?after='' @ decimal (unat after) @ ''&limit='' @ decimal limit))"
| "prepare_remote_request (RemLogs sid stream n _ _) = Some (query_request
     (''/v1/services/'' @ sid @ ''/logs?stream='' @ stream_name stream @ ''&tail='' @ decimal n))"
| "prepare_remote_request (RemMutate action sids reason' actor request_id _ _) = (case sids of
      [] \<Rightarrow> None
    | sid # _ \<Rightarrow> Some
        \<lparr>rr_method = ''POST'', rr_target = ''/v1/services/'' @ sid @ ''/'' @ action_name action,
         rr_body = Some (mutation_body actor reason' request_id), rr_wait_request_id = None,
         rr_retry_safe = (request_id \<noteq> None)\<rparr>)"
| "prepare_remote_request (RemExtensionReload reason' actor rid _ waits _) = Some
     \<lparr>rr_method = ''POST'', rr_target = ''/v1/cooperative-actions/chrome-extension/reload-self'',
      rr_body = Some (mutation_body actor reason' (Some rid)),
      rr_wait_request_id = (if waits then Some rid else None), rr_retry_safe = True\<rparr>"
| "prepare_remote_request (RemExtensionStatus rid _ _) = Some (query_request (cooperative_request_target rid))"
| "prepare_remote_request (RemSupervisorShutdown reason' actor rid _ _) = Some
     \<lparr>rr_method = ''POST'', rr_target = ''/v1/supervisor/shutdown'',
      rr_body = Some (mutation_body actor reason' (Some rid)), rr_wait_request_id = None,
      rr_retry_safe = True\<rparr>"

end
