(* ===== verification/Cli_Order_Facts.thy ===== *)
theory Cli_Order_Facts
  imports Cli_Order Config_Properties
begin

text \<open>
  What the order of a batch is: the orders of \<open>Dependency\<close> and \<open>Shutdown_Order\<close> on the requested services
  alone. Every service of a valid configuration that was asked for comes exactly once.
\<close>

section \<open>The requested services\<close>

lemma unique_requested_spec:
  "unique_requested services unique requested = r \<Longrightarrow> distinct unique \<Longrightarrow>
     (case r of
        Inl e \<Rightarrow> \<exists>sid \<in> set requested. bt_get services sid = None
          \<and> e = ''service not found in configuration: '' @ sid
      | Inr unique' \<Rightarrow> distinct unique' \<and> set unique' = set unique \<union> set requested
          \<and> (\<forall>sid \<in> set requested. bt_get services sid \<noteq> None))"
proof (induction services unique requested arbitrary: r rule: unique_requested.induct)
  case (2 services unique sid rest)
  show ?case
  proof (cases "bt_get services sid = None")
    case False
    let ?next = "if sid \<in> set unique then unique else unique @ [sid]"
    have "distinct ?next" using 2(3) by simp
    from 2(1) [OF False refl this] have
      "case unique_requested services ?next rest of
         Inl e \<Rightarrow> \<exists>sid \<in> set rest. bt_get services sid = None \<and> e = ''service not found in configuration: '' @ sid
       | Inr unique' \<Rightarrow> distinct unique' \<and> set unique' = set ?next \<union> set rest
           \<and> (\<forall>sid \<in> set rest. bt_get services sid \<noteq> None)" .
    moreover have "r = unique_requested services ?next rest" using 2(2) False by simp
    ultimately show ?thesis using False by (cases "unique_requested services ?next rest") auto
  qed (use 2(2) in auto)
qed auto

text \<open>The requested part of the dependencies, as snapshots for the orders of the library.\<close>

definition requested_deps :: "(string, service_config) btree \<Rightarrow> string set \<Rightarrow> string \<Rightarrow> string list" where
  "requested_deps services requested sid = (case bt_get services sid of
      None \<Rightarrow> [] | Some service \<Rightarrow> filter (\<lambda>d. d \<in> requested) (sc_depends_on service))"

definition requested_snapshot :: "(string, service_config) btree \<Rightarrow> string set \<Rightarrow> string \<Rightarrow> service_snapshot" where
  "requested_snapshot services requested sid =
     undefined\<lparr>ss_id := sid, ss_depends_on := requested_deps services requested sid\<rparr>"

definition requested_snapshots :: "(string, service_config) btree \<Rightarrow> string list \<Rightarrow> service_snapshot list" where
  "requested_snapshots services unique = map (requested_snapshot services (set unique)) unique"

text \<open>The dependencies among the requested services.\<close>

definition among :: "(string, service_config) btree \<Rightarrow> string set \<Rightarrow> (string \<times> string) set" where
  "among services requested = declared_deps services \<inter> requested \<times> requested"

lemma requested_snapshot_fields [simp]:
  "ss_id (requested_snapshot services requested sid) = sid"
  "ss_depends_on (requested_snapshot services requested sid) = requested_deps services requested sid"
  by (simp_all add: requested_snapshot_def)

lemma requested_ids [simp]:
  "map ss_id (requested_snapshots services unique) = unique"
  "length (requested_snapshots services unique) = length unique"
  by (simp_all add: requested_snapshots_def comp_def)

lemma requested_index:
  assumes "distinct unique"
  shows "bt_get (snapshot_index (requested_snapshots services unique)) sid =
    (if sid \<in> set unique then Some (requested_snapshot services (set unique) sid) else None)"
proof -
  have "map_of (map (\<lambda>x. (x, f x)) unique) sid = (if sid \<in> set unique then Some (f sid) else None)"
    for f :: "string \<Rightarrow> service_snapshot"
    by (induction unique) auto
  then show ?thesis using assms
    by (simp add: snapshot_index_def requested_snapshots_def bt_collect_get_distinct comp_def)
qed

lemma requested_deps_among:
  "sid \<in> requested \<Longrightarrow> d \<in> set (requested_deps services requested sid) \<longleftrightarrow> (sid, d) \<in> among services requested"
  by (cases "bt_get services sid") (auto simp: among_def declared_deps_def requested_deps_def)

lemma requested_relations:
  assumes "distinct unique"
  shows "depends (snapshot_index (requested_snapshots services unique)) = among services (set unique)"
    and "snapshot_deps (requested_snapshots services unique) = among services (set unique)"
proof -
  have rel: "(x, d) \<in> among services (set unique) \<longleftrightarrow> x \<in> set unique \<and> d \<in> set (requested_deps services (set unique) x)"
    for x d using requested_deps_among [of x "set unique" d services] by (auto simp: among_def)
  show "depends (snapshot_index (requested_snapshots services unique)) = among services (set unique)"
    by (auto simp: depends_def requested_index [OF assms] rel split: if_splits)
  show "snapshot_deps (requested_snapshots services unique) = among services (set unique)"
    by (auto simp: snapshot_deps_def requested_snapshots_def rel)
qed

section \<open>Starting\<close>

definition as_outcome :: "control_error + 'b \<Rightarrow> ('b, string) outcome" where
  "as_outcome r = (case r of Inl e \<Rightarrow> Err (ce_message e) | Inr v \<Rightarrow> Ok v)"

lemma as_outcome_simps [simp]: "as_outcome (Inl e) = Err (ce_message e)" "as_outcome (Inr v) = Ok v"
  by (simp_all add: as_outcome_def)

lemma visit_requested_is_visit:
  fixes unique :: "string list"
  assumes dist: "distinct unique"
  shows "requested = set unique \<Longrightarrow> \<forall>sid \<in> set unique. bt_get services sid \<noteq> None \<Longrightarrow> sid \<in> requested \<Longrightarrow>
      visit_requested_start services requested visiting sid (visited, ordered) =
        as_outcome (visit_start (snapshot_index (requested_snapshots services unique)) visiting sid (visited, ordered))"
    and "requested = set unique \<Longrightarrow> \<forall>sid \<in> set unique. bt_get services sid \<noteq> None \<Longrightarrow>
      visit_requested services requested visiting ds st =
        as_outcome (visit_all (snapshot_index (requested_snapshots services unique)) visiting
          (filter (\<lambda>d. d \<in> requested) ds) st)"
proof (induction services requested visiting sid "(visited, ordered)" and services requested visiting ds st
    arbitrary: visited ordered rule: visit_requested_start_visit_requested.induct)
  case (1 services requested visiting sid visited ordered)
  let ?idx = "snapshot_index (requested_snapshots services unique)"
  obtain service where s: "bt_get services sid = Some service" using 1(3,4) 1(2) by blast
  have idx: "bt_get ?idx sid = Some (requested_snapshot services requested sid)"
    using 1(2,4) by (simp add: requested_index [OF dist])
  have deps: "requested_deps services requested sid = filter (\<lambda>d. d \<in> requested) (sc_depends_on service)"
    by (simp add: requested_deps_def s)
  show ?case
  proof (cases "sid \<in> visited \<or> sid \<in> visiting")
    case True
    then show ?thesis
      by (auto simp: visit_requested_start.simps visit_start.simps idx ce_internal_def)
  next
    case False
    then have "visit_requested services requested (insert sid visiting) (sc_depends_on service) (visited, ordered)
      = as_outcome (visit_all ?idx (insert sid visiting) (requested_deps services requested sid) (visited, ordered))"
      using 1(1) [OF _ _ s 1(2,3)] deps by simp
    then show ?thesis using False
      by (simp add: visit_requested_start.simps visit_start.simps idx s as_outcome_def split: sum.split)
  qed
next
  case (2 services requested visiting st)
  then show ?case by (simp add: visit_requested.simps visit_all.simps)
next
  case (3 services requested visiting d ds st)
  show ?case
  proof (cases "d \<in> requested")
    case False
    then show ?thesis using 3 by (simp add: visit_requested.simps)
  next
    case True
    obtain v o' where st: "st = (v, o')" by force
    show ?thesis
    proof (cases "visit_start (snapshot_index (requested_snapshots services unique)) visiting d st")
      case (Inl e)
      then show ?thesis using 3 True by (simp add: visit_requested.simps visit_all.simps st)
    next
      case (Inr st')
      then show ?thesis using 3 True by (simp add: visit_requested.simps visit_all.simps st)
    qed
  qed
qed

lemma start_order:
  assumes "distinct unique" and "\<forall>sid \<in> set unique. bt_get services sid \<noteq> None"
  shows "visit_requested services (set unique) {} unique ({}, []) =
    (case visit_all (snapshot_index (requested_snapshots services unique)) {} unique ({}, []) of
       Inl e \<Rightarrow> Err (ce_message e) | Inr st \<Rightarrow> Ok st)"
proof -
  have "filter (\<lambda>d. d \<in> set unique) unique = unique" by (simp add: filter_id_conv)
  then show ?thesis
    using visit_requested_is_visit(2) [OF assms(1) refl assms(2), of "{}" unique "({}, [])"]
    by (simp add: as_outcome_def)
qed

section \<open>Stopping\<close>

lemma count_requested_service_is_count:
  "count_requested_service requested sid ds counts = Some counts' \<longleftrightarrow>
     count_service sid (filter (\<lambda>d. d \<in> requested) ds) counts = Inr counts'"
  by (induction requested sid ds counts rule: count_requested_service.induct) (auto split: option.splits)

lemma count_requested_is_count:
  assumes "\<forall>sid \<in> set sids. bt_get services sid \<noteq> None"
  shows "count_requested services requested sids counts = Some counts' \<longleftrightarrow>
    count_services (map (requested_snapshot services requested) sids) counts = Inr counts'"
  using assms
proof (induction sids arbitrary: counts)
  case (Cons sid sids)
  then obtain service where s: "bt_get services sid = Some service" by auto
  have deps: "requested_deps services requested sid = filter (\<lambda>d. d \<in> requested) (sc_depends_on service)"
    by (simp add: requested_deps_def s)
  show ?case
  proof (cases "count_requested_service requested sid (sc_depends_on service) counts")
    case None
    then have "\<And>c. count_service sid (requested_deps services requested sid) counts \<noteq> Inr c"
      unfolding deps by (simp add: count_requested_service_is_count [symmetric])
    then show ?thesis using None s
      by (cases "count_service sid (requested_deps services requested sid) counts") auto
  next
    case (Some c)
    then have "count_service sid (requested_deps services requested sid) counts = Inr c"
      by (simp add: deps count_requested_service_is_count)
    then show ?thesis using Cons Some s by simp
  qed
qed simp

lemma batch_loop_is_shutdown_loop:
  "batch_loop positions dependencies remaining ready ordered = Some order \<longleftrightarrow>
     shutdown_loop positions dependencies remaining ready ordered = Ok order"
proof (induction positions dependencies remaining ready ordered rule: batch_loop.induct)
  case (1 positions dependencies remaining ready ordered)
  show ?case
  proof (cases "sort_key (position_of positions) ready")
    case Nil
    then show ?thesis by (simp add: batch_loop.simps shutdown_loop.simps)
  next
    case (Cons sid rest)
    show ?thesis
    proof (cases "bt_get dependencies sid")
      case None
      then show ?thesis using Cons by (simp add: batch_loop.simps shutdown_loop.simps)
    next
      case (Some ds)
      show ?thesis
      proof (cases "release_requested ds (remaining, rest)")
        case None
        then have "\<And>st. release ds (remaining, rest) \<noteq> Ok st" by (simp add: release_requested_release [symmetric])
        then show ?thesis using Cons Some None
          by (cases "release ds (remaining, rest)") (auto simp: batch_loop.simps shutdown_loop.simps)
      next
        case rel: (Some st)
        obtain r q where st: "st = (r, q)" by force
        have "release ds (remaining, rest) = Ok (r, q)" using rel by (simp add: st release_requested_release)
        then show ?thesis using 1 [OF Cons Some rel [unfolded st] refl] Cons Some rel
          by (simp add: batch_loop.simps [of _ _ remaining] shutdown_loop.simps [of _ _ remaining] st)
      qed
    qed
  qed
qed

lemma stop_order_is_shutdown:
  assumes "\<forall>sid \<in> set unique. bt_get services sid \<noteq> None"
    and "stable_shutdown_order (requested_snapshots services unique) = Ok order"
  shows "stop_order services unique = Ok order"
proof -
  let ?snaps = "requested_snapshots services unique"
  let ?rem = "bt_collect (map (\<lambda>sid. (sid, 0 :: nat)) unique)"
  let ?deps = "bt_collect (map (\<lambda>sid. (sid, [] :: string list)) unique)"
  let ?positions = "bt_collect (zip unique [0..<length unique])"
  have init: "map (\<lambda>s. (ss_id s, v)) ?snaps = map (\<lambda>sid. (sid, v)) unique" for v :: 'v
    by (simp add: requested_snapshots_def comp_def)
  have start: "map ss_id (filter (\<lambda>s. bt_get r (ss_id s) = Some 0) ?snaps)
      = filter (\<lambda>sid. bt_get r sid = Some 0) unique" for r :: "(string, nat) btree"
    by (simp add: requested_snapshots_def filter_map comp_def)
  obtain remaining dependencies where counted: "count_services ?snaps (?rem, ?deps) = Inr (remaining, dependencies)"
    using assms(2) by (auto simp: stable_shutdown_order_def init Let_def split: sum.splits)
  have loop: "shutdown_loop ?positions dependencies remaining
      (filter (\<lambda>sid. bt_get remaining sid = Some 0) unique) [] = Ok order" and len: "length order = length unique"
    using assms(2) counted
    by (auto simp: stable_shutdown_order_def init start Let_def split: outcome.splits if_splits)
  have "count_requested services (set unique) unique (?rem, ?deps) = Some (remaining, dependencies)"
    using counted assms(1) by (simp add: count_requested_is_count requested_snapshots_def)
  then show ?thesis using loop len by (simp add: stop_order_def batch_loop_is_shutdown_loop [symmetric])
qed

section \<open>The order of a batch\<close>

text \<open>Every element of the list comes after the elements it is related to.\<close>

fun after_all :: "('b \<times> 'b) set \<Rightarrow> 'b list \<Rightarrow> 'b list \<Rightarrow> bool" where
  "after_all R before [] = True"
| "after_all R before (x # xs) \<longleftrightarrow> R `` {x} \<subseteq> set before \<and> after_all R (before @ [x]) xs"

lemma dependencies_first_after:
  "dependencies_first services before xs \<Longrightarrow> after_all (depends services) before xs"
  by (induction xs arbitrary: before) auto

lemma dependents_first_after: "dependents_first R before xs \<Longrightarrow> after_all (R\<inverse>) before xs"
  by (induction xs arbitrary: before) auto

lemma among_acyclic: "acyclic (declared_deps services) \<Longrightarrow> acyclic (among services requested)"
  unfolding among_def by (rule acyclic_subset) auto

lemma batch_order:
  assumes acyclic: "acyclic (declared_deps (sup_services c))" and some: "requested \<noteq> []"
    and found: "\<forall>sid \<in> set requested. bt_get (sup_services c) sid \<noteq> None"
  shows "\<exists>order. order_mutation_service_ids c requested action = Ok order \<and> distinct order
    \<and> set order = set requested
    \<and> (if action = CtlStop then after_all ((among (sup_services c) (set requested))\<inverse>) [] order
       else after_all (among (sup_services c) (set requested)) [] order)"
proof -
  let ?S = "sup_services c"
  obtain unique where u: "unique_requested ?S [] requested = Inr unique" "distinct unique" "set unique = set requested"
    using unique_requested_spec [of ?S "[]" requested, OF refl] found
    by (cases "unique_requested ?S [] requested") auto
  have ne: "unique \<noteq> []" using u(3) some by (metis set_empty)
  have in_config: "\<forall>sid \<in> set unique. bt_get ?S sid \<noteq> None" using u(3) found by simp
  note rel = requested_relations [OF u(2), of ?S]
  have acyc: "acyclic (among ?S (set unique))" by (rule among_acyclic [OF acyclic])
  show ?thesis
  proof (cases "action = CtlStop")
    case True
    let ?snaps = "requested_snapshots ?S unique"
    have "case stable_shutdown_order ?snaps of
        Ok order \<Rightarrow> distinct order \<and> set order = snapshot_ids ?snaps \<and> dependents_first (snapshot_deps ?snaps) [] order
      | Err e \<Rightarrow> (\<exists>(x, d) \<in> snapshot_deps ?snaps. d \<notin> snapshot_ids ?snaps \<and> e = ce_service_not_found d)
          \<or> \<not> acyclic (snapshot_deps ?snaps) \<and> ce_kind e = KindInternal
      | Panic \<Rightarrow> False"
      by (rule shutdown_order_spec) (simp add: u(2))
    moreover have "snapshot_ids ?snaps = set unique" unfolding snapshot_ids_def by simp
    ultimately obtain order where order: "stable_shutdown_order ?snaps = Ok order" "distinct order"
      "set order = set unique" "dependents_first (among ?S (set unique)) [] order"
      using acyc by (auto simp: rel among_def split: outcome.splits)
    from stop_order_is_shutdown [OF in_config order(1)] order dependents_first_after show ?thesis
      using u ne True by (auto simp: order_mutation_service_ids_def)
  next
    case False
    let ?idx = "snapshot_index (requested_snapshots ?S unique)"
    have "\<exists>order. stable_start_order (requested_snapshots ?S unique) unique = Inr order"
    proof (rule stable_start_order_total)
      show "acyclic (depends ?idx)" using acyc by (simp add: rel)
      fix d assume "d \<in> (depends ?idx)\<^sup>* `` set unique"
      then obtain s where "(s, d) \<in> (among ?S (set unique))\<^sup>*" "s \<in> set unique" by (auto simp: rel)
      then have "d \<in> set unique" by (induction rule: rtrancl_induct) (auto simp: among_def)
      then show "bt_get ?idx d \<noteq> None" by (simp add: requested_index [OF u(2)])
    qed
    then obtain order where order: "stable_start_order (requested_snapshots ?S unique) unique = Inr order" by blast
    note spec = stable_start_order_Inr [OF order]
    have "set order = set unique"
    proof -
      have "d \<in> set unique" if "(s, d) \<in> (among ?S (set unique))\<^sup>*" "s \<in> set unique" for s d
        using that by (induction rule: rtrancl_induct) (auto simp: among_def)
      then show ?thesis unfolding spec(3) rel by auto
    qed
    moreover have "after_all (among ?S (set unique)) [] order"
      using dependencies_first_after [OF spec(2)] by (simp add: rel)
    moreover obtain v where "visit_all ?idx {} unique ({}, []) = Inr (v, order)"
      using order by (auto simp: stable_start_order_def split: sum.splits prod.splits)
    moreover from calculation(3) have "visit_requested ?S (set requested) {} unique ({}, []) = Ok (v, order)"
      using start_order [OF u(2) in_config] by (simp add: u(3))
    ultimately show ?thesis using u ne False spec(1) by (simp add: order_mutation_service_ids_def)
  qed
qed

end
