(* ===== verification/Cli_Client.thy ===== *)
theory Cli_Client
  imports Cli_Order Control_Client Extension_Validation
begin

text \<open>
  \<open>src/src/cli.rs\<close>: the commands that talk to a running supervisor, with their retries, their waiting
  and what they print, and the local commands. The record \<open>cli_host\<close> is what they use of the host; the
  clients of \<open>Control_Client\<close> are its first field. Waiting for an operation and following live logs have
  no bound in the code: such a run is \<open>None\<close> when it does not end.
\<close>

section \<open>The host\<close>

record ('w, 'a, 'c, 't) cli_host =
  ch_client :: "('w, 'a, 'c) client_host"
  ch_paths :: path_library
  ch_library :: config_library
  ch_target :: build_target
  ch_var :: "string \<Rightarrow> string option"
  ch_chrono :: "'t chrono"
  ch_read_file :: "string \<Rightarrow> 'w \<Rightarrow> (string + string) \<times> 'w"
  ch_read_token :: "string \<Rightarrow> 'w \<Rightarrow> (string io_result_error + string) \<times> 'w"
  ch_show_io :: "string io_result_error \<Rightarrow> string"
  ch_address :: "string \<Rightarrow> string + 'a"
  ch_show_json :: "json \<Rightarrow> string"
  ch_pretty :: "json \<Rightarrow> string"
  ch_event_json :: "live_event \<Rightarrow> string"
  ch_report_json :: "extension_validation_report \<Rightarrow> json"
  ch_sleep :: "nat \<Rightarrow> 'w \<Rightarrow> 'w"
  ch_out :: "string \<Rightarrow> 'w \<Rightarrow> 'w"
  ch_err :: "string \<Rightarrow> 'w \<Rightarrow> 'w"

definition println :: "('w, 'a, 'c, 't) cli_host \<Rightarrow> string \<Rightarrow> ('w, unit, 'e) op" where
  "println h s = modify_op (ch_out h (s @ [newline]))"

definition eprintln :: "('w, 'a, 'c, 't) cli_host \<Rightarrow> string \<Rightarrow> ('w, unit, 'e) op" where
  "eprintln h s = modify_op (ch_err h (s @ [newline]))"

text \<open>An operation that may not end.\<close>

type_synonym ('w, 'b, 'e) run = "'w \<Rightarrow> (('b, 'e) outcome \<times> 'w) option"

definition ends :: "('w, 'b, 'e) op \<Rightarrow> ('w, 'b, 'e) run" where
  "ends m = (\<lambda>w. Some (m w))"

definition bind_run :: "('w, 'b, 'e) run \<Rightarrow> ('b \<Rightarrow> ('w, 'd, 'e) run) \<Rightarrow> ('w, 'd, 'e) run" where
  "bind_run m f = (\<lambda>w. case m w of
      None \<Rightarrow> None
    | Some (Ok b, w') \<Rightarrow> f b w'
    | Some (Err e, w') \<Rightarrow> Some (Err e, w')
    | Some (Panic, w') \<Rightarrow> Some (Panic, w'))"

section \<open>Opening a session\<close>

record 'a control_session =
  cs_path :: string
  cs_config :: supervisor_config
  cs_token_path :: string
  cs_token :: string
  cs_address :: 'a

definition read_file_op :: "('w, 'a, 'c, 't) cli_host \<Rightarrow> string \<Rightarrow> ('w, string, string) op" where
  "read_file_op h path = (\<lambda>w. case ch_read_file h path w of
      (Inl e, w') \<Rightarrow> (Err (''failed to read '' @ path @ '': '' @ e), w') | (Inr source, w') \<Rightarrow> (Ok source, w'))"

text \<open>The configuration a command uses, structurally valid, with its path.\<close>

definition load_config ::
  "('w, 'a, 'c, 't) cli_host \<Rightarrow> string option \<Rightarrow> ('w, string \<times> supervisor_config, string) op" where
  "load_config h explicit =
     bind_op (lift_sum (map_sum show_config_path_error id
         (resolve_config_path (ch_paths h) (ch_target h) (ch_var h) explicit))) (\<lambda>resolved.
     bind_op (read_file_op h (rp_path resolved)) (\<lambda>source.
     bind_op (lift_sum (map_sum show_config_error id (parse_json (ch_library h) source))) (\<lambda>c.
     seq_op (lift_sum (map_sum show_config_error id (validate_structure (pl_env (ch_paths h)) c)))
       (return_op (rp_path resolved, c)))))"

definition open_session ::
  "('w, 'a, 'c, 't) cli_host \<Rightarrow> string option \<Rightarrow> ('w, 'a control_session, string) op" where
  "open_session h explicit = bind_op (load_config h explicit) (\<lambda>(path, c).
     let token_path = resolve_token_path (ch_paths h) path (cc_token_file (sup_control c)) in
     bind_op (\<lambda>w. case ch_read_token h token_path w of
         (content, w') \<Rightarrow> (case token_load content of
             Inl e \<Rightarrow> (Err (show_token_error (ch_show_io h) token_path e), w') | Inr token \<Rightarrow> (Ok token, w'))) (\<lambda>token.
     bind_op (lift_sum (map_sum (\<lambda>e. ''invalid control address: '' @ e) id
         (ch_address h (cc_host (sup_control c) @ '':'' @ decimal (unat (cc_port (sup_control c))))))) (\<lambda>address.
       return_op \<lparr>cs_path = path, cs_config = c, cs_token_path = token_path, cs_token = token,
         cs_address = address\<rparr>)))"

section \<open>Requests with retries\<close>

definition max_attempts :: nat where
  "max_attempts = 5"

text \<open>\<open>100 << (attempt - 1)\<close> milliseconds.\<close>

definition backoff :: "nat \<Rightarrow> nat" where
  "backoff attempt = from_millis (push_bit (attempt - 1) 100)"

function retry_loop ::
  "('w, 'a, 'c, 't) cli_host \<Rightarrow> bool \<Rightarrow> ('w, json, control_client_error) op \<Rightarrow> nat \<Rightarrow> ('w, json, string) op" where
  "retry_loop h retry_safe send attempt w = (case send w of
      (Ok response, w1) \<Rightarrow> (Ok response, w1)
    | (Panic, w1) \<Rightarrow> (Panic, w1)
    | (Err e, w1) \<Rightarrow>
        if retry_safe \<and> is_transient e \<and> attempt < max_attempts
        then retry_loop h retry_safe send (attempt + 1) (ch_sleep h (backoff attempt) w1)
        else (Err (show_client_error (ch_show_json h) e), w1))"
  by pat_completeness auto
termination
  by (relation "measure (\<lambda>(_, _, _, attempt, _). max_attempts - attempt)") auto

declare retry_loop.simps [simp del]

definition send_request ::
  "('w, 'a, 'c, 't) cli_host \<Rightarrow> 'a control_session \<Rightarrow> string \<Rightarrow> string \<Rightarrow> json option \<Rightarrow> nat option
     \<Rightarrow> ('w, json, control_client_error) op" where
  "send_request h se request_method target body response_timeout = (case response_timeout of
      Some timeout \<Rightarrow> client_request_with_response_timeout (ch_client h) (cs_address se) (cs_token se)
        request_method target body timeout
    | None \<Rightarrow> client_request (ch_client h) (cs_address se) (cs_token se) request_method target body)"

definition control_request_with_retry_timeout ::
  "('w, 'a, 'c, 't) cli_host \<Rightarrow> 'a control_session \<Rightarrow> string \<Rightarrow> string \<Rightarrow> json option \<Rightarrow> bool \<Rightarrow> nat option
     \<Rightarrow> ('w, json, string) op" where
  "control_request_with_retry_timeout h se request_method target body retry_safe response_timeout =
     retry_loop h retry_safe (send_request h se request_method target body response_timeout) 1"

definition control_request_with_retry ::
  "('w, 'a, 'c, 't) cli_host \<Rightarrow> 'a control_session \<Rightarrow> string \<Rightarrow> string \<Rightarrow> json option \<Rightarrow> bool \<Rightarrow> ('w, json, string) op" where
  "control_request_with_retry h se request_method target body retry_safe =
     control_request_with_retry_timeout h se request_method target body retry_safe None"

section \<open>Waiting for a cooperative operation\<close>

definition operation_status :: "json \<Rightarrow> string option" where
  "operation_status response = Option.bind (json_get response ''operation'') (\<lambda>v. json_text v ''status'')"

partial_function (option) wait_loop ::
  "('w, 'a, 'c, 't) cli_host \<Rightarrow> 'a control_session \<Rightarrow> string \<Rightarrow> nat \<Rightarrow> nat \<Rightarrow> json \<Rightarrow> 'w
     \<Rightarrow> ((json, string) outcome \<times> 'w) option" where
  "wait_loop h se rid deadline poll response w =
     (if operation_status response \<noteq> Some ''running'' then Some (Ok response, w)
      else case ck_now (ch_client h) w of
        (now, w1) \<Rightarrow>
          if deadline \<le> now then
            Some (Err (''timed out waiting for cooperative operation '' @ rid @ ''; query it with extension status''), w1)
          else (case control_request_with_retry h se ''GET'' (cooperative_request_target rid) None True
              (ch_sleep h poll w1) of
            (Ok response', w2) \<Rightarrow> wait_loop h se rid deadline poll response' w2
          | (Err e, w2) \<Rightarrow> Some (Err e, w2)
          | (Panic, w2) \<Rightarrow> Some (Panic, w2)))"

declare wait_loop.simps [code]

definition wait_for_cooperative_operation ::
  "('w, 'a, 'c, 't) cli_host \<Rightarrow> 'a control_session \<Rightarrow> string \<Rightarrow> u64 \<Rightarrow> u64 \<Rightarrow> json \<Rightarrow> ('w, json, string) run" where
  "wait_for_cooperative_operation h se rid timeout_ms poll_interval_ms response = (\<lambda>w.
     case ck_now (ch_client h) w of
       (now, w1) \<Rightarrow> wait_loop h se rid (now + from_millis timeout_ms) (from_millis poll_interval_ms) response w1)"

definition wait_timeout_ms :: "supervisor_config \<Rightarrow> u64" where
  "wait_timeout_ms c = (case sup_chrome_extension_reload c of
      None \<Rightarrow> 25000 | Some reload \<Rightarrow> saturating_add (er_timeout_ms reload) 5000)"

definition wait_poll_ms :: "supervisor_config \<Rightarrow> u64" where
  "wait_poll_ms c = (case sup_chrome_extension_reload c of None \<Rightarrow> 250 | Some reload \<Rightarrow> er_poll_interval_ms reload)"

section \<open>The table of services\<close>

text \<open>\<open>{:<width}\<close>: padded on the right to a number of characters.\<close>

definition pad :: "nat \<Rightarrow> string \<Rightarrow> string" where
  "pad width s = s @ replicate (width - length (char_indices s)) (CHR '' '')"

definition text_or_dash :: "json \<Rightarrow> string \<Rightarrow> string" where
  "text_or_dash v key = (case json_text v key of None \<Rightarrow> ''-'' | Some t \<Rightarrow> t)"

definition numbers_at :: "json \<Rightarrow> string \<Rightarrow> string" where
  "numbers_at v key = (case Option.bind (json_get v key) json_as_array of
      None \<Rightarrow> ''-''
    | Some vs \<Rightarrow>
        (let joined = join '','' (map (decimal \<circ> unat) (List.map_filter json_as_u64 vs)) in
         if joined = [] then ''-'' else joined))"

definition process_of_json :: "json \<Rightarrow> process_identity option" where
  "process_of_json v = (case Option.bind (json_get v ''pid'') json_as_u64 of
      None \<Rightarrow> None
    | Some pid \<Rightarrow> if unat pid < 2 ^ 32
        then Some \<lparr>pi_pid = of_nat (unat pid), pi_name = json_text v ''name''\<rparr> else None)"

definition owned_process_summary :: "json \<Rightarrow> string \<Rightarrow> string" where
  "owned_process_summary service owned_pids =
     (case Option.bind (json_get service ''ownedProcesses'') json_as_array of
        None \<Rightarrow>
          if owned_pids = ''-'' then ''-''
          else ''unknown x'' @ decimal (length (split_on (CHR '','') owned_pids))
      | Some processes \<Rightarrow> summarize_processes (List.map_filter process_of_json processes))"

definition registry_warning :: "json \<Rightarrow> string list" where
  "registry_warning registry =
     (let state = text_or_dash registry ''state''; active = text_or_dash registry ''activeRevision'';
          disk = text_or_dash registry ''diskRevision'' in
      if state \<noteq> ''current'' \<or> active = ''-'' \<or> active \<noteq> disk
      then [''REGISTRY WARNING: state='' @ state @ '' active='' @ active @ '' disk='' @ disk
        @ '' detail='' @ take_chars 160 (text_or_dash registry ''detail'')]
      else [])"

definition table_heading :: string where
  "table_heading = ''SERVICE              STATE                DESIRED     HEALTH      PORTS         ROOT PID   OWNED APPS                         HOLD''"

definition service_row :: "bool \<Rightarrow> json \<Rightarrow> string" where
  "service_row show_pids service =
     (let root_pid = (case Option.bind (json_get service ''rootPid'') json_as_u64 of
            None \<Rightarrow> ''-'' | Some pid \<Rightarrow> decimal (unat pid));
          owned_pids = numbers_at service ''ownedPids'';
          owned_apps = owned_process_summary service owned_pids;
          owned_display = (if show_pids then owned_apps @ '' ['' @ owned_pids @ '']'' else owned_apps);
          health = (case Option.bind (json_get service ''health'') (\<lambda>v. json_text v ''status'') of
            None \<Rightarrow> ''-'' | Some t \<Rightarrow> t) in
      join '' '' [pad 20 (text_or_dash service ''id''), pad 20 (text_or_dash service ''lifecycle''),
        pad 11 (text_or_dash service ''desiredState''), pad 11 health, pad 13 (numbers_at service ''ports''),
        pad 10 root_pid, pad 32 owned_display, text_or_dash service ''operatorHold''])"

definition format_simple_status :: "json \<Rightarrow> bool \<Rightarrow> string + string" where
  "format_simple_status response show_pids =
     (case Option.bind (json_get response ''services'') json_as_array of
        None \<Rightarrow> Inl ''service status response omitted the services array''
      | Some services \<Rightarrow> Inr (join [newline]
          ((case json_get response ''registry'' of None \<Rightarrow> [] | Some registry \<Rightarrow> registry_warning registry)
           @ [table_heading] @ map (service_row show_pids) services)))"

section \<open>Answers\<close>

definition control_url :: "('w, 'a, 'c, 't) cli_host \<Rightarrow> 'a control_session \<Rightarrow> string" where
  "control_url h se = ''http://'' @ ck_show_address (ch_client h) (cs_address se)"

definition remote_response_document ::
  "('w, 'a, 'c, 't) cli_host \<Rightarrow> 'a control_session \<Rightarrow> json \<Rightarrow> json" where
  "remote_response_document h se response = json_object
     [(''configuration'', JString (cs_path se)), (''controlApi'', JString (control_url h se)),
      (''response'', response)]"

definition print_remote_response ::
  "('w, 'a, 'c, 't) cli_host \<Rightarrow> 'a control_session \<Rightarrow> json \<Rightarrow> bool \<Rightarrow> bool \<Rightarrow> bool \<Rightarrow> ('w, unit, string) op" where
  "print_remote_response h se response json_output simple_status show_pids =
     (if simple_status then
        bind_op (lift_sum (format_simple_status response show_pids)) (println h)
      else if json_output then println h (ch_show_json h (remote_response_document h se response))
      else seq_op (println h (''Configuration: '' @ cs_path se))
        (seq_op (println h (''Control API: '' @ control_url h se))
          (println h (ch_pretty h response))))"

definition registry_unavailable :: json where
  "registry_unavailable = json_object
     [(''state'', JString ''unavailable''), (''activeRevision'', JNull), (''diskRevision'', JNull),
      (''detail'', JString ''registry reconciliation status is unavailable'')]"

text \<open>The status table shows the reconciliation too, from a second request that may fail.\<close>

definition with_registry ::
  "('w, 'a, 'c, 't) cli_host \<Rightarrow> 'a control_session \<Rightarrow> json \<Rightarrow> ('w, json, string) op" where
  "with_registry h se response =
     map_op (\<lambda>r. case json_as_object response of
         None \<Rightarrow> response
       | Some members \<Rightarrow> JObject (bt_insert ''registry''
           (case r of Inl _ \<Rightarrow> registry_unavailable
            | Inr v \<Rightarrow> (case json_get v ''registry'' of None \<Rightarrow> registry_unavailable | Some registry \<Rightarrow> registry))
           members))
       (attempt_op (control_request_with_retry h se ''GET'' ''/v1/registry'' None False))"

fun remote_config :: "remote_command \<Rightarrow> string option" where
  "remote_config (RemStatus config _) = config"
| "remote_config (RemSimpleStatus config _) = config"
| "remote_config (RemInstanceStatus config _) = config"
| "remote_config (RemRegistryStatus config _) = config"
| "remote_config (RemEvents _ _ config _) = config"
| "remote_config (RemLogs _ _ _ config _) = config"
| "remote_config (RemMutate _ _ _ _ _ config _) = config"
| "remote_config (RemExtensionReload _ _ _ config _ _) = config"
| "remote_config (RemExtensionStatus _ config _) = config"
| "remote_config (RemSupervisorShutdown _ _ _ config _) = config"

fun remote_json :: "remote_command \<Rightarrow> bool" where
  "remote_json (RemStatus _ json) = json"
| "remote_json (RemSimpleStatus _ _) = False"
| "remote_json (RemInstanceStatus _ json) = json"
| "remote_json (RemRegistryStatus _ json) = json"
| "remote_json (RemEvents _ _ _ json) = json"
| "remote_json (RemLogs _ _ _ _ json) = json"
| "remote_json (RemMutate _ _ _ _ _ _ json) = json"
| "remote_json (RemExtensionReload _ _ _ _ _ json) = json"
| "remote_json (RemExtensionStatus _ _ json) = json"
| "remote_json (RemSupervisorShutdown _ _ _ _ json) = json"

fun is_simple_status :: "remote_command \<Rightarrow> bool" where
  "is_simple_status (RemSimpleStatus _ _) = True"
| "is_simple_status _ = False"

fun shows_pids :: "remote_command \<Rightarrow> bool" where
  "shows_pids (RemSimpleStatus _ show_pids) = show_pids"
| "shows_pids _ = False"

fun launch_targets :: "remote_command \<Rightarrow> string list" where
  "launch_targets (RemMutate action sids _ _ _ _ _) = (if action \<in> {CtlStart, CtlRestart} then sids else [])"
| "launch_targets _ = []"

definition batch_heading :: "nat \<Rightarrow> nat \<Rightarrow> remote_command \<Rightarrow> string list" where
  "batch_heading index command_count command = (case command of
      RemMutate action sids _ _ _ _ _ \<Rightarrow>
        if 1 < command_count then
          [[newline] @ ''[batch '' @ decimal (index + 1) @ ''/'' @ decimal command_count @ ''] ''
           @ action_name action @ '' '' @ (case sids of [] \<Rightarrow> ''-'' | sid # _ \<Rightarrow> sid)]
        else []
    | _ \<Rightarrow> [])"

definition failed_operation :: "json \<Rightarrow> string option" where
  "failed_operation response =
     (if operation_status response = Some ''failed'' then
        (let operation = json_or_null (json_get response ''operation'');
             category = (case json_text operation ''errorCategory'' of
               None \<Rightarrow> ''cooperative_action_failed'' | Some t \<Rightarrow> t);
             message = (case json_text operation ''message'' of
               None \<Rightarrow> ''Chrome extension cooperative reload failed'' | Some t \<Rightarrow> t) in
         Some (category @ '': '' @ message))
      else None)"

text \<open>The answer to one command, after the waiting it asks for.\<close>

definition remote_answer ::
  "('w, 'a, 'c, 't) cli_host \<Rightarrow> 'a control_session \<Rightarrow> bool \<Rightarrow> remote_command \<Rightarrow> remote_request
     \<Rightarrow> ('w, json, string) run" where
  "remote_answer h se simple_status command request =
     bind_run (ends (bind_op
         (control_request_with_retry_timeout h se (rr_method request) (rr_target request) (rr_body request)
            (rr_retry_safe request) (lifecycle_response_timeout (cs_config se) command))
         (\<lambda>response. if simple_status then with_registry h se response else return_op response)))
       (\<lambda>response. case rr_wait_request_id request of
          None \<Rightarrow> ends (return_op response)
        | Some rid \<Rightarrow> wait_for_cooperative_operation h se rid (wait_timeout_ms (cs_config se))
            (wait_poll_ms (cs_config se)) response)"

text \<open>The commands one after the other, with the documents that are printed at the end of a batch.\<close>

fun run_commands ::
  "('w, 'a, 'c, 't) cli_host \<Rightarrow> 'a control_session \<Rightarrow> bool \<Rightarrow> bool \<Rightarrow> bool \<Rightarrow> nat \<Rightarrow> nat \<Rightarrow> json list
     \<Rightarrow> remote_command list \<Rightarrow> ('w, json list, string) run" where
  "run_commands h se json_output simple_status show_pids command_count index batch [] = ends (return_op batch)"
| "run_commands h se json_output simple_status show_pids command_count index batch (command # commands) =
     (case prepare_remote_request command of
        None \<Rightarrow> ends (\<lambda>w. (Panic, w))
      | Some request \<Rightarrow>
          bind_run (remote_answer h se simple_status command request) (\<lambda>response.
          bind_run (ends (seq_op
              (if 1 < command_count \<and> json_output then return_op ()
               else seq_op (each_op (println h) (batch_heading index command_count command))
                 (print_remote_response h se response json_output simple_status show_pids))
              (lift_sum (if rr_wait_request_id request = None then Inr ()
                 else case failed_operation response of None \<Rightarrow> Inr () | Some message \<Rightarrow> Inl message)))) (\<lambda>_.
            run_commands h se json_output simple_status show_pids command_count (index + 1)
              (if 1 < command_count \<and> json_output
               then batch @ [remote_response_document h se response] else batch) commands)))"

definition lift_outcome :: "('b, 'e) outcome \<Rightarrow> ('w, 'b, 'e) op" where
  "lift_outcome r = (\<lambda>w. (r, w))"

definition remote_request_run :: "('w, 'a, 'c, 't) cli_host \<Rightarrow> remote_command \<Rightarrow> ('w, unit, string) run" where
  "remote_request_run h command =
     bind_run (ends (bind_op (open_session h (remote_config command)) (\<lambda>se.
         bind_op (lift_outcome (expand_remote_mutations command (cs_config se))) (\<lambda>commands.
           let targets = concat (map launch_targets commands) in
           seq_op (if targets = [] then return_op () else lift_sum (map_sum show_config_error id
               (validate_launch_readiness (pl_env (ch_paths h)) (cs_config se) targets)))
             (return_op (se, commands)))))) (\<lambda>(se, commands).
     bind_run (run_commands h se (remote_json command) (is_simple_status command) (shows_pids command)
         (length commands) 0 [] commands) (\<lambda>batch.
       ends (if 1 < length commands \<and> remote_json command
             then println h (ch_show_json h (JArray batch)) else return_op ())))"

section \<open>Live logs\<close>

definition advance_live_log_cursor :: "live_cursor option \<Rightarrow> live_event \<Rightarrow> live_cursor option" where
  "advance_live_log_cursor cursor event = (case le_sequence event of
      None \<Rightarrow> cursor
    | Some n \<Rightarrow>
        (case cursor of
           Some c \<Rightarrow>
             if lc_hub_instance_id c = le_hub_instance_id event
             then Some (c\<lparr>lc_sequence := max (lc_sequence c) n\<rparr>)
             else Some \<lparr>lc_hub_instance_id = le_hub_instance_id event, lc_sequence = n\<rparr>
         | None \<Rightarrow> Some \<lparr>lc_hub_instance_id = le_hub_instance_id event, lc_sequence = n\<rparr>))"

fun selection_name :: "live_selection \<Rightarrow> string" where
  "selection_name SelBoth = ''both''"
| "selection_name SelStdout = ''stdout''"
| "selection_name SelStderr = ''stderr''"

definition live_log_target :: "string \<Rightarrow> string \<Rightarrow> nat \<Rightarrow> live_cursor option \<Rightarrow> string" where
  "live_log_target sid name n cursor =
     ''/v1/services/'' @ sid @ ''/logs/live?stream='' @ name @ ''&tail='' @ decimal n
     @ (case cursor of
          None \<Rightarrow> []
        | Some c \<Rightarrow> ''&afterHub='' @ lc_hub_instance_id c @ ''&after='' @ decimal (unat (lc_sequence c)))"

definition event_time :: "('w, 'a, 'c, 't) cli_host \<Rightarrow> live_event \<Rightarrow> display_timezone \<Rightarrow> string" where
  "event_time h event timezone =
     (case format_unix_milliseconds (ch_chrono h) (unat (le_observed_at event)) timezone of
        None \<Rightarrow> decimal (unat (le_observed_at event)) | Some t \<Rightarrow> t)"

definition print_live_log_event ::
  "('w, 'a, 'c, 't) cli_host \<Rightarrow> live_event \<Rightarrow> bool \<Rightarrow> bool \<Rightarrow> display_timezone \<Rightarrow> ('w, unit, string) op" where
  "print_live_log_event h event json_output show_heartbeat timezone =
     (if json_output then println h (ch_event_json h event)
      else case le_kind event of
        KindLine \<Rightarrow>
          (let stream = (case le_stream event of Some s \<Rightarrow> stream_name s | None \<Rightarrow> ''unknown'');
               stream = (if le_replayed event then stream @ ''/replay'' else stream) in
           println h (''['' @ event_time h event timezone @ ''] ['' @ stream @ ''] ''
             @ (case le_text event of None \<Rightarrow> [] | Some t \<Rightarrow> t)))
      | KindGap \<Rightarrow> eprintln h (''[live-logs] viewer fell behind; ''
          @ decimal (case le_dropped event of None \<Rightarrow> 0 | Some n \<Rightarrow> unat n) @ '' event(s) were dropped.'')
      | KindHeartbeat \<Rightarrow>
          if show_heartbeat then eprintln h (''['' @ event_time h event timezone
            @ ''] [live-logs] stream connected; service output is idle (hub='' @ le_hub_instance_id event @ '')'')
          else return_op ()
      | KindHubReset \<Rightarrow> eprintln h (''[live-logs] reconnected to a new AkuSupervisor instance: ''
          @ (case le_previous_hub event of None \<Rightarrow> ''unknown'' | Some p \<Rightarrow> p) @ '' -> ''
          @ le_hub_instance_id event @ ''; replay cursor reset.''))"

record live_view =
  lv_cursor :: "live_cursor option"
  lv_notice :: "nat option"

definition heartbeat_period :: nat where
  "heartbeat_period = 60 * 1000000000"

definition reconnect_pause :: nat where
  "reconnect_pause = 500 * 1000000"

text \<open>One event: the cursor moves, and of the heartbeats one a minute is shown.\<close>

definition show_event ::
  "('w, 'a, 'c, 't) cli_host \<Rightarrow> bool \<Rightarrow> display_timezone \<Rightarrow> live_view \<Rightarrow> live_event \<Rightarrow> ('w, live_view, string) op" where
  "show_event h json_output timezone view event = (\<lambda>w.
     let view = view\<lparr>lv_cursor := advance_live_log_cursor (lv_cursor view) event\<rparr>;
         (due, w) = (if json_output \<or> le_kind event \<noteq> KindHeartbeat then (True, w)
           else case lv_notice view of
             None \<Rightarrow> (True, w)
           | Some instant \<Rightarrow> (case ck_now (ch_client h) w of (now, w1) \<Rightarrow> (heartbeat_period \<le> now - instant, w1)));
         (view, w) = (if le_kind event = KindHeartbeat \<and> due \<and> \<not> json_output
           then (case ck_now (ch_client h) w of (now, w1) \<Rightarrow> (view\<lparr>lv_notice := Some now\<rparr>, w1))
           else (view, w)) in
     map_op (\<lambda>_. view) (print_live_log_event h event json_output due timezone) w)"

partial_function (option) follow_events ::
  "('w, 'a, 'c, 't) cli_host \<Rightarrow> bool \<Rightarrow> display_timezone \<Rightarrow> 'c \<Rightarrow> live_view \<Rightarrow> 'w
     \<Rightarrow> ((live_view, string) outcome \<times> 'w) option" where
  "follow_events h json_output timezone c view w = (case next_event (ch_client h) c w of
      (Ok None, w1) \<Rightarrow> Some (Ok view, w1)
    | (Ok (Some event), w1) \<Rightarrow>
        (case show_event h json_output timezone view event w1 of
           (Ok view', w2) \<Rightarrow> follow_events h json_output timezone c view' w2
         | (Err e, w2) \<Rightarrow> Some (Err e, w2)
         | (Panic, w2) \<Rightarrow> Some (Panic, w2))
    | (Err e, w1) \<Rightarrow>
        if is_transient e then Some (Ok view, if json_output then w1
          else ch_err h (''[live-logs] connection interrupted; reconnecting...'' @ [newline]) w1)
        else Some (Err (show_client_error (ch_show_json h) e), w1)
    | (Panic, w1) \<Rightarrow> Some (Panic, w1))"

text \<open>The connections one after the other; the loop ends with an error alone.\<close>

partial_function (option) live_loop ::
  "('w, 'a, 'c, 't) cli_host \<Rightarrow> 'a control_session \<Rightarrow> (live_cursor option \<Rightarrow> string) \<Rightarrow> bool \<Rightarrow> display_timezone
     \<Rightarrow> bool \<Rightarrow> live_view \<Rightarrow> 'w \<Rightarrow> ((unit, string) outcome \<times> 'w) option" where
  "live_loop h se target json_output timezone connected_once view w =
     (case client_live_logs (ch_client h) (cs_address se) (cs_token se) (target (lv_cursor view)) w of
        None \<Rightarrow> None
      | Some (Err e, w1) \<Rightarrow>
          if connected_once \<and> is_transient e then
            live_loop h se target json_output timezone connected_once view (ch_sleep h reconnect_pause
              (if json_output then w1
               else ch_err h (''[live-logs] connection unavailable; retrying...'' @ [newline]) w1))
          else Some (Err (show_client_error (ch_show_json h) e), w1)
      | Some (Panic, w1) \<Rightarrow> Some (Panic, w1)
      | Some (Ok c, w1) \<Rightarrow>
          (case follow_events h json_output timezone c view w1 of
             None \<Rightarrow> None
           | Some (Ok view', w2) \<Rightarrow>
               live_loop h se target json_output timezone True view' (ch_sleep h reconnect_pause
                 (if json_output then w2
                  else ch_err h (''[live-logs] connection closed; reconnecting...'' @ [newline]) w2))
           | Some (Err e, w2) \<Rightarrow> Some (Err e, w2)
           | Some (Panic, w2) \<Rightarrow> Some (Panic, w2)))"

declare follow_events.simps [code] live_loop.simps [code]

definition live_logs ::
  "('w, 'a, 'c, 't) cli_host \<Rightarrow> string \<Rightarrow> live_selection \<Rightarrow> nat \<Rightarrow> string option \<Rightarrow> bool \<Rightarrow> display_timezone
     \<Rightarrow> ('w, unit, string) run" where
  "live_logs h sid selection n explicit json_output timezone =
     bind_run (ends (bind_op (open_session h explicit) (\<lambda>se.
         seq_op (if json_output then return_op ()
           else each_op (println h)
             [''Configuration: '' @ cs_path se, ''Control API: '' @ control_url h se,
              ''Live logs: '' @ sid @ '' (stream='' @ selection_name selection @ '', initial tail='' @ decimal n
                @ ''); press Ctrl+C to stop viewing.'',
              ''Human timestamp display: '' @ timezone_as_str timezone @ '' (NDJSON remains UTC Unix milliseconds)''])
           (return_op se)))) (\<lambda>se.
       live_loop h se (live_log_target sid (selection_name selection) n) json_output timezone False
         \<lparr>lv_cursor = None, lv_notice = None\<rparr>)"

section \<open>The validation of an extension\<close>

fun validation_actor :: "api_actor \<Rightarrow> json" where
  "validation_actor ApiUser = json_object [(''actorType'', JString ''user''), (''actorId'', JString ''cli'')]"
| "validation_actor ApiCodex = json_object [(''actorType'', JString ''agent''), (''actorId'', JString ''codex'')]"

text \<open>The answer that is wanted is that the request does not exist.\<close>

function fresh_loop ::
  "('w, 'a, 'c, 't) cli_host \<Rightarrow> string \<Rightarrow> ('w, json, control_client_error) op \<Rightarrow> nat \<Rightarrow> ('w, unit, string) op" where
  "fresh_loop h rid send attempt w = (case send w of
      (Ok _, w1) \<Rightarrow> (Err (''extension validate requires a fresh request ID; '' @ rid @ '' already exists''), w1)
    | (Panic, w1) \<Rightarrow> (Panic, w1)
    | (Err e, w1) \<Rightarrow>
        if (case e of CcRejected status _ \<Rightarrow> status = 404 | _ \<Rightarrow> False) then (Ok (), w1)
        else if is_transient e \<and> attempt < max_attempts
        then fresh_loop h rid send (attempt + 1) (ch_sleep h (backoff attempt) w1)
        else (Err (show_client_error (ch_show_json h) e), w1))"
  by pat_completeness auto
termination
  by (relation "measure (\<lambda>(_, _, _, attempt, _). max_attempts - attempt)") auto

declare fresh_loop.simps [simp del]

definition ensure_fresh_extension_validation_request ::
  "('w, 'a, 'c, 't) cli_host \<Rightarrow> 'a control_session \<Rightarrow> string \<Rightarrow> ('w, unit, string) op" where
  "ensure_fresh_extension_validation_request h se rid =
     fresh_loop h rid (send_request h se ''GET'' (cooperative_request_target rid) None None) 1"

text \<open>The records of the audit that belong to the request; a line that is no JSON ends the command.\<close>

fun audit_records_of ::
  "('w, 'a, 'c, 't) cli_host \<Rightarrow> string \<Rightarrow> string \<Rightarrow> nat \<Rightarrow> string list \<Rightarrow> string + json list" where
  "audit_records_of h path rid index [] = Inr []"
| "audit_records_of h path rid index (line # lines) = (case ck_decode (ch_client h) line of
      Inl e \<Rightarrow> Inl (''invalid cooperative audit record '' @ decimal (index + 1) @ '' in '' @ path @ '': '' @ e)
    | Inr record' \<Rightarrow> map_sum id (\<lambda>rest. if json_text record' ''requestId'' = Some rid then record' # rest else rest)
        (audit_records_of h path rid (index + 1) lines))"

definition operation_of :: "json \<Rightarrow> json" where
  "operation_of response = json_or_null (json_get response ''operation'')"

definition validation_audit ::
  "('w, 'a, 'c, 't) cli_host \<Rightarrow> 'a control_session \<Rightarrow> string \<Rightarrow> ('w, json list, string) op" where
  "validation_audit h se rid = (case pl_parent (ch_paths h) (cs_token_path se) of
      None \<Rightarrow> fail_op ''control token path has no runtime directory''
    | Some runtime \<Rightarrow>
        (let path = he_join (pl_env (ch_paths h)) runtime ''cooperative-actions.jsonl'' in
         bind_op (read_file_op h path) (\<lambda>source.
           lift_sum (audit_records_of h path rid 0 (file_lines [] source)))))"

definition extension_validation ::
  "('w, 'a, 'c, 't) cli_host \<Rightarrow> api_actor \<Rightarrow> string \<Rightarrow> string option
     \<Rightarrow> ('w, 'a control_session \<times> extension_validation_report, string) run" where
  "extension_validation h actor rid explicit =
     bind_run (ends (bind_op (open_session h explicit) (\<lambda>se.
         seq_op (ensure_fresh_extension_validation_request h se rid)
           (bind_op (control_request_with_retry h se ''POST''
               ''/v1/cooperative-actions/chrome-extension/reload-self''
               (Some (mutation_body actor (''release gate extension validation '' @ rid) (Some rid))) True)
             (\<lambda>initial. return_op (se, initial)))))) (\<lambda>(se, initial).
     bind_run (wait_for_cooperative_operation h se rid (wait_timeout_ms (cs_config se))
         (wait_poll_ms (cs_config se)) initial) (\<lambda>terminal.
       ends (bind_op (control_request_with_retry h se ''GET'' ''/v1/cooperative-actions/chrome-extension/active''
           None True) (\<lambda>active.
         bind_op (validation_audit h se rid) (\<lambda>records.
           return_op (se, validate_extension_release rid (validation_actor actor) (operation_of terminal)
             (operation_of active) records))))))"

definition validation_failure :: "api_actor \<Rightarrow> string \<Rightarrow> string option \<Rightarrow> string \<Rightarrow> json" where
  "validation_failure actor rid explicit message = json_object
     [(''configuration'', case explicit of None \<Rightarrow> JNull | Some path \<Rightarrow> JString path), (''controlApi'', JNull),
      (''validation'', json_object
        [(''schemaVersion'', json_int 1), (''command'', JString ''extension_validate''), (''status'', JString ''error''),
         (''exitCode'', json_int 1), (''requestId'', JString rid), (''actor'', validation_actor actor),
         (''checks'', JArray []), (''operation'', JNull),
         (''error'', json_object [(''code'', JString ''validation_execution_failed''), (''message'', JString message)])])]"

section \<open>Exit codes\<close>

definition exit_ok :: "8 word" where "exit_ok = 0"
definition exit_failure :: "8 word" where "exit_failure = 1"

text \<open>What a command prints and returns for its result; a panic ends the process.\<close>

definition conclude ::
  "('b, 'e) outcome \<Rightarrow> 'w \<Rightarrow> ('b \<Rightarrow> 'w \<Rightarrow> 'd \<times> 'w) \<Rightarrow> ('e \<Rightarrow> 'w \<Rightarrow> 'd \<times> 'w) \<Rightarrow> ('d option) \<times> 'w" where
  "conclude r w good bad = (case r of
      Ok b \<Rightarrow> (case good b w of (d, w') \<Rightarrow> (Some d, w'))
    | Err e \<Rightarrow> (case bad e w of (d, w') \<Rightarrow> (Some d, w'))
    | Panic \<Rightarrow> (None, w))"

definition report_error :: "('w, 'a, 'c, 't) cli_host \<Rightarrow> string \<Rightarrow> 'w \<Rightarrow> 8 word \<times> 'w" where
  "report_error h message w = (exit_failure, ch_err h (''error: '' @ message @ [newline]) w)"

definition run_remote :: "('w, 'a, 'c, 't) cli_host \<Rightarrow> remote_command \<Rightarrow> 'w \<Rightarrow> (8 word option \<times> 'w) option" where
  "run_remote h command w = map_option (\<lambda>(r, w1). conclude r w1 (\<lambda>_ w. (exit_ok, w)) (report_error h))
     (remote_request_run h command w)"

definition run_live_logs ::
  "('w, 'a, 'c, 't) cli_host \<Rightarrow> string \<Rightarrow> live_selection \<Rightarrow> nat \<Rightarrow> string option \<Rightarrow> bool \<Rightarrow> display_timezone
     \<Rightarrow> 'w \<Rightarrow> (8 word option \<times> 'w) option" where
  "run_live_logs h sid selection n explicit json_output timezone w =
     map_option (\<lambda>(r, w1). conclude r w1 (\<lambda>_ w. (exit_ok, w)) (report_error h))
       (live_logs h sid selection n explicit json_output timezone w)"

definition run_extension_validate ::
  "('w, 'a, 'c, 't) cli_host \<Rightarrow> api_actor \<Rightarrow> string \<Rightarrow> string option \<Rightarrow> 'w \<Rightarrow> (8 word option \<times> 'w) option" where
  "run_extension_validate h actor rid explicit w =
     map_option (\<lambda>(r, w1). conclude r w1
         (\<lambda>(se, report) w. (vx_exit_code report, ch_out h (ch_show_json h (json_object
             [(''configuration'', JString (cs_path se)), (''controlApi'', JString (control_url h se)),
              (''validation'', ch_report_json h report)]) @ [newline]) w))
         (\<lambda>message w. (exit_failure,
            ch_out h (ch_show_json h (validation_failure actor rid explicit message) @ [newline]) w)))
       (extension_validation h actor rid explicit w)"

definition validate_startup ::
  "('w, 'a, 'c, 't) cli_host \<Rightarrow> string option \<Rightarrow> string list \<Rightarrow> ('w, unit, string) op" where
  "validate_startup h explicit sids = bind_op (load_config h explicit) (\<lambda>(path, c).
     if sids = [] then return_op ()
     else lift_sum (map_sum show_config_error id (validate_launch_readiness (pl_env (ch_paths h)) c sids)))"

definition run_validate_startup ::
  "('w, 'a, 'c, 't) cli_host \<Rightarrow> string option \<Rightarrow> string list \<Rightarrow> 'w \<Rightarrow> 8 word option \<times> 'w" where
  "run_validate_startup h explicit sids w = (case validate_startup h explicit sids w of
      (r, w1) \<Rightarrow> conclude r w1
        (\<lambda>_ w. (exit_ok, ch_out h (ch_show_json h (json_object
            [(''valid'', JBool True), (''requestedServiceIds'', json_strings sids)]) @ [newline]) w))
        (\<lambda>message w. (exit_failure, ch_out h (ch_show_json h (json_object
            [(''valid'', JBool False), (''error'', JString message),
             (''requestedServiceIds'', json_strings sids)]) @ [newline]) w)))"

end
