(* ===== verification/Cli_Run.thy ===== *)
theory Cli_Run
  imports Cli_Client Registration_Mcp
begin

text \<open>
  \<open>src/src/cli.rs\<close>: the registration commands, and the dispatch of a command line to its exit code. The
  world of a command is the store of \<open>Registration\<close>, on which the registration commands work. The
  foreground process and the MCP proxy are parameters (\<open>Foreground\<close> and \<open>Control_Client\<close> model them on
  their own state), as is what the registration MCP server reads.
\<close>

section \<open>Registration commands\<close>

record ('w, 'f) cli_programs =
  cg_foreground :: "resolved_config_path \<Rightarrow> display_timezone \<Rightarrow> (('w, 'f) registration_store, unit, string) run"
  cg_proxy :: "string option \<Rightarrow> (('w, 'f) registration_store, unit, string) run"
  cg_input :: "(string + string) list"
  cg_banner :: string
  cg_to_vec :: "json \<Rightarrow> string + string"
  cg_digest :: "string \<Rightarrow> string"
  cg_windows :: bool

type_synonym 'w exit_run = "'w \<Rightarrow> (8 word option \<times> 'w) option"

definition print_registration_result ::
  "('w, 'a, 'c, 't) cli_host \<Rightarrow> bool \<Rightarrow> (json, registration_error) outcome \<times> 'w \<Rightarrow> 8 word option \<times> 'w" where
  "print_registration_result h json_output = (\<lambda>(r, w). conclude r w
     (\<lambda>v w. (exit_ok,
        ch_out h ((if json_output then ch_show_json h v else ch_pretty h v) @ [newline]) w))
     (\<lambda>e w. (exit_failure,
        if json_output then ch_out h (ch_show_json h (json_object [(''error'', rx_structured e)]) @ [newline]) w
        else ch_err h (''error: '' @ show_registration_error e @ [newline]) w)))"

definition open_registration ::
  "('w, 'f, 'b) registration_mcp \<Rightarrow> string option
     \<Rightarrow> (('w, 'f) registration_store, registration_authority, registration_error) op" where
  "open_registration q config = registration_open (rm_host q) (rm_target q) (rm_var q) config"

definition run_registration_capabilities ::
  "(('w, 'f) registration_store, 'a, 'c, 't) cli_host \<Rightarrow> ('w, 'f, 'b) registration_mcp \<Rightarrow> string option \<Rightarrow> bool
     \<Rightarrow> ('w, 'f) registration_store exit_run" where
  "run_registration_capabilities h q config json_output w = Some (print_registration_result h json_output
     (bind_op (open_registration q config) (capabilities (rm_host q)) w))"

definition run_registration_show ::
  "(('w, 'f) registration_store, 'a, 'c, 't) cli_host \<Rightarrow> ('w, 'f, 'b) registration_mcp \<Rightarrow> string option \<Rightarrow> string
     \<Rightarrow> bool \<Rightarrow> ('w, 'f) registration_store exit_run" where
  "run_registration_show h q config draft_id json_output w = Some (print_registration_result h json_output
     (bind_op (open_registration q config) (\<lambda>ra.
        map_op (rm_draft_json q) (get_draft (rm_host q) ra draft_id)) w))"

definition registration_failure ::
  "('w, 'a, 'c, 't) cli_host \<Rightarrow> registration_error \<Rightarrow> 'w \<Rightarrow> 8 word \<times> 'w" where
  "registration_failure h e = report_error h (show_registration_error e)"

definition run_registration_approve ::
  "(('w, 'f) registration_store, 'a, 'c, 't) cli_host \<Rightarrow> ('w, 'f, 'b) registration_mcp \<Rightarrow> string option \<Rightarrow> string
     \<Rightarrow> bool \<Rightarrow> ('w, 'f) registration_store exit_run" where
  "run_registration_approve h q config draft_id commits w = Some (
     if commits then
       (case bind_op (open_registration q config) (\<lambda>ra.
            approve_and_commit_interactive (rm_host q) ra draft_id) w of
          (r, w1) \<Rightarrow> conclude r w1
            (\<lambda>result' w. (exit_ok, ch_out h ([newline] @ ''APPROVED AND COMMITTED: '' @ cr_draft_id result'
               @ [newline] @ ch_pretty h (rm_commit_json q result') @ [newline]) w))
            (registration_failure h))
     else
       (case bind_op (open_registration q config) (\<lambda>ra. approve_interactive (rm_host q) ra draft_id) w of
          (r, w1) \<Rightarrow> conclude r w1
            (\<lambda>d w. (exit_ok, ch_out h ([newline] @ ''APPROVED ONLY: '' @ dr_draft_id d @ [newline]
               @ ''Proposal hash: '' @ dr_proposal_hash d @ [newline]
               @ ''The configuration has not changed. Run this command again with --commit or ask the MCP client to commit the approved draft.''
               @ [newline]) w))
            (registration_failure h)))"

section \<open>Dispatch\<close>

definition exit_of_run ::
  "('w, 'a, 'c, 't) cli_host \<Rightarrow> ('w, unit, string) run \<Rightarrow> 'w exit_run" where
  "exit_of_run h m w = map_option (\<lambda>(r, w1). conclude r w1 (\<lambda>_ w. (exit_ok, w)) (report_error h)) (m w)"

definition run_foreground ::
  "(('w, 'f) registration_store, 'a, 'c, 't) cli_host \<Rightarrow> ('w, 'f) cli_programs \<Rightarrow> string option
     \<Rightarrow> display_timezone \<Rightarrow> ('w, 'f) registration_store exit_run" where
  "run_foreground h g explicit timezone =
     (if \<not> cg_windows g then exit_of_run h (\<lambda>w. Some (Err
        ''no lifecycle platform adapter is implemented for this operating system'', w))
      else exit_of_run h (bind_run (ends (lift_sum (map_sum show_config_path_error id
          (resolve_config_path (ch_paths h) (ch_target h) (ch_var h) explicit))))
        (\<lambda>resolved. cg_foreground g resolved timezone)))"

definition run_mcp_contract ::
  "('w, 'a, 'c, 't) cli_host \<Rightarrow> ('w1, 'f1) cli_programs \<Rightarrow> string \<Rightarrow> bool \<Rightarrow> 'w exit_run" where
  "run_mcp_contract h g version json w = Some (case contract_document version of
      None \<Rightarrow> (None, w)
    | Some document \<Rightarrow>
        (case contract_report (cg_to_vec g) (cg_digest g) document of
           Inl e \<Rightarrow> (Some exit_failure,
             ch_err h (''error: MCP contract serialization failed: '' @ e @ [newline]) w)
         | Inr report \<Rightarrow> (Some exit_ok, ch_out h ((if json then ch_show_json h report
             else ''MCP contract: '' @ (case json_text report ''fingerprint'' of
               None \<Rightarrow> ''unavailable'' | Some t \<Rightarrow> t)) @ [newline]) w)))"

definition run_command ::
  "(('w, 'f) registration_store, 'a, 'c, 't) cli_host \<Rightarrow> ('w, 'f, 'b) registration_mcp \<Rightarrow> ('w, 'f) cli_programs
     \<Rightarrow> cli_command \<Rightarrow> ('w, 'f) registration_store exit_run" where
  "run_command h q g command = (case command of
      CmdHelp \<Rightarrow> (\<lambda>w. Some (Some exit_ok, ch_out h (cli_help @ [newline]) w))
    | CmdVersion \<Rightarrow> (\<lambda>w. Some (Some exit_ok, ch_out h (cg_banner g @ [newline]) w))
    | CmdMcpContract json \<Rightarrow> run_mcp_contract h g (rm_version q) json
    | CmdRun config timezone \<Rightarrow> run_foreground h g config timezone
    | CmdValidateStartup config sids \<Rightarrow> (\<lambda>w. Some (run_validate_startup h config sids w))
    | CmdExtensionValidate actor rid config \<Rightarrow> run_extension_validate h actor rid config
    | CmdMcpProxy config \<Rightarrow> exit_of_run h (cg_proxy g config)
    | CmdRegistrationMcp config \<Rightarrow> exit_of_run h (ends (map_err_op show_registration_mcp_error
        (rm_serve (q\<lparr>rm_explicit := config\<rparr>) (cg_input g))))
    | CmdRegistrationCapabilities config json \<Rightarrow> run_registration_capabilities h q config json
    | CmdRegistrationShow draft_id config json \<Rightarrow> run_registration_show h q config draft_id json
    | CmdRegistrationApprove draft_id config commits \<Rightarrow> run_registration_approve h q config draft_id commits
    | CmdLiveLogs sid stream n config json timezone \<Rightarrow> run_live_logs h sid stream n config json timezone
    | CmdRemote command \<Rightarrow> run_remote h command)"

definition cli_run ::
  "(('w, 'f) registration_store, 'a, 'c, 't) cli_host \<Rightarrow> ('w, 'f, 'b) registration_mcp \<Rightarrow> ('w, 'f) cli_programs
     \<Rightarrow> string list \<Rightarrow> ('w, 'f) registration_store exit_run" where
  "cli_run h q g arguments w = (case cli_parse arguments of
      Inl message \<Rightarrow> Some (Some 2, ch_err h (''error: '' @ message @ [newline, newline] @ cli_help @ [newline]) w)
    | Inr command \<Rightarrow> run_command h q g command w)"

end
