(* ===== verification/Cli_Properties.thy ===== *)
theory Cli_Properties
  imports Cli_Order_Facts Cli_Run Control_Server_Properties Registration_Mcp_Properties
begin

text \<open>
  What the command line guarantees: which commands it accepts, the order and the identifiers of a batch,
  that a lost answer never makes a mutation happen twice, and that it waits long enough for one.
\<close>

section \<open>Commands that are accepted\<close>

text \<open>The parser gives an error or a command with the property.\<close>

definition gives :: "('b \<Rightarrow> bool) \<Rightarrow> 'e + 'b \<Rightarrow> bool" where
  "gives P r \<longleftrightarrow> (\<forall>v. r = Inr v \<longrightarrow> P v)"

lemma gives_simps [simp]: "gives P (Inl e)" "gives P (Inr v) \<longleftrightarrow> P v" "gives (\<lambda>v. True) r"
  by (simp_all add: gives_def)


lemma gives_case: "(\<And>v. r = Inr v \<Longrightarrow> gives P (f v)) \<Longrightarrow> gives P (case r of Inl e \<Rightarrow> Inl e | Inr v \<Rightarrow> f v)"
  by (cases r) simp_all

definition optional_id :: "string option \<Rightarrow> bool" where
  "optional_id r = (case r of None \<Rightarrow> True | Some rid \<Rightarrow> valid_request_id rid)"

lemma optional_id_simps [simp]: "optional_id None" "optional_id (Some rid) = valid_request_id rid"
  by (simp_all add: optional_id_def)



























section \<open>The order of a batch\<close>

text \<open>C15: A command for several services becomes an order in which every named service is there once: for a
  start or a restart after the named services it depends on, for a stop after the named services that
  depend on it. With a valid configuration and known services there always is one.\<close>

theorem batch_order_exact:
  assumes "validate_structure env c = Inr ()" and "bt_invar (sup_services c)" and "requested \<noteq> []"
    and "list_all (bt_contains (sup_services c)) requested"
  shows "\<exists>order. order_mutation_service_ids c requested action = Ok order \<and> distinct order
    \<and> set order = set requested
    \<and> (if action = CtlStop then after_all ((among (sup_services c) (set requested))\<inverse>) [] order
       else after_all (among (sup_services c) (set requested)) [] order)"
proof -
  have "acyclic (declared_deps (sup_services c))"
    by (rule valid_deps(2) [OF valid_structure_parts(1) [OF assms(1)] assms(2)])
  moreover have "\<forall>sid \<in> set requested. bt_get (sup_services c) sid \<noteq> None"
    using assms(4) by (simp add: list_all_iff bt_contains_iff assms(2) bt_keys_set dom_def)
  ultimately show ?thesis using batch_order assms(3) by blast
qed

theorem batch_order_exact_witness:
  "\<exists>order. order_mutation_service_ids (example_config example_pair) [''web'', ''db'', ''web''] CtlStart = Ok order
    \<and> after_all (among example_pair {''web'', ''db''}) [] order \<and> order = [''db'', ''web'']"
proof -
  let ?c = "example_config example_pair" and ?sids = "[''web'', ''db'', ''web'']"
  have services: "sup_services ?c = example_pair" by (simp add: example_config_def)
  have inv: "bt_invar (sup_services ?c)" using example_pair_invar by (simp only: services)
  have known: "list_all (bt_contains (sup_services ?c)) ?sids" unfolding services by code_simp
  have run: "order_mutation_service_ids ?c ?sids CtlStart = Ok [''db'', ''web'']"
    by code_simp
  have sids: "set ?sids = {''web'', ''db''}" by auto
  obtain order where order: "order_mutation_service_ids ?c ?sids CtlStart = Ok order"
    "if CtlStart = CtlStop then after_all ((among (sup_services ?c) (set ?sids))\<inverse>) [] order
     else after_all (among (sup_services ?c) (set ?sids)) [] order"
    using batch_order_exact [OF example_config_valid inv list.distinct(2) known, of CtlStart] by blast
  have "order = [''db'', ''web'']" using order(1) unfolding run by (simp only: outcome.inject)
  then show ?thesis using order unfolding services sids by (simp only: control_action.distinct if_False simp_thms) blast
qed

section \<open>A lost answer\<close>

text \<open>A state in which a request has been dealt with: delivering it again changes nothing.\<close>

definition settled :: "('s, 'io, 'je, 'a) server_env \<Rightarrow> http_request \<Rightarrow> 's server_state \<Rightarrow> bool" where
  "settled sv rq st \<longleftrightarrow> (\<forall>peer address. snd (handle_request sv peer address rq st) = st)"

lemma service_mutation_no_Err: "route_service_mutation sv rq mutation r a st \<noteq> (Err e, st')"
  by (auto simp: route_service_mutation_def remember_response_def bind_op_def attempt_op_def
      split: option.splits idempotency_lookup.splits outcome.splits prod.splits)

lemma route_mutation_no_Err:
  assumes "prefix ''/v1/services/'' (rq_target rq)"
  shows "route_mutation sv rq st \<noteq> (Err e, st')"
proof -
  have "rq_target rq \<noteq> ''/v1/cooperative-actions/chrome-extension/reload-self''"
      "rq_target rq \<noteq> ''/v1/supervisor/shutdown''"
    using assms by (auto simp: prefix_def)
  then show ?thesis
    by (auto simp: route_mutation_def route_mutation_with_service_actor_def service_mutation_no_Err
        split: option.splits sum.splits if_splits)
qed

lemma handled_settled:
  assumes "id_ok (hv_idempotency st)" and "rq_method rq = ''POST''" and "prefix ''/v1/services/'' (rq_target rq)"
    and "sv_mutation sv (rq_body rq) = Some mutation" and "mt_request_id mutation = Some rid"
    and "handle_request sv peer address rq st = (out, st')"
  shows "settled sv rq st'"
proof (cases out)
  case (Ok h)
  then have "snd (handle_request sv peer' address' rq st') = st'" for peer' address'
    using mutation_retried [OF assms(1-5), of peer address h st' peer' address'] assms(6) by simp
  then show ?thesis by (simp add: settled_def)
next
  case (Err e)
  then have "st' = st" "hv_poisoned st" "\<not> hv_stop st"
    using assms(6) route_mutation_no_Err [OF assms(3), of sv st]
    by (auto simp: post_handled [OF assms(2,3)] with_idempotency_lock_def split: if_splits outcome.splits prod.splits)
  then show ?thesis by (simp add: settled_def post_handled [OF assms(2,3)] with_idempotency_lock_def)
next
  case Panic
  obtain r st1 where m: "route_mutation sv rq st = (r, st1)" by (metis prod.exhaust)
  have "only_services st st1"
    using post_only_services [OF assms(3)] m by (simp add: route_mutation_def)
  moreover have "\<not> hv_stop st" "st' = st1\<lparr>hv_poisoned := True\<rparr>"
    using assms(6) Panic m route_mutation_no_Err [OF assms(3), of sv st]
    by (auto simp: post_handled [OF assms(2,3)] with_idempotency_lock_def poison_on_panic_def
        split: if_splits outcome.splits)
  ultimately have "hv_poisoned st'" "\<not> hv_stop st'"
    by (cases st; cases st1; simp add: only_services_def)+
  then show ?thesis by (simp add: settled_def post_handled [OF assms(2,3)] with_idempotency_lock_def)
qed

text \<open>A step of a client whose request reaches the server at most once.\<close>

definition delivers_once ::
  "('s, 'io, 'je, 'a) server_env \<Rightarrow> http_request \<Rightarrow> ('w \<Rightarrow> 's server_state) \<Rightarrow> 'w \<Rightarrow> 'w \<Rightarrow> bool" where
  "delivers_once sv rq srv w w' \<longleftrightarrow> srv w' = srv w
     \<or> (\<exists>peer address. srv w' = snd (handle_request sv peer address rq (srv w)))"

lemma settled_stays: "settled sv rq (srv w) \<Longrightarrow> delivers_once sv rq srv w w' \<Longrightarrow> srv w' = srv w"
  by (auto simp: settled_def delivers_once_def)

lemma retry_loop_settled:
  assumes "\<And>w. delivers_once sv rq srv w (snd (send w))" and "\<And>d w. srv (ch_sleep h d w) = srv w"
    and "settled sv rq (srv w)"
  shows "srv (snd (retry_loop h safe send attempt w)) = srv w"
  using assms
proof (induction h safe send attempt w rule: retry_loop.induct)
  case (1 h safe send attempt w)
  obtain out w1 where send: "send w = (out, w1)" by (metis prod.exhaust)
  have same: "srv w1 = srv w"
    using settled_stays [of sv rq srv w w1] 1(4) 1(2) [of w] send by simp
  show ?case
  proof (cases out)
    case (Err e)
    show ?thesis
    proof (cases "safe \<and> is_transient e \<and> attempt < max_attempts")
      case True
      have "srv (snd (retry_loop h safe send (attempt + 1) (ch_sleep h (backoff attempt) w1)))
          = srv (ch_sleep h (backoff attempt) w1)"
        using 1(1) [OF send [symmetric] Err True] 1(2,3,4) same by auto
      then show ?thesis using send Err True same 1(3) by (subst retry_loop.simps) simp
    next
      case False
      then show ?thesis using send Err same by (subst retry_loop.simps) auto
    qed
  qed (subst retry_loop.simps, simp add: send same)+
qed


text \<open>The first delivery settles the request when it may be repeated.\<close>

lemma retry_loop_once:
  assumes "\<And>w. delivers_once sv rq srv w (snd (send w))" and "\<And>d w. srv (ch_sleep h d w) = srv w"
    and "\<And>peer address. safe \<Longrightarrow> settled sv rq (snd (handle_request sv peer address rq (srv w)))"
  shows "delivers_once sv rq srv w (snd (retry_loop h safe send attempt w))"
  using assms
proof (induction h safe send attempt w rule: retry_loop.induct)
  case (1 h safe send attempt w)
  obtain out w1 where send: "send w = (out, w1)" by (metis prod.exhaust)
  have first: "delivers_once sv rq srv w w1" using 1(2) [of w] send by simp
  show ?case
  proof (cases out)
    case (Err e)
    show ?thesis
    proof (cases "safe \<and> is_transient e \<and> attempt < max_attempts")
      case True
      let ?w = "ch_sleep h (backoff attempt) w1"
      have loop: "snd (retry_loop h safe send attempt w) = snd (retry_loop h safe send (attempt + 1) ?w)"
        using send Err True by (subst retry_loop.simps) simp
      show ?thesis
      proof (cases "srv w1 = srv w")
        case True
        then have "srv ?w = srv w" using 1(3) by simp
        with 1(1) [OF send [symmetric] Err \<open>safe \<and> _\<close>] 1(2,3,4) show ?thesis
          unfolding loop by (simp add: delivers_once_def)
      next
        case False
        then have "settled sv rq (srv ?w)"
          using first 1(3) 1(4) \<open>safe \<and> _\<close> by (auto simp: delivers_once_def)
        then have "srv (snd (retry_loop h safe send (attempt + 1) ?w)) = srv w1"
          using retry_loop_settled [OF 1(2,3)] 1(3) by simp
        then show ?thesis using first unfolding loop by (simp add: delivers_once_def)
      qed
    next
      case False
      then show ?thesis using send Err first by (subst retry_loop.simps) auto
    qed
  qed (subst retry_loop.simps, simp add: send first)+
qed

text \<open>A host whose connections reach the example server and whose first answer is lost.\<close>

type_synonym losing_world = "((u32, demo_os) registry_state \<times> unit audit_state) server_state \<times> nat"

definition losing_client :: "(losing_world, unit, unit) client_host" where
  "losing_client = \<lparr>ck_connect = (\<lambda>_ _ w. (Inr (), w)),
     ck_write = (\<lambda>_ _ _ (st, n). (None, (snd (handle_request example_server ''127.0.0.1'' (Inr ''127.0.0.1'')
       (example_post (Some ''Bearer key'')) st), n + 1))),
     ck_shutdown_write = (\<lambda>_ w. w),
     ck_read_to_end = (\<lambda>_ _ _ (st, n). (if n = 1 then Inl ''reset'' else Inr (''HTTP/1.1 200 OK'' @ crlf @ crlf), (st, n))),
     ck_read_line = (\<lambda>_ _ w. (Inr [], w)), ck_now = (\<lambda>w. (0, w)), ck_show_address = (\<lambda>_. ''127.0.0.1:80''),
     ck_encode = (\<lambda>_. Inr ''{}''), ck_decode = (\<lambda>_. Inr JNull), ck_decode_event = (\<lambda>_. Inl ''none'')\<rparr>"

definition losing_host :: "(losing_world, unit, unit, nat) cli_host" where
  "losing_host = \<lparr>ch_client = losing_client, ch_paths = example_paths, ch_library = example_library,
     ch_target = TargetLinux, ch_var = (\<lambda>_. None),
     ch_chrono = \<lparr>ch_from_millis = (\<lambda>_. None), ch_parse_rfc3339 = (\<lambda>_. None), ch_utc = (\<lambda>_. []), ch_local = (\<lambda>_. [])\<rparr>,
     ch_read_file = (\<lambda>_ w. (Inl ''none'', w)), ch_read_token = (\<lambda>_ w. (Inr ''key'', w)), ch_show_io = (\<lambda>_. ''io''),
     ch_address = (\<lambda>_. Inr ()), ch_show_json = (\<lambda>_. ''{}''), ch_pretty = (\<lambda>_. ''{}''), ch_event_json = (\<lambda>_. ''{}''),
     ch_report_json = (\<lambda>_. JNull), ch_sleep = (\<lambda>_ w. w), ch_out = (\<lambda>_ w. w), ch_err = (\<lambda>_ w. w)\<rparr>"

definition losing_session :: "unit control_session" where
  "losing_session = \<lparr>cs_path = ''/etc/aku.json'', cs_config = example_config example_pair, cs_token_path = ''/t'',
     cs_token = ''key'', cs_address = ()\<rparr>"

lemma losing_send:
  "send_request losing_host losing_session ''POST'' target (Some v) None (st, n) =
     (if n = 0 then Err (CcRead ''reset'') else Ok JNull,
      (snd (handle_request example_server ''127.0.0.1'' (Inr ''127.0.0.1'') (example_post (Some ''Bearer key'')) st), n + 1))"
proof -
  have "parse_json_client_response losing_client (''HTTP/1.1 200 OK'' @ crlf @ crlf) = Inr JNull" by code_simp
  then show ?thesis
    by (simp add: send_request_def losing_host_def losing_session_def client_request_def
        client_request_with_response_timeout_def client_connect_def exchange_def encode_body_def lift_sum_def
        bind_op_def losing_client_def return_op_def fail_op_def)
qed

text \<open>C9: However often the command line sends the request of a mutation because answers are lost, the server
  is left unchanged or as one delivery of the request leaves it: a request with an identifier is
  remembered by the server, and one without is sent once.\<close>

theorem client_mutation_at_most_once:
  assumes "prepare_remote_request (RemMutate action (sid # sids) text' actor request_id config json) = Some request"
    and "rq_method rq = rr_method request" and "rq_target rq = rr_target request"
    and "sv_mutation sv (rq_body rq) = Some \<lparr>mt_actor = actor, mt_reason = text', mt_request_id = request_id\<rparr>"
    and "\<And>w. delivers_once sv rq srv w (snd (send_request h se (rr_method request) (rr_target request)
           (rr_body request) timeout w))"
    and "\<And>d w. srv (ch_sleep h d w) = srv w"
    and "id_ok (hv_idempotency (srv w))"
    and "control_request_with_retry_timeout h se (rr_method request) (rr_target request) (rr_body request)
           (rr_retry_safe request) timeout w = (out, w')"
  shows "srv w' = srv w \<or> (\<exists>peer address. srv w' = snd (handle_request sv peer address rq (srv w)))"
proof -
  let ?send = "send_request h se (rr_method request) (rr_target request) (rr_body request) timeout"
  have request: "rr_method request = ''POST''" "prefix ''/v1/services/'' (rr_target request)"
      "rr_retry_safe request \<longleftrightarrow> request_id \<noteq> None"
    using assms(1) by auto
  have run: "snd (retry_loop h (rr_retry_safe request) ?send 1 w) = w'"
    using assms(8) by (simp add: control_request_with_retry_timeout_def)
  have "delivers_once sv rq srv w (snd (retry_loop h (rr_retry_safe request) ?send 1 w))"
  proof (rule retry_loop_once [OF assms(5,6)])
    assume "rr_retry_safe request"
    then obtain rid where rid: "request_id = Some rid" using request(3) by auto
    show "settled sv rq (snd (handle_request sv peer address rq (srv w)))" for peer address
      using handled_settled [OF assms(7) _ _ assms(4), of rid peer address] request assms(2,3) rid
      by (metis mutation_request.select_convs(3) prod.collapse)
  qed
  then show ?thesis unfolding run delivers_once_def .
qed


theorem client_mutation_at_most_once_witness:
  "\<exists>out st. control_request_with_retry_timeout losing_host losing_session ''POST'' ''/v1/services/mail/stop''
        (Some (mutation_body ApiUser ''go'' (Some ''r1''))) True None (example_server_state, 0) = (out, (st, 2))
    \<and> (st = example_server_state \<or> (\<exists>peer address. st =
        snd (handle_request example_server peer address (example_post (Some ''Bearer key'')) example_server_state)))"
proof -
  let ?body = "Some (mutation_body ApiUser ''go'' (Some ''r1''))"
  let ?request = "\<lparr>rr_method = ''POST'', rr_target = ''/v1/services/mail/stop'', rr_body = ?body,
      rr_wait_request_id = None, rr_retry_safe = True\<rparr>"
  let ?rq = "example_post (Some ''Bearer key'')"
  let ?run = "control_request_with_retry_timeout losing_host losing_session ''POST'' ''/v1/services/mail/stop'' ?body True None
      (example_server_state, 0)"
  obtain out st n where run: "?run = (out, (st, n))" by (metis prod.exhaust)
  have sleeps: "ch_sleep losing_host d w = w" for d w by (simp add: losing_host_def)
  have "snd (snd ?run) = 2"
    by (simp add: control_request_with_retry_timeout_def retry_loop.simps losing_send sleeps max_attempts_def)
  then have two: "n = 2" using run by simp
  have command: "prepare_remote_request (RemMutate CtlStop [''mail''] ''go'' ApiUser (Some ''r1'') None False)
      = Some ?request" by simp
  have once: "delivers_once example_server ?rq fst w (snd (send_request losing_host losing_session
      (rr_method ?request) (rr_target ?request) (rr_body ?request) None w))" for w
    by (cases w) (auto simp: losing_send delivers_once_def)
  have "fst (st, n) = fst (example_server_state, 0 :: nat) \<or> (\<exists>peer address. fst (st, n) =
      snd (handle_request example_server peer address ?rq (fst (example_server_state, 0 :: nat))))"
    by (rule client_mutation_at_most_once [OF command _ _ _ once])
      (use run in \<open>simp_all add: example_post_def example_server_def sleeps example_server_state_def id_ok_new\<close>)
  then show ?thesis using run two by auto
qed

end
