(* ===== verification/Request_Round_Trip.thy ===== *)
theory Request_Round_Trip
  imports Control_Client Control_Http Journal_Properties
begin

text \<open>
  The request the client of \<open>control_client.rs\<close> writes is the request the server of \<open>control_http.rs\<close>
  reads, whatever the pieces it arrives in.
\<close>

section \<open>Visible characters\<close>

definition visible :: "char \<Rightarrow> bool" where
  "visible c \<longleftrightarrow> 33 \<le> (of_char c :: nat) \<and> (of_char c :: nat) \<le> 126"

definition is_word :: "string \<Rightarrow> bool" where
  "is_word s \<longleftrightarrow> s \<noteq> [] \<and> list_all visible s"

lemma visible_not_white: "visible c \<Longrightarrow> w \<in> set ws_encodings \<Longrightarrow> hd w \<noteq> c \<and> last w \<noteq> c"
  by (auto simp: ws_encodings_def visible_def)

lemma visible_char: "visible c \<Longrightarrow> is_ascii c \<and> c \<noteq> CHR 0x0D \<and> c \<noteq> CHR 0x0A \<and> c \<noteq> CHR '' ''"
  by (auto simp: visible_def is_ascii_def)

lemma word_chars: "is_word s \<Longrightarrow> list_all is_ascii s \<and> CHR 0x0D \<notin> set s"
  using visible_char by (auto simp: is_word_def list_all_iff)

lemma ws_len_visible: "visible c \<Longrightarrow> ws_len (c # s) = 0"
  unfolding ws_len_0_iff using visible_not_white ws_encodings_nonempty by (fastforce simp: prefix_def neq_Nil_conv)

lemma ws_end_len_visible: "visible (last s) \<Longrightarrow> s \<noteq> [] \<Longrightarrow> ws_end_len s = 0"
  unfolding ws_end_len_0_iff using visible_not_white ws_encodings_nonempty by (fastforce simp: suffix_def)

lemma ws_len_space: "ws_len (CHR '' '' # s) = 1"
  by (simp add: ws_len_def ws_encodings_def)

lemma trim_value:
  assumes "v \<noteq> []" and "visible (hd v)" and "visible (last v)"
  shows "trim (CHR '' '' # v) = v"
proof -
  obtain c s where v: "v = c # s" using assms(1) by (cases v) auto
  have "trim_start v = v" using assms(2) v ws_len_visible by (subst trim_start.simps) simp
  moreover have "trim_start (CHR '' '' # v) = trim_start v"
    by (subst trim_start.simps) (simp add: ws_len_space)
  moreover have "trim_end v = v"
    using ws_end_len_visible [OF assms(3,1)] by (subst trim_end.simps) simp
  ultimately show ?thesis by (simp add: trim_def)
qed

lemma word_ends: "is_word s \<Longrightarrow> visible (hd s) \<and> visible (last s) \<and> s \<noteq> []"
  by (simp add: is_word_def list_all_iff)

text \<open>The words of a line.\<close>

lemma split_ws_word: "list_all visible s \<Longrightarrow> split_ws cur (s @ rest) = split_ws (cur @ s) rest"
proof (induction s arbitrary: cur)
  case (Cons c s)
  then show ?case by (subst split_ws.simps) (simp add: ws_len_visible)
qed simp

lemma split_ws_space: "cur \<noteq> [] \<Longrightarrow> split_ws cur (CHR '' '' # rest) = cur # split_ws [] rest"
  by (subst split_ws.simps) (simp add: ws_len_space)

lemma split_three_words:
  assumes "is_word a" and "is_word b" and "is_word c"
  shows "split_whitespace (a @ '' '' @ b @ '' '' @ c) = [a, b, c]"
proof -
  have "split_ws [] c = [c]"
    using assms(3) split_ws_word [of c "[]" "[]"] by (simp add: is_word_def split_ws.simps)
  then show ?thesis
    using assms by (simp add: split_whitespace_def split_ws_word split_ws_space is_word_def)
qed

section \<open>Lines\<close>

lemma find_blank_line:
  assumes "list_all (\<lambda>l. l \<noteq> [] \<and> CHR 0x0D \<notin> set l) ls" and "ls \<noteq> []"
  shows "find_bytes (join crlf ls @ crlf @ crlf @ rest) (crlf @ crlf) = Some (length (join crlf ls))"
  using assms
proof (induction ls rule: induct_list012)
  case (2 l)
  then show ?case using find_bytes_line [of "CHR 0x0D" l "[CHR 0x0A, CHR 0x0D, CHR 0x0A]" rest] by simp
next
  case (3 l m ls)
  have skip: "find_bytes (l @ crlf @ t) (crlf @ crlf) = map_option (\<lambda>i. length l + 2 + i) (find_bytes t (crlf @ crlf))"
    if "CHR 0x0D \<notin> set l" "\<not> prefix crlf t" for t
    using that by (cases "find_bytes t (crlf @ crlf)"; induction l) (auto simp: prefix_def)
  have "\<not> prefix crlf (join crlf (m # ls) @ t)" for t
    using 3(3) by (cases m; cases ls) auto
  then show ?case using 3 skip by simp
qed simp

lemma split_at_lines:
  assumes "list_all (\<lambda>l. CHR 0x0D \<notin> set l) ls" and "ls \<noteq> []"
  shows "split_at crlf (join crlf ls) = ls"
  using assms
proof (induction ls rule: induct_list012)
  case (3 l m ls)
  then show ?case using split_at_line [of "CHR 0x0D" l "[CHR 0x0A]" "join crlf (m # ls)"] by simp
qed (simp_all add: split_at_last)

text \<open>A search in the first bytes finds the pattern as soon as it is complete.\<close>

lemma find_bytes_take:
  assumes "find_bytes s p = Some i"
  shows "find_bytes (take n s) p = (if i + length p \<le> n then Some i else None)"
proof (cases "i + length p \<le> n")
  case True
  have sound: "prefix p (drop i s)" "i + length p \<le> length s" using find_bytes_sound [OF assms] by auto
  have "prefix p (drop i (take n s))"
    using sound(1) True by (auto simp: prefix_def drop_take)
  moreover have "\<not> prefix p (drop j (take n s))" if "j < i" for j
  proof
    assume "prefix p (drop j (take n s))"
    then have "prefix p (drop j s)"
      by (metis drop_take prefix_order.trans take_is_prefix)
    then show False using find_bytes_least [OF assms that] by simp
  qed
  ultimately show ?thesis using find_bytes_first [of p i "take n s"] True sound(2) by simp
next
  case False
  have "find_bytes (take n s) p \<noteq> Some j" for j
  proof
    assume "find_bytes (take n s) p = Some j"
    from find_bytes_sound [OF this] have j: "prefix p (drop j (take n s))" "j + length p \<le> n" by auto
    then have "prefix p (drop j s)" by (metis drop_take prefix_order.trans take_is_prefix)
    then show False using find_bytes_least [OF assms, of j] j False by force
  qed
  then show ?thesis using False by auto
qed

section \<open>Numbers\<close>

lemma decimal_digits:
  "list_all (\<lambda>c. visible c \<and> c \<noteq> CHR ''+'' \<and> radix_digit 10 c \<noteq> None) (decimal n) \<and> decimal n \<noteq> []
   \<and> radix_value 10 (decimal n) = n"
proof (induction n rule: decimal.induct)
  case (1 n)
  have digit: "visible (char_of (48 + d)) \<and> char_of (48 + d) \<noteq> CHR ''+'' \<and> radix_digit 10 (char_of (48 + d)) = Some d"
    if "d < 10" for d :: nat
  proof -
    have code: "(of_char (char_of (48 + d) :: char) :: nat) = 48 + d" using that by simp
    have "char_of (48 + d) \<noteq> CHR ''+''"
    proof
      assume eq: "char_of (48 + d) = CHR ''+''"
      show False using code unfolding eq by simp
    qed
    then show ?thesis using that by (auto simp: visible_def radix_digit_def Let_def)
  qed
  show ?case
  proof (cases "n < 10")
    case True
    then show ?thesis using digit [OF True] by (simp add: decimal.simps [of n] radix_value_def)
  next
    case False
    then show ?thesis using 1 digit [of "n mod 10"] by (simp add: decimal.simps [of n] radix_value_def)
  qed
qed

lemma decimal_word: "is_word (decimal n)"
  using decimal_digits [of n] by (simp add: is_word_def list_all_iff)

lemma parse_decimal: "n < usize_bound \<Longrightarrow> parse_usize 10 (decimal n) = Some n"
proof -
  assume "n < usize_bound"
  moreover have "hd (decimal n) \<noteq> CHR ''+''" "\<not> list_ex (\<lambda>c. radix_digit 10 c = None) (decimal n)"
    using decimal_digits [of n] by (auto simp: list_all_iff list_ex_iff)
  ultimately show ?thesis using decimal_digits [of n] by (simp add: parse_usize_def parse_unsigned_def)
qed

section \<open>The head of a request\<close>

definition head_lines :: "string \<Rightarrow> string \<Rightarrow> string \<Rightarrow> string \<Rightarrow> nat \<Rightarrow> string list" where
  "head_lines request_method target address token n =
     [request_method @ '' '' @ target @ '' HTTP/1.1'', ''Host: '' @ address, ''Authorization: Bearer '' @ token,
      ''Content-Type: application/json'', ''Content-Length: '' @ decimal n, ''Connection: close'']"

lemma client_head_lines:
  "client_head request_method target address token n =
     join crlf (head_lines request_method target address token n) @ crlf @ crlf"
  by (simp add: client_head_def head_lines_def)

lemma split_header: "CHR '':'' \<notin> set name \<Longrightarrow> split_once (name @ '':'' @ v) '':'' = Some (name, v)"
  using split_once_line [of "CHR '':''" name "[]" v] by simp

lemma add_host:
  assumes "is_word a"
  shows "add_header (''Host: '' @ a) hs = Inr (hs\<lparr>hd_host := if hd_host hs \<noteq> None then Some [] else Some a\<rparr>)"
proof -
  have split: "split_once (''Host: '' @ a) '':'' = Some (''Host'', CHR '' '' # a)"
    using split_header [of "''Host''" "CHR '' '' # a"] by simp
  have lower: "to_ascii_lowercase (trim ''Host'') = ''host''" by code_simp
  show ?thesis using word_ends [OF assms] trim_value [of a]
    unfolding add_header_def split option.case prod.case Let_def lower by (simp add: set_host_header_def)
qed

lemma add_authorization:
  assumes "is_word token" and "hd_authorization hs = None"
  shows "add_header (''Authorization: Bearer '' @ token) hs = Inr (hs\<lparr>hd_authorization := Some (''Bearer '' @ token)\<rparr>)"
proof -
  have split: "split_once (''Authorization: Bearer '' @ token) '':'' = Some (''Authorization'', CHR '' '' # ''Bearer '' @ token)"
    using split_header [of "''Authorization''" "CHR '' '' # ''Bearer '' @ token"] by simp
  have lower: "to_ascii_lowercase (trim ''Authorization'') = ''authorization''" by code_simp
  have "visible (CHR ''B'')" by (simp add: visible_def)
  then have "trim (CHR '' '' # ''Bearer '' @ token) = ''Bearer '' @ token"
    using word_ends [OF assms(1)] by (intro trim_value) simp_all
  then show ?thesis using assms(2)
    unfolding add_header_def split option.case prod.case Let_def lower by simp
qed

lemma add_content_type:
  assumes "hd_content_type hs = None"
  shows "add_header ''Content-Type: application/json'' hs = Inr (hs\<lparr>hd_content_type := Some ''application/json''\<rparr>)"
proof -
  have split: "split_once ''Content-Type: application/json'' '':'' = Some (''Content-Type'', '' application/json'')" by code_simp
  have lower: "to_ascii_lowercase (trim ''Content-Type'') = ''content-type''" by code_simp
  have value': "trim (hd (split_on (CHR '';'') (trim '' application/json''))) = ''application/json''" by code_simp
  have trimmed: "trim ''application/json'' = ''application/json''" by code_simp
  show ?thesis using assms
    unfolding add_header_def split option.case prod.case Let_def lower value'
    by (simp add: set_single_header_def trimmed)
qed

lemma add_content_length:
  assumes "hd_content_length hs = None" and "n \<le> max_body_bytes"
  shows "add_header (''Content-Length: '' @ decimal n) hs = Inr (hs\<lparr>hd_content_length := Some n\<rparr>)"
proof -
  have split: "split_once (''Content-Length: '' @ decimal n) '':'' = Some (''Content-Length'', CHR '' '' # decimal n)"
    using split_header [of "''Content-Length''" "CHR '' '' # decimal n"] by simp
  have lower: "to_ascii_lowercase (trim ''Content-Length'') = ''content-length''" by code_simp
  have "parse_usize 10 (trim (CHR '' '' # decimal n)) = Some n"
    using word_ends [OF decimal_word] trim_value [of "decimal n"] parse_decimal [of n] assms(2)
    by (simp add: max_body_bytes_def)
  then show ?thesis using assms
    unfolding add_header_def split option.case prod.case Let_def lower by simp
qed

lemma add_connection: "add_header ''Connection: close'' hs = Inr hs"
proof -
  have split: "split_once ''Connection: close'' '':'' = Some (''Connection'', '' close'')" by code_simp
  have lower: "to_ascii_lowercase (trim ''Connection'') = ''connection''" by code_simp
  show ?thesis unfolding add_header_def split option.case prod.case Let_def lower by simp
qed

definition client_headers :: "string \<Rightarrow> string \<Rightarrow> nat \<Rightarrow> header_set" where
  "client_headers address token n = no_headers\<lparr>hd_host := Some address, hd_authorization := Some (''Bearer '' @ token),
     hd_content_type := Some ''application/json'', hd_content_length := Some n\<rparr>"

lemma parse_client_head:
  assumes "is_word request_method" and "is_word target" and "is_word address" and "is_word token"
    and "n \<le> max_body_bytes"
  shows "parse_head (client_head request_method target address token n)
    = Inr (request_method, target, client_headers address token n)"
proof -
  let ?head = "client_head request_method target address token n"
  let ?lines = "head_lines request_method target address token n"
  have ascii: "list_all is_ascii (''Host: '' @ ''Authorization: Bearer '' @ ''Content-Type: application/json''
      @ ''Content-Length: '' @ ''Connection: close'' @ '' HTTP/1.1'' @ crlf)" by code_simp
  note words = assms(1-4) decimal_word [of n]
  have "list_all is_ascii ?head" using words [THEN word_chars] ascii by (simp add: client_head_def)
  then have utf8: "utf8_valid ?head" by (rule utf8_valid_ascii)
  have "list_all (\<lambda>l. CHR 0x0D \<notin> set l) ?lines" using words [THEN word_chars] by (simp add: head_lines_def)
  then have "split_at crlf (join crlf ?lines) = ?lines" by (rule split_at_lines) (simp add: head_lines_def)
  moreover have "take (length ?head - 4) ?head = join crlf ?lines" by (simp add: client_head_lines)
  ultimately have lines: "split_at crlf (take (length ?head - 4) ?head) = ?lines" by simp
  have "is_word ''HTTP/1.1''" by code_simp
  then have words3: "split_whitespace (request_method @ '' '' @ target @ '' HTTP/1.1'') = [request_method, target, ''HTTP/1.1'']"
    using split_three_words [OF assms(1,2), of "''HTTP/1.1''"] by simp
  have "add_headers (tl ?lines) no_headers = Inr (client_headers address token n)"
    unfolding head_lines_def list.sel add_headers.simps add_host [OF assms(3)] sum.case
    by (simp only: add_authorization [OF assms(4)] add_content_type add_content_length [OF _ assms(5)] add_connection
        sum.case no_headers_def header_set.simps client_headers_def if_False simp_thms)
  then show ?thesis
    unfolding parse_head_def lines head_lines_def list.case list.sel words3 using utf8 by simp
qed

section \<open>Reading it\<close>

text \<open>
  A connection on which the bytes \<open>rest\<close> are still to come: a read gives at least one and at most as
  many of them as it asks for, and looking at the clock takes none.
\<close>

definition offers :: "'w stream \<Rightarrow> ('w \<Rightarrow> string) \<Rightarrow> bool" where
  "offers k rest \<longleftrightarrow>
     (\<forall>n os. 0 < n \<and> rest os \<noteq> [] \<longrightarrow> (\<exists>m. 0 < m \<and> m \<le> n
        \<and> fst (sk_read k n os) = RdBytes (take m (rest os)) \<and> rest (snd (sk_read k n os)) = drop m (rest os)))
     \<and> (\<forall>os. rest (snd (sk_elapse k os)) = rest os)"

lemma read_piece:
  assumes "offers k rest" and "rest (wd_os w) \<noteq> []"
  shows "\<exists>chunk w1. read_with_deadline k 1024 deadline w = (Ok chunk, w1) \<and> chunk \<noteq> []
    \<and> rest (wd_os w) = chunk @ rest (wd_os w1)"
proof -
  obtain m where m: "0 < m" "fst (sk_read k 1024 (wd_os w)) = RdBytes (take m (rest (wd_os w)))"
      "rest (snd (sk_read k 1024 (wd_os w))) = drop m (rest (wd_os w))"
    using assms(1) [unfolded offers_def, THEN conjunct1, rule_format, of 1024 "wd_os w"] assms(2) by auto
  obtain a os where a: "sk_read k 1024 (wd_os w) = (a, os)" by (metis prod.exhaust)
  have "read_with_deadline k 1024 deadline w = (Ok (take m (rest (wd_os w))), w\<lparr>wd_os := os\<rparr>)"
    using m(2) a by (subst read_with_deadline.simps) (simp add: stream_read_def)
  moreover have "take m (rest (wd_os w)) \<noteq> []" using m(1) assms(2) by simp
  moreover have "rest (wd_os w) = take m (rest (wd_os w)) @ rest (wd_os (w\<lparr>wd_os := os\<rparr>))"
    using m(3) a by simp
  ultimately show ?thesis by blast
qed

lemma read_head_offered:
  assumes "offers k rest" and "find_bytes s (crlf @ crlf) = Some i" and "i + 4 \<le> max_header_bytes"
    and "s = bytes @ rest (wd_os w)" and "length bytes < i + 4"
  shows "\<exists>bytes' w1. read_head k deadline bytes w = (Ok (bytes', i + 4), w1) \<and> s = bytes' @ rest (wd_os w1)
    \<and> i + 4 \<le> length bytes'"
  using assms(4,5)
proof (induction "length (rest (wd_os w))" arbitrary: bytes w rule: less_induct)
  case less
  have "i + 4 \<le> length s" using find_bytes_sound [OF assms(2)] by simp
  then have "rest (wd_os w) \<noteq> []" using less.prems by auto
  then obtain chunk w1 where read: "read_with_deadline k 1024 deadline w = (Ok chunk, w1)" "chunk \<noteq> []"
      "rest (wd_os w) = chunk @ rest (wd_os w1)"
    using read_piece [OF assms(1)] by blast
  have "take (length (bytes @ chunk)) s = bytes @ chunk" using less.prems(1) read(3) by simp
  then have found: "find_bytes (bytes @ chunk) (crlf @ crlf) = (if i + 4 \<le> length (bytes @ chunk) then Some i else None)"
    using find_bytes_take [OF assms(2), of "length (bytes @ chunk)"] by simp
  have small: "\<not> max_header_bytes \<le> length bytes" using less.prems(2) assms(3) by simp
  show ?case
  proof (cases "i + 4 \<le> length (bytes @ chunk)")
    case True
    then have "read_head k deadline bytes w = (Ok (bytes @ chunk, i + 4), w1)"
      using small read found by (subst read_head.simps) simp
    then show ?thesis using True less.prems(1) read(3) by auto
  next
    case False
    then have "read_head k deadline bytes w = read_head k deadline (bytes @ chunk) w1"
      using small read found by (subst read_head.simps) simp
    moreover have "\<exists>bytes' w2. read_head k deadline (bytes @ chunk) w1 = (Ok (bytes', i + 4), w2)
        \<and> s = bytes' @ rest (wd_os w2) \<and> i + 4 \<le> length bytes'"
      using False less.prems(1) read by (intro less.hyps) simp_all
    ultimately show ?thesis by simp
  qed
qed

lemma read_body_offered:
  assumes "offers k rest" and "n \<le> max_body_bytes" and "length s = header_end + n"
    and "s = bytes @ rest (wd_os w)" and "header_end \<le> length bytes"
  shows "\<exists>w1. read_body k deadline header_end n bytes w = (Ok s, w1)"
  using assms(4,5)
proof (induction "length (rest (wd_os w))" arbitrary: bytes w rule: less_induct)
  case less
  show ?case
  proof (cases "n \<le> length bytes - header_end")
    case True
    moreover have "length bytes + length (rest (wd_os w)) = header_end + n" using assms(3) less.prems(1) by simp
    ultimately have "length (rest (wd_os w)) = 0" using less.prems(2) by linarith
    then have "s = bytes" using less.prems(1) by simp
    then show ?thesis using True by (subst read_body.simps) simp
  next
    case False
    then have "rest (wd_os w) \<noteq> []" using less.prems assms(3) by auto
    then obtain chunk w1 where read: "read_with_deadline k 1024 deadline w = (Ok chunk, w1)" "chunk \<noteq> []"
        "rest (wd_os w) = chunk @ rest (wd_os w1)"
      using read_piece [OF assms(1)] by blast
    have "length (bytes @ chunk) \<le> length s" using less.prems(1) read(3) by simp
    then have "\<not> max_body_bytes < length (bytes @ chunk) - header_end" using assms(2,3) by simp
    then have "read_body k deadline header_end n bytes w = read_body k deadline header_end n (bytes @ chunk) w1"
      using False read by (subst read_body.simps) simp
    moreover have "\<exists>w2. read_body k deadline header_end n (bytes @ chunk) w1 = (Ok s, w2)"
      using less.prems read by (intro less.hyps) simp_all
    ultimately show ?thesis by simp
  qed
qed

text \<open>C17: The server reads the request the client wrote, whatever the pieces in which it arrives: the same
  method, target and body, and it is authorized by the token the client has.\<close>

theorem client_request_round_trip:
  assumes "offers k rest"
    and "rest (wd_os w) = client_head request_method target address token (length body) @ body"
    and "is_word request_method" and "is_word target" and "is_word address" and "is_word token"
    and "length (client_head request_method target address token (length body)) \<le> max_header_bytes"
    and "length body \<le> max_body_bytes"
  shows "\<exists>rq w'. read_request k w = (Ok rq, w') \<and> rq_method rq = request_method \<and> rq_target rq = target
    \<and> rq_body rq = body \<and> rq_host rq = Some address \<and> rq_content_type rq = Some ''application/json''
    \<and> request_is_authorized rq token"
proof -
  let ?head = "client_head request_method target address token (length body)"
  let ?lines = "head_lines request_method target address token (length body)"
  let ?s = "?head @ body"
  have "list_all (\<lambda>l. l \<noteq> [] \<and> CHR 0x0D \<notin> set l) ?lines"
    using assms(3-6) [THEN word_chars] word_chars [OF decimal_word] by (simp add: head_lines_def)
  then have found: "find_bytes ?s (crlf @ crlf) = Some (length ?head - 4)"
    using find_blank_line [of ?lines body] by (simp add: client_head_lines head_lines_def)
  have len: "length ?head - 4 + 4 = length ?head" by (simp add: client_head_lines)
  obtain now w0 where now: "stream_now k w = (now, w0)" by (metis prod.exhaust)
  then have start: "?s = [] @ rest (wd_os w0)"
    using assms(1,2) by (auto simp: stream_now_def offers_def split: prod.splits)
      (metis snd_conv)
  obtain bytes w1 where head: "read_head k (now + io_timeout) [] w0 = (Ok (bytes, length ?head), w1)"
      "?s = bytes @ rest (wd_os w1)" "length ?head \<le> length bytes"
    using read_head_offered [OF assms(1) found _ start, of "now + io_timeout"] assms(7)
    by (auto simp: len) (auto simp: client_head_lines)
  obtain w2 where body: "read_body k (now + io_timeout) (length ?head) (length body) bytes w1 = (Ok ?s, w2)"
    using read_body_offered [OF assms(1,8) _ head(2,3), of "now + io_timeout"] by auto
  have "take (length ?head) bytes = take (length ?head) ?s" using head(2,3) by simp
  then have parsed: "parse_head (take (length ?head) bytes) = Inr (request_method, target, client_headers address token (length body))"
    using parse_client_head [OF assms(3-6,8)] by simp
  let ?rq = "request_of request_method target (client_headers address token (length body)) body"
  have "read_request k w = (Ok ?rq, w2)"
    using now head(1) parsed body by (simp add: read_request_def client_headers_def no_headers_def)
  moreover have "length token < 2 ^ 64" using assms(7) by (simp add: client_head_def max_header_bytes_def)
  then have "request_is_authorized ?rq token"
    by (simp add: request_is_authorized_def bearer_candidate_def strip_prefix_def request_of_def client_headers_def
        bearer_is_equality)
  ultimately show ?thesis by (simp add: request_of_def client_headers_def no_headers_def)
qed

theorem client_request_round_trip_witness:
  "\<exists>rq w'. read_request \<lparr>sk_read = (\<lambda>n s. (RdBytes (take n s), drop n s)), sk_write = (\<lambda>_ s. (None, s)),
        sk_flush = (\<lambda>s. (None, s)), sk_shutdown_write = (\<lambda>s. (None, s)), sk_elapse = (\<lambda>s. (0, s)),
        sk_sleep = (\<lambda>_ s. s)\<rparr>
      \<lparr>wd_clock = 0, wd_os = client_head ''POST'' ''/v1/services/api/stop'' ''127.0.0.1:7000'' ''key'' 2 @ ''{}''\<rparr>
      = (Ok rq, w')
    \<and> rq_target rq = ''/v1/services/api/stop'' \<and> rq_body rq = ''{}'' \<and> request_is_authorized rq ''key''"
  (is "\<exists>rq w'. read_request ?k ?w = _ \<and> _")
proof -
  have "offers ?k id" by (auto simp: offers_def)
  moreover have "length (client_head ''POST'' ''/v1/services/api/stop'' ''127.0.0.1:7000'' ''key'' (length ''{}'')) \<le> max_header_bytes"
    by code_simp
  moreover have "is_word ''POST''" "is_word ''/v1/services/api/stop''" "is_word ''127.0.0.1:7000''" "is_word ''key''"
    by code_simp+
  ultimately show ?thesis
    using client_request_round_trip [of ?k id ?w "''POST''" "''/v1/services/api/stop''" "''127.0.0.1:7000''" "''key''" "''{}''"]
    by (simp add: max_body_bytes_def numeral_2_eq_2) blast
qed

end
