(* ===== verification/Extension_Relay.thy ===== *)
theory Extension_Relay
  imports Http_Response Json_Values Cooperative Config
begin

text \<open>
  \<open>src/src/adapters/chrome_extension_reload.rs\<close> and \<open>cooperative_extensions.rs\<close>: the reload of the browser
  extension through the relay of a sidecar, a loop over the status of one action with a report of every
  stage, and the audit of it. The sockets, the audit file and the JSON library are the record
  \<open>relay_host\<close> over a world with a clock. The lock of the audit is its poison flag; its one panic is the
  overflow of the sequence number.
\<close>

section \<open>Data\<close>

record coop_audit_record =
  xa_sequence :: u64
  xa_timestamp :: u64
  xa_target :: string
  xa_action :: string
  xa_actor :: actor
  xa_reason :: string
  xa_request_id :: string
  xa_configuration_fingerprint :: string
  xa_status :: string
  xa_relay_action_id :: "string option"
  xa_expected_build_id :: "string option"
  xa_observed_build_id :: "string option"
  xa_error_category :: "string option"
  xa_message :: string

record relay_audit =
  rl_next_sequence :: u64
  rl_poisoned :: bool

type_synonym 'w relay_state = "'w world \<times> relay_audit"

record 'a relay_client =
  xc_address :: 'a
  xc_origin :: string
  xc_timeout :: nat
  xc_poll_interval :: nat
  xc_configuration_fingerprint :: string
  xc_target :: string

text \<open>\<open>xr_write\<close> and \<open>xr_append\<close> write a whole text or fail; \<open>xr_progress\<close> is the callback of the manager.\<close>

record ('w, 'a, 'c) relay_host =
  xr_address :: "string \<Rightarrow> 'a option"
  xr_is_loopback :: "'a \<Rightarrow> bool"
  xr_show_address :: "'a \<Rightarrow> string"
  xr_connect :: "'a \<Rightarrow> nat \<Rightarrow> 'w \<Rightarrow> (string + 'c) \<times> 'w"
  xr_set_timeouts :: "'c \<Rightarrow> nat \<Rightarrow> 'w \<Rightarrow> 'w"
  xr_write :: "'c \<Rightarrow> string \<Rightarrow> 'w \<Rightarrow> string option \<times> 'w"
  xr_flush :: "'c \<Rightarrow> 'w \<Rightarrow> string option \<times> 'w"
  xr_read_to_end :: "'c \<Rightarrow> nat \<Rightarrow> 'w \<Rightarrow> (string + string) \<times> 'w"
  xr_encode :: "json \<Rightarrow> string"
  xr_decode :: "string \<Rightarrow> string + json"
  xr_actor :: "actor \<Rightarrow> json"
  xr_encode_record :: "coop_audit_record \<Rightarrow> string + string"
  xr_decode_record :: "string \<Rightarrow> coop_audit_record option"
  xr_create_parent :: "'w \<Rightarrow> string option \<times> 'w"
  xr_exists :: "'w \<Rightarrow> bool \<times> 'w"
  xr_read_source :: "'w \<Rightarrow> (string + string) \<times> 'w"
  xr_create_audit :: "'w \<Rightarrow> string option \<times> 'w"
  xr_open_audit :: "'w \<Rightarrow> string option \<times> 'w"
  xr_append :: "string \<Rightarrow> 'w \<Rightarrow> string option \<times> 'w"
  xr_flush_audit :: "'w \<Rightarrow> string option \<times> 'w"
  xr_unix_timestamp :: "'w \<Rightarrow> u64 \<times> 'w"
  xr_progress :: "string \<Rightarrow> coop_progress \<Rightarrow> 'w \<Rightarrow> 'w"
  xr_elapse :: "'w \<Rightarrow> nat \<times> 'w"
  xr_sleep :: "nat \<Rightarrow> 'w \<Rightarrow> 'w"

definition max_relay_response_bytes :: nat where
  "max_relay_response_bytes = 1024 * 1024"

section \<open>The host\<close>

definition relay_os :: "('w \<Rightarrow> 'b \<times> 'w) \<Rightarrow> ('w relay_state, 'b, 'e) op" where
  "relay_os f = (\<lambda>(w, a). case f (wd_os w) of (b, os) \<Rightarrow> (Ok b, (w\<lparr>wd_os := os\<rparr>, a)))"

definition relay_do :: "('w \<Rightarrow> 'w) \<Rightarrow> ('w relay_state, unit, 'e) op" where
  "relay_do f = relay_os (\<lambda>os. ((), f os))"

definition relay_now :: "('w, 'a, 'c) relay_host \<Rightarrow> ('w relay_state, nat, 'e) op" where
  "relay_now h = (\<lambda>(w, a). case xr_elapse h (wd_os w) of
      (d, os) \<Rightarrow> (Ok (wd_clock w + d), (\<lparr>wd_clock = wd_clock w + d, wd_os = os\<rparr>, a)))"

definition relay_sleep :: "('w, 'a, 'c) relay_host \<Rightarrow> nat \<Rightarrow> ('w relay_state, unit, 'e) op" where
  "relay_sleep h d = (\<lambda>(w, a). (Ok (), (\<lparr>wd_clock = wd_clock w + d, wd_os = xr_sleep h d (wd_os w)\<rparr>, a)))"

definition io_error :: "string \<Rightarrow> coop_action_error" where
  "io_error e = coop_action_error_new ''relay_io'' e"

definition audit_error :: "string \<Rightarrow> coop_action_error" where
  "audit_error e = coop_action_error_new ''audit_unavailable'' e"

text \<open>An operation of the host that may fail, and one that gives a value or fails.\<close>

definition try_unit ::
  "(string \<Rightarrow> coop_action_error) \<Rightarrow> ('w \<Rightarrow> string option \<times> 'w) \<Rightarrow> ('w relay_state, unit, coop_action_error) op" where
  "try_unit failed f = bind_op (relay_os f) (\<lambda>r. case r of None \<Rightarrow> return_op () | Some e \<Rightarrow> fail_op (failed e))"

definition try_value ::
  "(string \<Rightarrow> coop_action_error) \<Rightarrow> ('w \<Rightarrow> (string + 'b) \<times> 'w) \<Rightarrow> ('w relay_state, 'b, coop_action_error) op" where
  "try_value failed f = bind_op (relay_os f) (\<lambda>r. case r of Inr b \<Rightarrow> return_op b | Inl e \<Rightarrow> fail_op (failed e))"

section \<open>The audit\<close>

definition audit_open :: "('w, 'a, 'c) relay_host \<Rightarrow> ('w relay_state, u64, coop_action_error) op" where
  "audit_open h =
     seq_op (try_unit io_error (xr_create_parent h))
       (bind_op (relay_os (xr_exists h)) (\<lambda>present.
        bind_op (if present then
            bind_op (try_value io_error (xr_read_source h)) (\<lambda>source.
              let sequences = map xa_sequence (List.map_filter (xr_decode_record h) (file_lines [] source));
                  last = fold max sequences 0 in
              if last = - 1 then (\<lambda>s. (Panic, s)) else return_op (last + 1))
          else return_op 1) (\<lambda>next_sequence.
        seq_op (try_unit io_error (xr_create_audit h)) (return_op next_sequence))))"

definition audit_append ::
  "('w, 'a, 'c) relay_host \<Rightarrow> coop_audit_record \<Rightarrow> ('w relay_state, unit, coop_action_error) op" where
  "audit_append h r = (\<lambda>(w, a).
     (case xr_encode_record h (r\<lparr>xa_sequence := rl_next_sequence a\<rparr>) of
        Inl e \<Rightarrow> (Err (audit_error e), (w, a))
      | Inr line \<Rightarrow>
          seq_op (try_unit audit_error (xr_open_audit h))
            (seq_op (try_unit audit_error (xr_append h line))
              (seq_op (try_unit audit_error (xr_append h [newline]))
                (seq_op (try_unit audit_error (xr_flush_audit h))
                  (\<lambda>(w, a). if rl_next_sequence a = - 1 then (Panic, (w, a))
                     else (Ok (), (w, a\<lparr>rl_next_sequence := rl_next_sequence a + 1\<rparr>)))))) (w, a)))"

definition with_audit ::
  "('w relay_state, unit, coop_action_error) op \<Rightarrow> ('w relay_state, unit, coop_action_error) op" where
  "with_audit m = (\<lambda>(w, a).
     if rl_poisoned a then (Err (audit_error ''cooperative audit lock is poisoned''), (w, a))
     else (case m (w, a) of
         (Panic, (w', a')) \<Rightarrow> (Panic, (w', a'\<lparr>rl_poisoned := True\<rparr>)) | r \<Rightarrow> r))"

definition reload_line ::
  "'a relay_client \<Rightarrow> actor \<Rightarrow> reason \<Rightarrow> string \<Rightarrow> string \<Rightarrow> u64 \<Rightarrow> coop_audit_record" where
  "reload_line c a r rid status timestamp =
     \<lparr>xa_sequence = 0, xa_timestamp = timestamp, xa_target = xc_target c, xa_action = ''reload_self'', xa_actor = a,
      xa_reason = reason_as_str r, xa_request_id = rid,
      xa_configuration_fingerprint = xc_configuration_fingerprint c, xa_status = status,
      xa_relay_action_id = None, xa_expected_build_id = None, xa_observed_build_id = None,
      xa_error_category = None, xa_message = ''authenticated reload_self request accepted for relay''\<rparr>"

text \<open>The record with the result of the action, if there is one.\<close>

definition result_line ::
  "(coop_action_error + coop_outcome) option \<Rightarrow> coop_audit_record \<Rightarrow> coop_audit_record" where
  "result_line result line = (case result of
      None \<Rightarrow> line
    | Some (Inr outcome) \<Rightarrow> line\<lparr>xa_relay_action_id := cout_relay_action_id outcome,
        xa_expected_build_id := cout_expected_build_id outcome,
        xa_observed_build_id := cout_observed_build_id outcome, xa_message := cout_message outcome\<rparr>
    | Some (Inl e) \<Rightarrow> line\<lparr>xa_relay_action_id := cae_relay_action_id e,
        xa_observed_build_id := cae_observed_build_id e, xa_error_category := Some (cae_category e),
        xa_message := cae_message e\<rparr>)"

definition relay_audit_record ::
  "('w, 'a, 'c) relay_host \<Rightarrow> 'a relay_client \<Rightarrow> actor \<Rightarrow> reason \<Rightarrow> string \<Rightarrow> string
     \<Rightarrow> (coop_action_error + coop_outcome) option \<Rightarrow> ('w relay_state, unit, coop_action_error) op" where
  "relay_audit_record h c a r rid status result = with_audit
     (bind_op (relay_os (xr_unix_timestamp h)) (\<lambda>timestamp.
        audit_append h (result_line result (reload_line c a r rid status timestamp))))"

section \<open>Requests\<close>

definition relay_parse_response :: "('w, 'a, 'c) relay_host \<Rightarrow> string \<Rightarrow> coop_action_error + json" where
  "relay_parse_response h bytes = (case parse_response bytes of
      Inl e \<Rightarrow> Inl (coop_action_error_new ''relay_protocol'' (''Sidecar returned an invalid HTTP response: '' @ e))
    | Inr response \<Rightarrow>
        (case xr_decode h (hr_body response) of
           Inl e \<Rightarrow> Inl (coop_action_error_new ''relay_protocol'' (''Sidecar returned invalid JSON: '' @ e))
         | Inr payload \<Rightarrow>
             if 200 \<le> hr_status response \<and> hr_status response < 300 then Inr payload
             else Inl (coop_action_error_new ''relay_rejected'' (case json_text payload ''message'' of
                 None \<Rightarrow> ''Sidecar rejected the cooperative action'' | Some message \<Rightarrow> message))))"

definition relay_head :: "('w, 'a, 'c) relay_host \<Rightarrow> 'a relay_client \<Rightarrow> string \<Rightarrow> string \<Rightarrow> nat \<Rightarrow> string" where
  "relay_head h c request_method target content_length =
     request_method @ '' '' @ target @ '' HTTP/1.1'' @ crlf @ ''Host: '' @ xr_show_address h (xc_address c) @ crlf
     @ ''Connection: close'' @ crlf @ ''Content-Type: application/json'' @ crlf
     @ ''Content-Length: '' @ decimal content_length @ crlf"

definition relay_request ::
  "('w, 'a, 'c) relay_host \<Rightarrow> 'a relay_client \<Rightarrow> string \<Rightarrow> string \<Rightarrow> (string \<times> string) list \<Rightarrow> json option
     \<Rightarrow> ('w relay_state, json, coop_action_error) op" where
  "relay_request h c request_method target headers body =
     (let content = (case body of None \<Rightarrow> [] | Some v \<Rightarrow> xr_encode h v) in
      bind_op (try_value (\<lambda>e. coop_action_error_new ''relay_unreachable'' (''cannot connect to '' @ xc_origin c @ '': '' @ e))
          (xr_connect h (xc_address c) (2 * 1000000000))) (\<lambda>stream.
      seq_op (relay_do (xr_set_timeouts h stream (5 * 1000000000)))
      (seq_op (try_unit io_error (xr_write h stream (relay_head h c request_method target (length content))))
      (seq_op (each_op (\<lambda>(name, v). try_unit io_error (xr_write h stream (name @ '': '' @ v @ crlf))) headers)
      (seq_op (try_unit io_error (xr_write h stream crlf))
      (seq_op (try_unit io_error (xr_write h stream content))
      (seq_op (try_unit io_error (xr_flush h stream))
      (bind_op (try_value io_error (xr_read_to_end h stream (max_relay_response_bytes + 1))) (\<lambda>response.
         if max_relay_response_bytes < length response
         then fail_op (coop_action_error_new ''relay_protocol'' ''Sidecar response exceeded 1 MiB'')
         else lift_sum (relay_parse_response h response))))))))))"

definition bridge_headers :: "string \<Rightarrow> string \<Rightarrow> (string \<times> string) list" where
  "bridge_headers token contract =
     [(''X-Aku-Bridge-Token'', token), (''X-Aku-Bridge-Id'', ''aku-supervisor''), (''X-Aku-Bridge-Contract'', contract)]"

section \<open>Stages\<close>

fun stage_name :: "coop_stage \<Rightarrow> string" where
  "stage_name StRequested = ''requested''"
| "stage_name StRelayCreated = ''relay_created''"
| "stage_name StDelivered = ''delivered''"
| "stage_name StAccepted = ''accepted''"
| "stage_name StHeartbeatObserved = ''heartbeat_observed''"
| "stage_name StCompleted = ''completed''"
| "stage_name StFailed = ''failed''"

fun intermediate_stage_message :: "coop_stage \<Rightarrow> string" where
  "intermediate_stage_message StDelivered = ''AkuBrowser relay page claimed the cooperative action''"
| "intermediate_stage_message StAccepted = ''Chrome extension accepted reload_self''"
| "intermediate_stage_message _ = ''Sidecar reported an intermediate cooperative-action milestone''"

definition evidenced_intermediate_stages :: "json \<Rightarrow> coop_stage \<Rightarrow> coop_stage list" where
  "evidenced_intermediate_stages action last_stage =
     (let delivered = (last_stage = StRelayCreated \<and> json_text action ''deliveredAt'' \<noteq> None);
          current = (if delivered then StDelivered else last_stage) in
      (if delivered then [StDelivered] else [])
      @ (if current \<in> {StRelayCreated, StDelivered} \<and> json_text action ''acceptedAt'' \<noteq> None
         then [StAccepted] else []))"

definition sidecar_error_category :: "json \<Rightarrow> string" where
  "sidecar_error_category action = (case json_text action ''errorCategory'' of
      None \<Rightarrow> ''relay_failed''
    | Some category \<Rightarrow>
        if category \<in> {''relay_page_stale'', ''relay_not_delivered'', ''extension_not_accepted'',
          ''reload_heartbeat_timeout'', ''build_mismatch''} then category else ''relay_failed'')"

definition progress_from_action :: "json \<Rightarrow> coop_stage \<Rightarrow> string \<Rightarrow> coop_progress" where
  "progress_from_action action stage message =
     \<lparr>cpg_stage = stage, cpg_relay_action_id = json_text action ''id'',
      cpg_expected_build_id = json_text action ''expectedBuildId'',
      cpg_observed_build_id = json_text action ''observedBuildId'', cpg_message = message\<rparr>"

definition outcome_from_action :: "json \<Rightarrow> coop_action_status \<Rightarrow> string \<Rightarrow> coop_outcome" where
  "outcome_from_action action status target =
     \<lparr>cout_target = target, cout_action = ''reload_self'', cout_status = status,
      cout_relay_action_id = json_text action ''id'', cout_previous_build_id = json_text action ''previousBuildId'',
      cout_expected_build_id = json_text action ''expectedBuildId'',
      cout_observed_build_id = json_text action ''observedBuildId'',
      cout_message = (case json_text action ''message'' of
        None \<Rightarrow> ''Chrome extension cooperative reload completed'' | Some message \<Rightarrow> message)\<rparr>"

text \<open>A report is written to the audit before the manager sees it.\<close>

definition progress_line :: "coop_progress \<Rightarrow> coop_audit_record \<Rightarrow> coop_audit_record" where
  "progress_line u line = line\<lparr>xa_status := stage_name (cpg_stage u), xa_relay_action_id := cpg_relay_action_id u,
     xa_expected_build_id := cpg_expected_build_id u, xa_observed_build_id := cpg_observed_build_id u,
     xa_message := cpg_message u\<rparr>"

definition report_progress ::
  "('w, 'a, 'c) relay_host \<Rightarrow> 'a relay_client \<Rightarrow> actor \<Rightarrow> reason \<Rightarrow> string \<Rightarrow> coop_progress
     \<Rightarrow> ('w relay_state, unit, coop_action_error) op" where
  "report_progress h c a r rid u = seq_op
     (with_audit (bind_op (relay_os (xr_unix_timestamp h)) (\<lambda>timestamp.
        audit_append h (progress_line u (reload_line c a r rid [] timestamp)))))
     (relay_do (xr_progress h rid u))"

section \<open>The relay\<close>

text \<open>One answer of the sidecar: the action is over, or goes on in a stage with an observed build.\<close>

datatype relay_verdict = RelayDone coop_outcome | RelayWait coop_stage "string option"

definition report_stages ::
  "('w, 'a, 'c) relay_host \<Rightarrow> 'a relay_client \<Rightarrow> actor \<Rightarrow> reason \<Rightarrow> string \<Rightarrow> json \<Rightarrow> coop_stage list
     \<Rightarrow> ('w relay_state, unit, coop_action_error) op" where
  "report_stages h c a r rid action = each_op (\<lambda>stage.
     report_progress h c a r rid (progress_from_action action stage (intermediate_stage_message stage)))"

definition relay_answer ::
  "('w, 'a, 'c) relay_host \<Rightarrow> 'a relay_client \<Rightarrow> actor \<Rightarrow> reason \<Rightarrow> string \<Rightarrow> string \<Rightarrow> coop_stage \<Rightarrow> string option
     \<Rightarrow> json \<Rightarrow> ('w relay_state, relay_verdict, coop_action_error) op" where
  "relay_answer h c a r rid action_id last_stage last_observed action =
     (let status = json_text action ''status''; observed = json_text action ''observedBuildId'';
          stages = evidenced_intermediate_stages action last_stage;
          heartbeat = (observed \<noteq> None \<and> observed \<noteq> last_observed) in
      if status = Some ''completed'' then
        seq_op (report_stages h c a r rid action stages)
          (seq_op (if heartbeat then report_progress h c a r rid (progress_from_action action StHeartbeatObserved
               ''Sidecar observed the expected post-reload heartbeat'') else return_op ())
            (return_op (RelayDone (outcome_from_action action ActionCompleted (xc_target c)))))
      else if status = Some ''failed'' then
        fail_op (coop_error_with_context (Some action_id) observed
          (coop_action_error_new (sidecar_error_category action) (case json_text action ''message'' of
             None \<Rightarrow> ''Chrome extension cooperative reload failed'' | Some message \<Rightarrow> message)))
      else if status = Some ''delivered'' \<and> last_stage = StRelayCreated then
        seq_op (report_progress h c a r rid (progress_from_action action StDelivered
            ''AkuBrowser relay page claimed the cooperative action''))
          (return_op (RelayWait StDelivered last_observed))
      else if status = Some ''pending'' \<or> status = Some ''delivered'' then
        return_op (RelayWait last_stage last_observed)
      else if status = Some ''accepted'' then
        seq_op (report_stages h c a r rid action stages)
          (if heartbeat then seq_op (report_progress h c a r rid (progress_from_action action StHeartbeatObserved
               ''Sidecar observed a post-acceptance heartbeat'')) (return_op (RelayWait StHeartbeatObserved observed))
           else return_op (RelayWait (last (last_stage # stages)) last_observed))
      else fail_op (coop_action_error_new ''relay_contract'' ''Sidecar returned an unknown action status''))"

definition relay_timeout_error :: "string \<Rightarrow> string option \<Rightarrow> coop_action_error" where
  "relay_timeout_error action_id last_observed = coop_error_with_context (Some action_id) last_observed
     (coop_action_error_new ''relay_timeout''
       ''Chrome extension reload did not produce the expected heartbeat before the supervisor deadline'')"

definition relay_poll ::
  "('w, 'a, 'c) relay_host \<Rightarrow> 'a relay_client \<Rightarrow> actor \<Rightarrow> reason \<Rightarrow> string \<Rightarrow> (string \<times> string) list \<Rightarrow> string
     \<Rightarrow> coop_stage \<Rightarrow> string option \<Rightarrow> ('w relay_state, relay_verdict, coop_action_error) op" where
  "relay_poll h c a r rid headers action_id last_stage last_observed =
     bind_op (relay_request h c ''GET'' (''/api/operations/bridge/actions/'' @ action_id) headers None) (\<lambda>response.
       case json_get response ''action'' of
         None \<Rightarrow> fail_op (coop_action_error_new ''relay_contract'' ''Sidecar status omitted action'')
       | Some action \<Rightarrow> relay_answer h c a r rid action_id last_stage last_observed action)"

text \<open>The loop has no bound when the poll interval is zero; a run that does not end is \<open>None\<close>.\<close>

partial_function (option) relay_loop ::
  "('w, 'a, 'c) relay_host \<Rightarrow> 'a relay_client \<Rightarrow> actor \<Rightarrow> reason \<Rightarrow> string \<Rightarrow> (string \<times> string) list \<Rightarrow> string \<Rightarrow> nat
     \<Rightarrow> coop_stage \<Rightarrow> string option \<Rightarrow> 'w relay_state
     \<Rightarrow> ((coop_outcome, coop_action_error) outcome \<times> 'w relay_state) option" where
  "relay_loop h c a r rid headers action_id deadline last_stage last_observed st =
     (case relay_poll h c a r rid headers action_id last_stage last_observed st of
        (Err e, st1) \<Rightarrow> Some (Err e, st1)
      | (Panic, st1) \<Rightarrow> Some (Panic, st1)
      | (Ok (RelayDone outcome), st1) \<Rightarrow> Some (Ok outcome, st1)
      | (Ok (RelayWait stage observed), st1) \<Rightarrow>
          (case seq_op (bind_op (relay_now h) (\<lambda>now. if deadline \<le> now then fail_op (relay_timeout_error action_id observed)
               else return_op ())) (relay_sleep h (xc_poll_interval c)) st1 of
             (Err e, st2) \<Rightarrow> Some (Err e, st2)
           | (Panic, st2) \<Rightarrow> Some (Panic, st2)
           | (Ok _, st2) \<Rightarrow> relay_loop h c a r rid headers action_id deadline stage observed st2))"

declare relay_loop.simps [code]

definition required :: "string option \<Rightarrow> string \<Rightarrow> ('s, string, coop_action_error) op" where
  "required v message = (case v of
      None \<Rightarrow> fail_op (coop_action_error_new ''relay_contract'' message) | Some s \<Rightarrow> return_op s)"

definition reload_body :: "('w, 'a, 'c) relay_host \<Rightarrow> actor \<Rightarrow> reason \<Rightarrow> string \<Rightarrow> json" where
  "reload_body h a r rid = json_object
     [(''actor'', xr_actor h a), (''reason'', JString (reason_as_str r)), (''requestId'', JString rid)]"

text \<open>Up to the creation of the action: the headers, the action's identifier, its observed build, the deadline.\<close>

definition relay_begin ::
  "('w, 'a, 'c) relay_host \<Rightarrow> 'a relay_client \<Rightarrow> actor \<Rightarrow> reason \<Rightarrow> string
     \<Rightarrow> ('w relay_state, (string \<times> string) list \<times> string \<times> string option \<times> nat, coop_action_error) op" where
  "relay_begin h c a r rid =
     bind_op (relay_request h c ''GET'' ''/api/bootstrap'' [] None) (\<lambda>bootstrap.
     bind_op (required (json_text bootstrap ''bridgeToken'') ''Sidecar bootstrap omitted bridgeToken'') (\<lambda>token.
     bind_op (required (json_text bootstrap ''bridgeContractVersion'')
         ''Sidecar bootstrap omitted bridgeContractVersion'') (\<lambda>contract.
     bind_op (relay_request h c ''POST'' ''/api/operations/bridge/actions/reload-self'' (bridge_headers token contract)
         (Some (reload_body h a r rid))) (\<lambda>created.
     case json_get created ''action'' of
       None \<Rightarrow> fail_op (coop_action_error_new ''relay_contract'' ''Sidecar omitted cooperative action'')
     | Some action \<Rightarrow>
         bind_op (required (json_text action ''id'') ''Sidecar action omitted ID'') (\<lambda>action_id.
         seq_op (report_progress h c a r rid \<lparr>cpg_stage = StRelayCreated, cpg_relay_action_id = Some action_id,
             cpg_expected_build_id = json_text action ''expectedBuildId'',
             cpg_observed_build_id = json_text action ''observedBuildId'',
             cpg_message = ''Sidecar created the bounded reload_self relay action''\<rparr>)
         (bind_op (relay_now h) (\<lambda>started.
            return_op (bridge_headers token contract, action_id, json_text action ''observedBuildId'',
              started + xc_timeout c))))))))"

definition relay_execute ::
  "('w, 'a, 'c) relay_host \<Rightarrow> 'a relay_client \<Rightarrow> actor \<Rightarrow> reason \<Rightarrow> string \<Rightarrow> 'w relay_state
     \<Rightarrow> ((coop_outcome, coop_action_error) outcome \<times> 'w relay_state) option" where
  "relay_execute h c a r rid st = (case relay_begin h c a r rid st of
      (Err e, st1) \<Rightarrow> Some (Err e, st1)
    | (Panic, st1) \<Rightarrow> Some (Panic, st1)
    | (Ok (headers, action_id, observed, deadline), st1) \<Rightarrow>
        relay_loop h c a r rid headers action_id deadline StRelayCreated observed st1)"

text \<open>The action with its audit: a record before it and one with its result, which is lost if that fails.\<close>

definition reload_execute ::
  "('w, 'a, 'c) relay_host \<Rightarrow> 'a relay_client \<Rightarrow> actor \<Rightarrow> reason \<Rightarrow> string \<Rightarrow> 'w relay_state
     \<Rightarrow> ((coop_outcome, coop_action_error) outcome \<times> 'w relay_state) option" where
  "reload_execute h c a r rid st = (case relay_audit_record h c a r rid ''requested'' None st of
      (Err e, st1) \<Rightarrow> Some (Err e, st1)
    | (Panic, st1) \<Rightarrow> Some (Panic, st1)
    | (Ok _, st1) \<Rightarrow>
        (case relay_execute h c a r rid st1 of
           None \<Rightarrow> None
         | Some (Ok outcome, st2) \<Rightarrow>
             Some (seq_op (relay_audit_record h c a r rid ''completed'' (Some (Inr outcome))) (return_op outcome) st2)
         | Some (Err e, st2) \<Rightarrow>
             Some (seq_op (relay_audit_record h c a r rid ''failed'' (Some (Inl e))) (fail_op e) st2)
         | Some (Panic, st2) \<Rightarrow> Some (Panic, st2)))"

section \<open>Construction\<close>

definition trim_slashes :: "string \<Rightarrow> string" where
  "trim_slashes s = rev (dropWhile (\<lambda>c. c = CHR ''/'') (rev s))"

definition parse_loopback_origin :: "('w, 'a, 'c) relay_host \<Rightarrow> string \<Rightarrow> coop_action_error + 'a" where
  "parse_loopback_origin h origin =
     (if \<not> prefix ''http://'' origin \<or> CHR ''/'' \<in> set (drop 7 origin)
      then Inl (coop_action_error_new ''invalid_configuration''
        ''extension relay origin must be an HTTP origin without a path'')
      else (case xr_address h (drop 7 origin) of
          None \<Rightarrow> Inl (coop_action_error_new ''invalid_configuration''
            ''extension relay origin must contain an explicit loopback port'')
        | Some address \<Rightarrow>
            if xr_is_loopback h address then Inr address
            else Inl (coop_action_error_new ''invalid_configuration'' ''extension relay origin must be loopback'')))"

definition relay_new ::
  "('w, 'a, 'c) relay_host \<Rightarrow> string \<Rightarrow> nat \<Rightarrow> nat \<Rightarrow> string \<Rightarrow> string
     \<Rightarrow> ('w relay_state, 'a relay_client, coop_action_error) op" where
  "relay_new h origin timeout poll_interval fingerprint target =
     bind_op (lift_sum (parse_loopback_origin h origin)) (\<lambda>address.
     bind_op (audit_open h) (\<lambda>next_sequence. \<lambda>(w, a).
       (Ok \<lparr>xc_address = address, xc_origin = trim_slashes origin, xc_timeout = timeout,
          xc_poll_interval = poll_interval, xc_configuration_fingerprint = fingerprint, xc_target = target\<rparr>,
        (w, \<lparr>rl_next_sequence = next_sequence, rl_poisoned = False\<rparr>))))"

definition cooperative_build ::
  "('w, 'a, 'c) relay_host \<Rightarrow> supervisor_config \<Rightarrow> string
     \<Rightarrow> ('w relay_state, 'a relay_client option, coop_action_error) op" where
  "cooperative_build h c fingerprint = (case sup_chrome_extension_reload c of
      None \<Rightarrow> return_op None
    | Some reload \<Rightarrow> map_op Some (relay_new h (er_relay_origin reload) (from_millis (er_timeout_ms reload))
        (from_millis (er_poll_interval_ms reload)) fingerprint (er_target reload)))"

end
