(* ===== verification/Extension_Relay_Properties.thy ===== *)
theory Extension_Relay_Properties
  imports Extension_Relay "HOL-Library.Code_Target_Nat"
begin

text \<open>
  The reload of the extension ends, and it reports its stages in their order.
\<close>

section \<open>The clock\<close>

text \<open>Operations that move neither the clock nor anything but the host's state.\<close>

definition still :: "('w relay_state, 'b, 'e) op \<Rightarrow> bool" where
  "still m \<longleftrightarrow> (\<forall>st. wd_clock (fst (snd (m st))) = wd_clock (fst st))"

named_theorems still_intro

lemma still_return [still_intro]: "still (return_op b)" "still (fail_op e)"
  by (simp_all add: still_def op_simps)

lemma still_bind [still_intro]: "still m \<Longrightarrow> (\<And>b. still (f b)) \<Longrightarrow> still (bind_op m f)"
  by (simp add: still_def bind_op_def split: prod.split outcome.split) (metis fst_conv snd_conv)

lemma still_seq [still_intro]: "still m \<Longrightarrow> still n \<Longrightarrow> still (seq_op m n)"
  by (simp add: seq_op_def still_bind)

lemma still_os [still_intro]: "still (relay_os f)"
  by (auto simp: still_def relay_os_def split: prod.split)

lemma still_if [still_intro]: "still m \<Longrightarrow> still n \<Longrightarrow> still (if b then m else n)"
  by simp

lemma still_option [still_intro]: "still m \<Longrightarrow> (\<And>v. still (f v)) \<Longrightarrow> still (case x of None \<Rightarrow> m | Some v \<Rightarrow> f v)"
  by (cases x) auto

lemma still_sum [still_intro]: "(\<And>e. still (f e)) \<Longrightarrow> (\<And>v. still (g v)) \<Longrightarrow> still (case x of Inl e \<Rightarrow> f e | Inr v \<Rightarrow> g v)"
  by (cases x) auto

lemma still_lift [still_intro]: "still (lift_sum x)"
  by (simp add: lift_sum_def still_intro)

lemma still_each [still_intro]: "(\<And>x. still (f x)) \<Longrightarrow> still (each_op f xs)"
  by (induction xs) (simp_all add: still_intro)

lemma still_try [still_intro]: "still (try_unit g f)" "still (try_value g f')" "still (relay_do k)"
  unfolding try_unit_def try_value_def relay_do_def by (intro still_intro)+

lemma still_with_audit [still_intro]: "still m \<Longrightarrow> still (with_audit m)"
  unfolding still_def with_audit_def by (auto split: prod.split outcome.split) (metis fst_conv snd_conv)+

lemma still_audit_append [still_intro]: "still (audit_append h l)"
proof -
  let ?advance = "\<lambda>(w, a). if rl_next_sequence a = - 1 then (Panic, (w, a))
      else (Ok (), (w, a\<lparr>rl_next_sequence := rl_next_sequence a + 1\<rparr>))"
  have advance: "still ?advance" by (auto simp: still_def)
  have written: "still (seq_op (try_unit audit_error (xr_open_audit h)) (seq_op (try_unit audit_error (xr_append h line))
      (seq_op (try_unit audit_error (xr_append h [newline])) (seq_op (try_unit audit_error (xr_flush_audit h)) ?advance))))" for line
    by (intro still_intro advance)
  show ?thesis
    using written unfolding still_def audit_append_def by (simp add: case_prod_beta split: sum.split)
qed

lemma still_request [still_intro]: "still (relay_request h c method target headers body)"
  unfolding relay_request_def Let_def by (intro still_intro | simp add: case_prod_beta)+

lemma still_report [still_intro]: "still (report_progress h c a r rid u)"
  unfolding report_progress_def by (intro still_intro)

lemma still_answer: "still (relay_answer h c a r rid action_id last_stage last_observed action)"
  unfolding relay_answer_def report_stages_def Let_def by (intro still_intro)

lemma still_poll: "still (relay_poll h c a r rid headers action_id last_stage last_observed)"
  unfolding relay_poll_def by (intro still_intro still_answer)

section \<open>Termination\<close>

lemma relay_loop_ends:
  assumes "0 < xc_poll_interval c"
  shows "\<exists>out st'. relay_loop h c a r rid headers action_id deadline last_stage last_observed st = Some (out, st')"
proof (induction "deadline - wd_clock (fst st)" arbitrary: last_stage last_observed st rule: less_induct)
  case less
  obtain v st1 where poll: "relay_poll h c a r rid headers action_id last_stage last_observed st = (v, st1)"
    by (metis prod.exhaust)
  have clock: "wd_clock (fst st1) = wd_clock (fst st)"
    using still_poll [of h c a r rid headers action_id last_stage last_observed] poll
    unfolding still_def by (metis fst_conv snd_conv)
  show ?case
  proof (cases v)
    case (Ok verdict)
    show ?thesis
    proof (cases verdict)
      case (RelayWait stage observed)
      obtain w a1 where st1: "st1 = (w, a1)" by (cases st1)
      obtain d os where elapse: "xr_elapse h (wd_os w) = (d, os)" by (metis prod.exhaust)
      let ?now = "wd_clock w + d"
      let ?st2 = "(\<lparr>wd_clock = ?now + xc_poll_interval c, wd_os = xr_sleep h (xc_poll_interval c) os\<rparr>, a1)"
      have turn: "seq_op (bind_op (relay_now h) (\<lambda>now. if deadline \<le> now then fail_op (relay_timeout_error action_id observed)
               else return_op ())) (relay_sleep h (xc_poll_interval c)) st1
          = (if deadline \<le> ?now then (Err (relay_timeout_error action_id observed), (\<lparr>wd_clock = ?now, wd_os = os\<rparr>, a1))
             else (Ok (), ?st2))"
        by (simp add: op_simps relay_now_def relay_sleep_def st1 elapse)
      show ?thesis
      proof (cases "deadline \<le> ?now")
        case True
        then show ?thesis using Ok RelayWait turn by (subst relay_loop.simps) (simp add: poll)
      next
        case False
        have "deadline - wd_clock (fst ?st2) < deadline - wd_clock (fst st)"
          using False clock st1 assms by simp
        from less.hyps [OF this] show ?thesis
          using False Ok RelayWait turn by (subst relay_loop.simps) (simp add: poll)
      qed
    qed (subst relay_loop.simps, simp add: poll Ok)
  qed (subst relay_loop.simps, simp add: poll)+
qed

text \<open>C16: The reload of the extension ends, whatever the sidecar answers, when the poll interval is not zero.\<close>

theorem reload_always_ends:
  assumes "0 < xc_poll_interval c"
  shows "\<exists>out st'. reload_execute h c a r rid st = Some (out, st')"
proof -
  have ends: "\<exists>out st'. relay_execute h c a r rid st1 = Some (out, st')" for st1
    using relay_loop_ends [OF assms]
    by (auto simp: relay_execute_def split: prod.split outcome.split)
  obtain v st1 where first: "relay_audit_record h c a r rid ''requested'' None st = (v, st1)" by (metis prod.exhaust)
  obtain out st2 where "relay_execute h c a r rid st1 = Some (out, st2)" using ends by blast
  then have "reload_execute h c a r rid st = None \<Longrightarrow> False"
    by (auto simp: reload_execute_def first split: outcome.splits)
  then show ?thesis by (cases "reload_execute h c a r rid st") auto
qed

section \<open>The order of the reports\<close>

text \<open>
  A view of the host in which the reports of the relay are recorded and which nothing else changes.
\<close>

definition reports_to :: "('w \<Rightarrow> coop_progress list) \<Rightarrow> ('w, 'a, 'c) relay_host \<Rightarrow> bool" where
  "reports_to log h \<longleftrightarrow>
     (\<forall>x t w. log (snd (xr_connect h x t w)) = log w) \<and> (\<forall>c t w. log (xr_set_timeouts h c t w) = log w)
     \<and> (\<forall>c s w. log (snd (xr_write h c s w)) = log w) \<and> (\<forall>c w. log (snd (xr_flush h c w)) = log w)
     \<and> (\<forall>c n w. log (snd (xr_read_to_end h c n w)) = log w) \<and> (\<forall>w. log (snd (xr_open_audit h w)) = log w)
     \<and> (\<forall>s w. log (snd (xr_append h s w)) = log w) \<and> (\<forall>w. log (snd (xr_flush_audit h w)) = log w)
     \<and> (\<forall>w. log (snd (xr_unix_timestamp h w)) = log w) \<and> (\<forall>w. log (snd (xr_elapse h w)) = log w)
     \<and> (\<forall>d w. log (xr_sleep h d w) = log w) \<and> (\<forall>rid u w. log (xr_progress h rid u w) = log w @ [u])"

abbreviation log_of :: "('w \<Rightarrow> coop_progress list) \<Rightarrow> 'w relay_state \<Rightarrow> coop_progress list" where
  "log_of log st \<equiv> log (wd_os (fst st))"

text \<open>An operation that reports the stages in this order, as many as it gets to, and all when it succeeds.\<close>

definition emits :: "('w \<Rightarrow> coop_progress list) \<Rightarrow> coop_stage list \<Rightarrow> ('w relay_state, 'b, 'e) op \<Rightarrow> bool" where
  "emits log stages m \<longleftrightarrow> (\<forall>st. \<exists>us. log_of log (snd (m st)) = log_of log st @ us
     \<and> prefix (map cpg_stage us) stages \<and> (\<forall>b. fst (m st) = Ok b \<longrightarrow> map cpg_stage us = stages))"

named_theorems emits_intro

lemma emits_return [emits_intro]: "emits log [] (return_op b)" "emits log [] (fail_op e)"
  by (simp_all add: emits_def op_simps)

lemma emits_fail: "emits log stages (fail_op e)"
  by (simp add: emits_def op_simps)

lemma emits_bind:
  assumes "emits log s1 m" and "\<And>b. emits log s2 (f b)"
  shows "emits log (s1 @ s2) (bind_op m f)"
  unfolding emits_def
proof
  fix st
  obtain v st1 where m: "m st = (v, st1)" by (metis prod.exhaust)
  obtain us where us: "log_of log st1 = log_of log st @ us" "prefix (map cpg_stage us) s1" "\<And>b. v = Ok b \<Longrightarrow> map cpg_stage us = s1"
    using assms(1) m unfolding emits_def by (metis fst_conv snd_conv)
  show "\<exists>us. log_of log (snd (bind_op m f st)) = log_of log st @ us \<and> prefix (map cpg_stage us) (s1 @ s2)
      \<and> (\<forall>b. fst (bind_op m f st) = Ok b \<longrightarrow> map cpg_stage us = s1 @ s2)"
  proof (cases v)
    case (Ok b)
    obtain us' where us': "log_of log (snd (f b st1)) = log_of log st1 @ us'" "prefix (map cpg_stage us') s2"
        "\<forall>d. fst (f b st1) = Ok d \<longrightarrow> map cpg_stage us' = s2"
      using assms(2) [of b] unfolding emits_def by blast
    then show ?thesis
      using us Ok m by (intro exI [of _ "us @ us'"]) (simp add: bind_op_def)
  qed (use us m in \<open>auto simp: bind_op_def\<close>)
qed

lemma emits_quiet_bind [emits_intro]: "emits log [] m \<Longrightarrow> (\<And>b. emits log s2 (f b)) \<Longrightarrow> emits log s2 (bind_op m f)"
  using emits_bind [of log "[]" m s2 f] by simp

lemma emits_quiet_seq [emits_intro]: "emits log [] m \<Longrightarrow> emits log s2 n \<Longrightarrow> emits log s2 (seq_op m n)"
  unfolding seq_op_def by (intro emits_quiet_bind)

lemma emits_seq: "emits log s1 m \<Longrightarrow> emits log s2 n \<Longrightarrow> emits log (s1 @ s2) (seq_op m n)"
  unfolding seq_op_def by (intro emits_bind)

lemma emits_os: "(\<And>w. log (snd (f w)) = log w) \<Longrightarrow> emits log [] (relay_os f)"
  by (auto simp: emits_def relay_os_def split: prod.split) (metis snd_conv)

lemma emits_option [emits_intro]: "emits log s m \<Longrightarrow> (\<And>v. emits log s (f v)) \<Longrightarrow> emits log s (case x of None \<Rightarrow> m | Some v \<Rightarrow> f v)"
  by (cases x) auto

lemma emits_sum [emits_intro]:
  "(\<And>e. emits log s (f e)) \<Longrightarrow> (\<And>v. emits log s (g v)) \<Longrightarrow> emits log s (case x of Inl e \<Rightarrow> f e | Inr v \<Rightarrow> g v)"
  by (cases x) auto

lemma emits_if [emits_intro]: "emits log s m \<Longrightarrow> emits log s n \<Longrightarrow> emits log s (if b then m else n)"
  by simp

lemma emits_lift [emits_intro]: "emits log [] (lift_sum x)"
  by (simp add: lift_sum_def emits_intro)

lemma emits_each_quiet [emits_intro]: "(\<And>x. emits log [] (f x)) \<Longrightarrow> emits log [] (each_op f xs)"
  by (induction xs) (simp_all add: emits_intro)

lemma emits_each: "(\<And>x. emits log [x] (f x)) \<Longrightarrow> emits log xs (each_op f xs)"
proof (induction xs)
  case (Cons x xs)
  then show ?case using emits_seq [of log "[x]" "f x" xs "each_op f xs"] by simp
qed (simp add: emits_intro)

lemma emits_try [emits_intro]:
  "(\<And>w. log (snd (f w)) = log w) \<Longrightarrow> emits log [] (try_unit g f)"
  "(\<And>w. log (snd (f' w)) = log w) \<Longrightarrow> emits log [] (try_value g f')"
  "(\<And>w. log (k w) = log w) \<Longrightarrow> emits log [] (relay_do k)"
  unfolding try_unit_def try_value_def relay_do_def by (intro emits_intro emits_os; simp)+

lemma emits_with_audit [emits_intro]: "emits log [] m \<Longrightarrow> emits log [] (with_audit m)"
  unfolding emits_def with_audit_def by (auto split: prod.split outcome.split) (metis fst_conv snd_conv)+

lemma emits_append [emits_intro]:
  assumes "reports_to log h"
  shows "emits log [] (audit_append h l)"
proof -
  let ?advance = "\<lambda>(w, a). if rl_next_sequence a = - 1 then (Panic, (w, a))
      else (Ok (), (w, a\<lparr>rl_next_sequence := rl_next_sequence a + 1\<rparr>))"
  have "emits log [] ?advance" by (auto simp: emits_def)
  then have written: "emits log [] (seq_op (try_unit audit_error (xr_open_audit h)) (seq_op (try_unit audit_error (xr_append h line))
      (seq_op (try_unit audit_error (xr_append h [newline])) (seq_op (try_unit audit_error (xr_flush_audit h)) ?advance))))" for line
    using assms by (intro emits_intro) (simp_all add: reports_to_def)
  show ?thesis
    using written unfolding emits_def audit_append_def by (simp add: case_prod_beta split: sum.split)
qed

lemma emits_request [emits_intro]:
  "reports_to log h \<Longrightarrow> emits log [] (relay_request h c request_method target headers body)"
  unfolding relay_request_def Let_def case_prod_beta by (intro emits_intro) (simp_all add: reports_to_def)

lemma emits_timestamp: "reports_to log h \<Longrightarrow> emits log [] (relay_os (xr_unix_timestamp h))"
  by (rule emits_os) (simp add: reports_to_def)

lemma emits_report:
  assumes "reports_to log h"
  shows "emits log [cpg_stage u] (report_progress h c a r rid u)"
proof -
  have "emits log [] (with_audit (bind_op (relay_os (xr_unix_timestamp h)) (\<lambda>timestamp.
        audit_append h (progress_line u (reload_line c a r rid [] timestamp)))))"
    using assms by (intro emits_intro emits_timestamp)
  moreover have "emits log [cpg_stage u] (relay_do (xr_progress h rid u))"
    using assms by (auto simp: emits_def relay_do_def relay_os_def reports_to_def)
  ultimately show ?thesis unfolding report_progress_def by (rule emits_quiet_seq)
qed

lemma emits_stages:
  assumes "reports_to log h"
  shows "emits log stages (report_stages h c a r rid action stages)"
proof -
  have "emits log [stage] (report_progress h c a r rid (progress_from_action action stage (intermediate_stage_message stage)))"
    for stage
    using emits_report [OF assms, of "progress_from_action action stage (intermediate_stage_message stage)" c a r rid]
    by (simp add: progress_from_action_def)
  then show ?thesis unfolding report_stages_def by (rule emits_each)
qed

fun stage_rank :: "coop_stage \<Rightarrow> nat" where
  "stage_rank StRequested = 0"
| "stage_rank StRelayCreated = 1"
| "stage_rank StDelivered = 2"
| "stage_rank StAccepted = 3"
| "stage_rank StHeartbeatObserved = 4"
| "stage_rank StCompleted = 5"
| "stage_rank StFailed = 6"

text \<open>The stages an answer of the sidecar reports.\<close>

definition answer_stages :: "coop_stage \<Rightarrow> string option \<Rightarrow> json \<Rightarrow> coop_stage list" where
  "answer_stages last_stage last_observed action =
     (let status = json_text action ''status''; observed = json_text action ''observedBuildId'' in
      if status = Some ''completed'' \<or> status = Some ''accepted'' then
        evidenced_intermediate_stages action last_stage
          @ (if observed \<noteq> None \<and> observed \<noteq> last_observed then [StHeartbeatObserved] else [])
      else if status = Some ''delivered'' \<and> last_stage = StRelayCreated then [StDelivered] else [])"

lemma answer_emits:
  assumes "reports_to log h"
  shows "emits log (answer_stages last_stage last_observed action)
    (relay_answer h c a r rid action_id last_stage last_observed action)"
proof -
  note report = emits_report [OF assms]
  note stages = emits_stages [OF assms]
  have over: "emits log s m \<Longrightarrow> emits log s (seq_op m (return_op b))" for s and b :: relay_verdict
    and m :: "('a relay_state, unit, coop_action_error) op"
    using emits_seq [of log s m "[]" "return_op b"] by (simp add: emits_intro)
  have heartbeat: "emits log [StHeartbeatObserved] (report_progress h c a r rid (progress_from_action action StHeartbeatObserved m))"
    and delivered: "emits log [StDelivered] (report_progress h c a r rid (progress_from_action action StDelivered m))" for m
    using report [of "progress_from_action action _ m"] by (simp_all add: progress_from_action_def)
  have last: "emits log (s @ t) (seq_op (report_stages h c a r rid action s) n)"
    if "emits log t n" for s t and n :: "('a relay_state, relay_verdict, coop_action_error) op"
    using emits_seq [OF stages that] .
  have complete: "emits log (if b then [StHeartbeatObserved] else [])
      (seq_op (if b then report_progress h c a r rid (progress_from_action action StHeartbeatObserved m) else return_op ())
        (return_op v))" for b m and v :: relay_verdict
    using over [OF heartbeat] over [OF emits_return(1)] by (cases b) auto
  have accept: "emits log (if b then [StHeartbeatObserved] else [])
      (if b then seq_op (report_progress h c a r rid (progress_from_action action StHeartbeatObserved m)) (return_op v)
        else return_op v')" for b m and v v' :: relay_verdict
    using over [OF heartbeat] emits_return(1) by (cases b) auto
  show ?thesis
    unfolding relay_answer_def answer_stages_def Let_def
    by (simp add: last [OF complete] last [OF accept] over [OF delivered] emits_fail emits_return)
qed

lemma answer_waits:
  "relay_answer h c a r rid action_id last_stage last_observed action st = (Ok (RelayWait stage observed), st') \<Longrightarrow>
     stage = last (last_stage # answer_stages last_stage last_observed action)"
  by (auto simp: relay_answer_def answer_stages_def Let_def op_simps
      split: if_splits outcome.splits prod.splits)

lemma answer_sorted:
  assumes "1 \<le> stage_rank last_stage" and "stage_rank last_stage \<le> 4"
  shows "sorted (map stage_rank (last_stage # answer_stages last_stage last_observed action))
    \<and> (\<forall>s \<in> set (answer_stages last_stage last_observed action). stage_rank s \<le> 4)"
  using assms
  by (cases last_stage) (auto simp: answer_stages_def evidenced_intermediate_stages_def Let_def)

text \<open>Reports whose stages never go back.\<close>

definition in_order :: "coop_stage list \<Rightarrow> bool" where
  "in_order stages \<longleftrightarrow> sorted (map stage_rank stages) \<and> (\<forall>s \<in> set stages. 1 \<le> stage_rank s \<and> stage_rank s \<le> 4)"

lemma in_order_join: "in_order (s @ [x]) \<Longrightarrow> in_order (x # t) \<Longrightarrow> in_order (s @ x # t)"
  by (auto simp: in_order_def sorted_append) (metis le_trans)

lemma in_order_prefix: "in_order s \<Longrightarrow> prefix t s \<Longrightarrow> in_order t"
  by (auto simp: in_order_def prefix_def sorted_append)

lemma answer_in_order: "in_order [last_stage] \<Longrightarrow> in_order (last_stage # answer_stages last_stage last_observed action)"
  using answer_sorted [of last_stage last_observed action]
  by (auto simp: in_order_def)

lemma emits_now [emits_intro]: "reports_to log h \<Longrightarrow> emits log [] (relay_now h)"
  by (auto simp: emits_def relay_now_def reports_to_def split: prod.split) (metis snd_conv)

lemma emits_sleep [emits_intro]: "reports_to log h \<Longrightarrow> emits log [] (relay_sleep h d)"
  by (auto simp: emits_def relay_sleep_def reports_to_def split: prod.split)

lemma emits_quiet: "emits log [] m \<Longrightarrow> log_of log (snd (m st)) = log_of log st"
  unfolding emits_def by (metis append_Nil2 map_is_Nil_conv prefix_Nil)

lemma poll_reports:
  assumes "reports_to log h" and "in_order [last_stage]"
    and "relay_poll h c a r rid headers action_id last_stage last_observed st = (v, st1)"
  shows "\<exists>us. log_of log st1 = log_of log st @ us \<and> in_order (last_stage # map cpg_stage us)
    \<and> (\<forall>stage observed. v = Ok (RelayWait stage observed) \<longrightarrow> stage = last (last_stage # map cpg_stage us))"
proof -
  obtain x st0 where request: "relay_request h c ''GET'' (''/api/operations/bridge/actions/'' @ action_id) headers None st = (x, st0)"
    by (metis prod.exhaust)
  have quiet: "log_of log st0 = log_of log st"
    using emits_quiet [OF emits_request [OF assms(1)], of c "''GET''" "''/api/operations/bridge/actions/'' @ action_id"
        headers None st] request by simp
  show ?thesis
  proof (cases "\<exists>response action. x = Ok response \<and> json_get response ''action'' = Some action")
    case True
    then obtain response action where action: "x = Ok response" "json_get response ''action'' = Some action" by blast
    let ?stages = "answer_stages last_stage last_observed action"
    have answer: "relay_answer h c a r rid action_id last_stage last_observed action st0 = (v, st1)"
      using assms(3) action request by (simp add: relay_poll_def bind_op_def)
    obtain us where us: "log_of log st1 = log_of log st0 @ us" "prefix (map cpg_stage us) ?stages"
        "\<And>b. v = Ok b \<Longrightarrow> map cpg_stage us = ?stages"
      using answer_emits [OF assms(1), of last_stage last_observed action c a r rid action_id] answer
      unfolding emits_def by (metis fst_conv snd_conv)
    have "in_order (last_stage # map cpg_stage us)"
      using in_order_prefix [OF answer_in_order [OF assms(2)], of "last_stage # map cpg_stage us"] us(2) by simp
    then show ?thesis using us quiet answer_waits answer by (intro exI [of _ us]) fastforce
  next
    case False
    then have "st1 = st0 \<and> (\<forall>b. v \<noteq> Ok b)"
      using assms(3) request
      by (cases x) (auto simp: relay_poll_def bind_op_def fail_op_def split: option.splits)
    then show ?thesis using quiet assms(2) by (intro exI [of _ "[]"]) auto
  qed
qed

lemma loop_reports:
  assumes "relay_loop h c a r rid headers action_id deadline last_stage last_observed st = Some y"
  shows "reports_to log h \<longrightarrow> in_order [last_stage] \<longrightarrow>
     (\<exists>us. log_of log (snd y) = log_of log st @ us \<and> in_order (last_stage # map cpg_stage us))"
proof (rule relay_loop.raw_induct [where P = "\<lambda>h c a r rid headers action_id deadline last_stage last_observed st y.
      reports_to log h \<longrightarrow> in_order [last_stage] \<longrightarrow>
      (\<exists>us. log_of log (snd y) = log_of log st @ us \<and> in_order (last_stage # map cpg_stage us))", OF _ assms], goal_cases)
  case (1 loop h c a r rid headers action_id deadline last_stage last_observed st y)
  show ?case
  proof (intro impI)
    assume host: "reports_to log h" and stage: "in_order [last_stage]"
    obtain v st1 where poll: "relay_poll h c a r rid headers action_id last_stage last_observed st = (v, st1)"
      by (metis prod.exhaust)
    obtain us where us: "log_of log st1 = log_of log st @ us" "in_order (last_stage # map cpg_stage us)"
        "\<And>stage observed. v = Ok (RelayWait stage observed) \<Longrightarrow> stage = last (last_stage # map cpg_stage us)"
      using poll_reports [OF host stage poll] by blast
    show "\<exists>us. log_of log (snd y) = log_of log st @ us \<and> in_order (last_stage # map cpg_stage us)"
    proof (cases "\<exists>stage observed. v = Ok (RelayWait stage observed)")
      case True
      then obtain stage observed where wait: "v = Ok (RelayWait stage observed)" by blast
      let ?turn = "seq_op (bind_op (relay_now h) (\<lambda>now. if deadline \<le> now then fail_op (relay_timeout_error action_id observed)
               else return_op ())) (relay_sleep h (xc_poll_interval c))"
      obtain t st2 where turn: "?turn st1 = (t, st2)" by (metis prod.exhaust)
      have "emits log [] ?turn" using host by (intro emits_intro)
      then have quiet: "log_of log st2 = log_of log st1" using emits_quiet [of log ?turn st1] turn by simp
      show ?thesis
      proof (cases t)
        case (Ok b)
        then have "loop h c a r rid headers action_id deadline stage observed st2 = Some y"
          using 1(2) poll wait turn by simp
        moreover have "stage \<in> set (last_stage # map cpg_stage us)"
          unfolding us(3) [OF wait] by (rule last_in_set) simp
        then have "in_order [stage]" using us(2) by (auto simp: in_order_def)
        ultimately obtain us' where us': "log_of log (snd y) = log_of log st2 @ us'" "in_order (stage # map cpg_stage us')"
          using 1(1) host by blast
        have "last_stage # map cpg_stage us = butlast (last_stage # map cpg_stage us) @ [stage]"
          using us(3) [OF wait] by (metis append_butlast_last_id list.distinct(1))
        then have "in_order (last_stage # map cpg_stage us @ map cpg_stage us')"
          using in_order_join us(2) us'(2) by (metis append.assoc append_Cons append_Nil)
        then show ?thesis using us(1) quiet us'(1) by (intro exI [of _ "us @ us'"]) simp
      qed (use 1(2) poll wait turn us quiet in \<open>auto intro!: exI [of _ us]\<close>)
    next
      case False
      then have "snd y = st1"
        using 1(2) poll by (cases v) (auto split: relay_verdict.splits)
      then show ?thesis using us by auto
    qed
  qed
qed

lemma emits_required [emits_intro]: "emits log [] (required v m)"
  unfolding required_def by (intro emits_intro)

lemma begin_emits:
  assumes "reports_to log h"
  shows "emits log [StRelayCreated] (relay_begin h c a r rid)"
proof -
  have created: "emits log [StRelayCreated] (seq_op (report_progress h c a r rid u) (bind_op (relay_now h) (\<lambda>t. return_op (f t))))"
    if "cpg_stage u = StRelayCreated" for u and f :: "nat \<Rightarrow> (string \<times> string) list \<times> string \<times> string option \<times> nat"
  proof -
    have "emits log [] (bind_op (relay_now h) (\<lambda>t. return_op (f t)))" using assms by (intro emits_intro)
    then show ?thesis using emits_seq [OF emits_report [OF assms, of u c a r rid]] that by fastforce
  qed
  show ?thesis
    unfolding relay_begin_def using assms
    by (intro emits_quiet_bind emits_request emits_required emits_option emits_fail created) simp_all
qed

lemma emits_record [emits_intro]: "reports_to log h \<Longrightarrow> emits log [] (relay_audit_record h c a r rid status result)"
  unfolding relay_audit_record_def by (intro emits_intro emits_timestamp)

lemma execute_reports:
  assumes "reports_to log h" and "relay_execute h c a r rid st = Some y"
  shows "\<exists>us. log_of log (snd y) = log_of log st @ us \<and> in_order (map cpg_stage us)
    \<and> (us \<noteq> [] \<longrightarrow> cpg_stage (hd us) = StRelayCreated) \<and> (\<forall>b. fst y = Ok b \<longrightarrow> us \<noteq> [])"
proof -
  obtain v st1 where start: "relay_begin h c a r rid st = (v, st1)" by (metis prod.exhaust)
  obtain us where us: "log_of log st1 = log_of log st @ us" "prefix (map cpg_stage us) [StRelayCreated]"
      "\<And>b. v = Ok b \<Longrightarrow> map cpg_stage us = [StRelayCreated]"
    using begin_emits [OF assms(1), of c a r rid] start unfolding emits_def by (metis fst_conv snd_conv)
  have relay: "in_order [StRelayCreated]" by (simp add: in_order_def)
  have first: "in_order (map cpg_stage us)" "us \<noteq> [] \<longrightarrow> cpg_stage (hd us) = StRelayCreated"
    using us(2) relay by (auto simp: prefix_Cons in_order_def)
  show ?thesis
  proof (cases v)
    case (Ok b)
    obtain headers action_id observed deadline where b: "b = (headers, action_id, observed, deadline)" by (cases b)
    obtain us' where us': "log_of log (snd y) = log_of log st1 @ us'" "in_order (StRelayCreated # map cpg_stage us')"
      using loop_reports [of h c a r rid headers action_id deadline StRelayCreated observed st1 y] assms relay start Ok b
      by (auto simp: relay_execute_def)
    obtain u where u: "us = [u]" "cpg_stage u = StRelayCreated" using us(3) [OF Ok] by auto
    show ?thesis using us(1) us' u by (intro exI [of _ "us @ us'"]) simp
  next
    case (Err e)
    then have "y = (Err e, st1)" using assms(2) start by (simp add: relay_execute_def)
    then show ?thesis using us(1) first by (intro exI [of _ us]) simp
  next
    case Panic
    then have "y = (Panic, st1)" using assms(2) start by (simp add: relay_execute_def)
    then show ?thesis using us(1) first by (intro exI [of _ us]) simp
  qed
qed

text \<open>C13: What the manager is told during a reload is a history: it starts with the creation of the action,
  the stages never go back whatever the sidecar answers, the final stages are left to the manager, and a
  reload that succeeds has reported something.\<close>

theorem reload_stages_in_order:
  assumes "reports_to log h" and "reload_execute h c a r rid (w, audit) = Some (out, (w', audit'))"
  shows "\<exists>us. log (wd_os w') = log (wd_os w) @ us \<and> in_order (map cpg_stage us)
    \<and> (case us of [] \<Rightarrow> True | u # rest \<Rightarrow> cpg_stage u = StRelayCreated)
    \<and> (case out of Ok outcome \<Rightarrow> us \<noteq> [] | _ \<Rightarrow> True)"
proof -
  let ?st = "(w, audit)"
  obtain v st1 where first: "relay_audit_record h c a r rid ''requested'' None ?st = (v, st1)" by (metis prod.exhaust)
  have quiet: "log_of log st1 = log_of log ?st"
    using emits_quiet [OF emits_record [OF assms(1)], of c a r rid "''requested''" None ?st] first by simp
  show ?thesis
  proof (cases "v = Ok ()")
    case True
    then obtain y where y: "relay_execute h c a r rid st1 = Some y"
      using assms(2) first by (cases "relay_execute h c a r rid st1") (auto simp: reload_execute_def)
    obtain us where us: "log_of log (snd y) = log_of log st1 @ us" "in_order (map cpg_stage us)"
        "us \<noteq> [] \<longrightarrow> cpg_stage (hd us) = StRelayCreated" "\<forall>b. fst y = Ok b \<longrightarrow> us \<noteq> []"
      using execute_reports [OF assms(1) y] by blast
    have same: "log (wd_os w') = log_of log (snd y)"
    proof -
      have done1: "log_of log (snd (seq_op (relay_audit_record h c a r rid status result) (return_op b) st2)) = log_of log st2"
        for status result st2 and b :: coop_outcome
        by (rule emits_quiet [OF emits_quiet_seq [OF emits_record [OF assms(1)] emits_return(1)]])
      have done2: "log_of log (snd (seq_op (relay_audit_record h c a r rid status result) (fail_op e) st2 :: (coop_outcome, coop_action_error) outcome \<times> _)) = log_of log st2"
        for status result st2 e
        by (rule emits_quiet [OF emits_quiet_seq [OF emits_record [OF assms(1)] emits_return(2)]])
      show ?thesis
      proof (cases "fst y")
        case (Ok b)
        then show ?thesis using assms(2) first True y done1 [of "''completed''" "Some (Inr b)" b "snd y"]
          by (cases y) (auto simp: reload_execute_def)
      next
        case (Err e)
        then show ?thesis using assms(2) first True y done2 [of "''failed''" "Some (Inl e)" e "snd y"]
          by (cases y) (auto simp: reload_execute_def)
      next
        case Panic
        then show ?thesis using assms(2) first True y by (cases y) (auto simp: reload_execute_def)
      qed
    qed
    have "fst y = Ok b" if "out = Ok b" for b
      using assms(2) first True y that
      by (cases y; cases "fst y") (auto simp: reload_execute_def op_simps split: outcome.splits prod.splits)
    then show ?thesis
      using us same quiet by (intro exI [of _ us]) (cases us; cases out; auto)
  next
    case False
    then have "out \<noteq> Ok b \<and> (w', audit') = st1" for b
      using assms(2) first by (cases v) (auto simp: reload_execute_def)
    then show ?thesis using quiet by (intro exI [of _ "[]"]) (auto simp: in_order_def split: outcome.split)
  qed
qed

section \<open>A sidecar\<close>

text \<open>The host of a run: the reports, and how many answers the sidecar has given.\<close>

definition demo_answer :: "nat \<Rightarrow> string" where
  "demo_answer n = ''HTTP/1.1 200 OK'' @ crlf @ crlf
     @ (if n = 0 then ''b'' else if n = 1 then ''c'' else if n = 2 then ''p'' else if n = 3 then ''a'' else ''z'')"

definition demo_member :: "string \<Rightarrow> (string \<times> json) list \<Rightarrow> json" where
  "demo_member status others = json_object ([(''id'', JString ''x''), (''status'', JString status)] @ others)"

definition demo_json :: "nat \<Rightarrow> json" where
  "demo_json n =
     (if n = 0 then json_object [(''bridgeToken'', JString ''t''), (''bridgeContractVersion'', JString ''1'')]
      else json_object [(''action'',
        if n = 1 then demo_member ''pending'' []
        else if n = 2 then demo_member ''delivered'' []
        else if n = 3 then demo_member ''accepted'' [(''acceptedAt'', JString ''now'')]
        else demo_member ''completed'' [(''acceptedAt'', JString ''now''), (''observedBuildId'', JString ''2'')])])"

definition demo_decode :: "string \<Rightarrow> string + json" where
  "demo_decode body = Inr (demo_json (if body = ''b'' then 0 else if body = ''c'' then 1 else if body = ''p'' then 2
     else if body = ''a'' then 3 else 4))"

definition demo_relay :: "(coop_progress list \<times> nat, unit, unit) relay_host" where
  "demo_relay = \<lparr>xr_address = (\<lambda>_. Some ()), xr_is_loopback = (\<lambda>_. True), xr_show_address = (\<lambda>_. ''127.0.0.1:9''),
     xr_connect = (\<lambda>_ _ w. (Inr (), w)), xr_set_timeouts = (\<lambda>_ _ w. w), xr_write = (\<lambda>_ _ w. (None, w)),
     xr_flush = (\<lambda>_ w. (None, w)), xr_read_to_end = (\<lambda>_ _ (us, n). (Inr (demo_answer n), (us, n + 1))),
     xr_encode = (\<lambda>_. ''{}''), xr_decode = demo_decode, xr_actor = (\<lambda>_. JNull), xr_encode_record = (\<lambda>_. Inr ''r''),
     xr_decode_record = (\<lambda>_. None), xr_create_parent = (\<lambda>w. (None, w)), xr_exists = (\<lambda>w. (False, w)),
     xr_read_source = (\<lambda>w. (Inr [], w)), xr_create_audit = (\<lambda>w. (None, w)), xr_open_audit = (\<lambda>w. (None, w)),
     xr_append = (\<lambda>_ w. (None, w)), xr_flush_audit = (\<lambda>w. (None, w)), xr_unix_timestamp = (\<lambda>w. (0, w)),
     xr_progress = (\<lambda>_ u (us, n). (us @ [u], n)), xr_elapse = (\<lambda>w. (1, w)), xr_sleep = (\<lambda>_ w. w)\<rparr>"

definition demo_relay_client :: "unit relay_client" where
  "demo_relay_client = \<lparr>xc_address = (), xc_origin = ''http://127.0.0.1:9'', xc_timeout = 1000, xc_poll_interval = 10,
     xc_configuration_fingerprint = ''f'', xc_target = ''chrome-extension''\<rparr>"

definition demo_relay_state :: "(coop_progress list \<times> nat) relay_state" where
  "demo_relay_state = (\<lparr>wd_clock = 0, wd_os = ([], 0)\<rparr>, \<lparr>rl_next_sequence = 1, rl_poisoned = False\<rparr>)"

theorem reload_always_ends_witness:
  "\<exists>out st'. reload_execute demo_relay demo_relay_client UserCli (Reason ''go'') ''r1'' demo_relay_state = Some (out, st')"
  by (rule reload_always_ends) (simp add: demo_relay_client_def)

text \<open>A run of the loop with a bound on its rounds, to evaluate it.\<close>

fun relay_rounds ::
  "nat \<Rightarrow> ('w, 'a, 'c) relay_host \<Rightarrow> 'a relay_client \<Rightarrow> actor \<Rightarrow> reason \<Rightarrow> string \<Rightarrow> (string \<times> string) list \<Rightarrow> string \<Rightarrow> nat
     \<Rightarrow> coop_stage \<Rightarrow> string option \<Rightarrow> 'w relay_state
     \<Rightarrow> ((coop_outcome, coop_action_error) outcome \<times> 'w relay_state) option" where
  "relay_rounds 0 h c a r rid headers action_id deadline last_stage last_observed st = None"
| "relay_rounds (Suc n) h c a r rid headers action_id deadline last_stage last_observed st =
     (case relay_poll h c a r rid headers action_id last_stage last_observed st of
        (Err e, st1) \<Rightarrow> Some (Err e, st1)
      | (Panic, st1) \<Rightarrow> Some (Panic, st1)
      | (Ok (RelayDone outcome), st1) \<Rightarrow> Some (Ok outcome, st1)
      | (Ok (RelayWait stage observed), st1) \<Rightarrow>
          (case seq_op (bind_op (relay_now h) (\<lambda>now. if deadline \<le> now then fail_op (relay_timeout_error action_id observed)
               else return_op ())) (relay_sleep h (xc_poll_interval c)) st1 of
             (Err e, st2) \<Rightarrow> Some (Err e, st2)
           | (Panic, st2) \<Rightarrow> Some (Panic, st2)
           | (Ok _, st2) \<Rightarrow> relay_rounds n h c a r rid headers action_id deadline stage observed st2))"

lemma relay_rounds_loop:
  "relay_rounds n h c a r rid headers action_id deadline last_stage last_observed st = Some y \<Longrightarrow>
     relay_loop h c a r rid headers action_id deadline last_stage last_observed st = Some y"
proof (induction n arbitrary: last_stage last_observed st)
  case (Suc n)
  then show ?case
    by (subst relay_loop.simps) (auto split: prod.splits outcome.splits relay_verdict.splits)
qed simp

theorem reload_stages_in_order_witness:
  "\<exists>out w' audit' us. reload_execute demo_relay demo_relay_client UserCli (Reason ''go'') ''r1'' demo_relay_state
      = Some (out, (w', audit'))
    \<and> fst (wd_os w') = us \<and> in_order (map cpg_stage us)
    \<and> map cpg_stage us = [StRelayCreated, StDelivered, StAccepted, StHeartbeatObserved]"
proof -
  let ?run = "reload_execute demo_relay demo_relay_client UserCli (Reason ''go'') ''r1'' demo_relay_state"
  let ?stages = "[StRelayCreated, StDelivered, StAccepted, StHeartbeatObserved]"
  let ?first = "relay_audit_record demo_relay demo_relay_client UserCli (Reason ''go'') ''r1'' ''requested'' None demo_relay_state"
  let ?start = "relay_begin demo_relay demo_relay_client UserCli (Reason ''go'') ''r1'' (snd ?first)"
  have "fst ?first = Ok ()" by code_simp
  then obtain st1 where first: "?first = (Ok (), st1)" by (cases ?first) auto
  let ?rounds = "\<lambda>headers action_id observed deadline st2. relay_rounds 4 demo_relay demo_relay_client UserCli
      (Reason ''go'') ''r1'' headers action_id deadline StRelayCreated observed st2"
  have evaluated: "case ?start of (Ok (headers, action_id, observed, deadline), st2) \<Rightarrow>
      (case ?rounds headers action_id observed deadline st2 of
         Some (Ok outcome, st3) \<Rightarrow> map cpg_stage (fst (wd_os (fst (snd
           (relay_audit_record demo_relay demo_relay_client UserCli (Reason ''go'') ''r1'' ''completed'' (Some (Inr outcome)) st3))))) = ?stages
       | _ \<Rightarrow> False)
    | _ \<Rightarrow> False"
    by code_simp
  then obtain t st2 where "?start = (Ok t, st2)" by (cases ?start; cases "fst ?start") auto
  moreover obtain headers action_id observed deadline where "t = (headers, action_id, observed, deadline)" by (cases t)
  ultimately have start: "?start = (Ok (headers, action_id, observed, deadline), st2)" by simp
  note rounds = evaluated [unfolded start prod.case outcome.case]
  then obtain outcome st3 where loop: "?rounds headers action_id observed deadline st2 = Some (Ok outcome, st3)"
    by (cases "?rounds headers action_id observed deadline st2"; cases "fst (the (?rounds headers action_id observed deadline st2))")
      auto
  have y: "relay_execute demo_relay demo_relay_client UserCli (Reason ''go'') ''r1'' st1 = Some (Ok outcome, st3)"
      "map cpg_stage (fst (wd_os (fst (snd (relay_audit_record demo_relay demo_relay_client UserCli (Reason ''go'') ''r1''
        ''completed'' (Some (Inr outcome)) st3))))) = ?stages"
    using start relay_rounds_loop [OF loop] rounds loop by (simp_all add: relay_execute_def first)
  obtain v w' audit' where last: "relay_audit_record demo_relay demo_relay_client UserCli (Reason ''go'') ''r1''
      ''completed'' (Some (Inr outcome)) st3 = (v, (w', audit'))" by (metis prod.exhaust)
  have "\<exists>out. ?run = Some (out, (w', audit'))"
    by (cases v) (simp_all add: reload_execute_def first y(1) last seq_op_def bind_op_def return_op_def)
  then obtain out where run: "?run = Some (out, (w', audit'))" "map cpg_stage (fst (wd_os w')) = ?stages"
    using y(2) last by auto
  have host: "reports_to fst demo_relay" by (simp add: reports_to_def demo_relay_def case_prod_beta)
  obtain us where us: "fst (wd_os w') = fst (wd_os \<lparr>wd_clock = 0, wd_os = ([] :: coop_progress list, 0 :: nat)\<rparr>) @ us"
      "in_order (map cpg_stage us)"
    using reload_stages_in_order [OF host run(1) [unfolded demo_relay_state_def]]
    by (elim exE conjE) (rule that)
  have same: "fst (wd_os w') = us" using us(1) by (simp only: world.simps fst_conv append_Nil)
  with run(2) have "map cpg_stage us = ?stages" by (simp only:)
  with same show ?thesis using run us(2) by (intro exI conjI)
qed

end
