(* ===== verification/Extension_Audit.thy ===== *)
theory Extension_Audit
  imports Extension_Relay Cli_Properties Journal_Laws
begin

text \<open>
  The audit of cooperative actions between its writer, the relay of \<open>Extension_Relay\<close>, and its reader, the
  validation command of \<open>Cli_Client\<close>.
\<close>

lemma audit_records_bad:
  assumes "ck_decode (ch_client h) line = Inl e"
  shows "\<exists>m. audit_records_of h path rid n (ls @ line # ls') = Inl m"
proof (induction ls arbitrary: n)
  case (Cons l ls)
  obtain m where m: "audit_records_of h path rid (Suc n) (ls @ line # ls') = Inl m" using Cons by blast
  then show ?case by (cases "ck_decode (ch_client h) l") auto
qed (simp add: assms)

lemma torn_records:
  assumes "terminated before" and "newline \<notin> set bad" and "strip_cr bad = bad"
    and "ck_decode (ch_client h) bad = Inl e"
  shows "\<exists>m. audit_records_of h path rid 0 (file_lines [] (before @ bad @ [newline] @ later)) = Inl m"
proof -
  have bad: "file_lines [] (bad @ newline # later) = bad # file_lines [] later"
    using file_lines_line [OF assms(2), of "[]"] assms(3) by simp
  have "\<exists>ls. file_lines [] (before @ bad @ newline # later) = ls @ file_lines [] (bad @ newline # later)"
  proof (cases "before = []")
    case False
    then obtain f where "before = f @ [newline]"
      using assms(1) by (metis append_butlast_last_id terminated_def)
    then show ?thesis using file_lines_split [of "[]" f "bad @ newline # later"] by auto
  qed simp
  then show ?thesis using audit_records_bad [OF assms(4)] bad by auto
qed

lemma bind_run_Ok:
  "bind_run m f w = Some (Ok x, w') \<longleftrightarrow> (\<exists>y w1. m w = Some (Ok y, w1) \<and> f y w1 = Some (Ok x, w'))"
  by (auto simp: bind_run_def split: option.splits outcome.splits)

text \<open>A validation that gives a report has read the audit in the session it opened.\<close>

lemma validation_reads_audit:
  assumes "extension_validation h actor rid explicit w = Some (Ok (se', report), w')"
  obtains se w1 v v' records where "open_session h explicit w = (Ok se, w1)"
    and "validation_audit h se rid v = (Ok records, v')"
proof -
  have out: "\<exists>w1 v v' records. open_session h explicit w = (Ok se, w1) \<and> validation_audit h se rid v = (Ok records, v')"
    if "open_session h explicit w = (Ok se, w1)"
      and "bind_op (control_request_with_retry h se ''GET'' ''/v1/cooperative-actions/chrome-extension/active'' None True)
        (\<lambda>active. bind_op (validation_audit h se rid) (\<lambda>records. k active records)) v = (Ok r, v')" for se w1 v v' r k
    using that unfolding bind_op_Ok by blast
  from assms show thesis
    unfolding extension_validation_def bind_run_Ok case_prod_unfold
    by (auto simp: ends_def bind_op_Ok seq_op_Ok return_op_Ok intro: that)
qed

text \<open>C36: One line of the cooperative audit that is no JSON, such as two records on one line after a write
  that failed before its newline, makes the validation command fail: whatever is appended to the audit
  after it, and whatever the supervisor answers, the command makes no report, and when it ends it has
  printed the failure and its exit code is 1, or it panicked.\<close>

theorem torn_audit_blocks_validation:
  assumes "terminated before" and "newline \<notin> set bad" and "strip_cr bad = bad"
    and "ck_decode (ch_client h) bad = Inl e"
    and "open_session h explicit w = (Ok se, w1)" and "pl_parent (ch_paths h) (cs_token_path se) = Some runtime"
    and "\<And>v source v'. ch_read_file h (he_join (pl_env (ch_paths h)) runtime ''cooperative-actions.jsonl'') v
           = (Inr source, v') \<Longrightarrow> \<exists>later. source = before @ bad @ [newline] @ later"
    and "run_extension_validate h actor rid explicit w = Some (code, w')"
  shows "(\<nexists>report v. extension_validation h actor rid explicit w = Some (Ok report, v))
    \<and> (code = None \<or> code = Some exit_failure \<and> (\<exists>message v. w' = ch_out h (ch_show_json h
         (validation_failure actor rid explicit message) @ [newline]) v))"
proof -
  have none: "\<nexists>report v. extension_validation h actor rid explicit w = Some (Ok report, v)"
  proof
    assume "\<exists>report v. extension_validation h actor rid explicit w = Some (Ok report, v)"
    then obtain se' report v0 where "extension_validation h actor rid explicit w = Some (Ok (se', report), v0)" by auto
    then obtain v v' records where "validation_audit h se rid v = (Ok records, v')"
      using assms(5) by (elim validation_reads_audit) auto
    then obtain source v1 where read: "ch_read_file h (he_join (pl_env (ch_paths h)) runtime ''cooperative-actions.jsonl'') v
          = (Inr source, v1)"
      and got: "audit_records_of h (he_join (pl_env (ch_paths h)) runtime ''cooperative-actions.jsonl'') rid 0
        (file_lines [] source) = Inr records"
      by (auto simp: validation_audit_def assms(6) Let_def bind_op_Ok read_file_op_def lift_sum_def return_op_def
          fail_op_def split: prod.splits sum.splits)
    from assms(7) [OF read] obtain later where "source = before @ bad @ [newline] @ later" ..
    with torn_records [OF assms(1-4)] have "\<exists>m. audit_records_of h
        (he_join (pl_env (ch_paths h)) runtime ''cooperative-actions.jsonl'') rid 0 (file_lines [] source) = Inl m"
      by simp
    with got show False by simp
  qed
  obtain out v where out: "extension_validation h actor rid explicit w = Some (out, v)"
    using assms(8) by (auto simp: run_extension_validate_def)
  have "code = None \<or> code = Some exit_failure \<and> (\<exists>message v. w' = ch_out h (ch_show_json h
       (validation_failure actor rid explicit message) @ [newline]) v)"
  proof (cases out)
    case (Ok report)
    then show ?thesis using none out by blast
  qed (use assms(8) out in \<open>auto simp: run_extension_validate_def conclude_def\<close>)
  with none show ?thesis by blast
qed

text \<open>A disk that fails once, at the newline of the first record; a record is the text \<open>{}\<close>.\<close>

definition torn_host :: "(string \<times> nat, unit, unit) relay_host" where
  "torn_host = \<lparr>xr_address = (\<lambda>_. Some ()), xr_is_loopback = (\<lambda>_. True), xr_show_address = (\<lambda>_. ''127.0.0.1:9''),
     xr_connect = (\<lambda>_ _ w. (Inl ''refused'', w)), xr_set_timeouts = (\<lambda>_ _ w. w), xr_write = (\<lambda>_ _ w. (None, w)),
     xr_flush = (\<lambda>_ w. (None, w)), xr_read_to_end = (\<lambda>_ _ w. (Inr [], w)),
     xr_encode = (\<lambda>_. ''{}''), xr_decode = (\<lambda>_. Inl ''none''), xr_actor = (\<lambda>_. JNull), xr_encode_record = (\<lambda>_. Inr ''{}''),
     xr_decode_record = (\<lambda>_. None), xr_create_parent = (\<lambda>w. (None, w)), xr_exists = (\<lambda>w. (False, w)),
     xr_read_source = (\<lambda>w. (Inr [], w)), xr_create_audit = (\<lambda>w. (None, w)), xr_open_audit = (\<lambda>w. (None, w)),
     xr_append = (\<lambda>s (f, n). if n = 1 then (Some ''disk full'', (f, 2)) else (None, (f @ s, n + 1))),
     xr_flush_audit = (\<lambda>w. (None, w)), xr_unix_timestamp = (\<lambda>w. (0, w)),
     xr_progress = (\<lambda>_ _ w. w), xr_elapse = (\<lambda>w. (1, w)), xr_sleep = (\<lambda>_ w. w)\<rparr>"

definition torn_client :: "unit relay_client" where
  "torn_client = \<lparr>xc_address = (), xc_origin = ''http://127.0.0.1:9'', xc_timeout = 1000, xc_poll_interval = 10,
     xc_configuration_fingerprint = ''f'', xc_target = ''chrome-extension''\<rparr>"

definition torn_run :: "((unit, coop_action_error) outcome \<times> (string \<times> nat) relay_state)" where
  "torn_run = relay_audit_record torn_host torn_client UserCli (Reason ''go'') ''r2'' ''requested'' None
     (snd (relay_audit_record torn_host torn_client UserCli (Reason ''go'') ''r1'' ''requested'' None
       (\<lparr>wd_clock = 0, wd_os = ([], 0)\<rparr>, \<lparr>rl_next_sequence = 1, rl_poisoned = False\<rparr>)))"

text \<open>A supervisor that does not know the request and then accepts every one; a read of an answer is a turn.\<close>

definition torn_validation :: "(nat, unit, unit, nat) cli_host" where
  "torn_validation = \<lparr>ch_client = \<lparr>ck_connect = (\<lambda>_ _ w. (Inr (), w)), ck_write = (\<lambda>_ _ _ w. (None, w)),
       ck_shutdown_write = (\<lambda>_ w. w),
       ck_read_to_end = (\<lambda>_ _ _ n. (Inr ((if n = 0 then ''HTTP/1.1 404 Not Found'' else ''HTTP/1.1 200 OK'') @ crlf @ crlf), n + 1)),
       ck_read_line = (\<lambda>_ _ w. (Inr [], w)), ck_now = (\<lambda>w. (0, w)), ck_show_address = (\<lambda>_. ''127.0.0.1:80''),
       ck_encode = (\<lambda>_. Inr ''{}''), ck_decode = (\<lambda>s. if s = ''{}{}'' then Inl ''trailing characters'' else Inr JNull),
       ck_decode_event = (\<lambda>_. Inl ''none'')\<rparr>,
     ch_paths = example_paths\<lparr>pl_env := example_env\<lparr>he_is_file := (\<lambda>_. True)\<rparr>\<rparr>, ch_library = example_library,
     ch_target = TargetLinux, ch_var = (\<lambda>_. Some ''/home''),
     ch_chrono = \<lparr>ch_from_millis = (\<lambda>_. None), ch_parse_rfc3339 = (\<lambda>_. None), ch_utc = (\<lambda>_. []), ch_local = (\<lambda>_. [])\<rparr>,
     ch_read_file = (\<lambda>path w. (Inr (if path = ''/srv/cooperative-actions.jsonl''
       then fst (wd_os (fst (snd torn_run))) else ''two''), w)),
     ch_read_token = (\<lambda>_ w. (Inr (replicate 64 (CHR ''a'')), w)), ch_show_io = (\<lambda>_. ''io''),
     ch_address = (\<lambda>_. Inr ()), ch_show_json = (\<lambda>_. ''{}''), ch_pretty = (\<lambda>_. ''{}''), ch_event_json = (\<lambda>_. ''{}''),
     ch_report_json = (\<lambda>_. JNull), ch_sleep = (\<lambda>_ w. w), ch_out = (\<lambda>_ w. w), ch_err = (\<lambda>_ w. w)\<rparr>"

theorem torn_audit_blocks_validation_witness:
  "fst torn_run = Ok () \<and> fst (wd_os (fst (snd torn_run))) = ''{}{}'' @ [newline]
   \<and> (\<exists>w'. run_extension_validate torn_validation ApiUser ''r2'' (Some ''/srv/aku.json'') 0 = Some (Some exit_failure, w'))"
proof -
  let ?h = torn_validation
  have run: "fst torn_run = Ok ()" "fst (wd_os (fst (snd torn_run))) = ''{}{}'' @ [newline]" by code_simp+
  have bad: "terminated []" "newline \<notin> set ''{}{}''" "strip_cr ''{}{}'' = ''{}{}''" by code_simp+
  have decode: "ck_decode (ch_client ?h) ''{}{}'' = Inl ''trailing characters''" by (simp add: torn_validation_def)
  have "case open_session ?h (Some ''/srv/aku.json'') 0 of (Ok se, _) \<Rightarrow> True | _ \<Rightarrow> False" by code_simp
  then obtain se w1 where se: "open_session ?h (Some ''/srv/aku.json'') 0 = (Ok se, w1)"
    by (auto split: prod.splits outcome.splits)
  have runtime: "pl_parent (ch_paths ?h) (cs_token_path se) = Some ''/srv''"
    by (simp add: torn_validation_def example_paths_def)
  have read: "\<exists>later. source = [] @ ''{}{}'' @ [newline] @ later"
    if "ch_read_file ?h (he_join (pl_env (ch_paths ?h)) ''/srv'' ''cooperative-actions.jsonl'') v = (Inr source, v')" for v source v'
  proof -
    have "source = ''{}{}'' @ [newline]"
      using that run(2) by (simp add: torn_validation_def example_paths_def example_env_def)
    then show ?thesis by simp
  qed
  have "case run_extension_validate ?h ApiUser ''r2'' (Some ''/srv/aku.json'') 0 of Some (Some _, n) \<Rightarrow> n = 3 | _ \<Rightarrow> False"
    by code_simp
  then obtain c w' where out: "run_extension_validate ?h ApiUser ''r2'' (Some ''/srv/aku.json'') 0 = Some (Some c, w')"
    by (auto split: option.splits prod.splits)
  from torn_audit_blocks_validation [OF bad decode se runtime read out] show ?thesis using run out by auto
qed

end
