(* ===== verification/Runtime_Instance.thy ===== *)
theory Runtime_Instance
  imports Wire_Text Ordered_Map
begin

text \<open>
  \<open>src/src/adapters/runtime_instance.rs\<close>: the lease that lets one supervisor run, and the authority of a
  development watcher. A lock belongs to an open file and goes with the process that opened it; the locks
  and the contents of the files are the store, and \<open>lx_fault\<close> says which operation of the host fails. Taking
  the lease is cut at its accesses to shared locks, and a step relation interleaves the processes.
\<close>

section \<open>Identities\<close>

datatype runtime_mode = ModeStable | ModeDevelopmentWatcher

record runtime_instance =
  ri_schema_version :: u32
  ri_instance_id :: string
  ri_process_id :: u32
  ri_executable :: string
  ri_mode :: runtime_mode
  ri_watcher_process_id :: "u32 option"
  ri_started_at_unix_ms :: u64
  ri_version :: string
  ri_config_fingerprint :: string
  ri_control_api :: string

record watcher_identity =
  wi_watcher_id :: string
  wi_watcher_process_id :: u32

datatype runtime_instance_error =
  RiCurrentExecutable string
| RiMissingWatcherAuthority
| RiCreateDirectory string string
| RiOpen string string
| RiLock string string
| RiReadWatcher string string
| RiWrite string string
| RiSerialize string
| RiAlreadyRunning string "runtime_instance option"
| RiWatcherActive string u32

fun show_runtime_mode :: "runtime_mode \<Rightarrow> string" where
  "show_runtime_mode ModeStable = ''Stable''"
| "show_runtime_mode ModeDevelopmentWatcher = ''DevelopmentWatcher''"

fun show_runtime_instance_error :: "runtime_instance_error \<Rightarrow> string" where
  "show_runtime_instance_error (RiCurrentExecutable e) = ''failed to resolve current executable: '' @ e"
| "show_runtime_instance_error RiMissingWatcherAuthority = ''development mode requires a matching active watcher lease''"
| "show_runtime_instance_error (RiCreateDirectory path e) = ''failed to create '' @ path @ '': '' @ e"
| "show_runtime_instance_error (RiOpen path e) = ''failed to open runtime lease '' @ path @ '': '' @ e"
| "show_runtime_instance_error (RiLock path e) = ''failed to lock runtime lease '' @ path @ '': '' @ e"
| "show_runtime_instance_error (RiReadWatcher path e) = ''failed to read active watcher identity '' @ path @ '': '' @ e"
| "show_runtime_instance_error (RiWrite path e) = ''failed to write runtime identity '' @ path @ '': '' @ e"
| "show_runtime_instance_error (RiSerialize e) = ''failed to serialize runtime identity: '' @ e"
| "show_runtime_instance_error (RiAlreadyRunning path (Some owner)) =
     ''another AkuSupervisor instance is active: PID '' @ decimal (unat (ri_process_id owner)) @ '' ''
     @ ri_executable owner @ '' ('' @ show_runtime_mode (ri_mode owner) @ ''); identity: '' @ path"
| "show_runtime_instance_error (RiAlreadyRunning path None) =
     ''another AkuSupervisor instance holds '' @ path @ ''; its identity could not be read''"
| "show_runtime_instance_error (RiWatcherActive path pid) =
     ''development watcher PID '' @ decimal (unat pid) @ '' owns '' @ path @ ''; start Supervisor through that watcher''"

definition watcher_id_environment :: string where
  "watcher_id_environment = ''AKU_SUPERVISOR_WATCHER_ID''"
definition watcher_pid_environment :: string where
  "watcher_pid_environment = ''AKU_SUPERVISOR_WATCHER_PID''"
definition instance_file_name :: string where
  "instance_file_name = ''supervisor-instance.json''"
definition instance_lease_file_name :: string where
  "instance_lease_file_name = ''supervisor-instance.lock''"
definition watcher_lease_file_name :: string where
  "watcher_lease_file_name = ''development-watcher.lock''"
definition watcher_identity_file_name :: string where
  "watcher_identity_file_name = ''development-watcher.json''"

text \<open>
  The identity of this process: its number, the clock in nanoseconds (none before the epoch), the path of
  its executable and the environment are the host's.
\<close>

definition instance_current ::
  "u32 \<Rightarrow> nat \<Rightarrow> nat \<Rightarrow> string + string \<Rightarrow> (string \<Rightarrow> string option) \<Rightarrow> string \<Rightarrow> runtime_mode \<Rightarrow> string \<Rightarrow> string \<Rightarrow> u16
     \<Rightarrow> runtime_instance_error + runtime_instance" where
  "instance_current pid ms ns executable var version mode fingerprint control_host control_port =
     (case (case mode of
          ModeStable \<Rightarrow> Inr None
        | ModeDevelopmentWatcher \<Rightarrow>
            (case Option.bind (var watcher_pid_environment) (parse_unsigned 10 (2 ^ 32)) of
               None \<Rightarrow> Inl RiMissingWatcherAuthority
             | Some n \<Rightarrow> if 0 < n then Inr (Some (of_nat n)) else Inl RiMissingWatcherAuthority)) of
        Inl e \<Rightarrow> Inl e
      | Inr watcher \<Rightarrow>
          (case executable of
             Inl e \<Rightarrow> Inl (RiCurrentExecutable e)
           | Inr path \<Rightarrow> Inr
               \<lparr>ri_schema_version = 1, ri_instance_id = decimal (unat pid) @ ''-'' @ decimal ns, ri_process_id = pid,
                ri_executable = path, ri_mode = mode, ri_watcher_process_id = watcher,
                ri_started_at_unix_ms = (if ms < 2 ^ 64 then of_nat ms else - 1), ri_version = version,
                ri_config_fingerprint = fingerprint,
                ri_control_api = ''http://'' @ control_host @ '':'' @ decimal (unat control_port)\<rparr>))"

section \<open>The store\<close>

datatype lease_owner = OwnerSupervisor nat | OwnerWatcher nat

record lease_store =
  ls_locks :: "string \<Rightarrow> lease_owner option"
  ls_contents :: "string \<Rightarrow> string option"

datatype lease_io = IoCreateDirectory string | IoOpenFile string | IoTryLock string | IoReadFile string | IoWriteFile string

text \<open>\<open>lx_partial\<close> is what a write that failed has left in the file.\<close>

record lease_host =
  lx_fault :: "lease_io \<Rightarrow> string option"
  lx_join :: "string \<Rightarrow> string \<Rightarrow> string"
  lx_var :: "string \<Rightarrow> string option"
  lx_not_found :: string
  lx_decode_instance :: "string \<Rightarrow> string + runtime_instance"
  lx_decode_watcher :: "string \<Rightarrow> string + watcher_identity"
  lx_encode :: "runtime_instance \<Rightarrow> string + string"
  lx_partial :: "string \<Rightarrow> string"

definition open_lock_file :: "lease_host \<Rightarrow> string \<Rightarrow> lease_store \<Rightarrow> (runtime_instance_error + unit) \<times> lease_store" where
  "open_lock_file h path s = (case lx_fault h (IoOpenFile path) of
      Some e \<Rightarrow> (Inl (RiOpen path e), s)
    | None \<Rightarrow> (Inr (), if ls_contents s path = None then s\<lparr>ls_contents := (ls_contents s)(path \<mapsto> [])\<rparr> else s))"

text \<open>Whether the lock was taken; a lock another open file holds is not.\<close>

definition try_lock ::
  "lease_host \<Rightarrow> lease_owner \<Rightarrow> string \<Rightarrow> lease_store \<Rightarrow> (runtime_instance_error + bool) \<times> lease_store" where
  "try_lock h owner path s = (case lx_fault h (IoTryLock path) of
      Some e \<Rightarrow> (Inl (RiLock path e), s)
    | None \<Rightarrow>
        if ls_locks s path = None then (Inr True, s\<lparr>ls_locks := (ls_locks s)(path \<mapsto> owner)\<rparr>)
        else (Inr False, s))"

definition unlock :: "lease_owner \<Rightarrow> string \<Rightarrow> lease_store \<Rightarrow> lease_store" where
  "unlock owner path s = (if ls_locks s path = Some owner then s\<lparr>ls_locks := (ls_locks s)(path := None)\<rparr> else s)"

definition read_json :: "lease_host \<Rightarrow> (string \<Rightarrow> string + 'b) \<Rightarrow> string \<Rightarrow> lease_store \<Rightarrow> string + 'b" where
  "read_json h decode path s = (case lx_fault h (IoReadFile path) of
      Some e \<Rightarrow> Inl e
    | None \<Rightarrow> (case ls_contents s path of None \<Rightarrow> Inl (lx_not_found h) | Some content \<Rightarrow> decode content))"

definition write_json ::
  "lease_host \<Rightarrow> string \<Rightarrow> runtime_instance \<Rightarrow> lease_store \<Rightarrow> (runtime_instance_error + unit) \<times> lease_store" where
  "write_json h path identity s = (case lx_encode h identity of
      Inl e \<Rightarrow> (Inl (RiSerialize e), s)
    | Inr encoded \<Rightarrow>
        (case lx_fault h (IoWriteFile path) of
           Some e \<Rightarrow> (Inl (RiWrite path e), s\<lparr>ls_contents := (ls_contents s)(path \<mapsto> lx_partial h (encoded @ [newline]))\<rparr>)
         | None \<Rightarrow> (Inr (), s\<lparr>ls_contents := (ls_contents s)(path \<mapsto> encoded @ [newline])\<rparr>)))"

section \<open>Taking the lease\<close>

definition watcher_lease :: "lease_host \<Rightarrow> string \<Rightarrow> string" where
  "watcher_lease h dir = lx_join h dir watcher_lease_file_name"

definition instance_lease :: "lease_host \<Rightarrow> string \<Rightarrow> string" where
  "instance_lease h dir = lx_join h dir instance_lease_file_name"

definition instance_path :: "lease_host \<Rightarrow> string \<Rightarrow> string" where
  "instance_path h dir = lx_join h dir instance_file_name"

text \<open>The lock of the watcher: whether this process has it now.\<close>

definition look_for_watcher ::
  "lease_host \<Rightarrow> lease_owner \<Rightarrow> string \<Rightarrow> lease_store \<Rightarrow> (runtime_instance_error + bool) \<times> lease_store" where
  "look_for_watcher h owner dir s = (case open_lock_file h (watcher_lease h dir) s of
      (Inl e, s1) \<Rightarrow> (Inl e, s1)
    | (Inr _, s1) \<Rightarrow> try_lock h owner (watcher_lease h dir) s1)"

definition judge_watcher ::
  "lease_host \<Rightarrow> string \<Rightarrow> runtime_instance \<Rightarrow> lease_store \<Rightarrow> runtime_instance_error + unit" where
  "judge_watcher h dir identity s =
     (let watcher_path = lx_join h dir watcher_identity_file_name in
      case read_json h (lx_decode_watcher h) watcher_path s of
        Inl e \<Rightarrow> Inl (RiReadWatcher watcher_path e)
      | Inr watcher \<Rightarrow>
          if ri_mode identity = ModeDevelopmentWatcher \<and> lx_var h watcher_id_environment = Some (wi_watcher_id watcher)
            \<and> ri_watcher_process_id identity = Some (wi_watcher_process_id watcher)
          then Inr ()
          else Inl (RiWatcherActive (watcher_lease h dir) (wi_watcher_process_id watcher)))"

text \<open>With the lock, or against its holder; the lock is given back with the file.\<close>

definition judge_authority ::
  "lease_host \<Rightarrow> lease_owner \<Rightarrow> string \<Rightarrow> runtime_instance \<Rightarrow> bool \<Rightarrow> lease_store
     \<Rightarrow> (runtime_instance_error + unit) \<times> lease_store" where
  "judge_authority h owner dir identity locked s =
     (if locked then
        (if ri_mode identity = ModeStable then Inr () else Inl RiMissingWatcherAuthority,
         unlock owner (watcher_lease h dir) s)
      else (judge_watcher h dir identity s, s))"

definition verify_watcher_authority ::
  "lease_host \<Rightarrow> lease_owner \<Rightarrow> string \<Rightarrow> runtime_instance \<Rightarrow> lease_store
     \<Rightarrow> (runtime_instance_error + unit) \<times> lease_store" where
  "verify_watcher_authority h owner dir identity s = (case look_for_watcher h owner dir s of
      (Inl e, s1) \<Rightarrow> (Inl e, s1) | (Inr locked, s1) \<Rightarrow> judge_authority h owner dir identity locked s1)"

definition lock_instance ::
  "lease_host \<Rightarrow> lease_owner \<Rightarrow> string \<Rightarrow> lease_store \<Rightarrow> (runtime_instance_error + unit) \<times> lease_store" where
  "lock_instance h owner dir s =
     (let lock_path = instance_lease h dir; path = instance_path h dir in
      case open_lock_file h lock_path s of
        (Inl e, s1) \<Rightarrow> (Inl e, s1)
      | (Inr _, s1) \<Rightarrow>
          (case try_lock h owner lock_path s1 of
             (Inl e, s2) \<Rightarrow> (Inl e, s2)
           | (Inr True, s2) \<Rightarrow> (Inr (), s2)
           | (Inr False, s2) \<Rightarrow> (Inl (RiAlreadyRunning lock_path
               (case lx_fault h (IoOpenFile path) of
                  Some _ \<Rightarrow> None
                | None \<Rightarrow> (case read_json h (lx_decode_instance h) path s2 of Inl _ \<Rightarrow> None | Inr owner' \<Rightarrow> Some owner'))), s2)))"

text \<open>A failure drops the open lock file and with it the lock.\<close>

definition write_identity ::
  "lease_host \<Rightarrow> lease_owner \<Rightarrow> string \<Rightarrow> runtime_instance \<Rightarrow> lease_store
     \<Rightarrow> (runtime_instance_error + unit) \<times> lease_store" where
  "write_identity h owner dir identity s =
     (case (case open_lock_file h (instance_path h dir) s of
          (Inl e, s1) \<Rightarrow> (Inl e, s1) | (Inr _, s1) \<Rightarrow> write_json h (instance_path h dir) identity s1) of
        (Inl e, s2) \<Rightarrow> (Inl e, unlock owner (instance_lease h dir) s2)
      | (Inr _, s2) \<Rightarrow> (Inr (), s2))"

definition lease_acquire ::
  "lease_host \<Rightarrow> lease_owner \<Rightarrow> string \<Rightarrow> runtime_instance \<Rightarrow> lease_store
     \<Rightarrow> (runtime_instance_error + unit) \<times> lease_store" where
  "lease_acquire h owner dir identity s = (case lx_fault h (IoCreateDirectory dir) of
      Some e \<Rightarrow> (Inl (RiCreateDirectory dir e), s)
    | None \<Rightarrow>
        (case verify_watcher_authority h owner dir identity s of
           (Inl e, s1) \<Rightarrow> (Inl e, s1)
         | (Inr _, s1) \<Rightarrow>
             (case lock_instance h owner dir s1 of
                (Inl e, s2) \<Rightarrow> (Inl e, s2)
              | (Inr _, s2) \<Rightarrow> write_identity h owner dir identity s2)))"

text \<open>The end of a lease: its identity is removed while the lock is still held.\<close>

definition drop_identity :: "lease_host \<Rightarrow> string \<Rightarrow> runtime_instance \<Rightarrow> lease_store \<Rightarrow> lease_store" where
  "drop_identity h dir identity s =
     (let path = instance_path h dir in
      case read_json h (lx_decode_instance h) path s of
        Inl _ \<Rightarrow> s
      | Inr found \<Rightarrow>
          if ri_instance_id found = ri_instance_id identity \<and> lx_fault h (IoWriteFile path) = None
          then s\<lparr>ls_contents := (ls_contents s)(path := None)\<rparr> else s)"

definition lease_drop :: "lease_host \<Rightarrow> lease_owner \<Rightarrow> string \<Rightarrow> runtime_instance \<Rightarrow> lease_store \<Rightarrow> lease_store" where
  "lease_drop h owner dir identity s = unlock owner (instance_lease h dir) (drop_identity h dir identity s)"

section \<open>Processes\<close>

datatype lease_pc =
  PcIdle | PcLooked bool | PcVerified | PcLocked | PcRunning | PcDropping | PcRefused runtime_instance_error

record lease_world =
  lw_store :: lease_store
  lw_pc :: "nat \<Rightarrow> lease_pc"

text \<open>
  Each process has a host of its own, since environments and failures differ, and an identity. A watcher
  takes the lock of its lease when it is free, writes its identity, and gives the lock back or ends
  without removing its file; a process that ends in any way loses its locks.
\<close>

definition release_owner :: "lease_owner \<Rightarrow> lease_store \<Rightarrow> lease_store" where
  "release_owner owner s = s\<lparr>ls_locks := (\<lambda>path. if ls_locks s path = Some owner then None else ls_locks s path)\<rparr>"

inductive lease_step ::
  "(nat \<Rightarrow> lease_host) \<Rightarrow> string \<Rightarrow> (nat \<Rightarrow> runtime_instance) \<Rightarrow> lease_world \<Rightarrow> lease_world \<Rightarrow> bool"
  for host dir identity where
  look: "lw_pc w p = PcIdle \<Longrightarrow> lx_fault (host p) (IoCreateDirectory dir) = None \<Longrightarrow>
    look_for_watcher (host p) (OwnerSupervisor p) dir (lw_store w) = (r, s) \<Longrightarrow>
    lease_step host dir identity w
      \<lparr>lw_store = s, lw_pc = (lw_pc w)(p := case r of Inl e \<Rightarrow> PcRefused e | Inr locked \<Rightarrow> PcLooked locked)\<rparr>"
| judge: "lw_pc w p = PcLooked locked \<Longrightarrow>
    judge_authority (host p) (OwnerSupervisor p) dir (identity p) locked (lw_store w) = (r, s) \<Longrightarrow>
    lease_step host dir identity w
      \<lparr>lw_store = s, lw_pc = (lw_pc w)(p := case r of Inl e \<Rightarrow> PcRefused e | Inr _ \<Rightarrow> PcVerified)\<rparr>"
| lock: "lw_pc w p = PcVerified \<Longrightarrow>
    lock_instance (host p) (OwnerSupervisor p) dir (lw_store w) = (r, s) \<Longrightarrow>
    lease_step host dir identity w
      \<lparr>lw_store = s, lw_pc = (lw_pc w)(p := case r of Inl e \<Rightarrow> PcRefused e | Inr _ \<Rightarrow> PcLocked)\<rparr>"
| identify: "lw_pc w p = PcLocked \<Longrightarrow>
    write_identity (host p) (OwnerSupervisor p) dir (identity p) (lw_store w) = (r, s) \<Longrightarrow>
    lease_step host dir identity w
      \<lparr>lw_store = s, lw_pc = (lw_pc w)(p := case r of Inl e \<Rightarrow> PcRefused e | Inr _ \<Rightarrow> PcRunning)\<rparr>"
| retire: "lw_pc w p = PcRunning \<Longrightarrow>
    lease_step host dir identity w
      \<lparr>lw_store = drop_identity (host p) dir (identity p) (lw_store w), lw_pc = (lw_pc w)(p := PcDropping)\<rparr>"
| exit: "lease_step host dir identity w
      \<lparr>lw_store = release_owner (OwnerSupervisor p) (lw_store w), lw_pc = (lw_pc w)(p := PcIdle)\<rparr>"
| watch: "try_lock h (OwnerWatcher q) (watcher_lease (host p) dir) (lw_store w) = (Inr True, s) \<Longrightarrow>
    lease_step host dir identity w
      (w\<lparr>lw_store := s\<lparr>ls_contents := (ls_contents s)(lx_join (host p) dir watcher_identity_file_name := content)\<rparr>\<rparr>)"
| unwatch: "lease_step host dir identity w (w\<lparr>lw_store := release_owner (OwnerWatcher q) (lw_store w)\<rparr>)"

inductive lease_reach ::
  "(nat \<Rightarrow> lease_host) \<Rightarrow> string \<Rightarrow> (nat \<Rightarrow> runtime_instance) \<Rightarrow> (string \<Rightarrow> string option) \<Rightarrow> lease_world \<Rightarrow> bool"
  for host dir identity contents where
  start: "lease_reach host dir identity contents
    \<lparr>lw_store = \<lparr>ls_locks = (\<lambda>_. None), ls_contents = contents\<rparr>, lw_pc = (\<lambda>_. PcIdle)\<rparr>"
| step: "lease_reach host dir identity contents w \<Longrightarrow> lease_step host dir identity w w' \<Longrightarrow>
    lease_reach host dir identity contents w'"

end
