(* ===== verification/Runtime_Instance_Properties.thy ===== *)
theory Runtime_Instance_Properties
  imports Runtime_Instance
begin

text \<open>
  What the lease of \<open>Runtime_Instance\<close> gives: a lock has one owner and is only given back by that owner,
  so at most one supervisor runs in a directory, and the identity file is the running supervisor's.
\<close>

section \<open>Locks\<close>

text \<open>\<open>keeps_others owner s s'\<close>: a step of \<open>owner\<close> leaves every lock of another in place.\<close>

definition keeps_others :: "lease_owner \<Rightarrow> lease_store \<Rightarrow> lease_store \<Rightarrow> bool" where
  "keeps_others owner s s' = (\<forall>path other. other \<noteq> owner \<longrightarrow> ls_locks s path = Some other \<longrightarrow> ls_locks s' path = Some other)"

named_theorems lease_operations

lemma keeps_others_refl [simp]: "keeps_others owner s s"
  by (simp add: keeps_others_def)

lemma keeps_others_trans: "keeps_others owner s t \<Longrightarrow> keeps_others owner t u \<Longrightarrow> keeps_others owner s u"
  by (simp add: keeps_others_def)

lemma keeps_others_contents [simp]: "keeps_others owner s (t\<lparr>ls_contents := c\<rparr>) = keeps_others owner s t"
  by (simp add: keeps_others_def)

lemma unlock_keeps_others: "keeps_others owner s (unlock owner path s)"
  by (auto simp: keeps_others_def unlock_def)

lemma release_keeps_others: "keeps_others owner s (release_owner owner s)"
  by (auto simp: keeps_others_def release_owner_def)

lemma open_lock_file_locks: "open_lock_file h path s = (r, s') \<Longrightarrow> ls_locks s' = ls_locks s"
  by (auto simp: open_lock_file_def split: option.splits if_splits)

lemma try_lock_keeps_others: "try_lock h owner path s = (r, s') \<Longrightarrow> keeps_others owner s s'"
  by (auto simp: try_lock_def keeps_others_def split: option.splits if_splits)

lemma try_lock_taken: "try_lock h owner path s = (Inr True, s') \<Longrightarrow> ls_locks s path = None \<and> ls_locks s' path = Some owner"
  by (auto simp: try_lock_def split: option.splits if_splits)

lemma try_lock_contents: "try_lock h owner path s = (r, s') \<Longrightarrow> ls_contents s' = ls_contents s"
  by (auto simp: try_lock_def split: option.splits if_splits)

lemma write_json_locks: "write_json h path identity s = (r, s') \<Longrightarrow> ls_locks s' = ls_locks s"
  by (auto simp: write_json_def split: option.splits sum.splits)

lemma same_locks_keep_others: "ls_locks s' = ls_locks s \<Longrightarrow> keeps_others owner s s'"
  by (simp add: keeps_others_def)

lemma look_for_watcher_keeps_others:
  assumes "look_for_watcher h owner dir s = (r, s')"
  shows "keeps_others owner s s'"
  using assms
  by (auto simp: look_for_watcher_def split: prod.splits sum.splits
      dest!: open_lock_file_locks try_lock_keeps_others simp: keeps_others_def)

lemma judge_authority_keeps_others:
  "judge_authority h owner dir identity locked s = (r, s') \<Longrightarrow> keeps_others owner s s'"
  by (auto simp: judge_authority_def unlock_keeps_others split: if_splits)

lemma lock_instance_keeps_others:
  assumes "lock_instance h owner dir s = (r, s')"
  shows "keeps_others owner s s'"
  using assms
  by (auto simp: lock_instance_def Let_def keeps_others_def split: prod.splits sum.splits bool.splits
      dest!: open_lock_file_locks try_lock_keeps_others)

lemma lock_instance_taken:
  assumes "lock_instance h owner dir s = (Inr (), s')"
  shows "ls_locks s (instance_lease h dir) = None \<and> ls_locks s' (instance_lease h dir) = Some owner"
  using assms
  by (auto simp: lock_instance_def Let_def split: prod.splits sum.splits bool.splits
      dest!: open_lock_file_locks try_lock_taken)

lemma write_identity_keeps_others:
  assumes "write_identity h owner dir identity s = (r, s')"
  shows "keeps_others owner s s'"
  using assms
  by (auto simp: write_identity_def keeps_others_def unlock_def split: prod.splits sum.splits if_splits
      dest!: open_lock_file_locks write_json_locks)

lemma write_identity_written:
  assumes "write_identity h owner dir identity s = (Inr (), s')"
  shows "ls_locks s' = ls_locks s
    \<and> (\<exists>encoded. lx_encode h identity = Inr encoded \<and> ls_contents s' (instance_path h dir) = Some (encoded @ [newline]))"
  using assms
  by (auto simp: write_identity_def write_json_def split: prod.splits sum.splits option.splits
      dest!: open_lock_file_locks)

lemma drop_identity_locks: "ls_locks (drop_identity h dir identity s) = ls_locks s"
  by (auto simp: drop_identity_def Let_def split: sum.splits)

section \<open>The file of the identity\<close>

text \<open>Of what a process does before it has the lease, opening a file at most creates it empty.\<close>

definition keeps_contents :: "lease_store \<Rightarrow> lease_store \<Rightarrow> bool" where
  "keeps_contents s s' = (\<forall>path content. ls_contents s path = Some content \<longrightarrow> ls_contents s' path = Some content)"

lemma open_lock_file_contents: "open_lock_file h path s = (r, s') \<Longrightarrow> keeps_contents s s'"
  by (auto simp: open_lock_file_def keeps_contents_def split: option.splits if_splits)

lemma look_for_watcher_contents: "look_for_watcher h owner dir s = (r, s') \<Longrightarrow> keeps_contents s s'"
  by (auto simp: look_for_watcher_def keeps_contents_def split: prod.splits sum.splits
      dest!: open_lock_file_contents try_lock_contents)

lemma judge_authority_contents: "judge_authority h owner dir identity locked s = (r, s') \<Longrightarrow> keeps_contents s s'"
  by (auto simp: judge_authority_def unlock_def keeps_contents_def split: if_splits)

lemma lock_instance_contents: "lock_instance h owner dir s = (r, s') \<Longrightarrow> keeps_contents s s'"
  by (auto simp: lock_instance_def Let_def keeps_contents_def split: prod.splits sum.splits bool.splits
      dest!: open_lock_file_contents try_lock_contents)

section \<open>The invariant\<close>

fun holds_lease :: "lease_pc \<Rightarrow> bool" where
  "holds_lease PcLocked = True"
| "holds_lease PcRunning = True"
| "holds_lease PcDropping = True"
| "holds_lease _ = False"

definition lease_owned :: "string \<Rightarrow> lease_world \<Rightarrow> bool" where
  "lease_owned path w = (\<forall>p. holds_lease (lw_pc w p) \<longrightarrow> ls_locks (lw_store w) path = Some (OwnerSupervisor p))"

definition identity_published :: "(nat \<Rightarrow> lease_host) \<Rightarrow> (nat \<Rightarrow> runtime_instance) \<Rightarrow> string \<Rightarrow> lease_world \<Rightarrow> bool" where
  "identity_published host identity path w = (\<forall>p. lw_pc w p = PcRunning \<longrightarrow>
     (\<exists>encoded. lx_encode (host p) (identity p) = Inr encoded \<and> ls_contents (lw_store w) path = Some (encoded @ [newline])))"

lemma lease_owned_unique: "lease_owned path w \<Longrightarrow> holds_lease (lw_pc w p) \<Longrightarrow> holds_lease (lw_pc w q) \<Longrightarrow> p = q"
  unfolding lease_owned_def by (metis lease_owner.inject(1) option.inject)

text \<open>A step of one process keeps the invariant when that process ends with the lock or without the lease.\<close>

lemma lease_owned_step:
  assumes "lease_owned path w" "keeps_others (OwnerSupervisor p) (lw_store w) s"
    and "holds_lease c \<Longrightarrow> ls_locks s path = Some (OwnerSupervisor p)"
  shows "lease_owned path \<lparr>lw_store = s, lw_pc = (lw_pc w)(p := c)\<rparr>"
  using assms by (auto simp: lease_owned_def keeps_others_def)

lemma lease_owned_watcher:
  assumes "lease_owned path w" "keeps_others (OwnerWatcher q) (lw_store w) s"
  shows "lease_owned path (w\<lparr>lw_store := s\<rparr>)"
  using assms by (auto simp: lease_owned_def keeps_others_def)

lemma lease_owned_reach:
  assumes joins: "\<And>p. lx_join (host p) = joiner"
    and reach: "lease_reach host dir identity contents w"
  shows "lease_owned (joiner dir instance_lease_file_name) w"
  using reach
proof induction
  case start
  show ?case by (simp add: lease_owned_def)
next
  case (step w w')
  let ?path = "joiner dir instance_lease_file_name"
  have path: "instance_lease (host p) dir = ?path" for p
    by (simp add: instance_lease_def joins)
  from step.hyps(2) step.IH show ?case
  proof cases
    case (look p r s)
    then show ?thesis
      by (auto intro!: lease_owned_step step.IH look_for_watcher_keeps_others split: sum.splits)
  next
    case (judge p locked r s)
    then show ?thesis
      by (auto intro!: lease_owned_step step.IH judge_authority_keeps_others split: sum.splits)
  next
    case (lock p r s)
    then have "keeps_others (OwnerSupervisor p) (lw_store w) s"
      by (rule_tac lock_instance_keeps_others)
    with lock show ?thesis
      by (auto intro!: lease_owned_step step.IH dest!: lock_instance_taken simp: path split: sum.splits)
  next
    case (identify p r s)
    then have "ls_locks (lw_store w) ?path = Some (OwnerSupervisor p)"
      using step.IH by (simp add: lease_owned_def)
    moreover from identify have "keeps_others (OwnerSupervisor p) (lw_store w) s"
      by (rule_tac write_identity_keeps_others)
    ultimately show ?thesis
      using identify by (auto intro!: lease_owned_step step.IH dest!: write_identity_written split: sum.splits)
  next
    case (retire p)
    then have "ls_locks (lw_store w) ?path = Some (OwnerSupervisor p)"
      using step.IH by (simp add: lease_owned_def)
    with retire show ?thesis
      by (auto intro!: lease_owned_step step.IH same_locks_keep_others simp: drop_identity_locks)
  next
    case (exit p)
    then show ?thesis
      by (auto intro!: lease_owned_step step.IH release_keeps_others)
  next
    case (watch h q p s content)
    then show ?thesis
      by (auto intro!: lease_owned_watcher step.IH dest!: try_lock_keeps_others)
  next
    case (unwatch q)
    then show ?thesis
      by (auto intro!: lease_owned_watcher step.IH release_keeps_others)
  qed
qed

lemma identity_published_step:
  assumes "identity_published host identity path w"
    and "\<And>q. q \<noteq> p \<Longrightarrow> lw_pc w q = PcRunning \<Longrightarrow> ls_contents s path = ls_contents (lw_store w) path"
    and "c = PcRunning \<Longrightarrow> \<exists>encoded. lx_encode (host p) (identity p) = Inr encoded
      \<and> ls_contents s path = Some (encoded @ [newline])"
  shows "identity_published host identity path \<lparr>lw_store = s, lw_pc = (lw_pc w)(p := c)\<rparr>"
  using assms unfolding identity_published_def by (auto split: if_splits)

lemma identity_published_kept:
  assumes "identity_published host identity path w" "keeps_contents (lw_store w) s" "c \<noteq> PcRunning"
  shows "identity_published host identity path \<lparr>lw_store = s, lw_pc = (lw_pc w)(p := c)\<rparr>"
  unfolding identity_published_def
proof (intro allI impI)
  fix q
  assume "lw_pc \<lparr>lw_store = s, lw_pc = (lw_pc w)(p := c)\<rparr> q = PcRunning"
  then have "lw_pc w q = PcRunning"
    using assms(3) by (simp split: if_splits)
  with assms(1, 2) show "\<exists>encoded. lx_encode (host q) (identity q) = Inr encoded
      \<and> ls_contents (lw_store \<lparr>lw_store = s, lw_pc = (lw_pc w)(p := c)\<rparr>) path = Some (encoded @ [newline])"
    unfolding identity_published_def keeps_contents_def by fastforce
qed

lemma identity_published_reach:
  assumes joins: "\<And>p. lx_join (host p) = joiner"
    and names: "joiner dir watcher_identity_file_name \<noteq> joiner dir instance_file_name"
    and reach: "lease_reach host dir identity contents w"
  shows "identity_published host identity (joiner dir instance_file_name) w"
  using reach
proof induction
  case start
  show ?case by (simp add: identity_published_def)
next
  case (step w w')
  let ?path = "joiner dir instance_file_name"
  have path: "instance_path (host p) dir = ?path" for p
    by (simp add: instance_path_def joins)
  have owned: "lease_owned (joiner dir instance_lease_file_name) w"
    using joins step.hyps(1) by (rule lease_owned_reach)
  have alone: "lw_pc w p \<noteq> PcRunning" if "holds_lease (lw_pc w q)" "p \<noteq> q" for p q
    using lease_owned_unique [OF owned, of p q] that by auto
  from step.hyps(2) show ?case
  proof cases
    case (look p r s)
    then show ?thesis
      by (auto intro!: identity_published_kept step.IH look_for_watcher_contents split: sum.splits)
  next
    case (judge p locked r s)
    then show ?thesis
      by (auto intro!: identity_published_kept step.IH judge_authority_contents split: sum.splits)
  next
    case (lock p r s)
    then show ?thesis
      by (auto intro!: identity_published_kept step.IH lock_instance_contents split: sum.splits)
  next
    case (identify p r s)
    then show ?thesis
      using alone [of p]
      by (auto intro!: identity_published_step step.IH dest!: write_identity_written simp: path split: sum.splits)
  next
    case (retire p)
    then show ?thesis
      using alone [of p] by (auto intro!: identity_published_step step.IH)
  next
    case (exit p)
    then show ?thesis
      by (auto intro!: identity_published_kept step.IH simp: keeps_contents_def release_owner_def)
  next
    case (watch h q p s content)
    then show ?thesis
      using step.IH names by (auto simp: identity_published_def joins dest!: try_lock_contents)
  next
    case (unwatch q)
    then show ?thesis
      using step.IH by (auto simp: identity_published_def release_owner_def)
  qed
qed

section \<open>The sequential operation\<close>

text \<open>\<open>lease_acquire\<close> is the run of the steps of one process with no other step between them.\<close>

lemma lease_acquire_parts:
  assumes "lease_acquire h owner dir identity s = (Inr (), s')"
  obtains s1 s2 s3 locked where
    "lx_fault h (IoCreateDirectory dir) = None" "look_for_watcher h owner dir s = (Inr locked, s1)"
    "judge_authority h owner dir identity locked s1 = (Inr (), s2)" "lock_instance h owner dir s2 = (Inr (), s3)"
    "write_identity h owner dir identity s3 = (Inr (), s')"
  using assms
  by (auto simp: lease_acquire_def verify_watcher_authority_def split: option.splits prod.splits sum.splits)

lemma lease_acquire_reach:
  assumes "lease_reach host dir identity contents w" "lw_pc w p = PcIdle"
    and "lease_acquire (host p) (OwnerSupervisor p) dir (identity p) (lw_store w) = (Inr (), s)"
  shows "lease_reach host dir identity contents \<lparr>lw_store = s, lw_pc = (lw_pc w)(p := PcRunning)\<rparr>"
proof -
  from assms(3) obtain s1 s2 s3 locked where parts:
      "lx_fault (host p) (IoCreateDirectory dir) = None"
      "look_for_watcher (host p) (OwnerSupervisor p) dir (lw_store w) = (Inr locked, s1)"
      "judge_authority (host p) (OwnerSupervisor p) dir (identity p) locked s1 = (Inr (), s2)"
      "lock_instance (host p) (OwnerSupervisor p) dir s2 = (Inr (), s3)"
      "write_identity (host p) (OwnerSupervisor p) dir (identity p) s3 = (Inr (), s)"
    by (rule lease_acquire_parts)
  let ?at = "\<lambda>s c. \<lparr>lw_store = s, lw_pc = (lw_pc w)(p := c)\<rparr>"
  have "lease_step host dir identity w (?at s1 (PcLooked locked))"
    using lease_step.look [of w p host dir, OF assms(2) parts(1, 2)] by simp
  with assms(1) have "lease_reach host dir identity contents (?at s1 (PcLooked locked))"
    by (rule lease_reach.step)
  moreover have "lease_step host dir identity (?at s1 (PcLooked locked)) (?at s2 PcVerified)"
    using lease_step.judge [of "?at s1 (PcLooked locked)" p locked] parts(3) by fastforce
  ultimately have "lease_reach host dir identity contents (?at s2 PcVerified)"
    by (rule lease_reach.step)
  moreover have "lease_step host dir identity (?at s2 PcVerified) (?at s3 PcLocked)"
    using lease_step.lock [of "?at s2 PcVerified" p] parts(4) by fastforce
  ultimately have "lease_reach host dir identity contents (?at s3 PcLocked)"
    by (rule lease_reach.step)
  moreover have "lease_step host dir identity (?at s3 PcLocked) (?at s PcRunning)"
    using lease_step.identify [of "?at s3 PcLocked" p] parts(5) by fastforce
  ultimately show ?thesis
    by (rule lease_reach.step)
qed

lemma lease_acquire_needs_lock:
  assumes "lease_acquire h owner dir identity s = (Inr (), s')" "other \<noteq> owner"
  shows "ls_locks s (instance_lease h dir) \<noteq> Some other"
proof
  assume held: "ls_locks s (instance_lease h dir) = Some other"
  from assms(1) obtain s1 s2 s3 locked where parts:
      "look_for_watcher h owner dir s = (Inr locked, s1)"
      "judge_authority h owner dir identity locked s1 = (Inr (), s2)" "lock_instance h owner dir s2 = (Inr (), s3)"
    by (rule lease_acquire_parts)
  have "keeps_others owner s s2"
    using look_for_watcher_keeps_others [OF parts(1)] judge_authority_keeps_others [OF parts(2)]
    by (rule keeps_others_trans)
  then have "ls_locks s2 (instance_lease h dir) = Some other"
    using held assms(2) by (simp add: keeps_others_def)
  with lock_instance_taken [OF parts(3)] show False by simp
qed

section \<open>The property\<close>

text \<open>C8: While a supervisor runs, in every interleaving of supervisors and watchers that start, fail, stop and
  are killed, no other process has the lease, every further \<open>acquire\<close> is refused, the lock of the lease is the
  running supervisor's and the identity file holds exactly what its identity is encoded to.\<close>

theorem running_supervisor_is_alone:
  assumes "\<And>p. lx_join (host p) = joiner"
    and "joiner dir watcher_identity_file_name \<noteq> joiner dir instance_file_name"
    and "lease_reach host dir identity contents w"
    and "lw_pc w p = PcRunning" and "q \<noteq> p"
  shows "lw_pc w q \<notin> {PcLocked, PcRunning, PcDropping}
    \<and> fst (lease_acquire (host q) (OwnerSupervisor q) dir (identity q) (lw_store w)) \<noteq> Inr ()
    \<and> ls_locks (lw_store w) (instance_lease (host p) dir) = Some (OwnerSupervisor p)
    \<and> (\<exists>encoded. lx_encode (host p) (identity p) = Inr encoded
        \<and> ls_contents (lw_store w) (instance_path (host p) dir) = Some (encoded @ [newline]))"
proof -
  have owned: "lease_owned (joiner dir instance_lease_file_name) w"
    using assms(1, 3) by (rule lease_owned_reach)
  have held: "ls_locks (lw_store w) (joiner dir instance_lease_file_name) = Some (OwnerSupervisor p)"
    using owned assms(4) by (simp add: lease_owned_def)
  have "\<not> holds_lease (lw_pc w q)"
    using lease_owned_unique [OF owned, of p q] assms(4, 5) by auto
  moreover have "fst (lease_acquire (host q) (OwnerSupervisor q) dir (identity q) (lw_store w)) \<noteq> Inr ()"
    using lease_acquire_needs_lock [of "host q" "OwnerSupervisor q" dir "identity q" "lw_store w" _ "OwnerSupervisor p"]
      held assms(1, 5) by (auto simp: instance_lease_def prod_eq_iff)
  ultimately show ?thesis
    using held identity_published_reach [OF assms(1-3)] assms(1, 4)
    by (auto simp: identity_published_def instance_lease_def instance_path_def)
qed

definition calm_host :: lease_host where
  "calm_host = \<lparr>lx_fault = (\<lambda>_. None), lx_join = (\<lambda>dir name. dir @ ''/'' @ name), lx_var = (\<lambda>_. None),
     lx_not_found = ''not found'', lx_decode_instance = (\<lambda>_. Inl ''invalid''), lx_decode_watcher = (\<lambda>_. Inl ''invalid''),
     lx_encode = (\<lambda>i. Inr (ri_instance_id i)), lx_partial = (\<lambda>_. [])\<rparr>"

definition stable_identity :: runtime_instance where
  "stable_identity = \<lparr>ri_schema_version = 1, ri_instance_id = ''7-1'', ri_process_id = 7, ri_executable = ''aku'',
     ri_mode = ModeStable, ri_watcher_process_id = None, ri_started_at_unix_ms = 1, ri_version = ''0.1'',
     ri_config_fingerprint = ''f'', ri_control_api = ''http://127.0.0.1:1''\<rparr>"

lemma stable_acquires:
  "fst (lease_acquire calm_host (OwnerSupervisor 0) ''run'' stable_identity
     \<lparr>ls_locks = (\<lambda>_. None), ls_contents = (\<lambda>_. None)\<rparr>) = Inr ()"
  by code_simp

theorem running_supervisor_is_alone_witness:
  "\<exists>w. lease_reach (\<lambda>_. calm_host) ''run'' (\<lambda>_. stable_identity) (\<lambda>_. None) w \<and> lw_pc w 0 = PcRunning
    \<and> fst (lease_acquire calm_host (OwnerSupervisor 1) ''run'' stable_identity (lw_store w)) \<noteq> Inr ()"
proof -
  let ?start = "\<lparr>lw_store = \<lparr>ls_locks = (\<lambda>_. None), ls_contents = (\<lambda>_. None)\<rparr>, lw_pc = (\<lambda>_. PcIdle)\<rparr>"
  let ?s = "snd (lease_acquire calm_host (OwnerSupervisor 0) ''run'' stable_identity (lw_store ?start))"
  let ?w = "\<lparr>lw_store = ?s, lw_pc = (lw_pc ?start)(0 := PcRunning)\<rparr>"
  have reach: "lease_reach (\<lambda>_. calm_host) ''run'' (\<lambda>_. stable_identity) (\<lambda>_. None) ?w"
    by (rule lease_acquire_reach [OF lease_reach.start]) (simp_all add: prod_eq_iff stable_acquires)
  have "lx_join calm_host ''run'' watcher_identity_file_name \<noteq> lx_join calm_host ''run'' instance_file_name"
    by (simp add: calm_host_def watcher_identity_file_name_def instance_file_name_def)
  with reach show ?thesis
    using running_supervisor_is_alone [of "\<lambda>_. calm_host" "lx_join calm_host" "''run''" "\<lambda>_. stable_identity"
        "\<lambda>_. None" ?w 0 1] by (intro exI [of _ ?w]) simp
qed

end
