(* ===== verification/Development_Shutdown.thy ===== *)
theory Development_Shutdown
  imports Foreground
begin

text \<open>
  \<open>src/src/adapters/development_shutdown.rs\<close>: the file by which a development watcher asks the process to
  end. The environment, the questions about a path and the file are the record \<open>shutdown_host\<close>; reading the
  file gives its content, of which the code takes a bounded part.
\<close>

section \<open>The signal\<close>

definition development_shutdown_file_env :: string where
  "development_shutdown_file_env = ''AKU_SUPERVISOR_DEV_SHUTDOWN_FILE''"

definition request_file_name :: string where
  "request_file_name = ''shutdown-request''"

definition max_reason_bytes :: nat where
  "max_reason_bytes = 1024"

definition default_reason :: string where
  "default_reason = ''source changed''"

record development_shutdown =
  dv_request_path :: "string option"

datatype development_shutdown_error =
  DsInvalidPath string
| DsRequestTooLarge string nat
| DsIo string string string

fun show_development_shutdown_error :: "development_shutdown_error \<Rightarrow> string" where
  "show_development_shutdown_error (DsInvalidPath path) =
     development_shutdown_file_env @ '' must be an absolute path ending in '' @ request_file_name @ '': '' @ path"
| "show_development_shutdown_error (DsRequestTooLarge path bytes) =
     ''development shutdown request '' @ path @ '' is '' @ decimal bytes @ '' bytes; maximum is ''
     @ decimal max_reason_bytes"
| "show_development_shutdown_error (DsIo path operation source) =
     ''failed to '' @ operation @ '' development shutdown request '' @ path @ '': '' @ source"

record 'w shutdown_host =
  dh_var :: "string \<Rightarrow> string option"
  dh_is_absolute :: "string \<Rightarrow> bool"
  dh_file_name :: "string \<Rightarrow> string option"
  dh_metadata :: "string \<Rightarrow> 'w \<Rightarrow> (string io_result_error + nat) \<times> 'w"
  dh_open :: "string \<Rightarrow> 'w \<Rightarrow> string option \<times> 'w"
  dh_read :: "string \<Rightarrow> 'w \<Rightarrow> (string + string) \<times> 'w"
  dh_remove :: "string \<Rightarrow> 'w \<Rightarrow> string option \<times> 'w"
  dh_show_io :: "string io_result_error \<Rightarrow> string"

definition validate_request_path :: "'w shutdown_host \<Rightarrow> string \<Rightarrow> development_shutdown_error + unit" where
  "validate_request_path h path =
     (if \<not> dh_is_absolute h path \<or> dh_file_name h path \<noteq> Some request_file_name then Inl (DsInvalidPath path)
      else Inr ())"

definition from_optional_path ::
  "'w shutdown_host \<Rightarrow> string option \<Rightarrow> development_shutdown_error + development_shutdown" where
  "from_optional_path h request_path =
     (case (case request_path of None \<Rightarrow> Inr () | Some path \<Rightarrow> validate_request_path h path) of
        Inl e \<Rightarrow> Inl e
      | Inr _ \<Rightarrow> Inr \<lparr>dv_request_path = request_path\<rparr>)"

definition from_environment :: "'w shutdown_host \<Rightarrow> development_shutdown_error + development_shutdown" where
  "from_environment h = from_optional_path h (dh_var h development_shutdown_file_env)"

section \<open>Taking a request\<close>

text \<open>An operation on the file that may fail, and one that gives a value.\<close>

definition io_step :: "string \<Rightarrow> string \<Rightarrow> ('w \<Rightarrow> string option \<times> 'w) \<Rightarrow> ('w, unit, development_shutdown_error) op" where
  "io_step path operation f = (\<lambda>w. case f w of
      (None, w') \<Rightarrow> (Ok (), w') | (Some e, w') \<Rightarrow> (Err (DsIo path operation e), w'))"

definition reason_of_payload :: "string \<Rightarrow> string" where
  "reason_of_payload payload =
     (let reason = trim (utf8_lossy payload) in if reason = [] then default_reason else reason)"

text \<open>The bounded payload is read and the file is removed; only then there is a request.\<close>

definition consume_request ::
  "'w shutdown_host \<Rightarrow> string \<Rightarrow> ('w, string option, development_shutdown_error) op" where
  "consume_request h path =
     seq_op (io_step path ''read'' (dh_open h path))
       (bind_op (\<lambda>w. case dh_read h path w of
           (Inl e, w') \<Rightarrow> (Err (DsIo path ''read'' e), w')
         | (Inr content, w') \<Rightarrow> (Ok (take (max_reason_bytes + 1) content), w')) (\<lambda>payload.
        if max_reason_bytes < length payload then fail_op (DsRequestTooLarge path (length payload))
        else seq_op (io_step path ''remove'' (dh_remove h path)) (return_op (Some (reason_of_payload payload)))))"

definition take_request ::
  "'w shutdown_host \<Rightarrow> development_shutdown \<Rightarrow> ('w, string option, development_shutdown_error) op" where
  "take_request h signal = (case dv_request_path signal of
      None \<Rightarrow> return_op None
    | Some path \<Rightarrow> (\<lambda>w. case dh_metadata h path w of
          (Inl e, w') \<Rightarrow>
            (if e = IoNotFound then Ok None else Err (DsIo path ''inspect'' (dh_show_io h e)), w')
        | (Inr bytes, w') \<Rightarrow>
            if max_reason_bytes < bytes then (Err (DsRequestTooLarge path bytes), w')
            else consume_request h path w'))"

section \<open>What a request is\<close>

text \<open>A signal that was made from the environment is off, or watches one absolute path with the fixed name.\<close>

lemma from_environment_path:
  assumes "from_environment h = Inr signal" and "dv_request_path signal = Some path"
  shows "dh_is_absolute h path \<and> dh_file_name h path = Some request_file_name"
  using assms
  by (auto simp: from_environment_def from_optional_path_def validate_request_path_def
      split: option.splits if_splits sum.splits)

text \<open>
  A request is only reported after its file was removed, with a reason that is not blank and that comes
  from at most 1024 bytes.
\<close>

lemma io_step_Ok: "io_step path operation f w = (Ok u, w') \<longleftrightarrow> f w = (None, w')"
  by (simp add: io_step_def split: prod.split option.split)

lemma consume_request_Ok:
  assumes "consume_request h path w = (Ok r, w')"
  shows "\<exists>w1 w2 content. dh_read h path w1 = (Inr content, w2) \<and> dh_remove h path w2 = (None, w')
    \<and> length content \<le> max_reason_bytes \<and> r = Some (reason_of_payload content)"
proof -
  let ?read = "\<lambda>w. case dh_read h path w of
      (Inl e, w') \<Rightarrow> (Err (DsIo path ''read'' e), w')
    | (Inr content, w') \<Rightarrow> (Ok (take (max_reason_bytes + 1) content), w')"
  obtain w1 payload w2 where read: "?read w1 = (Ok payload, w2)" and rest: "(if max_reason_bytes < length payload
      then fail_op (DsRequestTooLarge path (length payload))
      else seq_op (io_step path ''remove'' (dh_remove h path)) (return_op (Some (reason_of_payload payload)))) w2 = (Ok r, w')"
    using assms unfolding consume_request_def seq_op_def bind_op_Ok by blast
  obtain content where c: "dh_read h path w1 = (Inr content, w2)" "payload = take (max_reason_bytes + 1) content"
    using read by (auto split: prod.splits sum.splits)
  have short: "\<not> max_reason_bytes < length payload" using rest by (auto simp: fail_op_def)
  then have "payload = content" using c(2) by simp
  moreover have "dh_remove h path w2 = (None, w') \<and> r = Some (reason_of_payload payload)"
    using rest short by (auto simp: seq_op_def bind_op_Ok io_step_Ok return_op_def)
  ultimately show ?thesis
    using c(1) short by (intro exI [of _ w1] exI [of _ w2] exI [of _ content]) simp
qed

lemma take_request_reason:
  assumes "take_request h signal w = (Ok (Some reason), w')"
  obtains path content w1 w2 where "dv_request_path signal = Some path"
    and "dh_read h path w1 = (Inr content, w2)" "dh_remove h path w2 = (None, w')"
    and "length content \<le> max_reason_bytes" "reason = reason_of_payload content" "reason \<noteq> []"
proof -
  obtain path where path: "dv_request_path signal = Some path"
    using assms by (auto simp: take_request_def return_op_def split: option.splits)
  obtain w0 where "consume_request h path w0 = (Ok (Some reason), w')"
    using assms path by (auto simp: take_request_def split: prod.splits sum.splits if_splits)
  from consume_request_Ok [OF this] obtain w1 w2 content where *: "dh_read h path w1 = (Inr content, w2)"
    "dh_remove h path w2 = (None, w')" "length content \<le> max_reason_bytes" "reason = reason_of_payload content" by auto
  moreover have "reason \<noteq> []" using *(4) by (simp add: reason_of_payload_def default_reason_def Let_def)
  ultimately show thesis using that path by blast
qed

end
