(* ===== verification/Spec2Isabelle.thy ===== *)
theory Spec2Isabelle
  imports Service_Properties Reconciliation Cooperative Journal_Properties Live_Log_Properties Config_Properties
    Foreground_Properties Registration_Properties Registration_Events Extension_Validation Http_Health
    Control_Server_Properties Control_Client Registration_Mcp_Properties Cli_Properties Request_Round_Trip
    Extension_Relay_Properties Extension_Audit Runtime_Instance_Properties Development_Shutdown
begin

text \<open>
  A verification development for AkuSupervisor, the local supervisor of development services.

  \<^bold>\<open>The program.\<close> One foreground process (\<open>src/src/adapters/foreground.rs\<close>) reads a configuration,
  owns the process trees of the services it registers, and serves clients: the console, a loopback
  HTTP server with a dashboard and a read-only MCP endpoint, and, in processes of their own, the
  command line, an MCP proxy and the registration of services. The core is
  \<open>src/src/domain\<close> (states, principals, authority) and \<open>src/src/application\<close> (runtime, registry,
  dependency-aware control, cooperative operations); \<open>src/src/adapters\<close> holds the files, the wire
  formats and the servers; \<open>src/src/platform\<close> the Windows system calls. A mutating request passes the
  HTTP layer (authority, idempotency), then a stack of controls: \<open>registry_control\<close> (the registry),
  \<open>audited_control\<close> (the journal) and \<open>dependency_control\<close> (closures of dependencies); the refresh
  loop and the configuration monitor change the same registry from their own threads.

  \<^bold>\<open>Theories and sources.\<close> Names of definitions are those of the source where Isabelle allows it.

  \<^item> \<open>Supervisor_Prelude\<close>, \<open>Rust_Text\<close>, \<open>Wire_Text\<close>, \<open>Ordered_Map\<close>, \<open>Json_Values\<close>: what the components share.
    An outcome is \<open>Ok\<close>, \<open>Err\<close> or \<open>Panic\<close>; a lock is its poison flag; \<open>str\<close> operations work on
    lists of bytes; \<open>BTreeMap\<close> is a sorted association list (locale \<open>ordered_map\<close>, interpretation \<open>bt\<close>);
    a \<open>serde_json\<close> object is built with \<open>json_object\<close>.
  \<^item> \<open>Lifecycle\<close>, \<open>Authority\<close> (\<open>domain/lifecycle.rs\<close>, \<open>domain/control.rs\<close>): the transition table as a function
    and as the step relation \<open>lifecycle_step\<close>; the authority policy with its operator hold.
  \<^item> \<open>Platform\<close> (\<open>platform_ports.rs\<close>, \<open>health.rs\<close>): the data the platform traits exchange; the traits are a
    record of functions over a world, which every definition takes as an argument.
  \<^item> \<open>Runtime\<close> (\<open>service_runtime.rs\<close>): the owner of one process tree. The contract is the locale
    \<open>process_owner\<close>, interpreted as \<open>rt\<close> on the model.
  \<^item> \<open>Supervision\<close>, \<open>Service_Entry\<close>, \<open>Entry_Operations\<close>, \<open>Entry_Facts\<close>, \<open>Registry\<close>, \<open>Registry_Laws\<close>
    (\<open>service_registry.rs\<close>): budgets and backoff of automatic restarts, one entry, the lifecycle
    operations branch by branch, the registry as a map of entries, and its reachable states
    (\<open>registry_reach\<close>) with the invariant \<open>registry_ok\<close>.
  \<^item> \<open>Control_Api\<close>, \<open>Dependency\<close>, \<open>Shutdown_Order\<close> (\<open>control_api.rs\<close>, \<open>dependency_control.rs\<close>): the trait is the
    locale \<open>supervisor_control\<close> (interpretation \<open>reg\<close> on the registry); \<open>observed_control\<close> extends it with an
    observer, and a sublocale shows that the dependency-aware control honours the contract again
    (\<open>dreg\<close>). \<open>Demo\<close> is a concrete platform on which instances are evaluated, \<open>Service_Properties\<close> the
    properties of this group.
  \<^item> \<open>Reconciliation\<close> (\<open>registry_reconciliation.rs\<close>), \<open>Cooperative\<close> (\<open>cooperative_operations.rs\<close>,
    \<open>cooperative_actions.rs\<close>; interleavings of clients and the worker as \<open>coop_step\<close>),
    \<open>Extension_Validation\<close> (\<open>extension_validation.rs\<close>).
  \<^item> \<open>Redaction\<close>, \<open>Journal_Record\<close>, \<open>Journal\<close>, \<open>Journal_Laws\<close>, \<open>Journal_Properties\<close> (\<open>journal.rs\<close>,
    \<open>runtime_token.rs\<close>): the append-only file with its failures, paging, redaction, and the audited
    control (locale \<open>audited_supervisor\<close>, interpretations \<open>areg\<close> and, for the whole stack, \<open>stack\<close>).
  \<^item> \<open>Live_Logs\<close>, \<open>Live_Log_Facts\<close>, \<open>Live_Log_Properties\<close> (\<open>service_logs.rs\<close>): the live-log hub.
  \<^item> \<open>Config\<close>, \<open>Config_Facts\<close>, \<open>Config_Properties\<close>, \<open>Config_Path\<close> (\<open>config.rs\<close>, \<open>config_path.rs\<close>): data, validation, the
    dependency-cycle search, the launch check, the discovery of the file.
  \<^item> \<open>Foreground\<close>, \<open>Foreground_Facts\<close>, \<open>Foreground_Properties\<close> (\<open>foreground.rs\<close>): the process state around the
    components, its monitors, its clean-up; \<open>host_reach\<close> are the states under monitors and clients, where
    a turn of the configuration monitor is cut at its critical sections (\<open>config_section\<close>), so that the
    others run between the update of the registry, of the logs, of the audit and of the report
    (interpretations \<open>kept\<close>, \<open>akept\<close>, \<open>host\<close>, \<open>full\<close> of the control contracts, for the invariants of this
    process).
  \<^item> \<open>Registration\<close>, \<open>Registration_Facts\<close>, \<open>Registration_Protocol\<close>, \<open>Registration_Properties\<close>,
    \<open>Registration_Events\<close> (\<open>registration.rs\<close>, \<open>registration_events.rs\<close>): drafts of configuration changes,
    approval at a terminal, commit and its recovery over a store of files; the protocol as
    \<open>registration_step\<close> with the history of confirmations; the tail of the audit.
  \<^item> \<open>Registration_Mcp\<close>, \<open>Registration_Mcp_Properties\<close> (\<open>registration_mcp.rs\<close>, \<open>mcp_contract.rs\<close>): the server through
    which an agent proposes and commits, with its tools and schemas; it approves nothing.
  \<^item> \<open>Cli_Parse\<close>, \<open>Cli_Order\<close>, \<open>Cli_Order_Facts\<close>, \<open>Cli_Client\<close>, \<open>Cli_Run\<close>, \<open>Cli_Properties\<close> (\<open>cli.rs\<close>): the commands and how
    they are parsed, the order of a batch and the requests it becomes, the retries and the waiting of the
    client, and the dispatch to an exit code.
  \<^item> \<open>Extension_Relay\<close>, \<open>Extension_Relay_Properties\<close>, \<open>Extension_Audit\<close> (\<open>chrome_extension_reload.rs\<close>,
    \<open>cooperative_extensions.rs\<close>): the reload of the browser extension through a sidecar and its audit, which
    the validation of \<open>cli.rs\<close> reads.
  \<^item> \<open>Runtime_Instance\<close>, \<open>Runtime_Instance_Properties\<close> (\<open>runtime_instance.rs\<close>): the lease of the running
    process, with \<open>lease_step\<close> for the interleavings of supervisors and watchers.
  \<^item> \<open>Development_Shutdown\<close> (\<open>development_shutdown.rs\<close>): the file by which a watcher asks for the end, its
    path, its size bound and its removal.
  \<^item> \<open>Http_Response\<close>, \<open>Http_Health\<close> (\<open>http_response.rs\<close>, \<open>http_health.rs\<close>): responses, chunked bodies, the
    loopback health probe.
  \<^item> \<open>Http_Request\<close>, \<open>Mcp\<close>, \<open>Control_Http\<close>, \<open>Control_Server\<close>, \<open>Control_Server_Facts\<close>, \<open>Control_Server_Properties\<close>,
    \<open>Control_Client\<close>, \<open>Request_Round_Trip\<close> (\<open>control_http.rs\<close>, \<open>control_http/dashboard.rs\<close>, \<open>control_http/client.rs\<close>, \<open>mcp.rs\<close>,
    \<open>mcp_proxy.rs\<close>): reading a request under a deadline and a size bound, routes and their authority,
    the idempotency store, the dashboard session, the admission of connections
    (\<open>connection_step\<close>), the clients. The interpretation \<open>served\<close> gives the server the contract of the
    whole stack of controls.

  \<^bold>\<open>Lemmas.\<close> A \<open>_Facts\<close> or \<open>_Laws\<close> theory holds what each operation does on every branch, the invariants
  and the locales; a \<open>_Properties\<close> theory the numbered claims, each followed by a closed theorem that
  applies it to a concrete run. Claims that span components: an operator stop is final whatever the
  clients and monitors do; a request without authority changes no service; a retried mutation has the
  effect of one; the configuration changes only by a draft a human confirmed, and an interrupted
  commit is completed by the next once its lock file is gone; the registry, the logs and the audit show
  the active configuration or, in this order, the one being applied; a clean-up that succeeds leaves no
  service running, except those whose termination is pending.

  \<^bold>\<open>Modelling decisions.\<close>
  \<^item> Machine integers are words where the code can wrap or saturate, and naturals where the value is a
    length or a counter that is bounded by memory. A float is its bit pattern.
  \<^item> Effects are explicit: an operation takes and returns its part of the state and the world of the
    platform, which also carries the clocks. A \<open>Mutex\<close> is a poison flag; critical sections are atomic
    and threads are interleavings of them, as step relations. A turn of the service monitor and a request
    of a client to the stack of controls are one step each.
  \<^item> Parameters, never defined here: JSON decoding and printing (\<open>serde\<close>), calendar texts (\<open>chrono\<close>), hashes
    and random numbers, the file system, the address grammar of the standard library, sockets,
    \<open>Debug\<close> renderings and the texts of operating-system errors. What a property needs of one (a
    decoder inverts its encoder, a renamed file is read back) is a named hypothesis, and a witness
    instantiates it.
  \<^item> A draft file is a value of a type parameter that an encoder and a decoder relate to a draft. The
    commit of a configuration is atomic with respect to editors outside the program, since the code
    compares and renames without a lock on that file.

  \<^bold>\<open>Termination.\<close> Loops over data are structural or have a measure on what is left of it (the unread
  bytes, the services not yet placed, the dependencies not yet visited). Loops that wait have the
  measure of the time left until their deadline, which the clock reaches because a reading after a
  sleep is later (\<open>wait_healthy\<close>, \<open>wait_prerequisite\<close>, \<open>observe_loop\<close>, the reading of a request and of a
  response). Loops for which the code has no bound (\<open>evict\<close>, \<open>idempotency_evict\<close>, \<open>skip_headers\<close>, \<open>wait_loop\<close>,
  \<open>follow_events\<close>, \<open>live_loop\<close>, \<open>relay_loop\<close>) are partial functions: not returning is the value \<open>None\<close>;
  \<open>reload_always_ends\<close> shows that a relay with a positive poll interval does return. The planner of dependencies needs no fuel:
  \<open>valid_config_plans\<close> shows that a valid configuration always gives an order.

  \<^bold>\<open>Not modelled.\<close>
  \<^item> \<open>src/src/platform\<close>: system calls (job objects, handles, consoles, TCP tables, access-control lists) whose
    meaning is the operating system's; the model takes them as the platform record.
  \<^item> \<open>main.rs\<close> and the tables that \<open>cli.rs\<close> prints, other than the service status.
  \<^item> The threads themselves (their start, join and sleeping), the printed tables of \<open>foreground.rs\<close> and its wait
    for the end, the start and join of the listener of \<open>control_http.rs\<close>, the opening, rotation and polling of
    log files in \<open>service_logs.rs\<close>; the derived encoders and the embedded dashboard files.
\<close>

end
